(* ===== verification/Prelude.thy ===== *)
theory Prelude
  imports Complex_Main "HOL-Library.Sublist" "HOL-Library.State_Monad"
begin

text \<open>
  Shared vocabulary of the development: the JavaScript values the frontend works with
  (\<open>undefined\<close> against \<open>null\<close>, truthiness, JSON documents), the string operations of
  the language it calls, decimal printing, and the transition-system interface every
  state machine of the development is an instance of.

  Strings. A JavaScript string is modelled by the list of its UTF-8 bytes
  (\<open>string\<close>, a \<open>char list\<close>). On ASCII text the operations below agree with the
  language's; on other text those that work byte by byte (concatenation, equality,
  \<open>includes\<close>, \<open>startsWith\<close>, percent-encoding) still do, while \<open>toLowerCase\<close> and
  \<open>trim\<close> treat bytes above 127 as ordinary characters.
\<close>

named_theorems js_str \<open>unfolding rules for the string operations\<close>
named_theorems js_val \<open>unfolding rules for optional values and JSON\<close>
named_theorems io_simps \<open>run equations of the client monad\<close>

section \<open>Optional values\<close>

text \<open>A field declared \<open>f?: T | null\<close> has three states at run time.\<close>

datatype 'a jopt = Undefined | Null | Val 'a

text \<open>\<open>e ?? d\<close> for an optional or nullable operand.\<close>

fun nullish :: "'a jopt \<Rightarrow> 'a \<Rightarrow> 'a" where
  "nullish (Val x) _ = x"
| "nullish Undefined d = d"
| "nullish Null d = d"

fun of_nullable :: "'a option \<Rightarrow> 'a jopt" where
  "of_nullable None = Null"
| "of_nullable (Some x) = Val x"

fun to_nullable :: "'a jopt \<Rightarrow> 'a option" where
  "to_nullable (Val x) = Some x"
| "to_nullable _ = None"

text \<open>A nullable string is truthy when it is present and not empty.\<close>

definition truthy_str :: "string option \<Rightarrow> bool" where
  [js_val]: "truthy_str s = (case s of None \<Rightarrow> False | Some t \<Rightarrow> t \<noteq> [])"

text \<open>\<open>s || null\<close>: the empty string becomes null.\<close>

definition or_null :: "string \<Rightarrow> string option" where
  [js_val]: "or_null s = (if s = [] then None else Some s)"

text \<open>\<open>v ?? ""\<close> and \<open>v || null\<close> in a payload.\<close>

definition or_blank :: "string option \<Rightarrow> string" where
  [js_val]: "or_blank v = (case v of None \<Rightarrow> [] | Some s \<Rightarrow> s)"

abbreviation nul :: "string \<Rightarrow> string jopt" where
  "nul s \<equiv> of_nullable (or_null s)"

text \<open>\<open>s || undefined\<close>.\<close>

definition or_undefined :: "string \<Rightarrow> string jopt" where
  [js_val]: "or_undefined s = (if s = [] then Undefined else Val s)"

lemma or_null_None [simp]: "or_null s = None \<longleftrightarrow> s = []"
  by (simp add: or_null_def)

lemma or_null_Some [simp]: "or_null s = Some t \<longleftrightarrow> s = t \<and> t \<noteq> []"
  by (auto simp: or_null_def)

lemma or_blank_simps [simp]: "or_blank None = []" "or_blank (Some s) = s"
  by (simp_all add: or_blank_def)

text \<open>Nullable fields that hold no empty text survive a form.\<close>

definition no_blank :: "string option \<Rightarrow> bool" where
  "no_blank v \<longleftrightarrow> v \<noteq> Some []"

lemma nul_or_blank: "no_blank v \<Longrightarrow> nul (or_blank v) = of_nullable v"
  by (cases v) (auto simp: no_blank_def or_null_def)

lemma truthy_str_simps [simp]:
  "\<not> truthy_str None" "truthy_str (Some t) = (t \<noteq> [])"
  by (simp_all add: truthy_str_def)

section \<open>JSON documents\<close>

datatype json =
    JNull
  | JBool bool
  | JNum rat
  | JStr string
  | JArr "json list"
  | JObj "(string \<times> json) list"

text \<open>The fields \<open>JSON.stringify\<close> keeps of an object literal: an undefined one is left out.\<close>

fun jfield :: "string \<Rightarrow> ('a \<Rightarrow> json) \<Rightarrow> 'a jopt \<Rightarrow> (string \<times> json) list" where
  "jfield k f Undefined = []"
| "jfield k f Null = [(k, JNull)]"
| "jfield k f (Val x) = [(k, f x)]"

fun jnull :: "('a \<Rightarrow> json) \<Rightarrow> 'a option \<Rightarrow> json" where
  "jnull f None = JNull"
| "jnull f (Some x) = f x"

abbreviation jstrs :: "string list \<Rightarrow> json" where
  "jstrs xs \<equiv> JArr (map JStr xs)"

abbreviation jint :: "int \<Rightarrow> json" where
  "jint n \<equiv> JNum (of_int n)"

text \<open>Property access \<open>o[k]\<close>: undefined for a missing key or a value that is no object.\<close>

fun jget :: "json \<Rightarrow> string \<Rightarrow> json option" where
  "jget (JObj fs) k = map_of fs k"
| "jget _ k = None"

text \<open>Truthiness of a JSON value.\<close>

fun jtruthy :: "json \<Rightarrow> bool" where
  "jtruthy JNull = False"
| "jtruthy (JBool b) = b"
| "jtruthy (JNum n) = (n \<noteq> 0)"
| "jtruthy (JStr s) = (s \<noteq> [])"
| "jtruthy (JArr _) = True"
| "jtruthy (JObj _) = True"

text \<open>Reading a field at the type the source declares for it.\<close>

fun as_str :: "json \<Rightarrow> string option" where
  "as_str (JStr s) = Some s"
| "as_str _ = None"

fun as_bool :: "json \<Rightarrow> bool option" where
  "as_bool (JBool b) = Some b"
| "as_bool _ = None"

fun as_arr :: "json \<Rightarrow> json list option" where
  "as_arr (JArr xs) = Some xs"
| "as_arr _ = None"

text \<open>A field \<open>T | null\<close>.\<close>

fun as_nullable :: "(json \<Rightarrow> 'a option) \<Rightarrow> json \<Rightarrow> 'a option option" where
  "as_nullable f JNull = Some None"
| "as_nullable f j = map_option Some (f j)"

definition jread :: "json \<Rightarrow> string \<Rightarrow> (json \<Rightarrow> 'a option) \<Rightarrow> 'a option" where
  [js_val]: "jread j k f = Option.bind (jget j k) f"

lemma map_of_jfield:
  "map_of (jfield k f v @ rest) k' =
     (if k = k' then (case v of Undefined \<Rightarrow> map_of rest k' | Null \<Rightarrow> Some JNull | Val x \<Rightarrow> Some (f x))
      else map_of rest k')"
  by (cases v) auto

text \<open>
  The fields of a payload can be read back one by one, so a payload is determined by its
  document: \<open>undefined\<close>, \<open>null\<close> and a value stay apart.
\<close>

lemma jfield_keys: "x \<in> set (jfield k f v) \<Longrightarrow> fst x = k"
  by (cases v) auto

lemma jfield_append_inj:
  assumes "inj f" "JNull \<notin> range f" "k \<notin> fst ` set r" "k \<notin> fst ` set r'"
  shows "jfield k f v @ r = jfield k f v' @ r' \<longleftrightarrow> v = v' \<and> r = r'"
proof -
  have nf: "f x \<noteq> JNull" "JNull \<noteq> f x" for x using assms(2) by (metis rangeI)+
  show ?thesis
  proof (cases v; cases v')
    fix x y assume "v = Val x" "v' = Val y"
    with assms(1) show ?thesis by (auto dest: injD)
  qed (use assms(3,4) nf in \<open>force simp: image_iff\<close>)+
qed

lemma jfield_inj:
  "inj f \<Longrightarrow> JNull \<notin> range f \<Longrightarrow> jfield k f v = jfield k f v' \<longleftrightarrow> v = v'"
  using jfield_append_inj [of f k "[]" "[]" v v'] by simp

lemma json_leaf_inj [simp]:
  "inj JStr" "inj JNum" "inj JBool" "JNull \<notin> range JStr" "JNull \<notin> range JNum" "JNull \<notin> range JBool"
  by (auto simp: inj_def)

lemma jfield_other_key [simp]: "k \<noteq> k' \<Longrightarrow> k' \<notin> fst ` set (jfield k f v)"
  by (auto dest: jfield_keys)

section \<open>Strings\<close>

definition startsWith :: "string \<Rightarrow> string \<Rightarrow> bool" where
  [js_str]: "startsWith s p = (take (length p) s = p)"

definition endsWith :: "string \<Rightarrow> string \<Rightarrow> bool" where
  [js_str]: "endsWith s p = (length p \<le> length s \<and> drop (length s - length p) s = p)"

fun str_includes :: "string \<Rightarrow> string \<Rightarrow> bool" where
  "str_includes [] p = (p = [])"
| "str_includes (c # s) p = (startsWith (c # s) p \<or> str_includes s p)"

definition is_ws :: "char \<Rightarrow> bool" where
  "is_ws c = (c = CHR 0x20 \<or> c = CHR 0x09 \<or> c = CHR 0x0A \<or> c = CHR 0x0B \<or> c = CHR 0x0C \<or> c = CHR 0x0D)"

definition trimStart :: "string \<Rightarrow> string" where
  "trimStart s = dropWhile is_ws s"

definition trimEnd :: "string \<Rightarrow> string" where
  "trimEnd s = rev (dropWhile is_ws (rev s))"

definition trim :: "string \<Rightarrow> string" where
  "trim s = trimEnd (trimStart s)"

abbreviation ccode :: "char \<Rightarrow> nat" where
  "ccode c \<equiv> of_char c"

definition lower_char :: "char \<Rightarrow> char" where
  "lower_char c = (if 65 \<le> ccode c \<and> ccode c \<le> 90 then char_of (ccode c + 32) else c)"

definition upper_char :: "char \<Rightarrow> char" where
  "upper_char c = (if 97 \<le> ccode c \<and> ccode c \<le> 122 then char_of (ccode c - 32) else c)"

definition toLowerCase :: "string \<Rightarrow> string" where
  "toLowerCase s = map lower_char s"

definition toUpperCase :: "string \<Rightarrow> string" where
  "toUpperCase s = map upper_char s"

text \<open>\<open>s.split(sep)\<close> for a one-character separator: never the empty list.\<close>

fun split :: "char \<Rightarrow> string \<Rightarrow> string list" where
  "split d [] = [[]]"
| "split d (c # s) =
     (if c = d then [] # split d s
      else (case split d s of [] \<Rightarrow> [[c]] | w # ws \<Rightarrow> (c # w) # ws))"

text \<open>\<open>ws.join(sep)\<close>.\<close>

fun join :: "string \<Rightarrow> string list \<Rightarrow> string" where
  "join sep [] = []"
| "join sep [w] = w"
| "join sep (w # v # ws) = w @ sep @ join sep (v # ws)"

text \<open>
  The maximal runs of characters outside a class: \<open>s.split(/[...]+/).filter(Boolean)\<close>.
\<close>

fun words_acc :: "(char \<Rightarrow> bool) \<Rightarrow> string \<Rightarrow> string \<Rightarrow> string list" where
  "words_acc sep [] acc = (if acc = [] then [] else [rev acc])"
| "words_acc sep (c # s) acc =
     (if sep c then (if acc = [] then words_acc sep s [] else rev acc # words_acc sep s [])
      else words_acc sep s (c # acc))"

definition words_by :: "(char \<Rightarrow> bool) \<Rightarrow> string \<Rightarrow> string list" where
  "words_by sep s = words_acc sep s []"

text \<open>The em dash the screens show for a missing value, in UTF-8.\<close>

definition em_dash :: string where
  "em_dash = [CHR 0xE2, CHR 0x80, CHR 0x94]"

lemma lower_char_code:
  assumes "65 \<le> ccode c" "ccode c \<le> 90"
  shows "ccode (lower_char c) = ccode c + 32"
proof -
  have "ccode (char_of (ccode c + 32)) = (ccode c + 32) mod 256" by (simp only: of_char_of)
  with assms show ?thesis by (simp add: lower_char_def)
qed

lemma startsWith_prefix: "startsWith s p \<longleftrightarrow> prefix p s"
  by (auto simp: startsWith_def prefix_def) (metis append_take_drop_id)

lemma endsWith_suffix: "endsWith s p \<longleftrightarrow> suffix p s"
  by (auto simp: endsWith_def suffix_def) (metis append_take_drop_id)

lemma includes_sublist: "str_includes s p \<longleftrightarrow> sublist p s"
  by (induction s p rule: str_includes.induct) (auto simp: startsWith_prefix sublist_Cons_right)

lemma includes_Nil [simp]: "str_includes s []"
  by (cases s) (auto simp: startsWith_def)

lemma trimEnd_id: "s = [] \<or> \<not> is_ws (last s) \<Longrightarrow> trimEnd s = s"
  by (cases s rule: rev_cases) (auto simp: trimEnd_def)

lemma trimStart_id: "s = [] \<or> \<not> is_ws (hd s) \<Longrightarrow> trimStart s = s"
  by (cases s) (auto simp: trimStart_def)

lemma hd_trimStart: "trimStart s \<noteq> [] \<Longrightarrow> \<not> is_ws (hd (trimStart s))"
  by (simp add: trimStart_def hd_dropWhile)

lemma last_trimEnd: "trimEnd s \<noteq> [] \<Longrightarrow> \<not> is_ws (last (trimEnd s))"
  by (simp add: trimEnd_def last_rev hd_dropWhile)

lemma trimEnd_prefix: "prefix (trimEnd s) s"
  by (metis rev_rev_ident suffix_dropWhile suffix_to_prefix trimEnd_def)

lemma hd_trimEnd: "trimEnd s \<noteq> [] \<Longrightarrow> hd (trimEnd s) = hd s"
  using trimEnd_prefix [of s] by (auto simp: prefix_def) (metis hd_append2)

lemma hd_trim: "trim s \<noteq> [] \<Longrightarrow> \<not> is_ws (hd (trim s))"
  by (metis hd_trimEnd hd_trimStart prefix_bot.extremum_uniqueI trimEnd_prefix trim_def)

lemma last_trim: "trim s \<noteq> [] \<Longrightarrow> \<not> is_ws (last (trim s))"
  by (simp add: trim_def last_trimEnd)

lemma trim_idem [simp]: "trim (trim s) = trim s"
  using hd_trim [of s] last_trim [of s]
  by (metis trimEnd_id trimStart_id trim_def)

lemma set_trim: "set (trim s) \<subseteq> set s"
  by (auto simp: trim_def trimEnd_def trimStart_def dest!: set_dropWhileD)

lemma split_not_Nil [simp]: "split d s \<noteq> []"
  by (induction s) (auto split: list.splits)

lemma split_no_sep: "d \<notin> set s \<Longrightarrow> split d s = [s]"
  by (induction s) auto

lemma split_append_sep: "d \<notin> set s \<Longrightarrow> split d (s @ d # t) = s # split d t"
  by (induction s) auto

lemma split_append: "split d (s @ d # t) = split d s @ split d t"
  by (induction s) (auto split: list.splits)

lemma length_split: "length (split d s) = Suc (count_list s d)"
  by (induction s) (auto split: list.splits)

lemma split_fields_no_sep: "w \<in> set (split d s) \<Longrightarrow> d \<notin> set w"
  by (induction s arbitrary: w) (auto split: if_splits list.splits)

lemma join_head: "join sep ((c # w) # ws) = c # join sep (w # ws)"
  by (cases ws) auto

lemma join_Nil_head: "ws \<noteq> [] \<Longrightarrow> join sep ([] # ws) = sep @ join sep ws"
  by (cases ws) auto

lemma join_split: "join [d] (split d s) = s"
proof (induction s)
  case (Cons c s)
  then show ?case
    by (cases "split d s") (simp_all add: join_head)
qed simp

lemma split_join:
  "ws \<noteq> [] \<Longrightarrow> \<forall>w \<in> set ws. d \<notin> set w \<Longrightarrow> split d (join [d] ws) = ws"
proof (induction ws rule: induct_list012)
  case (3 v w ws)
  then have "split d (join [d] (w # ws)) = w # ws" and "d \<notin> set v" by auto
  with split_append_sep [of d v "join [d] (w # ws)"] show ?case
    by (simp del: split.simps)
qed (auto simp: split_no_sep)

lemma words_acc_props:
  assumes "w \<in> set (words_acc sep s acc)" and "list_all (\<lambda>c. \<not> sep c) acc"
  shows "w \<noteq> [] \<and> list_all (\<lambda>c. \<not> sep c) w"
  using assms
proof (induction s arbitrary: acc)
  case Nil
  then show ?case by (simp split: if_splits)
next
  case (Cons c s)
  show ?case
  proof (cases "sep c")
    case True
    with Cons show ?thesis by (force split: if_splits)
  next
    case False
    with Cons.prems Cons.IH [of "c # acc"] show ?thesis by simp
  qed
qed

lemma words_by_nonempty: "w \<in> set (words_by sep s) \<Longrightarrow> w \<noteq> []"
  using words_acc_props [of w sep s "[]"] by (simp add: words_by_def)

lemma words_by_no_sep: "w \<in> set (words_by sep s) \<Longrightarrow> c \<in> set w \<Longrightarrow> \<not> sep c"
  using words_acc_props [of w sep s "[]"] by (simp add: words_by_def list_all_iff)

section \<open>Decimal numerals\<close>

definition digit :: "nat \<Rightarrow> char" where
  "digit n = ''0123456789'' ! n"

fun show_nat :: "nat \<Rightarrow> string" where
  "show_nat n = (if n < 10 then [digit n] else show_nat (n div 10) @ [digit (n mod 10)])"

declare show_nat.simps [simp del]

definition show_int :: "int \<Rightarrow> string" where
  "show_int i = (if i < 0 then ''-'' @ show_nat (nat (- i)) else show_nat (nat i))"

definition is_digit :: "char \<Rightarrow> bool" where
  "is_digit c = (48 \<le> ccode c \<and> ccode c \<le> 57)"

definition digit_val :: "char \<Rightarrow> nat" where
  "digit_val c = ccode c - 48"

definition read_nat :: "string \<Rightarrow> nat" where
  "read_nat s = foldl (\<lambda>acc c. 10 * acc + digit_val c) 0 s"

lemma digit_props:
  assumes "n < 10"
  shows "digit_val (digit n) = n" and "is_digit (digit n)"
proof -
  have "n \<in> {0, 1, 2, 3, 4, 5, 6, 7, 8, 9}" using assms by auto
  then show "digit_val (digit n) = n" and "is_digit (digit n)"
    by (elim insertE; simp add: digit_def digit_val_def is_digit_def)+
qed

lemma read_nat_show_nat [simp]: "read_nat (show_nat n) = n"
proof (induction n rule: show_nat.induct)
  case (1 n)
  show ?case
  proof (cases "n < 10")
    case True
    then show ?thesis by (subst show_nat.simps) (simp add: read_nat_def digit_props)
  next
    case False
    have "read_nat (show_nat n) = 10 * read_nat (show_nat (n div 10)) + n mod 10"
      using False by (subst show_nat.simps) (simp add: read_nat_def digit_props)
    with 1 False show ?thesis by simp
  qed
qed

lemma show_nat_inj [simp]: "show_nat m = show_nat n \<longleftrightarrow> m = n"
  by (metis read_nat_show_nat)

lemma show_nat_digits: "c \<in> set (show_nat n) \<Longrightarrow> is_digit c"
proof (induction n rule: show_nat.induct)
  case (1 n)
  then show ?case
    by (subst (asm) (2) show_nat.simps) (auto simp: digit_props split: if_splits)
qed

lemma show_nat_not_Nil [simp]: "show_nat n \<noteq> []"
  by (subst show_nat.simps) simp

section \<open>Searching a list\<close>

text \<open>\<open>findIndex\<close>: the first index that satisfies the test, None for \<open>-1\<close>.\<close>

fun findIndex :: "('a \<Rightarrow> bool) \<Rightarrow> 'a list \<Rightarrow> nat option" where
  "findIndex P [] = None"
| "findIndex P (x # xs) = (if P x then Some 0 else map_option Suc (findIndex P xs))"

lemma findIndex_Some_iff:
  "findIndex P xs = Some i \<longleftrightarrow> i < length xs \<and> P (xs ! i) \<and> (\<forall>j<i. \<not> P (xs ! j))"
  by (induction xs arbitrary: i) (auto simp: nth_Cons less_Suc_eq_0_disj split: nat.splits)

lemma findIndex_here:
  assumes "\<forall>x\<in>set xs. \<not> P x" "P r"
  shows "findIndex P (xs @ r # ys) = Some (length xs)"
  using assms by (induction xs) auto

section \<open>Sets in insertion order\<close>

text \<open>A JavaScript \<open>Set\<close>, listed in the order in which its members were added.\<close>

definition jset_add :: "'a \<Rightarrow> 'a list \<Rightarrow> 'a list" where
  "jset_add x xs = (if x \<in> set xs then xs else xs @ [x])"

definition jset_delete :: "'a \<Rightarrow> 'a list \<Rightarrow> 'a list" where
  "jset_delete x xs = filter (\<lambda>y. y \<noteq> x) xs"

lemma set_jset [simp]: "set (jset_add x xs) = insert x (set xs)" "set (jset_delete x xs) = set xs - {x}"
  by (auto simp: jset_add_def jset_delete_def)

lemma distinct_jset [simp]: "distinct xs \<Longrightarrow> distinct (jset_add x xs)" "distinct xs \<Longrightarrow> distinct (jset_delete x xs)"
  by (auto simp: jset_add_def jset_delete_def)

lemma jset_delete_add: "x \<notin> set xs \<Longrightarrow> jset_delete x (jset_add x xs) = xs"
  by (simp add: jset_add_def jset_delete_def filter_id_conv) auto

lemma fold_jset_add:
  "set (fold jset_add xs acc) = set acc \<union> set xs" "distinct acc \<Longrightarrow> distinct (fold jset_add xs acc)"
  "prefix acc (fold jset_add xs acc)"
proof (induction xs arbitrary: acc)
  case (Cons x xs)
  { case 1 show ?case using Cons(1) by simp }
  { case 2 then show ?case using Cons(2) by simp }
  { case 3
    have "prefix acc (jset_add x acc)" by (simp add: jset_add_def)
    from prefix_order.trans [OF this Cons(3)] show ?case by simp }
qed auto

section \<open>Histories\<close>

text \<open>
  A property of every event of a history and of what came before it, for histories that grow
  at the end.
\<close>

definition with_past :: "('e list \<Rightarrow> 'e \<Rightarrow> bool) \<Rightarrow> 'e list \<Rightarrow> bool" where
  "with_past P l \<longleftrightarrow> (\<forall>l1 e l2. l = l1 @ e # l2 \<longrightarrow> P l1 e)"

lemma with_past_Nil [simp]: "with_past P []"
  by (simp add: with_past_def)

lemma with_past_snoc [simp]: "with_past P (l @ [e]) \<longleftrightarrow> with_past P l \<and> P l e"
proof
  assume *: "with_past P (l @ [e])"
  then have "P l1 e'" if "l = l1 @ e' # l2" for l1 e' l2
    using that unfolding with_past_def by (metis append.assoc append_Cons)
  with * show "with_past P l \<and> P l e" unfolding with_past_def by blast
next
  assume *: "with_past P l \<and> P l e"
  show "with_past P (l @ [e])"
    unfolding with_past_def
  proof (intro allI impI)
    fix l1 e' l2 assume eq: "l @ [e] = l1 @ e' # l2"
    show "P l1 e'"
    proof (cases l2 rule: rev_cases)
      case Nil
      with eq * show ?thesis by simp
    next
      case (snoc l3 x)
      with eq have "l = l1 @ e' # l3" by (metis append.assoc append_Cons butlast_snoc)
      with * show ?thesis unfolding with_past_def by blast
    qed
  qed
qed

lemma with_past_snoc2 [simp]: "with_past P (l @ [e, f]) \<longleftrightarrow> with_past P l \<and> P l e \<and> P (l @ [e]) f"
  using with_past_snoc [of P "l @ [e]" f] by simp

lemma with_pastD: "with_past P (l1 @ e # l2) \<Longrightarrow> P l1 e"
  unfolding with_past_def by blast

section \<open>Transition systems\<close>

text \<open>
  The interface of a state machine: an initial-state predicate and a step relation. An
  invariant of the steps holds in every state a run can reach.
\<close>

inductive reaches :: "('s \<Rightarrow> bool) \<Rightarrow> ('s \<Rightarrow> 's \<Rightarrow> bool) \<Rightarrow> 's \<Rightarrow> bool"
  for init :: "'s \<Rightarrow> bool" and step :: "'s \<Rightarrow> 's \<Rightarrow> bool" where
  reaches_init: "init s \<Longrightarrow> reaches init step s"
| reaches_step: "reaches init step s \<Longrightarrow> step s t \<Longrightarrow> reaches init step t"

lemma reaches_one: "init s \<Longrightarrow> step s t \<Longrightarrow> reaches init step t"
  by (rule reaches_step [OF reaches_init])

locale invariant_system =
  fixes init :: "'s \<Rightarrow> bool" and step :: "'s \<Rightarrow> 's \<Rightarrow> bool" and inv :: "'s \<Rightarrow> bool"
  assumes init_inv: "init s \<Longrightarrow> inv s"
    and step_inv: "inv s \<Longrightarrow> step s t \<Longrightarrow> inv t"
begin

lemma reachable_inv: "reaches init step s \<Longrightarrow> inv s"
  by (induction rule: reaches.induct) (blast intro: init_inv step_inv)+

lemma run_inv: "inv s \<Longrightarrow> step\<^sup>*\<^sup>* s t \<Longrightarrow> inv t"
  by (rotate_tac, induction rule: rtranclp_induct) (auto intro: step_inv)

end

text \<open>
  A machine with a measure that every step decreases has no infinite run, and its runs are
  no longer than the measure of their first state.
\<close>

locale terminating_system = invariant_system +
  fixes gauge :: "'s \<Rightarrow> nat"
  assumes step_decreases: "inv s \<Longrightarrow> step s t \<Longrightarrow> gauge t < gauge s"
begin

lemma run_length: "inv s \<Longrightarrow> (step ^^ n) s t \<Longrightarrow> n + gauge t \<le> gauge s"
proof (induction n arbitrary: t)
  case (Suc n)
  then obtain u where u: "(step ^^ n) s u" "step u t" by auto
  have "inv u" using Suc.prems(1) u(1) by (meson relpowp_imp_rtranclp run_inv)
  with Suc.IH [OF Suc.prems(1) u(1)] step_decreases [OF _ u(2)] show ?case by force
qed simp

lemma no_infinite_run: "inv (f 0) \<Longrightarrow> \<exists>i. \<not> step (f i) (f (Suc i))"
proof (rule ccontr)
  assume i: "inv (f 0)" and "\<nexists>i. \<not> step (f i) (f (Suc i))"
  then have s: "step (f i) (f (Suc i))" for i by blast
  have "(step ^^ n) (f 0) (f n)" for n by (induction n) (auto intro: s)
  from run_length [OF i this [of "Suc (gauge (f 0))"]] show False by simp
qed

end

end
