(* ===== verification/Auth_Storage.thy ===== *)
theory Auth_Storage
  imports Prelude
begin

text \<open>
  The access-token store, \<open>frontend/src/lib/auth-storage.ts\<close>: the class \<open>AuthStorage\<close>
  with its in-memory token, its expiry in milliseconds, the \<open>sessionStorage\<close> shadow a tab
  reload starts from, and its listeners. \<open>Date.now()\<close> is the argument \<open>now\<close>; what
  \<open>new Date(iso).getTime()\<close> makes of a timestamp (a number or \<open>NaN\<close>) is the argument
  \<open>date\<close>; \<open>w\<close> says whether \<open>window\<close> exists.

  The store is shown to implement an optional pair of a token and an expiry
  (\<open>token_store\<close>), which is what the API client relies on.
\<close>

section \<open>State\<close>

datatype jsnum = NaN | Num int

text \<open>
  The \<open>sessionStorage\<close> entry: absent, a text \<open>JSON.parse\<close> refuses, or the document
  \<open>setAccessToken\<close> writes (\<open>NaN\<close> is stringified to null, here None).
\<close>

datatype shadow = Absent | Corrupt | Shadow string "int option"

record auth_storage =
  tok :: "string option"
  expiresAt :: "jsnum option"
  listeners :: "nat list"
  session :: shadow
  notified :: "(nat \<times> string option) list"

text \<open>\<open>this.expiresAt\<close> as a condition: null, \<open>NaN\<close> and 0 are falsy.\<close>

fun expiry :: "jsnum option \<Rightarrow> int option" where
  "expiry (Some (Num n)) = (if n = 0 then None else Some n)"
| "expiry _ = None"

fun stringified :: "jsnum \<Rightarrow> int option" where
  "stringified NaN = None"
| "stringified (Num n) = Some n"

section \<open>Operations\<close>

definition notify :: "string option \<Rightarrow> auth_storage \<Rightarrow> auth_storage" where
  "notify t s = s\<lparr>notified := notified s @ map (\<lambda>l. (l, t)) (listeners s)\<rparr>"

definition new_AuthStorage :: "bool \<Rightarrow> int \<Rightarrow> shadow \<Rightarrow> auth_storage" where
  "new_AuthStorage w now raw =
     (let s = \<lparr>tok = None, expiresAt = None, listeners = [], session = raw, notified = []\<rparr>
      in if w then
           (case raw of
              Shadow t e \<Rightarrow>
                if (case e of None \<Rightarrow> 0 | Some n \<Rightarrow> n) > now
                then s\<lparr>tok := Some t, expiresAt := map_option Num e\<rparr> else s
            | _ \<Rightarrow> s)
         else s)"

definition clear :: "bool \<Rightarrow> auth_storage \<Rightarrow> auth_storage" where
  "clear w s =
     notify None (s\<lparr>tok := None, expiresAt := None, session := (if w then Absent else session s)\<rparr>)"

definition getAccessToken :: "bool \<Rightarrow> int \<Rightarrow> auth_storage \<Rightarrow> string option \<times> auth_storage" where
  "getAccessToken w now s =
     (case expiry (expiresAt s) of
        Some e \<Rightarrow> if e < now then (None, clear w s) else (tok s, s)
      | None \<Rightarrow> (tok s, s))"

definition isExpiringSoon :: "int \<Rightarrow> int \<Rightarrow> auth_storage \<Rightarrow> bool" where
  "isExpiringSoon withinMs now s =
     (case expiry (expiresAt s) of
        None \<Rightarrow> tok s = None
      | Some e \<Rightarrow> e - now < withinMs)"

definition expiresAtMs :: "auth_storage \<Rightarrow> jsnum option" where
  "expiresAtMs s = expiresAt s"

definition setAccessToken ::
  "bool \<Rightarrow> (string \<Rightarrow> jsnum) \<Rightarrow> string \<Rightarrow> string \<Rightarrow> auth_storage \<Rightarrow> auth_storage" where
  "setAccessToken w date token expiresAtIso s =
     (let e = date expiresAtIso
      in notify (Some token)
           (s\<lparr>tok := Some token, expiresAt := Some e,
              session := (if w then Shadow token (stringified e) else session s)\<rparr>))"

definition subscribe :: "nat \<Rightarrow> auth_storage \<Rightarrow> auth_storage" where
  "subscribe l s = s\<lparr>listeners := (if l \<in> set (listeners s) then listeners s else listeners s @ [l])\<rparr>"

definition unsubscribe :: "nat \<Rightarrow> auth_storage \<Rightarrow> auth_storage" where
  "unsubscribe l s = s\<lparr>listeners := filter (\<lambda>m. m \<noteq> l) (listeners s)\<rparr>"

lemmas storage_defs = notify_def clear_def getAccessToken_def isExpiringSoon_def setAccessToken_def
  subscribe_def unsubscribe_def Let_def

section \<open>Well-formedness\<close>

text \<open>
  What the class keeps: an expiry only beside a token, a shadow that mirrors the live
  token, and listeners without repetition.
\<close>

definition storage_wf :: "bool \<Rightarrow> auth_storage \<Rightarrow> bool" where
  "storage_wf w s =
     ((tok s = None \<longrightarrow> expiresAt s = None) \<and>
      (w \<longrightarrow> (\<forall>t. tok s = Some t \<longrightarrow>
         session s = Shadow t (case expiresAt s of None \<Rightarrow> None | Some e \<Rightarrow> stringified e))) \<and>
      distinct (listeners s))"

lemma storage_wf_new: "storage_wf w (new_AuthStorage w now raw)"
  by (auto simp: storage_wf_def new_AuthStorage_def Let_def split: shadow.splits option.splits)

lemma storage_wf_clear: "storage_wf w s \<Longrightarrow> storage_wf w (clear w s)"
  by (simp add: storage_wf_def storage_defs)

lemma storage_wf_set: "storage_wf w s \<Longrightarrow> storage_wf w (setAccessToken w date t ts s)"
  by (simp add: storage_wf_def storage_defs)

lemma storage_wf_get: "storage_wf w s \<Longrightarrow> storage_wf w (snd (getAccessToken w now s))"
  using storage_wf_clear [of w s] by (auto simp: getAccessToken_def split: option.splits)

lemma storage_wf_subscribe: "storage_wf w s \<Longrightarrow> storage_wf w (subscribe l s)"
  by (simp add: storage_wf_def storage_defs)

lemma storage_wf_unsubscribe: "storage_wf w s \<Longrightarrow> storage_wf w (unsubscribe l s)"
  by (simp add: storage_wf_def storage_defs)

lemmas storage_wf_ops = storage_wf_clear storage_wf_set storage_wf_get storage_wf_subscribe
  storage_wf_unsubscribe

text \<open>Any sequence of operations: the class seen as a transition system.\<close>

inductive storage_step :: "bool \<Rightarrow> auth_storage \<Rightarrow> auth_storage \<Rightarrow> bool" for w :: bool where
  step_get: "storage_step w s (snd (getAccessToken w now s))"
| step_set: "storage_step w s (setAccessToken w date t ts s)"
| step_clear: "storage_step w s (clear w s)"
| step_subscribe: "storage_step w s (subscribe l s)"
| step_unsubscribe: "storage_step w s (unsubscribe l s)"

definition storage_init :: "bool \<Rightarrow> auth_storage \<Rightarrow> bool" where
  "storage_init w s \<longleftrightarrow> (\<exists>now raw. s = new_AuthStorage w now raw)"

interpretation store_sys: invariant_system "storage_init w" "storage_step w" "storage_wf w" for w
proof
  show "storage_init w s \<Longrightarrow> storage_wf w s" for s
    by (auto simp: storage_init_def storage_wf_new)
  show "storage_wf w s \<Longrightarrow> storage_step w s t \<Longrightarrow> storage_wf w t" for s t
    by (auto elim!: storage_step.cases intro: storage_wf_ops)
qed

section \<open>The contract of a token store\<close>

text \<open>
  What the API client relies on: the store behaves like an optional pair of a token and an
  optional expiry; reading after the expiry returns nothing and forgets the pair.
\<close>

locale token_store =
  fixes put :: "string \<Rightarrow> int option \<Rightarrow> 's \<Rightarrow> 's" and wipe :: "'s \<Rightarrow> 's"
    and get :: "int \<Rightarrow> 's \<Rightarrow> string option \<times> 's" and soon :: "int \<Rightarrow> int \<Rightarrow> 's \<Rightarrow> bool"
    and view :: "'s \<Rightarrow> (string \<times> int option) option" and invar :: "'s \<Rightarrow> bool"
    and valid :: "int option \<Rightarrow> bool"
  assumes view_put: "invar s \<Longrightarrow> valid e \<Longrightarrow> view (put t e s) = Some (t, e)"
    and view_wipe: "invar s \<Longrightarrow> view (wipe s) = None"
    and invar_put: "invar s \<Longrightarrow> invar (put t e s)"
    and invar_wipe: "invar s \<Longrightarrow> invar (wipe s)"
    and get_view: "invar s \<Longrightarrow> get now s =
      (case view s of
         None \<Rightarrow> (None, s)
       | Some (t, None) \<Rightarrow> (Some t, s)
       | Some (t, Some e) \<Rightarrow> if e < now then (None, wipe s) else (Some t, s))"
    and soon_view: "invar s \<Longrightarrow> soon wms now s =
      (case view s of
         None \<Rightarrow> True
       | Some (t, None) \<Rightarrow> False
       | Some (t, Some e) \<Rightarrow> e - now < wms)"
begin

lemma get_put: "invar s \<Longrightarrow> valid (Some e) \<Longrightarrow> \<not> e < now \<Longrightarrow> get now (put t (Some e) s) = (Some t, put t (Some e) s)"
  by (simp add: get_view view_put invar_put)

lemma get_wipe: "invar s \<Longrightarrow> get now (wipe s) = (None, wipe s)"
  by (simp add: get_view view_wipe invar_wipe)

lemma get_keeps_invar: "invar s \<Longrightarrow> invar (snd (get now s))"
  by (auto simp: get_view invar_wipe split: option.splits)

lemma get_stable:
  "invar s \<Longrightarrow> get now (snd (get now s)) = get now s"
  by (auto simp: get_view invar_wipe view_wipe split: option.splits)

text \<open>A token that is not about to expire is handed out.\<close>

lemma not_soon_get:
  "invar s \<Longrightarrow> 0 \<le> wms \<Longrightarrow> \<not> soon wms now s \<Longrightarrow> \<exists>t. get now s = (Some t, s)"
  by (auto simp: soon_view get_view split: option.splits prod.splits)

end

text \<open>\<open>AuthStorage\<close> as such a store: the pair it represents.\<close>

definition auth_view :: "auth_storage \<Rightarrow> (string \<times> int option) option" where
  "auth_view s = map_option (\<lambda>t. (t, expiry (expiresAt s))) (tok s)"

definition put_ms :: "bool \<Rightarrow> string \<Rightarrow> int option \<Rightarrow> auth_storage \<Rightarrow> auth_storage" where
  "put_ms w t e s =
     setAccessToken w (\<lambda>_. case e of None \<Rightarrow> NaN | Some n \<Rightarrow> Num n) t '''' s"

lemma auth_view_put: "auth_view (setAccessToken w date t ts s) = Some (t, expiry (Some (date ts)))"
  by (simp add: auth_view_def storage_defs)

lemma auth_view_clear: "auth_view (clear w s) = None"
  by (simp add: auth_view_def storage_defs)

lemma getAccessToken_view:
  assumes "storage_wf w s"
  shows "getAccessToken w now s =
      (case auth_view s of
         None \<Rightarrow> (None, s)
       | Some (t, None) \<Rightarrow> (Some t, s)
       | Some (t, Some e) \<Rightarrow> if e < now then (None, clear w s) else (Some t, s))"
  using assms
  by (auto simp: getAccessToken_def auth_view_def storage_wf_def split: option.splits)

lemma isExpiringSoon_view:
  assumes "storage_wf w s"
  shows "isExpiringSoon wms now s =
      (case auth_view s of
         None \<Rightarrow> True
       | Some (t, None) \<Rightarrow> False
       | Some (t, Some e) \<Rightarrow> e - now < wms)"
  using assms
  by (auto simp: isExpiringSoon_def auth_view_def storage_wf_def split: option.splits)

text \<open>An expiry of 0 milliseconds is falsy in the code, so it is no expiry at all.\<close>

interpretation auth_store: token_store "put_ms w" "clear w" "getAccessToken w" isExpiringSoon
  auth_view "storage_wf w" "\<lambda>e. e \<noteq> Some 0"
  for w
proof
  show "storage_wf w s \<Longrightarrow> e \<noteq> Some 0 \<Longrightarrow> auth_view (put_ms w t e s) = Some (t, e)" for s e t
    by (auto simp: put_ms_def auth_view_put split: option.splits)
qed (simp_all add: auth_view_clear put_ms_def storage_wf_set storage_wf_clear
    getAccessToken_view isExpiringSoon_view)

section \<open>Reload\<close>

lemma reload_shadow:
  "session (setAccessToken True date t ts s) = Shadow t (stringified (date ts))"
  by (simp add: storage_defs)

lemma new_from_shadow:
  "new_AuthStorage True now (Shadow t (Some e)) =
     (if now < e then \<lparr>tok = Some t, expiresAt = Some (Num e), listeners = [],
        session = Shadow t (Some e), notified = []\<rparr>
      else \<lparr>tok = None, expiresAt = None, listeners = [], session = Shadow t (Some e), notified = []\<rparr>)"
  by (simp add: new_AuthStorage_def)

section \<open>Refinement\<close>

text \<open>
  A client's use of the store: a sequence of calls, of which only the reads answer. The
  specification runs the same calls on the optional pair alone.
\<close>

datatype storage_op = OpGet int | OpSet string string | OpClear | OpSubscribe nat | OpUnsubscribe nat

fun run_ops :: "bool \<Rightarrow> (string \<Rightarrow> jsnum) \<Rightarrow> storage_op list \<Rightarrow> auth_storage \<Rightarrow> string option list" where
  "run_ops w date [] s = []"
| "run_ops w date (OpGet now # ops) s =
     (case getAccessToken w now s of (t, s') \<Rightarrow> t # run_ops w date ops s')"
| "run_ops w date (OpSet t ts # ops) s = run_ops w date ops (setAccessToken w date t ts s)"
| "run_ops w date (OpClear # ops) s = run_ops w date ops (clear w s)"
| "run_ops w date (OpSubscribe l # ops) s = run_ops w date ops (subscribe l s)"
| "run_ops w date (OpUnsubscribe l # ops) s = run_ops w date ops (unsubscribe l s)"

type_synonym session_pair = "(string \<times> int option) option"

definition spec_live :: "int \<Rightarrow> session_pair \<Rightarrow> session_pair" where
  "spec_live now v =
     (case v of Some (t, Some e) \<Rightarrow> if e < now then None else v | _ \<Rightarrow> v)"

fun spec_run :: "(string \<Rightarrow> jsnum) \<Rightarrow> storage_op list \<Rightarrow> session_pair \<Rightarrow> string option list" where
  "spec_run date [] v = []"
| "spec_run date (OpGet now # ops) v =
     map_option fst (spec_live now v) # spec_run date ops (spec_live now v)"
| "spec_run date (OpSet t ts # ops) v = spec_run date ops (Some (t, expiry (Some (date ts))))"
| "spec_run date (OpClear # ops) v = spec_run date ops None"
| "spec_run date (_ # ops) v = spec_run date ops v"

lemma getAccessToken_spec:
  assumes "storage_wf w s"
  shows "fst (getAccessToken w now s) = map_option fst (spec_live now (auth_view s))"
    and "auth_view (snd (getAccessToken w now s)) = spec_live now (auth_view s)"
  by (auto simp: getAccessToken_view [OF assms] spec_live_def auth_view_clear split: option.splits)

lemma auth_view_subscribers [simp]:
  "auth_view (subscribe l s) = auth_view s" "auth_view (unsubscribe l s) = auth_view s"
  by (simp_all add: auth_view_def storage_defs)

lemma run_ops_refines: "storage_wf w s \<Longrightarrow> run_ops w date ops s = spec_run date ops (auth_view s)"
proof (induction ops arbitrary: s)
  case (Cons p ops)
  show ?case
  proof (cases p)
    case (OpGet now)
    with Cons storage_wf_get [of w s now] getAccessToken_spec [of w s now] show ?thesis
      by (simp add: case_prod_unfold)
  qed (use Cons in \<open>simp_all add: storage_wf_ops auth_view_put auth_view_clear\<close>)
qed simp

text \<open>
  C6. Whatever a tab starts from and whatever calls are made, the class answers every read
  as the optional pair of a token and its expiry would: the last token set, until it is
  cleared or a read comes after its expiry, and nothing from then on.
\<close>

theorem storage_refines_pair:
  "run_ops w date ops (new_AuthStorage w now raw) =
     spec_run date ops (auth_view (new_AuthStorage w now raw))"
  by (rule run_ops_refines) (rule storage_wf_new)

text \<open>
  In every state the class can reach, the \<open>sessionStorage\<close> shadow mirrors the live token:
  a page reload before the expiry resumes with that token, a reload at or after it starts
  signed out.
\<close>

theorem reload_resumes:
  assumes "reaches (storage_init True) (storage_step True) s"
    and "tok s = Some t" "expiresAt s = Some (Num e)"
  shows "fst (getAccessToken True now (new_AuthStorage True now (session s))) =
    (if now < e then Some t else None)"
proof -
  from assms(1) have "storage_wf True s" by (rule store_sys.reachable_inv)
  with assms(2,3) have "session s = Shadow t (Some e)" by (simp add: storage_wf_def)
  then show ?thesis by (simp add: new_from_shadow getAccessToken_def)
qed

theorem reload_resumes_witness:
  "fst (getAccessToken True 5 (new_AuthStorage True 5
     (session (setAccessToken True (\<lambda>_. Num 9) ''T'' ''x'' (new_AuthStorage True 0 Absent))))) = Some ''T''"
proof -
  let ?s = "setAccessToken True (\<lambda>_. Num 9) ''T'' ''x'' (new_AuthStorage True 0 Absent)"
  have "reaches (storage_init True) (storage_step True) ?s"
    by (rule reaches_step [where s = "new_AuthStorage True 0 Absent"], rule reaches_init)
      (auto simp: storage_init_def intro: step_set)
  from reload_resumes [OF this, of "''T''" 9 5] show ?thesis by (simp add: storage_defs)
qed

end
