(* ===== verification/Uri.thy ===== *)
theory Uri
  imports Prelude
begin

text \<open>
  Percent-encoding as the frontend uses it: \<open>encodeURIComponent\<close>, which the client
  functions under \<open>frontend/src/lib\<close> wrap around every router-supplied identifier, and
  \<open>URLSearchParams\<close>, with which \<open>events.ts\<close> and \<open>reports.ts\<close> build query strings.
  Both encoders are instances of one codec interface, whose client lemmas are the round
  trip, injectivity and the absence of structural characters.
\<close>

section \<open>Hexadecimal digits\<close>

definition hex_digit :: "nat \<Rightarrow> char" where
  "hex_digit n = ''0123456789ABCDEF'' ! n"

definition hex_val :: "char \<Rightarrow> nat option" where
  "hex_val c =
     (if 48 \<le> ccode c \<and> ccode c \<le> 57 then Some (ccode c - 48)
      else if 65 \<le> ccode c \<and> ccode c \<le> 70 then Some (ccode c - 55)
      else if 97 \<le> ccode c \<and> ccode c \<le> 102 then Some (ccode c - 87)
      else None)"

definition pct :: "char \<Rightarrow> string" where
  "pct c = [CHR ''%'', hex_digit (ccode c div 16), hex_digit (ccode c mod 16)]"

definition is_alnum :: "char \<Rightarrow> bool" where
  "is_alnum c = (48 \<le> ccode c \<and> ccode c \<le> 57 \<or> 65 \<le> ccode c \<and> ccode c \<le> 90 \<or>
     97 \<le> ccode c \<and> ccode c \<le> 122)"

lemma hex_digit_props:
  assumes "n < 16"
  shows "hex_val (hex_digit n) = Some n" and "is_alnum (hex_digit n)"
proof -
  have "n \<in> {0, 1, 2, 3, 4, 5, 6, 7, 8, 9, 10, 11, 12, 13, 14, 15}" using assms by (simp add: numeral_eq_Suc less_Suc_eq)
  then show "hex_val (hex_digit n) = Some n" and "is_alnum (hex_digit n)"
    by (elim insertE; simp add: hex_digit_def hex_val_def is_alnum_def)+
qed

lemma ccode_bound: "ccode c < 256"
  using of_char_of [of "ccode c"] by (metis char_of_char of_char_mod_256 mod_less_divisor zero_less_numeral)

lemma ccode_nibbles: "ccode c div 16 < 16" "ccode c mod 16 < 16"
  using ccode_bound [of c] by (auto simp: less_mult_imp_div_less)

section \<open>encodeURIComponent\<close>

definition uri_unreserved :: "char \<Rightarrow> bool" where
  "uri_unreserved c = (is_alnum c \<or> c \<in> set ''-_.!~*'' \<or> c = CHR 0x27 \<or> c = CHR ''('' \<or> c = CHR '')'')"

definition uri_char :: "char \<Rightarrow> string" where
  "uri_char c = (if uri_unreserved c then [c] else pct c)"

definition encodeURIComponent :: "string \<Rightarrow> string" where
  "encodeURIComponent s = concat (map uri_char s)"

section \<open>URLSearchParams\<close>

type_synonym params = "(string \<times> string) list"

definition sp_append :: "params \<Rightarrow> string \<Rightarrow> string \<Rightarrow> params" where
  "sp_append ps k v = ps @ [(k, v)]"

text \<open>\<open>set\<close> overwrites the first pair of that name and removes the others.\<close>

fun sp_set :: "params \<Rightarrow> string \<Rightarrow> string \<Rightarrow> params" where
  "sp_set [] k v = [(k, v)]"
| "sp_set ((k', v') # ps) k v =
     (if k' = k then (k, v) # filter (\<lambda>p. fst p \<noteq> k) ps else (k', v') # sp_set ps k v)"

definition sp_getAll :: "params \<Rightarrow> string \<Rightarrow> string list" where
  "sp_getAll ps k = map snd (filter (\<lambda>p. fst p = k) ps)"

definition form_char :: "char \<Rightarrow> string" where
  "form_char c = (if c = CHR '' '' then ''+''
     else if is_alnum c \<or> c \<in> set ''*-._'' then [c] else pct c)"

definition form_encode :: "string \<Rightarrow> string" where
  "form_encode s = concat (map form_char s)"

definition sp_pair :: "string \<times> string \<Rightarrow> string" where
  "sp_pair p = form_encode (fst p) @ ''='' @ form_encode (snd p)"

definition sp_toString :: "params \<Rightarrow> string" where
  "sp_toString ps = join ''&'' (map sp_pair ps)"

section \<open>Decoding\<close>

text \<open>The server's side of the wire: one decoder, with \<open>+\<close> read as a space in a query.\<close>

fun pct_decode :: "bool \<Rightarrow> string \<Rightarrow> string option" where
  "pct_decode pl [] = Some []"
| "pct_decode pl (c # s) =
     (if c = CHR ''%'' then
        (case s of
           a # b # r \<Rightarrow>
             (case (hex_val a, hex_val b) of
                (Some x, Some y) \<Rightarrow> map_option (Cons (char_of (16 * x + y))) (pct_decode pl r)
              | _ \<Rightarrow> None)
         | _ \<Rightarrow> None)
      else if pl \<and> c = CHR ''+'' then map_option (Cons (CHR '' '')) (pct_decode pl s)
      else map_option (Cons c) (pct_decode pl s))"

text \<open>A decoded query: the pairs between the ampersands, each cut at its first \<open>=\<close>.\<close>

definition parse_pair :: "string \<Rightarrow> (string \<times> string) option" where
  "parse_pair s =
     (case (pct_decode True (takeWhile (\<lambda>c. c \<noteq> CHR ''='') s),
            pct_decode True (tl (dropWhile (\<lambda>c. c \<noteq> CHR ''='') s))) of
        (Some k, Some v) \<Rightarrow> Some (k, v)
      | _ \<Rightarrow> None)"

definition parse_query :: "string \<Rightarrow> params option" where
  "parse_query s = (if s = [] then Some [] else those (map parse_pair (split CHR ''&'' s)))"

text \<open>
  \<open>new URLSearchParams(s)\<close> of the browser: empty pieces are dropped, and a percent sign
  that starts no escape stands for itself.
\<close>

fun form_decode :: "string \<Rightarrow> string" where
  "form_decode [] = []"
| "form_decode (c # s) =
     (if c = CHR ''%'' then
        (case s of
           a # b # r \<Rightarrow>
             (case (hex_val a, hex_val b) of
                (Some x, Some y) \<Rightarrow> char_of (16 * x + y) # form_decode r
              | _ \<Rightarrow> c # form_decode s)
         | _ \<Rightarrow> c # form_decode s)
      else (if c = CHR ''+'' then CHR '' '' else c) # form_decode s)"

definition sp_parse :: "string \<Rightarrow> params" where
  "sp_parse s =
     map (\<lambda>p. (form_decode (takeWhile (\<lambda>c. c \<noteq> CHR ''='') p),
               form_decode (tl (dropWhile (\<lambda>c. c \<noteq> CHR ''='') p))))
       (filter (\<lambda>p. p \<noteq> []) (split CHR ''&'' s))"

section \<open>The codec interface\<close>

locale char_codec =
  fixes enc :: "char \<Rightarrow> string" and dec :: "string \<Rightarrow> string option" and safe :: "char \<Rightarrow> bool"
  assumes dec_Nil: "dec [] = Some []"
    and dec_enc: "dec (enc c @ s) = map_option (Cons c) (dec s)"
    and enc_safe: "c' \<in> set (enc c) \<Longrightarrow> safe c'"
    and enc_not_Nil: "enc c \<noteq> []"
begin

lemma decode_encode: "dec (concat (map enc s)) = Some s"
  by (induction s) (simp_all add: dec_Nil dec_enc)

lemma encode_inj: "concat (map enc s) = concat (map enc t) \<longleftrightarrow> s = t"
  by (metis decode_encode option.inject)

lemma encode_safe: "\<not> safe c \<Longrightarrow> c \<notin> set (concat (map enc s))"
  by (auto dest: enc_safe)

lemma encode_Nil_iff: "concat (map enc s) = [] \<longleftrightarrow> s = []"
  using enc_not_Nil by (cases s) auto

end

lemma pct_decode_pct: "pct_decode pl (pct c @ s) = map_option (Cons c) (pct_decode pl s)"
  by (simp add: pct_def hex_digit_props ccode_nibbles mult.commute [of 16])

lemma is_alnum_neq:
  "is_alnum c \<Longrightarrow> c \<noteq> CHR ''%'' \<and> c \<noteq> CHR ''+'' \<and> c \<noteq> CHR ''/'' \<and> c \<noteq> CHR ''?'' \<and>
     c \<noteq> CHR ''#'' \<and> c \<noteq> CHR ''&'' \<and> c \<noteq> CHR ''=''"
  by (auto simp: is_alnum_def)

abbreviation uri_safe :: "char \<Rightarrow> bool" where
  "uri_safe c \<equiv> uri_unreserved c \<or> c = CHR ''%''"

abbreviation form_safe :: "char \<Rightarrow> bool" where
  "form_safe c \<equiv> is_alnum c \<or> c \<in> set ''*-._+%''"

interpretation uric: char_codec uri_char "pct_decode False" uri_safe
proof
  show "pct_decode False (uri_char c @ s) = map_option (Cons c) (pct_decode False s)" for c s
    by (auto simp: uri_char_def pct_decode_pct uri_unreserved_def is_alnum_def)
  show "c' \<in> set (uri_char c) \<Longrightarrow> uri_safe c'" for c c'
    by (auto simp: uri_char_def pct_def hex_digit_props ccode_nibbles uri_unreserved_def split: if_splits)
qed (simp_all add: uri_char_def pct_def)

interpretation formc: char_codec form_char "pct_decode True" form_safe
proof
  show "pct_decode True (form_char c @ s) = map_option (Cons c) (pct_decode True s)" for c s
    by (auto simp: form_char_def pct_decode_pct is_alnum_def)
  show "c' \<in> set (form_char c) \<Longrightarrow> form_safe c'" for c c'
    by (auto simp: form_char_def pct_def hex_digit_props ccode_nibbles split: if_splits)
qed (simp_all add: form_char_def pct_def)

lemma encodeURIComponent_inj [simp]: "encodeURIComponent s = encodeURIComponent t \<longleftrightarrow> s = t"
  by (simp add: encodeURIComponent_def uric.encode_inj)

lemma encodeURIComponent_decode: "pct_decode False (encodeURIComponent s) = Some s"
  by (simp add: encodeURIComponent_def uric.decode_encode)

lemma not_uri_safe:
  "\<not> uri_safe CHR ''/''" "\<not> uri_safe CHR ''?''" "\<not> uri_safe CHR ''#''" "\<not> uri_safe CHR ''&''"
  by (simp_all add: uri_unreserved_def is_alnum_def)

lemma encodeURIComponent_chars [simp]:
  "CHR ''/'' \<notin> set (encodeURIComponent s)" "CHR ''?'' \<notin> set (encodeURIComponent s)"
  "CHR ''#'' \<notin> set (encodeURIComponent s)"
  unfolding encodeURIComponent_def by (intro uric.encode_safe not_uri_safe)+

lemma encodeURIComponent_Nil [simp]: "encodeURIComponent s = [] \<longleftrightarrow> s = []"
  unfolding encodeURIComponent_def by (rule uric.encode_Nil_iff)

lemma form_encode_chars:
  "CHR ''&'' \<notin> set (form_encode s)" "CHR ''='' \<notin> set (form_encode s)"
proof -
  have "\<not> form_safe CHR ''&''" "\<not> form_safe CHR ''=''" by (simp_all add: is_alnum_def)
  then show "CHR ''&'' \<notin> set (form_encode s)" "CHR ''='' \<notin> set (form_encode s)"
    unfolding form_encode_def by (simp_all only: formc.encode_safe not_False_eq_True)
qed

lemma parse_pair_sp_pair: "parse_pair (sp_pair p) = Some p"
proof -
  have tw: "takeWhile (\<lambda>c. c \<noteq> CHR ''='') (form_encode k @ CHR ''='' # v) = form_encode k"
    and dw: "dropWhile (\<lambda>c. c \<noteq> CHR ''='') (form_encode k @ CHR ''='' # v) = CHR ''='' # v" for k v
    using form_encode_chars(2) [of k] by (induction "form_encode k") (auto simp: takeWhile_append dropWhile_append)
  show ?thesis
    by (cases p) (simp add: parse_pair_def sp_pair_def tw dw form_encode_def [symmetric]
        formc.decode_encode [folded form_encode_def])
qed

lemma those_Some: "(\<And>x. x \<in> set xs \<Longrightarrow> f (g x) = Some x) \<Longrightarrow> those (map (f \<circ> g) xs) = Some xs"
  by (induction xs) auto

lemma parse_query_toString: "parse_query (sp_toString ps) = Some ps"
proof (cases ps)
  case (Cons p qs)
  have "CHR ''&'' \<notin> set (sp_pair q)" for q
    using form_encode_chars(1) by (auto simp: sp_pair_def)
  then have "split CHR ''&'' (join ''&'' (map sp_pair ps)) = map sp_pair ps"
    using Cons by (intro split_join) auto
  moreover have "sp_toString ps \<noteq> []"
    using Cons by (cases qs) (auto simp: sp_toString_def sp_pair_def)
  ultimately show ?thesis
    using those_Some [of ps parse_pair sp_pair]
    by (simp add: parse_query_def sp_toString_def parse_pair_sp_pair)
qed (simp add: parse_query_def sp_toString_def)

lemma sp_getAll_append: "sp_getAll (sp_append ps k v) k' = sp_getAll ps k' @ (if k = k' then [v] else [])"
  by (simp add: sp_getAll_def sp_append_def)

lemma sp_getAll_set_same: "sp_getAll (sp_set ps k v) k = [v]"
  by (induction ps k v rule: sp_set.induct) (auto simp: sp_getAll_def filter_empty_conv)

lemma sp_getAll_set_other: "k \<noteq> k' \<Longrightarrow> sp_getAll (sp_set ps k v) k' = sp_getAll ps k'"
  by (induction ps k v rule: sp_set.induct)
    (auto simp: sp_getAll_def intro!: arg_cong [where f = "map snd"] filter_cong)

end
