(* ===== verification/Api_Client.thy ===== *)
theory Api_Client
  imports Auth_Storage Uri
begin

text \<open>
  The shared API client, \<open>frontend/src/lib/api.ts\<close>: the two hooks that attach the bearer
  token and recover from a 401, the token refresh behind them, error messages and
  authenticated downloads.

  A call runs in the state monad over \<open>client\<close>: the module state of the tab (the token
  store, \<open>refreshInFlight\<close>, \<open>lastRefreshRejected\<close>), how often the clock was consulted
  (a method that may ask \<open>Date.now()\<close> counts once; the clock is any function of that
  count), and the requests put on the wire so far. A rejected promise is \<open>Inl\<close> of the error.

  What is outside the sources is a field of \<open>env\<close>: the server's answers (\<open>net\<close>, any
  function of the requests seen so far), the clock, the date parser, the package ky
  (\<open>ky_send\<close>, \<open>ky_url\<close>) and the browser's lock manager. \<open>ky_contract\<close> and
  \<open>lock_contract\<close> state what their documentation promises; theorems that need them have
  them as hypotheses.
\<close>

section \<open>Requests, responses, errors\<close>

datatype http_method = GET | POST | PUT | PATCH | DELETE

record request =
  rq_method :: http_method
  rq_url :: string
  rq_headers :: params
  rq_body :: "json option"
  rq_timeout :: nat

record response =
  rs_status :: nat
  rs_statusText :: string
  rs_headers :: params
  rs_json :: "json option"
  rs_text :: string

definition rs_ok :: "response \<Rightarrow> bool" where
  "rs_ok r = (200 \<le> rs_status r \<and> rs_status r \<le> 299)"

text \<open>\<open>HTTPError\<close> is ky's; every other error is its message.\<close>

datatype js_error = HTTPError response | JsError string

section \<open>The client's state and its surroundings\<close>

record client =
  storage :: auth_storage
  refreshInFlight :: bool
  lastRefreshRejected :: bool
  ticks :: nat
  wire :: "request list"

type_synonym 'a io = "(client, 'a) state"
type_synonym 'a call = "(client, js_error + 'a) state"

record ky_options =
  beforeRequest :: "(request \<Rightarrow> request io) list"
  afterResponse :: "(request \<Rightarrow> response \<Rightarrow> response call) list"
  retry_limit :: nat

record env =
  browser :: bool
  public_api_url :: "string option"
  net :: "request list \<Rightarrow> request \<Rightarrow> string + response"
  clock :: "nat \<Rightarrow> int"
  date :: "string \<Rightarrow> jsnum"
  numstr :: "rat \<Rightarrow> string"
  ky_url :: "string \<Rightarrow> params \<Rightarrow> string"
  ky_send :: "ky_options \<Rightarrow> request \<Rightarrow> response call"
  has_locks :: bool
  locks_request :: "string option io \<Rightarrow> string option io"
  pending_refresh :: "string option io"

definition API_BASE :: "env \<Rightarrow> string" where
  "API_BASE E = (case public_api_url E of
      Some u \<Rightarrow> u
    | None \<Rightarrow> if \<not> browser E then ''http://api:8000/api/v1'' else ''/api/v1'')"

section \<open>Monadic vocabulary\<close>

abbreviation ret :: "'a \<Rightarrow> 'a io" where
  "ret \<equiv> State_Monad.return"

definition modify :: "(client \<Rightarrow> client) \<Rightarrow> unit io" where
  "modify f = State (\<lambda>s. ((), f s))"

definition asks :: "(client \<Rightarrow> 'a) \<Rightarrow> 'a io" where
  "asks f = State (\<lambda>s. (f s, s))"

lemma run_modify [simp]: "run_state (modify f) s = ((), f s)"
  by (simp add: modify_def)

lemma run_asks [simp]: "run_state (asks f) s = (f s, s)"
  by (simp add: asks_def)

text \<open>\<open>await\<close>: an error of the first computation is the error of the whole.\<close>

definition awaiting :: "'a call \<Rightarrow> ('a \<Rightarrow> 'b call) \<Rightarrow> 'b call" where
  "awaiting m f = do { x \<leftarrow> m; (case x of Inl e \<Rightarrow> ret (Inl e) | Inr v \<Rightarrow> f v) }"

definition catching :: "'a call \<Rightarrow> (js_error \<Rightarrow> 'a call) \<Rightarrow> 'a call" where
  "catching m h = do { x \<leftarrow> m; (case x of Inl e \<Rightarrow> h e | Inr v \<Rightarrow> ret (Inr v)) }"

lemma run_awaiting:
  "run_state (awaiting m f) s =
     (case run_state m s of (Inl e, s') \<Rightarrow> (Inl e, s') | (Inr v, s') \<Rightarrow> run_state (f v) s')"
  by (simp add: awaiting_def split: prod.splits sum.splits)

lemma run_catching:
  "run_state (catching m h) s =
     (case run_state m s of (Inl e, s') \<Rightarrow> run_state (h e) s' | (Inr v, s') \<Rightarrow> (Inr v, s'))"
  by (simp add: catching_def split: prod.splits sum.splits)

section \<open>The platform: clock and fetch\<close>

definition Date_now :: "env \<Rightarrow> int io" where
  "Date_now E = State (\<lambda>s. (clock E (ticks s), s\<lparr>ticks := Suc (ticks s)\<rparr>))"

definition fetch :: "env \<Rightarrow> request \<Rightarrow> response call" where
  "fetch E r = State (\<lambda>s. (map_sum JsError id (net E (wire s) r), s\<lparr>wire := wire s @ [r]\<rparr>))"

text \<open>The token store's methods on the tab's instance.\<close>

definition storage_get :: "env \<Rightarrow> string option io" where
  "storage_get E = do {
     now \<leftarrow> Date_now E;
     s \<leftarrow> State_Monad.get;
     let (t, st) = getAccessToken (browser E) now (storage s);
     modify (storage_update (\<lambda>_. st));
     ret t }"

definition storage_soon :: "env \<Rightarrow> int \<Rightarrow> bool io" where
  "storage_soon E ms = do {
     now \<leftarrow> Date_now E;
     asks (\<lambda>s. isExpiringSoon ms now (storage s)) }"

definition storage_set :: "env \<Rightarrow> string \<Rightarrow> string \<Rightarrow> unit io" where
  "storage_set E t expires_at =
     modify (storage_update (setAccessToken (browser E) (date E) t expires_at))"

definition storage_clear :: "env \<Rightarrow> unit io" where
  "storage_clear E = modify (storage_update (clear (browser E)))"

section \<open>Refreshing the access token\<close>

text \<open>
  The body of a token answer, read at the type the source gives it. An answer that is no
  JSON, or of another shape, counts as a failed read.
\<close>

definition token_pair :: "json \<Rightarrow> (string \<times> string) option" where
  "token_pair j = (case (jget j ''access_token'', jget j ''expires_at'') of
     (Some (JStr t), Some (JStr e)) \<Rightarrow> Some (t, e)
   | _ \<Rightarrow> None)"

definition token_body :: "response \<Rightarrow> (string \<times> string) option" where
  "token_body r = Option.bind (rs_json r) token_pair"

definition refresh_request :: "env \<Rightarrow> request" where
  "refresh_request E = \<lparr>rq_method = POST, rq_url = API_BASE E @ ''/auth/refresh'', rq_headers = [],
     rq_body = Some (JObj []), rq_timeout = 10000\<rparr>"

definition no_hooks :: "nat \<Rightarrow> ky_options" where
  "no_hooks n = \<lparr>beforeRequest = [], afterResponse = [], retry_limit = n\<rparr>"

definition doRefresh :: "env \<Rightarrow> string option io" where
  "doRefresh E = do {
     x \<leftarrow> ky_send E (no_hooks 0) (refresh_request E);
     (case x of
        Inr resp \<Rightarrow>
          (case token_body resp of
             Some (t, expires_at) \<Rightarrow> do {
               modify (lastRefreshRejected_update (\<lambda>_. False));
               storage_set E t expires_at;
               ret (Some t) }
           | None \<Rightarrow> do {
               modify (lastRefreshRejected_update (\<lambda>_. False));
               ret None })
      | Inl (HTTPError resp) \<Rightarrow> do {
          modify (lastRefreshRejected_update (\<lambda>_. rs_status resp = 401));
          ret None }
      | Inl (JsError m) \<Rightarrow> do {
          modify (lastRefreshRejected_update (\<lambda>_. False));
          ret None }) }"

definition tryRefresh :: "env \<Rightarrow> string option io" where
  "tryRefresh E = do {
     busy \<leftarrow> asks refreshInFlight;
     (if busy then pending_refresh E
      else do {
        modify (refreshInFlight_update (\<lambda>_. True));
        t \<leftarrow> (if has_locks E then locks_request E (doRefresh E) else doRefresh E);
        modify (refreshInFlight_update (\<lambda>_. False));
        ret t }) }"

section \<open>The hooks\<close>

definition bearer :: "string \<Rightarrow> request \<Rightarrow> request" where
  "bearer t r = r\<lparr>rq_headers := sp_set (rq_headers r) ''Authorization'' (''Bearer '' @ t)\<rparr>"

definition before_hook :: "env \<Rightarrow> request \<Rightarrow> request io" where
  "before_hook E r = do {
     soon \<leftarrow> (if \<not> str_includes (rq_url r) ''/auth/refresh'' \<and> \<not> endsWith (rq_url r) ''/auth/login''
              then storage_soon E 60000 else ret False);
     _ \<leftarrow> (if soon then tryRefresh E else ret None);
     token \<leftarrow> storage_get E;
     ret (case token of Some t \<Rightarrow> if t \<noteq> [] then bearer t r else r | None \<Rightarrow> r) }"

definition skip_retry :: "request \<Rightarrow> response \<Rightarrow> bool" where
  "skip_retry r resp =
     (let u = rq_url r
      in rs_status resp \<noteq> 401 \<or> str_includes u ''/auth/refresh'' \<or> endsWith u ''/auth/login'' \<or>
         endsWith u ''/auth/totp/verify'' \<or> endsWith u ''/auth/otp/verify'' \<or>
         endsWith u ''/auth/otp/send'')"

definition after_hook :: "env \<Rightarrow> request \<Rightarrow> response \<Rightarrow> response call" where
  "after_hook E r resp =
     (if skip_retry r resp then ret (Inr resp)
      else do {
        refreshed \<leftarrow> tryRefresh E;
        (if \<not> truthy_str refreshed then do {
           rejected \<leftarrow> asks lastRefreshRejected;
           (if rejected then storage_clear E else ret ());
           ret (Inr resp) }
         else ky_send E (no_hooks 2) (bearer (the refreshed) r)) })"

definition api_options :: "env \<Rightarrow> ky_options" where
  "api_options E = \<lparr>beforeRequest = [before_hook E], afterResponse = [after_hook E], retry_limit = 0\<rparr>"

section \<open>Calling the API\<close>

record ky_args =
  a_json :: "json option"
  a_search :: params
  a_timeout :: nat
  a_headers :: params

definition no_args :: ky_args where
  "no_args = \<lparr>a_json = None, a_search = [], a_timeout = 30000, a_headers = []\<rparr>"

abbreviation with_json :: "json \<Rightarrow> ky_args" where
  "with_json j \<equiv> no_args\<lparr>a_json := Some j\<rparr>"

abbreviation with_search :: "params \<Rightarrow> ky_args" where
  "with_search q \<equiv> no_args\<lparr>a_search := q\<rparr>"

abbreviation with_timeout :: "nat \<Rightarrow> ky_args" where
  "with_timeout n \<equiv> no_args\<lparr>a_timeout := n\<rparr>"

text \<open>\<open>String(b)\<close> of a boolean.\<close>

definition bool_str :: "bool \<Rightarrow> string" where
  "bool_str b = (if b then ''true'' else ''false'')"

definition mk_request :: "env \<Rightarrow> http_method \<Rightarrow> string \<Rightarrow> ky_args \<Rightarrow> request" where
  "mk_request E m path a = \<lparr>rq_method = m, rq_url = ky_url E path (a_search a),
     rq_headers = a_headers a, rq_body = a_json a, rq_timeout = a_timeout a\<rparr>"

definition api :: "env \<Rightarrow> http_method \<Rightarrow> string \<Rightarrow> ky_args \<Rightarrow> response call" where
  "api E m path a = ky_send E (api_options E) (mk_request E m path a)"

definition body_json :: "response \<Rightarrow> json call" where
  "body_json r = ret (case rs_json r of None \<Rightarrow> Inl (JsError ''Unexpected end of JSON input'') | Some j \<Rightarrow> Inr j)"

definition api_json :: "env \<Rightarrow> http_method \<Rightarrow> string \<Rightarrow> ky_args \<Rightarrow> json call" where
  "api_json E m path a = awaiting (api E m path a) body_json"

definition api_unit :: "env \<Rightarrow> http_method \<Rightarrow> string \<Rightarrow> ky_args \<Rightarrow> unit call" where
  "api_unit E m path a = awaiting (api E m path a) (\<lambda>_. ret (Inr ()))"

section \<open>Error messages\<close>

definition isHttpError :: "js_error \<Rightarrow> bool" where
  "isHttpError e = (case e of HTTPError _ \<Rightarrow> True | JsError _ \<Rightarrow> False)"

text \<open>\<open>String(v)\<close> of a JSON value; a null element of an array prints as nothing.\<close>

fun js_String :: "(rat \<Rightarrow> string) \<Rightarrow> json \<Rightarrow> string" where
  "js_String ns JNull = ''null''"
| "js_String ns (JBool b) = (if b then ''true'' else ''false'')"
| "js_String ns (JNum n) = ns n"
| "js_String ns (JStr s) = s"
| "js_String ns (JArr xs) = join '','' (map (\<lambda>x. if x = JNull then [] else js_String ns x) xs)"
| "js_String ns (JObj _) = ''[object Object]''"

definition readErrorMessage :: "js_error \<Rightarrow> json" where
  "readErrorMessage e =
     (case e of
        HTTPError r \<Rightarrow>
          (case Option.bind (rs_json r) (\<lambda>j. jget j ''detail'') of
             Some d \<Rightarrow> if jtruthy d then d
               else JStr (show_nat (rs_status r) @ '' '' @ rs_statusText r)
           | None \<Rightarrow> JStr (show_nat (rs_status r) @ '' '' @ rs_statusText r))
      | JsError m \<Rightarrow> JStr m)"

text \<open>\<open>throw new Error(await readErrorMessage(e))\<close>, the handler of nearly every client function.\<close>

definition rethrow :: "env \<Rightarrow> js_error \<Rightarrow> 'a call" where
  "rethrow E e = ret (Inl (JsError (js_String (numstr E) (readErrorMessage e))))"

definition guarded :: "env \<Rightarrow> 'a call \<Rightarrow> 'a call" where
  "guarded E m = catching m (rethrow E)"

section \<open>Downloads\<close>

text \<open>
  The first match of \<open>/filename="?([^"]+)"?/\<close>: after the first place where
  \<open>filename=\<close> is followed by an optional quote and a character other than a quote, the
  longest run without a quote.
\<close>

definition filename_at :: "string \<Rightarrow> string option" where
  "filename_at s =
     (if startsWith s ''filename='' then
        (let r = drop 9 s;
             r' = (case r of c # t \<Rightarrow> if c = CHR 0x22 then t else r | [] \<Rightarrow> r);
             name = takeWhile (\<lambda>c. c \<noteq> CHR 0x22) r'
         in if name \<noteq> [] then Some name else None)
      else None)"

fun match_filename :: "string \<Rightarrow> string option" where
  "match_filename [] = None"
| "match_filename (c # s) =
     (case filename_at (c # s) of Some n \<Rightarrow> Some n | None \<Rightarrow> match_filename s)"

definition download_request :: "string \<Rightarrow> string option \<Rightarrow> request" where
  "download_request url token = \<lparr>rq_method = GET, rq_url = url,
     rq_headers = (if truthy_str token then [(''Authorization'', ''Bearer '' @ the token)] else []),
     rq_body = None, rq_timeout = 0\<rparr>"

text \<open>
  The result stands for the file the browser saves: its name and its content. The DOM
  operations that open the save dialog are left out.
\<close>

definition authed_fetch :: "env \<Rightarrow> string \<Rightarrow> response call" where
  "authed_fetch E url = do {
     token \<leftarrow> storage_get E;
     awaiting (fetch E (download_request url token))
       (\<lambda>r. if rs_ok r then ret (Inr r)
            else ret (Inl (JsError (''download failed: HTTP '' @ show_nat (rs_status r))))) }"

definition disposition_name :: "response \<Rightarrow> string \<Rightarrow> string" where
  "disposition_name r fallback =
     (case match_filename (case map_of (rs_headers r) ''Content-Disposition'' of Some d \<Rightarrow> d | None \<Rightarrow> []) of
        Some n \<Rightarrow> n | None \<Rightarrow> fallback)"

definition downloadAuthed :: "env \<Rightarrow> string \<Rightarrow> string \<Rightarrow> (string \<times> string) call" where
  "downloadAuthed E url fallbackFilename =
     awaiting (authed_fetch E url)
       (\<lambda>r. ret (Inr (disposition_name r fallbackFilename, rs_text r)))"

end
