(* ===== verification/Api_Laws.thy ===== *)
theory Api_Laws
  imports Api_Client
begin

text \<open>
  What the API client of \<open>api.ts\<close> does, proved from the documented behaviour of ky and of
  the lock manager: the run of a refresh, of each hook and of a whole call on every branch,
  and the theorems about sessions that follow.
\<close>

section \<open>Documented behaviour of the packages\<close>

text \<open>ky runs its \<open>beforeRequest\<close> hooks in order, sends, then runs the \<open>afterResponse\<close> hooks.\<close>

fun run_before :: "(request \<Rightarrow> request io) list \<Rightarrow> request \<Rightarrow> request io" where
  "run_before [] r = ret r"
| "run_before (h # hs) r = do { r' \<leftarrow> h r; run_before hs r' }"

fun run_after :: "(request \<Rightarrow> response \<Rightarrow> response call) list \<Rightarrow> request \<Rightarrow> response \<Rightarrow> response call" where
  "run_after [] r resp = ret (Inr resp)"
| "run_after (h # hs) r resp = awaiting (h r resp) (run_after hs r)"

definition throw_unless_ok :: "response \<Rightarrow> response call" where
  "throw_unless_ok resp = ret (if rs_ok resp then Inr resp else Inl (HTTPError resp))"

definition ky_pipeline :: "env \<Rightarrow> ky_options \<Rightarrow> request \<Rightarrow> response call" where
  "ky_pipeline E opts r = do {
     r' \<leftarrow> run_before (beforeRequest opts) r;
     awaiting (awaiting (fetch E r') (run_after (afterResponse opts) r')) throw_unless_ok }"

text \<open>A settled ky promise: a response with a 2xx status, or an error.\<close>

fun settled :: "js_error + response \<Rightarrow> bool" where
  "settled (Inr r) = rs_ok r"
| "settled (Inl (HTTPError r)) = (\<not> rs_ok r)"
| "settled (Inl (JsError m)) = True"

text \<open>
  With no retries ky is the pipeline above. With retries left and no hooks it sends the
  request at least once and nothing else. URLs are the prefix, a slash, the path and the
  query.
\<close>

definition ky_contract :: "env \<Rightarrow> bool" where
  "ky_contract E \<longleftrightarrow>
     (\<forall>opts r. retry_limit opts = 0 \<longrightarrow> ky_send E opts r = ky_pipeline E opts r) \<and>
     (\<forall>r s. \<exists>n x k. 1 \<le> n \<and> settled x \<and>
        run_state (ky_send E (no_hooks 2) r) s = (x, s\<lparr>wire := wire s @ replicate n r, ticks := k\<rparr>)) \<and>
     (\<exists>origin. \<forall>p q. ky_url E p q =
        origin @ API_BASE E @ ''/'' @ p @ (if q = [] then [] else ''?'' @ sp_toString q))"

text \<open>\<open>navigator.locks.request(name, f)\<close> runs \<open>f\<close> and settles as it does.\<close>

definition lock_contract :: "env \<Rightarrow> bool" where
  "lock_contract E \<longleftrightarrow> (\<forall>m. locks_request E m = m)"

section \<open>Run equations\<close>

lemma ky_no_retry: "ky_contract E \<Longrightarrow> retry_limit opts = 0 \<Longrightarrow> ky_send E opts r = ky_pipeline E opts r"
  by (simp add: ky_contract_def)

lemma ky_retrying:
  assumes "ky_contract E"
  obtains n x k where "1 \<le> n" "settled x"
    "run_state (ky_send E (no_hooks 2) r) s = (x, s\<lparr>wire := wire s @ replicate n r, ticks := k\<rparr>)"
  using assms unfolding ky_contract_def by blast

lemma run_Date_now [simp]:
  "run_state (Date_now E) s = (clock E (ticks s), s\<lparr>ticks := Suc (ticks s)\<rparr>)"
  by (simp add: Date_now_def)

lemma run_fetch [simp]:
  "run_state (fetch E r) s = (map_sum JsError id (net E (wire s) r), s\<lparr>wire := wire s @ [r]\<rparr>)"
  by (simp add: fetch_def)

lemma run_storage_get:
  "run_state (storage_get E) s =
     (fst (getAccessToken (browser E) (clock E (ticks s)) (storage s)),
      s\<lparr>ticks := Suc (ticks s),
        storage := snd (getAccessToken (browser E) (clock E (ticks s)) (storage s))\<rparr>)"
  by (simp add: storage_get_def split: prod.splits)

lemma run_storage_soon:
  "run_state (storage_soon E ms) s =
     (isExpiringSoon ms (clock E (ticks s)) (storage s), s\<lparr>ticks := Suc (ticks s)\<rparr>)"
  by (simp add: storage_soon_def)

lemma run_storage_set:
  "run_state (storage_set E t e) s =
     ((), s\<lparr>storage := setAccessToken (browser E) (date E) t e (storage s)\<rparr>)"
  by (simp add: storage_set_def)

lemma run_storage_clear:
  "run_state (storage_clear E) s = ((), s\<lparr>storage := clear (browser E) (storage s)\<rparr>)"
  by (simp add: storage_clear_def)

lemmas run_io = run_awaiting run_catching run_storage_get run_storage_soon run_storage_set
  run_storage_clear

declare run_io [io_simps]

text \<open>
  What one refresh does, by the server's answer: a fresh pair is stored; a 401 marks the
  session as rejected; anything else changes nothing but the marks.
\<close>

definition refresh_sent :: "env \<Rightarrow> client \<Rightarrow> client" where
  "refresh_sent E s = s\<lparr>wire := wire s @ [refresh_request E]\<rparr>"

definition refresh_effect :: "env \<Rightarrow> client \<Rightarrow> string option \<times> client" where
  "refresh_effect E s =
     (case net E (wire s) (refresh_request E) of
        Inl m \<Rightarrow> (None, (refresh_sent E s)\<lparr>lastRefreshRejected := False\<rparr>)
      | Inr r \<Rightarrow>
          if \<not> rs_ok r then (None, (refresh_sent E s)\<lparr>lastRefreshRejected := (rs_status r = 401)\<rparr>)
          else (case token_body r of
             None \<Rightarrow> (None, (refresh_sent E s)\<lparr>lastRefreshRejected := False\<rparr>)
           | Some (t, e) \<Rightarrow>
               (Some t, (refresh_sent E s)\<lparr>lastRefreshRejected := False,
                  storage := setAccessToken (browser E) (date E) t e (storage s)\<rparr>)))"

lemma run_doRefresh:
  assumes "ky_contract E"
  shows "run_state (doRefresh E) s = refresh_effect E s"
  by (simp add: doRefresh_def ky_no_retry [OF assms] no_hooks_def ky_pipeline_def io_simps
      throw_unless_ok_def refresh_effect_def refresh_sent_def
      split: sum.splits option.splits prod.splits)

lemma refresh_effect_inFlight:
  "refresh_effect E (s\<lparr>refreshInFlight := b\<rparr>) =
     (fst (refresh_effect E s), (snd (refresh_effect E s))\<lparr>refreshInFlight := b\<rparr>)"
  by (simp add: refresh_effect_def refresh_sent_def split: sum.splits option.splits prod.splits)

lemma refresh_effect_keeps [simp]:
  "refreshInFlight (snd (refresh_effect E s)) = refreshInFlight s"
  "ticks (snd (refresh_effect E s)) = ticks s"
  "wire (snd (refresh_effect E s)) = wire s @ [refresh_request E]"
  by (simp_all add: refresh_effect_def refresh_sent_def split: sum.splits option.splits prod.splits)

lemma refresh_effect_idle:
  "\<not> refreshInFlight s \<Longrightarrow>
     (fst (refresh_effect E s), (snd (refresh_effect E s))\<lparr>refreshInFlight := False\<rparr>) = refresh_effect E s"
  by (simp add: refresh_effect_def refresh_sent_def split: sum.splits option.splits prod.splits)

lemma run_tryRefresh:
  assumes "ky_contract E" "lock_contract E" "\<not> refreshInFlight s"
  shows "run_state (tryRefresh E) s = refresh_effect E s"
proof -
  have "(if has_locks E then locks_request E (doRefresh E) else doRefresh E) = doRefresh E"
    using assms(2) by (simp add: lock_contract_def)
  then show ?thesis
    using assms(3)
    by (simp add: tryRefresh_def run_doRefresh [OF assms(1)] refresh_effect_inFlight
        refresh_effect_idle)
qed

section \<open>The hooks\<close>

text \<open>Whether the request hook refreshes before sending.\<close>

definition proactive :: "env \<Rightarrow> request \<Rightarrow> client \<Rightarrow> bool" where
  "proactive E r s \<longleftrightarrow>
     \<not> str_includes (rq_url r) ''/auth/refresh'' \<and> \<not> endsWith (rq_url r) ''/auth/login'' \<and>
     isExpiringSoon 60000 (clock E (ticks s)) (storage s)"

definition attach :: "string option \<Rightarrow> request \<Rightarrow> request" where
  "attach token r = (if truthy_str token then bearer (the token) r else r)"

lemma attach_cases:
  "(case token of Some t \<Rightarrow> if t \<noteq> [] then bearer t r else r | None \<Rightarrow> r) = attach token r"
  by (simp add: attach_def truthy_str_def split: option.splits)

text \<open>The state in which the token of the request is read.\<close>

definition before_state :: "env \<Rightarrow> request \<Rightarrow> client \<Rightarrow> client" where
  "before_state E r s =
     (if \<not> str_includes (rq_url r) ''/auth/refresh'' \<and> \<not> endsWith (rq_url r) ''/auth/login''
      then if isExpiringSoon 60000 (clock E (ticks s)) (storage s)
           then snd (refresh_effect E (s\<lparr>ticks := Suc (ticks s)\<rparr>))
           else s\<lparr>ticks := Suc (ticks s)\<rparr>
      else s)"

lemma run_before_hook:
  assumes "ky_contract E" "lock_contract E" "\<not> refreshInFlight s"
  shows "run_state (before_hook E r) s =
     (let s1 = before_state E r s;
          g = getAccessToken (browser E) (clock E (ticks s1)) (storage s1)
      in (attach (fst g) r, s1\<lparr>ticks := Suc (ticks s1), storage := snd g\<rparr>))"
  using run_tryRefresh [OF assms(1,2), of "s\<lparr>ticks := Suc (ticks s)\<rparr>"] assms(3)
  by (simp add: before_hook_def attach_cases before_state_def io_simps Let_def case_prod_unfold)

lemma run_after_hook:
  assumes "ky_contract E" "lock_contract E" "\<not> refreshInFlight s" "\<not> skip_retry r resp"
  shows "run_state (after_hook E r resp) s =
     (case refresh_effect E s of
        (t, s1) \<Rightarrow>
          if truthy_str t then run_state (ky_send E (no_hooks 2) (bearer (the t) r)) s1
          else (Inr resp, if lastRefreshRejected s1
                 then s1\<lparr>storage := clear (browser E) (storage s1)\<rparr> else s1))"
  using assms(4) by (simp add: after_hook_def run_tryRefresh [OF assms(1-3)] io_simps split: prod.splits)

lemma run_after_skip: "skip_retry r resp \<Longrightarrow> run_state (after_hook E r resp) s = (Inr resp, s)"
  by (simp add: after_hook_def)

section \<open>A whole call\<close>

definition finish :: "(js_error + response) \<times> client \<Rightarrow> (js_error + response) \<times> client" where
  "finish z = (case z of
     (Inl e, s) \<Rightarrow> (Inl e, s)
   | (Inr q, s) \<Rightarrow> (if rs_ok q then Inr q else Inl (HTTPError q), s))"

lemma run_api:
  assumes "ky_contract E" "run_state (before_hook E (mk_request E m p a)) s = (r, s1)"
  shows "run_state (api E m p a) s =
     (case net E (wire s1) r of
        Inl msg \<Rightarrow> (Inl (JsError msg), s1\<lparr>wire := wire s1 @ [r]\<rparr>)
      | Inr resp \<Rightarrow> finish (run_state (after_hook E r resp) (s1\<lparr>wire := wire s1 @ [r]\<rparr>)))"
  using assms(2)
  by (simp add: api_def ky_no_retry [OF assms(1)] api_options_def ky_pipeline_def io_simps finish_def
      throw_unless_ok_def split: sum.splits prod.splits)

text \<open>What the request hook may have sent, and what it leaves alone.\<close>

definition prelude_sent :: "env \<Rightarrow> request \<Rightarrow> client \<Rightarrow> request list" where
  "prelude_sent E r s = (if proactive E r s then [refresh_request E] else [])"

lemma before_state_props:
  "wire (before_state E r s) = wire s @ prelude_sent E r s"
  "refreshInFlight (before_state E r s) = refreshInFlight s"
  by (simp_all add: before_state_def prelude_sent_def proactive_def)

lemma before_hook_cases:
  assumes "ky_contract E" "lock_contract E" "\<not> refreshInFlight s"
    and "run_state (before_hook E r) s = (r', s1)"
  obtains t where "r' = attach t r" "wire s1 = wire s @ prelude_sent E r s"
    "\<not> refreshInFlight s1" "tok (storage s1) = t \<or> t = None"
  using run_before_hook [OF assms(1-3), of r] assms(3,4)
  by (auto simp: Let_def before_state_props getAccessToken_def storage_defs split: option.splits if_splits)

lemma attach_url [simp]: "rq_url (attach t r) = rq_url r"
  by (simp add: attach_def bearer_def)

text \<open>What may follow an answer: nothing, a refresh, or a refresh and the request again.\<close>

definition retry_tail :: "env \<Rightarrow> request \<Rightarrow> request list \<Rightarrow> bool" where
  "retry_tail E r post \<longleftrightarrow> post = [] \<or> post = [refresh_request E] \<or>
     (\<exists>t n. 1 \<le> n \<and> post = refresh_request E # replicate n (bearer t r))"

lemma after_hook_wire:
  assumes "ky_contract E" "lock_contract E" "\<not> refreshInFlight s"
    and "run_state (after_hook E r resp) s = (x, s')"
  shows "\<not> refreshInFlight s' \<and> (\<exists>post. wire s' = wire s @ post \<and> retry_tail E r post)"
proof (cases "skip_retry r resp")
  case True
  with assms(3,4) show ?thesis by (simp add: run_after_skip retry_tail_def)
next
  case False
  obtain t s1 where e: "refresh_effect E s = (t, s1)" by force
  have s1: "wire s1 = wire s @ [refresh_request E]" "\<not> refreshInFlight s1"
    using refresh_effect_keeps [of E s] assms(3) by (simp_all add: e)
  show ?thesis
  proof (cases "truthy_str t")
    case True
    obtain n y k where "1 \<le> n" "run_state (ky_send E (no_hooks 2) (bearer (the t) r)) s1 =
        (y, s1\<lparr>wire := wire s1 @ replicate n (bearer (the t) r), ticks := k\<rparr>)"
      using ky_retrying [OF assms(1)] by metis
    with assms(4) s1 True show ?thesis
      by (auto simp: run_after_hook [OF assms(1-3) False] e retry_tail_def)
  next
    case False': False
    with assms(4) s1 show ?thesis
      by (auto simp: run_after_hook [OF assms(1-3) False] e retry_tail_def split: if_splits)
  qed
qed

text \<open>Everything one call puts on the wire.\<close>

lemma api_wire:
  assumes "ky_contract E" "lock_contract E" "\<not> refreshInFlight s"
    and "run_state (api E m p a) s = (x, s')"
  shows "\<not> refreshInFlight s' \<and>
    (\<exists>pre t post. pre \<in> {[], [refresh_request E]} \<and>
       wire s' = wire s @ pre @ [attach t (mk_request E m p a)] @ post \<and>
       retry_tail E (attach t (mk_request E m p a)) post)"
proof -
  obtain r s1 where b: "run_state (before_hook E (mk_request E m p a)) s = (r, s1)" by force
  obtain t where r: "r = attach t (mk_request E m p a)"
    and w1: "wire s1 = wire s @ prelude_sent E (mk_request E m p a) s" and f1: "\<not> refreshInFlight s1"
    using before_hook_cases [OF assms(1-3) b] by metis
  let ?s2 = "s1\<lparr>wire := wire s1 @ [r]\<rparr>"
  have pre: "prelude_sent E (mk_request E m p a) s \<in> {[], [refresh_request E]}"
    by (simp add: prelude_sent_def)
  have "\<not> refreshInFlight s' \<and> (\<exists>post. wire s' = wire ?s2 @ post \<and> retry_tail E r post)"
  proof (cases "net E (wire s1) r")
    case (Inl e)
    with assms(4) f1 show ?thesis by (auto simp: run_api [OF assms(1) b] retry_tail_def)
  next
    case (Inr resp)
    obtain y s3 where y: "run_state (after_hook E r resp) ?s2 = (y, s3)" by force
    with assms(4) Inr have "s' = s3"
      by (auto simp: run_api [OF assms(1) b] finish_def split: sum.splits)
    with after_hook_wire [OF assms(1,2) _ y] f1 show ?thesis by simp
  qed
  then obtain post where "\<not> refreshInFlight s'" "wire s' = wire ?s2 @ post" "retry_tail E r post"
    by blast
  with pre w1 r show ?thesis
    by (intro conjI exI [of _ "prelude_sent E (mk_request E m p a) s"] exI [of _ t] exI [of _ post])
      simp_all
qed

section \<open>Properties\<close>

text \<open>
  C1. What the response hook does with an answer, on every branch: an answer it has to skip
  is passed on untouched. Otherwise one refresh is sent; the session is forgotten exactly
  when the server rejected that refresh with a 401, survives a network failure or any other
  status, and a fresh token is stored and the request sent again with it.
\<close>

theorem after_hook_session:
  assumes "ky_contract E" "lock_contract E" "\<not> refreshInFlight s"
  shows "run_state (after_hook E r resp) s =
    (if skip_retry r resp then (Inr resp, s)
     else let s1 = s\<lparr>wire := wire s @ [refresh_request E]\<rparr>
       in (case net E (wire s) (refresh_request E) of
          Inl _ \<Rightarrow> (Inr resp, s1\<lparr>lastRefreshRejected := False\<rparr>)
        | Inr q \<Rightarrow>
            if \<not> rs_ok q then
              (Inr resp,
               if rs_status q = 401
               then s1\<lparr>lastRefreshRejected := True, storage := clear (browser E) (storage s)\<rparr>
               else s1\<lparr>lastRefreshRejected := False\<rparr>)
            else (case token_body q of
               None \<Rightarrow> (Inr resp, s1\<lparr>lastRefreshRejected := False\<rparr>)
             | Some (t, e) \<Rightarrow>
                 (let s2 = s1\<lparr>lastRefreshRejected := False,
                               storage := setAccessToken (browser E) (date E) t e (storage s)\<rparr>
                  in if t = [] then (Inr resp, s2)
                     else run_state (ky_send E (no_hooks 2) (bearer t r)) s2))))"
proof (cases "skip_retry r resp")
  case False
  show ?thesis
    unfolding run_after_hook [OF assms False] refresh_effect_def refresh_sent_def
    using False by (simp add: Let_def split: sum.splits option.splits prod.splits)
qed (simp add: run_after_skip)

text \<open>
  C3. Everything one API call puts on the wire: at most one refresh, the request once, and
  then nothing, or a second refresh, or a second refresh followed by copies of the request
  under the new token. A call never loops, whatever the server answers.
\<close>

theorem api_wire_shape:
  assumes "ky_contract E" "lock_contract E" "\<not> refreshInFlight s"
    and "run_state (api E m p a) s = (x, s')"
  shows "\<not> refreshInFlight s' \<and>
    (\<exists>pre t post. pre \<in> {[], [refresh_request E]} \<and>
       wire s' = wire s @ pre @ [attach t (mk_request E m p a)] @ post \<and>
       retry_tail E (attach t (mk_request E m p a)) post)"
  by (rule api_wire [OF assms])

text \<open>
  C9. The bearer token of a request: it is the token the store hands out at that moment, so
  never one whose expiry has passed, and a store without a token leaves the request as it
  was. A token with at least a minute left causes no refresh.
\<close>

theorem before_hook_bearer:
  assumes "ky_contract E" "lock_contract E" "\<not> refreshInFlight s"
    and "run_state (before_hook E r) s = (r', s')"
  shows "(r' = r \<or> (\<exists>t now. r' = bearer t r \<and> tok (storage s') = Some t \<and> t \<noteq> [] \<and>
             (\<forall>e. expiry (expiresAt (storage s')) = Some e \<longrightarrow> now \<le> e) \<and>
             now = clock E (ticks s' - 1))) \<and>
    (\<not> isExpiringSoon 60000 (clock E (ticks s)) (storage s) \<longrightarrow> wire s' = wire s)"
proof -
  let ?s1 = "before_state E r s"
  let ?g = "getAccessToken (browser E) (clock E (ticks ?s1)) (storage ?s1)"
  have r': "r' = attach (fst ?g) r" and s': "s' = ?s1\<lparr>ticks := Suc (ticks ?s1), storage := snd ?g\<rparr>"
    using run_before_hook [OF assms(1-3), of r] assms(4) by (simp_all add: Let_def)
  have "\<not> isExpiringSoon 60000 (clock E (ticks s)) (storage s) \<longrightarrow> wire s' = wire s"
    by (simp add: s' before_state_props prelude_sent_def proactive_def)
  moreover have "r' = r \<or> (\<exists>t. r' = bearer t r \<and> tok (storage s') = Some t \<and> t \<noteq> [] \<and>
      (\<forall>e. expiry (expiresAt (storage s')) = Some e \<longrightarrow> clock E (ticks ?s1) \<le> e))"
    by (auto simp: r' s' attach_def truthy_str_def getAccessToken_def split: option.splits if_splits)
  ultimately show ?thesis by (auto simp: s')
qed

text \<open>
  C11. Bad credentials stay bad credentials: on the sign-in endpoints the server's answer is
  the result, nothing is sent after it, and \<open>auth/login\<close> is not even preceded by a refresh.
\<close>

theorem api_bootstrap_no_retry:
  assumes "ky_contract E" "lock_contract E" "\<not> refreshInFlight s"
    and "p \<in> {''auth/login'', ''auth/totp/verify'', ''auth/otp/verify'', ''auth/otp/send''}"
    and "a_search a = []" and "run_state (api E POST p a) s = (x, s')"
  shows "\<exists>pre t. wire s' = wire s @ pre @ [attach t (mk_request E POST p a)] \<and>
    pre \<in> {[], [refresh_request E]} \<and> (p = ''auth/login'' \<longrightarrow> pre = []) \<and>
    x = (case net E (wire s @ pre) (attach t (mk_request E POST p a)) of
           Inl msg \<Rightarrow> Inl (JsError msg)
         | Inr q \<Rightarrow> if rs_ok q then Inr q else Inl (HTTPError q))"
proof -
  let ?r = "mk_request E POST p a"
  obtain origin where "rq_url ?r = origin @ API_BASE E @ ''/'' @ p"
    using assms(1,5) unfolding ky_contract_def mk_request_def by auto
  then have suf: "suffix (''/'' @ p) (rq_url ?r)" by (simp add: suffix_def)
  then have skip: "skip_retry (attach t ?r) resp" for t resp
    using assms(4) by (auto simp: skip_retry_def Let_def endsWith_suffix)
  obtain r s1 where b: "run_state (before_hook E ?r) s = (r, s1)" by force
  obtain t where r: "r = attach t ?r" and w1: "wire s1 = wire s @ prelude_sent E ?r s"
    using before_hook_cases [OF assms(1-3) b] by metis
  have pre: "prelude_sent E ?r s \<in> {[], [refresh_request E]}"
    and login: "p = ''auth/login'' \<Longrightarrow> prelude_sent E ?r s = []"
    using suf by (auto simp: prelude_sent_def proactive_def endsWith_suffix)
  from assms(6) have "wire s' = wire s1 @ [r]" and
    "x = (case net E (wire s1) r of Inl msg \<Rightarrow> Inl (JsError msg)
         | Inr q \<Rightarrow> if rs_ok q then Inr q else Inl (HTTPError q))"
    by (auto simp: run_api [OF assms(1) b] run_after_skip [OF skip, folded r] r finish_def
        split: sum.splits)
  with pre login w1 r show ?thesis by (intro exI conjI) auto
qed

lemma sp_set_set: "sp_set (sp_set ps k v) k v' = sp_set ps k v'"
  by (induction ps k v rule: sp_set.induct) (auto simp: filter_id_conv)

lemma bearer_bearer [simp]: "bearer t (bearer t' r) = bearer t r"
  by (simp add: bearer_def sp_set_set)

text \<open>
  C10. A session outlives its access token: a 401 on an ordinary endpoint, answered by a
  successful refresh, stores the new token and repeats the request with it in place of the
  old one; the call ends with the outcome of that repetition.
\<close>

theorem api_recovers:
  fixes E m p a s
  defines "r0 \<equiv> mk_request E m p a"
  assumes "ky_contract E" "lock_contract E" "\<not> refreshInFlight s"
    and live: "\<not> isExpiringSoon 60000 (clock E (ticks s)) (storage s)"
      "getAccessToken (browser E) (clock E (Suc (ticks s))) (storage s) = (Some tk, storage s)" "tk \<noteq> []"
    and stale: "net E (wire s) (bearer tk r0) = Inr resp" "\<not> skip_retry r0 resp"
    and fresh: "net E (wire s @ [bearer tk r0]) (refresh_request E) = Inr q" "rs_ok q"
      "token_body q = Some (t, e)" "t \<noteq> []"
    and run: "run_state (api E m p a) s = (x, s')"
  shows "settled x \<and> storage s' = setAccessToken (browser E) (date E) t e (storage s) \<and>
    (\<exists>n\<ge>1. wire s' = wire s @ [bearer tk r0, refresh_request E] @ replicate n (bearer t r0))"
proof -
  have skip: "\<not> skip_retry (bearer tk r0) resp" using stale(2) by (simp add: skip_retry_def bearer_def)
  have url: "\<not> str_includes (rq_url r0) ''/auth/refresh''" "\<not> endsWith (rq_url r0) ''/auth/login''"
    using stale(2) by (auto simp: skip_retry_def Let_def)
  let ?s1 = "s\<lparr>ticks := Suc (Suc (ticks s))\<rparr>"
  have b: "run_state (before_hook E r0) s = (bearer tk r0, ?s1)"
    using run_before_hook [OF assms(2-4), of r0] url live
    by (simp add: before_state_def attach_def Let_def)
  let ?s2 = "?s1\<lparr>wire := wire s @ [bearer tk r0]\<rparr>"
  let ?s3 = "?s2\<lparr>wire := wire s @ [bearer tk r0, refresh_request E], lastRefreshRejected := False,
      storage := setAccessToken (browser E) (date E) t e (storage s)\<rparr>"
  obtain n y k where y: "1 \<le> n" "settled y" "run_state (ky_send E (no_hooks 2) (bearer t r0)) ?s3 =
      (y, ?s3\<lparr>wire := wire ?s3 @ replicate n (bearer t r0), ticks := k\<rparr>)"
    using ky_retrying [OF assms(2)] by metis
  have "run_state (after_hook E (bearer tk r0) resp) ?s2 =
      (y, ?s3\<lparr>wire := wire ?s3 @ replicate n (bearer t r0), ticks := k\<rparr>)"
    using y(3) skip assms(4) fresh
    by (simp add: run_after_hook [OF assms(2,3)] refresh_effect_def refresh_sent_def)
  with run y(1,2) stale(1)
  have "settled x" "s' = ?s3\<lparr>wire := wire ?s3 @ replicate n (bearer t r0), ticks := k\<rparr>"
    by (auto simp: run_api [OF assms(2) b [unfolded r0_def]] r0_def [symmetric] finish_def split: sum.splits)
  with y(1) show ?thesis by (intro conjI exI [of _ n]) simp_all
qed

section \<open>An environment that keeps the contracts\<close>

text \<open>
  A server, a clock and a date parser around a ky that is the documented pipeline and
  repeats nothing: the contracts can be kept, and the theorems above can be run.
\<close>

definition bare_env :: "(request list \<Rightarrow> request \<Rightarrow> string + response) \<Rightarrow> (nat \<Rightarrow> int) \<Rightarrow> (string \<Rightarrow> jsnum) \<Rightarrow> env" where
  "bare_env N C D = \<lparr>browser = True, public_api_url = None, net = N, clock = C, date = D,
     numstr = (\<lambda>n. show_int (floor n)),
     ky_url = (\<lambda>p q. ''/api/v1/'' @ p @ (if q = [] then [] else ''?'' @ sp_toString q)),
     ky_send = (\<lambda>_ _. ret (Inl (JsError []))), has_locks = True, locks_request = id,
     pending_refresh = ret None\<rparr>"

definition documented_env :: "(request list \<Rightarrow> request \<Rightarrow> string + response) \<Rightarrow> (nat \<Rightarrow> int) \<Rightarrow> (string \<Rightarrow> jsnum) \<Rightarrow> env" where
  "documented_env N C D = (bare_env N C D)\<lparr>ky_send := ky_pipeline (bare_env N C D)\<rparr>"

lemma documented_fields [simp]:
  "net (documented_env N C D) = N" "clock (documented_env N C D) = C" "date (documented_env N C D) = D"
  "browser (documented_env N C D) = True" "API_BASE (documented_env N C D) = ''/api/v1''"
  "ky_url (documented_env N C D) p q = ''/api/v1/'' @ p @ (if q = [] then [] else ''?'' @ sp_toString q)"
  by (simp_all add: documented_env_def bare_env_def API_BASE_def)

lemma documented_fetch: "fetch (documented_env N C D) = fetch (bare_env N C D)"
  by (simp add: fetch_def fun_eq_iff bare_env_def documented_env_def)

lemma documented_ky_contract: "ky_contract (documented_env N C D)"
proof -
  have "ky_send (documented_env N C D) opts r = ky_pipeline (documented_env N C D) opts r" for opts r
    by (simp add: ky_pipeline_def documented_fetch) (simp add: documented_env_def ky_pipeline_def)
  moreover have "\<exists>n x k. 1 \<le> n \<and> settled x \<and>
      run_state (ky_pipeline (documented_env N C D) (no_hooks 2) r) s =
        (x, s\<lparr>wire := wire s @ replicate n r, ticks := k\<rparr>)" for r s
  proof -
    let ?z = "run_state (ky_pipeline (documented_env N C D) (no_hooks 2) r) s"
    have "settled (fst ?z)" "?z = (fst ?z, s\<lparr>wire := wire s @ [r]\<rparr>)"
      by (cases "N (wire s) r";
          simp add: ky_pipeline_def no_hooks_def io_simps throw_unless_ok_def)+
    then show ?thesis
      by (intro exI [of _ "Suc 0"] exI [of _ "fst ?z"] exI [of _ "ticks s"]) simp
  qed
  ultimately show ?thesis
    unfolding ky_contract_def by (auto intro!: exI [of _ "[]"])
qed

lemma documented_lock_contract: "lock_contract (documented_env N C D)"
  by (simp add: lock_contract_def documented_env_def bare_env_def)

lemmas documented_contracts = documented_ky_contract documented_lock_contract

text \<open>
  A server whose access tokens are stale until they are refreshed: it answers 401 to every
  request but a refresh, and accepts the token \<open>T2\<close> the refresh hands out.
\<close>

definition plain_response :: "nat \<Rightarrow> json \<Rightarrow> response" where
  "plain_response st j = \<lparr>rs_status = st, rs_statusText = ''status'', rs_headers = [], rs_json = Some j, rs_text = []\<rparr>"

definition stale_net :: "request list \<Rightarrow> request \<Rightarrow> string + response" where
  "stale_net h r =
     (if rq_url r = ''/api/v1/auth/refresh''
      then Inr (plain_response 200 (JObj [(''access_token'', JStr ''T2''), (''expires_at'', JStr ''later'')]))
      else if map_of (rq_headers r) ''Authorization'' = Some ''Bearer T2'' then Inr (plain_response 200 JNull)
      else Inr (plain_response 401 (JObj [(''detail'', JStr ''token expired'')])))"

definition demo_storage :: auth_storage where
  "demo_storage = \<lparr>tok = Some ''T1'', expiresAt = Some (Num 900000), listeners = [],
     session = Shadow ''T1'' (Some 900000), notified = []\<rparr>"

definition demo_client :: client where
  "demo_client = \<lparr>storage = demo_storage, refreshInFlight = False, lastRefreshRejected = False,
     ticks = 0, wire = []\<rparr>"

definition demo_env :: env where
  "demo_env = documented_env stale_net (\<lambda>n. 1000) (\<lambda>_. Num 1800000)"

lemma demo_contracts: "ky_contract demo_env" "lock_contract demo_env" "\<not> refreshInFlight demo_client"
  by (simp_all add: demo_env_def documented_contracts demo_client_def)

lemmas demo_defs = demo_env_def demo_client_def demo_storage_def stale_net_def plain_response_def

section \<open>Witnesses\<close>

theorem after_hook_session_witness:
  "tok (storage (snd (run_state (after_hook
       (documented_env (\<lambda>h r. Inr (plain_response 401 JNull)) (\<lambda>n. 1000) (\<lambda>_. NaN))
       (mk_request demo_env GET ''devices'' no_args) (plain_response 401 JNull)) demo_client))) = None \<and>
   tok (storage (snd (run_state (after_hook
       (documented_env (\<lambda>h r. Inr (plain_response 502 JNull)) (\<lambda>n. 1000) (\<lambda>_. NaN))
       (mk_request demo_env GET ''devices'' no_args) (plain_response 401 JNull)) demo_client))) = Some ''T1''"
  unfolding after_hook_session [OF documented_contracts demo_contracts(3)]
  by (simp add: skip_retry_def Let_def
      plain_response_def rs_ok_def clear_def notify_def demo_defs mk_request_def no_args_def
      startsWith_def endsWith_def)

theorem api_wire_shape_witness:
  "\<exists>x s'. run_state (api demo_env GET ''devices'' no_args) demo_client = (x, s') \<and>
    \<not> refreshInFlight s'"
  using api_wire_shape [OF demo_contracts, of GET "''devices''" no_args] by (metis surj_pair)

theorem before_hook_bearer_witness:
  "\<exists>r' s'. run_state (before_hook demo_env (mk_request demo_env GET ''devices'' no_args)) demo_client = (r', s') \<and>
    wire s' = []"
proof -
  obtain r' s' where e: "run_state (before_hook demo_env (mk_request demo_env GET ''devices'' no_args)) demo_client = (r', s')"
    by force
  with before_hook_bearer [OF demo_contracts e] show ?thesis
    by (simp add: isExpiringSoon_def demo_defs)
qed

theorem api_bootstrap_no_retry_witness:
  "\<exists>x s'. run_state (api demo_env POST ''auth/login'' no_args) demo_client = (x, s') \<and>
    length (wire s') = 1"
proof -
  obtain x s' where e: "run_state (api demo_env POST ''auth/login'' no_args) demo_client = (x, s')"
    by force
  have "a_search no_args = []" by (simp add: no_args_def)
  from api_bootstrap_no_retry [OF demo_contracts _ this e] have "length (wire s') = 1"
    by (auto simp: demo_client_def)
  with e show ?thesis by blast
qed

theorem api_recovers_witness:
  "\<exists>x s'. run_state (api demo_env GET ''devices'' no_args) demo_client = (x, s') \<and>
    tok (storage s') = Some ''T2''"
proof -
  obtain x s' where e: "run_state (api demo_env GET ''devices'' no_args) demo_client = (x, s')"
    by force
  let ?r = "bearer ''T1'' (mk_request demo_env GET ''devices'' no_args)"
  let ?st = "plain_response 401 (JObj [(''detail'', JStr ''token expired'')])"
  let ?q = "plain_response 200 (JObj [(''access_token'', JStr ''T2''), (''expires_at'', JStr ''later'')])"
  have url: "rq_url (mk_request demo_env GET ''devices'' no_args) = ''/api/v1/devices''"
    by (simp add: demo_env_def mk_request_def no_args_def)
  have h1: "\<not> isExpiringSoon 60000 (clock demo_env (ticks demo_client)) (storage demo_client)"
    and h2: "getAccessToken (browser demo_env) (clock demo_env (Suc (ticks demo_client))) (storage demo_client)
        = (Some ''T1'', storage demo_client)"
    by (simp_all add: isExpiringSoon_def getAccessToken_def demo_defs)
  have h3: "net demo_env (wire demo_client) ?r = Inr ?st"
    by (simp add: demo_env_def stale_net_def bearer_def url) (simp add: mk_request_def no_args_def)
  have h4: "\<not> skip_retry (mk_request demo_env GET ''devices'' no_args) ?st"
    by (simp add: skip_retry_def url plain_response_def startsWith_def endsWith_def)
  have h5: "net demo_env (wire demo_client @ [?r]) (refresh_request demo_env) = Inr ?q"
    by (simp add: demo_env_def stale_net_def refresh_request_def)
  have h6: "rs_ok ?q" "token_body ?q = Some (''T2'', ''later'')"
    by (simp_all add: rs_ok_def token_body_def token_pair_def plain_response_def)
  from api_recovers [OF demo_contracts h1 h2 _ h3 h4 h5 h6 _ e] e show ?thesis
    by (auto simp: setAccessToken_def notify_def Let_def)
qed

end
