(* ===== verification/Inventory_Api.thy ===== *)
theory Inventory_Api
  imports Api_Laws
begin

text \<open>
  The client functions for the inventory: devices, sites, tenants, drivers, live resources,
  packages, firmware and backups. Each function is one request through the
  shared client; those that change something turn a failure into an \<open>Error\<close> with the
  server's message (\<open>guarded\<close>). Payload interfaces are records, with the JSON document
  \<open>JSON.stringify\<close> makes of them.
\<close>

section \<open>devices.ts\<close>

record DeviceCreate =
  dc_site_id :: string
  dc_vendor :: string
  dc_name :: string
  dc_host :: string
  dc_port :: "rat jopt"
  dc_ssh_port :: "rat jopt"
  dc_transport :: "string jopt"
  dc_verify_tls :: "bool jopt"
  dc_username :: string
  dc_password :: "string jopt"
  dc_api_key :: "string jopt"
  dc_generate_ssh_key :: "bool jopt"
  dc_ssh_private_key :: "string jopt"
  dc_become_method :: "string jopt"
  dc_become_password :: "string jopt"
  dc_notes :: "string jopt"

definition DeviceCreate_json :: "DeviceCreate \<Rightarrow> json" where
  "DeviceCreate_json p = JObj (
     [(''site_id'', JStr (dc_site_id p))] @
     [(''vendor'', JStr (dc_vendor p))] @
     [(''name'', JStr (dc_name p))] @
     [(''host'', JStr (dc_host p))] @
     jfield ''port'' JNum (dc_port p) @
     jfield ''ssh_port'' JNum (dc_ssh_port p) @
     jfield ''transport'' JStr (dc_transport p) @
     jfield ''verify_tls'' JBool (dc_verify_tls p) @
     [(''username'', JStr (dc_username p))] @
     jfield ''password'' JStr (dc_password p) @
     jfield ''api_key'' JStr (dc_api_key p) @
     jfield ''generate_ssh_key'' JBool (dc_generate_ssh_key p) @
     jfield ''ssh_private_key'' JStr (dc_ssh_private_key p) @
     jfield ''become_method'' JStr (dc_become_method p) @
     jfield ''become_password'' JStr (dc_become_password p) @
     jfield ''notes'' JStr (dc_notes p))"

record DeviceUpdate =
  du_name :: "string jopt"
  du_host :: "string jopt"
  du_port :: "rat jopt"
  du_ssh_port :: "rat jopt"
  du_transport :: "string jopt"
  du_verify_tls :: "bool jopt"
  du_username :: "string jopt"
  du_password :: "string jopt"
  du_api_key :: "string jopt"
  du_ssh_private_key :: "string jopt"
  du_become_method :: "string jopt"
  du_become_password :: "string jopt"
  du_reset_host_key :: "bool jopt"
  du_site_id :: "string jopt"
  du_is_enabled :: "bool jopt"
  du_notes :: "string jopt"

definition DeviceUpdate_json :: "DeviceUpdate \<Rightarrow> json" where
  "DeviceUpdate_json p = JObj (
     jfield ''name'' JStr (du_name p) @
     jfield ''host'' JStr (du_host p) @
     jfield ''port'' JNum (du_port p) @
     jfield ''ssh_port'' JNum (du_ssh_port p) @
     jfield ''transport'' JStr (du_transport p) @
     jfield ''verify_tls'' JBool (du_verify_tls p) @
     jfield ''username'' JStr (du_username p) @
     jfield ''password'' JStr (du_password p) @
     jfield ''api_key'' JStr (du_api_key p) @
     jfield ''ssh_private_key'' JStr (du_ssh_private_key p) @
     jfield ''become_method'' JStr (du_become_method p) @
     jfield ''become_password'' JStr (du_become_password p) @
     jfield ''reset_host_key'' JBool (du_reset_host_key p) @
     jfield ''site_id'' JStr (du_site_id p) @
     jfield ''is_enabled'' JBool (du_is_enabled p) @
     jfield ''notes'' JStr (du_notes p))"

definition listDevices :: "env \<Rightarrow> string option \<Rightarrow> json call" where
  "listDevices E siteId =
     api_json E GET ''devices''
       (with_search (if truthy_str siteId then [(''site_id'', the siteId)] else []))"

definition getDevice :: "env \<Rightarrow> string \<Rightarrow> json call" where
  "getDevice E id' =
     api_json E GET (''devices/'' @ id') no_args"

definition createDevice :: "env \<Rightarrow> DeviceCreate \<Rightarrow> json call" where
  "createDevice E payload =
     guarded E (api_json E POST ''devices''
       (no_args\<lparr>a_json := Some (DeviceCreate_json payload)\<rparr>))"

definition updateDevice :: "env \<Rightarrow> string \<Rightarrow> DeviceUpdate \<Rightarrow> json call" where
  "updateDevice E id' payload =
     guarded E (api_json E PATCH (''devices/'' @ id')
       (no_args\<lparr>a_json := Some (DeviceUpdate_json payload)\<rparr>))"

definition deleteDevice :: "env \<Rightarrow> string \<Rightarrow> unit call" where
  "deleteDevice E id' =
     guarded E (api_unit E DELETE (''devices/'' @ id') no_args)"

definition testDeviceConnection :: "env \<Rightarrow> string \<Rightarrow> json call" where
  "testDeviceConnection E id' =
     api_json E POST (''devices/'' @ id' @ ''/test-connection'') no_args"

definition rebootDevice :: "env \<Rightarrow> string \<Rightarrow> unit call" where
  "rebootDevice E id' =
     guarded E (api_unit E POST (''devices/'' @ id' @ ''/reboot'')
       (no_args\<lparr>a_timeout := 30000\<rparr>))"

text \<open>\<open>.text()\<close> of the answer.\<close>

definition getOnboardingScript :: "env \<Rightarrow> string \<Rightarrow> bool option \<Rightarrow> string call" where
  "getOnboardingScript E id' includePassword =
     (let inc = (case includePassword of None \<Rightarrow> True | Some b \<Rightarrow> b)
      in guarded E (awaiting
           (api E GET (''devices/'' @ id' @ ''/onboarding-script'')
              (with_search [(''include_password'', bool_str inc)]))
           (\<lambda>r. ret (Inr (rs_text r)))))"

definition rotateDeviceSshKey :: "env \<Rightarrow> string \<Rightarrow> json call" where
  "rotateDeviceSshKey E deviceId =
     guarded E (api_json E POST (''devices/'' @ deviceId @ ''/rotate-ssh-key'')
       (no_args\<lparr>a_timeout := 90000\<rparr>))"

section \<open>sites.ts\<close>

record SiteCreate =
  sc_tenant_id :: string
  sc_name :: string
  sc_slug :: string
  sc_address :: "string jopt"
  sc_latitude :: "rat jopt"
  sc_longitude :: "rat jopt"
  sc_contact_email :: "string jopt"
  sc_contact_phone :: "string jopt"
  sc_notes :: "string jopt"

definition SiteCreate_json :: "SiteCreate \<Rightarrow> json" where
  "SiteCreate_json p = JObj (
     [(''tenant_id'', JStr (sc_tenant_id p))] @
     [(''name'', JStr (sc_name p))] @
     [(''slug'', JStr (sc_slug p))] @
     jfield ''address'' JStr (sc_address p) @
     jfield ''latitude'' JNum (sc_latitude p) @
     jfield ''longitude'' JNum (sc_longitude p) @
     jfield ''contact_email'' JStr (sc_contact_email p) @
     jfield ''contact_phone'' JStr (sc_contact_phone p) @
     jfield ''notes'' JStr (sc_notes p))"

record SiteUpdate =
  su_name :: "string jopt"
  su_address :: "string jopt"
  su_latitude :: "rat jopt"
  su_longitude :: "rat jopt"
  su_contact_email :: "string jopt"
  su_contact_phone :: "string jopt"
  su_notes :: "string jopt"
  su_tenant_id :: "string jopt"

definition SiteUpdate_json :: "SiteUpdate \<Rightarrow> json" where
  "SiteUpdate_json p = JObj (
     jfield ''name'' JStr (su_name p) @
     jfield ''address'' JStr (su_address p) @
     jfield ''latitude'' JNum (su_latitude p) @
     jfield ''longitude'' JNum (su_longitude p) @
     jfield ''contact_email'' JStr (su_contact_email p) @
     jfield ''contact_phone'' JStr (su_contact_phone p) @
     jfield ''notes'' JStr (su_notes p) @
     jfield ''tenant_id'' JStr (su_tenant_id p))"

definition listSites :: "env \<Rightarrow> string option \<Rightarrow> json call" where
  "listSites E tenantId =
     api_json E GET ''sites''
       (with_search (if truthy_str tenantId then [(''tenant_id'', the tenantId)] else []))"

definition getSite :: "env \<Rightarrow> string \<Rightarrow> json call" where
  "getSite E id' =
     api_json E GET (''sites/'' @ id') no_args"

definition createSite :: "env \<Rightarrow> SiteCreate \<Rightarrow> json call" where
  "createSite E payload =
     guarded E (api_json E POST ''sites''
       (no_args\<lparr>a_json := Some (SiteCreate_json payload)\<rparr>))"

definition updateSite :: "env \<Rightarrow> string \<Rightarrow> SiteUpdate \<Rightarrow> json call" where
  "updateSite E id' payload =
     guarded E (api_json E PATCH (''sites/'' @ id')
       (no_args\<lparr>a_json := Some (SiteUpdate_json payload)\<rparr>))"

definition deleteSite :: "env \<Rightarrow> string \<Rightarrow> unit call" where
  "deleteSite E id' =
     guarded E (api_unit E DELETE (''sites/'' @ id') no_args)"

section \<open>tenants.ts\<close>

record TenantCreate =
  tc_name :: string
  tc_slug :: string
  tc_description :: "string jopt"
  tc_primary_contact_name :: "string jopt"
  tc_primary_contact_email :: "string jopt"
  tc_primary_contact_phone :: "string jopt"

definition TenantCreate_json :: "TenantCreate \<Rightarrow> json" where
  "TenantCreate_json p = JObj (
     [(''name'', JStr (tc_name p))] @
     [(''slug'', JStr (tc_slug p))] @
     jfield ''description'' JStr (tc_description p) @
     jfield ''primary_contact_name'' JStr (tc_primary_contact_name p) @
     jfield ''primary_contact_email'' JStr (tc_primary_contact_email p) @
     jfield ''primary_contact_phone'' JStr (tc_primary_contact_phone p))"

record TenantUpdate =
  tu_name :: "string jopt"
  tu_description :: "string jopt"
  tu_primary_contact_name :: "string jopt"
  tu_primary_contact_email :: "string jopt"
  tu_primary_contact_phone :: "string jopt"

definition TenantUpdate_json :: "TenantUpdate \<Rightarrow> json" where
  "TenantUpdate_json p = JObj (
     jfield ''name'' JStr (tu_name p) @
     jfield ''description'' JStr (tu_description p) @
     jfield ''primary_contact_name'' JStr (tu_primary_contact_name p) @
     jfield ''primary_contact_email'' JStr (tu_primary_contact_email p) @
     jfield ''primary_contact_phone'' JStr (tu_primary_contact_phone p))"

definition listTenants :: "env \<Rightarrow> json call" where
  "listTenants E =
     api_json E GET ''tenants'' no_args"

definition getTenant :: "env \<Rightarrow> string \<Rightarrow> json call" where
  "getTenant E id' =
     api_json E GET (''tenants/'' @ id') no_args"

definition createTenant :: "env \<Rightarrow> TenantCreate \<Rightarrow> json call" where
  "createTenant E payload =
     guarded E (api_json E POST ''tenants''
       (no_args\<lparr>a_json := Some (TenantCreate_json payload)\<rparr>))"

definition updateTenant :: "env \<Rightarrow> string \<Rightarrow> TenantUpdate \<Rightarrow> json call" where
  "updateTenant E id' payload =
     guarded E (api_json E PATCH (''tenants/'' @ id')
       (no_args\<lparr>a_json := Some (TenantUpdate_json payload)\<rparr>))"

definition deleteTenant :: "env \<Rightarrow> string \<Rightarrow> unit call" where
  "deleteTenant E id' =
     guarded E (api_unit E DELETE (''tenants/'' @ id') no_args)"

section \<open>drivers.ts\<close>

definition listDrivers :: "env \<Rightarrow> json call" where
  "listDrivers E =
     api_json E GET ''drivers'' no_args"

section \<open>resources.ts\<close>

definition getResources :: "env \<Rightarrow> string \<Rightarrow> json call" where
  "getResources E deviceId =
     api_json E GET (''devices/'' @ deviceId @ ''/resources'')
       (no_args\<lparr>a_timeout := 30000\<rparr>)"

definition getDisks :: "env \<Rightarrow> string \<Rightarrow> json call" where
  "getDisks E deviceId =
     api_json E GET (''devices/'' @ deviceId @ ''/disks'')
       (no_args\<lparr>a_timeout := 30000\<rparr>)"

section \<open>packages.ts\<close>

definition getPackages :: "env \<Rightarrow> string \<Rightarrow> json call" where
  "getPackages E deviceId =
     api_json E GET (''devices/'' @ deviceId @ ''/packages'')
       (no_args\<lparr>a_timeout := 90000\<rparr>)"

definition listPackageRuns :: "env \<Rightarrow> string \<Rightarrow> json call" where
  "listPackageRuns E deviceId =
     api_json E GET (''devices/'' @ deviceId @ ''/package-runs'') no_args"

definition refreshPackages :: "env \<Rightarrow> string \<Rightarrow> json call" where
  "refreshPackages E deviceId =
     guarded E (api_json E POST (''devices/'' @ deviceId @ ''/packages/refresh'') no_args)"

definition upgradePackages :: "env \<Rightarrow> string \<Rightarrow> string list \<Rightarrow> bool \<Rightarrow> json call" where
  "upgradePackages E deviceId packages securityOnly =
     guarded E (api_json E POST (''devices/'' @ deviceId @ ''/packages/upgrade'')
       (no_args\<lparr>a_json := Some (JObj [(''packages'', jstrs packages), (''security_only'', JBool securityOnly)])\<rparr>))"

section \<open>firmware.ts\<close>

record AutoUpgradePolicy =
  aup_enabled :: bool
  aup_window_start_hour :: "rat option"
  aup_window_end_hour :: "rat option"

definition AutoUpgradePolicy_json :: "AutoUpgradePolicy \<Rightarrow> json" where
  "AutoUpgradePolicy_json p = JObj (
     [(''enabled'', JBool (aup_enabled p))] @
     [(''window_start_hour'', jnull JNum (aup_window_start_hour p))] @
     [(''window_end_hour'', jnull JNum (aup_window_end_hour p))])"

definition getFleetFirmwareSummary :: "env \<Rightarrow> json call" where
  "getFleetFirmwareSummary E =
     api_json E GET ''firmware/summary'' no_args"

definition getDeviceFirmware :: "env \<Rightarrow> string \<Rightarrow> json call" where
  "getDeviceFirmware E deviceId =
     api_json E GET (''devices/'' @ deviceId @ ''/firmware'') no_args"

definition checkDeviceFirmware :: "env \<Rightarrow> string \<Rightarrow> json call" where
  "checkDeviceFirmware E deviceId =
     guarded E (api_json E POST (''devices/'' @ deviceId @ ''/firmware/check'')
       (no_args\<lparr>a_timeout := 60000\<rparr>))"

datatype FirmwareUpgradeTarget = routeros | routerboard | both

fun target_name :: "FirmwareUpgradeTarget \<Rightarrow> string" where
  "target_name routeros = ''routeros''"
| "target_name routerboard = ''routerboard''"
| "target_name both = ''both''"

definition triggerFirmwareUpgrade :: "env \<Rightarrow> string \<Rightarrow> FirmwareUpgradeTarget \<Rightarrow> json call" where
  "triggerFirmwareUpgrade E deviceId target =
     guarded E (api_json E POST (''devices/'' @ deviceId @ ''/firmware/upgrade'')
      
       (no_args\<lparr>a_json := Some (JObj [(''target'', JStr (target_name target))]),
         a_timeout := 60000\<rparr>))"

definition getFirmwareUpgradeStatus :: "env \<Rightarrow> string \<Rightarrow> json call" where
  "getFirmwareUpgradeStatus E deviceId =
     api_json E GET (''devices/'' @ deviceId @ ''/firmware/upgrade-status'') no_args"

definition getAutoUpgradePolicy :: "env \<Rightarrow> string \<Rightarrow> json call" where
  "getAutoUpgradePolicy E deviceId =
     api_json E GET (''devices/'' @ deviceId @ ''/firmware/policy'') no_args"

definition setAutoUpgradePolicy :: "env \<Rightarrow> string \<Rightarrow> AutoUpgradePolicy \<Rightarrow> json call" where
  "setAutoUpgradePolicy E deviceId policy =
     guarded E (api_json E PUT (''devices/'' @ deviceId @ ''/firmware/policy'')
       (no_args\<lparr>a_json := Some (AutoUpgradePolicy_json policy)\<rparr>))"

section \<open>backups.ts\<close>

definition listDeviceBackups :: "env \<Rightarrow> string \<Rightarrow> rat \<Rightarrow> json call" where
  "listDeviceBackups E deviceId limit =
     api_json E GET (''devices/'' @ deviceId @ ''/backups'')
       (no_args\<lparr>a_search := [(''limit'', numstr E limit)]\<rparr>)"

definition triggerBackup :: "env \<Rightarrow> string \<Rightarrow> json call" where
  "triggerBackup E deviceId =
     guarded E (api_json E POST (''devices/'' @ deviceId @ ''/backups'')
       (no_args\<lparr>a_timeout := 120000\<rparr>))"

definition backupDownloadUrl :: "string \<Rightarrow> string \<Rightarrow> string \<Rightarrow> string" where
  "backupDownloadUrl deviceId backupId kind =
     ''/api/v1/devices/'' @ deviceId @ ''/backups/'' @ backupId @ ''/file/'' @ kind"

text \<open>The saved file: the caller's name and the content.\<close>

definition downloadBackupFile ::
  "env \<Rightarrow> string \<Rightarrow> string \<Rightarrow> string \<Rightarrow> string \<Rightarrow> (string \<times> string) call" where
  "downloadBackupFile E deviceId backupId kind filename =
     awaiting (authed_fetch E (backupDownloadUrl deviceId backupId kind))
       (\<lambda>r. ret (Inr (filename, rs_text r)))"

definition restoreBackup :: "env \<Rightarrow> string \<Rightarrow> string \<Rightarrow> json call" where
  "restoreBackup E deviceId backupId =
     guarded E (api_json E POST (''devices/'' @ deviceId @ ''/backups/'' @ backupId @ ''/restore'')
       (no_args\<lparr>a_timeout := 60000\<rparr>))"

end
