(* ===== verification/Host_Api.thy ===== *)
theory Host_Api
  imports Api_Laws
begin

text \<open>
  The client functions for one host: Linux host details, IP services and local accounts,
  clock, NTP and SNMP, and the logging subsystem. Each function is one request through the
  shared client; those that change something turn a failure into an \<open>Error\<close> with the
  server's message (\<open>guarded\<close>). Payload interfaces are records, with the JSON document
  \<open>JSON.stringify\<close> makes of them.
\<close>

section \<open>linux.ts\<close>

definition getInterfaceConfigs :: "env \<Rightarrow> string \<Rightarrow> json call" where
  "getInterfaceConfigs E deviceId =
     api_json E GET (''devices/'' @ deviceId @ ''/interface-configs'')
       (no_args\<lparr>a_timeout := 40000\<rparr>)"

definition getDiskTree :: "env \<Rightarrow> string \<Rightarrow> string \<Rightarrow> json call" where
  "getDiskTree E deviceId path =
     api_json E GET (''devices/'' @ deviceId @ ''/disk-tree'')
       (no_args\<lparr>a_search := [(''path'', path)], a_timeout := 130000\<rparr>)"

definition getProcesses :: "env \<Rightarrow> string \<Rightarrow> rat \<Rightarrow> json call" where
  "getProcesses E deviceId limit =
     api_json E GET (''devices/'' @ deviceId @ ''/processes'')
       (no_args\<lparr>a_search := [(''limit'', numstr E limit)], a_timeout := 40000\<rparr>)"

definition syncNtpNow :: "env \<Rightarrow> string \<Rightarrow> json call" where
  "syncNtpNow E deviceId =
     api_json E POST (''devices/'' @ deviceId @ ''/ntp/sync'')
       (no_args\<lparr>a_timeout := 40000\<rparr>)"

definition getScheduledJobs :: "env \<Rightarrow> string \<Rightarrow> json call" where
  "getScheduledJobs E deviceId =
     api_json E GET (''devices/'' @ deviceId @ ''/scheduled-jobs'')
       (no_args\<lparr>a_timeout := 40000\<rparr>)"

section \<open>device-ops.ts\<close>

record IpServiceUpdate =
  isu_enabled :: "bool jopt"
  isu_port :: "rat jopt"
  isu_address :: "string jopt"

definition IpServiceUpdate_json :: "IpServiceUpdate \<Rightarrow> json" where
  "IpServiceUpdate_json p = JObj (
     jfield ''enabled'' JBool (isu_enabled p) @
     jfield ''port'' JNum (isu_port p) @
     jfield ''address'' JStr (isu_address p))"

record DeviceUserCreate =
  duc_username :: string
  duc_password :: "string jopt"
  duc_groups :: "string list jopt"
  duc_shell :: "string jopt"
  duc_comment :: "string jopt"
  duc_create_home :: "bool jopt"

definition DeviceUserCreate_json :: "DeviceUserCreate \<Rightarrow> json" where
  "DeviceUserCreate_json p = JObj (
     [(''username'', JStr (duc_username p))] @
     jfield ''password'' JStr (duc_password p) @
     jfield ''groups'' jstrs (duc_groups p) @
     jfield ''shell'' JStr (duc_shell p) @
     jfield ''comment'' JStr (duc_comment p) @
     jfield ''create_home'' JBool (duc_create_home p))"

definition listIpServices :: "env \<Rightarrow> string \<Rightarrow> json call" where
  "listIpServices E deviceId =
     guarded E (api_json E GET (''devices/'' @ deviceId @ ''/ip-services'') no_args)"

definition updateIpService :: "env \<Rightarrow> string \<Rightarrow> string \<Rightarrow> IpServiceUpdate \<Rightarrow> unit call" where
  "updateIpService E deviceId name payload =
     guarded E (api_unit E PATCH (''devices/'' @ deviceId @ ''/ip-services/'' @ name)
       (no_args\<lparr>a_json := Some (IpServiceUpdate_json payload)\<rparr>))"

definition listDeviceGroups :: "env \<Rightarrow> string \<Rightarrow> json call" where
  "listDeviceGroups E deviceId =
     api_json E GET (''devices/'' @ deviceId @ ''/system-groups'') no_args"

definition createDeviceUser :: "env \<Rightarrow> string \<Rightarrow> DeviceUserCreate \<Rightarrow> unit call" where
  "createDeviceUser E deviceId payload =
     guarded E (api_unit E POST (''devices/'' @ deviceId @ ''/system-users'')
       (no_args\<lparr>a_json := Some (DeviceUserCreate_json payload)\<rparr>))"

definition deleteDeviceUser :: "env \<Rightarrow> string \<Rightarrow> string \<Rightarrow> bool \<Rightarrow> unit call" where
  "deleteDeviceUser E deviceId username removeHome =
     guarded E (api_unit E DELETE (''devices/'' @ deviceId @ ''/system-users/'' @ username)
       (no_args\<lparr>a_search := [(''remove_home'', bool_str removeHome)]\<rparr>))"

definition setDeviceUserGroups :: "env \<Rightarrow> string \<Rightarrow> string \<Rightarrow> string list \<Rightarrow> unit call" where
  "setDeviceUserGroups E deviceId username groups =
     guarded E (api_unit E PUT (''devices/'' @ deviceId @ ''/system-users/'' @ username @ ''/groups'')
       (no_args\<lparr>a_json := Some (JObj [(''groups'', jstrs groups)])\<rparr>))"

definition createDeviceGroup :: "env \<Rightarrow> string \<Rightarrow> string \<Rightarrow> unit call" where
  "createDeviceGroup E deviceId name =
     guarded E (api_unit E POST (''devices/'' @ deviceId @ ''/system-groups'')
       (no_args\<lparr>a_json := Some (JObj [(''name'', JStr name)])\<rparr>))"

definition deleteDeviceGroup :: "env \<Rightarrow> string \<Rightarrow> string \<Rightarrow> unit call" where
  "deleteDeviceGroup E deviceId name =
     guarded E (api_unit E DELETE (''devices/'' @ deviceId @ ''/system-groups/'' @ name) no_args)"

definition listDeviceUsers :: "env \<Rightarrow> string \<Rightarrow> json call" where
  "listDeviceUsers E deviceId =
     guarded E (api_json E GET (''devices/'' @ deviceId @ ''/system-users'') no_args)"

definition resetDeviceUserPassword :: "env \<Rightarrow> string \<Rightarrow> string \<Rightarrow> string \<Rightarrow> unit call" where
  "resetDeviceUserPassword E deviceId username newPassword =
     guarded E (api_unit E POST (''devices/'' @ deviceId @ ''/system-users/'' @ username @ ''/password'')
       (no_args\<lparr>a_json := Some (JObj [(''new_password'', JStr newPassword)])\<rparr>))"

definition setDeviceUserDisabled :: "env \<Rightarrow> string \<Rightarrow> string \<Rightarrow> bool \<Rightarrow> unit call" where
  "setDeviceUserDisabled E deviceId username disabled =
     guarded E (api_unit E POST (''devices/'' @ deviceId @ ''/system-users/'' @ username @ ''/disabled'')
       (no_args\<lparr>a_json := Some (JObj [(''disabled'', JBool disabled)])\<rparr>))"

section \<open>router-system.ts\<close>

record NtpUpdate =
  nu_enabled :: "bool jopt"
  nu_mode :: "string jopt"
  nu_servers :: "string jopt"
  nu_primary :: "string jopt"
  nu_secondary :: "string jopt"

definition NtpUpdate_json :: "NtpUpdate \<Rightarrow> json" where
  "NtpUpdate_json p = JObj (
     jfield ''enabled'' JBool (nu_enabled p) @
     jfield ''mode'' JStr (nu_mode p) @
     jfield ''servers'' JStr (nu_servers p) @
     jfield ''primary'' JStr (nu_primary p) @
     jfield ''secondary'' JStr (nu_secondary p))"

record NtpServerUpdate =
  nsu_enabled :: "bool jopt"
  nsu_broadcast :: "bool jopt"
  nsu_multicast :: "bool jopt"
  nsu_manycast :: "bool jopt"

definition NtpServerUpdate_json :: "NtpServerUpdate \<Rightarrow> json" where
  "NtpServerUpdate_json p = JObj (
     jfield ''enabled'' JBool (nsu_enabled p) @
     jfield ''broadcast'' JBool (nsu_broadcast p) @
     jfield ''multicast'' JBool (nsu_multicast p) @
     jfield ''manycast'' JBool (nsu_manycast p))"

record SnmpUpdate =
  su_enabled :: "bool jopt"
  su_contact :: "string jopt"
  su_location :: "string jopt"
  su_trap_target :: "string jopt"
  su_trap_version :: "string jopt"

definition SnmpUpdate_json :: "SnmpUpdate \<Rightarrow> json" where
  "SnmpUpdate_json p = JObj (
     jfield ''enabled'' JBool (su_enabled p) @
     jfield ''contact'' JStr (su_contact p) @
     jfield ''location'' JStr (su_location p) @
     jfield ''trap_target'' JStr (su_trap_target p) @
     jfield ''trap_version'' JStr (su_trap_version p))"

record SnmpCommunityCreate =
  scc_name :: string
  scc_addresses :: "string jopt"
  scc_security :: "string jopt"
  scc_read_access :: bool
  scc_write_access :: bool

definition SnmpCommunityCreate_json :: "SnmpCommunityCreate \<Rightarrow> json" where
  "SnmpCommunityCreate_json p = JObj (
     [(''name'', JStr (scc_name p))] @
     jfield ''addresses'' JStr (scc_addresses p) @
     jfield ''security'' JStr (scc_security p) @
     [(''read_access'', JBool (scc_read_access p))] @
     [(''write_access'', JBool (scc_write_access p))])"

record SnmpCommunityUpdate =
  scu_name :: "string jopt"
  scu_addresses :: "string jopt"
  scu_security :: "string jopt"
  scu_read_access :: "bool jopt"
  scu_write_access :: "bool jopt"
  scu_disabled :: "bool jopt"

definition SnmpCommunityUpdate_json :: "SnmpCommunityUpdate \<Rightarrow> json" where
  "SnmpCommunityUpdate_json p = JObj (
     jfield ''name'' JStr (scu_name p) @
     jfield ''addresses'' JStr (scu_addresses p) @
     jfield ''security'' JStr (scu_security p) @
     jfield ''read_access'' JBool (scu_read_access p) @
     jfield ''write_access'' JBool (scu_write_access p) @
     jfield ''disabled'' JBool (scu_disabled p))"

record DeviceClockUpdate =
  dcu_time_zone_name :: "string jopt"
  dcu_time_zone_autodetect :: "bool jopt"

definition DeviceClockUpdate_json :: "DeviceClockUpdate \<Rightarrow> json" where
  "DeviceClockUpdate_json p = JObj (
     jfield ''time_zone_name'' JStr (dcu_time_zone_name p) @
     jfield ''time_zone_autodetect'' JBool (dcu_time_zone_autodetect p))"

definition getNtp :: "env \<Rightarrow> string \<Rightarrow> json call" where
  "getNtp E deviceId =
     api_json E GET (''devices/'' @ deviceId @ ''/ntp'') no_args"

definition updateNtp :: "env \<Rightarrow> string \<Rightarrow> NtpUpdate \<Rightarrow> unit call" where
  "updateNtp E deviceId payload =
     guarded E (api_unit E PATCH (''devices/'' @ deviceId @ ''/ntp'')
       (no_args\<lparr>a_json := Some (NtpUpdate_json payload)\<rparr>))"

definition getNtpServer :: "env \<Rightarrow> string \<Rightarrow> json call" where
  "getNtpServer E deviceId =
     api_json E GET (''devices/'' @ deviceId @ ''/ntp-server'') no_args"

definition updateNtpServer :: "env \<Rightarrow> string \<Rightarrow> NtpServerUpdate \<Rightarrow> unit call" where
  "updateNtpServer E deviceId payload =
     guarded E (api_unit E PATCH (''devices/'' @ deviceId @ ''/ntp-server'')
       (no_args\<lparr>a_json := Some (NtpServerUpdate_json payload)\<rparr>))"

definition getDeviceClock :: "env \<Rightarrow> string \<Rightarrow> json call" where
  "getDeviceClock E deviceId =
     api_json E GET (''devices/'' @ deviceId @ ''/clock'') no_args"

definition updateDeviceClock :: "env \<Rightarrow> string \<Rightarrow> DeviceClockUpdate \<Rightarrow> unit call" where
  "updateDeviceClock E deviceId payload =
     guarded E (api_unit E PATCH (''devices/'' @ deviceId @ ''/clock'')
       (no_args\<lparr>a_json := Some (DeviceClockUpdate_json payload)\<rparr>))"

definition getSnmp :: "env \<Rightarrow> string \<Rightarrow> json call" where
  "getSnmp E deviceId =
     api_json E GET (''devices/'' @ deviceId @ ''/snmp'') no_args"

definition updateSnmp :: "env \<Rightarrow> string \<Rightarrow> SnmpUpdate \<Rightarrow> unit call" where
  "updateSnmp E deviceId payload =
     guarded E (api_unit E PATCH (''devices/'' @ deviceId @ ''/snmp'')
       (no_args\<lparr>a_json := Some (SnmpUpdate_json payload)\<rparr>))"

definition listSnmpCommunities :: "env \<Rightarrow> string \<Rightarrow> json call" where
  "listSnmpCommunities E deviceId =
     api_json E GET (''devices/'' @ deviceId @ ''/snmp/communities'') no_args"

definition createSnmpCommunity :: "env \<Rightarrow> string \<Rightarrow> SnmpCommunityCreate \<Rightarrow> json call" where
  "createSnmpCommunity E deviceId payload =
     guarded E (api_json E POST (''devices/'' @ deviceId @ ''/snmp/communities'')
       (no_args\<lparr>a_json := Some (SnmpCommunityCreate_json payload)\<rparr>))"

definition deleteSnmpCommunity :: "env \<Rightarrow> string \<Rightarrow> string \<Rightarrow> unit call" where
  "deleteSnmpCommunity E deviceId id' =
     guarded E (api_unit E DELETE (''devices/'' @ deviceId @ ''/snmp/communities/'' @ encodeURIComponent id') no_args)"

definition updateSnmpCommunity :: "env \<Rightarrow> string \<Rightarrow> string \<Rightarrow> SnmpCommunityUpdate \<Rightarrow> unit call" where
  "updateSnmpCommunity E deviceId id' payload =
     guarded E (api_unit E PATCH (''devices/'' @ deviceId @ ''/snmp/communities/'' @ encodeURIComponent id')
       (no_args\<lparr>a_json := Some (SnmpCommunityUpdate_json payload)\<rparr>))"

section \<open>system-logging.ts\<close>

record LoggingRuleCreate =
  lrc_topics :: string
  lrc_action :: string
  lrc_prefix :: "string jopt"
  lrc_disabled :: "bool jopt"

definition LoggingRuleCreate_json :: "LoggingRuleCreate \<Rightarrow> json" where
  "LoggingRuleCreate_json p = JObj (
     [(''topics'', JStr (lrc_topics p))] @
     [(''action'', JStr (lrc_action p))] @
     jfield ''prefix'' JStr (lrc_prefix p) @
     jfield ''disabled'' JBool (lrc_disabled p))"

record LoggingRuleUpdate =
  lru_topics :: "string jopt"
  lru_action :: "string jopt"
  lru_prefix :: "string jopt"
  lru_disabled :: "bool jopt"

definition LoggingRuleUpdate_json :: "LoggingRuleUpdate \<Rightarrow> json" where
  "LoggingRuleUpdate_json p = JObj (
     jfield ''topics'' JStr (lru_topics p) @
     jfield ''action'' JStr (lru_action p) @
     jfield ''prefix'' JStr (lru_prefix p) @
     jfield ''disabled'' JBool (lru_disabled p))"

record LoggingActionCreate =
  lac_name :: string
  lac_target :: string
  lac_remote :: "string jopt"
  lac_remote_port :: "rat jopt"
  lac_src_address :: "string jopt"
  lac_bsd_syslog :: "bool jopt"
  lac_syslog_facility :: "string jopt"
  lac_syslog_severity :: "string jopt"
  lac_memory_lines :: "rat jopt"

definition LoggingActionCreate_json :: "LoggingActionCreate \<Rightarrow> json" where
  "LoggingActionCreate_json p = JObj (
     [(''name'', JStr (lac_name p))] @
     [(''target'', JStr (lac_target p))] @
     jfield ''remote'' JStr (lac_remote p) @
     jfield ''remote_port'' JNum (lac_remote_port p) @
     jfield ''src_address'' JStr (lac_src_address p) @
     jfield ''bsd_syslog'' JBool (lac_bsd_syslog p) @
     jfield ''syslog_facility'' JStr (lac_syslog_facility p) @
     jfield ''syslog_severity'' JStr (lac_syslog_severity p) @
     jfield ''memory_lines'' JNum (lac_memory_lines p))"

definition listLoggingRules :: "env \<Rightarrow> string \<Rightarrow> json call" where
  "listLoggingRules E deviceId =
     api_json E GET (''devices/'' @ deviceId @ ''/logging/rules'') no_args"

definition createLoggingRule :: "env \<Rightarrow> string \<Rightarrow> LoggingRuleCreate \<Rightarrow> json call" where
  "createLoggingRule E deviceId payload =
     guarded E (api_json E POST (''devices/'' @ deviceId @ ''/logging/rules'')
       (no_args\<lparr>a_json := Some (LoggingRuleCreate_json payload)\<rparr>))"

definition updateLoggingRule :: "env \<Rightarrow> string \<Rightarrow> string \<Rightarrow> LoggingRuleUpdate \<Rightarrow> unit call" where
  "updateLoggingRule E deviceId ruleId payload =
     guarded E (api_unit E PATCH (''devices/'' @ deviceId @ ''/logging/rules/'' @ encodeURIComponent ruleId)
       (no_args\<lparr>a_json := Some (LoggingRuleUpdate_json payload)\<rparr>))"

definition deleteLoggingRule :: "env \<Rightarrow> string \<Rightarrow> string \<Rightarrow> unit call" where
  "deleteLoggingRule E deviceId ruleId =
     guarded E (api_unit E DELETE (''devices/'' @ deviceId @ ''/logging/rules/'' @ encodeURIComponent ruleId) no_args)"

definition listLoggingActions :: "env \<Rightarrow> string \<Rightarrow> json call" where
  "listLoggingActions E deviceId =
     api_json E GET (''devices/'' @ deviceId @ ''/logging/actions'') no_args"

definition createLoggingAction :: "env \<Rightarrow> string \<Rightarrow> LoggingActionCreate \<Rightarrow> json call" where
  "createLoggingAction E deviceId payload =
     guarded E (api_json E POST (''devices/'' @ deviceId @ ''/logging/actions'')
       (no_args\<lparr>a_json := Some (LoggingActionCreate_json payload)\<rparr>))"

definition deleteLoggingAction :: "env \<Rightarrow> string \<Rightarrow> string \<Rightarrow> unit call" where
  "deleteLoggingAction E deviceId actionId =
     guarded E (api_unit E DELETE (''devices/'' @ deviceId @ ''/logging/actions/'' @ encodeURIComponent actionId) no_args)"

end
