(* ===== verification/Network_Api.thy ===== *)
theory Network_Api
  imports Api_Laws
begin

text \<open>
  The client functions for addressing and traffic: DHCP, routes, neighbours, VLANs and
  queues. Each function is one request through the
  shared client; those that change something turn a failure into an \<open>Error\<close> with the
  server's message (\<open>guarded\<close>). Payload interfaces are records, with the JSON document
  \<open>JSON.stringify\<close> makes of them.
\<close>

section \<open>dhcp.ts\<close>

record DhcpPoolCreate =
  dpc_name :: string
  dpc_ranges :: string
  dpc_next_pool :: "string jopt"
  dpc_comment :: "string jopt"

definition DhcpPoolCreate_json :: "DhcpPoolCreate \<Rightarrow> json" where
  "DhcpPoolCreate_json p = JObj (
     [(''name'', JStr (dpc_name p))] @
     [(''ranges'', JStr (dpc_ranges p))] @
     jfield ''next_pool'' JStr (dpc_next_pool p) @
     jfield ''comment'' JStr (dpc_comment p))"

record DhcpServerCreate =
  dsc_name :: string
  dsc_interface :: string
  dsc_address_pool :: "string jopt"
  dsc_lease_time :: "string jopt"
  dsc_authoritative :: "string jopt"
  dsc_disabled :: "bool jopt"
  dsc_comment :: "string jopt"

definition DhcpServerCreate_json :: "DhcpServerCreate \<Rightarrow> json" where
  "DhcpServerCreate_json p = JObj (
     [(''name'', JStr (dsc_name p))] @
     [(''interface'', JStr (dsc_interface p))] @
     jfield ''address_pool'' JStr (dsc_address_pool p) @
     jfield ''lease_time'' JStr (dsc_lease_time p) @
     jfield ''authoritative'' JStr (dsc_authoritative p) @
     jfield ''disabled'' JBool (dsc_disabled p) @
     jfield ''comment'' JStr (dsc_comment p))"

record DhcpNetworkCreate =
  dnc_address :: string
  dnc_gateway :: "string jopt"
  dnc_netmask :: "string jopt"
  dnc_dns_servers :: "string jopt"
  dnc_ntp_servers :: "string jopt"
  dnc_domain :: "string jopt"
  dnc_comment :: "string jopt"

definition DhcpNetworkCreate_json :: "DhcpNetworkCreate \<Rightarrow> json" where
  "DhcpNetworkCreate_json p = JObj (
     [(''address'', JStr (dnc_address p))] @
     jfield ''gateway'' JStr (dnc_gateway p) @
     jfield ''netmask'' JStr (dnc_netmask p) @
     jfield ''dns_servers'' JStr (dnc_dns_servers p) @
     jfield ''ntp_servers'' JStr (dnc_ntp_servers p) @
     jfield ''domain'' JStr (dnc_domain p) @
     jfield ''comment'' JStr (dnc_comment p))"

record DhcpPoolUpdate =
  dpu_name :: "string jopt"
  dpu_ranges :: "string jopt"
  dpu_next_pool :: "string jopt"
  dpu_comment :: "string jopt"

definition DhcpPoolUpdate_json :: "DhcpPoolUpdate \<Rightarrow> json" where
  "DhcpPoolUpdate_json p = JObj (
     jfield ''name'' JStr (dpu_name p) @
     jfield ''ranges'' JStr (dpu_ranges p) @
     jfield ''next_pool'' JStr (dpu_next_pool p) @
     jfield ''comment'' JStr (dpu_comment p))"

record DhcpServerUpdate =
  dsu_name :: "string jopt"
  dsu_interface :: "string jopt"
  dsu_address_pool :: "string jopt"
  dsu_lease_time :: "string jopt"
  dsu_authoritative :: "string jopt"
  dsu_disabled :: "bool jopt"
  dsu_comment :: "string jopt"

definition DhcpServerUpdate_json :: "DhcpServerUpdate \<Rightarrow> json" where
  "DhcpServerUpdate_json p = JObj (
     jfield ''name'' JStr (dsu_name p) @
     jfield ''interface'' JStr (dsu_interface p) @
     jfield ''address_pool'' JStr (dsu_address_pool p) @
     jfield ''lease_time'' JStr (dsu_lease_time p) @
     jfield ''authoritative'' JStr (dsu_authoritative p) @
     jfield ''disabled'' JBool (dsu_disabled p) @
     jfield ''comment'' JStr (dsu_comment p))"

record DhcpNetworkUpdate =
  dnu_address :: "string jopt"
  dnu_gateway :: "string jopt"
  dnu_netmask :: "string jopt"
  dnu_dns_servers :: "string jopt"
  dnu_ntp_servers :: "string jopt"
  dnu_domain :: "string jopt"
  dnu_comment :: "string jopt"

definition DhcpNetworkUpdate_json :: "DhcpNetworkUpdate \<Rightarrow> json" where
  "DhcpNetworkUpdate_json p = JObj (
     jfield ''address'' JStr (dnu_address p) @
     jfield ''gateway'' JStr (dnu_gateway p) @
     jfield ''netmask'' JStr (dnu_netmask p) @
     jfield ''dns_servers'' JStr (dnu_dns_servers p) @
     jfield ''ntp_servers'' JStr (dnu_ntp_servers p) @
     jfield ''domain'' JStr (dnu_domain p) @
     jfield ''comment'' JStr (dnu_comment p))"

definition listDhcpPools :: "env \<Rightarrow> string \<Rightarrow> json call" where
  "listDhcpPools E deviceId =
     api_json E GET (''devices/'' @ deviceId @ ''/dhcp/pools'') no_args"

definition createDhcpPool :: "env \<Rightarrow> string \<Rightarrow> DhcpPoolCreate \<Rightarrow> json call" where
  "createDhcpPool E deviceId payload =
     guarded E (api_json E POST (''devices/'' @ deviceId @ ''/dhcp/pools'')
       (no_args\<lparr>a_json := Some (DhcpPoolCreate_json payload)\<rparr>))"

definition updateDhcpPool :: "env \<Rightarrow> string \<Rightarrow> string \<Rightarrow> DhcpPoolUpdate \<Rightarrow> unit call" where
  "updateDhcpPool E deviceId poolId payload =
     guarded E (api_unit E PATCH (''devices/'' @ deviceId @ ''/dhcp/pools/'' @ encodeURIComponent poolId)
       (no_args\<lparr>a_json := Some (DhcpPoolUpdate_json payload)\<rparr>))"

definition deleteDhcpPool :: "env \<Rightarrow> string \<Rightarrow> string \<Rightarrow> unit call" where
  "deleteDhcpPool E deviceId poolId =
     guarded E (api_unit E DELETE (''devices/'' @ deviceId @ ''/dhcp/pools/'' @ encodeURIComponent poolId) no_args)"

definition listDhcpServers :: "env \<Rightarrow> string \<Rightarrow> json call" where
  "listDhcpServers E deviceId =
     api_json E GET (''devices/'' @ deviceId @ ''/dhcp/servers'') no_args"

definition createDhcpServer :: "env \<Rightarrow> string \<Rightarrow> DhcpServerCreate \<Rightarrow> json call" where
  "createDhcpServer E deviceId payload =
     guarded E (api_json E POST (''devices/'' @ deviceId @ ''/dhcp/servers'')
       (no_args\<lparr>a_json := Some (DhcpServerCreate_json payload)\<rparr>))"

definition updateDhcpServer :: "env \<Rightarrow> string \<Rightarrow> string \<Rightarrow> DhcpServerUpdate \<Rightarrow> unit call" where
  "updateDhcpServer E deviceId serverId payload =
     guarded E (api_unit E PATCH (''devices/'' @ deviceId @ ''/dhcp/servers/'' @ encodeURIComponent serverId)
       (no_args\<lparr>a_json := Some (DhcpServerUpdate_json payload)\<rparr>))"

definition deleteDhcpServer :: "env \<Rightarrow> string \<Rightarrow> string \<Rightarrow> unit call" where
  "deleteDhcpServer E deviceId serverId =
     guarded E (api_unit E DELETE (''devices/'' @ deviceId @ ''/dhcp/servers/'' @ encodeURIComponent serverId) no_args)"

definition listDhcpNetworks :: "env \<Rightarrow> string \<Rightarrow> json call" where
  "listDhcpNetworks E deviceId =
     api_json E GET (''devices/'' @ deviceId @ ''/dhcp/networks'') no_args"

definition createDhcpNetwork :: "env \<Rightarrow> string \<Rightarrow> DhcpNetworkCreate \<Rightarrow> json call" where
  "createDhcpNetwork E deviceId payload =
     guarded E (api_json E POST (''devices/'' @ deviceId @ ''/dhcp/networks'')
       (no_args\<lparr>a_json := Some (DhcpNetworkCreate_json payload)\<rparr>))"

definition updateDhcpNetwork :: "env \<Rightarrow> string \<Rightarrow> string \<Rightarrow> DhcpNetworkUpdate \<Rightarrow> unit call" where
  "updateDhcpNetwork E deviceId networkId payload =
     guarded E (api_unit E PATCH (''devices/'' @ deviceId @ ''/dhcp/networks/'' @ encodeURIComponent networkId)
       (no_args\<lparr>a_json := Some (DhcpNetworkUpdate_json payload)\<rparr>))"

definition deleteDhcpNetwork :: "env \<Rightarrow> string \<Rightarrow> string \<Rightarrow> unit call" where
  "deleteDhcpNetwork E deviceId networkId =
     guarded E (api_unit E DELETE (''devices/'' @ deviceId @ ''/dhcp/networks/'' @ encodeURIComponent networkId) no_args)"

definition listDhcpLeases :: "env \<Rightarrow> string \<Rightarrow> json call" where
  "listDhcpLeases E deviceId =
     api_json E GET (''devices/'' @ deviceId @ ''/dhcp/leases'') no_args"

definition makeLeaseStatic :: "env \<Rightarrow> string \<Rightarrow> string \<Rightarrow> unit call" where
  "makeLeaseStatic E deviceId leaseId =
     guarded E (api_unit E POST (''devices/'' @ deviceId @ ''/dhcp/leases/'' @ encodeURIComponent leaseId @ ''/make-static'') no_args)"

definition setLeaseComment :: "env \<Rightarrow> string \<Rightarrow> string \<Rightarrow> string option \<Rightarrow> unit call" where
  "setLeaseComment E deviceId leaseId comment =
     guarded E (api_unit E PATCH (''devices/'' @ deviceId @ ''/dhcp/leases/'' @ encodeURIComponent leaseId @ ''/comment'')
       (no_args\<lparr>a_json := Some (JObj [(''comment'', jnull JStr comment)])\<rparr>))"

definition deleteLease :: "env \<Rightarrow> string \<Rightarrow> string \<Rightarrow> unit call" where
  "deleteLease E deviceId leaseId =
     guarded E (api_unit E DELETE (''devices/'' @ deviceId @ ''/dhcp/leases/'' @ encodeURIComponent leaseId) no_args)"

section \<open>network.ts\<close>

record IpRouteCreate =
  irc_dst_address :: string
  irc_gateway :: "string jopt"
  irc_distance :: "rat jopt"
  irc_routing_table :: "string jopt"
  irc_pref_src :: "string jopt"
  irc_disabled :: "bool jopt"
  irc_comment :: "string jopt"

definition IpRouteCreate_json :: "IpRouteCreate \<Rightarrow> json" where
  "IpRouteCreate_json p = JObj (
     [(''dst_address'', JStr (irc_dst_address p))] @
     jfield ''gateway'' JStr (irc_gateway p) @
     jfield ''distance'' JNum (irc_distance p) @
     jfield ''routing_table'' JStr (irc_routing_table p) @
     jfield ''pref_src'' JStr (irc_pref_src p) @
     jfield ''disabled'' JBool (irc_disabled p) @
     jfield ''comment'' JStr (irc_comment p))"

record NeighborDiscovery =
  nd_discover_interface_list :: "string option"
  nd_protocols :: "string option"

definition NeighborDiscovery_json :: "NeighborDiscovery \<Rightarrow> json" where
  "NeighborDiscovery_json p = JObj (
     [(''discover_interface_list'', jnull JStr (nd_discover_interface_list p))] @
     [(''protocols'', jnull JStr (nd_protocols p))])"

record VlanCreate =
  vc_name :: string
  vc_interface :: string
  vc_vlan_id :: rat
  vc_mtu :: "rat jopt"
  vc_comment :: "string jopt"

definition VlanCreate_json :: "VlanCreate \<Rightarrow> json" where
  "VlanCreate_json p = JObj (
     [(''name'', JStr (vc_name p))] @
     [(''interface'', JStr (vc_interface p))] @
     [(''vlan_id'', JNum (vc_vlan_id p))] @
     jfield ''mtu'' JNum (vc_mtu p) @
     jfield ''comment'' JStr (vc_comment p))"

definition resetInterfaceCounters :: "env \<Rightarrow> string \<Rightarrow> string \<Rightarrow> unit call" where
  "resetInterfaceCounters E deviceId interfaceName =
     guarded E (api_unit E POST (''devices/'' @ deviceId @ ''/interfaces/'' @ encodeURIComponent interfaceName @ ''/reset-counters'') no_args)"

definition listRoutes :: "env \<Rightarrow> string \<Rightarrow> json call" where
  "listRoutes E deviceId =
     api_json E GET (''devices/'' @ deviceId @ ''/routes'') no_args"

definition createRoute :: "env \<Rightarrow> string \<Rightarrow> IpRouteCreate \<Rightarrow> json call" where
  "createRoute E deviceId payload =
     guarded E (api_json E POST (''devices/'' @ deviceId @ ''/routes'')
       (no_args\<lparr>a_json := Some (IpRouteCreate_json payload)\<rparr>))"

definition deleteRoute :: "env \<Rightarrow> string \<Rightarrow> string \<Rightarrow> unit call" where
  "deleteRoute E deviceId routeId =
     guarded E (api_unit E DELETE (''devices/'' @ deviceId @ ''/routes/'' @ encodeURIComponent routeId) no_args)"

definition listArp :: "env \<Rightarrow> string \<Rightarrow> json call" where
  "listArp E deviceId =
     api_json E GET (''devices/'' @ deviceId @ ''/arp'') no_args"

definition listNeighbors :: "env \<Rightarrow> string \<Rightarrow> json call" where
  "listNeighbors E deviceId =
     guarded E (api_json E GET (''devices/'' @ deviceId @ ''/neighbors'') no_args)"

definition getNeighborDiscovery :: "env \<Rightarrow> string \<Rightarrow> json call" where
  "getNeighborDiscovery E deviceId =
     guarded E (api_json E GET (''devices/'' @ deviceId @ ''/neighbor-discovery'') no_args)"

definition setNeighborDiscovery :: "env \<Rightarrow> string \<Rightarrow> NeighborDiscovery \<Rightarrow> json call" where
  "setNeighborDiscovery E deviceId payload =
     guarded E (api_json E PUT (''devices/'' @ deviceId @ ''/neighbor-discovery'')
       (no_args\<lparr>a_json := Some (NeighborDiscovery_json payload)\<rparr>))"

definition listBridgeHosts :: "env \<Rightarrow> string \<Rightarrow> json call" where
  "listBridgeHosts E deviceId =
     api_json E GET (''devices/'' @ deviceId @ ''/bridge-hosts'') no_args"

definition listInterfaces :: "env \<Rightarrow> string \<Rightarrow> json call" where
  "listInterfaces E deviceId =
     api_json E GET (''devices/'' @ deviceId @ ''/interfaces'') no_args"

definition listInterfaceLists :: "env \<Rightarrow> string \<Rightarrow> json call" where
  "listInterfaceLists E deviceId =
     api_json E GET (''devices/'' @ deviceId @ ''/interface-lists'') no_args"

definition listInterfaceListMembers :: "env \<Rightarrow> string \<Rightarrow> json call" where
  "listInterfaceListMembers E deviceId =
     api_json E GET (''devices/'' @ deviceId @ ''/interface-list-members'') no_args"

definition listVlans :: "env \<Rightarrow> string \<Rightarrow> json call" where
  "listVlans E deviceId =
     api_json E GET (''devices/'' @ deviceId @ ''/vlans'') no_args"

definition createVlan :: "env \<Rightarrow> string \<Rightarrow> VlanCreate \<Rightarrow> json call" where
  "createVlan E deviceId payload =
     guarded E (api_json E POST (''devices/'' @ deviceId @ ''/vlans'')
       (no_args\<lparr>a_json := Some (VlanCreate_json payload)\<rparr>))"

definition deleteVlan :: "env \<Rightarrow> string \<Rightarrow> string \<Rightarrow> unit call" where
  "deleteVlan E deviceId vlanId =
     guarded E (api_unit E DELETE (''devices/'' @ deviceId @ ''/vlans/'' @ encodeURIComponent vlanId) no_args)"

section \<open>queues.ts\<close>

record SimpleQueueCreate =
  sqc_name :: string
  sqc_target :: "string jopt"
  sqc_max_limit :: "string jopt"
  sqc_burst_limit :: "string jopt"
  sqc_burst_threshold :: "string jopt"
  sqc_burst_time :: "string jopt"
  sqc_parent :: "string jopt"
  sqc_priority :: "string jopt"
  sqc_disabled :: "bool jopt"
  sqc_comment :: "string jopt"

definition SimpleQueueCreate_json :: "SimpleQueueCreate \<Rightarrow> json" where
  "SimpleQueueCreate_json p = JObj (
     [(''name'', JStr (sqc_name p))] @
     jfield ''target'' JStr (sqc_target p) @
     jfield ''max_limit'' JStr (sqc_max_limit p) @
     jfield ''burst_limit'' JStr (sqc_burst_limit p) @
     jfield ''burst_threshold'' JStr (sqc_burst_threshold p) @
     jfield ''burst_time'' JStr (sqc_burst_time p) @
     jfield ''parent'' JStr (sqc_parent p) @
     jfield ''priority'' JStr (sqc_priority p) @
     jfield ''disabled'' JBool (sqc_disabled p) @
     jfield ''comment'' JStr (sqc_comment p))"

definition listSimpleQueues :: "env \<Rightarrow> string \<Rightarrow> json call" where
  "listSimpleQueues E deviceId =
     api_json E GET (''devices/'' @ deviceId @ ''/queues/simple'') no_args"

definition createSimpleQueue :: "env \<Rightarrow> string \<Rightarrow> SimpleQueueCreate \<Rightarrow> json call" where
  "createSimpleQueue E deviceId payload =
     guarded E (api_json E POST (''devices/'' @ deviceId @ ''/queues/simple'')
       (no_args\<lparr>a_json := Some (SimpleQueueCreate_json payload)\<rparr>))"

definition deleteSimpleQueue :: "env \<Rightarrow> string \<Rightarrow> string \<Rightarrow> unit call" where
  "deleteSimpleQueue E deviceId queueId =
     guarded E (api_unit E DELETE (''devices/'' @ deviceId @ ''/queues/simple/'' @ encodeURIComponent queueId) no_args)"

definition resetSimpleQueueCounters :: "env \<Rightarrow> string \<Rightarrow> string \<Rightarrow> unit call" where
  "resetSimpleQueueCounters E deviceId queueId =
     guarded E (api_unit E POST (''devices/'' @ deviceId @ ''/queues/simple/'' @ encodeURIComponent queueId @ ''/reset-counters'') no_args)"

end
