(* ===== verification/Firewall_Api.thy ===== *)
theory Firewall_Api
  imports Api_Laws
begin

text \<open>
  The client functions for firewalls: RouterOS filter and NAT rules, ufw on Linux hosts, and
  the fleet-wide actions of \<open>bulk.ts\<close>. Each function is one request through the
  shared client; those that change something turn a failure into an \<open>Error\<close> with the
  server's message (\<open>guarded\<close>). Payload interfaces are records, with the JSON document
  \<open>JSON.stringify\<close> makes of them.
\<close>

section \<open>firewall.ts\<close>

record FilterRuleUpdate =
  fru_disabled :: "bool jopt"
  fru_log :: "bool jopt"
  fru_log_prefix :: "string jopt"

definition FilterRuleUpdate_json :: "FilterRuleUpdate \<Rightarrow> json" where
  "FilterRuleUpdate_json p = JObj (
     jfield ''disabled'' JBool (fru_disabled p) @
     jfield ''log'' JBool (fru_log p) @
     jfield ''log_prefix'' JStr (fru_log_prefix p))"

record FilterRuleCreate =
  frc_chain :: string
  frc_action :: string
  frc_src_address :: "string jopt"
  frc_dst_address :: "string jopt"
  frc_src_address_list :: "string jopt"
  frc_dst_address_list :: "string jopt"
  frc_protocol :: "string jopt"
  frc_src_port :: "string jopt"
  frc_dst_port :: "string jopt"
  frc_in_interface :: "string jopt"
  frc_out_interface :: "string jopt"
  frc_connection_state :: "string jopt"
  frc_log :: "bool jopt"
  frc_log_prefix :: "string jopt"
  frc_disabled :: "bool jopt"
  frc_comment :: "string jopt"

definition FilterRuleCreate_json :: "FilterRuleCreate \<Rightarrow> json" where
  "FilterRuleCreate_json p = JObj (
     [(''chain'', JStr (frc_chain p))] @
     [(''action'', JStr (frc_action p))] @
     jfield ''src_address'' JStr (frc_src_address p) @
     jfield ''dst_address'' JStr (frc_dst_address p) @
     jfield ''src_address_list'' JStr (frc_src_address_list p) @
     jfield ''dst_address_list'' JStr (frc_dst_address_list p) @
     jfield ''protocol'' JStr (frc_protocol p) @
     jfield ''src_port'' JStr (frc_src_port p) @
     jfield ''dst_port'' JStr (frc_dst_port p) @
     jfield ''in_interface'' JStr (frc_in_interface p) @
     jfield ''out_interface'' JStr (frc_out_interface p) @
     jfield ''connection_state'' JStr (frc_connection_state p) @
     jfield ''log'' JBool (frc_log p) @
     jfield ''log_prefix'' JStr (frc_log_prefix p) @
     jfield ''disabled'' JBool (frc_disabled p) @
     jfield ''comment'' JStr (frc_comment p))"

record NatRuleCreate =
  nrc_chain :: string
  nrc_action :: string
  nrc_src_address :: "string jopt"
  nrc_dst_address :: "string jopt"
  nrc_dst_port :: "string jopt"
  nrc_protocol :: "string jopt"
  nrc_to_addresses :: "string jopt"
  nrc_to_ports :: "string jopt"
  nrc_in_interface :: "string jopt"
  nrc_out_interface :: "string jopt"
  nrc_log :: "bool jopt"
  nrc_log_prefix :: "string jopt"
  nrc_disabled :: "bool jopt"
  nrc_comment :: "string jopt"

definition NatRuleCreate_json :: "NatRuleCreate \<Rightarrow> json" where
  "NatRuleCreate_json p = JObj (
     [(''chain'', JStr (nrc_chain p))] @
     [(''action'', JStr (nrc_action p))] @
     jfield ''src_address'' JStr (nrc_src_address p) @
     jfield ''dst_address'' JStr (nrc_dst_address p) @
     jfield ''dst_port'' JStr (nrc_dst_port p) @
     jfield ''protocol'' JStr (nrc_protocol p) @
     jfield ''to_addresses'' JStr (nrc_to_addresses p) @
     jfield ''to_ports'' JStr (nrc_to_ports p) @
     jfield ''in_interface'' JStr (nrc_in_interface p) @
     jfield ''out_interface'' JStr (nrc_out_interface p) @
     jfield ''log'' JBool (nrc_log p) @
     jfield ''log_prefix'' JStr (nrc_log_prefix p) @
     jfield ''disabled'' JBool (nrc_disabled p) @
     jfield ''comment'' JStr (nrc_comment p))"

record NatRuleUpdate =
  nru_disabled :: "bool jopt"
  nru_log :: "bool jopt"
  nru_log_prefix :: "string jopt"

definition NatRuleUpdate_json :: "NatRuleUpdate \<Rightarrow> json" where
  "NatRuleUpdate_json p = JObj (
     jfield ''disabled'' JBool (nru_disabled p) @
     jfield ''log'' JBool (nru_log p) @
     jfield ''log_prefix'' JStr (nru_log_prefix p))"

definition listFilterRules :: "env \<Rightarrow> string \<Rightarrow> json call" where
  "listFilterRules E deviceId =
     guarded E (api_json E GET (''devices/'' @ deviceId @ ''/firewall/filter'') no_args)"

definition createFilterRule :: "env \<Rightarrow> string \<Rightarrow> FilterRuleCreate \<Rightarrow> json call" where
  "createFilterRule E deviceId payload =
     guarded E (api_json E POST (''devices/'' @ deviceId @ ''/firewall/filter'')
       (no_args\<lparr>a_json := Some (FilterRuleCreate_json payload)\<rparr>))"

definition setFilterRuleDisabled :: "env \<Rightarrow> string \<Rightarrow> string \<Rightarrow> bool \<Rightarrow> unit call" where
  "setFilterRuleDisabled E deviceId ruleId disabled =
     guarded E (api_unit E PATCH (''devices/'' @ deviceId @ ''/firewall/filter/'' @ encodeURIComponent ruleId)
       (no_args\<lparr>a_json := Some (JObj [(''disabled'', JBool disabled)])\<rparr>))"

definition updateFilterRule :: "env \<Rightarrow> string \<Rightarrow> string \<Rightarrow> FilterRuleUpdate \<Rightarrow> unit call" where
  "updateFilterRule E deviceId ruleId payload =
     guarded E (api_unit E PATCH (''devices/'' @ deviceId @ ''/firewall/filter/'' @ encodeURIComponent ruleId)
       (no_args\<lparr>a_json := Some (FilterRuleUpdate_json payload)\<rparr>))"

definition resetFilterRuleCounters :: "env \<Rightarrow> string \<Rightarrow> string \<Rightarrow> unit call" where
  "resetFilterRuleCounters E deviceId ruleId =
     guarded E (api_unit E POST (''devices/'' @ deviceId @ ''/firewall/filter/'' @ encodeURIComponent ruleId @ ''/reset-counters'') no_args)"

definition deleteFilterRule :: "env \<Rightarrow> string \<Rightarrow> string \<Rightarrow> unit call" where
  "deleteFilterRule E deviceId ruleId =
     guarded E (api_unit E DELETE (''devices/'' @ deviceId @ ''/firewall/filter/'' @ encodeURIComponent ruleId) no_args)"

definition moveFilterRule :: "env \<Rightarrow> string \<Rightarrow> string \<Rightarrow> string option \<Rightarrow> unit call" where
  "moveFilterRule E deviceId ruleId beforeId =
     guarded E (api_unit E POST (''devices/'' @ deviceId @ ''/firewall/filter/'' @ encodeURIComponent ruleId @ ''/move'')
       (no_args\<lparr>a_json := Some (JObj [(''before_id'', jnull JStr beforeId)])\<rparr>))"

definition listNatRules :: "env \<Rightarrow> string \<Rightarrow> json call" where
  "listNatRules E deviceId =
     guarded E (api_json E GET (''devices/'' @ deviceId @ ''/firewall/nat'') no_args)"

definition createNatRule :: "env \<Rightarrow> string \<Rightarrow> NatRuleCreate \<Rightarrow> json call" where
  "createNatRule E deviceId payload =
     guarded E (api_json E POST (''devices/'' @ deviceId @ ''/firewall/nat'')
       (no_args\<lparr>a_json := Some (NatRuleCreate_json payload)\<rparr>))"

definition updateNatRule :: "env \<Rightarrow> string \<Rightarrow> string \<Rightarrow> NatRuleUpdate \<Rightarrow> unit call" where
  "updateNatRule E deviceId ruleId payload =
     guarded E (api_unit E PATCH (''devices/'' @ deviceId @ ''/firewall/nat/'' @ encodeURIComponent ruleId)
       (no_args\<lparr>a_json := Some (NatRuleUpdate_json payload)\<rparr>))"

definition deleteNatRule :: "env \<Rightarrow> string \<Rightarrow> string \<Rightarrow> unit call" where
  "deleteNatRule E deviceId ruleId =
     guarded E (api_unit E DELETE (''devices/'' @ deviceId @ ''/firewall/nat/'' @ encodeURIComponent ruleId) no_args)"

definition resetNatRuleCounters :: "env \<Rightarrow> string \<Rightarrow> string \<Rightarrow> unit call" where
  "resetNatRuleCounters E deviceId ruleId =
     guarded E (api_unit E POST (''devices/'' @ deviceId @ ''/firewall/nat/'' @ encodeURIComponent ruleId @ ''/reset-counters'') no_args)"

definition log_params :: "env \<Rightarrow> string option \<Rightarrow> rat option \<Rightarrow> params" where
  "log_params E topics limit =
     (if truthy_str topics then [(''topics'', the topics)] else []) @
     (case limit of None \<Rightarrow> [] | Some n \<Rightarrow> if n \<noteq> 0 then [(''limit'', numstr E n)] else [])"

definition listLogs :: "env \<Rightarrow> string \<Rightarrow> string option \<Rightarrow> rat option \<Rightarrow> json call" where
  "listLogs E deviceId topics limit =
     guarded E (api_json E GET (''devices/'' @ deviceId @ ''/logs'')
       (with_search (log_params E topics limit)))"

section \<open>ufw.ts\<close>

record UfwRuleCreate =
  urc_action :: string
  urc_direction :: string
  urc_from_address :: "string jopt"
  urc_to_address :: "string jopt"
  urc_port :: "string jopt"
  urc_protocol :: "string jopt"
  urc_interface :: "string jopt"
  urc_comment :: "string jopt"
  urc_position :: "rat jopt"

definition UfwRuleCreate_json :: "UfwRuleCreate \<Rightarrow> json" where
  "UfwRuleCreate_json p = JObj (
     [(''action'', JStr (urc_action p))] @
     [(''direction'', JStr (urc_direction p))] @
     jfield ''from_address'' JStr (urc_from_address p) @
     jfield ''to_address'' JStr (urc_to_address p) @
     jfield ''port'' JStr (urc_port p) @
     jfield ''protocol'' JStr (urc_protocol p) @
     jfield ''interface'' JStr (urc_interface p) @
     jfield ''comment'' JStr (urc_comment p) @
     jfield ''position'' JNum (urc_position p))"

definition getUfwStatus :: "env \<Rightarrow> string \<Rightarrow> json call" where
  "getUfwStatus E deviceId =
     api_json E GET (''devices/'' @ deviceId @ ''/firewall/ufw'')
       (no_args\<lparr>a_timeout := 45000\<rparr>)"

definition createUfwRule :: "env \<Rightarrow> string \<Rightarrow> UfwRuleCreate \<Rightarrow> json call" where
  "createUfwRule E deviceId rule =
     guarded E (api_json E POST (''devices/'' @ deviceId @ ''/firewall/ufw/rules'')
       (no_args\<lparr>a_json := Some (UfwRuleCreate_json rule), a_timeout := 120000\<rparr>))"

definition deleteUfwRule :: "env \<Rightarrow> string \<Rightarrow> string \<Rightarrow> bool \<Rightarrow> json call" where
  "deleteUfwRule E deviceId spec force =
     guarded E (api_json E POST (''devices/'' @ deviceId @ ''/firewall/ufw/rules/delete'')
       (no_args\<lparr>a_json := Some (JObj [(''spec'', JStr spec), (''force'', JBool force)]),
         a_timeout := 120000\<rparr>))"

text \<open>\<open>{ ...rule, spec, force }\<close>: the rule's fields, then the two others.\<close>

fun json_fields :: "json \<Rightarrow> (string \<times> json) list" where
  "json_fields (JObj fs) = fs"
| "json_fields _ = []"

definition editUfwRule :: "env \<Rightarrow> string \<Rightarrow> string \<Rightarrow> UfwRuleCreate \<Rightarrow> bool \<Rightarrow> json call" where
  "editUfwRule E deviceId spec rule force =
     guarded E (api_json E POST (''devices/'' @ deviceId @ ''/firewall/ufw/rules/edit'')
       (no_args\<lparr>a_json := Some (JObj (json_fields (UfwRuleCreate_json rule) @
            [(''spec'', JStr spec), (''force'', JBool force)])), a_timeout := 120000\<rparr>))"

definition moveUfwRule :: "env \<Rightarrow> string \<Rightarrow> string \<Rightarrow> rat \<Rightarrow> bool \<Rightarrow> json call" where
  "moveUfwRule E deviceId spec position force =
     guarded E (api_json E POST (''devices/'' @ deviceId @ ''/firewall/ufw/rules/move'')
       (no_args\<lparr>a_json := Some (JObj [(''spec'', JStr spec), (''position'', JNum position), (''force'', JBool force)]),
         a_timeout := 120000\<rparr>))"

definition disableUfwRule :: "env \<Rightarrow> string \<Rightarrow> string \<Rightarrow> bool \<Rightarrow> json call" where
  "disableUfwRule E deviceId spec force =
     guarded E (api_json E POST (''devices/'' @ deviceId @ ''/firewall/ufw/rules/disable'')
       (no_args\<lparr>a_json := Some (JObj [(''spec'', JStr spec), (''force'', JBool force)]),
         a_timeout := 120000\<rparr>))"

definition enableUfwRule :: "env \<Rightarrow> string \<Rightarrow> string \<Rightarrow> bool \<Rightarrow> json call" where
  "enableUfwRule E deviceId disabledRuleId force =
     guarded E (api_json E POST (''devices/'' @ deviceId @ ''/firewall/ufw/disabled/'' @ disabledRuleId @ ''/enable'')
       (no_args\<lparr>a_search := [(''force'', bool_str force)], a_timeout := 120000\<rparr>))"

definition getEnablePreflight :: "env \<Rightarrow> string \<Rightarrow> json call" where
  "getEnablePreflight E deviceId =
     api_json E GET (''devices/'' @ deviceId @ ''/firewall/ufw/enable-preflight'')
       (no_args\<lparr>a_timeout := 45000\<rparr>)"

definition setUfwEnabled :: "env \<Rightarrow> string \<Rightarrow> bool \<Rightarrow> bool option \<Rightarrow> bool option \<Rightarrow> json call" where
  "setUfwEnabled E deviceId enabled allowManagement force =
     guarded E (api_json E POST (''devices/'' @ deviceId @ ''/firewall/ufw/enabled'')
       (no_args\<lparr>a_json := Some (JObj [
            (''enabled'', JBool enabled),
            (''allow_management'', JBool (case allowManagement of None \<Rightarrow> False | Some b \<Rightarrow> b)),
            (''force'', JBool (case force of None \<Rightarrow> False | Some b \<Rightarrow> b))]),
          a_timeout := 120000\<rparr>))"

definition listPendingGuards :: "env \<Rightarrow> string \<Rightarrow> json call" where
  "listPendingGuards E deviceId =
     api_json E GET (''devices/'' @ deviceId @ ''/firewall/guards'') no_args"

definition confirmGuard :: "env \<Rightarrow> string \<Rightarrow> string \<Rightarrow> json call" where
  "confirmGuard E deviceId guardId =
     api_json E POST (''devices/'' @ deviceId @ ''/firewall/guards/'' @ guardId @ ''/confirm'') no_args"

definition rollbackGuard :: "env \<Rightarrow> string \<Rightarrow> string \<Rightarrow> json call" where
  "rollbackGuard E deviceId guardId =
     api_json E POST (''devices/'' @ deviceId @ ''/firewall/guards/'' @ guardId @ ''/rollback'') no_args"

section \<open>bulk.ts\<close>

record BulkAddressListAddRequest =
  balar_device_ids :: "string list"
  balar_list_name :: string
  balar_address :: string
  balar_timeout :: "string jopt"
  balar_comment :: "string jopt"

definition BulkAddressListAddRequest_json :: "BulkAddressListAddRequest \<Rightarrow> json" where
  "BulkAddressListAddRequest_json p = JObj (
     [(''device_ids'', jstrs (balar_device_ids p))] @
     [(''list_name'', JStr (balar_list_name p))] @
     [(''address'', JStr (balar_address p))] @
     jfield ''timeout'' JStr (balar_timeout p) @
     jfield ''comment'' JStr (balar_comment p))"

record BulkFilterRule =
  bfr_chain :: string
  bfr_action :: string
  bfr_src_address :: "string jopt"
  bfr_dst_address :: "string jopt"
  bfr_src_address_list :: "string jopt"
  bfr_dst_address_list :: "string jopt"
  bfr_protocol :: "string jopt"
  bfr_src_port :: "string jopt"
  bfr_dst_port :: "string jopt"
  bfr_in_interface :: "string jopt"
  bfr_out_interface :: "string jopt"
  bfr_connection_state :: "string jopt"
  bfr_log :: "bool jopt"
  bfr_log_prefix :: "string jopt"
  bfr_disabled :: "bool jopt"
  bfr_comment :: "string jopt"

definition BulkFilterRule_json :: "BulkFilterRule \<Rightarrow> json" where
  "BulkFilterRule_json p = JObj (
     [(''chain'', JStr (bfr_chain p))] @
     [(''action'', JStr (bfr_action p))] @
     jfield ''src_address'' JStr (bfr_src_address p) @
     jfield ''dst_address'' JStr (bfr_dst_address p) @
     jfield ''src_address_list'' JStr (bfr_src_address_list p) @
     jfield ''dst_address_list'' JStr (bfr_dst_address_list p) @
     jfield ''protocol'' JStr (bfr_protocol p) @
     jfield ''src_port'' JStr (bfr_src_port p) @
     jfield ''dst_port'' JStr (bfr_dst_port p) @
     jfield ''in_interface'' JStr (bfr_in_interface p) @
     jfield ''out_interface'' JStr (bfr_out_interface p) @
     jfield ''connection_state'' JStr (bfr_connection_state p) @
     jfield ''log'' JBool (bfr_log p) @
     jfield ''log_prefix'' JStr (bfr_log_prefix p) @
     jfield ''disabled'' JBool (bfr_disabled p) @
     jfield ''comment'' JStr (bfr_comment p))"

record BulkFirewallFilterRequest =
  bffr_device_ids :: "string list"
  bffr_rule :: BulkFilterRule

definition BulkFirewallFilterRequest_json :: "BulkFirewallFilterRequest \<Rightarrow> json" where
  "BulkFirewallFilterRequest_json p = JObj (
     [(''device_ids'', jstrs (bffr_device_ids p))] @
     [(''rule'', BulkFilterRule_json (bffr_rule p))])"

record BulkZabbixSnmpSetupRequest =
  bzssr_device_ids :: "string list"
  bzssr_zabbix_addresses :: "string list"
  bzssr_address_list_name :: "string jopt"
  bzssr_firewall_chain :: "string jopt"
  bzssr_snmp_port :: "rat jopt"
  bzssr_community_name :: "string jopt"
  bzssr_configure_community :: "bool jopt"
  bzssr_comment_tag :: "string jopt"

definition BulkZabbixSnmpSetupRequest_json :: "BulkZabbixSnmpSetupRequest \<Rightarrow> json" where
  "BulkZabbixSnmpSetupRequest_json p = JObj (
     [(''device_ids'', jstrs (bzssr_device_ids p))] @
     [(''zabbix_addresses'', jstrs (bzssr_zabbix_addresses p))] @
     jfield ''address_list_name'' JStr (bzssr_address_list_name p) @
     jfield ''firewall_chain'' JStr (bzssr_firewall_chain p) @
     jfield ''snmp_port'' JNum (bzssr_snmp_port p) @
     jfield ''community_name'' JStr (bzssr_community_name p) @
     jfield ''configure_community'' JBool (bzssr_configure_community p) @
     jfield ''comment_tag'' JStr (bzssr_comment_tag p))"

definition bulkResetDeviceUserPassword :: "env \<Rightarrow> string list \<Rightarrow> string \<Rightarrow> string \<Rightarrow> json call" where
  "bulkResetDeviceUserPassword E deviceIds username newPassword =
     guarded E (api_json E POST ''bulk/device-users/password-reset''
       (no_args\<lparr>a_json := Some (JObj [(''device_ids'', jstrs deviceIds), (''username'', JStr username), (''new_password'', JStr newPassword)]),
         a_timeout := 120000\<rparr>))"

definition bulkAddressListAdd :: "env \<Rightarrow> BulkAddressListAddRequest \<Rightarrow> json call" where
  "bulkAddressListAdd E payload =
     guarded E (api_json E POST ''bulk/firewall/address-list/add''
       (no_args\<lparr>a_json := Some (BulkAddressListAddRequest_json payload), a_timeout := 120000\<rparr>))"

definition bulkFirewallFilterAdd :: "env \<Rightarrow> BulkFirewallFilterRequest \<Rightarrow> json call" where
  "bulkFirewallFilterAdd E payload =
     guarded E (api_json E POST ''bulk/firewall/filter/add''
       (no_args\<lparr>a_json := Some (BulkFirewallFilterRequest_json payload), a_timeout := 120000\<rparr>))"

definition bulkZabbixSnmpSetup :: "env \<Rightarrow> BulkZabbixSnmpSetupRequest \<Rightarrow> json call" where
  "bulkZabbixSnmpSetup E payload =
     guarded E (api_json E POST ''bulk/zabbix-snmp/setup''
       (no_args\<lparr>a_json := Some (BulkZabbixSnmpSetupRequest_json payload), a_timeout := 180000\<rparr>))"

end
