(* ===== verification/Vpn_Api.thy ===== *)
theory Vpn_Api
  imports Api_Laws
begin

text \<open>
  The client functions for PPP secrets, WireGuard interfaces and peers, and site-to-site
  tunnels. Each function is one request through the
  shared client; those that change something turn a failure into an \<open>Error\<close> with the
  server's message (\<open>guarded\<close>). Payload interfaces are records, with the JSON document
  \<open>JSON.stringify\<close> makes of them.
\<close>

section \<open>vpn.ts\<close>

record PppSecretCreate =
  psc_name :: string
  psc_service :: string
  psc_password :: string
  psc_profile :: "string jopt"
  psc_local_address :: "string jopt"
  psc_remote_address :: "string jopt"
  psc_comment :: "string jopt"

definition PppSecretCreate_json :: "PppSecretCreate \<Rightarrow> json" where
  "PppSecretCreate_json p = JObj (
     [(''name'', JStr (psc_name p))] @
     [(''service'', JStr (psc_service p))] @
     [(''password'', JStr (psc_password p))] @
     jfield ''profile'' JStr (psc_profile p) @
     jfield ''local_address'' JStr (psc_local_address p) @
     jfield ''remote_address'' JStr (psc_remote_address p) @
     jfield ''comment'' JStr (psc_comment p))"

record WgInterfaceCreate =
  wic_name :: string
  wic_listen_port :: "rat jopt"
  wic_private_key :: "string jopt"
  wic_mtu :: "rat jopt"
  wic_comment :: "string jopt"

definition WgInterfaceCreate_json :: "WgInterfaceCreate \<Rightarrow> json" where
  "WgInterfaceCreate_json p = JObj (
     [(''name'', JStr (wic_name p))] @
     jfield ''listen_port'' JNum (wic_listen_port p) @
     jfield ''private_key'' JStr (wic_private_key p) @
     jfield ''mtu'' JNum (wic_mtu p) @
     jfield ''comment'' JStr (wic_comment p))"

record WgPeerCreate =
  wpc_interface :: string
  wpc_public_key :: "string jopt"
  wpc_preshared_key :: "string jopt"
  wpc_allowed_address :: "string jopt"
  wpc_endpoint_address :: "string jopt"
  wpc_endpoint_port :: "rat jopt"
  wpc_persistent_keepalive :: "rat jopt"
  wpc_comment :: "string jopt"

definition WgPeerCreate_json :: "WgPeerCreate \<Rightarrow> json" where
  "WgPeerCreate_json p = JObj (
     [(''interface'', JStr (wpc_interface p))] @
     jfield ''public_key'' JStr (wpc_public_key p) @
     jfield ''preshared_key'' JStr (wpc_preshared_key p) @
     jfield ''allowed_address'' JStr (wpc_allowed_address p) @
     jfield ''endpoint_address'' JStr (wpc_endpoint_address p) @
     jfield ''endpoint_port'' JNum (wpc_endpoint_port p) @
     jfield ''persistent_keepalive'' JNum (wpc_persistent_keepalive p) @
     jfield ''comment'' JStr (wpc_comment p))"

record WgConfigRequest =
  wcr_server_endpoint :: string
  wcr_server_endpoint_port :: rat
  wcr_client_address :: string
  wcr_client_dns :: "string jopt"
  wcr_allowed_ips :: string
  wcr_persistent_keepalive :: "rat jopt"
  wcr_client_private_key :: "string jopt"

definition WgConfigRequest_json :: "WgConfigRequest \<Rightarrow> json" where
  "WgConfigRequest_json p = JObj (
     [(''server_endpoint'', JStr (wcr_server_endpoint p))] @
     [(''server_endpoint_port'', JNum (wcr_server_endpoint_port p))] @
     [(''client_address'', JStr (wcr_client_address p))] @
     jfield ''client_dns'' JStr (wcr_client_dns p) @
     [(''allowed_ips'', JStr (wcr_allowed_ips p))] @
     jfield ''persistent_keepalive'' JNum (wcr_persistent_keepalive p) @
     jfield ''client_private_key'' JStr (wcr_client_private_key p))"

record AddressCreate =
  ac_address :: string
  ac_interface :: string
  ac_comment :: "string jopt"

definition AddressCreate_json :: "AddressCreate \<Rightarrow> json" where
  "AddressCreate_json p = JObj (
     [(''address'', JStr (ac_address p))] @
     [(''interface'', JStr (ac_interface p))] @
     jfield ''comment'' JStr (ac_comment p))"

record WgPeerRestrictRequest =
  wprr_allowed_cidrs :: "string list"
  wprr_drop_rest :: bool
  wprr_comment_tag :: string

definition WgPeerRestrictRequest_json :: "WgPeerRestrictRequest \<Rightarrow> json" where
  "WgPeerRestrictRequest_json p = JObj (
     [(''allowed_cidrs'', jstrs (wprr_allowed_cidrs p))] @
     [(''drop_rest'', JBool (wprr_drop_rest p))] @
     [(''comment_tag'', JStr (wprr_comment_tag p))])"

definition listPppSecrets :: "env \<Rightarrow> string \<Rightarrow> json call" where
  "listPppSecrets E deviceId =
     api_json E GET (''devices/'' @ deviceId @ ''/ppp-secrets'') no_args"

definition createPppSecret :: "env \<Rightarrow> string \<Rightarrow> PppSecretCreate \<Rightarrow> json call" where
  "createPppSecret E deviceId payload =
     guarded E (api_json E POST (''devices/'' @ deviceId @ ''/ppp-secrets'')
       (no_args\<lparr>a_json := Some (PppSecretCreate_json payload)\<rparr>))"

definition resetPppSecretPassword :: "env \<Rightarrow> string \<Rightarrow> string \<Rightarrow> string \<Rightarrow> unit call" where
  "resetPppSecretPassword E deviceId secretId newPassword =
     guarded E (api_unit E POST (''devices/'' @ deviceId @ ''/ppp-secrets/'' @ encodeURIComponent secretId @ ''/password'')
       (no_args\<lparr>a_json := Some (JObj [(''new_password'', JStr newPassword)])\<rparr>))"

definition deletePppSecret :: "env \<Rightarrow> string \<Rightarrow> string \<Rightarrow> unit call" where
  "deletePppSecret E deviceId secretId =
     guarded E (api_unit E DELETE (''devices/'' @ deviceId @ ''/ppp-secrets/'' @ encodeURIComponent secretId) no_args)"

definition revealPppSecret :: "env \<Rightarrow> string \<Rightarrow> string \<Rightarrow> string \<Rightarrow> json call" where
  "revealPppSecret E deviceId secretId justification =
     guarded E (api_json E POST (''devices/'' @ deviceId @ ''/ppp-secrets/'' @ encodeURIComponent secretId @ ''/reveal'')
       (no_args\<lparr>a_json := Some (JObj [(''justification'', JStr justification)])\<rparr>))"

definition listWgInterfaces :: "env \<Rightarrow> string \<Rightarrow> json call" where
  "listWgInterfaces E deviceId =
     api_json E GET (''devices/'' @ deviceId @ ''/wireguard/interfaces'') no_args"

definition createWgInterface :: "env \<Rightarrow> string \<Rightarrow> WgInterfaceCreate \<Rightarrow> json call" where
  "createWgInterface E deviceId payload =
     guarded E (api_json E POST (''devices/'' @ deviceId @ ''/wireguard/interfaces'')
       (no_args\<lparr>a_json := Some (WgInterfaceCreate_json payload)\<rparr>))"

definition deleteWgInterface :: "env \<Rightarrow> string \<Rightarrow> string \<Rightarrow> unit call" where
  "deleteWgInterface E deviceId ifaceId =
     guarded E (api_unit E DELETE (''devices/'' @ deviceId @ ''/wireguard/interfaces/'' @ encodeURIComponent ifaceId) no_args)"

definition listWgPeers :: "env \<Rightarrow> string \<Rightarrow> string option \<Rightarrow> json call" where
  "listWgPeers E deviceId ifaceName =
     api_json E GET (''devices/'' @ deviceId @ ''/wireguard/peers'')
       (with_search (if truthy_str ifaceName then [(''interface'', the ifaceName)] else []))"

definition createWgPeer :: "env \<Rightarrow> string \<Rightarrow> WgPeerCreate \<Rightarrow> json call" where
  "createWgPeer E deviceId payload =
     guarded E (api_json E POST (''devices/'' @ deviceId @ ''/wireguard/peers'')
       (no_args\<lparr>a_json := Some (WgPeerCreate_json payload)\<rparr>))"

definition deleteWgPeer :: "env \<Rightarrow> string \<Rightarrow> string \<Rightarrow> unit call" where
  "deleteWgPeer E deviceId peerId =
     guarded E (api_unit E DELETE (''devices/'' @ deviceId @ ''/wireguard/peers/'' @ encodeURIComponent peerId) no_args)"

definition revealWgPeerKeys :: "env \<Rightarrow> string \<Rightarrow> string \<Rightarrow> string \<Rightarrow> json call" where
  "revealWgPeerKeys E deviceId peerId justification =
     guarded E (api_json E POST (''devices/'' @ deviceId @ ''/wireguard/peers/'' @ encodeURIComponent peerId @ ''/reveal'')
       (no_args\<lparr>a_json := Some (JObj [(''justification'', JStr justification)])\<rparr>))"

definition createIpAddress :: "env \<Rightarrow> string \<Rightarrow> AddressCreate \<Rightarrow> json call" where
  "createIpAddress E deviceId payload =
     guarded E (api_json E POST (''devices/'' @ deviceId @ ''/addresses'')
       (no_args\<lparr>a_json := Some (AddressCreate_json payload)\<rparr>))"

definition listWgEndpointSuggestions :: "env \<Rightarrow> string \<Rightarrow> json call" where
  "listWgEndpointSuggestions E deviceId =
     api_json E GET (''devices/'' @ deviceId @ ''/wireguard/-/endpoints-suggested'') no_args"

definition listWgLanSubnets :: "env \<Rightarrow> string \<Rightarrow> json call" where
  "listWgLanSubnets E deviceId =
     api_json E GET (''devices/'' @ deviceId @ ''/wireguard/-/lan-subnets-suggested'') no_args"

definition restrictWgPeer :: "env \<Rightarrow> string \<Rightarrow> string \<Rightarrow> WgPeerRestrictRequest \<Rightarrow> json call" where
  "restrictWgPeer E deviceId peerId payload =
     guarded E (api_json E POST (''devices/'' @ deviceId @ ''/wireguard/peers/'' @ encodeURIComponent peerId @ ''/restrict'')
       (no_args\<lparr>a_json := Some (WgPeerRestrictRequest_json payload)\<rparr>))"

text \<open>The file name and the text of the generated configuration.\<close>

definition downloadWgClientConfig :: "env \<Rightarrow> string \<Rightarrow> string \<Rightarrow> WgConfigRequest \<Rightarrow> (string \<times> string) call" where
  "downloadWgClientConfig E deviceId peerId payload =
     guarded E (awaiting
       (api E POST (''devices/'' @ deviceId @ ''/wireguard/peers/'' @ encodeURIComponent peerId @ ''/config'')
          (with_json (WgConfigRequest_json payload)))
       (\<lambda>r. ret (Inr (disposition_name r (''wg-'' @ peerId @ ''.conf''), rs_text r))))"

section \<open>wg-s2s.ts\<close>

record S2SSide =
  sss_device_id :: string
  sss_interface_name :: string
  sss_tunnel_cidr :: string
  sss_expose_subnets :: "string list"

definition S2SSide_json :: "S2SSide \<Rightarrow> json" where
  "S2SSide_json p = JObj (
     [(''device_id'', JStr (sss_device_id p))] @
     [(''interface_name'', JStr (sss_interface_name p))] @
     [(''tunnel_cidr'', JStr (sss_tunnel_cidr p))] @
     [(''expose_subnets'', jstrs (sss_expose_subnets p))])"

record S2SCreateRequest =
  sscr_a :: S2SSide
  sscr_b :: S2SSide
  sscr_listen_port :: rat
  sscr_public_endpoint :: string
  sscr_comment_tag :: string
  sscr_open_firewall_on_a :: bool
  sscr_create_forward_rules :: bool
  sscr_create_routes :: bool
  sscr_persistent_keepalive :: rat

definition S2SCreateRequest_json :: "S2SCreateRequest \<Rightarrow> json" where
  "S2SCreateRequest_json p = JObj (
     [(''a'', S2SSide_json (sscr_a p))] @
     [(''b'', S2SSide_json (sscr_b p))] @
     [(''listen_port'', JNum (sscr_listen_port p))] @
     [(''public_endpoint'', JStr (sscr_public_endpoint p))] @
     [(''comment_tag'', JStr (sscr_comment_tag p))] @
     [(''open_firewall_on_a'', JBool (sscr_open_firewall_on_a p))] @
     [(''create_forward_rules'', JBool (sscr_create_forward_rules p))] @
     [(''create_routes'', JBool (sscr_create_routes p))] @
     [(''persistent_keepalive'', JNum (sscr_persistent_keepalive p))])"

definition createSiteToSite :: "env \<Rightarrow> S2SCreateRequest \<Rightarrow> json call" where
  "createSiteToSite E payload =
     guarded E (api_json E POST ''wireguard-tunnels/site-to-site''
       (no_args\<lparr>a_json := Some (S2SCreateRequest_json payload)\<rparr>))"

end
