(* ===== verification/Admin_Api.thy ===== *)
theory Admin_Api
  imports Api_Laws
begin

text \<open>
  The client functions for administration: users and role assignments, roles, access
  reports and requests, settings, notifications and updates. Each function is one request through the
  shared client; those that change something turn a failure into an \<open>Error\<close> with the
  server's message (\<open>guarded\<close>). Payload interfaces are records, with the JSON document
  \<open>JSON.stringify\<close> makes of them.
\<close>

section \<open>users.ts\<close>

record UserCreate =
  uc_email :: string
  uc_display_name :: string
  uc_password :: "string jopt"
  uc_mobile_phone :: "string jopt"
  uc_is_admin :: "bool jopt"
  uc_role_ids :: "string list jopt"

definition UserCreate_json :: "UserCreate \<Rightarrow> json" where
  "UserCreate_json p = JObj (
     [(''email'', JStr (uc_email p))] @
     [(''display_name'', JStr (uc_display_name p))] @
     jfield ''password'' JStr (uc_password p) @
     jfield ''mobile_phone'' JStr (uc_mobile_phone p) @
     jfield ''is_admin'' JBool (uc_is_admin p) @
     jfield ''role_ids'' jstrs (uc_role_ids p))"

record UserUpdate =
  uu_display_name :: "string jopt"
  uu_mobile_phone :: "string jopt"
  uu_is_active :: "bool jopt"
  uu_is_admin :: "bool jopt"

definition UserUpdate_json :: "UserUpdate \<Rightarrow> json" where
  "UserUpdate_json p = JObj (
     jfield ''display_name'' JStr (uu_display_name p) @
     jfield ''mobile_phone'' JStr (uu_mobile_phone p) @
     jfield ''is_active'' JBool (uu_is_active p) @
     jfield ''is_admin'' JBool (uu_is_admin p))"

record AssignmentCreate =
  ac_role_id :: string
  ac_scope_type :: string
  ac_scope_id :: "string jopt"

definition AssignmentCreate_json :: "AssignmentCreate \<Rightarrow> json" where
  "AssignmentCreate_json p = JObj (
     [(''role_id'', JStr (ac_role_id p))] @
     [(''scope_type'', JStr (ac_scope_type p))] @
     jfield ''scope_id'' JStr (ac_scope_id p))"

record AssignmentBulkScope =
  abs_scope_type :: string
  abs_scope_id :: "string jopt"

definition AssignmentBulkScope_json :: "AssignmentBulkScope \<Rightarrow> json" where
  "AssignmentBulkScope_json p = JObj (
     [(''scope_type'', JStr (abs_scope_type p))] @
     jfield ''scope_id'' JStr (abs_scope_id p))"

record AssignmentBulkCreate =
  abc_role_id :: string
  abc_scopes :: "AssignmentBulkScope list"

definition AssignmentBulkCreate_json :: "AssignmentBulkCreate \<Rightarrow> json" where
  "AssignmentBulkCreate_json p = JObj (
     [(''role_id'', JStr (abc_role_id p))] @
     [(''scopes'', (\<lambda>xs. JArr (map AssignmentBulkScope_json xs)) (abc_scopes p))])"

definition listUsers :: "env \<Rightarrow> json call" where
  "listUsers E =
     api_json E GET ''users'' no_args"

definition createUser :: "env \<Rightarrow> UserCreate \<Rightarrow> json call" where
  "createUser E payload =
     guarded E (api_json E POST ''users''
       (no_args\<lparr>a_json := Some (UserCreate_json payload)\<rparr>))"

definition updateUser :: "env \<Rightarrow> string \<Rightarrow> UserUpdate \<Rightarrow> json call" where
  "updateUser E id' payload =
     guarded E (api_json E PATCH (''users/'' @ id')
       (no_args\<lparr>a_json := Some (UserUpdate_json payload)\<rparr>))"

definition resetUserPassword :: "env \<Rightarrow> string \<Rightarrow> string \<Rightarrow> unit call" where
  "resetUserPassword E id' new_password =
     guarded E (api_unit E POST (''users/'' @ id' @ ''/password'')
       (no_args\<lparr>a_json := Some (JObj [(''new_password'', JStr new_password)])\<rparr>))"

definition listAssignments :: "env \<Rightarrow> string \<Rightarrow> json call" where
  "listAssignments E userId =
     api_json E GET (''users/'' @ userId @ ''/assignments'') no_args"

definition createAssignment :: "env \<Rightarrow> string \<Rightarrow> AssignmentCreate \<Rightarrow> json call" where
  "createAssignment E userId payload =
     guarded E (api_json E POST (''users/'' @ userId @ ''/assignments'')
       (no_args\<lparr>a_json := Some (AssignmentCreate_json payload)\<rparr>))"

definition deleteAssignment :: "env \<Rightarrow> string \<Rightarrow> string \<Rightarrow> unit call" where
  "deleteAssignment E userId assignmentId =
     guarded E (api_unit E DELETE (''users/'' @ userId @ ''/assignments/'' @ assignmentId) no_args)"

definition bulkCreateAssignments :: "env \<Rightarrow> string \<Rightarrow> AssignmentBulkCreate \<Rightarrow> json call" where
  "bulkCreateAssignments E userId payload =
     guarded E (api_json E POST (''users/'' @ userId @ ''/assignments/bulk'')
       (no_args\<lparr>a_json := Some (AssignmentBulkCreate_json payload)\<rparr>))"

section \<open>roles.ts\<close>

text \<open>A permission of a role: \<open>{ section, action }\<close>.\<close>

definition permission_json :: "string \<times> string \<Rightarrow> json" where
  "permission_json p = JObj [(''section'', JStr (fst p)), (''action'', JStr (snd p))]"

record RoleCreate =
  rc_name :: string
  rc_description :: "string jopt"
  rc_permissions :: "(string \<times> string) list"

definition RoleCreate_json :: "RoleCreate \<Rightarrow> json" where
  "RoleCreate_json p = JObj (
     [(''name'', JStr (rc_name p))] @
     jfield ''description'' JStr (rc_description p) @
     [(''permissions'', (\<lambda>xs. JArr (map permission_json xs)) (rc_permissions p))])"

record RoleUpdate =
  ru_name :: "string jopt"
  ru_description :: "string jopt"
  ru_permissions :: "(string \<times> string) list jopt"

definition RoleUpdate_json :: "RoleUpdate \<Rightarrow> json" where
  "RoleUpdate_json p = JObj (
     jfield ''name'' JStr (ru_name p) @
     jfield ''description'' JStr (ru_description p) @
     jfield ''permissions'' (\<lambda>xs. JArr (map permission_json xs)) (ru_permissions p))"

definition listSections :: "env \<Rightarrow> json call" where
  "listSections E =
     api_json E GET ''roles/sections'' no_args"

definition listRoles :: "env \<Rightarrow> json call" where
  "listRoles E =
     api_json E GET ''roles'' no_args"

definition createRole :: "env \<Rightarrow> RoleCreate \<Rightarrow> json call" where
  "createRole E payload =
     guarded E (api_json E POST ''roles''
       (no_args\<lparr>a_json := Some (RoleCreate_json payload)\<rparr>))"

definition updateRole :: "env \<Rightarrow> string \<Rightarrow> RoleUpdate \<Rightarrow> json call" where
  "updateRole E id' payload =
     guarded E (api_json E PATCH (''roles/'' @ id')
       (no_args\<lparr>a_json := Some (RoleUpdate_json payload)\<rparr>))"

definition deleteRole :: "env \<Rightarrow> string \<Rightarrow> unit call" where
  "deleteRole E id' =
     guarded E (api_unit E DELETE (''roles/'' @ id') no_args)"

section \<open>access.ts\<close>

definition fetchTenantAccess :: "env \<Rightarrow> string \<Rightarrow> json call" where
  "fetchTenantAccess E tenantId =
     api_json E GET (''access/tenant/'' @ tenantId) no_args"

definition fetchSiteAccess :: "env \<Rightarrow> string \<Rightarrow> json call" where
  "fetchSiteAccess E siteId =
     api_json E GET (''access/site/'' @ siteId) no_args"

definition fetchDeviceAccess :: "env \<Rightarrow> string \<Rightarrow> json call" where
  "fetchDeviceAccess E deviceId =
     api_json E GET (''access/device/'' @ deviceId) no_args"

definition fetchUserAccessMap :: "env \<Rightarrow> string \<Rightarrow> json call" where
  "fetchUserAccessMap E userId =
     api_json E GET (''access/user/'' @ userId) no_args"

section \<open>access-requests.ts\<close>

record AccessRequestCreate =
  arc_scope_type :: string
  arc_scope_id :: string
  arc_reason :: "string jopt"

definition AccessRequestCreate_json :: "AccessRequestCreate \<Rightarrow> json" where
  "AccessRequestCreate_json p = JObj (
     [(''scope_type'', JStr (arc_scope_type p))] @
     [(''scope_id'', JStr (arc_scope_id p))] @
     jfield ''reason'' JStr (arc_reason p))"

record AccessRequestApprove =
  ara_role_ids :: "string list"
  ara_expires_at :: "string jopt"
  ara_note :: "string jopt"

definition AccessRequestApprove_json :: "AccessRequestApprove \<Rightarrow> json" where
  "AccessRequestApprove_json p = JObj (
     [(''role_ids'', jstrs (ara_role_ids p))] @
     jfield ''expires_at'' JStr (ara_expires_at p) @
     jfield ''note'' JStr (ara_note p))"

record AccessRequestDeny =
  ard_note :: "string jopt"

definition AccessRequestDeny_json :: "AccessRequestDeny \<Rightarrow> json" where
  "AccessRequestDeny_json p = JObj (
     jfield ''note'' JStr (ard_note p))"

definition createAccessRequest :: "env \<Rightarrow> AccessRequestCreate \<Rightarrow> json call" where
  "createAccessRequest E payload =
     guarded E (api_json E POST ''access-requests''
       (no_args\<lparr>a_json := Some (AccessRequestCreate_json payload)\<rparr>))"

definition listAccessRequests :: "env \<Rightarrow> string option \<Rightarrow> json call" where
  "listAccessRequests E status =
     api_json E GET ''access-requests''
       (with_search (if truthy_str status then [(''status'', the status)] else []))"

definition getAccessRequest :: "env \<Rightarrow> string \<Rightarrow> json call" where
  "getAccessRequest E id' =
     api_json E GET (''access-requests/'' @ id') no_args"

definition approveAccessRequest :: "env \<Rightarrow> string \<Rightarrow> AccessRequestApprove \<Rightarrow> json call" where
  "approveAccessRequest E id' payload =
     guarded E (api_json E POST (''access-requests/'' @ id' @ ''/approve'')
       (no_args\<lparr>a_json := Some (AccessRequestApprove_json payload)\<rparr>))"

definition denyAccessRequest :: "env \<Rightarrow> string \<Rightarrow> AccessRequestDeny \<Rightarrow> json call" where
  "denyAccessRequest E id' payload =
     guarded E (api_json E POST (''access-requests/'' @ id' @ ''/deny'')
       (no_args\<lparr>a_json := Some (AccessRequestDeny_json payload)\<rparr>))"

definition cancelAccessRequest :: "env \<Rightarrow> string \<Rightarrow> json call" where
  "cancelAccessRequest E id' =
     guarded E (api_json E POST (''access-requests/'' @ id' @ ''/cancel'') no_args)"

definition fetchDirectory :: "env \<Rightarrow> json call" where
  "fetchDirectory E =
     api_json E GET ''access-requests/-/directory'' no_args"

section \<open>settings.ts\<close>

record SmtpSettingsUpdate =
  ssu_smtp_enabled :: "bool jopt"
  ssu_smtp_host :: "string jopt"
  ssu_smtp_port :: "rat jopt"
  ssu_smtp_username :: "string jopt"
  ssu_smtp_password :: "string jopt"
  ssu_smtp_from_email :: "string jopt"
  ssu_smtp_from_name :: "string jopt"
  ssu_smtp_use_tls :: "bool jopt"
  ssu_smtp_use_starttls :: "bool jopt"

definition SmtpSettingsUpdate_json :: "SmtpSettingsUpdate \<Rightarrow> json" where
  "SmtpSettingsUpdate_json p = JObj (
     jfield ''smtp_enabled'' JBool (ssu_smtp_enabled p) @
     jfield ''smtp_host'' JStr (ssu_smtp_host p) @
     jfield ''smtp_port'' JNum (ssu_smtp_port p) @
     jfield ''smtp_username'' JStr (ssu_smtp_username p) @
     jfield ''smtp_password'' JStr (ssu_smtp_password p) @
     jfield ''smtp_from_email'' JStr (ssu_smtp_from_email p) @
     jfield ''smtp_from_name'' JStr (ssu_smtp_from_name p) @
     jfield ''smtp_use_tls'' JBool (ssu_smtp_use_tls p) @
     jfield ''smtp_use_starttls'' JBool (ssu_smtp_use_starttls p))"

record SmsSettingsUpdate =
  ssu_sms_enabled :: "bool jopt"
  ssu_sms_provider :: "string jopt"
  ssu_sms_api_url :: "string jopt"
  ssu_sms_http_method :: "string jopt"
  ssu_sms_body_format :: "string jopt"
  ssu_sms_body_template :: "string jopt"
  ssu_sms_auth_header_name :: "string jopt"
  ssu_sms_auth_header_value_template :: "string jopt"
  ssu_sms_api_key :: "string jopt"
  ssu_sms_sender :: "string jopt"
  ssu_sms_success_status_min :: "rat jopt"
  ssu_sms_success_status_max :: "rat jopt"
  ssu_sms_success_body_contains :: "string jopt"
  ssu_sms_timeout_seconds :: "rat jopt"

definition SmsSettingsUpdate_json :: "SmsSettingsUpdate \<Rightarrow> json" where
  "SmsSettingsUpdate_json p = JObj (
     jfield ''sms_enabled'' JBool (ssu_sms_enabled p) @
     jfield ''sms_provider'' JStr (ssu_sms_provider p) @
     jfield ''sms_api_url'' JStr (ssu_sms_api_url p) @
     jfield ''sms_http_method'' JStr (ssu_sms_http_method p) @
     jfield ''sms_body_format'' JStr (ssu_sms_body_format p) @
     jfield ''sms_body_template'' JStr (ssu_sms_body_template p) @
     jfield ''sms_auth_header_name'' JStr (ssu_sms_auth_header_name p) @
     jfield ''sms_auth_header_value_template'' JStr (ssu_sms_auth_header_value_template p) @
     jfield ''sms_api_key'' JStr (ssu_sms_api_key p) @
     jfield ''sms_sender'' JStr (ssu_sms_sender p) @
     jfield ''sms_success_status_min'' JNum (ssu_sms_success_status_min p) @
     jfield ''sms_success_status_max'' JNum (ssu_sms_success_status_max p) @
     jfield ''sms_success_body_contains'' JStr (ssu_sms_success_body_contains p) @
     jfield ''sms_timeout_seconds'' JNum (ssu_sms_timeout_seconds p))"

record OrgInfo =
  oi_netfleet_external_ips :: "string option"

definition OrgInfo_json :: "OrgInfo \<Rightarrow> json" where
  "OrgInfo_json p = JObj (
     [(''netfleet_external_ips'', jnull JStr (oi_netfleet_external_ips p))])"

record AuthSettingsUpdate =
  asu_microsoft_oidc_enabled :: "bool jopt"
  asu_microsoft_oidc_tenant_id :: "string jopt"
  asu_microsoft_oidc_client_id :: "string jopt"
  asu_microsoft_oidc_client_secret :: "string jopt"
  asu_google_oidc_enabled :: "bool jopt"
  asu_google_oidc_client_id :: "string jopt"
  asu_google_oidc_client_secret :: "string jopt"
  asu_mfa_totp_enabled :: "bool jopt"
  asu_mfa_sms_otp_enabled :: "bool jopt"
  asu_mfa_email_otp_enabled :: "bool jopt"

definition AuthSettingsUpdate_json :: "AuthSettingsUpdate \<Rightarrow> json" where
  "AuthSettingsUpdate_json p = JObj (
     jfield ''microsoft_oidc_enabled'' JBool (asu_microsoft_oidc_enabled p) @
     jfield ''microsoft_oidc_tenant_id'' JStr (asu_microsoft_oidc_tenant_id p) @
     jfield ''microsoft_oidc_client_id'' JStr (asu_microsoft_oidc_client_id p) @
     jfield ''microsoft_oidc_client_secret'' JStr (asu_microsoft_oidc_client_secret p) @
     jfield ''google_oidc_enabled'' JBool (asu_google_oidc_enabled p) @
     jfield ''google_oidc_client_id'' JStr (asu_google_oidc_client_id p) @
     jfield ''google_oidc_client_secret'' JStr (asu_google_oidc_client_secret p) @
     jfield ''mfa_totp_enabled'' JBool (asu_mfa_totp_enabled p) @
     jfield ''mfa_sms_otp_enabled'' JBool (asu_mfa_sms_otp_enabled p) @
     jfield ''mfa_email_otp_enabled'' JBool (asu_mfa_email_otp_enabled p))"

definition getSmtpSettings :: "env \<Rightarrow> json call" where
  "getSmtpSettings E =
     api_json E GET ''settings/smtp'' no_args"

definition updateSmtpSettings :: "env \<Rightarrow> SmtpSettingsUpdate \<Rightarrow> json call" where
  "updateSmtpSettings E payload =
     guarded E (api_json E PATCH ''settings/smtp''
       (no_args\<lparr>a_json := Some (SmtpSettingsUpdate_json payload)\<rparr>))"

definition testSmtp :: "env \<Rightarrow> string \<Rightarrow> json call" where
  "testSmtp E dest =
     guarded E (api_json E POST ''settings/smtp/test''
       (no_args\<lparr>a_json := Some (JObj [(''to'', JStr dest)])\<rparr>))"

definition getSmsSettings :: "env \<Rightarrow> json call" where
  "getSmsSettings E =
     api_json E GET ''settings/sms'' no_args"

definition getSmsPresets :: "env \<Rightarrow> json call" where
  "getSmsPresets E =
     api_json E GET ''settings/sms/presets'' no_args"

definition updateSmsSettings :: "env \<Rightarrow> SmsSettingsUpdate \<Rightarrow> json call" where
  "updateSmsSettings E payload =
     guarded E (api_json E PATCH ''settings/sms''
       (no_args\<lparr>a_json := Some (SmsSettingsUpdate_json payload)\<rparr>))"

definition getOrgInfo :: "env \<Rightarrow> json call" where
  "getOrgInfo E =
     api_json E GET ''settings/org-info'' no_args"

definition updateOrgInfo :: "env \<Rightarrow> OrgInfo \<Rightarrow> json call" where
  "updateOrgInfo E payload =
     guarded E (api_json E PATCH ''settings/org-info''
       (no_args\<lparr>a_json := Some (OrgInfo_json payload)\<rparr>))"

definition listSystemBackups :: "env \<Rightarrow> json call" where
  "listSystemBackups E =
     api_json E GET ''settings/system-backup'' no_args"

definition createSystemBackup :: "env \<Rightarrow> json call" where
  "createSystemBackup E =
     guarded E (api_json E POST ''settings/system-backup''
       (no_args\<lparr>a_timeout := 600000\<rparr>))"

definition deleteSystemBackup :: "env \<Rightarrow> string \<Rightarrow> unit call" where
  "deleteSystemBackup E filename =
     guarded E (api_unit E DELETE (''settings/system-backup/'' @ encodeURIComponent filename) no_args)"

definition testSms :: "env \<Rightarrow> string \<Rightarrow> string \<Rightarrow> json call" where
  "testSms E dest content =
     guarded E (api_json E POST ''settings/sms/test''
       (no_args\<lparr>a_json := Some (JObj [(''to'', JStr dest), (''content'', JStr content)])\<rparr>))"

definition getAuthSettings :: "env \<Rightarrow> json call" where
  "getAuthSettings E =
     api_json E GET ''settings/authorization'' no_args"

definition updateAuthSettings :: "env \<Rightarrow> AuthSettingsUpdate \<Rightarrow> json call" where
  "updateAuthSettings E payload =
     guarded E (api_json E PATCH ''settings/authorization''
       (no_args\<lparr>a_json := Some (AuthSettingsUpdate_json payload)\<rparr>))"

section \<open>notifications.ts\<close>

definition fetchNotifications :: "env \<Rightarrow> json call" where
  "fetchNotifications E =
     api_json E GET ''notifications'' no_args"

definition markNotificationsRead :: "env \<Rightarrow> unit call" where
  "markNotificationsRead E =
     guarded E (api_unit E POST ''notifications/mark-read'' no_args)"

section \<open>risk-report.ts\<close>

definition fetchRiskReport :: "env \<Rightarrow> string \<Rightarrow> json call" where
  "fetchRiskReport E userId =
     api_json E GET (''users/'' @ userId @ ''/risk-report'') no_args"

section \<open>updates.ts\<close>

definition getUpdateStatus :: "env \<Rightarrow> bool \<Rightarrow> json call" where
  "getUpdateStatus E force =
     api_json E GET ''system/update/status''
       (no_args\<lparr>a_search := (if force then [(''force'', ''true'')] else []),
                a_timeout := (if force then 30000 else 15000)\<rparr>)"

definition triggerUpdate :: "env \<Rightarrow> string \<Rightarrow> bool \<Rightarrow> json call" where
  "triggerUpdate E version backup =
     guarded E (api_json E POST ''system/update''
       (no_args\<lparr>a_json := Some (JObj [(''version'', JStr version), (''backup'', JBool backup)]),
         a_timeout := 30000\<rparr>))"

section \<open>host-health.ts\<close>

definition fetchHostHealth :: "env \<Rightarrow> json call" where
  "fetchHostHealth E =
     guarded E (api_json E GET ''system/host-health'' no_args)"

definition fetchHostHistory :: "env \<Rightarrow> rat \<Rightarrow> json call" where
  "fetchHostHistory E points =
     guarded E (api_json E GET (''system/host-history?points='' @ numstr E points) no_args)"

end
