(* ===== verification/Sign_In.thy ===== *)
theory Sign_In
  imports Api_Laws
begin

text \<open>
  Signing in and out: the client functions of \<open>frontend/src/lib/auth.ts\<close>, the sign-in
  page \<open>app/login/page.tsx\<close> as a state machine over its React state, the single sign-on
  landing page \<open>app/auth/oidc/complete/page.tsx\<close>, and what the dashboard shell
  \<open>app/dashboard/layout.tsx\<close> does with the answer of \<open>/auth/me\<close>.

  An answer whose JSON has not the shape the source declares counts as a failed read.
\<close>

section \<open>Data of auth.ts\<close>

record UserPublic =
  u_id :: string
  u_email :: string
  u_display_name :: "string option"
  u_mobile_phone :: "string option"
  u_is_admin :: bool
  u_totp_enrolled :: bool
  u_otp_login_enabled :: bool
  u_must_change_password :: bool
  u_auth_method :: string
  u_organization_id :: string

definition user_of :: "json \<Rightarrow> UserPublic option" where
  "user_of j = do {
     i \<leftarrow> jread j ''id'' as_str;
     em \<leftarrow> jread j ''email'' as_str;
     dn \<leftarrow> jread j ''display_name'' (as_nullable as_str);
     mp \<leftarrow> jread j ''mobile_phone'' (as_nullable as_str);
     ad \<leftarrow> jread j ''is_admin'' as_bool;
     te \<leftarrow> jread j ''totp_enrolled'' as_bool;
     oe \<leftarrow> jread j ''otp_login_enabled'' as_bool;
     mc \<leftarrow> jread j ''must_change_password'' as_bool;
     am \<leftarrow> jread j ''auth_method'' as_str;
     og \<leftarrow> jread j ''organization_id'' as_str;
     Some \<lparr>u_id = i, u_email = em, u_display_name = dn, u_mobile_phone = mp, u_is_admin = ad,
       u_totp_enrolled = te, u_otp_login_enabled = oe, u_must_change_password = mc,
       u_auth_method = am, u_organization_id = og\<rparr> }"

record ProfileUpdate =
  pu_display_name :: "string jopt"
  pu_mobile_phone :: "string jopt"
  pu_otp_login_enabled :: "bool jopt"

definition ProfileUpdate_json :: "ProfileUpdate \<Rightarrow> json" where
  "ProfileUpdate_json p = JObj (
     jfield ''display_name'' JStr (pu_display_name p) @
     jfield ''mobile_phone'' JStr (pu_mobile_phone p) @
     jfield ''otp_login_enabled'' JBool (pu_otp_login_enabled p))"

datatype mfa_method = Totp | Email | Sms

fun mfa_name :: "mfa_method \<Rightarrow> string" where
  "mfa_name Totp = ''totp''"
| "mfa_name Email = ''email''"
| "mfa_name Sms = ''sms''"

definition as_mfa :: "json \<Rightarrow> mfa_method option" where
  "as_mfa j =
     (if j = JStr ''totp'' then Some Totp else if j = JStr ''email'' then Some Email
      else if j = JStr ''sms'' then Some Sms else None)"

type_synonym MfaMethod = "mfa_method \<times> string option"

definition mfa_of :: "json \<Rightarrow> MfaMethod option" where
  "mfa_of j = do {
     m \<leftarrow> jread j ''method'' as_mfa;
     h \<leftarrow> jread j ''destination_hint'' (as_nullable as_str);
     Some (m, h) }"

datatype LoginResult =
    LoginFinal string string json
  | LoginMfaRequired string string
  | LoginOtpRequired string string mfa_method string
  | LoginMfaChoice string string "MfaMethod list" mfa_method

definition login_result :: "json \<Rightarrow> LoginResult option" where
  "login_result j = do {
     st \<leftarrow> jread j ''status'' as_str;
     if st = ''ok'' then do {
       (t, e) \<leftarrow> token_pair j;
       u \<leftarrow> jget j ''user'';
       Some (LoginFinal t e u) }
     else do {
       mt \<leftarrow> jread j ''mfa_temp_token'' as_str;
       me \<leftarrow> jread j ''mfa_temp_expires_at'' as_str;
       if st = ''mfa_required'' then Some (LoginMfaRequired mt me)
       else if st = ''otp_required'' then do {
         ch \<leftarrow> jread j ''channel'' as_mfa;
         h \<leftarrow> jread j ''destination_hint'' as_str;
         Some (LoginOtpRequired mt me ch h) }
       else if st = ''mfa_choice'' then do {
         arr \<leftarrow> jread j ''methods'' as_arr;
         ms \<leftarrow> those (map mfa_of arr);
         d \<leftarrow> jread j ''default_method'' as_mfa;
         Some (LoginMfaChoice mt me ms d) }
       else None } }"

text \<open>Reading an answer at a declared type.\<close>

definition typed :: "(json \<Rightarrow> 'a option) \<Rightarrow> json \<Rightarrow> 'a call" where
  "typed f j = ret (case f j of None \<Rightarrow> Inl (JsError ''unexpected answer'') | Some v \<Rightarrow> Inr v)"

section \<open>Client functions\<close>

definition updateProfile :: "env \<Rightarrow> ProfileUpdate \<Rightarrow> json call" where
  "updateProfile E payload =
     guarded E (api_json E PATCH ''auth/me'' (with_json (ProfileUpdate_json payload)))"

text \<open>\<open>authStorage.setAccessToken(out.access_token, out.expires_at); return out;\<close>\<close>

definition keep_token :: "env \<Rightarrow> string \<times> string \<Rightarrow> (string \<times> string) call" where
  "keep_token E p = do { storage_set E (fst p) (snd p); ret (Inr p) }"

definition changePassword :: "env \<Rightarrow> string \<Rightarrow> string \<Rightarrow> (string \<times> string) call" where
  "changePassword E current_password new_password =
     guarded E (awaiting (awaiting
       (api_json E POST ''auth/change-password''
          (with_json (JObj [(''current_password'', JStr current_password), (''new_password'', JStr new_password)])))
       (typed token_pair)) (keep_token E))"

definition enrollTotpBegin :: "env \<Rightarrow> json call" where
  "enrollTotpBegin E = guarded E (api_json E POST ''auth/totp/enroll'' no_args)"

definition enrollTotpConfirm :: "env \<Rightarrow> string \<Rightarrow> unit call" where
  "enrollTotpConfirm E code =
     guarded E (api_unit E POST ''auth/totp/enroll/confirm'' (with_json (JObj [(''code'', JStr code)])))"

definition disableTotp :: "env \<Rightarrow> string \<Rightarrow> unit call" where
  "disableTotp E currentPassword =
     guarded E (api_unit E POST ''auth/totp/disable''
       (with_json (JObj [(''current_password'', JStr currentPassword)])))"

definition otp_sent :: "json \<Rightarrow> (mfa_method \<times> string) option" where
  "otp_sent j = do {
     m \<leftarrow> jread j ''method'' as_mfa;
     h \<leftarrow> jread j ''destination_hint'' as_str;
     Some (m, h) }"

definition sendOtpCode :: "env \<Rightarrow> string \<Rightarrow> mfa_method \<Rightarrow> (mfa_method \<times> string) call" where
  "sendOtpCode E mfa_temp_token m =
     guarded E (awaiting
       (api_json E POST ''auth/otp/send''
          (with_json (JObj [(''mfa_temp_token'', JStr mfa_temp_token), (''method'', JStr (mfa_name m))])))
       (typed otp_sent))"

definition login_store :: "env \<Rightarrow> LoginResult \<Rightarrow> LoginResult call" where
  "login_store E r = (case r of
     LoginFinal t e u \<Rightarrow> do { storage_set E t e; ret (Inr r) }
   | _ \<Rightarrow> ret (Inr r))"

definition login :: "env \<Rightarrow> string \<Rightarrow> string \<Rightarrow> LoginResult call" where
  "login E email password =
     guarded E (awaiting (awaiting
       (api_json E POST ''auth/login''
          (with_json (JObj [(''email'', JStr email), (''password'', JStr password)])))
       (typed login_result)) (login_store E))"

definition verify_body :: "string \<Rightarrow> string \<Rightarrow> json" where
  "verify_body mfa_temp_token code =
     JObj [(''mfa_temp_token'', JStr mfa_temp_token), (''code'', JStr code)]"

definition verifyTotp :: "env \<Rightarrow> string \<Rightarrow> string \<Rightarrow> (string \<times> string) call" where
  "verifyTotp E mfa_temp_token code =
     guarded E (awaiting (awaiting
       (api_json E POST ''auth/totp/verify'' (with_json (verify_body mfa_temp_token code)))
       (typed token_pair)) (keep_token E))"

definition verifyLoginOtp :: "env \<Rightarrow> string \<Rightarrow> string \<Rightarrow> (string \<times> string) call" where
  "verifyLoginOtp E mfa_temp_token code =
     guarded E (awaiting (awaiting
       (api_json E POST ''auth/otp/verify'' (with_json (verify_body mfa_temp_token code)))
       (typed token_pair)) (keep_token E))"

text \<open>\<open>try { ... } finally { authStorage.clear() }\<close>: the error, if any, goes on.\<close>

definition logout :: "env \<Rightarrow> unit call" where
  "logout E = do {
     x \<leftarrow> api_unit E POST ''auth/logout'' no_args;
     storage_clear E;
     ret x }"

definition fetchMe :: "env \<Rightarrow> UserPublic option call" where
  "fetchMe E = catching
     (awaiting (awaiting (api_json E GET ''auth/me'' no_args) (typed user_of)) (\<lambda>u. ret (Inr (Some u))))
     (\<lambda>e. case e of
        HTTPError r \<Rightarrow> if rs_status r = 401 then ret (Inr None) else ret (Inl e)
      | JsError m \<Rightarrow> ret (Inl e))"

definition fetchSetupStatus :: "env \<Rightarrow> bool call" where
  "fetchSetupStatus E =
     awaiting (api_json E GET ''setup/status'' no_args) (typed (\<lambda>j. jread j ''setup_complete'' as_bool))"

text \<open>\<open>json.providers ?? []\<close>, and no provider at all after any error.\<close>

definition fetchOidcProviders :: "env \<Rightarrow> json list call" where
  "fetchOidcProviders E = catching
     (awaiting (api_json E GET ''auth/oidc/providers'' no_args)
        (typed (\<lambda>j. case jget j ''providers'' of
            None \<Rightarrow> (if j = JNull then None else Some [])
          | Some JNull \<Rightarrow> Some []
          | Some p \<Rightarrow> as_arr p)))
     (\<lambda>_. ret (Inr []))"

record SetupPayload =
  organization_name :: string
  organization_slug :: string
  admin_email :: string
  admin_display_name :: string
  admin_password :: string

definition SetupPayload_json :: "SetupPayload \<Rightarrow> json" where
  "SetupPayload_json p = JObj [
     (''organization_name'', JStr (organization_name p)),
     (''organization_slug'', JStr (organization_slug p)),
     (''admin_email'', JStr (admin_email p)),
     (''admin_display_name'', JStr (admin_display_name p)),
     (''admin_password'', JStr (admin_password p))]"

definition performSetup :: "env \<Rightarrow> SetupPayload \<Rightarrow> string \<Rightarrow> unit call" where
  "performSetup E payload bootstrapToken =
     guarded E (awaiting
       (api_json E POST ''setup''
          ((with_json (SetupPayload_json payload))\<lparr>a_headers := [(''X-Bootstrap-Token'', bootstrapToken)]\<rparr>))
       (\<lambda>_. ret (Inr ())))"

end
