(* ===== verification/Login_Page.thy ===== *)
theory Login_Page
  imports Sign_In
begin

text \<open>
  The sign-in page \<open>app/login/page.tsx\<close>: the cleaning of \<open>?next=\<close>, the handlers over the
  page's React state, and the page as a state machine in which a click may come while a
  call is in flight; the single sign-on landing page; and the dashboard shell's reaction to
  \<open>/auth/me\<close> (\<open>app/dashboard/layout.tsx\<close>).
\<close>

section \<open>The return address\<close>

text \<open>
  \<open>new URL(raw, origin)\<close> for a base with an http(s) scheme and the path \<open>/\<close>. References
  with a scheme or an authority of their own are absolute; what the browser reads in them
  is the argument \<open>far\<close>. Every other reference keeps the origin: its path is cut at the
  slashes, dot segments are resolved, and the rest is percent-encoded.
\<close>

record url =
  origin :: string
  pathname :: string
  search :: string
  hash :: string

definition url_strip :: "string \<Rightarrow> string" where
  "url_strip s =
     (let c0 = (\<lambda>c. ccode c \<le> 32)
      in filter (\<lambda>c. c \<noteq> CHR 0x09 \<and> c \<noteq> CHR 0x0A \<and> c \<noteq> CHR 0x0D)
           (rev (dropWhile c0 (rev (dropWhile c0 s)))))"

definition scheme_char :: "char \<Rightarrow> bool" where
  "scheme_char c = (is_alnum c \<or> c \<in> set ''+-.'')"

definition has_scheme :: "string \<Rightarrow> bool" where
  "has_scheme s =
     (s \<noteq> [] \<and> is_alnum (hd s) \<and> \<not> is_digit (hd s) \<and>
      (case dropWhile scheme_char s of c # _ \<Rightarrow> c = CHR '':'' | [] \<Rightarrow> False))"

definition unbackslash :: "string \<Rightarrow> string" where
  "unbackslash = map (\<lambda>c. if c = CHR 0x5C then CHR ''/'' else c)"

definition single_dot :: "string \<Rightarrow> bool" where
  "single_dot s = (toLowerCase s \<in> {''.'', ''%2e''})"

definition double_dot :: "string \<Rightarrow> bool" where
  "double_dot s = (toLowerCase s \<in> {''..'', ''.%2e'', ''%2e.'', ''%2e%2e''})"

fun dot_segments :: "string list \<Rightarrow> string list \<Rightarrow> string list" where
  "dot_segments acc [] = rev acc"
| "dot_segments acc [s] =
     (if double_dot s then rev ([] # tl acc) else if single_dot s then rev ([] # acc) else rev (s # acc))"
| "dot_segments acc (s # r) =
     (if double_dot s then dot_segments (tl acc) r
      else if single_dot s then dot_segments acc r else dot_segments (s # acc) r)"

definition enc_with :: "string \<Rightarrow> string \<Rightarrow> string" where
  "enc_with unsafe s =
     concat (map (\<lambda>c. if ccode c \<le> 32 \<or> 127 \<le> ccode c \<or> c \<in> set unsafe then pct c else [c]) s)"

definition path_unsafe :: string where
  "path_unsafe = [CHR 0x22, CHR ''#'', CHR ''<'', CHR ''>'', CHR ''?'', CHR 0x60, CHR ''{'', CHR ''}'']"

definition query_unsafe :: string where
  "query_unsafe = [CHR 0x22, CHR ''#'', CHR ''<'', CHR ''>'', CHR 0x27]"

definition hash_unsafe :: string where
  "hash_unsafe = [CHR 0x22, CHR ''<'', CHR ''>'', CHR 0x60]"

definition path_of :: "string \<Rightarrow> string" where
  "path_of p =
     (let q = unbackslash p;
          segs = split CHR ''/'' (if startsWith q ''/'' then tl q else q)
      in concat (map (\<lambda>s. CHR ''/'' # enc_with path_unsafe s)
           (dot_segments [] segs)))"

definition cut_at :: "char \<Rightarrow> string \<Rightarrow> string \<times> string" where
  "cut_at d s = (takeWhile (\<lambda>c. c \<noteq> d) s, dropWhile (\<lambda>c. c \<noteq> d) s)"

definition URL :: "(string \<Rightarrow> url option) \<Rightarrow> string \<Rightarrow> string \<Rightarrow> url option" where
  "URL far base raw =
     (let s = url_strip raw
      in if has_scheme s \<or> startsWith (unbackslash s) ''//'' then far s
         else (let (body, frag) = cut_at CHR ''#'' s; (path, query) = cut_at CHR ''?'' body
               in Some \<lparr>origin = base, pathname = path_of path,
                    search = (if length query \<le> 1 then []
                              else ''?'' @ enc_with query_unsafe (tl query)),
                    hash = (if length frag \<le> 1 then []
                            else ''#'' @ enc_with hash_unsafe (tl frag))\<rparr>))"

definition next_target :: "(string \<Rightarrow> url option) \<Rightarrow> bool \<Rightarrow> string \<Rightarrow> string option \<Rightarrow> string" where
  "next_target far w here raw =
     (case raw of
        None \<Rightarrow> ''/dashboard''
      | Some r \<Rightarrow>
          if r = [] \<or> \<not> w then ''/dashboard''
          else (case URL far here r of
             None \<Rightarrow> ''/dashboard''
           | Some u \<Rightarrow> if origin u \<noteq> here then ''/dashboard''
               else pathname u @ search u @ hash u))"

lemma set_url_strip: "set (url_strip s) \<subseteq> set s"
  by (auto simp: url_strip_def Let_def dest!: set_dropWhileD)

lemma not_dot: "CHR ''.'' \<notin> set s \<Longrightarrow> CHR ''%'' \<notin> set s \<Longrightarrow> \<not> single_dot s \<and> \<not> double_dot s"
proof -
  have l: "lower_char c = d \<longleftrightarrow> c = d" if "d \<in> {CHR ''.'', CHR ''%''}" for c d
  proof (cases "65 \<le> ccode c \<and> ccode c \<le> 90")
    case True
    then have "ccode (lower_char c) \<ge> 97" using lower_char_code [of c] by simp
    with that True show ?thesis by auto
  qed (auto simp: lower_char_def)
  assume "CHR ''.'' \<notin> set s" "CHR ''%'' \<notin> set s"
  then have "CHR ''.'' \<notin> set (toLowerCase s)" "CHR ''%'' \<notin> set (toLowerCase s)"
    unfolding toLowerCase_def set_map image_iff using l by (metis insertCI)+
  then show ?thesis by (auto simp: single_dot_def double_dot_def)
qed

lemma dot_segments_plain:
  "\<forall>s \<in> set segs. \<not> single_dot s \<and> \<not> double_dot s \<Longrightarrow> dot_segments acc segs = rev acc @ segs"
  by (induction acc segs rule: dot_segments.induct) auto

lemma set_split: "w \<in> set (split d s) \<Longrightarrow> set w \<subseteq> set s"
  by (induction s arbitrary: w) (fastforce split: if_splits list.splits)+

lemma enc_with_head: "s \<noteq> [] \<Longrightarrow> CHR ''/'' \<notin> set s \<Longrightarrow> \<exists>c r. enc_with u s = c # r \<and> c \<noteq> CHR ''/''"
  by (cases s) (auto simp: enc_with_def pct_def)

lemma path_of_single_slash:
  assumes "CHR ''.'' \<notin> set p" "CHR ''%'' \<notin> set p" "\<not> startsWith (unbackslash p) ''//''"
  shows "\<exists>r. path_of p = CHR ''/'' # r \<and> (r = [] \<or> hd r \<noteq> CHR ''/'')"
proof -
  define q where "q = unbackslash p"
  define t where "t = (if startsWith q ''/'' then tl q else q)"
  obtain w ws where w: "split CHR ''/'' t = w # ws" by (metis split_not_Nil neq_Nil_conv)
  have "set t \<subseteq> set q" by (cases q) (auto simp: t_def)
  moreover have "CHR ''.'' \<notin> set q" "CHR ''%'' \<notin> set q"
    using assms(1,2) by (auto simp: q_def unbackslash_def)
  ultimately have "CHR ''.'' \<notin> set t" "CHR ''%'' \<notin> set t" by auto
  then have "\<not> single_dot v \<and> \<not> double_dot v" if "v \<in> set (split CHR ''/'' t)" for v
    using set_split [OF that] by (intro not_dot) auto
  then have d: "dot_segments [] (split CHR ''/'' t) = w # ws" by (simp add: dot_segments_plain w)
  have wn: "CHR ''/'' \<notin> set w" using split_fields_no_sep [of w "CHR ''/''" t] w by simp
  have "w \<noteq> [] \<or> ws = []"
  proof (rule ccontr)
    assume "\<not> (w \<noteq> [] \<or> ws = [])"
    with w have "t \<noteq> [] \<and> hd t = CHR ''/''"
      by (cases t) (auto split: if_splits list.splits)
    moreover have "\<not> startsWith q ''//''" using assms(3) by (simp add: q_def)
    ultimately show False
      by (cases q; cases "tl q") (auto simp: t_def startsWith_def split: if_splits)
  qed
  moreover have "path_of p = concat (map (\<lambda>s. CHR ''/'' # enc_with path_unsafe s) (w # ws))"
    by (simp only: path_of_def Let_def q_def [symmetric] t_def [symmetric] d)
  moreover have "enc_with path_unsafe [] = []" by (simp add: enc_with_def)
  ultimately show ?thesis
    using enc_with_head [OF _ wn, of path_unsafe] by (cases "w = []") auto
qed

text \<open>
  A return address without dots and percent signs that is no absolute URL leads to a path
  of this site: the target begins with one slash, so the browser cannot read another host
  in it.
\<close>

theorem next_target_same_site:
  assumes "CHR ''.'' \<notin> set raw" "CHR ''%'' \<notin> set raw"
    and "\<not> has_scheme (url_strip raw)" "\<not> startsWith (unbackslash (url_strip raw)) ''//''"
  shows "\<exists>r. next_target far w here (Some raw) = CHR ''/'' # r \<and> (r = [] \<or> hd r \<noteq> CHR ''/'')"
proof (cases "raw = [] \<or> \<not> w")
  case False
  define p where "p = fst (cut_at CHR ''?'' (fst (cut_at CHR ''#'' (url_strip raw))))"
  have "set p \<subseteq> set raw" using set_url_strip [of raw]
    by (auto simp: p_def cut_at_def dest!: set_takeWhileD)
  moreover have "prefix p (url_strip raw)"
    by (auto simp: p_def cut_at_def intro: prefix_order.trans takeWhile_is_prefix)
  then have "\<not> startsWith (unbackslash p) ''//''"
    using assms(4) by (auto simp: startsWith_prefix unbackslash_def prefix_def)
  ultimately obtain r where r: "path_of p = CHR ''/'' # r" "r = [] \<or> hd r \<noteq> CHR ''/''"
    using path_of_single_slash [of p] assms(1,2) by blast
  obtain tl1 tl2 where "next_target far w here (Some raw) = path_of p @ tl1 @ tl2"
    and "tl1 = [] \<or> hd tl1 = CHR ''?''" "tl2 = [] \<or> hd tl2 = CHR ''#''"
    using False assms(3,4)
    by (simp add: next_target_def URL_def Let_def case_prod_unfold p_def)
  with r show ?thesis by (cases r; cases tl1) auto
qed (auto simp: next_target_def)

theorem next_target_same_site_witness:
  "\<exists>r. next_target (\<lambda>_. None) True ''https://nf'' (Some ''/d'') = CHR ''/'' # r \<and>
    (r = [] \<or> hd r \<noteq> CHR ''/'')"
  by (rule next_target_same_site)
    (simp_all add: has_scheme_def url_strip_def unbackslash_def startsWith_def is_alnum_def)


section \<open>The page's state and handlers\<close>

datatype phase = Password | Choose | TotpCode | OtpCode

text \<open>
  \<open>inflight\<close> is the call a handler is waiting for (the promise it awaits), \<open>went\<close> the
  argument of \<open>router.replace\<close>.
\<close>

datatype awaited = AwaitLogin | AwaitSend | AwaitVerify

record login_page =
  ph :: phase
  email :: string
  password :: string
  code :: string
  mfaTempToken :: "string option"
  otpInfo :: "(mfa_method \<times> string) option"
  methods :: "MfaMethod list"
  defaultMethod :: mfa_method
  error :: "string option"
  submitting :: bool
  inflight :: "awaited option"
  went :: "string option"

definition first_error :: "(string \<Rightarrow> string option) \<Rightarrow> string option" where
  "first_error searchParams =
     (if searchParams ''error'' = Some ''oidc''
      then Some (take 300 (case searchParams ''message'' of None \<Rightarrow> ''Single sign-on failed.'' | Some m \<Rightarrow> m))
      else None)"

definition initial_page :: "(string \<Rightarrow> string option) \<Rightarrow> login_page" where
  "initial_page searchParams = \<lparr>ph = Password, email = [], password = [], code = [],
     mfaTempToken = None, otpInfo = None, methods = [], defaultMethod = Totp,
     error = first_error searchParams, submitting = False, inflight = None, went = None\<rparr>"

text \<open>\<open>setError(null); setSubmitting(true);\<close> and the end of every \<open>try\<close>.\<close>

definition submit :: "awaited \<Rightarrow> login_page \<Rightarrow> login_page" where
  "submit a p = p\<lparr>error := None, submitting := True, inflight := Some a\<rparr>"

definition finally_idle :: "login_page \<Rightarrow> login_page" where
  "finally_idle p = p\<lparr>submitting := False, inflight := None\<rparr>"

text \<open>\<open>(e as Error).message\<close>; the client functions throw nothing but \<open>Error\<close>s.\<close>

fun message :: "js_error \<Rightarrow> string" where
  "message (JsError m) = m"
| "message (HTTPError r) = ''Request failed with status code '' @ show_nat (rs_status r)"

definition password_done :: "string \<Rightarrow> js_error + LoginResult \<Rightarrow> login_page \<Rightarrow> login_page" where
  "password_done next x p = finally_idle
     (case x of
        Inl e \<Rightarrow> p\<lparr>error := Some (message e)\<rparr>
      | Inr (LoginMfaChoice t ex ms d) \<Rightarrow>
          p\<lparr>mfaTempToken := Some t, methods := ms, defaultMethod := d, ph := Choose\<rparr>
      | Inr (LoginMfaRequired t ex) \<Rightarrow> p\<lparr>mfaTempToken := Some t, ph := TotpCode\<rparr>
      | Inr (LoginOtpRequired t ex ch h) \<Rightarrow>
          p\<lparr>mfaTempToken := Some t, otpInfo := Some (ch, h), ph := OtpCode\<rparr>
      | Inr (LoginFinal t ex u) \<Rightarrow> p\<lparr>went := Some next\<rparr>)"

definition onSubmitPassword :: "env \<Rightarrow> string \<Rightarrow> login_page \<Rightarrow> login_page io" where
  "onSubmitPassword E next p = do {
     x \<leftarrow> login E (email p) (password p);
     ret (password_done next x (submit AwaitLogin p)) }"

definition send_done :: "js_error + (mfa_method \<times> string) \<Rightarrow> login_page \<Rightarrow> login_page" where
  "send_done x p = finally_idle
     (case x of
        Inl e \<Rightarrow> p\<lparr>error := Some (message e)\<rparr>
      | Inr (ch, h) \<Rightarrow> p\<lparr>otpInfo := Some (ch, h), ph := OtpCode\<rparr>)"

definition pickMethod :: "env \<Rightarrow> mfa_method \<Rightarrow> login_page \<Rightarrow> login_page io" where
  "pickMethod E m p =
     (if \<not> truthy_str (mfaTempToken p) then ret p
      else if m = Totp then ret (p\<lparr>error := None, ph := TotpCode\<rparr>)
      else do {
        x \<leftarrow> sendOtpCode E (the (mfaTempToken p)) m;
        ret (send_done x (submit AwaitSend p)) })"

definition verify_done :: "string \<Rightarrow> js_error + (string \<times> string) \<Rightarrow> login_page \<Rightarrow> login_page" where
  "verify_done next x p = finally_idle
     (case x of
        Inl e \<Rightarrow> p\<lparr>error := Some (message e)\<rparr>
      | Inr _ \<Rightarrow> p\<lparr>went := Some next\<rparr>)"

definition onSubmitTotp :: "env \<Rightarrow> string \<Rightarrow> login_page \<Rightarrow> login_page io" where
  "onSubmitTotp E next p =
     (if \<not> truthy_str (mfaTempToken p) then ret p
      else do {
        x \<leftarrow> verifyTotp E (the (mfaTempToken p)) (code p);
        ret (verify_done next x (submit AwaitVerify p)) })"

definition onSubmitOtp :: "env \<Rightarrow> string \<Rightarrow> login_page \<Rightarrow> login_page io" where
  "onSubmitOtp E next p =
     (if \<not> truthy_str (mfaTempToken p) then ret p
      else do {
        x \<leftarrow> verifyLoginOtp E (the (mfaTempToken p)) (code p);
        ret (verify_done next x (submit AwaitVerify p)) })"

definition resetToPassword :: "login_page \<Rightarrow> login_page" where
  "resetToPassword p = p\<lparr>ph := Password, code := [], mfaTempToken := None, otpInfo := None, methods := []\<rparr>"

text \<open>\<open>setCode(e.target.value.replace(/\D/g, "").slice(0, 8))\<close>\<close>

definition editCode :: "string \<Rightarrow> login_page \<Rightarrow> login_page" where
  "editCode v p = p\<lparr>code := take 8 (filter is_digit v)\<rparr>"

definition otherFactor :: "login_page \<Rightarrow> login_page" where
  "otherFactor p = p\<lparr>code := [], ph := Choose\<rparr>"

lemmas page_defs = submit_def finally_idle_def password_done_def send_done_def verify_done_def
  resetToPassword_def editCode_def otherFactor_def

section \<open>The page as a state machine\<close>

text \<open>
  The events of the page: what each phase's form offers (a button is disabled while
  \<open>submitting\<close>, but not \<open>Use a different account\<close> and \<open>Use a different factor\<close>), and
  the settling of the awaited call, with any answer, at any later moment.
\<close>

inductive page_step :: "string \<Rightarrow> login_page \<Rightarrow> login_page \<Rightarrow> bool" for nxt :: string where
  edit_email: "ph p = Password \<Longrightarrow> page_step nxt p (p\<lparr>email := v\<rparr>)"
| edit_password: "ph p = Password \<Longrightarrow> page_step nxt p (p\<lparr>password := v\<rparr>)"
| edit_code: "ph p \<in> {TotpCode, OtpCode} \<Longrightarrow> page_step nxt p (editCode v p)"
| click_sign_in: "ph p = Password \<Longrightarrow> \<not> submitting p \<Longrightarrow> page_step nxt p (submit AwaitLogin p)"
| click_totp: "ph p = Choose \<Longrightarrow> \<not> submitting p \<Longrightarrow> Totp \<in> fst ` set (methods p) \<Longrightarrow>
    truthy_str (mfaTempToken p) \<Longrightarrow> page_step nxt p (p\<lparr>error := None, ph := TotpCode\<rparr>)"
| click_send: "ph p = Choose \<Longrightarrow> \<not> submitting p \<Longrightarrow> m \<in> fst ` set (methods p) \<Longrightarrow> m \<noteq> Totp \<Longrightarrow>
    truthy_str (mfaTempToken p) \<Longrightarrow> page_step nxt p (submit AwaitSend p)"
| click_verify: "ph p \<in> {TotpCode, OtpCode} \<Longrightarrow> \<not> submitting p \<Longrightarrow>
    truthy_str (mfaTempToken p) \<Longrightarrow> page_step nxt p (submit AwaitVerify p)"
| click_other_factor: "ph p \<in> {TotpCode, OtpCode} \<Longrightarrow> length (methods p) > 1 \<Longrightarrow>
    page_step nxt p (otherFactor p)"
| click_other_account: "ph p \<noteq> Password \<Longrightarrow> page_step nxt p (resetToPassword p)"
| login_settles: "inflight p = Some AwaitLogin \<Longrightarrow> page_step nxt p (password_done nxt x p)"
| send_settles: "inflight p = Some AwaitSend \<Longrightarrow> page_step nxt p (send_done y p)"
| verify_settles: "inflight p = Some AwaitVerify \<Longrightarrow> page_step nxt p (verify_done nxt z p)"

definition page_init :: "login_page \<Rightarrow> bool" where
  "page_init p \<longleftrightarrow> (\<exists>sp. p = initial_page sp)"

text \<open>
  What every run keeps: one call at a time; the choice of a factor and the authenticator
  form only with a challenge in hand; a code of at most eight digits; \<open>otpInfo\<close> whenever
  the one-time code form is up.
\<close>

definition page_inv :: "login_page \<Rightarrow> bool" where
  "page_inv p \<longleftrightarrow>
     (submitting p \<longleftrightarrow> inflight p \<noteq> None) \<and>
     (inflight p = Some AwaitLogin \<longrightarrow> ph p = Password) \<and>
     (ph p \<in> {Choose, TotpCode} \<or> methods p \<noteq> [] \<longrightarrow> mfaTempToken p \<noteq> None) \<and>
     (ph p = OtpCode \<longrightarrow> otpInfo p \<noteq> None) \<and>
     (\<forall>c \<in> set (code p). is_digit c) \<and> length (code p) \<le> 8"

lemma page_inv_init: "page_init p \<Longrightarrow> page_inv p"
  by (auto simp: page_init_def initial_page_def page_inv_def)

lemma page_inv_step:
  assumes "page_step nxt p q" "page_inv p"
  shows "page_inv q"
  using assms
proof (induction rule: page_step.induct)
  case (login_settles p x)
  then show ?case
    by (auto simp: page_inv_def password_done_def finally_idle_def split: sum.splits LoginResult.splits)
next
  case (send_settles p y)
  then show ?case
    by (auto simp: page_inv_def send_done_def finally_idle_def split: sum.splits)
next
  case (verify_settles p z)
  then show ?case
    by (auto simp: page_inv_def verify_done_def finally_idle_def split: sum.splits)
next
  case (edit_code p v)
  define d where "d = take 8 (filter is_digit v)"
  have "\<forall>c \<in> set d. is_digit c" "length d \<le> 8" by (auto simp: d_def dest: in_set_takeD)
  with edit_code show ?case unfolding editCode_def d_def [symmetric] page_inv_def by auto
next
  case (click_other_factor p)
  then have "methods p \<noteq> []" by auto
  with click_other_factor show ?case by (simp add: page_inv_def otherFactor_def) auto
qed (simp_all add: page_inv_def submit_def resetToPassword_def)

interpretation login_sys: invariant_system page_init "page_step nxt" page_inv for nxt
  by unfold_locales (blast intro: page_inv_init page_inv_step)+



definition stuck_page :: login_page where
  "stuck_page =
     send_done (Inr (Email, ''a@b'')) (resetToPassword (submit AwaitSend
       (password_done ''/d'' (Inr (LoginMfaChoice ''m'' ''e'' [(Email, None)] Email))
         (submit AwaitLogin (initial_page (\<lambda>_. None))))))"

text \<open>
  The page can get stuck: choosing a one-time code and then \<open>Use a different account\<close>
  before the server has answered leaves the one-time code form up without a challenge
  token, and submitting that form does nothing, not even an error.
\<close>

theorem login_page_stuck:
  "reaches page_init (page_step ''/d'') stuck_page \<and>
    ph stuck_page = OtpCode \<and> mfaTempToken stuck_page = None \<and>
    onSubmitOtp E ''/d'' stuck_page = ret stuck_page"
proof -
  let ?p = "initial_page (\<lambda>_. None)"
  let ?q = "password_done ''/d'' (Inr (LoginMfaChoice ''m'' ''e'' [(Email, None)] Email)) (submit AwaitLogin ?p)"
  have "reaches page_init (page_step ''/d'') ?p" by (rule reaches_init) (auto simp: page_init_def)
  then have "reaches page_init (page_step ''/d'') (submit AwaitLogin ?p)"
    by (rule reaches_step) (simp add: click_sign_in initial_page_def)
  then have "reaches page_init (page_step ''/d'') ?q"
    by (rule reaches_step) (simp add: login_settles submit_def)
  then have "reaches page_init (page_step ''/d'') (submit AwaitSend ?q)"
    by (rule reaches_step)
      (rule click_send [where m = Email]; simp add: password_done_def finally_idle_def)
  then have "reaches page_init (page_step ''/d'') (resetToPassword (submit AwaitSend ?q))"
    by (rule reaches_step) (simp add: click_other_account submit_def password_done_def finally_idle_def)
  then have "reaches page_init (page_step ''/d'') stuck_page"
    unfolding stuck_page_def
    by (rule reaches_step) (simp add: send_settles submit_def resetToPassword_def)
  then show ?thesis
    by (simp add: stuck_page_def page_defs onSubmitOtp_def initial_page_def)
qed

section \<open>Leaving the page\<close>

lemma run_guarded:
  "run_state (guarded E m) s =
     (case run_state m s of
        (Inl e, s') \<Rightarrow> (Inl (JsError (js_String (numstr E) (readErrorMessage e))), s')
      | (Inr v, s') \<Rightarrow> (Inr v, s'))"
  by (simp add: guarded_def rethrow_def run_catching split: prod.splits sum.splits)

lemma guarded_Inr:
  "run_state (guarded E m) s = (Inr v, s') \<longleftrightarrow> run_state m s = (Inr v, s')"
  by (auto simp: run_guarded split: prod.splits sum.splits)

lemma awaiting_Inr:
  "run_state (awaiting m f) s = (Inr v, s') \<longleftrightarrow>
     (\<exists>x s1. run_state m s = (Inr x, s1) \<and> run_state (f x) s1 = (Inr v, s'))"
  by (auto simp: run_awaiting split: prod.splits sum.splits)

lemma keep_token_stores:
  "run_state (keep_token E p) s = (Inr q, s') \<Longrightarrow> tok (storage s') = Some (fst p)"
  by (auto simp: keep_token_def run_storage_set storage_defs)

lemma verify_stores:
  assumes "run_state (guarded E (awaiting m (keep_token E))) s = (Inr q, s')"
  shows "\<exists>t. tok (storage s') = Some t"
proof -
  obtain x s1 where "run_state (keep_token E x) s1 = (Inr q, s')"
    using assms unfolding guarded_Inr awaiting_Inr by blast
  then show ?thesis using keep_token_stores by blast
qed

lemma login_store_stores:
  "run_state (login_store E r) s = (Inr (LoginFinal t e u), s') \<Longrightarrow> tok (storage s') = Some t"
  by (cases r) (auto simp: login_store_def run_storage_set storage_defs)

lemma login_stores:
  assumes "run_state (login E em pw) s = (Inr (LoginFinal t e u), s')"
  shows "\<exists>t. tok (storage s') = Some t"
  using assms login_store_stores unfolding login_def guarded_Inr awaiting_Inr by blast


text \<open>A server that accepts every password.\<close>

definition ok_login :: response where
  "ok_login = plain_response 200 (JObj [(''status'', JStr ''ok''), (''access_token'', JStr ''T''),
     (''expires_at'', JStr ''later''), (''user'', JNull)])"

definition open_env :: env where
  "open_env = (bare_env (\<lambda>_ _. Inl []) (\<lambda>_. 0) (\<lambda>_. Num 9))\<lparr>ky_send := \<lambda>_ _. ret (Inr ok_login)\<rparr>"


section \<open>Single sign-on\<close>

text \<open>
  The landing page of \<open>app/auth/oidc/complete/page.tsx\<close>: the token from the URL fragment is
  kept for fifteen minutes. \<open>toISO\<close> is \<open>toISOString\<close>; the result is the redirect.
\<close>

definition oidc_complete :: "env \<Rightarrow> (int \<Rightarrow> string) \<Rightarrow> string \<Rightarrow> string io" where
  "oidc_complete E toISO hsh =
     (let h = (if startsWith hsh ''#'' then tl hsh else []);
          tk = map_of (sp_parse h) ''access_token''
      in if \<not> truthy_str tk then ret ''/login?error=oidc''
         else do {
           now \<leftarrow> Date_now E;
           storage_set E (the tk) (toISO (now + 15 * 60 * 1000));
           ret ''/dashboard'' })"

section \<open>The dashboard shell\<close>

text \<open>
  The query behind \<open>me\<close>: \<open>fetchMe\<close>, repeated after a failure as long as \<open>retry\<close> says;
  undefined when it never succeeded.
\<close>

definition me_retry :: "nat \<Rightarrow> bool" where
  "me_retry failures = (failures < 5)"

definition me_retryDelay :: "nat \<Rightarrow> nat" where
  "me_retryDelay attempt = min (1000 * 2 ^ attempt) 10000"

function me_query :: "env \<Rightarrow> nat \<Rightarrow> UserPublic jopt io" where
  "me_query E failures = do {
     x \<leftarrow> fetchMe E;
     (case x of
        Inr u \<Rightarrow> ret (of_nullable u)
      | Inl e \<Rightarrow> if me_retry failures then me_query E (Suc failures) else ret Undefined) }"
  by auto
termination by (relation "measure (\<lambda>(E, n). 5 - n)") (auto simp: me_retry_def)

declare me_query.simps [simp del]

text \<open>The redirects of the layout's effects, and what it renders.\<close>

definition layout_redirects :: "bool \<Rightarrow> UserPublic jopt \<Rightarrow> string \<Rightarrow> string list" where
  "layout_redirects isLoading me path =
     (if \<not> isLoading \<and> me = Null then [''/login''] else []) @
     (case me of
        Val u \<Rightarrow> if u_must_change_password u \<and> path \<noteq> ''/dashboard/profile''
                 then [''/dashboard/profile?force=password''] else []
      | _ \<Rightarrow> [])"

datatype shell = ShellSkeleton | Blank | Dashboard UserPublic

definition layout_view :: "bool \<Rightarrow> UserPublic jopt \<Rightarrow> shell" where
  "layout_view isLoading me =
     (if isLoading then ShellSkeleton
      else (case me of Undefined \<Rightarrow> ShellSkeleton | Null \<Rightarrow> Blank | Val u \<Rightarrow> Dashboard u))"

text \<open>
  \<open>onLogout\<close>: \<open>await logout(); router.replace("/login")\<close>. A rejected \<open>logout\<close> leaves the
  handler before the redirect.
\<close>

definition onLogout :: "env \<Rightarrow> string option io" where
  "onLogout E = do {
     x \<leftarrow> logout E;
     ret (case x of Inl _ \<Rightarrow> None | Inr _ \<Rightarrow> Some ''/login'') }"

definition isActive :: "string \<Rightarrow> string \<Rightarrow> bool" where
  "isActive path href =
     (if href = ''/dashboard'' then path = ''/dashboard'' else startsWith path href)"

section \<open>What the shell shows\<close>

text \<open>The API is down: no answer, or a server error, to everything.\<close>

definition outage :: "env \<Rightarrow> bool" where
  "outage E \<longleftrightarrow> (\<forall>h r. case net E h r of Inl _ \<Rightarrow> True | Inr q \<Rightarrow> 500 \<le> rs_status q)"

lemma api_outage:
  assumes "ky_contract E" "outage E" "run_state (api E m p a) s = (x, s')"
  shows "(\<exists>msg. x = Inl (JsError msg)) \<or> (\<exists>q. x = Inl (HTTPError q) \<and> 500 \<le> rs_status q)"
proof -
  obtain r s1 where b: "run_state (before_hook E (mk_request E m p a)) s = (r, s1)" by force
  show ?thesis
  proof (cases "net E (wire s1) r")
    case (Inl msg)
    with assms(3) show ?thesis by (auto simp: run_api [OF assms(1) b])
  next
    case (Inr q)
    moreover have "500 \<le> rs_status q"
      using assms(2) Inr unfolding outage_def by (metis sum.case(2))
    moreover from this have "skip_retry r q" by (simp add: skip_retry_def)
    ultimately show ?thesis
      using assms(3) by (auto simp: run_api [OF assms(1) b] run_after_skip finish_def rs_ok_def)
  qed
qed

lemma fetchMe_outage:
  assumes "ky_contract E" "outage E" "run_state (fetchMe E) s = (x, s')"
  shows "\<exists>e. x = Inl e"
proof -
  obtain y s1 where "run_state (api E GET ''auth/me'' no_args) s = (y, s1)" by force
  with api_outage [OF assms(1,2) this] assms(3) show ?thesis
    by (auto simp: fetchMe_def api_json_def run_catching run_awaiting)
qed

lemma me_query_outage:
  assumes "ky_contract E" "outage E"
  shows "fst (run_state (me_query E n) s) = Undefined"
proof (induction "5 - n" arbitrary: n s)
  case (Suc k)
  obtain e s1 where x: "run_state (fetchMe E) s = (Inl e, s1)"
    using fetchMe_outage [OF assms] by (metis surj_pair)
  from Suc(2) have "k = 5 - Suc n" by simp
  with x Suc(1) [of "Suc n"] show ?case by (subst me_query.simps) simp
next
  case 0
  obtain e s1 where "run_state (fetchMe E) s = (Inl e, s1)"
    using fetchMe_outage [OF assms] by (metis surj_pair)
  with 0 show ?case by (subst me_query.simps) (simp add: me_retry_def)
qed

text \<open>
  An outage is no logout: while the API gives no answer, or only server errors, the
  layout has no user after its six attempts, holds the skeleton and sends nobody to
  \<open>/login\<close>.
\<close>

theorem outage_holds_shell:
  assumes "ky_contract E" "outage E"
  shows "layout_view False (fst (run_state (me_query E 0) s)) = ShellSkeleton \<and>
    layout_redirects False (fst (run_state (me_query E 0) s)) path = []"
  by (simp add: me_query_outage [OF assms] layout_view_def layout_redirects_def)

theorem outage_holds_shell_witness:
  "layout_view False (fst (run_state (me_query
     (documented_env (\<lambda>_ _. Inl ''down'') (\<lambda>_. 0) (\<lambda>_. NaN)) 0) demo_client)) = ShellSkeleton"
  using outage_holds_shell [OF documented_ky_contract, of "\<lambda>_ _. Inl ''down''"]
  by (simp add: outage_def)

lemma after_hook_refreshes:
  assumes "ky_contract E" "lock_contract E" "\<not> refreshInFlight s" "\<not> skip_retry r resp"
    and "run_state (after_hook E r resp) s = (x, s')"
  shows "\<exists>post. wire s' = wire s @ refresh_request E # post"
proof -
  obtain t s1 where e: "refresh_effect E s = (t, s1)" by force
  have s1: "wire s1 = wire s @ [refresh_request E]" using refresh_effect_keeps [of E s] by (simp add: e)
  show ?thesis
  proof (cases "truthy_str t")
    case True
    obtain n y k where "run_state (ky_send E (no_hooks 2) (bearer (the t) r)) s1 =
        (y, s1\<lparr>wire := wire s1 @ replicate n (bearer (the t) r), ticks := k\<rparr>)"
      using ky_retrying [OF assms(1)] by metis
    with assms(5) s1 True show ?thesis by (auto simp: run_after_hook [OF assms(1-4)] e)
  next
    case False
    with assms(5) s1 show ?thesis by (auto simp: run_after_hook [OF assms(1-4)] e split: if_splits)
  qed
qed

lemma fetchMe_None:
  assumes "run_state (fetchMe E) s = (Inr None, s')"
  obtains q where "run_state (api E GET ''auth/me'' no_args) s = (Inl (HTTPError q), s')" "rs_status q = 401"
  using assms
  by (auto simp: fetchMe_def api_json_def run_catching run_awaiting body_json_def typed_def
      split: prod.splits sum.splits option.splits js_error.splits if_splits)

lemma me_not_skipped:
  assumes "ky_contract E" "rs_status q = 401"
    and "\<not> str_includes (rq_url (mk_request E GET ''auth/me'' no_args)) ''/auth/refresh''"
  shows "\<not> skip_retry (attach t (mk_request E GET ''auth/me'' no_args)) q"
proof -
  obtain x where "rq_url (mk_request E GET ''auth/me'' no_args) = x @ ''/auth/me''"
    using assms(1) unfolding ky_contract_def mk_request_def no_args_def by force
  then show ?thesis
    using assms(2,3) by (auto simp: skip_retry_def Let_def endsWith_suffix suffix_def append_eq_append_conv2
        append_eq_Cons_conv Cons_eq_append_conv)
qed

text \<open>
  Nobody is signed out without a last attempt: when \<open>fetchMe\<close> reports no session, the
  server answered 401 and a refresh was sent during the call.
\<close>

theorem signed_out_after_refresh:
  assumes "ky_contract E" "lock_contract E" "\<not> refreshInFlight s"
    and url: "\<not> str_includes (rq_url (mk_request E GET ''auth/me'' no_args)) ''/auth/refresh''"
    and run: "run_state (fetchMe E) s = (Inr None, s')"
  shows "\<exists>pre post. wire s' = wire s @ pre @ refresh_request E # post"
proof -
  let ?r = "mk_request E GET ''auth/me'' no_args"
  obtain q where q: "run_state (api E GET ''auth/me'' no_args) s = (Inl (HTTPError q), s')" "rs_status q = 401"
    using fetchMe_None [OF run] by metis
  obtain r s1 where b: "run_state (before_hook E ?r) s = (r, s1)" by force
  obtain t where r: "r = attach t ?r" and w1: "wire s1 = wire s @ prelude_sent E ?r s"
    and f1: "\<not> refreshInFlight s1"
    using before_hook_cases [OF assms(1-3) b] by metis
  let ?s2 = "s1\<lparr>wire := wire s1 @ [r]\<rparr>"
  from q(1) obtain resp y where n: "net E (wire s1) r = Inr resp"
    and y: "run_state (after_hook E r resp) ?s2 = (y, s')" and "finish (y, s') = (Inl (HTTPError q), s')"
    by (auto simp: run_api [OF assms(1) b] finish_def split: sum.splits prod.splits if_splits)
  have "\<not> skip_retry r resp"
  proof
    assume k: "skip_retry r resp"
    with y \<open>finish (y, s') = _\<close> have "resp = q" by (auto simp: run_after_skip finish_def split: if_splits)
    with k me_not_skipped [OF assms(1) q(2) url] r show False by simp
  qed
  then obtain post where "wire s' = wire ?s2 @ refresh_request E # post"
    using after_hook_refreshes [OF assms(1,2) _ _ y] f1 by auto
  with w1 show ?thesis by (intro exI [of _ "prelude_sent E ?r s @ [r]"] exI [of _ post]) simp
qed

theorem signed_out_after_refresh_witness:
  "\<exists>s' pre post. run_state (fetchMe (documented_env (\<lambda>_ _. Inr (plain_response 401 JNull)) (\<lambda>_. 0) (\<lambda>_. NaN)))
      demo_client = (Inr None, s') \<and>
    wire s' = pre @ refresh_request (documented_env (\<lambda>_ _. Inr (plain_response 401 JNull)) (\<lambda>_. 0) (\<lambda>_. NaN)) # post"
proof -
  let ?E = "documented_env (\<lambda>_ _. Inr (plain_response 401 JNull)) (\<lambda>_. 0) (\<lambda>_. NaN)"
  have c: "ky_contract ?E" "lock_contract ?E" "\<not> refreshInFlight demo_client"
    by (simp_all add: documented_contracts demo_client_def)
  have url: "rq_url (mk_request ?E GET ''auth/me'' no_args) = ''/api/v1/auth/me''"
    by (simp add: mk_request_def no_args_def)
  have inc: "\<not> str_includes (rq_url (mk_request ?E GET ''auth/me'' no_args)) ''/auth/refresh''"
    by (simp add: url startsWith_def)
  obtain x s1 where a: "run_state (api ?E GET ''auth/me'' no_args) demo_client = (x, s1)" by force
  obtain r s0 where b: "run_state (before_hook ?E (mk_request ?E GET ''auth/me'' no_args)) demo_client = (r, s0)" by force
  have ps: "rs_status (plain_response 401 JNull) = 401" by (simp add: plain_response_def)
  have "\<not> refreshInFlight s0" using before_hook_cases [OF c b] by metis
  then have "fst (run_state (after_hook ?E r (plain_response 401 JNull)) (s0\<lparr>wire := wire s0 @ [r]\<rparr>)) =
      Inr (plain_response 401 JNull)"
    by (cases "skip_retry r (plain_response 401 JNull)")
      (simp_all add: run_after_skip run_after_hook [OF c(1,2)] refresh_effect_def rs_ok_def ps)
  then have "x = Inl (HTTPError (plain_response 401 JNull))"
    using a by (simp add: run_api [OF c(1) b] finish_def case_prod_unfold rs_ok_def ps split: sum.splits)
  then have "run_state (fetchMe ?E) demo_client = (Inr None, s1)"
    using a by (simp add: fetchMe_def api_json_def run_catching run_awaiting plain_response_def)
  with signed_out_after_refresh [OF c inc this] show ?thesis by (auto simp: demo_client_def)
qed

text \<open>
  Signing out forgets the token in this tab on every outcome, and tells every listener;
  but only a confirmed sign-out leaves the dashboard: after a failed call the handler
  redirects nowhere.
\<close>

theorem logout_forgets:
  "tok (storage (snd (run_state (onLogout E) s))) = None \<and>
   expiresAt (storage (snd (run_state (onLogout E) s))) = None \<and>
   (if browser E then session (storage (snd (run_state (onLogout E) s))) = Absent else True) \<and>
   (fst (run_state (onLogout E) s) =
      (case fst (run_state (api E POST ''auth/logout'' no_args) s) of Inl _ \<Rightarrow> None | Inr _ \<Rightarrow> Some ''/login''))"
  by (simp add: onLogout_def logout_def run_storage_clear storage_defs api_unit_def run_awaiting
      split: prod.splits sum.splits)

end
