(* ===== verification/Endpoint_Laws.thy ===== *)
theory Endpoint_Laws
  imports Inventory_Api Host_Api Network_Api Firewall_Api Vpn_Api Admin_Api Login_Page
begin

text \<open>
  What the client functions under \<open>frontend/src/lib\<close> have in common: which URL each
  router-supplied identifier ends up in, that a payload can be told from its document, and
  what an error looks like to the caller.
\<close>

section \<open>The request of a client function\<close>

text \<open>
  A surrounding that records: every request is answered, nothing is stored, and the URL of
  a request is its path.
\<close>

definition probe_env :: env where
  "probe_env = (bare_env (\<lambda>_ _. Inl []) (\<lambda>_. 0) (\<lambda>_. NaN))
     \<lparr>ky_url := \<lambda>p q. p,
      ky_send := \<lambda>_ r. State (\<lambda>s. (Inr (plain_response 200 JNull), s\<lparr>wire := wire s @ [r]\<rparr>))\<rparr>"

definition requested :: "(env \<Rightarrow> 'a call) \<Rightarrow> request" where
  "requested f = hd (wire (snd (run_state (f probe_env) demo_client)))"

lemma requested_api:
  "requested (\<lambda>E. guarded E (api_json E m (p E) (a E))) = mk_request probe_env m (p probe_env) (a probe_env)"
  "requested (\<lambda>E. guarded E (api_unit E m (p E) (a E))) = mk_request probe_env m (p probe_env) (a probe_env)"
  "requested (\<lambda>E. api_json E m (p E) (a E)) = mk_request probe_env m (p probe_env) (a probe_env)"
  "requested (\<lambda>E. guarded E (awaiting (api E m (p E) (a E)) (\<lambda>r. ret (Inr (g r))))) =
     mk_request probe_env m (p probe_env) (a probe_env)"
  by (simp_all add: requested_def run_guarded api_json_def api_unit_def run_awaiting api_def
      probe_env_def demo_client_def body_json_def plain_response_def)

lemma requested_url [simp]: "rq_url (mk_request probe_env m p a) = p"
  by (simp add: mk_request_def probe_env_def)

section \<open>Identifiers in paths\<close>

text \<open>
  What an operator relies on when an identifier comes from a router and may hold any
  character: different identifiers have different URLs, every URL has the same number of
  segments, and one of them is the identifier, percent-encoded.
\<close>

definition addresses_item :: "(string \<Rightarrow> string) \<Rightarrow> bool" where
  "addresses_item url \<longleftrightarrow>
     (\<forall>i j. (url i = url j \<longleftrightarrow> i = j) \<and>
        length (split CHR ''/'' (url i)) = length (split CHR ''/'' (url j)) \<and>
        (\<exists>k < length (split CHR ''/'' (url i)). pct_decode False (split CHR ''/'' (url i) ! k) = Some i))"

locale item_endpoint =
  fixes url :: "string \<Rightarrow> string" and pre :: string and post :: string
  assumes url_form: "url i = pre @ ''/'' @ encodeURIComponent i @ post"
    and post_form: "post = [] \<or> hd post = CHR ''/''"
begin

lemma url_segments:
  "split CHR ''/'' (url i) = split CHR ''/'' pre @ [encodeURIComponent i] @ tl (split CHR ''/'' post)"
proof (cases post)
  case Nil
  then show ?thesis by (simp add: url_form split_append split_no_sep)
next
  case (Cons c r)
  with post_form have "post = CHR ''/'' # r" by simp
  then show ?thesis
    by (simp add: url_form split_append [of _ pre] split_append [of _ "encodeURIComponent i"] split_no_sep)
qed

lemma url_inj: "url i = url j \<longleftrightarrow> i = j"
  by (simp add: url_form)

lemma url_depth: "length (split CHR ''/'' (url i)) = length (split CHR ''/'' (url j))"
  by (simp add: url_segments)

lemma url_decodes:
  "\<exists>k < length (split CHR ''/'' (url i)). pct_decode False (split CHR ''/'' (url i) ! k) = Some i"
  by (rule exI [of _ "length (split CHR ''/'' pre)"])
    (simp add: url_segments nth_append encodeURIComponent_decode)

lemma addresses: "addresses_item url"
  using url_inj url_depth url_decodes unfolding addresses_item_def by blast

end

text \<open>The URL a client function asks for, as a function of the identifier.\<close>

abbreviation url_of :: "(env \<Rightarrow> 'a call) \<Rightarrow> string" where
  "url_of f \<equiv> rq_url (requested f)"

abbreviation of_device :: "string \<Rightarrow> string \<Rightarrow> string" where
  "of_device d rest \<equiv> ''devices/'' @ d @ ''/'' @ rest"

interpretation snmp_url: item_endpoint
  "\<lambda>i. url_of (\<lambda>E. deleteSnmpCommunity E d i)" "of_device d ''snmp/communities''" "[]" for d
  by unfold_locales (simp_all add: deleteSnmpCommunity_def requested_api)

interpretation log_rule_url: item_endpoint
  "\<lambda>i. url_of (\<lambda>E. deleteLoggingRule E d i)" "of_device d ''logging/rules''" "[]" for d
  by unfold_locales (simp_all add: deleteLoggingRule_def requested_api)

interpretation log_action_url: item_endpoint
  "\<lambda>i. url_of (\<lambda>E. deleteLoggingAction E d i)" "of_device d ''logging/actions''" "[]" for d
  by unfold_locales (simp_all add: deleteLoggingAction_def requested_api)

interpretation pool_url: item_endpoint
  "\<lambda>i. url_of (\<lambda>E. deleteDhcpPool E d i)" "of_device d ''dhcp/pools''" "[]" for d
  by unfold_locales (simp_all add: deleteDhcpPool_def requested_api)

interpretation server_url: item_endpoint
  "\<lambda>i. url_of (\<lambda>E. deleteDhcpServer E d i)" "of_device d ''dhcp/servers''" "[]" for d
  by unfold_locales (simp_all add: deleteDhcpServer_def requested_api)

interpretation network_url: item_endpoint
  "\<lambda>i. url_of (\<lambda>E. deleteDhcpNetwork E d i)" "of_device d ''dhcp/networks''" "[]" for d
  by unfold_locales (simp_all add: deleteDhcpNetwork_def requested_api)

interpretation lease_url: item_endpoint
  "\<lambda>i. url_of (\<lambda>E. makeLeaseStatic E d i)" "of_device d ''dhcp/leases''" "''/make-static''" for d
  by unfold_locales (simp_all add: makeLeaseStatic_def requested_api)

interpretation iface_url: item_endpoint
  "\<lambda>i. url_of (\<lambda>E. resetInterfaceCounters E d i)" "of_device d ''interfaces''" "''/reset-counters''" for d
  by unfold_locales (simp_all add: resetInterfaceCounters_def requested_api)

interpretation route_url: item_endpoint
  "\<lambda>i. url_of (\<lambda>E. deleteRoute E d i)" "of_device d ''routes''" "[]" for d
  by unfold_locales (simp_all add: deleteRoute_def requested_api)

interpretation vlan_url: item_endpoint
  "\<lambda>i. url_of (\<lambda>E. deleteVlan E d i)" "of_device d ''vlans''" "[]" for d
  by unfold_locales (simp_all add: deleteVlan_def requested_api)

interpretation queue_url: item_endpoint
  "\<lambda>i. url_of (\<lambda>E. deleteSimpleQueue E d i)" "of_device d ''queues/simple''" "[]" for d
  by unfold_locales (simp_all add: deleteSimpleQueue_def requested_api)

interpretation filter_rule_url: item_endpoint
  "\<lambda>i. url_of (\<lambda>E. deleteFilterRule E d i)" "of_device d ''firewall/filter''" "[]" for d
  by unfold_locales (simp_all add: deleteFilterRule_def requested_api)

interpretation filter_move_url: item_endpoint
  "\<lambda>i. url_of (\<lambda>E. moveFilterRule E d i b)" "of_device d ''firewall/filter''" "''/move''" for d b
  by unfold_locales (simp_all add: moveFilterRule_def requested_api)

interpretation nat_rule_url: item_endpoint
  "\<lambda>i. url_of (\<lambda>E. deleteNatRule E d i)" "of_device d ''firewall/nat''" "[]" for d
  by unfold_locales (simp_all add: deleteNatRule_def requested_api)

interpretation ppp_url: item_endpoint
  "\<lambda>i. url_of (\<lambda>E. revealPppSecret E d i b)" "of_device d ''ppp-secrets''" "''/reveal''" for d b
  by unfold_locales (simp_all add: revealPppSecret_def requested_api)

interpretation wg_iface_url: item_endpoint
  "\<lambda>i. url_of (\<lambda>E. deleteWgInterface E d i)" "of_device d ''wireguard/interfaces''" "[]" for d
  by unfold_locales (simp_all add: deleteWgInterface_def requested_api)

interpretation wg_peer_url: item_endpoint
  "\<lambda>i. url_of (\<lambda>E. deleteWgPeer E d i)" "of_device d ''wireguard/peers''" "[]" for d
  by unfold_locales (simp_all add: deleteWgPeer_def requested_api)

interpretation wg_config_url: item_endpoint
  "\<lambda>i. url_of (\<lambda>E. downloadWgClientConfig E d i b)" "of_device d ''wireguard/peers''" "''/config''" for d b
  by unfold_locales (simp_all add: downloadWgClientConfig_def requested_api)

interpretation bundle_url: item_endpoint
  "\<lambda>i. url_of (\<lambda>E. deleteSystemBackup E i)" "''settings/system-backup''" "[]"
  by unfold_locales (simp_all add: deleteSystemBackup_def requested_api)


text \<open>
  The local accounts of a host are the exception: their names go into the path as they
  are. Deleting a user called \<open>../system-groups/wheel\<close> asks, once the browser has resolved
  the dots, for the URL that deletes the group \<open>wheel\<close>.
\<close>

theorem user_names_escape:
  "path_of (''/'' @ url_of (\<lambda>E. deleteDeviceUser E ''d'' ''../system-groups/wheel'' b)) =
     path_of (''/'' @ url_of (\<lambda>E. deleteDeviceGroup E ''d'' ''wheel'')) \<and>
   rq_method (requested (\<lambda>E. deleteDeviceUser E ''d'' ''../system-groups/wheel'' b)) =
     rq_method (requested (\<lambda>E. deleteDeviceGroup E ''d'' ''wheel''))"
proof
  show "path_of (''/'' @ url_of (\<lambda>E. deleteDeviceUser E ''d'' ''../system-groups/wheel'' b)) =
      path_of (''/'' @ url_of (\<lambda>E. deleteDeviceGroup E ''d'' ''wheel''))"
    by (simp add: deleteDeviceUser_def deleteDeviceGroup_def requested_api path_of_def unbackslash_def
        startsWith_def single_dot_def double_dot_def toLowerCase_def lower_char_def)
qed (simp add: deleteDeviceUser_def deleteDeviceGroup_def requested_api mk_request_def)

section \<open>Payloads\<close>

text \<open>The \<open>PATCH\<close> payloads whose document determines them.\<close>

lemmas payload_inj = jfield_append_inj jfield_inj image_Un

lemma DeviceUpdate_json_inj: "DeviceUpdate_json p = DeviceUpdate_json q \<longleftrightarrow> p = q"
  unfolding DeviceUpdate_json_def by (simp add: payload_inj) auto

lemma FilterRuleUpdate_json_inj: "FilterRuleUpdate_json p = FilterRuleUpdate_json q \<longleftrightarrow> p = q"
  unfolding FilterRuleUpdate_json_def by (simp add: payload_inj) auto

lemma UserUpdate_json_inj: "UserUpdate_json p = UserUpdate_json q \<longleftrightarrow> p = q"
  unfolding UserUpdate_json_def by (simp add: payload_inj) auto

lemma AuthSettingsUpdate_json_inj: "AuthSettingsUpdate_json p = AuthSettingsUpdate_json q \<longleftrightarrow> p = q"
  unfolding AuthSettingsUpdate_json_def by (simp add: payload_inj) auto


section \<open>Errors\<close>

lemma guarded_http_error:
  assumes "run_state m s = (Inl (HTTPError q), s')" "rs_json q = Some j"
    "jget j ''detail'' = Some d" "jtruthy d"
  shows "run_state (guarded E m) s = (Inl (JsError (js_String (numstr E) d)), s')"
  using assms by (simp add: run_guarded readErrorMessage_def)

text \<open>
  When the server refuses a new device with a message, the message is what the caller
  gets to show, word for word.
\<close>

theorem server_message_shown:
  assumes "run_state (api E POST ''devices'' (with_json (DeviceCreate_json p))) s = (Inl (HTTPError q), s')"
    and "rs_json q = Some j" "jget j ''detail'' = Some (JStr m)" "m \<noteq> []"
  shows "run_state (createDevice E p) s = (Inl (JsError m), s')"
  using assms guarded_http_error [of "api_json E POST ''devices'' (with_json (DeviceCreate_json p))"]
  by (simp add: createDevice_def api_json_def run_awaiting)

text \<open>
  A request the server finds invalid (status 422) is answered with a list of objects in
  \<open>detail\<close>; the message the caller gets to show is \<open>[object Object]\<close>, once per complaint.
\<close>

theorem validation_message_unreadable:
  assumes "run_state (api E POST ''devices'' (with_json (DeviceCreate_json p))) s = (Inl (HTTPError q), s')"
    and "rs_json q = Some j" "jget j ''detail'' = Some (JArr (map JObj complaints))"
  shows "run_state (createDevice E p) s =
    (Inl (JsError (join '','' (replicate (length complaints) ''[object Object]''))), s')"
proof -
  have "map ((\<lambda>x. if x = JNull then [] else js_String (numstr E) x) \<circ> JObj) complaints =
      replicate (length complaints) ''[object Object]''"
    by (induction complaints) simp_all
  with assms guarded_http_error [of "api_json E POST ''devices'' (with_json (DeviceCreate_json p))"]
  show ?thesis by (simp add: createDevice_def api_json_def run_awaiting)
qed

text \<open>A server that finds every request invalid.\<close>

definition refusing_env :: "json \<Rightarrow> env" where
  "refusing_env d = probe_env\<lparr>ky_send := \<lambda>_ r. ret (Inl (HTTPError (plain_response 422 (JObj [(''detail'', d)]))))\<rparr>"

lemma refusing_api:
  "run_state (api (refusing_env d) m p a) s = (Inl (HTTPError (plain_response 422 (JObj [(''detail'', d)]))), s)"
  by (simp add: api_def refusing_env_def)

theorem server_message_shown_witness:
  "\<forall>p. run_state (createDevice (refusing_env (JStr ''name taken'')) p) demo_client =
     (Inl (JsError ''name taken''), demo_client)"
  by (intro allI, rule server_message_shown [OF refusing_api]) (auto simp: plain_response_def)

theorem validation_message_unreadable_witness:
  "\<forall>p. run_state (createDevice (refusing_env (JArr [JObj [(''msg'', JStr ''field required'')]])) p) demo_client =
     (Inl (JsError ''[object Object]''), demo_client)"
  using validation_message_unreadable [OF refusing_api, where complaints = "[[(''msg'', JStr ''field required'')]]"]
  by (simp add: plain_response_def)

end
