(* ===== verification/Pool.thy ===== *)
theory Pool
  imports Prelude
begin

text \<open>
  The worker pool of \<open>frontend/src/lib/pool.ts\<close>, which every fleet-wide action runs on.
  \<open>runPool(items, limit, fn)\<close> starts \<open>min(limit, items.length)\<close> async workers that share
  the counter \<open>next\<close>; each takes the next item and awaits \<open>fn(item)\<close> until none is left.

  JavaScript interleaves the workers at their awaits, so the pool is a step relation: an
  item in flight has a continuation \<open>w\<close> (which await of \<open>fn\<close> it is at), and a step
  resumes one worker. What \<open>fn\<close> does between two awaits is the argument \<open>ts\<close>: from a
  continuation and the shared state to the next continuation (None when \<open>fn\<close> returns) and
  the new shared state. The order in which promises settle is left open.
\<close>

section \<open>State and steps\<close>

record ('w, 's) pool =
  nxt :: nat
  slots :: "(nat \<times> 'w) option list"
  finished :: "nat list"
  shared :: 's

text \<open>The head of worker \<open>k\<close>'s loop: \<open>while (next < items.length) { item = items[next++]; ... }\<close>.\<close>

definition worker_loop :: "nat \<Rightarrow> (nat \<Rightarrow> 'w) \<Rightarrow> nat \<Rightarrow> ('w, 's) pool \<Rightarrow> ('w, 's) pool" where
  "worker_loop n ini k p =
     (if nxt p < n
      then p\<lparr>nxt := Suc (nxt p), slots := (slots p)[k := Some (nxt p, ini (nxt p))]\<rparr>
      else p\<lparr>slots := (slots p)[k := None]\<rparr>)"

definition runPool :: "nat \<Rightarrow> nat \<Rightarrow> (nat \<Rightarrow> 'w) \<Rightarrow> 's \<Rightarrow> ('w, 's) pool" where
  "runPool n limit ini s =
     fold (worker_loop n ini) [0..<min limit n]
       \<lparr>nxt = 0, slots = replicate (min limit n) None, finished = [], shared = s\<rparr>"

type_synonym ('w, 's) task = "nat \<Rightarrow> 'w \<Rightarrow> 's \<Rightarrow> 'w option \<Rightarrow> 's \<Rightarrow> bool"

inductive pool_step :: "nat \<Rightarrow> (nat \<Rightarrow> 'w) \<Rightarrow> ('w, 's) task \<Rightarrow> ('w, 's) pool \<Rightarrow> ('w, 's) pool \<Rightarrow> bool"
  for n :: nat and ini :: "nat \<Rightarrow> 'w" and ts :: "('w, 's) task" where
  resume: "k < length (slots p) \<Longrightarrow> slots p ! k = Some (i, w) \<Longrightarrow> ts i w (shared p) (Some w') s' \<Longrightarrow>
    pool_step n ini ts p (p\<lparr>slots := (slots p)[k := Some (i, w')], shared := s'\<rparr>)"
| return: "k < length (slots p) \<Longrightarrow> slots p ! k = Some (i, w) \<Longrightarrow> ts i w (shared p) None s' \<Longrightarrow>
    pool_step n ini ts p (worker_loop n ini k (p\<lparr>finished := finished p @ [i], shared := s'\<rparr>))"

inductive_cases pool_stepE: "pool_step n ini ts p q"

text \<open>\<open>await Promise.all(workers)\<close> settles when every worker has left its loop.\<close>

definition settled_pool :: "('w, 's) pool \<Rightarrow> bool" where
  "settled_pool p \<longleftrightarrow> (\<forall>x \<in> set (slots p). x = None)"

definition in_flight :: "('w, 's) pool \<Rightarrow> nat set" where
  "in_flight p = {i. \<exists>k < length (slots p). \<exists>w. slots p ! k = Some (i, w)}"

section \<open>Invariant\<close>

text \<open>No two workers hold the same item.\<close>

definition exclusive :: "('w, 's) pool \<Rightarrow> bool" where
  "exclusive p \<longleftrightarrow> (\<forall>k l i v w. k < length (slots p) \<longrightarrow> l < length (slots p) \<longrightarrow>
     slots p ! k = Some (i, v) \<longrightarrow> slots p ! l = Some (i, w) \<longrightarrow> k = l)"

text \<open>
  Items are taken in order, each by one worker; what was taken is finished or in flight,
  never both; a worker is idle only when nothing is left to take.
\<close>

definition pool_inv :: "nat \<Rightarrow> nat \<Rightarrow> ('w, 's) pool \<Rightarrow> bool" where
  "pool_inv n limit p \<longleftrightarrow>
     length (slots p) = min limit n \<and> nxt p \<le> n \<and>
     distinct (finished p) \<and> set (finished p) \<union> in_flight p = {..<nxt p} \<and>
     set (finished p) \<inter> in_flight p = {} \<and>
     exclusive p \<and>
     (None \<in> set (slots p) \<longrightarrow> nxt p = n)"

lemma exclusiveD:
  "exclusive p \<Longrightarrow> k < length (slots p) \<Longrightarrow> l < length (slots p) \<Longrightarrow>
     slots p ! k = Some (i, v) \<Longrightarrow> slots p ! l = Some (i, w) \<Longrightarrow> k = l"
  unfolding exclusive_def by blast

lemma in_flightI: "k < length (slots p) \<Longrightarrow> slots p ! k = Some (i, w) \<Longrightarrow> i \<in> in_flight p"
  unfolding in_flight_def by blast

text \<open>What putting \<open>x\<close> into worker \<open>k\<close>'s slot does to the items in flight.\<close>

lemma in_flight_put:
  assumes "exclusive p" "k < length (slots p)" "slots q = (slots p)[k := x]"
  shows "in_flight q = (in_flight p - fst ` set_option (slots p ! k)) \<union> fst ` set_option x"
proof (intro set_eqI iffI)
  fix j assume "j \<in> in_flight q"
  then obtain l w where l: "l < length (slots p)" "(slots p)[k := x] ! l = Some (j, w)"
    by (auto simp: in_flight_def assms(3))
  show "j \<in> (in_flight p - fst ` set_option (slots p ! k)) \<union> fst ` set_option x"
  proof (cases "l = k")
    case True
    with l assms(2) show ?thesis by (force simp: image_iff)
  next
    case False
    with l have "slots p ! l = Some (j, w)" by simp
    moreover have "j \<notin> fst ` set_option (slots p ! k)"
      using exclusiveD [OF assms(1) l(1) assms(2) calculation] False by fastforce
    ultimately show ?thesis using l(1) by (auto intro: in_flightI)
  qed
next
  fix j assume "j \<in> (in_flight p - fst ` set_option (slots p ! k)) \<union> fst ` set_option x"
  then consider (old) "j \<in> in_flight p" "j \<notin> fst ` set_option (slots p ! k)"
    | (new) "j \<in> fst ` set_option x" by blast
  then show "j \<in> in_flight q"
  proof cases
    case old
    then obtain l w where l: "l < length (slots p)" "slots p ! l = Some (j, w)"
      by (auto simp: in_flight_def)
    with old(2) have "l \<noteq> k" by force
    with l show ?thesis using assms(3) by (intro in_flightI [of l]) simp_all
  next
    case new
    then obtain w where "x = Some (j, w)" by auto
    then show ?thesis using assms(2,3) by (intro in_flightI [of k]) simp_all
  qed
qed

lemma exclusive_put:
  assumes "exclusive p" "k < length (slots p)" "slots q = (slots p)[k := x]"
    and "fst ` set_option x \<inter> in_flight p \<subseteq> fst ` set_option (slots p ! k)"
  shows "exclusive q"
  unfolding exclusive_def assms(3)
proof (intro allI impI)
  fix a b i v w
  assume *: "a < length ((slots p)[k := x])" "b < length ((slots p)[k := x])"
    "(slots p)[k := x] ! a = Some (i, v)" "(slots p)[k := x] ! b = Some (i, w)"
  show "a = b"
  proof (rule ccontr)
    assume ne: "a \<noteq> b"
    have "\<exists>c u. c < length (slots p) \<and> c \<noteq> k \<and> slots p ! c = Some (i, u) \<and> i \<in> fst ` set_option x"
      if "a = k \<or> b = k"
      using that * ne assms(2) by (auto simp: image_iff nth_list_update split: if_splits)
    then show False
    proof (cases "a = k \<or> b = k")
      case True
      then obtain c u where c: "c < length (slots p)" "c \<noteq> k" "slots p ! c = Some (i, u)" "i \<in> fst ` set_option x"
        using \<open>a = k \<or> b = k \<Longrightarrow> _\<close> by blast
      then have "i \<in> fst ` set_option (slots p ! k)" using assms(4) in_flightI [OF c(1,3)] by blast
      then obtain u' where "slots p ! k = Some (i, u')" by auto
      with exclusiveD [OF assms(1) c(1) assms(2) c(3)] c(2) show False by blast
    next
      case False
      with * exclusiveD [OF assms(1), of a b i v w] ne show False by simp
    qed
  qed
qed

lemma pool_inv_resume:
  assumes "pool_inv n limit p" "k < length (slots p)" "slots p ! k = Some (i, w)"
  shows "pool_inv n limit (p\<lparr>slots := (slots p)[k := Some (i, w')], shared := s'\<rparr>)"
proof -
  let ?q = "p\<lparr>slots := (slots p)[k := Some (i, w')], shared := s'\<rparr>"
  have ex: "exclusive p" using assms(1) by (simp add: pool_inv_def)
  have "in_flight ?q = in_flight p"
    using in_flight_put [OF ex assms(2), of ?q "Some (i, w')"] assms(3) in_flightI [OF assms(2,3)] by auto
  moreover have "exclusive ?q"
    using exclusive_put [OF ex assms(2), of ?q "Some (i, w')"] assms(3) by simp
  moreover have "None \<in> set ((slots p)[k := Some (i, w')]) \<Longrightarrow> None \<in> set (slots p)"
    using set_update_subset_insert [of "slots p" k "Some (i, w')"] by auto
  ultimately show ?thesis using assms(1) by (auto simp: pool_inv_def)
qed

lemma pool_inv_return:
  assumes "pool_inv n limit p" "k < length (slots p)" "slots p ! k = Some (i, w)"
  shows "pool_inv n limit (worker_loop n ini k (p\<lparr>finished := finished p @ [i], shared := s'\<rparr>))"
proof -
  let ?p = "p\<lparr>finished := finished p @ [i], shared := s'\<rparr>"
  let ?q = "worker_loop n ini k ?p"
  define x where "x = (if nxt p < n then Some (nxt p, ini (nxt p)) else None)"
  have q: "slots ?q = (slots p)[k := x]" "finished ?q = finished p @ [i]"
    "nxt ?q = (if nxt p < n then Suc (nxt p) else nxt p)"
    by (simp_all add: worker_loop_def x_def)
  have inv: "exclusive p" "set (finished p) \<union> in_flight p = {..<nxt p}" "nxt p \<le> n"
    "set (finished p) \<inter> in_flight p = {}"
    using assms(1) by (simp_all add: pool_inv_def)
  have i: "i \<in> in_flight p" by (rule in_flightI [OF assms(2,3)])
  have fl: "in_flight ?q = in_flight p - {i} \<union> fst ` set_option x"
    using in_flight_put [OF inv(1) assms(2) q(1)] assms(3) by simp
  have new: "fst ` set_option x \<subseteq> {nxt p}" by (auto simp: x_def)
  have "nxt p \<notin> in_flight p" using inv(2) by (metis UnI2 lessThan_iff less_irrefl)
  with new have "fst ` set_option x \<inter> in_flight p \<subseteq> fst ` set_option (slots p ! k)" by auto
  then have "exclusive ?q" by (rule exclusive_put [OF inv(1) assms(2) q(1)])
  moreover have "set (finished p @ [i]) \<union> in_flight ?q = {..<nxt ?q}"
  proof -
    have "set (finished p @ [i]) \<union> in_flight ?q = (set (finished p) \<union> in_flight p) \<union> fst ` set_option x"
      unfolding fl using i by auto
    also have "\<dots> = {..<nxt ?q}" unfolding inv(2) q(3) by (auto simp: x_def lessThan_Suc)
    finally show ?thesis .
  qed
  moreover have "set (finished p @ [i]) \<inter> in_flight ?q = {}"
  proof -
    have "nxt p \<notin> set (finished p)" "i \<noteq> nxt p" "i \<notin> set (finished p)"
      using inv(2,4) i by auto
    then show ?thesis unfolding fl using inv(4) new by auto
  qed
  moreover have "None \<in> set ((slots p)[k := x]) \<Longrightarrow> nxt ?q = n"
    using assms(1) set_update_subset_insert [of "slots p" k x]
    by (auto simp: pool_inv_def q(3) x_def split: if_splits)
  ultimately show ?thesis
    using assms(1) i inv(3,4) by (auto simp: pool_inv_def q)
qed

lemma runPool_closed:
  "runPool n limit ini s =
     \<lparr>nxt = min limit n, slots = map (\<lambda>k. Some (k, ini k)) [0..<min limit n], finished = [], shared = s\<rparr>"
proof -
  define m where "m = min limit n"
  have "fold (worker_loop n ini) [0..<j] \<lparr>nxt = 0, slots = replicate m None, finished = [], shared = s\<rparr> =
      \<lparr>nxt = j, slots = map (\<lambda>k. Some (k, ini k)) [0..<j] @ replicate (m - j) None, finished = [], shared = s\<rparr>"
    if "j \<le> m" for j
    using that
  proof (induction j)
    case (Suc j)
    then obtain r where "m - j = Suc r" "m - Suc j = r" by (metis Suc_diff_Suc Suc_le_lessD)
    with Suc show ?case by (simp add: worker_loop_def m_def list_update_append)
  qed simp
  from this [of m] show ?thesis by (simp add: runPool_def m_def)
qed

lemma pool_inv_start: "pool_inv n limit (runPool n limit ini s)"
  by (auto simp: pool_inv_def runPool_closed in_flight_def exclusive_def)

lemma pool_inv_step: "pool_inv n limit p \<Longrightarrow> pool_step n ini ts p q \<Longrightarrow> pool_inv n limit q"
  by (auto elim!: pool_stepE intro: pool_inv_resume pool_inv_return)

section \<open>Termination\<close>

text \<open>
  \<open>fn\<close> has finitely many awaits: a rank of its continuations that every resumption lowers.
  Then the pool settles, after at most \<open>Suc R\<close> steps for each item.
\<close>

definition slot_gauge :: "('w \<Rightarrow> nat) \<Rightarrow> (nat \<times> 'w) option \<Rightarrow> nat" where
  "slot_gauge rank x = (case x of None \<Rightarrow> 0 | Some (i, w) \<Rightarrow> Suc (rank w))"

definition pool_gauge :: "nat \<Rightarrow> ('w \<Rightarrow> nat) \<Rightarrow> nat \<Rightarrow> ('w, 's) pool \<Rightarrow> nat" where
  "pool_gauge n rank R p = sum_list (map (slot_gauge rank) (slots p)) + (n - nxt p) * Suc R"

lemma slot_sum_put:
  "k < length xs \<Longrightarrow> sum_list (map (slot_gauge rank) (xs[k := x])) + slot_gauge rank (xs ! k) =
     sum_list (map (slot_gauge rank) xs) + slot_gauge rank x"
  by (induction xs arbitrary: k) (auto split: nat.splits simp: less_Suc_eq_0_disj)

locale pool_task =
  fixes n :: nat and limit :: nat and ini :: "nat \<Rightarrow> 'w" and ts :: "('w, 's) task" and s0 :: 's
    and rank :: "'w \<Rightarrow> nat" and R :: nat
  assumes rank_ini: "rank (ini i) \<le> R"
    and rank_ts: "ts i w s (Some w') s' \<Longrightarrow> rank w' < rank w"
begin

lemma gauge_step:
  assumes "pool_inv n limit p" "pool_step n ini ts p q"
  shows "pool_gauge n rank R q < pool_gauge n rank R p"
  using assms(2)
proof (cases rule: pool_step.cases)
  case (resume k i w w' s')
  with slot_sum_put [OF resume(2), of rank "Some (i, w')"] rank_ts [OF resume(4)] show ?thesis
    by (simp add: pool_gauge_def slot_gauge_def)
next
  case (return k i w s')
  show ?thesis
  proof (cases "nxt p < n")
    case True
    then have "(n - nxt p) * Suc R = Suc R + (n - Suc (nxt p)) * Suc R"
      by (metis Suc_diff_Suc mult_Suc)
    with True return slot_sum_put [OF return(2), of rank "Some (nxt p, ini (nxt p))"] rank_ini [of "nxt p"]
    show ?thesis by (simp add: pool_gauge_def slot_gauge_def worker_loop_def)
  next
    case False
    with return slot_sum_put [OF return(2), of rank None] show ?thesis
      by (simp add: pool_gauge_def slot_gauge_def worker_loop_def)
  qed
qed

end

sublocale pool_task \<subseteq> terminating_system
  "\<lambda>p. p = runPool n limit ini s0" "pool_step n ini ts" "pool_inv n limit" "pool_gauge n rank R"
proof
  show "p = runPool n limit ini s0 \<Longrightarrow> pool_inv n limit p" for p by (simp add: pool_inv_start)
qed (auto intro: pool_inv_step gauge_step)

context pool_task
begin

text \<open>A settled pool has run every item, each once.\<close>

lemma settled_complete:
  assumes "0 < limit" "pool_inv n limit p" "settled_pool p"
  shows "distinct (finished p) \<and> set (finished p) = {..<n}"
proof -
  have empty: "in_flight p = {}"
    using assms(3) nth_mem by (fastforce simp: in_flight_def settled_pool_def)
  have "nxt p = n"
  proof (cases "n = 0")
    case False
    with assms have "slots p \<noteq> []" by (auto simp: pool_inv_def)
    with assms(3) have "None \<in> set (slots p)" by (cases "slots p") (auto simp: settled_pool_def)
    with assms(2) show ?thesis by (simp add: pool_inv_def)
  qed (use assms(2) in \<open>simp add: pool_inv_def\<close>)
  with assms(2) empty show ?thesis by (simp add: pool_inv_def)
qed

text \<open>At most \<open>limit\<close> items are in flight.\<close>

lemma in_flight_bound:
  assumes "pool_inv n limit p"
  shows "card (in_flight p) \<le> limit"
proof -
  have "in_flight p \<subseteq> (\<lambda>k. case slots p ! k of Some (i, w) \<Rightarrow> i | None \<Rightarrow> 0) ` {..<length (slots p)}"
    by (force simp: in_flight_def)
  from surj_card_le [OF _ this] have "card (in_flight p) \<le> length (slots p)" by simp
  with assms show ?thesis by (simp add: pool_inv_def)
qed

end

text \<open>
  A property of the finished items and of the shared state that every resumption of an item
  that is not finished keeps, and that its return extends by the item, holds throughout.
\<close>

locale pool_shared = pool_task +
  fixes J :: "nat set \<Rightarrow> 's \<Rightarrow> bool"
  assumes J_start: "J {} s0"
    and J_resume: "J F s \<Longrightarrow> i \<notin> F \<Longrightarrow> i < n \<Longrightarrow> ts i w s (Some w') s' \<Longrightarrow> J F s'"
    and J_return: "J F s \<Longrightarrow> i \<notin> F \<Longrightarrow> i < n \<Longrightarrow> ts i w s None s' \<Longrightarrow> J (insert i F) s'"
begin

lemma taken_item:
  assumes "pool_inv n limit p" "k < length (slots p)" "slots p ! k = Some (i, w)"
  shows "i \<notin> set (finished p)" "i < n"
  using assms in_flightI [OF assms(2,3)] by (auto simp: pool_inv_def)

lemma J_step:
  assumes "pool_inv n limit p" "J (set (finished p)) (shared p)" "pool_step n ini ts p q"
  shows "J (set (finished q)) (shared q)"
  using assms(3)
proof (cases rule: pool_step.cases)
  case (resume k i w w' s')
  with J_resume [OF assms(2) taken_item [OF assms(1) resume(2,3)] resume(4)] show ?thesis by simp
next
  case (return k i w s')
  with J_return [OF assms(2) taken_item [OF assms(1) return(2,3)] return(4)] show ?thesis
    by (simp add: worker_loop_def)
qed

end

sublocale pool_shared \<subseteq> watched: invariant_system "\<lambda>p. p = runPool n limit ini s0" "pool_step n ini ts"
  "\<lambda>p. pool_inv n limit p \<and> J (set (finished p)) (shared p)"
proof
  show "p = runPool n limit ini s0 \<Longrightarrow> pool_inv n limit p \<and> J (set (finished p)) (shared p)" for p
    by (simp add: pool_inv_start) (simp add: runPool_closed J_start)
qed (auto intro: pool_inv_step J_step)

section \<open>Version strings\<close>

text \<open>
  \<open>normFw\<close>: \<open>v.replace(/\s*\([^)]*\)\s*$/, "").trim()\<close>. The pattern matches at a position
  when white space, a parenthesis and its text, and white space again reach the end.
\<close>

definition channel_suffix :: "string \<Rightarrow> bool" where
  "channel_suffix t =
     (case dropWhile is_ws t of
        c # r \<Rightarrow> c = CHR ''('' \<and>
          (case dropWhile (\<lambda>x. x \<noteq> CHR '')'') r of
             d # u \<Rightarrow> list_all is_ws u
           | [] \<Rightarrow> False)
      | [] \<Rightarrow> False)"

fun drop_channel :: "string \<Rightarrow> string" where
  "drop_channel [] = []"
| "drop_channel (c # s) = (if channel_suffix (c # s) then [] else c # drop_channel s)"

definition normFw :: "string option \<Rightarrow> string" where
  "normFw v = (case v of None \<Rightarrow> [] | Some s \<Rightarrow> if s = [] then [] else trim (drop_channel s))"

lemma channel_suffix_append:
  assumes "CHR ''('' \<notin> set v" "s = v @ CHR '' '' # CHR ''('' # ch @ '')''" "CHR '')'' \<notin> set ch"
  shows "channel_suffix s \<longleftrightarrow> list_all is_ws v"
proof -
  have dw: "dropWhile (\<lambda>x. x \<noteq> CHR '')'') (ch @ '')'') = '')''"
    using assms(3) by (induction ch) auto
  show ?thesis
  proof (cases "list_all is_ws v")
    case True
    then have "dropWhile is_ws s = CHR ''('' # ch @ '')''"
      using assms(2) by (induction v arbitrary: s) (auto simp: is_ws_def)
    with True dw show ?thesis by (simp add: channel_suffix_def)
  next
    case False
    then obtain c r where "dropWhile is_ws v = c # r" by (metis dropWhile_eq_Nil_conv list.exhaust list_all_iff)
    moreover from this have "c \<in> set v" by (metis list.set_intros(1) set_dropWhileD)
    moreover have "dropWhile is_ws s = dropWhile is_ws v @ CHR '' '' # CHR ''('' # ch @ '')''"
      using False assms(2) by (auto simp: list_all_iff dropWhile_append)
    ultimately show ?thesis using False assms(1) by (auto simp: channel_suffix_def)
  qed
qed

lemma drop_channel_append:
  assumes "CHR ''('' \<notin> set v" "CHR '')'' \<notin> set ch" "v \<noteq> []" "\<not> is_ws (last v)"
  shows "drop_channel (v @ CHR '' '' # CHR ''('' # ch @ '')'') = v"
  using assms
proof (induction v)
  case (Cons c v)
  have "\<not> list_all is_ws (c # v)" 
    using Cons.prems(4) last_in_set [OF Cons.prems(3)] unfolding list_all_iff by blast
  then have n: "\<not> channel_suffix ((c # v) @ CHR '' '' # CHR ''('' # ch @ '')'')"
    using channel_suffix_append [OF Cons.prems(1) refl Cons.prems(2)] by simp
  show ?case
  proof (cases "v = []")
    case True
    have "channel_suffix (CHR '' '' # CHR ''('' # ch @ '')'')"
      using channel_suffix_append [of "[]" _ ch] Cons.prems(2) by simp
    with n True show ?thesis by simp
  next
    case False
    with n Cons show ?thesis by simp
  qed
qed simp

text \<open>A version and the same version with a channel name are one version.\<close>

lemma normFw_channel:
  assumes "CHR ''('' \<notin> set v" "CHR '')'' \<notin> set ch" "v \<noteq> []" "trim v = v"
  shows "normFw (Some (v @ CHR '' '' # CHR ''('' # ch @ '')'')) = v"
  using drop_channel_append [OF assms(1-3)] last_trim [of v] assms(3,4) by (simp add: normFw_def)

end
