(* ===== verification/Bulk_Firmware.thy ===== *)
theory Bulk_Firmware
  imports Pool "HOL-Library.Multiset"
begin

text \<open>
  The bulk firmware upgrade, \<open>app/dashboard/bulk/firmware/page.tsx\<close>: which devices can be
  upgraded, their groups by model and exact versions, the operator's selection, and the run
  over the worker pool, in which every router is asked again before it is told to upgrade.
\<close>

section \<open>Devices\<close>

text \<open>The interface \<open>Device\<close> of \<open>devices.ts\<close>; an optional field that is absent counts as null.\<close>

record Device =
  d_id :: string
  d_organization_id :: string
  d_site_id :: string
  d_vendor :: string
  d_device_class :: string
  d_name :: string
  d_host :: string
  d_port :: int
  d_ssh_port :: int
  d_transport :: string
  d_verify_tls :: bool
  d_username :: string
  d_has_password :: bool
  d_has_api_key :: bool
  d_has_ssh_key :: bool
  d_become_method :: string
  d_ssh_host_key_fingerprint :: "string option"
  d_model :: "string option"
  d_serial :: "string option"
  d_firmware :: "string option"
  d_os_family :: "string option"
  d_os_version :: "string option"
  d_packages_manager :: "string option"
  d_packages_updates_count :: "int option"
  d_packages_security_count :: "int option"
  d_packages_reboot_required :: "bool option"
  d_packages_checked_at :: "string option"
  d_packages_check_error :: "string option"
  d_firmware_available :: "string option"
  d_firmware_checked_at :: "string option"
  d_routerboard_current :: "string option"
  d_routerboard_available :: "string option"
  d_status :: string
  d_status_error :: "string option"
  d_last_seen_at :: "string option"
  d_is_enabled :: bool
  d_notes :: "string option"
  d_created_at :: string
  d_updated_at :: string

definition upgradable :: "Device \<Rightarrow> bool" where
  "upgradable d \<longleftrightarrow>
     d_is_enabled d \<and> d_device_class d \<noteq> ''server'' \<and>
     truthy_str (d_firmware d) \<and> truthy_str (d_firmware_available d) \<and>
     normFw (d_firmware d) \<noteq> normFw (d_firmware_available d)"

section \<open>Groups\<close>

record Group =
  g_key :: string
  g_model :: string
  g_from :: string
  g_to :: string
  g_devices :: "Device list"

definition groupKey :: "string \<Rightarrow> string \<Rightarrow> string \<Rightarrow> string" where
  "groupKey model fro to = model @ CHR 0x00 # fro @ CHR 0x00 # to"

definition model_of :: "Device \<Rightarrow> string" where
  "model_of d = (case d_model d of None \<Rightarrow> ''Unknown model'' | Some m \<Rightarrow> m)"

definition key_of :: "Device \<Rightarrow> string" where
  "key_of d = groupKey (model_of d) (normFw (d_firmware d)) (normFw (d_firmware_available d))"

text \<open>
  \<open>map.get(key) ?? {...}\<close>, push, \<open>map.set(key, g)\<close>: a \<open>Map\<close> keeps the order in which its
  keys first came.
\<close>

fun add_to_group :: "Device \<Rightarrow> Group list \<Rightarrow> Group list" where
  "add_to_group d [] =
     [\<lparr>g_key = key_of d, g_model = model_of d, g_from = normFw (d_firmware d),
       g_to = normFw (d_firmware_available d), g_devices = [d]\<rparr>]"
| "add_to_group d (g # gs) =
     (if g_key g = key_of d then g\<lparr>g_devices := g_devices g @ [d]\<rparr> # gs else g # add_to_group d gs)"

text \<open>
  \<open>Array.prototype.sort\<close> is stable; \<open>localeCompare\<close> depends on the browser's locale and is
  the argument \<open>lc\<close>, negative, zero or positive.
\<close>

fun insert_by :: "('a \<Rightarrow> 'a \<Rightarrow> int) \<Rightarrow> 'a \<Rightarrow> 'a list \<Rightarrow> 'a list" where
  "insert_by cmp x [] = [x]"
| "insert_by cmp x (y # ys) = (if cmp x y \<le> 0 then x # y # ys else y # insert_by cmp x ys)"

definition sort_by :: "('a \<Rightarrow> 'a \<Rightarrow> int) \<Rightarrow> 'a list \<Rightarrow> 'a list" where
  "sort_by cmp xs = foldr (insert_by cmp) xs []"

definition groups :: "(string \<Rightarrow> string \<Rightarrow> int) \<Rightarrow> Device list \<Rightarrow> Group list" where
  "groups lc ds =
     (let gs = foldl (\<lambda>m d. add_to_group d m) [] (filter upgradable ds);
          sorted = map (\<lambda>g. g\<lparr>g_devices := sort_by (\<lambda>a b. lc (d_name a) (d_name b)) (g_devices g)\<rparr>) gs
      in sort_by (\<lambda>a b. let m = lc (g_model a) (g_model b)
                        in if m \<noteq> 0 then m else lc (g_from a) (g_from b)) sorted)"

section \<open>Selection\<close>

definition selectable :: "Group list \<Rightarrow> string set" where
  "selectable gs = set (concat (map (\<lambda>g. map d_id (g_devices g)) gs))"

definition effective :: "string set \<Rightarrow> Group list \<Rightarrow> string set" where
  "effective selected gs = {i \<in> selected. i \<in> selectable gs}"

definition toggleGroup :: "Group \<Rightarrow> string set \<Rightarrow> string set" where
  "toggleGroup g selected =
     (let every = (\<forall>d \<in> set (g_devices g). d_id d \<in> selected)
      in foldl (\<lambda>nx d. if every then nx - {d_id d} else insert (d_id d) nx) selected (g_devices g))"

definition toggleDevice :: "string \<Rightarrow> string set \<Rightarrow> string set" where
  "toggleDevice i selected = (if i \<in> selected then selected - {i} else insert i selected)"

text \<open>What the operator approved: the selected devices with the versions of their group.\<close>

definition plan_of :: "Group list \<Rightarrow> string set \<Rightarrow> (Device \<times> Group) list" where
  "plan_of gs eff =
     concat (map (\<lambda>g. map (\<lambda>d. (d, g)) (filter (\<lambda>d. d_id d \<in> eff) (g_devices g))) gs)"

section \<open>The run\<close>

datatype DeviceResult = Running | Triggered string | Skipped string | Failed string

definition right_arrow :: string where
  "right_arrow = [CHR 0xE2, CHR 0x86, CHR 0x92]"

text \<open>\<open>cur || "?"\<close>\<close>

definition or_question :: "string \<Rightarrow> string" where
  "or_question s = (if s = [] then ''?'' else s)"

definition skip_message :: "Group \<Rightarrow> string \<Rightarrow> string \<Rightarrow> string" where
  "skip_message g cur avail =
     (if cur = avail \<or> avail = [] then ''already on '' @ or_question cur
      else ''now '' @ or_question cur @ '' '' @ right_arrow @ '' '' @ avail @ '', expected '' @
           g_from g @ '' '' @ right_arrow @ '' '' @ g_to g)"

text \<open>
  The two awaits of the worker: the answer of \<open>checkDeviceFirmware\<close> (versions or an error)
  and of \<open>triggerFirmwareUpgrade\<close>. The log keeps the order of what was learned and sent.
\<close>

datatype upgrade_at = AtCheck | AtTrigger

datatype fw_event = Checked string "string option" "string option" | TriggerSent string

record upgrade_run =
  results :: "string \<rightharpoonup> DeviceResult"
  fw_log :: "fw_event list"

definition mark :: "string \<Rightarrow> DeviceResult \<Rightarrow> upgrade_run \<Rightarrow> upgrade_run" where
  "mark i r s = s\<lparr>results := (results s)(i \<mapsto> r)\<rparr>"

definition event :: "fw_event \<Rightarrow> upgrade_run \<Rightarrow> upgrade_run" where
  "event e s = s\<lparr>fw_log := fw_log s @ [e]\<rparr>"

text \<open>Whether the router's fresh answer is what was approved.\<close>

definition as_approved :: "Group \<Rightarrow> string option \<Rightarrow> string option \<Rightarrow> bool" where
  "as_approved g cur avail \<longleftrightarrow> normFw cur = g_from g \<and> normFw avail = g_to g"

inductive upgrade_task ::
  "(Device \<times> Group) list \<Rightarrow> nat \<Rightarrow> upgrade_at \<Rightarrow> upgrade_run \<Rightarrow> upgrade_at option \<Rightarrow> upgrade_run \<Rightarrow> bool"
  for plan :: "(Device \<times> Group) list" where
  check_failed: "plan ! i = (d, g) \<Longrightarrow>
    upgrade_task plan i AtCheck s None (mark (d_id d) (Failed m) s)"
| check_moved: "plan ! i = (d, g) \<Longrightarrow> \<not> as_approved g cur avail \<Longrightarrow>
    upgrade_task plan i AtCheck s None
      (mark (d_id d) (Skipped (skip_message g (normFw cur) (normFw avail))) (event (Checked (d_id d) cur avail) s))"
| check_fresh: "plan ! i = (d, g) \<Longrightarrow> as_approved g cur avail \<Longrightarrow>
    upgrade_task plan i AtCheck s (Some AtTrigger)
      (event (TriggerSent (d_id d)) (event (Checked (d_id d) cur avail) s))"
| trigger_ok: "plan ! i = (d, g) \<Longrightarrow>
    upgrade_task plan i AtTrigger s None
      (mark (d_id d) (Triggered (g_from g @ '' '' @ right_arrow @ '' '' @ g_to g @ '', rebooting'')) s)"
| trigger_failed: "plan ! i = (d, g) \<Longrightarrow>
    upgrade_task plan i AtTrigger s None (mark (d_id d) (Failed m) s)"

definition upgrade_start :: "(Device \<times> Group) list \<Rightarrow> (upgrade_at, upgrade_run) pool" where
  "upgrade_start plan = runPool (length plan) 4 (\<lambda>_. AtCheck)
     \<lparr>results = map_of (map (\<lambda>p. (d_id (fst p), Running)) plan), fw_log = []\<rparr>"

abbreviation upgrade_step :: "(Device \<times> Group) list \<Rightarrow> (upgrade_at, upgrade_run) pool \<Rightarrow> (upgrade_at, upgrade_run) pool \<Rightarrow> bool" where
  "upgrade_step plan \<equiv> pool_step (length plan) (\<lambda>_. AtCheck) (upgrade_task plan)"

text \<open>The summary of the closing toast.\<close>

definition summary :: "(string \<rightharpoonup> DeviceResult) \<Rightarrow> string list \<Rightarrow> nat \<times> nat \<times> nat" where
  "summary r ids =
     (let vals = map (\<lambda>i. r i) ids
      in (length (filter (\<lambda>v. case v of Some (Triggered _) \<Rightarrow> True | _ \<Rightarrow> False) vals),
          length (filter (\<lambda>v. case v of Some (Skipped _) \<Rightarrow> True | _ \<Rightarrow> False) vals),
          length (filter (\<lambda>v. case v of Some (Failed _) \<Rightarrow> True | _ \<Rightarrow> False) vals)))"

primrec fw_rank :: "upgrade_at \<Rightarrow> nat" where
  "fw_rank AtCheck = 1"
| "fw_rank AtTrigger = 0"

interpretation upgrades: pool_task "length plan" 4 "\<lambda>_. AtCheck" "upgrade_task plan"
  "\<lparr>results = map_of (map (\<lambda>p. (d_id (fst p), Running)) plan), fw_log = []\<rparr>" fw_rank 1
  for plan
  by unfold_locales (auto elim: upgrade_task.cases)

section \<open>Grouping\<close>

lemma mset_insert_by [simp]: "mset (insert_by cmp x ys) = add_mset x (mset ys)"
  by (induction ys) auto

lemma mset_sort_by [simp]: "mset (sort_by cmp xs) = mset xs"
  unfolding sort_by_def by (induction xs) auto

lemma set_sort_by [simp]: "set (sort_by cmp xs) = set xs"
  by (metis mset_sort_by set_mset_mset)

text \<open>A text without the separator of group keys.\<close>

definition no_nul :: "Device \<Rightarrow> bool" where
  "no_nul d \<longleftrightarrow> CHR 0x00 \<notin> set (model_of d) \<and> CHR 0x00 \<notin> set (normFw (d_firmware d)) \<and>
     CHR 0x00 \<notin> set (normFw (d_firmware_available d))"

lemma groupKey_split:
  assumes "CHR 0x00 \<notin> set m" "CHR 0x00 \<notin> set f"  "CHR 0x00 \<notin> set t"
  shows "split CHR 0x00 (groupKey m f t) = [m, f, t]"
  using assms by (simp add: groupKey_def split_append_sep split_no_sep)

lemma key_of_inj:
  assumes "no_nul d" "no_nul e" "key_of d = key_of e"
  shows "model_of d = model_of e \<and> normFw (d_firmware d) = normFw (d_firmware e) \<and>
    normFw (d_firmware_available d) = normFw (d_firmware_available e)"
proof -
  have "split CHR 0x00 (key_of d) = split CHR 0x00 (key_of e)" using assms(3) by simp
  with assms(1,2) show ?thesis by (simp add: key_of_def groupKey_split no_nul_def)
qed

text \<open>A group that stands for its devices: every device has the group's versions.\<close>

definition group_ok :: "Group \<Rightarrow> bool" where
  "group_ok g \<longleftrightarrow> (\<forall>d \<in> set (g_devices g). no_nul d \<and> upgradable d \<and> g_key g = key_of d \<and>
     g_model g = model_of d \<and> g_from g = normFw (d_firmware d) \<and> g_to g = normFw (d_firmware_available d)) \<and>
     g_devices g \<noteq> []"

lemma group_ok_add:
  assumes "group_ok g" "g_key g = key_of d" "no_nul d" "upgradable d"
  shows "group_ok (g\<lparr>g_devices := g_devices g @ [d]\<rparr>)"
proof -
  obtain e where e: "e \<in> set (g_devices g)" 
    using assms(1) last_in_set unfolding group_ok_def by blast
  then have g: "no_nul e" "g_key g = key_of e" "g_model g = model_of e" "g_from g = normFw (d_firmware e)"
      "g_to g = normFw (d_firmware_available e)"
    using assms(1) unfolding group_ok_def by blast+
  have "g_model g = model_of d \<and> g_from g = normFw (d_firmware d) \<and> g_to g = normFw (d_firmware_available d)"
    unfolding g(3-5) by (rule key_of_inj [OF g(1) assms(3) g(2) [unfolded assms(2), symmetric]])
  with assms show ?thesis unfolding group_ok_def by simp
qed

lemma add_to_group_props:
  assumes "\<forall>g \<in> set gs. group_ok g" "no_nul d" "upgradable d"
  shows "(\<forall>g \<in> set (add_to_group d gs). group_ok g) \<and>
    mset (concat (map g_devices (add_to_group d gs))) = add_mset d (mset (concat (map g_devices gs)))"
  using assms(1)
proof (induction gs)
  case (Cons g gs)
  then show ?case using assms(2,3) by (auto simp: group_ok_add)
qed (use assms(2,3) in \<open>simp add: group_ok_def\<close>)

lemma add_all_props:
  assumes "\<forall>d \<in> set ds. no_nul d \<and> upgradable d" "\<forall>g \<in> set gs. group_ok g"
  shows "(\<forall>g \<in> set (foldl (\<lambda>m d. add_to_group d m) gs ds). group_ok g) \<and>
    mset (concat (map g_devices (foldl (\<lambda>m d. add_to_group d m) gs ds))) =
      mset ds + mset (concat (map g_devices gs))"
  using assms
proof (induction ds arbitrary: gs)
  case (Cons d ds)
  have p: "\<forall>g \<in> set (add_to_group d gs). group_ok g"
    "mset (concat (map g_devices (add_to_group d gs))) = add_mset d (mset (concat (map g_devices gs)))"
    using add_to_group_props [of gs d] Cons.prems by simp_all
  have "\<forall>d \<in> set ds. no_nul d \<and> upgradable d" using Cons.prems(1) by simp
  from Cons.IH [OF this p(1)] show ?case unfolding p(2) by simp
qed simp

lemma sort_by_Nil [simp]: "sort_by cmp xs = [] \<longleftrightarrow> xs = []"
  by (metis mset_sort_by mset_zero_iff)

lemma group_ok_sort: "group_ok g \<Longrightarrow> group_ok (g\<lparr>g_devices := sort_by f (g_devices g)\<rparr>)"
  by (simp add: group_ok_def)

lemma concat_sorted_groups:
  "mset (concat (map g_devices (map (\<lambda>g. g\<lparr>g_devices := sort_by f (g_devices g)\<rparr>) gs))) =
     mset (concat (map g_devices gs))"
  by (induction gs) auto

lemma mset_concat_perm: "mset xs = mset ys \<Longrightarrow> mset (concat (map f xs)) = mset (concat (map f ys))"
  by (metis mset_concat mset_map sum_mset_sum_list)

lemma groups_props:
  assumes "\<forall>d \<in> set ds. no_nul d"
  shows "(\<forall>g \<in> set (groups lc ds). group_ok g) \<and>
    mset (concat (map g_devices (groups lc ds))) = mset (filter upgradable ds)"
proof -
  let ?gs = "foldl (\<lambda>m d. add_to_group d m) [] (filter upgradable ds)"
  let ?sorted = "map (\<lambda>g. g\<lparr>g_devices := sort_by (\<lambda>a b. lc (d_name a) (d_name b)) (g_devices g)\<rparr>) ?gs"
  have p: "\<forall>g \<in> set ?gs. group_ok g" "mset (concat (map g_devices ?gs)) = mset (filter upgradable ds)"
    using add_all_props [of "filter upgradable ds" "[]"] assms by auto
  have "\<forall>g \<in> set (groups lc ds). group_ok g"
    using p(1) by (simp add: groups_def Let_def group_ok_sort)
  moreover have "mset (concat (map g_devices (groups lc ds))) = mset (concat (map g_devices ?sorted))"
    unfolding groups_def Let_def by (rule mset_concat_perm) simp
  ultimately show ?thesis using p(2) by (simp only: concat_sorted_groups)
qed

lemma plan_props:
  assumes "\<forall>d \<in> set ds. no_nul d" "(d, g) \<in> set (plan_of (groups lc ds) (effective sel (groups lc ds)))"
  shows "d \<in> set ds \<and> upgradable d \<and> d_id d \<in> sel \<and> g_from g = normFw (d_firmware d) \<and>
    g_to g = normFw (d_firmware_available d)"
proof -
  from assms(2) have g: "g \<in> set (groups lc ds)" "d \<in> set (g_devices g)" "d_id d \<in> sel"
    by (auto simp: plan_of_def effective_def)
  have "d \<in> set (concat (map g_devices (groups lc ds)))" using g(1,2) by auto
  then have "d \<in> set (filter upgradable ds)"
    using groups_props [OF assms(1), of lc] by (metis set_mset_mset)
  moreover have "group_ok g" using groups_props [OF assms(1), of lc] g(1) by blast
  ultimately show ?thesis using g by (simp add: group_ok_def)
qed

section \<open>The run keeps to what was approved\<close>

text \<open>Every trigger in the log comes after an answer of that router that matches its group.\<close>

definition approved_before :: "(Device \<times> Group) list \<Rightarrow> fw_event list \<Rightarrow> fw_event \<Rightarrow> bool" where
  "approved_before plan l e = (case e of
     Checked i c a \<Rightarrow> True
   | TriggerSent i \<Rightarrow>
       \<exists>d g cur avail. (d, g) \<in> set plan \<and> d_id d = i \<and> as_approved g cur avail \<and> Checked i cur avail \<in> set l)"

abbreviation log_ok :: "(Device \<times> Group) list \<Rightarrow> fw_event list \<Rightarrow> bool" where
  "log_ok plan \<equiv> with_past (approved_before plan)"

text \<open>The log, and a result for every finished item.\<close>

definition run_ok :: "(Device \<times> Group) list \<Rightarrow> nat set \<Rightarrow> upgrade_run \<Rightarrow> bool" where
  "run_ok plan F s \<longleftrightarrow> log_ok plan (fw_log s) \<and>
     (\<forall>i \<in> F. \<exists>r. results s (d_id (fst (plan ! i))) = Some r \<and> r \<noteq> Running)"

lemma task_log:
  assumes "upgrade_task plan i w s x s'" "i < length plan" "log_ok plan (fw_log s)"
  shows "log_ok plan (fw_log s')"
  using assms
proof (induction rule: upgrade_task.induct)
  case (check_fresh i d g cur avail s)
  then have "(d, g) \<in> set plan" by (metis nth_mem)
  with check_fresh(2,4) show ?case
    by (auto simp: event_def approved_before_def)
qed (auto simp: mark_def event_def approved_before_def)

lemma task_results:
  assumes "upgrade_task plan i w s x s'"
  shows "\<forall>j r. results s j = Some r \<and> r \<noteq> Running \<longrightarrow> (\<exists>r'. results s' j = Some r' \<and> r' \<noteq> Running)"
    and "x = None \<Longrightarrow> \<exists>r. results s' (d_id (fst (plan ! i))) = Some r \<and> r \<noteq> Running"
  using assms by (induction rule: upgrade_task.induct) (auto simp: mark_def event_def)

interpretation upgrade_run: pool_shared "length plan" 4 "\<lambda>_. AtCheck" "upgrade_task plan"
  "\<lparr>results = map_of (map (\<lambda>p. (d_id (fst p), Running)) plan), fw_log = []\<rparr>" fw_rank 1 "run_ok plan"
  for plan
proof
  fix F s i w w' s'
  assume *: "run_ok plan F s" "i < length plan" "upgrade_task plan i w s (Some w') s'"
  then show "run_ok plan F s'"
    using task_log [OF *(3,2)] task_results(1) [OF *(3)] unfolding run_ok_def by blast
next
  fix F s i w s'
  assume *: "run_ok plan F s" "i < length plan" "upgrade_task plan i w s None s'"
  then show "run_ok plan (insert i F) s'"
    using task_log [OF *(3,2)] task_results [OF *(3)] unfolding run_ok_def by blast
qed (simp add: run_ok_def)

lemmas upgrade_reachable = upgrade_run.watched.reachable_inv [folded upgrade_start_def]

text \<open>
  C2. No router installs a version nobody looked at: whenever a run of the bulk upgrade has
  told a router to upgrade, that router was selected, had an update pending in the list the
  operator saw, and its last answer before that moment reported exactly the installed and
  the available version of that list. This holds for every order in which the answers of
  the concurrent workers arrive.
\<close>

theorem upgrade_only_as_approved:
  assumes "\<forall>d \<in> set ds. no_nul d"
    and "plan = plan_of (groups lc ds) (effective sel (groups lc ds))"
    and "reaches (\<lambda>p. p = upgrade_start plan) (upgrade_step plan) p"
    and "fw_log (shared p) = l1 @ TriggerSent i # l2"
  shows "\<exists>d \<in> set ds. d_id d = i \<and> i \<in> sel \<and> upgradable d \<and>
    (\<exists>cur avail. Checked i cur avail \<in> set l1 \<and> normFw cur = normFw (d_firmware d) \<and>
       normFw avail = normFw (d_firmware_available d))"
proof -
  have "log_ok plan (fw_log (shared p))"
    using upgrade_reachable [OF assms(3)] by (simp add: run_ok_def)
  then obtain d g cur avail where "(d, g) \<in> set plan" "d_id d = i" "as_approved g cur avail"
    "Checked i cur avail \<in> set l1"
    using with_pastD [of "approved_before plan" l1 "TriggerSent i" l2] assms(4) by (auto simp: approved_before_def)
  with plan_props [OF assms(1), of d g lc sel] assms(2) show ?thesis
    by (intro bexI [of _ d]) (auto simp: as_approved_def)
qed

lemma upgrade_progress:
  assumes "\<not> settled_pool p"
  shows "\<exists>q. upgrade_step plan p q"
proof -
  from assms obtain k i w where k: "k < length (slots p)" "slots p ! k = Some (i, w)"
    by (auto simp: settled_pool_def in_set_conv_nth)
  obtain d g where "plan ! i = (d, g)" by force
  then have "upgrade_task plan i w (shared p) None (mark (d_id d) (Failed []) (shared p))"
    by (cases w) (auto intro: check_failed trigger_failed)
  from return [where ts = "upgrade_task plan", OF k this] show ?thesis by blast
qed

lemma upgrade_gauge_start: "pool_gauge (length plan) fw_rank 1 (upgrade_start plan) = 2 * length plan"
proof -
  have "sum_list (map (slot_gauge fw_rank \<circ> (\<lambda>k. Some (k, AtCheck))) [0..<m]) = 2 * m" for m :: nat
    by (induction m) (simp_all add: slot_gauge_def)
  then show ?thesis by (simp add: pool_gauge_def upgrade_start_def runPool_closed min_def)
qed

text \<open>
  C15. A bulk upgrade ends: it takes at most two answers per router, never has more than
  four routers in flight, never stalls before every worker is done, and when it is done
  every planned router has a result.
\<close>

theorem upgrade_terminates:
  assumes "((upgrade_step plan) ^^ k) (upgrade_start plan) p"
  shows "k \<le> 2 * length plan \<and> card (in_flight p) \<le> 4 \<and>
    (if settled_pool p
     then \<forall>x \<in> set plan. \<exists>r. results (shared p) (d_id (fst x)) = Some r \<and> r \<noteq> Running
     else \<exists>q. upgrade_step plan p q)"
proof -
  have run: "(upgrade_step plan)\<^sup>*\<^sup>* (upgrade_start plan) p" using assms by (rule relpowp_imp_rtranclp)
  have "pool_inv (length plan) 4 (upgrade_start plan)" by (simp add: upgrade_start_def pool_inv_start)
  then have bound: "k \<le> 2 * length plan"
    using upgrades.run_length [OF _ assms] unfolding upgrade_gauge_start by simp
  have "pool_inv (length plan) 4 p \<and> run_ok plan (set (finished p)) (shared p)"
    using upgrade_run.watched.run_inv [OF upgrade_run.watched.init_inv [OF refl]] run
    unfolding upgrade_start_def by blast
  then have inv: "pool_inv (length plan) 4 p" "run_ok plan (set (finished p)) (shared p)" by auto
  moreover from inv(1) have "settled_pool p \<Longrightarrow> set (finished p) = {..<length plan}"
    using upgrades.settled_complete by auto
  then have "settled_pool p \<Longrightarrow> \<forall>x \<in> set plan. \<exists>r. results (shared p) (d_id (fst x)) = Some r \<and> r \<noteq> Running"
    using inv(2) unfolding run_ok_def by (metis (no_types, lifting) in_set_conv_nth lessThan_iff)
  ultimately show ?thesis using bound upgrade_progress upgrades.in_flight_bound by auto
qed

text \<open>
  The groups on screen are a partition: every upgradable device is in exactly one group,
  no other device is in any, and a group's model and versions are those of each device in
  it.
\<close>

theorem groups_partition:
  assumes "\<forall>d \<in> set ds. no_nul d"
  shows "mset (concat (map g_devices (groups lc ds))) = mset (filter upgradable ds) \<and>
    (\<forall>g \<in> set (groups lc ds). \<forall>d \<in> set (g_devices g).
       g_model g = model_of d \<and> g_from g = normFw (d_firmware d) \<and> g_to g = normFw (d_firmware_available d))"
  using groups_props [OF assms, of lc] unfolding group_ok_def by blast

section \<open>Witnesses\<close>

definition demo_device :: Device where
  "demo_device = \<lparr>d_id = ''r1'', d_organization_id = ''o'', d_site_id = ''s'', d_vendor = ''mikrotik'',
     d_device_class = ''network'', d_name = ''core'', d_host = ''10.0.0.1'', d_port = 8728, d_ssh_port = 22,
     d_transport = ''api'', d_verify_tls = False, d_username = ''nf'', d_has_password = True,
     d_has_api_key = False, d_has_ssh_key = False, d_become_method = ''none'',
     d_ssh_host_key_fingerprint = None, d_model = Some ''hEX'', d_serial = None, d_firmware = Some ''7.1'',
     d_os_family = None, d_os_version = None, d_packages_manager = None, d_packages_updates_count = None,
     d_packages_security_count = None, d_packages_reboot_required = None, d_packages_checked_at = None,
     d_packages_check_error = None, d_firmware_available = Some ''7.2'', d_firmware_checked_at = None,
     d_routerboard_current = None, d_routerboard_available = None, d_status = ''online'',
     d_status_error = None, d_last_seen_at = None, d_is_enabled = True, d_notes = None,
     d_created_at = ''t'', d_updated_at = ''t''\<rparr>"

definition demo_group :: Group where
  "demo_group = \<lparr>g_key = key_of demo_device, g_model = ''hEX'', g_from = ''7.1'', g_to = ''7.2'',
     g_devices = [demo_device]\<rparr>"

lemma norm_71: "normFw (Some ''7.1'') = ''7.1''" "normFw (Some ''7.2'') = ''7.2''"
  by (simp_all add: normFw_def channel_suffix_def is_ws_def trim_def trimStart_def trimEnd_def)

lemma demo_fields:
  "d_id demo_device = ''r1''" "model_of demo_device = ''hEX''" "normFw (d_firmware demo_device) = ''7.1''"
  "normFw (d_firmware_available demo_device) = ''7.2''" "upgradable demo_device" "no_nul demo_device"
  by (simp_all add: demo_device_def model_of_def upgradable_def no_nul_def norm_71)

lemma demo_groups: "groups lc [demo_device] = [demo_group]"
  by (simp add: groups_def demo_fields sort_by_def demo_group_def)

lemma demo_plan: "plan_of (groups lc [demo_device]) (effective {''r1''} (groups lc [demo_device])) = [(demo_device, demo_group)]"
  by (simp add: plan_of_def effective_def selectable_def demo_groups demo_group_def demo_fields)

definition demo_run :: "(upgrade_at, upgrade_run) pool" where
  "demo_run = \<lparr>nxt = 1, slots = [Some (0, AtTrigger)], finished = [],
     shared = \<lparr>results = [''r1'' \<mapsto> Running],
               fw_log = [Checked ''r1'' (Some ''7.1'') (Some ''7.2''), TriggerSent ''r1'']\<rparr>\<rparr>"

lemma demo_step: "upgrade_step [(demo_device, demo_group)] (upgrade_start [(demo_device, demo_group)]) demo_run"
proof -
  let ?plan = "[(demo_device, demo_group)]"
  let ?s = "\<lparr>results = [''r1'' \<mapsto> Running], fw_log = []\<rparr>"
  have start: "upgrade_start ?plan = \<lparr>nxt = 1, slots = [Some (0, AtCheck)], finished = [], shared = ?s\<rparr>"
    by (simp add: upgrade_start_def runPool_closed demo_fields)
  have "upgrade_task ?plan 0 AtCheck ?s (Some AtTrigger)
      (event (TriggerSent ''r1'') (event (Checked ''r1'' (Some ''7.1'') (Some ''7.2'')) ?s))"
    using check_fresh [of ?plan 0 demo_device demo_group "Some ''7.1''" "Some ''7.2''" ?s]
    by (simp add: as_approved_def demo_group_def norm_71 demo_fields)
  then have "upgrade_task ?plan 0 AtCheck (shared (upgrade_start ?plan)) (Some AtTrigger)
      (event (TriggerSent ''r1'') (event (Checked ''r1'' (Some ''7.1'') (Some ''7.2'')) ?s))"
    by (simp add: start)
  from resume [where ts = "upgrade_task ?plan" and k = 0, OF _ _ this, of 1 "\<lambda>_. AtCheck"]
  show ?thesis by (simp add: start demo_run_def event_def)
qed

theorem upgrade_only_as_approved_witness:
  "\<exists>d \<in> set [demo_device]. d_id d = ''r1'' \<and> ''r1'' \<in> {''r1''} \<and> upgradable d \<and>
    (\<exists>cur avail. Checked ''r1'' cur avail \<in> set [Checked ''r1'' (Some ''7.1'') (Some ''7.2'')] \<and>
       normFw cur = normFw (d_firmware d) \<and> normFw avail = normFw (d_firmware_available d))"
proof (rule upgrade_only_as_approved [OF _ demo_plan [symmetric]])
  show "reaches (\<lambda>p. p = upgrade_start [(demo_device, demo_group)]) (upgrade_step [(demo_device, demo_group)]) demo_run"
    by (rule reaches_one [where s = "upgrade_start [(demo_device, demo_group)]"], rule refl, rule demo_step)
qed (simp_all add: demo_fields demo_run_def)

theorem upgrade_terminates_witness:
  "(1::nat) \<le> 2 * length [(demo_device, demo_group)] \<and> card (in_flight demo_run) \<le> 4"
  using upgrade_terminates [of 1 "[(demo_device, demo_group)]" demo_run] demo_step by auto

theorem groups_partition_witness:
  "mset (concat (map g_devices (groups (\<lambda>_ _. 0) [demo_device]))) = {#demo_device#}"
  using groups_partition [of "[demo_device]" "\<lambda>_ _. 0"] by (simp add: demo_fields)

end
