(* ===== verification/Refresh_Flight.thy ===== *)
theory Refresh_Flight
  imports Prelude
begin

text \<open>
  Several tabs refresh at once. \<open>tryRefresh\<close> of \<open>frontend/src/lib/api.ts\<close> is single-flight
  in its tab (\<open>refreshInFlight\<close>) and, where the browser has \<open>navigator.locks\<close>, takes the
  lock \<open>netfleet-auth-refresh\<close> around \<open>doRefresh\<close>. All tabs share one refresh cookie, and
  the server rotates it: a refresh that presents the current cookie retires it and answers
  with its successor; a retired cookie is taken for a replay and refused (the server's
  sixty seconds of grace for a just-retired one are left out).

  The model is the interleaving of any number of tabs at the points where the code waits:
  for the lock, for the server, and for the answer to come back. Answers may take any time,
  but arrive; a tab is only ever at one of these points, since a second caller of
  \<open>tryRefresh\<close> gets the promise of the first.
\<close>

section \<open>Tabs\<close>

datatype tab_at =
    TabIdle
  | TabWaiting            \<comment> \<open>\<open>refreshInFlight\<close> is set, the lock is asked for\<close>
  | TabSent nat           \<comment> \<open>\<open>doRefresh\<close> has sent the request, with this cookie\<close>
  | TabAnswered "nat option"  \<comment> \<open>the server has answered: the successor, or a refusal\<close>

record tabs =
  cookie :: nat
  live :: nat
  holder :: "nat option"
  tab :: "nat \<Rightarrow> tab_at"
  presented :: "(nat \<times> nat) list"

definition tabs_init :: "tabs \<Rightarrow> bool" where
  "tabs_init s \<longleftrightarrow> cookie s = live s \<and> holder s = None \<and> (\<forall>t. tab s t = TabIdle) \<and> presented s = []"

text \<open>
  \<open>l\<close>: whether the browser has a lock manager. \<open>presented\<close> records every cookie the server
  saw beside the one that was current at that moment.
\<close>

inductive tab_step :: "bool \<Rightarrow> tabs \<Rightarrow> tabs \<Rightarrow> bool" for l :: bool where
  start: "tab s t = TabIdle \<Longrightarrow> tab_step l s (s\<lparr>tab := (tab s)(t := TabWaiting)\<rparr>)"
| locked: "l \<Longrightarrow> tab s t = TabWaiting \<Longrightarrow> holder s = None \<Longrightarrow>
    tab_step l s (s\<lparr>holder := Some t, tab := (tab s)(t := TabSent (cookie s))\<rparr>)"
| unlocked: "\<not> l \<Longrightarrow> tab s t = TabWaiting \<Longrightarrow>
    tab_step l s (s\<lparr>tab := (tab s)(t := TabSent (cookie s))\<rparr>)"
| rotate: "tab s t = TabSent c \<Longrightarrow> c = live s \<Longrightarrow>
    tab_step l s (s\<lparr>live := Suc (live s), tab := (tab s)(t := TabAnswered (Some (Suc (live s)))),
      presented := presented s @ [(c, live s)]\<rparr>)"
| refuse: "tab s t = TabSent c \<Longrightarrow> c \<noteq> live s \<Longrightarrow>
    tab_step l s (s\<lparr>tab := (tab s)(t := TabAnswered None), presented := presented s @ [(c, live s)]\<rparr>)"
| settle: "tab s t = TabAnswered x \<Longrightarrow>
    tab_step l s (s\<lparr>cookie := (case x of None \<Rightarrow> cookie s | Some n \<Rightarrow> n), tab := (tab s)(t := TabIdle),
      holder := (if holder s = Some t then None else holder s)\<rparr>)"

section \<open>With the lock\<close>

text \<open>
  Only the holder of the lock is past it; while no answer is under way the jar holds the
  current cookie, and an answer under way carries it.
\<close>

definition tabs_inv :: "tabs \<Rightarrow> bool" where
  "tabs_inv s \<longleftrightarrow>
     (\<forall>t c. tab s t = TabSent c \<longrightarrow> holder s = Some t \<and> c = live s \<and> cookie s = live s) \<and>
     (\<forall>t x. tab s t = TabAnswered x \<longrightarrow> holder s = Some t \<and> x = Some (live s)) \<and>
     (holder s = None \<longrightarrow> cookie s = live s) \<and>
     (\<forall>p \<in> set (presented s). fst p = snd p)"

lemma tabs_inv_init: "tabs_init s \<Longrightarrow> tabs_inv s"
  by (simp add: tabs_init_def tabs_inv_def)

lemma tabs_inv_others:
  assumes "tabs_inv s" "holder s = Some t" "u \<noteq> t"
  shows "tab s u \<noteq> TabSent c" "tab s u \<noteq> TabAnswered x"
  using assms by (auto simp: tabs_inv_def)

lemma tabs_inv_step:
  assumes "tab_step True s s'" "tabs_inv s"
  shows "tabs_inv s'"
  using assms
proof (induction rule: tab_step.induct)
  case (rotate s t c)
  then have h: "holder s = Some t" unfolding tabs_inv_def by blast
  have "\<forall>p \<in> set (presented s). fst p = snd p" using rotate.prems unfolding tabs_inv_def by blast
  with rotate.hyps h tabs_inv_others [OF rotate.prems h] show ?case
    unfolding tabs_inv_def by simp
next
  case (settle s t x)
  then have h: "holder s = Some t" and x: "x = Some (live s)" unfolding tabs_inv_def by blast+
  have "\<forall>p \<in> set (presented s). fst p = snd p" using settle.prems unfolding tabs_inv_def by blast
  with h x tabs_inv_others [OF settle.prems h] show ?case unfolding tabs_inv_def by simp
next
  case (refuse s t c)
  then show ?case unfolding tabs_inv_def by blast
next
  case (locked s t)
  then show ?case by (simp add: tabs_inv_def)
next
  case (start s t)
  then show ?case by (simp add: tabs_inv_def)
qed simp

interpretation tab_sys: invariant_system tabs_init "tab_step True" tabs_inv
  by unfold_locales (auto intro: tabs_inv_init tabs_inv_step)


definition fresh_tabs :: tabs where
  "fresh_tabs = \<lparr>cookie = 0, live = 0, holder = None, tab = (\<lambda>_. TabIdle), presented = []\<rparr>"

lemma fresh_tabs_init: "tabs_init fresh_tabs"
  by (simp add: tabs_init_def fresh_tabs_def)


section \<open>Without it\<close>

definition raced_tabs :: tabs where
  "raced_tabs = \<lparr>cookie = 0, live = 1, holder = None,
     tab = (\<lambda>_. TabIdle)(1 := TabAnswered (Some 1), 2 := TabAnswered None),
     presented = [(0, 0), (0, 1)]\<rparr>"

text \<open>
  In a browser without a lock manager two tabs can present the same cookie: the server
  hears one of them after it has retired that cookie, a replay as far as it can tell.
\<close>

theorem refresh_races_without_lock:
  "reaches tabs_init (tab_step False) raced_tabs \<and> tab raced_tabs 2 = TabAnswered None \<and>
    (\<exists>p \<in> set (presented raced_tabs). fst p \<noteq> snd p)"
proof -
  let ?s1 = "fresh_tabs\<lparr>tab := (\<lambda>_. TabIdle)(1 := TabWaiting)\<rparr>"
  let ?s2 = "fresh_tabs\<lparr>tab := (\<lambda>_. TabIdle)(1 := TabWaiting, 2 := TabWaiting)\<rparr>"
  let ?s3 = "fresh_tabs\<lparr>tab := (\<lambda>_. TabIdle)(1 := TabSent 0, 2 := TabWaiting)\<rparr>"
  let ?s4 = "fresh_tabs\<lparr>tab := (\<lambda>_. TabIdle)(1 := TabSent 0, 2 := TabSent 0)\<rparr>"
  let ?s5 = "fresh_tabs\<lparr>live := 1, tab := (\<lambda>_. TabIdle)(1 := TabAnswered (Some 1), 2 := TabSent 0),
      presented := [(0, 0)]\<rparr>"
  have "tab_step False fresh_tabs ?s1"
    using start [of fresh_tabs 1 False] by (simp add: fresh_tabs_def)
  moreover have "tab_step False ?s1 ?s2"
    using start [of ?s1 2 False] by (simp add: fresh_tabs_def)
  moreover have "tab_step False ?s2 ?s3"
    using unlocked [of False ?s2 1] by (simp add: fresh_tabs_def fun_upd_twist)
  moreover have "tab_step False ?s3 ?s4"
    using unlocked [of False ?s3 2] by (simp add: fresh_tabs_def)
  moreover have "tab_step False ?s4 ?s5"
    using rotate [of ?s4 1 0 False] by (simp add: fresh_tabs_def fun_upd_twist)
  moreover have "tab_step False ?s5 raced_tabs"
    using refuse [of ?s5 2 0 False] by (simp add: fresh_tabs_def raced_tabs_def)
  ultimately have "reaches tabs_init (tab_step False) raced_tabs"
    using fresh_tabs_init by (meson reaches_init reaches_step)
  then show ?thesis by (simp add: raced_tabs_def)
qed

end
