(* ===== verification/Reporting.thy ===== *)
theory Reporting
  imports Api_Laws
begin

text \<open>
  Events, reports and the audit log: the query strings \<open>events.ts\<close>, \<open>reports.ts\<close> and
  \<open>audit.ts\<close> build, and what the audit screens compute from entries
  (\<open>audit.ts\<close>, \<open>app/dashboard/audit/page.tsx\<close>).
\<close>

section \<open>events.ts\<close>

record ListEventsParams =
  ev_severity :: "string list option"
  ev_device_id :: "string option"
  ev_tenant_id :: "string option"
  ev_site_id :: "string option"
  ev_acknowledged :: "bool option"
  ev_since :: "string option"
  ev_until :: "string option"
  ev_search :: "string option"
  ev_limit :: "rat option"
  ev_offset :: "rat option"

text \<open>\<open>if (v) sp.set(k, v)\<close> and \<open>if (v !== undefined) sp.set(k, String(v))\<close>.\<close>

definition set_truthy :: "string \<Rightarrow> string option \<Rightarrow> params \<Rightarrow> params" where
  "set_truthy k v sp = (if truthy_str v then sp_set sp k (the v) else sp)"

definition set_defined :: "string \<Rightarrow> string option \<Rightarrow> params \<Rightarrow> params" where
  "set_defined k v sp = (case v of None \<Rightarrow> sp | Some s \<Rightarrow> sp_set sp k s)"

definition buildSearch :: "env \<Rightarrow> ListEventsParams \<Rightarrow> params" where
  "buildSearch E p =
     (let sp = (case ev_severity p of None \<Rightarrow> []
                | Some ss \<Rightarrow> foldl (\<lambda>sp s. sp_append sp ''severity'' s) [] ss);
          sp = set_truthy ''device_id'' (ev_device_id p) sp;
          sp = set_truthy ''tenant_id'' (ev_tenant_id p) sp;
          sp = set_truthy ''site_id'' (ev_site_id p) sp;
          sp = set_defined ''acknowledged'' (map_option bool_str (ev_acknowledged p)) sp;
          sp = set_truthy ''since'' (ev_since p) sp;
          sp = set_truthy ''until'' (ev_until p) sp;
          sp = set_truthy ''search'' (ev_search p) sp;
          sp = set_defined ''limit'' (map_option (numstr E) (ev_limit p)) sp
      in set_defined ''offset'' (map_option (numstr E) (ev_offset p)) sp)"

definition listEvents :: "env \<Rightarrow> ListEventsParams \<Rightarrow> json call" where
  "listEvents E p = guarded E (api_json E GET ''events'' (with_search (buildSearch E p)))"

definition eventsSummary :: "env \<Rightarrow> json call" where
  "eventsSummary E = api_json E GET ''events/summary'' no_args"

definition acknowledgeEvents :: "env \<Rightarrow> string list \<Rightarrow> unit call" where
  "acknowledgeEvents E ids =
     guarded E (api_unit E POST ''events/acknowledge'' (with_json (JObj [(''ids'', jstrs ids)])))"

text \<open>\<open>r.cleared\<close>: undefined when the answer is an object without it, an error when it is null.\<close>

definition clearAllEvents :: "env \<Rightarrow> json option call" where
  "clearAllEvents E =
     guarded E (awaiting (api_json E POST ''events/clear'' no_args)
       (\<lambda>j. ret (if j = JNull then Inl (JsError ''Cannot read properties of null'')
                 else Inr (jget j ''cleared''))))"

definition eventsPerSiteSummary :: "env \<Rightarrow> json call" where
  "eventsPerSiteSummary E = api_json E GET ''events/per-site-summary'' no_args"

section \<open>reports.ts\<close>

text \<open>\<open>range(params)\<close>: the non-empty string entries of an object.\<close>

definition range_params :: "(string \<times> json) list \<Rightarrow> params" where
  "range_params entries =
     List.map_filter (\<lambda>(k, v). case v of JStr s \<Rightarrow> if s \<noteq> [] then Some (k, s) else None | _ \<Rightarrow> None) entries"

definition date_range :: "string \<Rightarrow> string \<Rightarrow> (string \<times> json) list" where
  "date_range ts_from ts_to = [(''ts_from'', JStr ts_from), (''ts_to'', JStr ts_to)]"

definition opt_entry :: "string \<Rightarrow> string option \<Rightarrow> (string \<times> json) list" where
  "opt_entry k v = (case v of None \<Rightarrow> [] | Some s \<Rightarrow> [(k, JStr s)])"

definition userActivityReport :: "env \<Rightarrow> string \<Rightarrow> string \<Rightarrow> string option \<Rightarrow> json call" where
  "userActivityReport E ts_from ts_to user_id =
     api_json E GET ''reports/user-activity''
       (with_search (range_params (date_range ts_from ts_to @ opt_entry ''user_id'' user_id)))"

definition deviceActivityReport :: "env \<Rightarrow> string \<Rightarrow> string \<Rightarrow> string \<Rightarrow> json call" where
  "deviceActivityReport E ts_from ts_to device_id =
     api_json E GET ''reports/device-activity''
       (with_search (range_params (date_range ts_from ts_to @ [(''device_id'', JStr device_id)])))"

definition secretAccessReport :: "env \<Rightarrow> string \<Rightarrow> string \<Rightarrow> string option \<Rightarrow> json call" where
  "secretAccessReport E ts_from ts_to user_id =
     api_json E GET ''reports/secret-access''
       (with_search (range_params (date_range ts_from ts_to @ opt_entry ''user_id'' user_id)))"

definition changeReport :: "env \<Rightarrow> string \<Rightarrow> string \<Rightarrow> string option \<Rightarrow> json call" where
  "changeReport E ts_from ts_to sect =
     api_json E GET ''reports/changes''
       (with_search (range_params (date_range ts_from ts_to @ opt_entry ''section'' sect)))"

definition userRolesReport :: "env \<Rightarrow> json call" where
  "userRolesReport E = api_json E GET ''reports/user-roles'' no_args"

text \<open>\<open>params\<close> as the entries of the object, an undefined value being None.\<close>

definition csv_params :: "(string \<times> string option) list \<Rightarrow> params" where
  "csv_params entries =
     foldl (\<lambda>sp (k, v). case v of None \<Rightarrow> sp | Some s \<Rightarrow> if s \<noteq> [] then sp_set sp k s else sp)
       [(''format'', ''csv'')] entries"

definition csvUrl :: "string \<Rightarrow> (string \<times> string option) list \<Rightarrow> string" where
  "csvUrl endpoint entries = ''/api/v1/reports/'' @ endpoint @ ''?'' @ sp_toString (csv_params entries)"

definition downloadReportCsv ::
  "env \<Rightarrow> string \<Rightarrow> (string \<times> string option) list \<Rightarrow> string \<Rightarrow> (string \<times> string) call" where
  "downloadReportCsv E endpoint entries filenameHint =
     awaiting (authed_fetch E (csvUrl endpoint entries))
       (\<lambda>r. ret (Inr (disposition_name r (filenameHint @ ''.csv''), rs_text r)))"

section \<open>audit.ts\<close>

record AuditFilters =
  af_user_id :: "string option"
  af_section :: "string option"
  af_action :: "string option"
  af_outcome :: "string option"
  af_device_id :: "string option"
  af_site_id :: "string option"
  af_session_id :: "string option"
  af_target :: "string option"
  af_search :: "string option"
  af_ts_from :: "string option"
  af_ts_to :: "string option"
  af_limit :: "rat option"
  af_offset :: "rat option"

text \<open>\<open>Object.entries(filters)\<close>, each value as \<open>String(v)\<close>; an undefined one is None.\<close>

definition audit_entries :: "env \<Rightarrow> AuditFilters \<Rightarrow> (string \<times> string option) list" where
  "audit_entries E f = [
     (''user_id'', af_user_id f), (''section'', af_section f), (''action'', af_action f),
     (''outcome'', af_outcome f), (''device_id'', af_device_id f), (''site_id'', af_site_id f),
     (''session_id'', af_session_id f), (''target'', af_target f), (''search'', af_search f),
     (''ts_from'', af_ts_from f), (''ts_to'', af_ts_to f),
     (''limit'', map_option (numstr E) (af_limit f)), (''offset'', map_option (numstr E) (af_offset f))]"

definition audit_params :: "env \<Rightarrow> AuditFilters \<Rightarrow> params" where
  "audit_params E f =
     List.map_filter (\<lambda>(k, v). case v of None \<Rightarrow> None | Some s \<Rightarrow> if s \<noteq> [] then Some (k, s) else None)
       (audit_entries E f)"

definition queryAudit :: "env \<Rightarrow> AuditFilters \<Rightarrow> json call" where
  "queryAudit E f = api_json E GET ''audit'' (with_search (audit_params E f))"

definition getAuditSession :: "env \<Rightarrow> string \<Rightarrow> json call" where
  "getAuditSession E i = guarded E (api_json E GET (''audit/sessions/'' @ i) no_args)"

definition revokeAuditSession :: "env \<Rightarrow> string \<Rightarrow> unit call" where
  "revokeAuditSession E i = guarded E (api_unit E POST (''audit/sessions/'' @ i @ ''/revoke'') no_args)"

record AuditLogEntry =
  e_id :: string
  e_ts :: string
  e_user_id :: "string option"
  e_user_email :: "string option"
  e_user_name :: "string option"
  e_section :: string
  e_action :: string
  e_outcome :: string
  e_device_id :: "string option"
  e_device_name :: "string option"
  e_site_id :: "string option"
  e_site_name :: "string option"
  e_ip_address :: "string option"
  e_user_agent :: "string option"
  e_request_payload :: "(string \<times> json) list option"
  e_response_meta :: "(string \<times> json) list option"
  e_error_message :: "string option"
  e_session_id :: "string option"

fun first_string :: "(string \<times> json) list \<Rightarrow> string list \<Rightarrow> string option" where
  "first_string p [] = None"
| "first_string p (k # ks) =
     (case map_of p k of
        Some (JStr v) \<Rightarrow> if v \<noteq> [] then Some v else first_string p ks
      | _ \<Rightarrow> first_string p ks)"

definition auditTarget :: "AuditLogEntry \<Rightarrow> string" where
  "auditTarget e =
     (if truthy_str (e_device_name e) then the (e_device_name e)
      else if truthy_str (e_site_name e) then the (e_site_name e)
      else (case first_string (case e_request_payload e of None \<Rightarrow> [] | Some p \<Rightarrow> p)
                [''name'', ''email'', ''hostname'', ''username'', ''slug''] of
         Some v \<Rightarrow> v
       | None \<Rightarrow> if truthy_str (e_device_id e) then take 8 (the (e_device_id e)) else em_dash))"

definition initials :: "string option \<Rightarrow> string option \<Rightarrow> string" where
  "initials name mail =
     (let src = trim (if truthy_str name then the name else if truthy_str mail then the mail else ''?'');
          parts = words_by (\<lambda>c. is_ws c \<or> c \<in> set ''@._-'') src
      in if 2 \<le> length parts \<and> truthy_str name
         then toUpperCase [hd (parts ! 0), hd (parts ! 1)]
         else toUpperCase (take 2 src))"

text \<open>\<open>/tag(\d+)/\<close> in a user-agent string: the digits at the first place they follow the tag.\<close>

fun ver :: "string \<Rightarrow> string \<Rightarrow> string option" where
  "ver tag [] = None"
| "ver tag (c # s) =
     (let r = drop (length tag) (c # s); ds = takeWhile is_digit r
      in if startsWith (c # s) tag \<and> ds \<noteq> [] then Some ds else ver tag s)"

text \<open>\<open>/Version\/(\d+).*Safari/\<close> (a user agent has no line break).\<close>

fun ver_safari :: "string \<Rightarrow> bool" where
  "ver_safari [] = False"
| "ver_safari (c # s) =
     (let r = drop 8 (c # s)
      in startsWith (c # s) ''Version/'' \<and> takeWhile is_digit r \<noteq> [] \<and> str_includes (tl r) ''Safari'' \<or>
         ver_safari s)"

definition mid_dot :: string where
  "mid_dot = [CHR 0xC2, CHR 0xB7]"

definition describeClient :: "string option \<Rightarrow> string" where
  "describeClient ua =
     (case ua of
        None \<Rightarrow> em_dash
      | Some u \<Rightarrow>
          if u = [] then em_dash
          else
            (let b = (case ver ''Edg/'' u of Some v \<Rightarrow> ''Edge '' @ v
                | None \<Rightarrow> (case ver ''Firefox/'' u of Some v \<Rightarrow> ''Firefox '' @ v
                | None \<Rightarrow> (case ver ''Chrome/'' u of Some v \<Rightarrow> ''Chrome '' @ v
                | None \<Rightarrow> if ver_safari u then ''Safari '' @ the (ver ''Version/'' u)
                          else hd (split CHR '' '' u))));
                 os = (if str_includes u ''Windows'' then ''Windows''
                       else if str_includes u ''Mac OS X'' then ''macOS''
                       else if str_includes u ''Android'' then ''Android''
                       else if str_includes u ''iPhone'' \<or> str_includes u ''iPad'' then ''iOS''
                       else if str_includes u ''Linux'' then ''Linux'' else [])
             in if os \<noteq> [] then b @ '' '' @ mid_dot @ '' '' @ os else b))"

section \<open>The audit page\<close>

record AuditGroup =
  ag_key :: string
  ag_sessionId :: "string option"
  ag_rows :: "AuditLogEntry list"

definition session_key :: "AuditLogEntry \<Rightarrow> string" where
  "session_key e =
     (case e_session_id e of
        Some s \<Rightarrow> s
      | None \<Rightarrow> ''none:'' @ (case e_user_id e of Some u \<Rightarrow> u | None \<Rightarrow> ''system''))"

definition add_entry :: "AuditGroup list \<Rightarrow> AuditLogEntry \<Rightarrow> AuditGroup list" where
  "add_entry out e =
     (if out \<noteq> [] \<and> ag_key (last out) = session_key e
      then butlast out @ [(last out)\<lparr>ag_rows := ag_rows (last out) @ [e]\<rparr>]
      else out @ [\<lparr>ag_key = session_key e, ag_sessionId = e_session_id e, ag_rows = [e]\<rparr>])"

definition groupBySession :: "AuditLogEntry list \<Rightarrow> AuditGroup list" where
  "groupBySession items = foldl add_entry [] items"

section \<open>Queries on the wire\<close>

lemma sp_getAll_set: "sp_getAll (sp_set ps k v) k' = (if k = k' then [v] else sp_getAll ps k')"
  by (simp add: sp_getAll_set_same sp_getAll_set_other)

lemma sp_getAll_truthy:
  "sp_getAll (set_truthy k v ps) k' = (if k = k' \<and> truthy_str v then [the v] else sp_getAll ps k')"
  by (simp add: set_truthy_def sp_getAll_set)

lemma sp_getAll_defined:
  "sp_getAll (set_defined k v ps) k' = (if k = k' \<and> v \<noteq> None then [the v] else sp_getAll ps k')"
  by (simp add: set_defined_def sp_getAll_set split: option.splits)

lemma sp_getAll_severity:
  "sp_getAll (foldl (\<lambda>sp s. sp_append sp ''severity'' s) ps ss) k =
     sp_getAll ps k @ (if k = ''severity'' then ss else [])"
  by (induction ss arbitrary: ps) (simp_all add: sp_getAll_append)

lemmas query_simps = sp_getAll_truthy sp_getAll_defined sp_getAll_severity

lemma sp_getAll_Nil [simp]: "sp_getAll [] k = []"
  by (simp add: sp_getAll_def)

text \<open>What the server reads for an optional filter: nothing, or the one value.\<close>

abbreviation asked :: "string option \<Rightarrow> string list" where
  "asked v \<equiv> (if truthy_str v then [the v] else [])"

abbreviation given :: "string option \<Rightarrow> string list" where
  "given v \<equiv> (case v of None \<Rightarrow> [] | Some s \<Rightarrow> [s])"

text \<open>
  C33. The event filters arrive as they were meant: decoding the query string, the server
  finds every chosen severity as a parameter of its own, in order, and every other filter
  once, or not at all when it was left out.
\<close>

theorem events_query_faithful:
  "\<exists>q. parse_query (sp_toString (buildSearch E p)) = Some q \<and>
    sp_getAll q ''severity'' = (case ev_severity p of None \<Rightarrow> [] | Some ss \<Rightarrow> ss) \<and>
    sp_getAll q ''device_id'' = asked (ev_device_id p) \<and>
    sp_getAll q ''tenant_id'' = asked (ev_tenant_id p) \<and>
    sp_getAll q ''site_id'' = asked (ev_site_id p) \<and>
    sp_getAll q ''acknowledged'' = given (map_option bool_str (ev_acknowledged p)) \<and>
    sp_getAll q ''since'' = asked (ev_since p) \<and>
    sp_getAll q ''until'' = asked (ev_until p) \<and>
    sp_getAll q ''search'' = asked (ev_search p) \<and>
    sp_getAll q ''limit'' = given (map_option (numstr E) (ev_limit p)) \<and>
    sp_getAll q ''offset'' = given (map_option (numstr E) (ev_offset p))"
  unfolding parse_query_toString buildSearch_def Let_def
  by (auto simp: query_simps split: option.splits)

definition value_of :: "(string \<times> string option) list \<Rightarrow> string \<Rightarrow> string option" where
  "value_of es k = (case map_of es k of Some v \<Rightarrow> v | None \<Rightarrow> None)"

lemma csv_params_getAll:
  assumes "distinct (map fst entries)" "''format'' \<notin> fst ` set entries"
  shows "sp_getAll (csv_params entries) k =
    (if k = ''format'' then [''csv''] else asked (value_of entries k))"
proof -
  have "sp_getAll (foldl (\<lambda>sp (k, v). case v of None \<Rightarrow> sp | Some s \<Rightarrow> if s \<noteq> [] then sp_set sp k s else sp) ps es) k =
      (if truthy_str (value_of es k) then [the (value_of es k)] else sp_getAll ps k)"
    if "distinct (map fst es)" for es ps
    using that
  proof (induction es arbitrary: ps)
    case (Cons x es)
    obtain k' v where x: "x = (k', v)" by force
    have "map_of es k' = None" using Cons.prems x by (auto simp: map_of_eq_None_iff)
    with Cons x show ?case
      by (cases v) (auto simp: sp_getAll_set value_of_def)
  qed (simp add: value_of_def)
  from this [OF assms(1), of "[(''format'', ''csv'')]"] assms(2)
  show ?thesis by (auto simp: csv_params_def sp_getAll_def value_of_def map_of_eq_None_iff [symmetric])
qed

text \<open>
  A CSV export asks for the report on screen: the path is the report's, the query
  decodes, asks for CSV, and has every filter that is set, each once.
\<close>

theorem csv_url_faithful:
  assumes "distinct (map fst entries)" "''format'' \<notin> fst ` set entries"
  shows "\<exists>q. csvUrl endpoint entries = ''/api/v1/reports/'' @ endpoint @ ''?'' @ sp_toString q \<and>
    parse_query (sp_toString q) = Some q \<and> sp_getAll q ''format'' = [''csv''] \<and>
    (\<forall>k. k \<noteq> ''format'' \<longrightarrow> sp_getAll q k = asked (value_of entries k))"
  using csv_params_getAll [OF assms] by (auto simp: csvUrl_def parse_query_toString)

theorem csv_url_faithful_witness:
  "\<exists>q. csvUrl ''changes'' [(''ts_from'', Some ''2026''), (''section'', Some ''a&b''), (''user_id'', None)] =
      ''/api/v1/reports/'' @ ''changes'' @ ''?'' @ sp_toString q \<and> sp_getAll q ''section'' = [''a&b'']"
proof -
  from csv_url_faithful [of "[(''ts_from'', Some ''2026''), (''section'', Some ''a&b''), (''user_id'', None)]" "''changes''"]
  obtain q where "csvUrl ''changes'' [(''ts_from'', Some ''2026''), (''section'', Some ''a&b''), (''user_id'', None)] =
      ''/api/v1/reports/'' @ ''changes'' @ ''?'' @ sp_toString q"
    and "\<forall>k. k \<noteq> ''format'' \<longrightarrow> sp_getAll q k =
      asked (value_of [(''ts_from'', Some ''2026''), (''section'', Some ''a&b''), (''user_id'', None)] k)"
    by auto
  then show ?thesis by (intro exI [of _ q]) (simp add: value_of_def)
qed

section \<open>Sessions\<close>

text \<open>Consecutive groups differ, and each group is a non-empty run of one key.\<close>

definition runs_ok :: "AuditGroup list \<Rightarrow> bool" where
  "runs_ok gs \<longleftrightarrow> (\<forall>g \<in> set gs. ag_rows g \<noteq> [] \<and> (\<forall>e \<in> set (ag_rows g). session_key e = ag_key g)) \<and>
     (\<forall>i. Suc i < length gs \<longrightarrow> ag_key (gs ! i) \<noteq> ag_key (gs ! Suc i))"

lemma runs_ok_grow:
  assumes "runs_ok (gs @ [g])" "ag_key g = session_key e"
  shows "runs_ok (gs @ [g\<lparr>ag_rows := ag_rows g @ [e]\<rparr>])"
proof -
  have "ag_key ((gs @ [g\<lparr>ag_rows := ag_rows g @ [e]\<rparr>]) ! i) = ag_key ((gs @ [g]) ! i)"
    if "i < length (gs @ [g])" for i
    using that by (auto simp: nth_append)
  with assms show ?thesis unfolding runs_ok_def by auto
qed

lemma runs_ok_new:
  assumes "runs_ok gs" "gs = [] \<or> ag_key (last gs) \<noteq> session_key e"
  shows "runs_ok (gs @ [\<lparr>ag_key = session_key e, ag_sessionId = i, ag_rows = [e]\<rparr>])"
proof -
  have "last gs = gs ! i" if "Suc i = length gs" for i
    using that by (metis diff_Suc_1 last_conv_nth list.size(3) nat.simps(3))
  with assms show ?thesis unfolding runs_ok_def by (auto simp: nth_append less_Suc_eq)
qed

lemma add_entry_runs:
  assumes "runs_ok gs"
  shows "runs_ok (add_entry gs e) \<and> concat (map ag_rows (add_entry gs e)) = concat (map ag_rows gs) @ [e]"
proof (cases "gs \<noteq> [] \<and> ag_key (last gs) = session_key e")
  case True
  then have gs: "gs = butlast gs @ [last gs]" by simp
  with True assms runs_ok_grow [of "butlast gs" "last gs" e] have
    "runs_ok (butlast gs @ [(last gs)\<lparr>ag_rows := ag_rows (last gs) @ [e]\<rparr>])" by metis
  moreover have "concat (map ag_rows gs) = concat (map ag_rows (butlast gs)) @ ag_rows (last gs)"
    by (subst gs) simp
  ultimately show ?thesis using True by (simp add: add_entry_def)
next
  case False
  then show ?thesis using runs_ok_new [OF assms, of e "e_session_id e"] by (auto simp: add_entry_def)
qed

text \<open>
  C34. The sessions view loses, repeats and reorders nothing: the rows of the groups, read
  in order, are the entries of the page; the entries of a group belong to one session, and
  two neighbouring groups to different ones.
\<close>

theorem sessions_partition:
  "concat (map ag_rows (groupBySession items)) = items \<and> runs_ok (groupBySession items)"
proof -
  have "runs_ok (foldl add_entry gs items) \<and>
      concat (map ag_rows (foldl add_entry gs items)) = concat (map ag_rows gs) @ items"
    if "runs_ok gs" for gs
    using that
  proof (induction items arbitrary: gs)
    case (Cons e items)
    with add_entry_runs [OF Cons.prems, of e] show ?case by simp
  qed simp
  from this [of "[]"] show ?thesis by (simp add: groupBySession_def runs_ok_def)
qed

end
