(* ===== verification/Pager.thy ===== *)
theory Pager
  imports Prelude
begin

text \<open>
  The pager of the event and audit tables, \<open>components/pager.tsx\<close>: which page numbers are
  shown, and what its buttons and its label compute from \<open>offset\<close>, \<open>limit\<close> and \<open>total\<close>.
\<close>

section \<open>Page numbers\<close>

text \<open>\<open>null\<close>, a gap, is None. The set \<open>keep\<close> becomes a sorted list.\<close>

definition kept :: "int \<Rightarrow> int \<Rightarrow> int \<Rightarrow> int list" where
  "kept current pages radius =
     sort (remdups ([1, pages] @ filter (\<lambda>p. 1 \<le> p \<and> p \<le> pages) [current - radius..current + radius]))"

fun fill_gaps :: "int \<Rightarrow> int list \<Rightarrow> int option list" where
  "fill_gaps a [] = [Some a]"
| "fill_gaps a (b # r) =
     (let gap = b - a
      in Some a # (if gap = 2 then [Some (b - 1)] else if gap > 2 then [None] else []) @ fill_gaps b r)"

definition pageWindow :: "int \<Rightarrow> int \<Rightarrow> int \<Rightarrow> int option list" where
  "pageWindow current pages radius =
     (case kept current pages radius of [] \<Rightarrow> [] | a # r \<Rightarrow> fill_gaps a r)"

section \<open>Buttons and label\<close>

definition pages_of :: "int \<Rightarrow> int \<Rightarrow> int" where
  "pages_of totl limit = max 1 (- ((- totl) div limit))"

definition current_of :: "int \<Rightarrow> int \<Rightarrow> int \<Rightarrow> int" where
  "current_of offset limit totl = min (offset div limit + 1) (pages_of totl limit)"

definition go :: "int \<Rightarrow> int \<Rightarrow> int \<Rightarrow> int" where
  "go limit totl page = (min (max page 1) (pages_of totl limit) - 1) * limit"

definition from_of :: "int \<Rightarrow> int \<Rightarrow> int" where
  "from_of offset totl = (if totl = 0 then 0 else offset + 1)"

definition to_of :: "int \<Rightarrow> int \<Rightarrow> int \<Rightarrow> int" where
  "to_of offset limit totl = min (offset + limit) totl"

text \<open>The \<open>Go to\<close> field: digits only; an empty draft goes nowhere.\<close>

definition goto_draft :: "int \<Rightarrow> int \<Rightarrow> int \<Rightarrow> string \<Rightarrow> int" where
  "goto_draft offset limit totl draft =
     (if draft = [] then offset else go limit totl (int (read_nat draft)))"

section \<open>Properties of the page numbers\<close>

text \<open>
  A list of page numbers a reader can trust: neighbours are consecutive pages, and a gap
  hides two pages or more.
\<close>

fun window_ok :: "int option list \<Rightarrow> bool" where
  "window_ok [Some a] = True"
| "window_ok (Some a # Some b # r) = (b = a + 1 \<and> window_ok (Some b # r))"
| "window_ok (Some a # None # Some b # r) = (a + 3 \<le> b \<and> window_ok (Some b # r))"
| "window_ok _ = False"

lemma fill_gaps_ok:
  "sorted_wrt (<) (a # r) \<Longrightarrow> window_ok (fill_gaps a r) \<and> (\<exists>t. fill_gaps a r = Some a # t) \<and>
     last (fill_gaps a r) = Some (last (a # r)) \<and> Some ` set (a # r) \<subseteq> set (fill_gaps a r)"
proof (induction r arbitrary: a)
  case (Cons b r)
  then have "a < b" and b: "sorted_wrt (<) (b # r)" by auto
  from Cons.IH [OF b] obtain t where t: "fill_gaps b r = Some b # t" "window_ok (Some b # t)"
    "last (Some b # t) = Some (last (b # r))" "Some ` set (b # r) \<subseteq> set (Some b # t)"
    by auto
  with \<open>a < b\<close> show ?case by (auto simp: Let_def)
qed simp

lemma kept_props:
  assumes "1 \<le> pages"
  shows "sorted_wrt (<) (kept c pages r)" "kept c pages r \<noteq> []" "hd (kept c pages r) = 1"
    "last (kept c pages r) = pages"
    "set (kept c pages r) = {1, pages} \<union> {p. 1 \<le> p \<and> p \<le> pages \<and> c - r \<le> p \<and> p \<le> c + r}"
proof -
  show st: "set (kept c pages r) = {1, pages} \<union> {p. 1 \<le> p \<and> p \<le> pages \<and> c - r \<le> p \<and> p \<le> c + r}"
    by (auto simp: kept_def)
  show s: "sorted_wrt (<) (kept c pages r)"
    by (simp add: kept_def strict_sorted_iff del: remdups.simps)
  show ne: "kept c pages r \<noteq> []" using st by auto
  have "1 \<in> set (kept c pages r)" "pages \<in> set (kept c pages r)"
    and all: "\<forall>p \<in> set (kept c pages r). 1 \<le> p \<and> p \<le> pages"
    using st assms by auto
  have srt: "sorted (kept c pages r)" using s by (simp add: strict_sorted_imp_sorted)
  have "hd (kept c pages r) \<le> 1"
    using srt ne \<open>1 \<in> set _\<close> by (cases "kept c pages r") auto
  then show "hd (kept c pages r) = 1" using all ne by (metis hd_in_set order_antisym)
  have "pages \<le> last (kept c pages r)"
    using srt ne \<open>pages \<in> set _\<close> by (metis in_set_conv_nth last_conv_nth One_nat_def
        Suc_diff_1 diff_less length_greater_0_conv less_Suc_eq_le sorted_nth_mono zero_less_one)
  then show "last (kept c pages r) = pages" using all ne by (metis last_in_set order_antisym)
qed

text \<open>
  The page numbers start with 1 and end with the last page, count up by one except
  where a gap hides at least two pages, and show every page within the radius of the
  current one.
\<close>

theorem page_window_ok:
  assumes "1 \<le> pages"
  shows "window_ok (pageWindow c pages r) \<and> hd (pageWindow c pages r) = Some 1 \<and>
    last (pageWindow c pages r) = Some pages \<and>
    (\<forall>p. 1 \<le> p \<and> p \<le> pages \<and> c - r \<le> p \<and> p \<le> c + r \<longrightarrow> Some p \<in> set (pageWindow c pages r))"
proof -
  obtain x xs where k: "kept c pages r = x # xs" using kept_props(2) [OF assms] by (metis list.exhaust)
  note f = fill_gaps_ok [of x xs] and kp = kept_props [OF assms, of c r, unfolded k]
  have "Some p \<in> set (fill_gaps x xs)" if "1 \<le> p \<and> p \<le> pages \<and> c - r \<le> p \<and> p \<le> c + r" for p
  proof -
    have "p \<in> set (x # xs)" unfolding kp(5) using that by simp
    with f kp(1) show ?thesis by blast
  qed
  with f kp(1,3,4) k show ?thesis by (auto simp: pageWindow_def)
qed

theorem page_window_ok_witness:
  "window_ok (pageWindow 5 9 1) \<and> hd (pageWindow 5 9 1) = Some 1 \<and> last (pageWindow 5 9 1) = Some 9"
  using page_window_ok [of 9 5 1] by simp

text \<open>A move lands on the boundary of an existing page.\<close>

lemma go_inside:
  assumes "0 < limit" "0 \<le> totl"
  shows "0 \<le> go limit totl page" "go limit totl page mod limit = 0" "go limit totl page < max 1 totl"
    "current_of (go limit totl page) limit totl = min (max page 1) (pages_of totl limit)"
proof -
  define pg where "pg = min (max page 1) (pages_of totl limit)"
  have pg: "1 \<le> pg" "pg \<le> pages_of totl limit" by (auto simp: pg_def pages_of_def)
  have cur: "(pg - 1) * limit div limit + 1 = pg" using assms(1) by simp
  have "(pg - 1) * limit < max 1 totl"
  proof (cases "totl \<le> 0")
    case True
    then have "pages_of totl limit = 1" using assms by (simp add: pages_of_def)
    with pg show ?thesis by simp
  next
    case False
    let ?q = "- ((- totl) div limit)"
    define d m where dm: "d = (- totl) div limit" "m = (- totl) mod limit"
    have "limit * d + m = - totl" unfolding dm by (rule mult_div_mod_eq)
    moreover have "m < limit" unfolding dm using assms(1) by (rule pos_mod_bound)
    ultimately have "(- d - 1) * limit < totl" by (simp add: algebra_simps)
    then have "(?q - 1) * limit < totl" by (simp add: dm)
    moreover have "1 \<le> ?q" 
    proof -
      have "(- totl) div limit < 0" using False assms(1) by (intro div_neg_pos_less0) simp_all
      then show ?thesis by simp
    qed
    then have "pg \<le> ?q" using pg(2) by (simp add: pages_of_def)
    then have "(pg - 1) * limit \<le> (?q - 1) * limit" using assms(1) by (simp add: mult_right_mono)
    ultimately show ?thesis by simp
  qed
  moreover have "go limit totl page = (pg - 1) * limit" by (simp add: go_def pg_def)
  moreover have "0 \<le> (pg - 1) * limit" using pg(1) assms(1) by simp
  ultimately show "0 \<le> go limit totl page" "go limit totl page mod limit = 0" "go limit totl page < max 1 totl"
    "current_of (go limit totl page) limit totl = min (max page 1) (pages_of totl limit)"
    using pg cur assms by (auto simp: current_of_def pg_def [symmetric])
qed

text \<open>
  Every button of the pager leads to a page that exists: the offset is that of a page
  boundary inside the result, and the page shown there is the one asked for, or the nearest
  there is. On a page inside the result the label's range is not empty and ends within it;
  an offset past the end (the result shrank) makes a label that counts backwards.
\<close>

theorem pager_moves_inside:
  assumes "0 < limit" "0 \<le> totl" "0 \<le> offset"
  shows "0 \<le> go limit totl page \<and> go limit totl page mod limit = 0 \<and>
    go limit totl page < max 1 totl \<and>
    current_of (go limit totl page) limit totl = min (max page 1) (pages_of totl limit) \<and>
    (if totl = 0 then from_of offset totl = 0 \<and> to_of offset limit totl = 0
     else if offset < totl
       then from_of offset totl \<le> to_of offset limit totl \<and> to_of offset limit totl \<le> totl
       else to_of offset limit totl < from_of offset totl)"
  using go_inside [OF assms(1,2), of page] assms by (auto simp: from_of_def to_of_def)

theorem pager_moves_inside_witness:
  "go 50 120 7 < max 1 120 \<and> current_of (go 50 120 7) 50 120 = min (max 7 1) (pages_of 120 50)"
  using pager_moves_inside [of 50 120 0 7] by simp

end
