(* ===== verification/Toast.thy ===== *)
theory Toast
  imports Prelude
begin

text \<open>
  The notification stack, \<open>components/toast.tsx\<close>: \<open>push\<close> and \<open>remove\<close> of the provider, the
  per-row timer with its pause under the cursor, and time. A row's timer is set up by an
  effect that depends on \<open>onClose\<close>, and the provider makes a new \<open>onClose\<close> for every row
  whenever it renders: each push and each removal restarts the timers of all rows that are
  not paused.
\<close>

section \<open>State and operations\<close>

datatype ToastVariant = Success | ErrorToast | Info | Warning

record ToastItem =
  t_id :: nat
  t_variant :: ToastVariant
  t_title :: string
  t_description :: "string option"
  t_left :: "nat option"
  t_shown :: nat

text \<open>\<open>t_left\<close>: milliseconds on the row's timer, None while paused; \<open>t_shown\<close>: how long it is up.\<close>

record toasts =
  items :: "ToastItem list"
  idRef :: nat

definition MAX_VISIBLE :: nat where "MAX_VISIBLE = 3"
definition TIMEOUT_MS :: nat where "TIMEOUT_MS = 3000"

text \<open>The effect of a row after its provider has rendered.\<close>

definition restart :: "ToastItem \<Rightarrow> ToastItem" where
  "restart t = t\<lparr>t_left := map_option (\<lambda>_. TIMEOUT_MS) (t_left t)\<rparr>"

definition last_n :: "nat \<Rightarrow> 'a list \<Rightarrow> 'a list" where
  "last_n n xs = drop (length xs - n) xs"

definition push :: "ToastVariant \<Rightarrow> string \<Rightarrow> string option \<Rightarrow> toasts \<Rightarrow> toasts" where
  "push variant title description s =
     (let i = idRef s + 1;
          t = \<lparr>t_id = i, t_variant = variant, t_title = title, t_description = description,
               t_left = Some TIMEOUT_MS, t_shown = 0\<rparr>
      in \<lparr>items = map restart (last_n MAX_VISIBLE (items s @ [t])), idRef = i\<rparr>)"

definition remove :: "nat \<Rightarrow> toasts \<Rightarrow> toasts" where
  "remove i s = s\<lparr>items := map restart (filter (\<lambda>t. t_id t \<noteq> i) (items s))\<rparr>"

definition set_paused :: "nat \<Rightarrow> bool \<Rightarrow> toasts \<Rightarrow> toasts" where
  "set_paused i b s = s\<lparr>items :=
     map (\<lambda>t. if t_id t = i then t\<lparr>t_left := (if b then None else Some TIMEOUT_MS)\<rparr> else t) (items s)\<rparr>"

text \<open>Time passes, but no further than the next timer.\<close>

definition elapse :: "nat \<Rightarrow> toasts \<Rightarrow> toasts" where
  "elapse d s = s\<lparr>items := map (\<lambda>t. t\<lparr>t_left := map_option (\<lambda>l. l - d) (t_left t), t_shown := t_shown t + d\<rparr>) (items s)\<rparr>"

definition may_elapse :: "nat \<Rightarrow> toasts \<Rightarrow> bool" where
  "may_elapse d s = list_all (\<lambda>t. case t_left t of None \<Rightarrow> True | Some l \<Rightarrow> d \<le> l) (items s)"

inductive toast_step :: "toasts \<Rightarrow> toasts \<Rightarrow> bool" where
  do_push: "toast_step s (push v ti de s)"
| do_close: "t \<in> set (items s) \<Longrightarrow> toast_step s (remove (t_id t) s)"
| do_hover: "t \<in> set (items s) \<Longrightarrow> t_left t \<noteq> None \<Longrightarrow> toast_step s (set_paused (t_id t) True s)"
| do_leave: "t \<in> set (items s) \<Longrightarrow> t_left t = None \<Longrightarrow> toast_step s (set_paused (t_id t) False s)"
| do_elapse: "may_elapse d s \<Longrightarrow> toast_step s (elapse d s)"

definition toast_init :: "toasts \<Rightarrow> bool" where
  "toast_init s \<longleftrightarrow> items s = [] \<and> idRef s = 0"

section \<open>Invariant\<close>

text \<open>At most three rows, oldest first, with keys that are unique and were all handed out.\<close>

definition toast_inv :: "toasts \<Rightarrow> bool" where
  "toast_inv s \<longleftrightarrow> length (items s) \<le> MAX_VISIBLE \<and> sorted_wrt (<) (map t_id (items s)) \<and>
     (\<forall>t \<in> set (items s). t_id t \<le> idRef s \<and> (\<forall>l. t_left t = Some l \<longrightarrow> l \<le> TIMEOUT_MS))"

lemma restart_simps [simp]: "t_id (restart t) = t_id t" "t_title (restart t) = t_title t"
  "t_left (restart t) = map_option (\<lambda>_. TIMEOUT_MS) (t_left t)" "t_shown (restart t) = t_shown t"
  by (simp_all add: restart_def)

lemma map_id_restart [simp]: "map t_id (map restart ts) = map t_id ts"
  by (simp add: comp_def)

lemma sorted_filter_ids: "sorted_wrt (<) (map t_id ts) \<Longrightarrow> sorted_wrt (<) (map t_id (filter P ts))"
  by (induction ts) auto

lemma toast_inv_push:
  assumes "toast_inv s"
  shows "toast_inv (push v ti de s)"
proof -
  let ?t = "\<lparr>t_id = idRef s + 1, t_variant = v, t_title = ti, t_description = de,
      t_left = Some TIMEOUT_MS, t_shown = 0\<rparr>"
  have s: "sorted_wrt (<) (map t_id (items s @ [?t]))"
    using assms by (fastforce simp: toast_inv_def sorted_wrt_append)
  have "sorted_wrt (<) (map t_id (last_n MAX_VISIBLE (items s @ [?t])))"
    using sorted_wrt_drop [OF s] by (simp only: last_n_def drop_map)
  moreover have "\<forall>t \<in> set (last_n MAX_VISIBLE (items s @ [?t])). t_id t \<le> idRef s + 1"
    using assms by (fastforce simp: toast_inv_def last_n_def dest: in_set_dropD)
  moreover have "length (last_n MAX_VISIBLE (items s @ [?t])) \<le> MAX_VISIBLE"
    by (simp add: last_n_def)
  ultimately show ?thesis
    unfolding toast_inv_def push_def Let_def by (auto simp del: map_map)
qed

lemma toast_inv_map:
  assumes "toast_inv s" "\<forall>t \<in> set (items s). t_id (f t) = t_id t \<and> (\<forall>l. t_left (f t) = Some l \<longrightarrow> l \<le> TIMEOUT_MS)"
  shows "toast_inv (s\<lparr>items := map f (items s)\<rparr>)"
proof -
  have "map t_id (map f (items s)) = map t_id (items s)" using assms(2) by simp
  with assms show ?thesis unfolding toast_inv_def by (auto simp del: map_map)
qed

lemma toast_inv_step:
  assumes "toast_step s s'" "toast_inv s"
  shows "toast_inv s'"
  using assms
proof (induction rule: toast_step.induct)
  case (do_close t s)
  then have "sorted_wrt (<) (map t_id (filter (\<lambda>u. t_id u \<noteq> t_id t) (items s)))"
    by (intro sorted_filter_ids) (simp add: toast_inv_def)
  moreover have "length (filter (\<lambda>u. t_id u \<noteq> t_id t) (items s)) \<le> MAX_VISIBLE"
    using do_close.prems by (meson length_filter_le le_trans toast_inv_def)
  ultimately show ?case using do_close.prems
    unfolding toast_inv_def remove_def by (auto simp del: map_map)
next
  case (do_elapse d s)
  then show ?case unfolding elapse_def by (intro toast_inv_map) (auto simp: toast_inv_def)
next
  case (do_hover t s)
  then show ?case unfolding set_paused_def by (intro toast_inv_map) (auto simp: toast_inv_def)
next
  case (do_leave t s)
  then show ?case unfolding set_paused_def by (intro toast_inv_map) (auto simp: toast_inv_def)
qed (rule toast_inv_push)

interpretation toast_sys: invariant_system toast_init toast_step toast_inv
proof
  show "toast_init s \<Longrightarrow> toast_inv s" for s by (simp add: toast_init_def toast_inv_def)
qed (rule toast_inv_step)

text \<open>
  At most three notifications are up, under unique keys, in the order they came; and the
  newest is always among them: a push never drops what it adds.
\<close>

theorem toast_stack_ok:
  assumes "reaches toast_init toast_step s"
  shows "length (items s) \<le> 3 \<and> distinct (map t_id (items s)) \<and>
    (\<exists>t. last (items (push v ti de s)) = t \<and> items (push v ti de s) \<noteq> [] \<and> t_title t = ti \<and> t_id t = idRef s + 1)"
proof -
  have inv: "toast_inv s" by (rule toast_sys.reachable_inv [OF assms])
  have "distinct (map t_id (items s))"
    using inv unfolding toast_inv_def by (metis strict_sorted_iff)
  moreover have "items (push v ti de s) \<noteq> [] \<and> t_title (last (items (push v ti de s))) = ti \<and>
      t_id (last (items (push v ti de s))) = idRef s + 1"
    by (auto simp: push_def Let_def last_n_def MAX_VISIBLE_def last_map)
  ultimately show ?thesis using inv by (auto simp: toast_inv_def MAX_VISIBLE_def)
qed

theorem toast_stack_ok_witness:
  "length (items (push Info ''a'' None \<lparr>items = [], idRef = 0\<rparr>)) \<le> 3"
proof -
  have "reaches toast_init toast_step (push Info ''a'' None \<lparr>items = [], idRef = 0\<rparr>)"
    by (rule reaches_one [where s = "\<lparr>items = [], idRef = 0\<rparr>"]) (auto simp: toast_init_def intro: do_push)
  from toast_stack_ok [OF this] show ?thesis by blast
qed

text \<open>
  A notification can outstay its time without anybody hovering: with another one coming
  every two seconds, the first is still up after four, and its timer is as full as ever.
\<close>

definition busy_toasts :: toasts where
  "busy_toasts = push Info ''c'' None (elapse 2000 (push Info ''b'' None
     (elapse 2000 (push Info ''a'' None \<lparr>items = [], idRef = 0\<rparr>))))"

lemmas toast_defs = push_def remove_def elapse_def may_elapse_def restart_def last_n_def MAX_VISIBLE_def
  TIMEOUT_MS_def Let_def

theorem toast_outstays_timeout:
  "reaches toast_init toast_step busy_toasts \<and>
    (\<exists>t \<in> set (items busy_toasts). t_title t = ''a'' \<and> t_shown t = 4000 \<and> TIMEOUT_MS < t_shown t \<and>
       t_left t = Some TIMEOUT_MS)"
proof -
  let ?s0 = "\<lparr>items = [], idRef = 0\<rparr>"
  let ?s1 = "push Info ''a'' None ?s0"
  let ?s2 = "push Info ''b'' None (elapse 2000 ?s1)"
  have "reaches toast_init toast_step ?s0" by (rule reaches_init) (simp add: toast_init_def)
  then have "reaches toast_init toast_step ?s1" by (rule reaches_step) (rule do_push)
  then have "reaches toast_init toast_step (elapse 2000 ?s1)"
    by (rule reaches_step) (rule do_elapse, simp add: toast_defs)
  then have "reaches toast_init toast_step ?s2" by (rule reaches_step) (rule do_push)
  then have "reaches toast_init toast_step (elapse 2000 ?s2)"
    by (rule reaches_step) (rule do_elapse, simp add: toast_defs)
  then have "reaches toast_init toast_step busy_toasts"
    unfolding busy_toasts_def by (rule reaches_step) (rule do_push)
  moreover have "\<exists>t \<in> set (items busy_toasts). t_title t = ''a'' \<and> t_shown t = 4000 \<and> TIMEOUT_MS < t_shown t \<and>
       t_left t = Some TIMEOUT_MS"
    by (simp add: busy_toasts_def toast_defs)
  ultimately show ?thesis by blast
qed

end
