(* ===== verification/Format.thy ===== *)
theory Format
  imports Prelude
begin

text \<open>
  What the screens print: sizes (\<open>formatBytes\<close> of \<open>resources.ts\<close>, \<open>network.ts\<close> and
  \<open>host-health.ts\<close>), uptimes, relative times (\<open>time.ts\<close>), and small labels. Numbers are
  rationals: a byte count below \<open>2 ^ 53\<close> is an exact double, and so are its quotients by
  1024.
\<close>

section \<open>Numbers as text\<close>

definition Math_round :: "rat \<Rightarrow> int" where
  "Math_round v = floor (v + 1 / 2)"

text \<open>\<open>v.toFixed(0)\<close> and \<open>v.toFixed(1)\<close>: the nearest, the larger of two.\<close>

definition toFixed0 :: "rat \<Rightarrow> string" where
  "toFixed0 v = (if v < 0 then ''-'' else []) @ show_nat (nat (Math_round \<bar>v\<bar>))"

definition toFixed1 :: "rat \<Rightarrow> string" where
  "toFixed1 v =
     (let n = nat (Math_round (\<bar>v\<bar> * 10))
      in (if v < 0 then ''-'' else []) @ show_nat (n div 10) @ ''.'' @ show_nat (n mod 10))"

section \<open>Sizes\<close>

text \<open>
  \<open>while (v >= 1024 && i < units.length - 1) { v /= 1024; i++; }\<close>, as a recursion over the
  units that are left.
\<close>

fun scale :: "rat \<Rightarrow> nat \<Rightarrow> string list \<Rightarrow> rat \<times> nat" where
  "scale v i (u # u' # us) = (if 1024 \<le> v then scale (v / 1024) (Suc i) (u' # us) else (v, i))"
| "scale v i us = (v, i)"

definition iec_units :: "string list" where
  "iec_units = [''B'', ''KiB'', ''MiB'', ''GiB'', ''TiB'', ''PiB'']"

definition si_units :: "string list" where
  "si_units = [''B'', ''KB'', ''MB'', ''GB'', ''TB'']"

definition formatBytes :: "rat option \<Rightarrow> string" where
  "formatBytes n =
     (case n of
        None \<Rightarrow> em_dash
      | Some x \<Rightarrow>
          (let (v, i) = scale x 0 iec_units
           in (if v < 10 \<and> i > 0 then toFixed1 v else show_int (Math_round v)) @ '' '' @ iec_units ! i))"

definition fixed_unit :: "rat \<Rightarrow> string" where
  "fixed_unit x =
     (let (v, i) = scale x 0 si_units
      in (if v \<ge> 100 then toFixed0 v else toFixed1 v) @ '' '' @ si_units ! i)"

definition formatBytes_net :: "rat option \<Rightarrow> string" where
  "formatBytes_net n = (case n of None \<Rightarrow> em_dash | Some x \<Rightarrow> fixed_unit x)"

text \<open>\<open>host-health.ts\<close> prints the absolute value; a number here is always finite.\<close>

definition formatBytes_host :: "rat option \<Rightarrow> string" where
  "formatBytes_host n = (case n of None \<Rightarrow> em_dash | Some x \<Rightarrow> fixed_unit \<bar>x\<bar>)"

definition formatBytesPerSec :: "rat \<Rightarrow> string" where
  "formatBytesPerSec x = (if x < 0 then em_dash else formatBytes_host (Some x) @ ''/s'')"

section \<open>Times\<close>

text \<open>The remainder \<open>%\<close> of JavaScript takes the sign of the dividend.\<close>

definition js_rem :: "int \<Rightarrow> int \<Rightarrow> int" where
  "js_rem a b = sgn a * (\<bar>a\<bar> mod \<bar>b\<bar>)"

definition formatUptime :: "int option \<Rightarrow> string" where
  "formatUptime seconds =
     (case seconds of
        None \<Rightarrow> em_dash
      | Some s \<Rightarrow>
          (let d = s div 86400; h = js_rem s 86400 div 3600; m = js_rem s 3600 div 60
           in if d > 0 then show_int d @ ''d '' @ show_int h @ ''h''
              else if h > 0 then show_int h @ ''h '' @ show_int m @ ''m''
              else show_int m @ ''m''))"

text \<open>
  \<open>parse\<close> reads a timestamp (None for an invalid date), \<open>local_date\<close> is
  \<open>toLocaleDateString\<close>.
\<close>

definition formatRelative :: "(string \<Rightarrow> int option) \<Rightarrow> (string \<Rightarrow> string) \<Rightarrow> int \<Rightarrow> string option \<Rightarrow> string" where
  "formatRelative parse local_date now stamp =
     (if \<not> truthy_str stamp then ''never''
      else (case parse (the stamp) of
         None \<Rightarrow> em_dash
       | Some t \<Rightarrow>
           (let diff = now - t
            in if diff < 0 then ''just now''
               else
                 (let mins = diff div 60000
                  in if mins < 1 then ''just now''
                     else if mins < 60 then show_int mins @ ''m ago''
                     else
                       (let hours = mins div 60
                        in if hours < 24 then show_int hours @ ''h ago''
                           else
                             (let days = hours div 24
                              in if days < 30 then show_int days @ ''d ago''
                                 else local_date (the stamp)))))))"

definition formatAbsolute :: "(string \<Rightarrow> int option) \<Rightarrow> (string \<Rightarrow> string) \<Rightarrow> string option \<Rightarrow> string" where
  "formatAbsolute parse local_time stamp =
     (if \<not> truthy_str stamp then em_dash
      else (case parse (the stamp) of None \<Rightarrow> em_dash | Some _ \<Rightarrow> local_time (the stamp)))"

text \<open>\<open>Math.max(0, Math.round((b - a) / 60000))\<close> of two timestamps in milliseconds.\<close>

definition minutesBetween :: "int \<Rightarrow> int \<Rightarrow> int" where
  "minutesBetween a b = max 0 (Math_round (of_int (b - a) / 60000))"

text \<open>The start of a time range in milliseconds; None is \<open>undefined\<close>, all time.\<close>

definition rangeStart :: "int \<Rightarrow> string \<Rightarrow> int option" where
  "rangeStart now r =
     (case map_of [(''1h'', 1), (''24h'', 24), (''7d'', 24 * 7), (''30d'', 24 * 30)] r of
        Some h \<Rightarrow> Some (now - h * 3600000)
      | None \<Rightarrow> None)"

section \<open>Labels\<close>

definition methodLabel :: "string option \<Rightarrow> string" where
  "methodLabel m =
     (if m = Some ''dhcp'' then ''DHCP'' else if m = Some ''static'' then ''Static''
      else if m = Some ''unmanaged'' then ''No address'' else ''Unknown'')"

text \<open>Capabilities of a vendor's driver; None while the list of drivers is loading.\<close>

record Driver =
  dr_vendor :: string
  dr_display_name :: string
  dr_capabilities :: "string list"

definition capabilitiesFor :: "Driver list option \<Rightarrow> string option \<Rightarrow> string set option" where
  "capabilitiesFor drivers vendor =
     (case drivers of
        None \<Rightarrow> None
      | Some ds \<Rightarrow>
          if \<not> truthy_str vendor then None
          else (case find (\<lambda>x. dr_vendor x = the vendor) ds of
             Some d \<Rightarrow> Some (set (dr_capabilities d))
           | None \<Rightarrow> Some {}))"

datatype UpdateState =
  us_idle | us_checking | us_backing_up | us_pulling | us_recreating | us_health_checking | us_success | us_failed

definition IN_PROGRESS_STATES :: "UpdateState list" where
  "IN_PROGRESS_STATES = [us_backing_up, us_pulling, us_recreating, us_health_checking]"

definition isInProgress :: "UpdateState \<Rightarrow> bool" where
  "isInProgress s = (s \<in> set IN_PROGRESS_STATES)"

section \<open>Properties\<close>

lemma scale_props:
  assumes "scale x i us = (v, j)" "us \<noteq> []" "0 \<le> x" "i = 0 \<or> 1 \<le> x"
  shows "x = v * 1024 ^ (j - i) \<and> i \<le> j \<and> j < i + length us \<and> (j = 0 \<or> 1 \<le> v) \<and>
    (v < 1024 \<or> Suc j = i + length us)"
  using assms
proof (induction x i us rule: scale.induct)
  case (1 x i u u' us)
  show ?case
  proof (cases "1024 \<le> x")
    case True
    with "1.prems"(1) have s: "scale (x / 1024) (Suc i) (u' # us) = (v, j)" by simp
    have "1 \<le> x / 1024" using True by simp
    with "1.IH" [OF True s] have ih: "x / 1024 = v * 1024 ^ (j - Suc i)" "Suc i \<le> j" "j < Suc i + length (u' # us)"
      "j = 0 \<or> 1 \<le> v" "v < 1024 \<or> Suc j = Suc i + length (u' # us)"
      by auto
    from ih(2) have "j - i = Suc (j - Suc i)" by simp
    then have "x = v * 1024 ^ (j - i)" using ih(1) by simp
    with ih show ?thesis by simp
  next
    case False
    with "1.prems" show ?thesis by auto
  qed
qed auto

text \<open>
  A size is printed in the largest unit of which there is at least one: up to the
  rounding, the number shown times the unit is the size, and it stays below 1024 except in
  the last unit.
\<close>

theorem format_bytes_scaled:
  assumes "0 \<le> n"
  shows "\<exists>v i. n = v * 1024 ^ i \<and> i < 6 \<and> (i = 0 \<or> 1 \<le> v) \<and> (v < 1024 \<or> i = 5) \<and>
    formatBytes (Some n) =
      (if v < 10 \<and> i > 0 then toFixed1 v else show_int (Math_round v)) @ '' '' @ iec_units ! i"
proof -
  obtain v i where s: "scale n 0 iec_units = (v, i)" by force
  from scale_props [OF s _ assms] have "n = v * 1024 ^ i" "i < 6" "i = 0 \<or> 1 \<le> v" "v < 1024 \<or> i = 5"
    by (auto simp: iec_units_def)
  moreover have "formatBytes (Some n) =
      (if v < 10 \<and> i > 0 then toFixed1 v else show_int (Math_round v)) @ '' '' @ iec_units ! i"
    by (simp add: formatBytes_def s)
  ultimately show ?thesis by blast
qed

theorem format_bytes_scaled_witness:
  "formatBytes (Some 1536) = ''1.5 KiB'' \<and> (\<exists>v i. (1536 :: rat) = v * 1024 ^ i \<and> i < 6 \<and>
    (i = 0 \<or> 1 \<le> v) \<and> (v < 1024 \<or> i = 5) \<and> formatBytes (Some 1536) =
      (if v < 10 \<and> i > 0 then toFixed1 v else show_int (Math_round v)) @ '' '' @ iec_units ! i)"
proof
  show "formatBytes (Some 1536) = ''1.5 KiB''" by code_simp
qed (rule format_bytes_scaled, simp)

text \<open>
  A relative time is truthful: \<open>m\<close> minutes, \<open>h\<close> hours or \<open>d\<close> days ago is printed
  exactly when that many whole ones have passed, and nothing from the future is ever shown
  as past.
\<close>

theorem format_relative_truthful:
  assumes "parse s = Some t" "s \<noteq> []"
  shows "formatRelative parse loc now (Some s) =
    (if now - t < 60000 then ''just now''
     else if now - t < 60 * 60000 then show_int ((now - t) div 60000) @ ''m ago''
     else if now - t < 24 * 3600000 then show_int ((now - t) div 3600000) @ ''h ago''
     else if now - t < 30 * 86400000 then show_int ((now - t) div 86400000) @ ''d ago''
     else loc s)"
proof -
  define x where "x = now - t"
  have q: "x div 60000 < 1 \<longleftrightarrow> x < 60000" "x div 60000 < 60 \<longleftrightarrow> x < 60 * 60000"
    "x div 60000 div 60 = x div 3600000" "x div 3600000 < 24 \<longleftrightarrow> x < 24 * 3600000"
    "x div 3600000 div 24 = x div 86400000" "x div 86400000 < 30 \<longleftrightarrow> x < 30 * 86400000"
    by (simp_all add: zdiv_zmult2_eq [symmetric]) linarith+
  show ?thesis
    unfolding formatRelative_def x_def [symmetric] using assms
    by (simp add: Let_def x_def [symmetric] q)
qed

theorem format_relative_truthful_witness:
  "formatRelative (\<lambda>_. Some 0) id 7500000 (Some ''x'') = show_int 2 @ ''h ago''"
  using format_relative_truthful [of "\<lambda>_. Some 0" "''x''" 0 id 7500000] by simp

end
