(* ===== verification/Fleet.thy ===== *)
theory Fleet
  imports Bulk_Firmware
begin

text \<open>
  The fleet page, \<open>app/dashboard/fleet/page.tsx\<close>: the table of tenants, sites and devices
  (\<open>rows\<close>), its text filter (\<open>filtered\<close>), and \<open>updateAll\<close>, which refreshes every enabled
  device over the worker pool.
\<close>

section \<open>Tenants, sites, rows\<close>

record Tenant =
  tn_id :: string
  tn_organization_id :: string
  tn_name :: string
  tn_slug :: string
  tn_description :: "string option"
  tn_primary_contact_name :: "string option"
  tn_primary_contact_email :: "string option"
  tn_primary_contact_phone :: "string option"
  tn_site_count :: int
  tn_device_count :: int
  tn_created_at :: string
  tn_updated_at :: string

record Site =
  st_id :: string
  st_organization_id :: string
  st_tenant_id :: string
  st_tenant_name :: "string option"
  st_name :: string
  st_slug :: string
  st_address :: "string option"
  st_latitude :: "rat option"
  st_longitude :: "rat option"
  st_contact_email :: "string option"
  st_contact_phone :: "string option"
  st_notes :: "string option"
  st_device_count :: int
  st_created_at :: string
  st_updated_at :: string

record Row =
  r_key :: string
  r_tenant :: Tenant
  r_site :: "Site option"
  r_device :: "Device option"
  tenantFirst :: bool
  siteFirst :: bool

text \<open>\<open>m.get(k) ?? []\<close>, push, \<open>m.set(k, list)\<close>, over a list.\<close>

definition get_list :: "(string \<rightharpoonup> 'a list) \<Rightarrow> string \<Rightarrow> 'a list" where
  "get_list m k = (case m k of None \<Rightarrow> [] | Some l \<Rightarrow> l)"

definition by_key :: "('a \<Rightarrow> string) \<Rightarrow> 'a list \<Rightarrow> (string \<rightharpoonup> 'a list)" where
  "by_key f xs = foldl (\<lambda>m x. m(f x \<mapsto> get_list m (f x) @ [x])) Map.empty xs"

text \<open>The loop over a site's devices, with \<open>tenantFirstUsed\<close> and \<open>siteFirstUsed\<close>.\<close>

primrec device_rows :: "Tenant \<Rightarrow> Site \<Rightarrow> Device list \<Rightarrow> bool \<Rightarrow> bool \<Rightarrow> Row list" where
  "device_rows t s [] tu su = []"
| "device_rows t s (d # ds) tu su =
     \<lparr>r_key = ''d:'' @ d_id d, r_tenant = t, r_site = Some s, r_device = Some d,
      tenantFirst = (\<not> tu), siteFirst = (\<not> su)\<rparr> # device_rows t s ds True True"

text \<open>The loop over a tenant's sites.\<close>

primrec site_rows ::
  "(string \<Rightarrow> string \<Rightarrow> int) \<Rightarrow> (string \<rightharpoonup> Device list) \<Rightarrow> Tenant \<Rightarrow> Site list \<Rightarrow> bool \<Rightarrow> Row list" where
  "site_rows lc devicesBySite t [] tu = []"
| "site_rows lc devicesBySite t (s # ss) tu =
     (let sDevices = sort_by (\<lambda>a b. lc (d_name a) (d_name b)) (get_list devicesBySite (st_id s))
      in if sDevices = []
         then \<lparr>r_key = ''s:'' @ st_id s, r_tenant = t, r_site = Some s, r_device = None,
               tenantFirst = (\<not> tu), siteFirst = True\<rparr> # site_rows lc devicesBySite t ss True
         else device_rows t s sDevices tu False @ site_rows lc devicesBySite t ss True)"

definition tenant_rows ::
  "(string \<Rightarrow> string \<Rightarrow> int) \<Rightarrow> (string \<rightharpoonup> Site list) \<Rightarrow> (string \<rightharpoonup> Device list) \<Rightarrow> Tenant \<Rightarrow> Row list" where
  "tenant_rows lc sitesByTenant devicesBySite t =
     (let tSites = sort_by (\<lambda>a b. lc (st_name a) (st_name b)) (get_list sitesByTenant (tn_id t))
      in if tSites = []
         then [\<lparr>r_key = ''t:'' @ tn_id t, r_tenant = t, r_site = None, r_device = None,
                tenantFirst = True, siteFirst = False\<rparr>]
         else site_rows lc devicesBySite t tSites False)"

text \<open>None is a query that has not answered yet.\<close>

definition rows ::
  "(string \<Rightarrow> string \<Rightarrow> int) \<Rightarrow> Tenant list option \<Rightarrow> Site list option \<Rightarrow> Device list option \<Rightarrow> Row list" where
  "rows lc tenants sites devices =
     (case (tenants, sites, devices) of
        (Some ts, Some ss, Some ds) \<Rightarrow>
          concat (map (tenant_rows lc (by_key st_tenant_id ss) (by_key d_site_id ds))
            (sort_by (\<lambda>a b. lc (tn_name a) (tn_name b)) ts))
      | _ \<Rightarrow> [])"

section \<open>The filter\<close>

definition opt_list :: "string option \<Rightarrow> string list" where
  "opt_list x = (case x of None \<Rightarrow> [] | Some s \<Rightarrow> [s])"

text \<open>The searched text of a row: the fields that are present and not empty.\<close>

definition haystack :: "Row \<Rightarrow> string" where
  "haystack r = toLowerCase (join '' '' (filter (\<lambda>w. w \<noteq> [])
     ([tn_name (r_tenant r)] @
      (case r_site r of None \<Rightarrow> [] | Some s \<Rightarrow> [st_name s] @ opt_list (st_address s)) @
      (case r_device r of
         None \<Rightarrow> []
       | Some d \<Rightarrow> [d_name d, d_host d] @ opt_list (d_model d) @ opt_list (d_firmware d) @ [d_vendor d] @
           opt_list (d_os_version d) @ opt_list (d_os_family d)))))"

definition site_id_of :: "Row \<Rightarrow> string" where
  "site_id_of r = (case r_site r of None \<Rightarrow> [] | Some s \<Rightarrow> st_id s)"

primrec reflag :: "string \<Rightarrow> string \<Rightarrow> Row list \<Rightarrow> Row list" where
  "reflag lastTenant lastSite [] = []"
| "reflag lastTenant lastSite (r # rs) =
     (let tFirst = (tn_id (r_tenant r) \<noteq> lastTenant);
          sFirst = (site_id_of r \<noteq> lastSite \<or> tFirst)
      in r\<lparr>tenantFirst := tFirst, siteFirst := sFirst\<rparr> # reflag (tn_id (r_tenant r)) (site_id_of r) rs)"

definition filtered :: "string \<Rightarrow> Row list \<Rightarrow> Row list" where
  "filtered q rs =
     (let needle = toLowerCase (trim q)
      in if needle = [] then rs else reflag [] [] (filter (\<lambda>r. str_includes (haystack r) needle) rs))"

section \<open>The map\<close>

text \<open>\<open>components/fleet-map.tsx\<close>: the colour of a site's pin and the stacking of pins.\<close>

datatype Health = Green | Amber | Red | Grey | Critical

text \<open>\<open>unack\<close> is the number of critical events nobody acknowledged, None when unknown.\<close>

definition siteHealth :: "Device list \<Rightarrow> int option \<Rightarrow> Health" where
  "siteHealth devices unack =
     (if (case unack of None \<Rightarrow> False | Some c \<Rightarrow> c > 0) then Critical
      else if devices = [] then Grey
      else
        (let online = length (filter (\<lambda>d. d_status d = ''online'') devices);
             offline = length (filter (\<lambda>d. d_status d = ''offline'' \<or> d_status d = ''error'') devices)
         in if offline > 0 then Red else if online < length devices then Amber else Green))"

fun Z_INDEX_BY_HEALTH :: "Health \<Rightarrow> nat" where
  "Z_INDEX_BY_HEALTH Critical = 4000"
| "Z_INDEX_BY_HEALTH Red = 3000"
| "Z_INDEX_BY_HEALTH Amber = 2000"
| "Z_INDEX_BY_HEALTH Grey = 500"
| "Z_INDEX_BY_HEALTH Green = 0"

section \<open>What the table shows\<close>

lemma get_list_foldl:
  "get_list (foldl (\<lambda>m x. m(f x \<mapsto> get_list m (f x) @ [x])) m xs) k = get_list m k @ filter (\<lambda>x. f x = k) xs"
  by (induction xs arbitrary: m) (auto simp: get_list_def)

lemma get_by_key [simp]: "get_list (by_key f xs) k = filter (\<lambda>x. f x = k) xs"
  by (simp add: by_key_def get_list_foldl) (simp add: get_list_def)

definition shown_devices :: "Row list \<Rightarrow> Device list" where
  "shown_devices rs = List.map_filter r_device rs"

definition shown_sites :: "Row list \<Rightarrow> Site list" where
  "shown_sites rs = List.map_filter r_site (filter siteFirst rs)"

definition shown_tenants :: "Row list \<Rightarrow> Tenant list" where
  "shown_tenants rs = map r_tenant (filter tenantFirst rs)"

lemmas shown_defs = shown_devices_def shown_sites_def shown_tenants_def List.map_filter_def

lemma shown_append [simp]:
  "shown_devices (a @ b) = shown_devices a @ shown_devices b"
  "shown_sites (a @ b) = shown_sites a @ shown_sites b"
  "shown_tenants (a @ b) = shown_tenants a @ shown_tenants b"
  by (simp_all add: shown_defs)

lemma shown_concat:
  "shown_devices (concat xs) = concat (map shown_devices xs)"
  "shown_sites (concat xs) = concat (map shown_sites xs)"
  "shown_tenants (concat xs) = concat (map shown_tenants xs)"
  by (induction xs) (simp_all, simp_all add: shown_defs)

lemma shown_device_rows:
  "shown_devices (device_rows t s ds tu su) = ds"
  "shown_sites (device_rows t s ds tu su) = (if su \<or> ds = [] then [] else [s])"
  "shown_tenants (device_rows t s ds tu su) = (if tu \<or> ds = [] then [] else [t])"
proof (induction ds arbitrary: tu su)
  case (Cons d ds)
  {
    case 1 show ?case using Cons(1) by (simp add: shown_defs)
  next
    case 2 show ?case using Cons(2) [of True True] by (simp add: shown_defs)
  next
    case 3 show ?case using Cons(3) [of True True] by (simp add: shown_defs)
  }
qed (simp_all add: shown_defs)

lemma shown_row:
  "shown_devices (r # rs) = (case r_device r of None \<Rightarrow> [] | Some d \<Rightarrow> [d]) @ shown_devices rs"
  "shown_sites (r # rs) = (if siteFirst r then case r_site r of None \<Rightarrow> [] | Some s \<Rightarrow> [s] else []) @ shown_sites rs"
  "shown_tenants (r # rs) = (if tenantFirst r then [r_tenant r] else []) @ shown_tenants rs"
  by (auto simp: shown_defs split: option.splits)

lemma shown_Nil [simp]: "shown_devices [] = []" "shown_sites [] = []" "shown_tenants [] = []"
  by (simp_all add: shown_defs)

lemma shown_site_rows:
  "mset (shown_devices (site_rows lc (by_key d_site_id ds) t ss tu)) =
     mset (concat (map (\<lambda>s. filter (\<lambda>d. d_site_id d = st_id s) ds) ss))"
  "shown_sites (site_rows lc (by_key d_site_id ds) t ss tu) = ss"
  "shown_tenants (site_rows lc (by_key d_site_id ds) t ss tu) = (if tu \<or> ss = [] then [] else [t])"
proof (induction ss arbitrary: tu)
  case (Cons s ss)
  {
    case 1 show ?case using Cons(1) [of True] by (auto simp: Let_def shown_row shown_device_rows filter_empty_conv)
  next
    case 2 show ?case using Cons(2) [of True] by (simp add: Let_def shown_row shown_device_rows)
  next
    case 3 show ?case using Cons(3) [of True] by (simp add: Let_def shown_row shown_device_rows)
  }
qed simp_all

lemma shown_tenant_rows:
  "mset (shown_devices (tenant_rows lc (by_key st_tenant_id ss) (by_key d_site_id ds) t)) =
     mset (concat (map (\<lambda>s. filter (\<lambda>d. d_site_id d = st_id s) ds) (filter (\<lambda>s. st_tenant_id s = tn_id t) ss)))"
  "mset (shown_sites (tenant_rows lc (by_key st_tenant_id ss) (by_key d_site_id ds) t)) =
     mset (filter (\<lambda>s. st_tenant_id s = tn_id t) ss)"
  "shown_tenants (tenant_rows lc (by_key st_tenant_id ss) (by_key d_site_id ds) t) = [t]"
proof -
  have p: "mset (concat (map f (sort_by c xs))) = mset (concat (map f xs))" for f :: "Site \<Rightarrow> Device list" and c xs
    by (rule mset_concat_perm) simp
  show "mset (shown_devices (tenant_rows lc (by_key st_tenant_id ss) (by_key d_site_id ds) t)) =
     mset (concat (map (\<lambda>s. filter (\<lambda>d. d_site_id d = st_id s) ds) (filter (\<lambda>s. st_tenant_id s = tn_id t) ss)))"
    unfolding tenant_rows_def Let_def by (auto simp: shown_row shown_site_rows p filter_empty_conv)
  show "mset (shown_sites (tenant_rows lc (by_key st_tenant_id ss) (by_key d_site_id ds) t)) =
     mset (filter (\<lambda>s. st_tenant_id s = tn_id t) ss)"
    "shown_tenants (tenant_rows lc (by_key st_tenant_id ss) (by_key d_site_id ds) t) = [t]"
    unfolding tenant_rows_def Let_def by (auto simp: shown_row shown_site_rows filter_empty_conv)
qed

text \<open>Partition of a list by distinct keys.\<close>

lemma mset_by_keys:
  "distinct ks \<Longrightarrow> mset (concat (map (\<lambda>k. filter (\<lambda>x. f x = k) xs) ks)) = mset (filter (\<lambda>x. f x \<in> set ks) xs)"
proof (induction ks)
  case (Cons k ks)
  have "filter_mset (\<lambda>x. f x = k \<or> f x \<in> set ks) (mset xs) =
      filter_mset (\<lambda>x. f x = k) (mset xs) + filter_mset (\<lambda>x. f x \<in> set ks) (mset xs)"
    using Cons.prems by (induction xs) auto
  with Cons show ?case by simp
qed simp

lemma mset_concat_map_cong:
  "(\<And>x. x \<in> set xs \<Longrightarrow> mset (f x) = mset (g x)) \<Longrightarrow> mset (concat (map f xs)) = mset (concat (map g xs))"
  by (induction xs) auto

lemma mset_by_images:
  assumes "distinct (map g ts)"
  shows "mset (concat (map (\<lambda>t. filter (\<lambda>x. f x = g t) xs) ts)) = mset (filter (\<lambda>x. f x \<in> g ` set ts) xs)"
  using mset_by_keys [OF assms, of f xs] by (simp add: comp_def)

lemma concat_map_concat: "concat (map (\<lambda>t. concat (map f (g t))) ts) = concat (map f (concat (map g ts)))"
  by (induction ts) simp_all

lemma shown_sites_rows:
  assumes "distinct (map tn_id ts)"
  shows "mset (shown_sites (rows lc (Some ts) (Some ss) (Some ds))) =
    mset (filter (\<lambda>s. st_tenant_id s \<in> tn_id ` set ts) ss)"
proof -
  let ?o = "sort_by (\<lambda>a b. lc (tn_name a) (tn_name b)) ts"
  have "mset (shown_sites (rows lc (Some ts) (Some ss) (Some ds))) =
      mset (concat (map (\<lambda>t. filter (\<lambda>s. st_tenant_id s = tn_id t) ss) ?o))"
    unfolding rows_def by (simp add: shown_concat comp_def) (rule mset_concat_map_cong, simp add: shown_tenant_rows)
  also have "\<dots> = mset (concat (map (\<lambda>t. filter (\<lambda>s. st_tenant_id s = tn_id t) ss) ts))"
    by (rule mset_concat_perm) simp
  finally show ?thesis using mset_by_images [OF assms] by simp
qed

lemma shown_devices_rows:
  assumes "distinct (map tn_id ts)" "distinct (map st_id ss)"
  shows "mset (shown_devices (rows lc (Some ts) (Some ss) (Some ds))) =
    mset (filter (\<lambda>d. \<exists>s \<in> set ss. st_id s = d_site_id d \<and> st_tenant_id s \<in> tn_id ` set ts) ds)"
proof -
  let ?o = "sort_by (\<lambda>a b. lc (tn_name a) (tn_name b)) ts"
  let ?G = "\<lambda>t. filter (\<lambda>s. st_tenant_id s = tn_id t) ss"
  let ?F = "\<lambda>s. filter (\<lambda>d. d_site_id d = st_id s) ds"
  let ?K = "filter (\<lambda>s. st_tenant_id s \<in> tn_id ` set ts) ss"
  have "mset (shown_devices (rows lc (Some ts) (Some ss) (Some ds))) =
      mset (concat (map (\<lambda>t. concat (map ?F (?G t))) ?o))"
    unfolding rows_def by (simp add: shown_concat comp_def) (rule mset_concat_map_cong, simp add: shown_tenant_rows)
  also have "\<dots> = mset (concat (map (\<lambda>t. concat (map ?F (?G t))) ts))"
    by (rule mset_concat_perm) simp
  also have "\<dots> = mset (concat (map ?F (concat (map ?G ts))))"
    by (simp only: concat_map_concat)
  also have "\<dots> = mset (concat (map ?F ?K))"
    by (rule mset_concat_perm) (rule mset_by_images [OF assms(1)])
  also have "\<dots> = mset (filter (\<lambda>d. d_site_id d \<in> st_id ` set ?K) ds)"
    by (rule mset_by_images) (rule distinct_map_filter [OF assms(2)])
  also have "filter (\<lambda>d. d_site_id d \<in> st_id ` set ?K) ds =
      filter (\<lambda>d. \<exists>s \<in> set ss. st_id s = d_site_id d \<and> st_tenant_id s \<in> tn_id ` set ts) ds"
    by (rule filter_cong) (auto simp: image_iff)
  finally show ?thesis .
qed

lemma shown_tenants_rows:
  "shown_tenants (rows lc (Some ts) (Some ss) (Some ds)) = sort_by (\<lambda>a b. lc (tn_name a) (tn_name b)) ts"
  unfolding rows_def by (simp add: shown_concat comp_def shown_tenant_rows)

text \<open>
  The fleet table leaves nothing out and shows nothing twice: every tenant has exactly
  one row that carries its name, in the order of the names, so has every site of a known
  tenant, and every device of a known site has exactly one row.
\<close>

theorem fleet_rows_complete:
  assumes "distinct (map tn_id ts)" "distinct (map st_id ss)"
  shows "shown_tenants (rows lc (Some ts) (Some ss) (Some ds)) =
      sort_by (\<lambda>a b. lc (tn_name a) (tn_name b)) ts \<and>
    mset (shown_sites (rows lc (Some ts) (Some ss) (Some ds))) =
      mset (filter (\<lambda>s. st_tenant_id s \<in> tn_id ` set ts) ss) \<and>
    mset (shown_devices (rows lc (Some ts) (Some ss) (Some ds))) =
      mset (filter (\<lambda>d. \<exists>s \<in> set ss. st_id s = d_site_id d \<and> st_tenant_id s \<in> tn_id ` set ts) ds)"
  using shown_tenants_rows shown_sites_rows [OF assms(1)] shown_devices_rows [OF assms] by blast

definition demo_tenant :: Tenant where
  "demo_tenant = \<lparr>tn_id = ''t'', tn_organization_id = ''o'', tn_name = ''Acme'', tn_slug = ''acme'',
     tn_description = None, tn_primary_contact_name = None, tn_primary_contact_email = None,
     tn_primary_contact_phone = None, tn_site_count = 1, tn_device_count = 1, tn_created_at = ''c'',
     tn_updated_at = ''u''\<rparr>"

definition demo_site :: Site where
  "demo_site = \<lparr>st_id = ''s'', st_organization_id = ''o'', st_tenant_id = ''t'', st_tenant_name = None,
     st_name = ''HQ'', st_slug = ''hq'', st_address = None, st_latitude = None, st_longitude = None,
     st_contact_email = None, st_contact_phone = None, st_notes = None, st_device_count = 1,
     st_created_at = ''c'', st_updated_at = ''u''\<rparr>"

theorem fleet_rows_complete_witness:
  "mset (shown_devices (rows (\<lambda>_ _. 0) (Some [demo_tenant]) (Some [demo_site]) (Some [demo_device]))) = {#demo_device#}"
  using fleet_rows_complete [of "[demo_tenant]" "[demo_site]" "\<lambda>_ _. 0" "[demo_device]"]
  by (simp add: demo_tenant_def demo_site_def demo_device_def)

section \<open>What the map shows\<close>

text \<open>
  A pin is green only for a site whose devices all answer and that has no critical event
  waiting, and a green pin never covers the pin of a site with an issue: a site with a device
  that is down, with a device of any other state than online, or with a critical event lies
  above it.
\<close>

theorem green_never_hides_issue:
  assumes "siteHealth ds u = Green"
    and "(\<exists>d \<in> set es. d_status d \<noteq> ''online'') \<or> (\<exists>c. v = Some c \<and> c > 0)"
  shows "(\<forall>d \<in> set ds. d_status d = ''online'') \<and> (\<forall>c. u = Some c \<longrightarrow> c \<le> 0) \<and>
    Z_INDEX_BY_HEALTH (siteHealth ds u) < Z_INDEX_BY_HEALTH (siteHealth es v)"
proof -
  have g: "siteHealth xs w = Green \<longleftrightarrow>
      xs \<noteq> [] \<and> (\<forall>d \<in> set xs. d_status d = ''online'') \<and> (\<forall>c. w = Some c \<longrightarrow> c \<le> 0)" for xs w
  proof -
    have on: "length (filter (\<lambda>d. d_status d = ''online'') xs) < length xs \<longleftrightarrow> (\<exists>d \<in> set xs. d_status d \<noteq> ''online'')"
      by (induction xs) (simp_all add: le_imp_less_Suc)
    have off: "0 < length (filter (\<lambda>d. d_status d = ''offline'' \<or> d_status d = ''error'') xs) \<longleftrightarrow>
        (\<exists>d \<in> set xs. d_status d = ''offline'' \<or> d_status d = ''error'')"
      by (simp add: filter_empty_conv)
    show ?thesis
      unfolding siteHealth_def Let_def on off by (cases w) (auto simp: not_less)
  qed
  have "siteHealth es v \<noteq> Green" using assms(2) g [of es v] by force
  then have "0 < Z_INDEX_BY_HEALTH (siteHealth es v)" by (cases "siteHealth es v") simp_all
  with assms(1) g [of ds u] show ?thesis by simp
qed

theorem green_never_hides_issue_witness:
  "Z_INDEX_BY_HEALTH (siteHealth [demo_device] None) < Z_INDEX_BY_HEALTH (siteHealth [] (Some 1))"
  using green_never_hides_issue [of "[demo_device]" None "[]" "Some 1"]
  by (simp add: siteHealth_def demo_device_def)

section \<open>Update all\<close>

datatype RefreshState = Queued | Refreshing | RefreshOk | RefreshError

text \<open>
  The per-device progress, the counter \<open>failed\<close>, and a log of the devices whose firmware
  was asked for. The body of the worker first marks its device, then awaits
  \<open>testDeviceConnection\<close> and, for a router that answered, \<open>checkDeviceFirmware\<close>; the
  synchronous start of the body is a step of its own, which allows more interleavings than
  the event loop does.
\<close>

datatype refresh_at = AtEntry | AtTest | AtFirmware

record refresh_run =
  progress :: "string \<rightharpoonup> RefreshState"
  failures :: nat
  fw_asked :: "string list"

definition mark_refresh :: "string \<Rightarrow> RefreshState \<Rightarrow> refresh_run \<Rightarrow> refresh_run" where
  "mark_refresh i v s = s\<lparr>progress := (progress s)(i \<mapsto> v)\<rparr>"

definition refresh_failed :: "string \<Rightarrow> refresh_run \<Rightarrow> refresh_run" where
  "refresh_failed i s = mark_refresh i RefreshError (s\<lparr>failures := failures s + 1\<rparr>)"

text \<open>An error of a call and an answer that is not ok end alike.\<close>

inductive refresh_task ::
  "Device list \<Rightarrow> nat \<Rightarrow> refresh_at \<Rightarrow> refresh_run \<Rightarrow> refresh_at option \<Rightarrow> refresh_run \<Rightarrow> bool"
  for targets :: "Device list" where
  enter: "refresh_task targets i AtEntry s (Some AtTest) (mark_refresh (d_id (targets ! i)) Refreshing s)"
| test_failed: "refresh_task targets i AtTest s None (refresh_failed (d_id (targets ! i)) s)"
| test_server: "d_device_class (targets ! i) = ''server'' \<Longrightarrow>
    refresh_task targets i AtTest s None (mark_refresh (d_id (targets ! i)) RefreshOk s)"
| test_router: "d_device_class (targets ! i) \<noteq> ''server'' \<Longrightarrow>
    refresh_task targets i AtTest s (Some AtFirmware) (s\<lparr>fw_asked := fw_asked s @ [d_id (targets ! i)]\<rparr>)"
| firmware_ok: "refresh_task targets i AtFirmware s None (mark_refresh (d_id (targets ! i)) RefreshOk s)"
| firmware_failed: "refresh_task targets i AtFirmware s None (refresh_failed (d_id (targets ! i)) s)"

definition update_targets :: "Device list option \<Rightarrow> Device list" where
  "update_targets devices = filter d_is_enabled (case devices of None \<Rightarrow> [] | Some ds \<Rightarrow> ds)"

abbreviation refresh_zero :: "Device list \<Rightarrow> refresh_run" where
  "refresh_zero targets \<equiv>
     \<lparr>progress = map_of (map (\<lambda>d. (d_id d, Queued)) targets), failures = 0, fw_asked = []\<rparr>"

definition updateAll :: "Device list \<Rightarrow> (refresh_at, refresh_run) pool" where
  "updateAll targets = runPool (length targets) 6 (\<lambda>_. AtEntry) (refresh_zero targets)"

abbreviation refresh_step :: "Device list \<Rightarrow> (refresh_at, refresh_run) pool \<Rightarrow> (refresh_at, refresh_run) pool \<Rightarrow> bool" where
  "refresh_step targets \<equiv> pool_step (length targets) (\<lambda>_. AtEntry) (refresh_task targets)"

text \<open>The closing toast: devices refreshed, and how many failed.\<close>

definition update_summary :: "Device list \<Rightarrow> refresh_run \<Rightarrow> int \<times> nat" where
  "update_summary targets s = (int (length targets) - int (failures s), failures s)"

primrec refresh_rank :: "refresh_at \<Rightarrow> nat" where
  "refresh_rank AtEntry = 2"
| "refresh_rank AtTest = 1"
| "refresh_rank AtFirmware = 0"

text \<open>
  Progress is accurate for what is finished and open for the rest; the counter is the number
  of devices marked as failed.
\<close>

definition refresh_ok :: "Device list \<Rightarrow> nat set \<Rightarrow> refresh_run \<Rightarrow> bool" where
  "refresh_ok targets F s \<longleftrightarrow>
     (\<forall>i < length targets. i \<in> F \<longrightarrow> progress s (d_id (targets ! i)) \<in> {Some RefreshOk, Some RefreshError}) \<and>
     (\<forall>i < length targets. i \<notin> F \<longrightarrow> progress s (d_id (targets ! i)) \<in> {Some Queued, Some Refreshing}) \<and>
     failures s = card {i. i < length targets \<and> progress s (d_id (targets ! i)) = Some RefreshError} \<and>
     (\<forall>j \<in> set (fw_asked s). \<exists>d \<in> set targets. d_id d = j \<and> d_device_class d \<noteq> ''server'')"

lemma refresh_ok_open:
  assumes "distinct (map d_id targets)" "refresh_ok targets F s" "i \<notin> F" "i < length targets"
  shows "refresh_ok targets F (mark_refresh (d_id (targets ! i)) Refreshing s)"
proof -
  have ne: "d_id (targets ! j) = d_id (targets ! i) \<longleftrightarrow> j = i" if "j < length targets" for j
    using assms(1,4) that by (auto simp: distinct_conv_nth)
  have "progress s (d_id (targets ! i)) \<noteq> Some RefreshError"
    using assms(2-4) unfolding refresh_ok_def by fastforce
  then have "{j. j < length targets \<and> ((progress s)(d_id (targets ! i) \<mapsto> Refreshing)) (d_id (targets ! j)) = Some RefreshError} =
      {j. j < length targets \<and> progress s (d_id (targets ! j)) = Some RefreshError}"
    using ne by auto
  with assms(2,3) ne show ?thesis by (simp add: refresh_ok_def mark_refresh_def)
qed

lemma refresh_ok_done:
  assumes "distinct (map d_id targets)" "refresh_ok targets F s" "i \<notin> F" "i < length targets"
  shows "refresh_ok targets (insert i F) (mark_refresh (d_id (targets ! i)) RefreshOk s)"
    and "refresh_ok targets (insert i F) (refresh_failed (d_id (targets ! i)) s)"
proof -
  let ?bad = "\<lambda>g. {j. j < length targets \<and> g (d_id (targets ! j)) = Some RefreshError}"
  have ne: "d_id (targets ! j) = d_id (targets ! i) \<longleftrightarrow> j = i" if "j < length targets" for j
    using assms(1,4) that by (auto simp: distinct_conv_nth)
  have i: "progress s (d_id (targets ! i)) \<noteq> Some RefreshError"
    using assms(2-4) unfolding refresh_ok_def by fastforce
  have "?bad ((progress s)(d_id (targets ! i) \<mapsto> RefreshOk)) = ?bad (progress s)"
    using ne i by auto
  with assms(2,3) ne show "refresh_ok targets (insert i F) (mark_refresh (d_id (targets ! i)) RefreshOk s)"
    by (simp add: refresh_ok_def mark_refresh_def)
  have "?bad ((progress s)(d_id (targets ! i) \<mapsto> RefreshError)) = insert i (?bad (progress s))"
    using ne assms(4) by auto
  moreover have "i \<notin> ?bad (progress s)" using i by simp
  ultimately have "card (?bad ((progress s)(d_id (targets ! i) \<mapsto> RefreshError))) = Suc (card (?bad (progress s)))"
    by simp
  with assms(2,3) ne show "refresh_ok targets (insert i F) (refresh_failed (d_id (targets ! i)) s)"
    by (simp add: refresh_ok_def refresh_failed_def mark_refresh_def)
qed

lemma refresh_ok_start:
  assumes "distinct (map d_id targets)"
  shows "refresh_ok targets {} (refresh_zero targets)"
proof -
  have "map_of (map (\<lambda>d. (d_id d, Queued)) targets) (d_id (targets ! i)) = Some Queued" if "i < length targets" for i
  proof -
    have "map fst (map (\<lambda>d. (d_id d, Queued)) targets) = map d_id targets" by simp
    moreover have "(d_id (targets ! i), Queued) \<in> set (map (\<lambda>d. (d_id d, Queued)) targets)" using that by auto
    ultimately show ?thesis using assms by (metis map_of_is_SomeI)
  qed
  then show ?thesis by (auto simp: refresh_ok_def)
qed

lemma refresh_task_resume:
  assumes "distinct (map d_id targets)" "refresh_ok targets F s" "i \<notin> F" "i < length targets"
    "refresh_task targets i w s (Some w') s'"
  shows "refresh_ok targets F s'"
  using assms(5)
proof (cases rule: refresh_task.cases)
  case enter
  then show ?thesis using refresh_ok_open [OF assms(1-4)] by simp
next
  case test_router
  then show ?thesis using assms(2,4) by (auto simp: refresh_ok_def)
qed

lemma refresh_task_return:
  assumes "distinct (map d_id targets)" "refresh_ok targets F s" "i \<notin> F" "i < length targets"
    "refresh_task targets i w s None s'"
  shows "refresh_ok targets (insert i F) s'"
  using assms(5) refresh_ok_done [OF assms(1-4)] by (cases rule: refresh_task.cases) auto

interpretation refreshes: pool_shared "length targets" 6 "\<lambda>_. AtEntry" "refresh_task targets"
  "refresh_zero targets" refresh_rank 2 "\<lambda>F s. distinct (map d_id targets) \<longrightarrow> refresh_ok targets F s"
  for targets
proof
  show "refresh_rank w' < refresh_rank w" if "refresh_task targets i w s (Some w') s'" for i w s w' s'
    using that by (auto elim: refresh_task.cases)
qed (use refresh_ok_start refresh_task_resume refresh_task_return in auto)

lemma refresh_progress:
  assumes "\<not> settled_pool p"
  shows "\<exists>q. refresh_step targets p q"
proof -
  from assms obtain k i w where k: "k < length (slots p)" "slots p ! k = Some (i, w)"
    by (auto simp: settled_pool_def in_set_conv_nth)
  have "\<exists>x s'. refresh_task targets i w (shared p) x s'"
    by (cases w) (auto intro: refresh_task.intros)
  then obtain x s' where t: "refresh_task targets i w (shared p) x s'" by blast
  show ?thesis
  proof (cases x)
    case None
    with return [where ts = "refresh_task targets", OF k] t show ?thesis by blast
  next
    case (Some w')
    with resume [where ts = "refresh_task targets", OF k] t show ?thesis by blast
  qed
qed

lemma refresh_gauge_start: "pool_gauge (length targets) refresh_rank 2 (updateAll targets) = 3 * length targets"
proof -
  have "sum_list (map (slot_gauge refresh_rank \<circ> (\<lambda>k. Some (k, AtEntry))) [0..<m]) = 3 * m" for m :: nat
    by (induction m) (simp_all add: slot_gauge_def)
  then show ?thesis by (simp add: pool_gauge_def updateAll_def runPool_closed min_def) arith
qed

text \<open>
  C16. Refreshing the fleet ends, with at most six devices contacted at a time. When it has,
  each enabled device is marked as refreshed or as failed, the number of failures announced
  is the number of devices so marked, and no server was asked for firmware.
\<close>

theorem update_all_settles:
  assumes "distinct (map d_id targets)" "((refresh_step targets) ^^ k) (updateAll targets) p"
  shows "k \<le> 3 * length targets \<and> card (in_flight p) \<le> 6 \<and>
    (\<forall>j \<in> set (fw_asked (shared p)). \<exists>d \<in> set targets. d_id d = j \<and> d_device_class d \<noteq> ''server'') \<and>
    (if settled_pool p
     then (\<forall>d \<in> set targets. progress (shared p) (d_id d) \<in> {Some RefreshOk, Some RefreshError}) \<and>
       snd (update_summary targets (shared p)) =
         length (filter (\<lambda>d. progress (shared p) (d_id d) = Some RefreshError) targets)
     else \<exists>q. refresh_step targets p q)"
proof -
  have "pool_inv (length targets) 6 (updateAll targets)" by (simp add: updateAll_def pool_inv_start)
  then have bound: "k \<le> 3 * length targets"
    using refreshes.run_length [OF _ assms(2)] unfolding refresh_gauge_start by simp
  have "(refresh_step targets)\<^sup>*\<^sup>* (updateAll targets) p" using assms(2) by (rule relpowp_imp_rtranclp)
  then have "pool_inv (length targets) 6 p \<and>
      (distinct (map d_id targets) \<longrightarrow> refresh_ok targets (set (finished p)) (shared p))"
    using refreshes.watched.run_inv [OF refreshes.watched.init_inv [OF refl]]
    unfolding updateAll_def by blast
  then have inv: "pool_inv (length targets) 6 p" and ok: "refresh_ok targets (set (finished p)) (shared p)"
    using assms(1) by auto
  have "(\<forall>d \<in> set targets. progress (shared p) (d_id d) \<in> {Some RefreshOk, Some RefreshError}) \<and>
      snd (update_summary targets (shared p)) =
        length (filter (\<lambda>d. progress (shared p) (d_id d) = Some RefreshError) targets)" if "settled_pool p"
  proof -
    have "set (finished p) = {..<length targets}" using refreshes.settled_complete [OF _ inv that] by auto
    with ok have "\<forall>i < length targets. progress (shared p) (d_id (targets ! i)) \<in> {Some RefreshOk, Some RefreshError}"
      by (simp add: refresh_ok_def)
    then show ?thesis using ok
      by (auto simp: refresh_ok_def update_summary_def length_filter_conv_card in_set_conv_nth)
  qed
  moreover have "\<forall>j \<in> set (fw_asked (shared p)). \<exists>d \<in> set targets. d_id d = j \<and> d_device_class d \<noteq> ''server''"
    using ok by (simp add: refresh_ok_def)
  ultimately show ?thesis using bound refresh_progress refreshes.in_flight_bound [OF inv] by auto
qed

theorem update_all_settles_witness:
  "(0::nat) \<le> 3 * length [demo_device] \<and> card (in_flight (updateAll [demo_device])) \<le> 6"
  using update_all_settles [of "[demo_device]" 0 "updateAll [demo_device]"] by simp

end
