(* ===== verification/Ufw_Form.thy ===== *)
theory Ufw_Form
  imports Firewall_Api Format
begin

text \<open>
  The rule form of \<open>components/ufw-firewall.tsx\<close>: how an existing rule is loaded into its
  fields, the payload the fields make, and which call submitting makes. The countdown of a
  pending change is here too.
\<close>

section \<open>The form\<close>

record UfwRule =
  ur_action :: string
  ur_direction :: string
  ur_destination :: string
  ur_source :: string
  ur_ip_version :: string
  ur_position :: "rat option"
  ur_position_v6 :: "rat option"
  ur_interface :: "string option"
  ur_app :: "string option"
  ur_comment :: "string option"
  ur_spec :: "string option"

definition is_anywhere :: "string \<Rightarrow> bool" where
  "is_anywhere v \<longleftrightarrow> v = [] \<or> toLowerCase v = ''anywhere''"

text \<open>\<open>const [port, proto] = value.split("/")\<close>: further parts are dropped.\<close>

definition splitDestination :: "string option \<Rightarrow> string \<times> string" where
  "splitDestination destination =
     (let v = trim (case destination of None \<Rightarrow> [] | Some d \<Rightarrow> d)
      in if is_anywhere v then ([], [])
         else (case split CHR ''/'' v of
             port # proto # _ \<Rightarrow> (port, if proto = ''tcp'' \<or> proto = ''udp'' then proto else [])
           | ps \<Rightarrow> (concat ps, [])))"

definition anywhereToBlank :: "string option \<Rightarrow> string" where
  "anywhereToBlank source =
     (let v = trim (case source of None \<Rightarrow> [] | Some d \<Rightarrow> d) in if is_anywhere v then [] else v)"

record rule_form =
  editing :: "UfwRule option"
  f_action :: string
  f_direction :: string
  f_port :: string
  f_protocol :: string
  f_fromAddress :: string
  f_toAddress :: string
  f_iface :: string
  f_comment :: string
  f_position :: string

definition or_empty :: "string option \<Rightarrow> string" where
  "or_empty x = (case x of None \<Rightarrow> [] | Some s \<Rightarrow> s)"

text \<open>The initial field values; \<open>String(n)\<close> is the field \<open>numstr\<close> of the environment.\<close>

definition open_form :: "env \<Rightarrow> UfwRule option \<Rightarrow> rule_form" where
  "open_form E r =
     (let i = splitDestination (map_option ur_destination r)
      in \<lparr>editing = r,
          f_action = (case r of None \<Rightarrow> ''allow'' | Some u \<Rightarrow> ur_action u),
          f_direction = (case r of None \<Rightarrow> ''in'' | Some u \<Rightarrow> ur_direction u),
          f_port = fst i, f_protocol = snd i,
          f_fromAddress = anywhereToBlank (map_option ur_source r),
          f_toAddress = [],
          f_iface = or_empty (Option.bind r ur_interface),
          f_comment = or_empty (Option.bind r ur_comment),
          f_position = (case Option.bind r ur_position of
             None \<Rightarrow> [] | Some p \<Rightarrow> if p = 0 then [] else numstr E p)\<rparr>)"

definition trim_or_null :: "string \<Rightarrow> string jopt" where
  "trim_or_null s = of_nullable (or_null (trim s))"

text \<open>\<open>num\<close> is the language's \<open>Number\<close>; None is NaN, which JSON writes as null.\<close>

definition body :: "(string \<Rightarrow> rat option) \<Rightarrow> rule_form \<Rightarrow> UfwRuleCreate" where
  "body num f =
     \<lparr>urc_action = f_action f, urc_direction = f_direction f,
      urc_from_address = trim_or_null (f_fromAddress f),
      urc_to_address = trim_or_null (f_toAddress f),
      urc_port = trim_or_null (f_port f),
      urc_protocol = of_nullable (or_null (f_protocol f)),
      urc_interface = trim_or_null (f_iface f),
      urc_comment = trim_or_null (f_comment f),
      urc_position = (if trim (f_position f) = [] then Null else of_nullable (num (f_position f)))\<rparr>"

definition submit_rule :: "env \<Rightarrow> (string \<Rightarrow> rat option) \<Rightarrow> string \<Rightarrow> rule_form \<Rightarrow> json call" where
  "submit_rule E num deviceId f =
     (case Option.bind (editing f) ur_spec of
        Some (c # spec) \<Rightarrow> editUfwRule E deviceId (c # spec) (body num f) False
      | _ \<Rightarrow> createUfwRule E deviceId (body num f))"

section \<open>The countdown of a pending change\<close>

definition secondsLeft :: "int \<Rightarrow> int \<Rightarrow> int" where
  "secondsLeft now expires = max 0 (Math_round (of_int (expires - now) / 1000))"

definition formatLeft :: "int \<Rightarrow> string" where
  "formatLeft seconds =
     (if seconds < 60 then show_int seconds @ ''s''
      else show_int (seconds div 60) @ ''m '' @ show_int (seconds mod 60) @ ''s'')"

section \<open>Loading and saving\<close>

lemma trim_id:
  assumes "s = [] \<or> \<not> is_ws (hd s)" "s = [] \<or> \<not> is_ws (last s)"
  shows "trim s = s"
  using assms by (simp add: trim_def trimStart_id trimEnd_id)

lemma lower_slash: "CHR ''/'' \<in> set v \<Longrightarrow> CHR ''/'' \<in> set (toLowerCase v)"
  by (force simp: toLowerCase_def lower_char_def image_iff)

lemma slash_not_anywhere: "CHR ''/'' \<in> set v \<Longrightarrow> \<not> is_anywhere v"
  using lower_slash [of v] by (auto simp: is_anywhere_def)

lemma splitDestination_slash:
  assumes "port \<noteq> []" "trim port = port" "CHR ''/'' \<notin> set port" "proto \<noteq> []" "trim proto = proto"
    "CHR ''/'' \<notin> set proto"
  shows "splitDestination (Some (port @ ''/'' @ proto)) =
    (port, if proto = ''tcp'' \<or> proto = ''udp'' then proto else [])"
proof -
  have "trim (port @ ''/'' @ proto) = port @ ''/'' @ proto"
    using assms hd_trim [of port] last_trim [of proto] by (intro trim_id) auto
  moreover have "\<not> is_anywhere (port @ ''/'' @ proto)" by (rule slash_not_anywhere) simp
  ultimately show ?thesis
    using assms(3,6) by (simp add: splitDestination_def Let_def split_append_sep split_no_sep)
qed

text \<open>Opening a rule for editing and saving it at once.\<close>

text \<open>
  Saving a rule that was opened for editing and not touched asks for the same rule: the
  port and protocol of its destination, its source, interface, comment and position.
\<close>

theorem ufw_edit_roundtrip:
  assumes "ur_destination r = port @ ''/'' @ proto" "proto = ''tcp'' \<or> proto = ''udp''"
    and "port \<noteq> []" "trim port = port" "CHR ''/'' \<notin> set port"
    and "ur_interface r = map_option trim (ur_interface r)" "ur_comment r = map_option trim (ur_comment r)"
    and "ur_position r = Some p" "p \<noteq> 0" "num (numstr E p) = Some p" "trim (numstr E p) \<noteq> []"
  shows "body num (open_form E (Some r)) =
    \<lparr>urc_action = ur_action r, urc_direction = ur_direction r,
     urc_from_address = (if is_anywhere (trim (ur_source r)) then Null else Val (trim (ur_source r))),
     urc_to_address = Null, urc_port = Val port, urc_protocol = Val proto,
     urc_interface = of_nullable (Option.bind (ur_interface r) or_null),
     urc_comment = of_nullable (Option.bind (ur_comment r) or_null),
     urc_position = Val p\<rparr>"
proof -
  have "trim proto = proto" "proto \<noteq> []" "CHR ''/'' \<notin> set proto"
    using assms(2) by (auto simp: trim_id is_ws_def)
  then have d: "splitDestination (Some (ur_destination r)) = (port, proto)"
    using splitDestination_slash [OF assms(3-5)] assms(1,2) by auto
  have o: "trim_or_null (or_empty x) = of_nullable (Option.bind x or_null)" if "x = map_option trim x" for x
  proof (cases x)
    case (Some y)
    with that have "trim y = y" by simp
    with Some show ?thesis by (simp add: trim_or_null_def or_empty_def)
  qed (simp add: trim_or_null_def or_empty_def or_null_def trim_id)
  have f: "trim_or_null (anywhereToBlank (Some x)) = (if is_anywhere (trim x) then Null else Val (trim x))" for x
    by (auto simp: trim_or_null_def anywhereToBlank_def Let_def or_null_def is_anywhere_def trim_id)
  show ?thesis
    using assms(3,4,8-11) o [OF assms(6)] o [OF assms(7)] \<open>proto \<noteq> []\<close>
    by (simp add: body_def open_form_def Let_def d f) (simp add: trim_or_null_def or_null_def trim_id)
qed

text \<open>
  A rule that opens a network on this host rather than a port (the \<open>To\<close> column of ufw
  then holds an address) is not loaded right: the address goes into the port field, its
  prefix length is dropped, and saving asks for a rule for the port \<open>10.0.0.0\<close> to any
  destination.
\<close>

theorem ufw_edit_loses_address:
  "urc_port (body num (open_form E (Some (r\<lparr>ur_destination := ''10.0.0.0/8''\<rparr>)))) = Val ''10.0.0.0'' \<and>
   urc_protocol (body num (open_form E (Some (r\<lparr>ur_destination := ''10.0.0.0/8''\<rparr>)))) = Null \<and>
   urc_to_address (body num (open_form E (Some (r\<lparr>ur_destination := ''10.0.0.0/8''\<rparr>)))) = Null"
proof -
  have "trim ''10.0.0.0'' = ''10.0.0.0''" "trim ''8'' = ''8''" by (simp_all add: trim_id is_ws_def)
  with splitDestination_slash [of "''10.0.0.0''" "''8''"] show ?thesis
    by (simp add: body_def open_form_def Let_def trim_or_null_def or_null_def trim_id)
qed

definition demo_rule :: UfwRule where
  "demo_rule = \<lparr>ur_action = ''allow'', ur_direction = ''in'', ur_destination = ''22/tcp'', ur_source = ''Anywhere'',
     ur_ip_version = ''both'', ur_position = Some 3, ur_position_v6 = None, ur_interface = None, ur_app = None,
     ur_comment = None, ur_spec = Some ''ufw allow 22/tcp''\<rparr>"

theorem ufw_edit_roundtrip_witness:
  "\<exists>E. urc_port (body (\<lambda>s. Some (of_nat (read_nat s))) (open_form E (Some demo_rule))) = Val ''22'' \<and>
    urc_position (body (\<lambda>s. Some (of_nat (read_nat s))) (open_form E (Some demo_rule))) = Val 3"
proof -
  obtain E :: env where E: "numstr E = (\<lambda>n. show_nat (nat (floor n)))"
    by (metis env.select_convs(6))
  have "trim (show_nat 3) \<noteq> []" by (simp add: show_nat.simps digit_def trim_id is_ws_def)
  with ufw_edit_roundtrip [of demo_rule "''22''" "''tcp''" 3 "\<lambda>s. Some (of_nat (read_nat s))" E] show ?thesis
    by (intro exI [of _ E]) (simp add: demo_rule_def E trim_id is_ws_def)
qed

end
