(* ===== verification/Ufw_Screen.thy ===== *)
theory Ufw_Screen
  imports Ufw_Form
begin

text \<open>
  The firewall screen of a Linux host, \<open>components/ufw-firewall.tsx\<close>: the rule table, the rules
  held off the host, the rule form, and the dialog that turns the firewall on after a
  pre-flight check. The screen is a step relation over its state and a history of what it
  read and requested; which answer arrives when is left open.
\<close>

section \<open>Answers of the server\<close>

record UfwDisabledRule =
  ud_id :: string
  ud_spec :: string
  ud_position :: "rat option"
  ud_disabled_at :: string
  ud_action :: string
  ud_direction :: string
  ud_destination :: string
  ud_source :: string
  ud_interface :: "string option"
  ud_comment :: "string option"

record UfwStatus =
  ufw_installed :: bool
  ufw_active :: bool
  ufw_logging :: "string option"
  ufw_default_incoming :: "string option"
  ufw_default_outgoing :: "string option"
  ufw_default_routed :: "string option"
  ufw_rules :: "UfwRule list"
  ufw_app_profiles :: "string list"
  ufw_rules_from_added :: bool
  ufw_disabled_rules :: "UfwDisabledRule list"

record UfwSuggestedRule =
  sg_action :: string
  sg_direction :: string
  sg_port :: "string option"
  sg_protocol :: "string option"
  sg_from_address :: "string option"
  sg_comment :: "string option"

record UfwEnablePreflight =
  pf_already_active :: bool
  pf_management_address :: "string option"
  pf_management_port :: "rat option"
  pf_default_incoming :: "string option"
  pf_covered :: bool
  pf_covering_rule_spec :: "string option"
  pf_covering_rule_summary :: "string option"
  pf_suggested_rule :: "UfwSuggestedRule option"

definition canPrefill :: "UfwEnablePreflight \<Rightarrow> bool" where
  "canPrefill p \<longleftrightarrow> pf_suggested_rule p \<noteq> None"

section \<open>Requests\<close>

datatype ufw_call =
    DeleteRule string bool
  | MoveRule string rat
  | DisableRule string
  | EnableRule string
  | EditRule string
  | CreateRule
  | SetEnabled bool bool bool

text \<open>The call a mutation of the screen makes; the form's payload is \<open>rule\<close>.\<close>

fun perform :: "env \<Rightarrow> string \<Rightarrow> UfwRuleCreate \<Rightarrow> ufw_call \<Rightarrow> json call" where
  "perform E dev rule (DeleteRule spec force) = deleteUfwRule E dev spec force"
| "perform E dev rule (MoveRule spec pos) = moveUfwRule E dev spec pos False"
| "perform E dev rule (DisableRule spec) = disableUfwRule E dev spec False"
| "perform E dev rule (EnableRule i) = enableUfwRule E dev i False"
| "perform E dev rule (EditRule spec) = editUfwRule E dev spec rule False"
| "perform E dev rule CreateRule = createUfwRule E dev rule"
| "perform E dev rule (SetEnabled en allowManagement force) =
     setUfwEnabled E dev en (if en then Some allowManagement else None) (if en then Some force else None)"

datatype ufw_event =
    StatusRead UfwStatus
  | PreflightRead UfwEnablePreflight
  | DialogOpened
  | DialogClosed
  | AckSet bool
  | Requested ufw_call

record ufw_screen =
  us_data :: "UfwStatus option"
  us_showForm :: bool
  us_editing :: "UfwRule option"
  us_showEnable :: bool
  us_acknowledged :: bool
  us_pre :: "UfwEnablePreflight option"
  us_removing :: bool
  us_moving :: bool
  us_toggling :: bool
  us_turningOff :: bool
  us_turningOn :: bool
  us_underway :: nat
  us_saving :: bool
  us_history :: "ufw_event list"

text \<open>
  \<open>us_pre\<close> is the cached answer of the pre-flight query: it outlives the dialog.
  \<open>us_turningOn\<close> is \<open>enable.isPending\<close> of the dialog on screen, \<open>us_underway\<close> counts the
  requests to turn the firewall on that have not been answered.
\<close>

definition record_event :: "ufw_event \<Rightarrow> ufw_screen \<Rightarrow> ufw_screen" where
  "record_event e s = s\<lparr>us_history := us_history s @ [e]\<rparr>"

section \<open>The rule table\<close>

text \<open>Only rules that ufw numbered can be moved, and not past the first or the last of them.\<close>

definition ordered :: "UfwStatus \<Rightarrow> UfwRule list" where
  "ordered d = filter (\<lambda>r. ur_position r \<noteq> None) (ufw_rules d)"

definition firstPos :: "UfwStatus \<Rightarrow> rat option" where
  "firstPos d = (case ordered d of [] \<Rightarrow> None | r # _ \<Rightarrow> ur_position r)"

definition lastPos :: "UfwStatus \<Rightarrow> rat option" where
  "lastPos d = (if ordered d = [] then None else ur_position (last (ordered d)))"

definition table_busy :: "ufw_screen \<Rightarrow> bool" where
  "table_busy s \<longleftrightarrow> us_removing s \<or> us_moving s \<or> us_toggling s"

text \<open>A rule on screen with its specification, the handle of every action on it.\<close>

definition row :: "ufw_screen \<Rightarrow> UfwRule \<Rightarrow> string \<Rightarrow> bool" where
  "row s r spec \<longleftrightarrow> (\<exists>d. us_data s = Some d \<and> ufw_installed d \<and> r \<in> set (ufw_rules d)) \<and>
     ur_spec r = Some spec \<and> spec \<noteq> []"

definition can_move :: "UfwStatus \<Rightarrow> rat option \<Rightarrow> rat \<Rightarrow> bool" where
  "can_move d pos delta \<longleftrightarrow> pos \<noteq> None \<and>
     (delta = -1 \<and> pos \<noteq> firstPos d \<or> delta = 1 \<and> pos \<noteq> lastPos d)"

section \<open>Steps\<close>

inductive ufw_step :: "ufw_screen \<Rightarrow> ufw_screen \<Rightarrow> bool" where
  read_status: "ufw_step s (record_event (StatusRead d) (s\<lparr>us_data := Some d\<rparr>))"
| read_preflight: "ufw_step s (record_event (PreflightRead p) (s\<lparr>us_pre := Some p\<rparr>))"
| open_dialog: "us_data s = Some d \<Longrightarrow> ufw_installed d \<Longrightarrow> \<not> ufw_active d \<Longrightarrow> \<not> us_showEnable s \<Longrightarrow>
    ufw_step s (record_event DialogOpened
      (s\<lparr>us_showEnable := True, us_acknowledged := False, us_turningOn := False\<rparr>))"
| close_dialog: "us_showEnable s \<Longrightarrow> us_pre s \<noteq> None \<Longrightarrow>
    ufw_step s (record_event DialogClosed (s\<lparr>us_showEnable := False\<rparr>))"
| set_ack: "us_showEnable s \<Longrightarrow> us_pre s = Some p \<Longrightarrow> \<not> pf_covered p \<Longrightarrow>
    ufw_step s (record_event (AckSet b) (s\<lparr>us_acknowledged := b\<rparr>))"
| enable_covered: "us_showEnable s \<Longrightarrow> us_pre s = Some p \<Longrightarrow> pf_covered p \<Longrightarrow> \<not> us_turningOn s \<Longrightarrow>
    ufw_step s (record_event (Requested (SetEnabled True False False))
      (s\<lparr>us_turningOn := True, us_underway := us_underway s + 1\<rparr>))"
| enable_allow: "us_showEnable s \<Longrightarrow> us_pre s = Some p \<Longrightarrow> \<not> pf_covered p \<Longrightarrow> canPrefill p \<Longrightarrow>
    \<not> us_turningOn s \<Longrightarrow>
    ufw_step s (record_event (Requested (SetEnabled True True False))
      (s\<lparr>us_turningOn := True, us_underway := us_underway s + 1\<rparr>))"
| enable_forced: "us_showEnable s \<Longrightarrow> us_pre s = Some p \<Longrightarrow> \<not> pf_covered p \<Longrightarrow> us_acknowledged s \<Longrightarrow>
    \<not> us_turningOn s \<Longrightarrow>
    ufw_step s (record_event (Requested (SetEnabled True False True))
      (s\<lparr>us_turningOn := True, us_underway := us_underway s + 1\<rparr>))"
| enable_ok: "us_underway s > 0 \<Longrightarrow>
    ufw_step s (record_event DialogClosed
      (s\<lparr>us_showEnable := False, us_turningOn := False, us_underway := us_underway s - 1\<rparr>))"
| enable_error: "us_underway s > 0 \<Longrightarrow> us_turningOn s \<Longrightarrow>
    ufw_step s (s\<lparr>us_turningOn := False, us_underway := us_underway s - 1\<rparr>)"
| enable_error_late: "us_underway s > (if us_turningOn s then 1 else 0) \<Longrightarrow>
    ufw_step s (s\<lparr>us_underway := us_underway s - 1\<rparr>)"
| turn_off: "us_data s = Some d \<Longrightarrow> ufw_installed d \<Longrightarrow> ufw_active d \<Longrightarrow> \<not> us_turningOff s \<Longrightarrow>
    ufw_step s (record_event (Requested (SetEnabled False False False)) (s\<lparr>us_turningOff := True\<rparr>))"
| move_rule: "row s r spec \<Longrightarrow> us_data s = Some d \<Longrightarrow> \<not> table_busy s \<Longrightarrow> can_move d (ur_position r) delta \<Longrightarrow>
    ufw_step s (record_event (Requested (MoveRule spec (the (ur_position r) + delta))) (s\<lparr>us_moving := True\<rparr>))"
| delete_rule: "row s r spec \<Longrightarrow> \<not> table_busy s \<Longrightarrow>
    ufw_step s (record_event (Requested (DeleteRule spec False)) (s\<lparr>us_removing := True\<rparr>))"
| disable_rule: "row s r spec \<Longrightarrow> \<not> table_busy s \<Longrightarrow>
    ufw_step s (record_event (Requested (DisableRule spec)) (s\<lparr>us_toggling := True\<rparr>))"
| enable_rule: "us_data s = Some d \<Longrightarrow> ufw_installed d \<Longrightarrow> q \<in> set (ufw_disabled_rules d) \<Longrightarrow> \<not> us_toggling s \<Longrightarrow>
    ufw_step s (record_event (Requested (EnableRule (ud_id q))) (s\<lparr>us_toggling := True\<rparr>))"
| settle_table: "ufw_step s (s\<lparr>us_removing := a \<and> us_removing s, us_moving := b \<and> us_moving s,
      us_toggling := c \<and> us_toggling s, us_turningOff := e \<and> us_turningOff s\<rparr>)"
| edit_rule: "row s r spec \<Longrightarrow> \<not> table_busy s \<Longrightarrow>
    ufw_step s (s\<lparr>us_showForm := False, us_editing := Some r, us_saving := False\<rparr>)"
| toggle_form: "us_data s = Some d \<Longrightarrow> ufw_installed d \<Longrightarrow>
    ufw_step s (s\<lparr>us_editing := None, us_showForm := \<not> us_showForm s, us_saving := False\<rparr>)"
| save_edit: "us_editing s = Some r \<Longrightarrow> ur_spec r = Some spec \<Longrightarrow> spec \<noteq> [] \<Longrightarrow> \<not> us_saving s \<Longrightarrow>
    ufw_step s (record_event (Requested (EditRule spec)) (s\<lparr>us_saving := True\<rparr>))"
| save_new: "us_editing s = None \<Longrightarrow> us_showForm s \<Longrightarrow> \<not> us_saving s \<Longrightarrow>
    ufw_step s (record_event (Requested CreateRule) (s\<lparr>us_saving := True\<rparr>))"
| save_ok: "ufw_step s (s\<lparr>us_showForm := False, us_editing := None, us_saving := False\<rparr>)"
| save_error: "ufw_step s (s\<lparr>us_saving := False\<rparr>)"

definition ufw_init :: "ufw_screen \<Rightarrow> bool" where
  "ufw_init s \<longleftrightarrow> us_data s = None \<and> \<not> us_showForm s \<and> us_editing s = None \<and> \<not> us_showEnable s \<and>
     \<not> us_acknowledged s \<and> us_pre s = None \<and> us_underway s = 0 \<and> \<not> us_turningOn s \<and> us_history s = []"

section \<open>What a history says\<close>

text \<open>The last answers, and whether the operator's acknowledgement stands since the dialog opened.\<close>

definition last_status :: "ufw_event list \<Rightarrow> UfwStatus option" where
  "last_status h = fold (\<lambda>e x. case e of StatusRead d \<Rightarrow> Some d | _ \<Rightarrow> x) h None"

definition last_preflight :: "ufw_event list \<Rightarrow> UfwEnablePreflight option" where
  "last_preflight h = fold (\<lambda>e x. case e of PreflightRead p \<Rightarrow> Some p | _ \<Rightarrow> x) h None"

definition ack_stands :: "ufw_event list \<Rightarrow> bool" where
  "ack_stands h = fold (\<lambda>e x. case e of AckSet b \<Rightarrow> b | DialogOpened \<Rightarrow> False | _ \<Rightarrow> x) h False"

definition seen_spec :: "ufw_event list \<Rightarrow> string \<Rightarrow> bool" where
  "seen_spec h spec \<longleftrightarrow> (\<exists>d r. StatusRead d \<in> set h \<and> r \<in> set (ufw_rules d) \<and> ur_spec r = Some spec)"

definition listed_spec :: "ufw_event list \<Rightarrow> string \<Rightarrow> bool" where
  "listed_spec h spec \<longleftrightarrow> (\<exists>d r. last_status h = Some d \<and> r \<in> set (ufw_rules d) \<and> ur_spec r = Some spec)"

text \<open>What justifies a request.\<close>

fun justified :: "ufw_event list \<Rightarrow> ufw_call \<Rightarrow> bool" where
  "justified h (DeleteRule spec force) \<longleftrightarrow> \<not> force \<and> listed_spec h spec"
| "justified h (MoveRule spec n) \<longleftrightarrow>
     (\<exists>d r pos. last_status h = Some d \<and> r \<in> set (ufw_rules d) \<and> ur_spec r = Some spec \<and>
        ur_position r = Some pos \<and> can_move d (Some pos) (n - pos))"
| "justified h (DisableRule spec) \<longleftrightarrow> listed_spec h spec"
| "justified h (EnableRule i) \<longleftrightarrow> (\<exists>d. last_status h = Some d \<and> i \<in> ud_id ` set (ufw_disabled_rules d))"
| "justified h (EditRule spec) \<longleftrightarrow> seen_spec h spec"
| "justified h CreateRule \<longleftrightarrow> True"
| "justified h (SetEnabled en allow force) \<longleftrightarrow>
     (if en
      then \<exists>p. last_preflight h = Some p \<and>
        (if force then \<not> allow \<and> \<not> pf_covered p \<and> ack_stands h
         else if allow then \<not> pf_covered p \<and> pf_suggested_rule p \<noteq> None
         else pf_covered p)
      else \<exists>d. last_status h = Some d \<and> ufw_active d)"

definition request_justified :: "ufw_event list \<Rightarrow> ufw_event \<Rightarrow> bool" where
  "request_justified h e = (case e of Requested c \<Rightarrow> justified h c | _ \<Rightarrow> True)"

definition ufw_inv :: "ufw_screen \<Rightarrow> bool" where
  "ufw_inv s \<longleftrightarrow> us_data s = last_status (us_history s) \<and> us_pre s = last_preflight (us_history s) \<and>
     (us_showEnable s \<longrightarrow> us_acknowledged s = ack_stands (us_history s)) \<and>
     (\<forall>r spec. us_editing s = Some r \<and> ur_spec r = Some spec \<longrightarrow> seen_spec (us_history s) spec) \<and>
     with_past request_justified (us_history s)"

lemma history_snoc [simp]:
  "last_status (h @ [e]) = (case e of StatusRead d \<Rightarrow> Some d | _ \<Rightarrow> last_status h)"
  "last_preflight (h @ [e]) = (case e of PreflightRead p \<Rightarrow> Some p | _ \<Rightarrow> last_preflight h)"
  "ack_stands (h @ [e]) = (case e of AckSet b \<Rightarrow> b | DialogOpened \<Rightarrow> False | _ \<Rightarrow> ack_stands h)"
  by (simp_all add: last_status_def last_preflight_def ack_stands_def split: ufw_event.split)

lemma seen_snoc: "seen_spec h spec \<Longrightarrow> seen_spec (h @ [e]) spec"
  unfolding seen_spec_def by auto

lemma last_status_seen: "last_status h = Some d \<Longrightarrow> StatusRead d \<in> set h"
proof (induction h rule: rev_induct)
  case Nil
  then show ?case by (simp add: last_status_def)
next
  case (snoc e h)
  then show ?case by (cases e) auto
qed

lemma listed_seen: "listed_spec h spec \<Longrightarrow> seen_spec h spec"
  unfolding listed_spec_def seen_spec_def using last_status_seen by blast

lemma row_listed:
  assumes "ufw_inv s" "row s r spec"
  shows "listed_spec (us_history s) spec"
  using assms unfolding ufw_inv_def row_def listed_spec_def by metis

text \<open>A step that only records an event, and one that records none.\<close>

lemma ufw_inv_record:
  assumes "ufw_inv s" "request_justified (us_history s) e"
    "us_data t = last_status (us_history s @ [e])" "us_pre t = last_preflight (us_history s @ [e])"
    "us_showEnable t \<longrightarrow> us_acknowledged t = ack_stands (us_history s @ [e])"
    "us_editing t = us_editing s" "us_history t = us_history s"
  shows "ufw_inv (record_event e t)"
  using assms seen_snoc unfolding ufw_inv_def record_event_def by auto

lemma ufw_inv_silent:
  assumes "ufw_inv s" "us_data t = us_data s" "us_pre t = us_pre s" "us_showEnable t = us_showEnable s"
    "us_acknowledged t = us_acknowledged s" "us_history t = us_history s"
    "\<forall>r spec. us_editing t = Some r \<and> ur_spec r = Some spec \<longrightarrow> seen_spec (us_history s) spec"
  shows "ufw_inv t"
  using assms unfolding ufw_inv_def by simp

lemma row_seen: "ufw_inv s \<Longrightarrow> row s r spec \<Longrightarrow> seen_spec (us_history s) spec"
  by (blast intro: listed_seen row_listed)

lemma ufw_inv_move:
  assumes "ufw_inv s" "row s r spec" "us_data s = Some d" "can_move d (ur_position r) delta"
  shows "justified (us_history s) (MoveRule spec (the (ur_position r) + delta))"
proof -
  obtain pos where p: "ur_position r = Some pos" using assms(4) by (auto simp: can_move_def)
  have "last_status (us_history s) = Some d" using assms(1,3) by (simp add: ufw_inv_def)
  moreover have "r \<in> set (ufw_rules d)" "ur_spec r = Some spec" using assms(2,3) by (auto simp: row_def)
  ultimately show ?thesis using assms(4) p by auto
qed

lemma ufw_inv_request:
  assumes "ufw_inv s" "justified (us_history s) c" "us_data t = us_data s" "us_pre t = us_pre s"
    "us_showEnable t = us_showEnable s" "us_acknowledged t = us_acknowledged s"
    "us_editing t = us_editing s" "us_history t = us_history s"
  shows "ufw_inv (record_event (Requested c) t)"
  using assms(1) by (intro ufw_inv_record [OF assms(1)]) (simp_all add: assms(2-8) ufw_inv_def request_justified_def)

lemma ufw_invD:
  assumes "ufw_inv s"
  shows "last_status (us_history s) = us_data s" "last_preflight (us_history s) = us_pre s"
    "us_showEnable s \<Longrightarrow> ack_stands (us_history s) = us_acknowledged s"
    "us_editing s = Some r \<Longrightarrow> ur_spec r = Some spec \<Longrightarrow> seen_spec (us_history s) spec"
  using assms unfolding ufw_inv_def by auto

lemma ufw_inv_step:
  assumes "ufw_inv s" "ufw_step s t"
  shows "ufw_inv t"
  using assms(2,1)
proof (induction rule: ufw_step.induct)
  case (move_rule s r spec d delta)
  from ufw_inv_request [OF move_rule(5) ufw_inv_move [OF move_rule(5,1,2,4)]] show ?case by simp
next
  case (delete_rule s r spec)
  then show ?case by (intro ufw_inv_request [of s]) (simp_all add: row_listed)
next
  case (disable_rule s r spec)
  then show ?case by (intro ufw_inv_request [of s]) (simp_all add: row_listed)
next
  case (save_edit s r spec)
  then show ?case by (intro ufw_inv_request [of s]) (simp_all add: ufw_invD(4))
next
  case (save_new s)
  then show ?case by (intro ufw_inv_request [of s]) simp_all
next
  case (enable_rule s d q)
  then show ?case by (intro ufw_inv_request [of s]) (simp_all add: ufw_invD(1))
next
  case (turn_off s d)
  then show ?case by (intro ufw_inv_request [of s]) (simp_all add: ufw_invD(1))
next
  case (enable_covered s p)
  then show ?case by (intro ufw_inv_request [of s]) (simp_all add: ufw_invD(2))
next
  case (enable_allow s p)
  then show ?case by (intro ufw_inv_request [of s]) (simp_all add: ufw_invD(2) canPrefill_def)
next
  case (enable_forced s p)
  then show ?case by (intro ufw_inv_request [of s]) (simp_all add: ufw_invD(2,3))
next
  case (edit_rule s r spec)
  show ?case
    by (rule ufw_inv_silent [OF edit_rule(3)])
      (use row_seen [OF edit_rule(3,1)] edit_rule(1) in \<open>auto simp: row_def\<close>)
next
  case (read_status s d)
  then show ?case
    by (intro ufw_inv_record [OF read_status]) (simp_all add: ufw_invD request_justified_def)
next
  case (read_preflight s p)
  then show ?case
    by (intro ufw_inv_record [OF read_preflight]) (simp_all add: ufw_invD request_justified_def)
next
  case (open_dialog s d)
  then show ?case
    by (intro ufw_inv_record [OF open_dialog(5)]) (simp_all add: ufw_invD request_justified_def)
next
  case (close_dialog s)
  then show ?case
    by (intro ufw_inv_record [OF close_dialog(3)]) (simp_all add: ufw_invD request_justified_def)
next
  case (set_ack s p b)
  then show ?case
    by (intro ufw_inv_record [OF set_ack(4)]) (simp_all add: ufw_invD request_justified_def)
next
  case (enable_ok s)
  then show ?case
    by (intro ufw_inv_record [OF enable_ok(2)]) (simp_all add: ufw_invD request_justified_def)
qed (auto simp: ufw_inv_def)

interpretation ufw_sys: invariant_system ufw_init ufw_step ufw_inv
proof
  show "ufw_init s \<Longrightarrow> ufw_inv s" for s
    by (simp add: ufw_init_def ufw_inv_def last_status_def last_preflight_def)
qed (rule ufw_inv_step)

lemma request_grounded:
  assumes "reaches ufw_init ufw_step s" "us_history s = h1 @ Requested c # h2"
  shows "justified h1 c"
  using ufw_sys.reachable_inv [OF assms(1)] with_pastD [of request_justified h1 "Requested c" h2] assms(2)
  by (simp add: ufw_inv_def request_justified_def)


text \<open>A status whose numbered rules are in order, as \<open>ufw status numbered\<close> prints them.\<close>

definition numbered :: "UfwStatus \<Rightarrow> bool" where
  "numbered d \<longleftrightarrow> (\<exists>ks. map ur_position (ordered d) = map (\<lambda>k. Some (of_int k)) ks \<and> sorted_wrt (<) (ks :: int list))"

lemma sorted_hd_last:
  assumes "sorted_wrt (<) ks" "(k :: int) \<in> set ks"
  shows "hd ks \<le> k" "k \<le> last ks"
proof -
  show "hd ks \<le> k" using assms by (cases ks) auto
  show "k \<le> last ks" using assms
  proof (induction ks)
    case (Cons x ks)
    then show ?case using last_in_set [of ks] by fastforce
  qed simp
qed

lemma can_move_inside:
  assumes "numbered d" "r \<in> set (ufw_rules d)" "ur_position r = Some pos" "can_move d (Some pos) delta"
  shows "\<exists>f l. firstPos d = Some f \<and> lastPos d = Some l \<and> f \<le> pos + delta \<and> pos + delta \<le> l"
proof -
  obtain ks where ks: "map ur_position (ordered d) = map (\<lambda>k. Some (of_int k)) ks" "sorted_wrt (<) (ks :: int list)"
    using assms(1) unfolding numbered_def by blast
  have r: "r \<in> set (ordered d)" using assms(2,3) by (simp add: ordered_def)
  then have "Some pos \<in> set (map (\<lambda>k. Some (of_int k)) ks)" unfolding ks(1) [symmetric] using assms(3) by force
  then obtain k where k: "k \<in> set ks" "pos = of_int k" by auto
  have ne: "ks \<noteq> []" "ordered d \<noteq> []" using k(1) r by auto
  have "hd (map ur_position (ordered d)) = Some (of_int (hd ks))" "last (map ur_position (ordered d)) = Some (of_int (last ks))"
    unfolding ks(1) using ne by (simp_all add: hd_map last_map)
  then have fl: "firstPos d = Some (of_int (hd ks))" "lastPos d = Some (of_int (last ks))"
    using ne by (auto simp: firstPos_def lastPos_def hd_map last_map neq_Nil_conv)
  show ?thesis using sorted_hd_last [OF ks(2) k(1)] assms(4) fl k(2) by (auto simp: can_move_def)
qed

text \<open>
  C20. Every change of the rule table is aimed at a rule the screen has shown: a deletion, a
  switch-off or a move names the specification of a rule in the last status that was read,
  an edit that of a rule some status showed, and a rule is switched on again by the id of one
  that status held. Nothing is deleted by force. A move asks for a position between the
  first and the last numbered rule.
\<close>

theorem ufw_actions_grounded:
  assumes "reaches ufw_init ufw_step s" "us_history s = h1 @ Requested c # h2"
  shows "case c of
      DeleteRule spec force \<Rightarrow> \<not> force \<and> listed_spec h1 spec
    | DisableRule spec \<Rightarrow> listed_spec h1 spec
    | EditRule spec \<Rightarrow> seen_spec h1 spec
    | EnableRule i \<Rightarrow> \<exists>d q. last_status h1 = Some d \<and> q \<in> set (ufw_disabled_rules d) \<and> ud_id q = i
    | MoveRule spec n \<Rightarrow> \<exists>d. last_status h1 = Some d \<and> listed_spec h1 spec \<and>
        (if numbered d then \<exists>f l. firstPos d = Some f \<and> lastPos d = Some l \<and> f \<le> n \<and> n \<le> l else True)
    | SetEnabled en allow force \<Rightarrow> en \<or> (\<exists>d. last_status h1 = Some d \<and> ufw_active d)
    | CreateRule \<Rightarrow> True"
proof (cases c)
  case (MoveRule spec n)
  with request_grounded [OF assms] obtain d r pos where m: "last_status h1 = Some d" "r \<in> set (ufw_rules d)"
    "ur_spec r = Some spec" "ur_position r = Some pos" "can_move d (Some pos) (n - pos)" by auto
  with can_move_inside [OF _ m(2,4,5)] MoveRule show ?thesis by (auto simp: listed_spec_def)
qed (use request_grounded [OF assms] in \<open>auto split: if_splits\<close>)

section \<open>A stale pre-flight\<close>

definition demo_status :: "bool \<Rightarrow> UfwRule list \<Rightarrow> UfwStatus" where
  "demo_status act rs = \<lparr>ufw_installed = True, ufw_active = act, ufw_logging = None,
     ufw_default_incoming = Some ''deny'', ufw_default_outgoing = None, ufw_default_routed = None,
     ufw_rules = rs, ufw_app_profiles = [], ufw_rules_from_added = False, ufw_disabled_rules = []\<rparr>"

definition demo_preflight :: UfwEnablePreflight where
  "demo_preflight = \<lparr>pf_already_active = False, pf_management_address = Some ''10.0.0.9'',
     pf_management_port = Some 22, pf_default_incoming = Some ''deny'', pf_covered = True,
     pf_covering_rule_spec = Some ''ufw allow 22/tcp'', pf_covering_rule_summary = None,
     pf_suggested_rule = None\<rparr>"

definition blank_screen :: ufw_screen where
  "blank_screen = \<lparr>us_data = None, us_showForm = False, us_editing = None, us_showEnable = False,
     us_acknowledged = False, us_pre = None, us_removing = False, us_moving = False, us_toggling = False,
     us_turningOff = False, us_turningOn = False, us_underway = 0, us_saving = False, us_history = []\<rparr>"

text \<open>Read the status, open the dialog, read the pre-flight: the rule for port 22 covers.\<close>

definition checked_screen :: ufw_screen where
  "checked_screen = blank_screen\<lparr>us_data := Some (demo_status False [demo_rule]), us_showEnable := True,
     us_pre := Some demo_preflight,
     us_history := [StatusRead (demo_status False [demo_rule]), DialogOpened, PreflightRead demo_preflight]\<rparr>"

text \<open>Close it, delete that rule, read the empty table.\<close>

definition deleted_screen :: ufw_screen where
  "deleted_screen = checked_screen\<lparr>us_showEnable := False, us_removing := True, us_data := Some (demo_status False []),
     us_history := us_history checked_screen @ [DialogClosed, Requested (DeleteRule ''ufw allow 22/tcp'' False),
       StatusRead (demo_status False [])]\<rparr>"

lemma checked_reached: "reaches ufw_init ufw_step checked_screen"
proof -
  let ?a = "record_event (StatusRead (demo_status False [demo_rule])) (blank_screen\<lparr>us_data := Some (demo_status False [demo_rule])\<rparr>)"
  let ?b = "record_event DialogOpened (?a\<lparr>us_showEnable := True, us_acknowledged := False, us_turningOn := False\<rparr>)"
  have "reaches ufw_init ufw_step ?a"
    by (rule reaches_one [where s = blank_screen], simp add: ufw_init_def blank_screen_def, rule read_status)
  then have "reaches ufw_init ufw_step ?b"
    by (rule reaches_step, intro open_dialog [where d = "demo_status False [demo_rule]"])
      (simp_all add: record_event_def demo_status_def blank_screen_def)
  then have "reaches ufw_init ufw_step (record_event (PreflightRead demo_preflight) (?b\<lparr>us_pre := Some demo_preflight\<rparr>))"
    by (rule reaches_step, intro read_preflight)
  then show ?thesis by (simp add: record_event_def checked_screen_def blank_screen_def)
qed

lemma deleted_reached: "reaches ufw_init ufw_step deleted_screen"
proof -
  let ?c = "record_event DialogClosed (checked_screen\<lparr>us_showEnable := False\<rparr>)"
  let ?d = "record_event (Requested (DeleteRule ''ufw allow 22/tcp'' False)) (?c\<lparr>us_removing := True\<rparr>)"
  have "reaches ufw_init ufw_step ?c"
    by (rule reaches_step [OF checked_reached], intro close_dialog) (simp_all add: checked_screen_def)
  then have "reaches ufw_init ufw_step ?d"
    by (rule reaches_step, intro delete_rule [where r = demo_rule])
      (simp_all add: row_def record_event_def checked_screen_def blank_screen_def demo_status_def demo_rule_def table_busy_def)
  then have "reaches ufw_init ufw_step (record_event (StatusRead (demo_status False [])) (?d\<lparr>us_data := Some (demo_status False [])\<rparr>))"
    by (rule reaches_step, intro read_status)
  then show ?thesis by (simp add: record_event_def deleted_screen_def checked_screen_def)
qed

text \<open>
  The dialog can vouch for a rule that is gone: the pre-flight answer is cached and
  deleting a rule does not invalidate it, so the screen can be reopened after the covering
  rule was deleted and ask, without force and without adding a rule, to turn the firewall on
  while its rule table is empty.
\<close>

theorem preflight_outlives_rule:
  "\<exists>s h. reaches ufw_init ufw_step s \<and> us_history s = h @ [Requested (SetEnabled True False False)] \<and>
    last_status h = Some (demo_status False []) \<and>
    (\<exists>p. last_preflight h = Some p \<and> pf_covered p)"
proof -
  let ?o = "record_event DialogOpened (deleted_screen\<lparr>us_showEnable := True, us_acknowledged := False, us_turningOn := False\<rparr>)"
  let ?r = "record_event (Requested (SetEnabled True False False)) (?o\<lparr>us_turningOn := True, us_underway := us_underway ?o + 1\<rparr>)"
  have "reaches ufw_init ufw_step ?o"
    by (rule reaches_step [OF deleted_reached], intro open_dialog [where d = "demo_status False []"])
      (simp_all add: deleted_screen_def demo_status_def)
  then have "reaches ufw_init ufw_step ?r"
    by (rule reaches_step, intro enable_covered [where p = demo_preflight])
      (simp_all add: record_event_def deleted_screen_def checked_screen_def demo_preflight_def)
  moreover have "us_history ?r = us_history ?o @ [Requested (SetEnabled True False False)]"
    by (simp add: record_event_def)
  moreover have "last_status (us_history ?o) = Some (demo_status False [])"
    "last_preflight (us_history ?o) = Some demo_preflight"
    by (simp_all add: record_event_def deleted_screen_def checked_screen_def last_status_def last_preflight_def)
  ultimately show ?thesis by (metis demo_preflight_def UfwEnablePreflight.select_convs(5))
qed


theorem ufw_actions_grounded_witness:
  "listed_spec (us_history checked_screen @ [DialogClosed]) ''ufw allow 22/tcp''"
  using ufw_actions_grounded [OF deleted_reached, of "us_history checked_screen @ [DialogClosed]"
    "DeleteRule ''ufw allow 22/tcp'' False" "[StatusRead (demo_status False [])]"]
  by (simp add: deleted_screen_def)

end
