(* ===== verification/Role_Form.thy ===== *)
theory Role_Form
  imports Admin_Api
begin

text \<open>
  The role editor of \<open>app/dashboard/roles/page.tsx\<close>: the set of granted keys
  \<open>section:action\<close>, the permission matrix that edits it cell by cell or by the column, and
  the payload it is saved as. A JavaScript \<open>Set\<close> keeps the order of insertion: a list
  without repetitions.
\<close>

section \<open>Keys and grants\<close>

record SectionInfo =
  si_section :: string
  si_actions :: "string list"
  si_kind :: string

definition grant_key :: "string \<Rightarrow> string \<Rightarrow> string" where
  "grant_key sec act = sec @ '':'' @ act"

text \<open>\<open>new Set(existing?.permissions.map(...) ?? [])\<close>.\<close>

definition initial_grants :: "(string \<times> string) list option \<Rightarrow> string list" where
  "initial_grants ps =
     foldl (\<lambda>xs p. jset_add (grant_key (fst p) (snd p)) xs) [] (case ps of None \<Rightarrow> [] | Some l \<Rightarrow> l)"

definition toggle_grant :: "string \<Rightarrow> string \<Rightarrow> string list \<Rightarrow> string list" where
  "toggle_grant sec act g =
     (let k = grant_key sec act in if k \<in> set g then jset_delete k g else jset_add k g)"

definition bulkSet :: "string list \<Rightarrow> bool \<Rightarrow> string list \<Rightarrow> string list" where
  "bulkSet ks on g = foldl (\<lambda>g k. if on then jset_add k g else jset_delete k g) g ks"

text \<open>\<open>const [section, action] = g.split(":")\<close>; a key without a colon has no action.\<close>

definition permission_of :: "string \<Rightarrow> string \<times> string" where
  "permission_of g = (case split CHR '':'' g of s # a # _ \<Rightarrow> (s, a) | ss \<Rightarrow> (concat ss, []))"

definition permissions_of :: "string list \<Rightarrow> (string \<times> string) list" where
  "permissions_of g = map permission_of g"

text \<open>Saving: an edit of an existing role (its id), or a new one.\<close>

definition save_role :: "env \<Rightarrow> string option \<Rightarrow> string \<Rightarrow> string \<Rightarrow> string list \<Rightarrow> json call" where
  "save_role E existing name description grants =
     (case existing of
        Some i \<Rightarrow> updateRole E i \<lparr>ru_name = Val name, ru_description = of_nullable (or_null description),
                                 ru_permissions = Val (permissions_of grants)\<rparr>
      | None \<Rightarrow> createRole E \<lparr>rc_name = name, rc_description = of_nullable (or_null description),
                              rc_permissions = permissions_of grants\<rparr>)"

section \<open>The matrix\<close>

definition allKeys :: "SectionInfo list \<Rightarrow> string list" where
  "allKeys ss = concat (map (\<lambda>s. map (grant_key (si_section s)) (si_actions s)) ss)"

definition granted :: "SectionInfo list \<Rightarrow> string list \<Rightarrow> nat" where
  "granted ss g = length (filter (\<lambda>k. k \<in> set g) (allKeys ss))"

definition allOn :: "SectionInfo list \<Rightarrow> string list \<Rightarrow> bool" where
  "allOn ss g \<longleftrightarrow> granted ss g = length (allKeys ss) \<and> allKeys ss \<noteq> []"

definition someOn :: "SectionInfo list \<Rightarrow> string list \<Rightarrow> bool" where
  "someOn ss g \<longleftrightarrow> granted ss g > 0 \<and> \<not> allOn ss g"

definition keysForAction :: "SectionInfo list \<Rightarrow> string \<Rightarrow> string list" where
  "keysForAction ss act = map (\<lambda>s. grant_key (si_section s) act) (filter (\<lambda>s. act \<in> set (si_actions s)) ss)"

datatype column = ColumnAll | ColumnSome | ColumnNone

definition columnState :: "SectionInfo list \<Rightarrow> string list \<Rightarrow> string \<Rightarrow> column" where
  "columnState ss g act =
     (let ks = keysForAction ss act; on = length (filter (\<lambda>k. k \<in> set g) ks)
      in if on = 0 then ColumnNone else if on = length ks then ColumnAll else ColumnSome)"

text \<open>The header checkboxes of a column and of the whole matrix.\<close>

definition clickColumn :: "SectionInfo list \<Rightarrow> string \<Rightarrow> string list \<Rightarrow> string list" where
  "clickColumn ss act g = bulkSet (keysForAction ss act) (columnState ss g act \<noteq> ColumnAll) g"

definition clickAll :: "SectionInfo list \<Rightarrow> string list \<Rightarrow> string list" where
  "clickAll ss g = bulkSet (allKeys ss) (\<not> allOn ss g) g"

section \<open>Sets\<close>

lemma set_bulkSet: "set (bulkSet ks on g) = (if on then set g \<union> set ks else set g - set ks)"
  unfolding bulkSet_def by (induction ks arbitrary: g) auto

lemma distinct_bulkSet: "distinct g \<Longrightarrow> distinct (bulkSet ks on g)"
  unfolding bulkSet_def by (induction ks arbitrary: g) (auto simp: jset_add_def jset_delete_def)

lemma set_initial: "set (initial_grants (Some ps)) = (\<lambda>p. grant_key (fst p) (snd p)) ` set ps"
proof -
  have "set (foldl (\<lambda>xs p. jset_add (grant_key (fst p) (snd p)) xs) g ps) =
      set g \<union> (\<lambda>p. grant_key (fst p) (snd p)) ` set ps" for g
    by (induction ps arbitrary: g) auto
  from this [of "[]"] show ?thesis by (simp add: initial_grants_def)
qed

text \<open>Names that survive being joined by a colon.\<close>

definition plain_name :: "string \<Rightarrow> bool" where
  "plain_name s \<longleftrightarrow> CHR '':'' \<notin> set s"

definition pair_key :: "string \<times> string \<Rightarrow> string" where
  "pair_key p = grant_key (fst p) (snd p)"

lemma permission_of_key:
  assumes "plain_name s" "plain_name a"
  shows "permission_of (grant_key s a) = (s, a)"
  using assms by (simp add: permission_of_def grant_key_def plain_name_def split_append_sep split_no_sep)

text \<open>The abstract view of the editor: the set of pairs it will send.\<close>

definition grants_view :: "string list \<Rightarrow> (string \<times> string) set" where
  "grants_view g = set (permissions_of g)"

definition grants_ok :: "string list \<Rightarrow> bool" where
  "grants_ok g \<longleftrightarrow> distinct g \<and> (\<forall>k \<in> set g. \<exists>s a. plain_name s \<and> plain_name a \<and> k = grant_key s a)"

lemma view_mem:
  assumes "grants_ok g" "plain_name s" "plain_name a"
  shows "(s, a) \<in> grants_view g \<longleftrightarrow> grant_key s a \<in> set g"
proof
  assume "(s, a) \<in> grants_view g"
  then obtain k where k: "k \<in> set g" "permission_of k = (s, a)"
    by (auto simp: grants_view_def permissions_of_def)
  with assms(1) obtain s' a' where "plain_name s'" "plain_name a'" "k = grant_key s' a'"
    unfolding grants_ok_def by blast
  with k show "grant_key s a \<in> set g" by (auto simp: permission_of_key)
next
  assume "grant_key s a \<in> set g"
  then show "(s, a) \<in> grants_view g"
    using permission_of_key [OF assms(2,3)] by (force simp: grants_view_def permissions_of_def)
qed

lemma view_plain: "grants_ok g \<Longrightarrow> (s, a) \<in> grants_view g \<Longrightarrow> plain_name s \<and> plain_name a"
  by (fastforce simp: grants_view_def permissions_of_def grants_ok_def permission_of_key)

text \<open>Two editors with the same keys send the same pairs.\<close>

lemma view_eqI:
  assumes "grants_ok g" "\<forall>p \<in> P. plain_name (fst p) \<and> plain_name (snd p)" "set g = pair_key ` P"
  shows "grants_view g = P"
proof -
  have "grants_view g = (\<lambda>p. permission_of (pair_key p)) ` P"
    by (simp add: grants_view_def permissions_of_def assms(3) image_image)
  also have "\<dots> = P" using assms(2) by (force simp: pair_key_def permission_of_key)
  finally show ?thesis .
qed

lemma keys_view: "grants_ok g \<Longrightarrow> set g = pair_key ` grants_view g"
  by (force simp: grants_ok_def grants_view_def permissions_of_def pair_key_def permission_of_key)

lemma pair_key_inj: "inj_on pair_key {p. plain_name (fst p) \<and> plain_name (snd p)}"
  by (rule inj_onI) (auto simp: pair_key_def dest!: arg_cong [of _ _ permission_of] simp: permission_of_key)

section \<open>The editor edits a set of pairs\<close>

definition plain_sections :: "SectionInfo list \<Rightarrow> bool" where
  "plain_sections ss \<longleftrightarrow> (\<forall>s \<in> set ss. plain_name (si_section s) \<and> (\<forall>a \<in> set (si_actions s). plain_name a))"

definition column_pairs :: "SectionInfo list \<Rightarrow> string \<Rightarrow> (string \<times> string) set" where
  "column_pairs ss act = (\<lambda>s. (si_section s, act)) ` set (filter (\<lambda>s. act \<in> set (si_actions s)) ss)"

definition all_pairs :: "SectionInfo list \<Rightarrow> (string \<times> string) set" where
  "all_pairs ss = (\<Union>s \<in> set ss. (\<lambda>a. (si_section s, a)) ` set (si_actions s))"

lemma set_keys:
  "set (keysForAction ss act) = pair_key ` column_pairs ss act"
  "set (allKeys ss) = pair_key ` all_pairs ss"
  by (simp_all add: keysForAction_def column_pairs_def allKeys_def all_pairs_def pair_key_def image_image image_UN)

lemma plain_pairs:
  assumes "plain_sections ss"
  shows "column_pairs ss act \<subseteq> {p. plain_name (fst p) \<and> plain_name (snd p)}"
    "all_pairs ss \<subseteq> {p. plain_name (fst p) \<and> plain_name (snd p)}"
  using assms by (auto simp: plain_sections_def column_pairs_def all_pairs_def)

lemma plain_view: "grants_ok g \<Longrightarrow> grants_view g \<subseteq> {p. plain_name (fst p) \<and> plain_name (snd p)}"
  using view_plain by auto

lemma grants_okI:
  assumes "distinct g" "set g = pair_key ` P" "P \<subseteq> {p. plain_name (fst p) \<and> plain_name (snd p)}"
  shows "grants_ok g"
  unfolding grants_ok_def
proof (intro conjI ballI assms(1))
  fix k assume "k \<in> set g"
  with assms(2) obtain p where p: "p \<in> P" "k = pair_key p" by auto
  with assms(3) have "plain_name (fst p)" "plain_name (snd p)" by auto
  with p(2) show "\<exists>s a. plain_name s \<and> plain_name a \<and> k = grant_key s a" unfolding pair_key_def by blast
qed

lemma view_keysI:
  assumes "distinct g" "set g = pair_key ` P" "P \<subseteq> {p. plain_name (fst p) \<and> plain_name (snd p)}"
  shows "grants_ok g \<and> grants_view g = P"
  using grants_okI [OF assms] view_eqI [of g P] assms by auto

lemma bulk_view:
  assumes "grants_ok g" "C \<subseteq> {p. plain_name (fst p) \<and> plain_name (snd p)}" "set ks = pair_key ` C"
  shows "grants_ok (bulkSet ks on g) \<and>
    grants_view (bulkSet ks on g) = (if on then grants_view g \<union> C else grants_view g - C)"
proof (rule view_keysI)
  show "distinct (bulkSet ks on g)" using assms(1) by (simp add: grants_ok_def distinct_bulkSet)
  show "set (bulkSet ks on g) = pair_key ` (if on then grants_view g \<union> C else grants_view g - C)"
    using inj_on_image_set_diff [OF pair_key_inj _ assms(2), of "grants_view g"] plain_view [OF assms(1)]
      keys_view [OF assms(1)] assms(3)
    by (auto simp: set_bulkSet)
  show "(if on then grants_view g \<union> C else grants_view g - C) \<subseteq> {p. plain_name (fst p) \<and> plain_name (snd p)}"
    using assms(2) plain_view [OF assms(1)] by auto
qed

lemma toggle_view:
  assumes "grants_ok g" "plain_name s" "plain_name a"
  shows "grants_ok (toggle_grant s a g) \<and> grants_view (toggle_grant s a g) =
    (if (s, a) \<in> grants_view g then grants_view g - {(s, a)} else insert (s, a) (grants_view g))"
proof -
  have "toggle_grant s a g = bulkSet [grant_key s a] (grant_key s a \<notin> set g) g"
    by (simp add: toggle_grant_def bulkSet_def Let_def)
  with bulk_view [OF assms(1), of "{(s, a)}" "[grant_key s a]"] assms(2,3) view_mem [OF assms] show ?thesis
    by (auto simp: pair_key_def)
qed

lemma filter_length_all: "length (filter P xs) = length xs \<longleftrightarrow> (\<forall>x \<in> set xs. P x)"
  by (metis filter_id_conv filter_True length_filter_less nat_neq_iff)

lemma keys_subset:
  assumes "grants_ok g" "C \<subseteq> {p. plain_name (fst p) \<and> plain_name (snd p)}"
  shows "pair_key ` C \<subseteq> set g \<longleftrightarrow> C \<subseteq> grants_view g"
  unfolding keys_view [OF assms(1)]
  using inj_on_image_mem_iff [OF pair_key_inj _ plain_view [OF assms(1)]] assms(2) by blast

lemma column_all:
  assumes "grants_ok g" "plain_sections ss"
  shows "columnState ss g act = ColumnAll \<longleftrightarrow> column_pairs ss act \<noteq> {} \<and> column_pairs ss act \<subseteq> grants_view g"
proof -
  let ?ks = "keysForAction ss act"
  have "columnState ss g act = ColumnAll \<longleftrightarrow> ?ks \<noteq> [] \<and> (\<forall>k \<in> set ?ks. k \<in> set g)"
  proof (cases "?ks = []")
    case False
    then have "(\<forall>k \<in> set ?ks. k \<in> set g) \<Longrightarrow> filter (\<lambda>k. k \<in> set g) ?ks \<noteq> []" by simp
    with False show ?thesis by (auto simp: columnState_def Let_def filter_length_all)
  qed (simp add: columnState_def)
  also have "?ks \<noteq> [] \<longleftrightarrow> column_pairs ss act \<noteq> {}"
    using set_keys(1) [of ss act] by (metis empty_set image_is_empty set_empty)
  also have "(\<forall>k \<in> set ?ks. k \<in> set g) \<longleftrightarrow> column_pairs ss act \<subseteq> grants_view g"
    using keys_subset [OF assms(1) plain_pairs(1) [OF assms(2)], of act] by (auto simp: set_keys)
  finally show ?thesis .
qed

lemma all_on:
  assumes "grants_ok g" "plain_sections ss"
  shows "allOn ss g \<longleftrightarrow> all_pairs ss \<noteq> {} \<and> all_pairs ss \<subseteq> grants_view g"
proof -
  have "allKeys ss \<noteq> [] \<longleftrightarrow> all_pairs ss \<noteq> {}"
    using set_keys(2) [of ss] by (metis empty_set image_is_empty set_empty)
  moreover have "(\<forall>k \<in> set (allKeys ss). k \<in> set g) \<longleftrightarrow> all_pairs ss \<subseteq> grants_view g"
    using keys_subset [OF assms(1) plain_pairs(2) [OF assms(2)]] by (auto simp: set_keys)
  ultimately show ?thesis by (auto simp: allOn_def granted_def filter_length_all)
qed

lemma initial_view:
  assumes "\<forall>p \<in> set ps. plain_name (fst p) \<and> plain_name (snd p)"
  shows "grants_ok (initial_grants (Some ps)) \<and> grants_view (initial_grants (Some ps)) = set ps"
proof (rule view_keysI)
  have "distinct (foldl (\<lambda>xs p. jset_add (grant_key (fst p) (snd p)) xs) g ps)" if "distinct g" for g
    using that by (induction ps arbitrary: g) (auto simp: jset_add_def)
  from this [of "[]"] show "distinct (initial_grants (Some ps))" by (simp add: initial_grants_def)
qed (use assms in \<open>auto simp: set_initial pair_key_def\<close>)

text \<open>
  C17. The role editor edits exactly the set of permissions it shows. Opening a role and
  saving it sends its permissions unchanged; a cell flips its own permission and no other;
  the header of a column grants every permission of that action on offer, or takes exactly
  those away when all of them are granted; so does the header of the matrix for all of them.
\<close>

theorem role_editor_exact:
  assumes "\<forall>p \<in> set ps. plain_name (fst p) \<and> plain_name (snd p)" "grants_ok g" "plain_sections ss"
    "plain_name s" "plain_name a"
  shows "set (permissions_of (initial_grants (Some ps))) = set ps \<and>
    set (permissions_of (toggle_grant s a g)) =
      (if (s, a) \<in> set (permissions_of g) then set (permissions_of g) - {(s, a)}
       else insert (s, a) (set (permissions_of g))) \<and>
    set (permissions_of (clickColumn ss a g)) =
      (if column_pairs ss a \<noteq> {} \<and> column_pairs ss a \<subseteq> set (permissions_of g)
       then set (permissions_of g) - column_pairs ss a else set (permissions_of g) \<union> column_pairs ss a) \<and>
    set (permissions_of (clickAll ss g)) =
      (if all_pairs ss \<noteq> {} \<and> all_pairs ss \<subseteq> set (permissions_of g)
       then set (permissions_of g) - all_pairs ss else set (permissions_of g) \<union> all_pairs ss) \<and>
    grants_ok (toggle_grant s a g) \<and> grants_ok (clickColumn ss a g) \<and> grants_ok (clickAll ss g)"
  using initial_view [OF assms(1)] toggle_view [OF assms(2,4,5)]
    bulk_view [OF assms(2) plain_pairs(1) [OF assms(3)] set_keys(1), of a "columnState ss g a \<noteq> ColumnAll"]
    bulk_view [OF assms(2) plain_pairs(2) [OF assms(3)] set_keys(2), of "\<not> allOn ss g"]
    column_all [OF assms(2,3), of a] all_on [OF assms(2,3)]
  by (simp add: grants_view_def clickColumn_def clickAll_def)

definition demo_sections :: "SectionInfo list" where
  "demo_sections = [\<lparr>si_section = ''users'', si_actions = [''read'', ''write''], si_kind = ''app''\<rparr>,
     \<lparr>si_section = ''audit'', si_actions = [''read''], si_kind = ''app''\<rparr>]"

theorem role_editor_exact_witness:
  "set (permissions_of (clickColumn demo_sections ''read'' [])) = {(''users'', ''read''), (''audit'', ''read'')}"
proof -
  have "plain_sections demo_sections" "grants_ok []" "plain_name ''users''" "plain_name ''read''"
    by (simp_all add: plain_sections_def demo_sections_def plain_name_def grants_ok_def)
  moreover have "column_pairs demo_sections ''read'' = {(''users'', ''read''), (''audit'', ''read'')}"
    by (auto simp: column_pairs_def demo_sections_def)
  ultimately show ?thesis
    using role_editor_exact [of "[]" "[]" demo_sections "''users''" "''read''"] by (simp add: permissions_of_def)
qed

end
