(* ===== verification/Setup_Gate.thy ===== *)
theory Setup_Gate
  imports Api_Client
begin

text \<open>
  Edge-side routing, \<open>frontend/src/middleware.ts\<close>: a system that is not set up yet sends
  every page to \<open>/setup\<close>. The probe of the backend (its answer, or the error of \<open>fetch\<close>)
  is an argument.
\<close>

datatype routed = Pass | ToSetup

definition exempt :: "string \<Rightarrow> bool" where
  "exempt pathname \<longleftrightarrow>
     startsWith pathname ''/_next'' \<or> startsWith pathname ''/api'' \<or> pathname = ''/favicon.ico''"

text \<open>
  \<open>const { setup_complete } = await r.json()\<close> raises on a body that is no JSON and on null;
  on any other value without the field it is undefined.
\<close>

definition setup_pending :: "response \<Rightarrow> bool" where
  "setup_pending r =
     (rs_ok r \<and> (case rs_json r of
        None \<Rightarrow> False
      | Some j \<Rightarrow> j \<noteq> JNull \<and>
          (case jget j ''setup_complete'' of None \<Rightarrow> True | Some v \<Rightarrow> \<not> jtruthy v)))"

definition middleware :: "string + response \<Rightarrow> string \<Rightarrow> routed" where
  "middleware probe pathname =
     (if exempt pathname then Pass
      else if startsWith pathname ''/setup'' then Pass
      else (case probe of
          Inl _ \<Rightarrow> Pass
        | Inr r \<Rightarrow> if setup_pending r \<and> pathname \<noteq> ''/setup'' then ToSetup else Pass))"

text \<open>What a browser ends up on: it follows the redirects the gate answers with.\<close>

fun follow :: "nat \<Rightarrow> string + response \<Rightarrow> string \<Rightarrow> string option" where
  "follow 0 probe pathname = None"
| "follow (Suc n) probe pathname =
     (case middleware probe pathname of
        Pass \<Rightarrow> Some pathname
      | ToSetup \<Rightarrow> follow n probe ''/setup'')"

text \<open>One redirect is always enough, whatever the backend answers in between.\<close>

lemma follow_settles: "\<exists>q. follow (Suc (Suc n)) probe pathname = Some q \<and> (q = pathname \<or> q = ''/setup'')"
  by (cases "middleware probe pathname") (simp_all add: middleware_def [of probe "''/setup''"] js_str)

end
