(* ===== verification/Request_Scope.thy ===== *)
theory Request_Scope
  imports Endpoint_Laws
begin

text \<open>
  What a computation made of several calls may put on the wire. \<open>sends E R m\<close> says that,
  started while no refresh is under way, \<open>m\<close> appends nothing to the wire but refreshes and
  requests in \<open>R\<close>, and leaves no refresh under way. The rules follow the structure of the
  program text; a request is told by its method, address and body, whatever token it carries.
\<close>

named_theorems sends_rules \<open>how the requests of a computation follow from its parts\<close>

definition asks_for :: "request \<Rightarrow> request \<Rightarrow> bool" where
  "asks_for q r \<longleftrightarrow> rq_method r = rq_method q \<and> rq_url r = rq_url q \<and> rq_body r = rq_body q"

definition sends :: "env \<Rightarrow> (request \<Rightarrow> bool) \<Rightarrow> 'a call \<Rightarrow> bool" where
  "sends E R m \<longleftrightarrow> (\<forall>s x s'. \<not> refreshInFlight s \<and> run_state m s = (x, s') \<longrightarrow>
     \<not> refreshInFlight s' \<and>
     (\<exists>post. wire s' = wire s @ post \<and> list_all (\<lambda>r. r = refresh_request E \<or> R r) post))"

lemma sendsD:
  assumes "sends E R m" "\<not> refreshInFlight s" "run_state m s = (x, s')"
  obtains post where "\<not> refreshInFlight s'" "wire s' = wire s @ post"
    "list_all (\<lambda>r. r = refresh_request E \<or> R r) post"
  using assms unfolding sends_def by blast

lemma sends_wire:
  "sends E R m \<Longrightarrow> \<not> refreshInFlight s \<Longrightarrow> run_state m s = (x, s') \<Longrightarrow>
     \<exists>post. wire s' = wire s @ post \<and> list_all (\<lambda>r. r = refresh_request E \<or> R r) post"
  unfolding sends_def by blast

lemma asks_for_token [simp]: "asks_for q (attach t q)" "asks_for q (bearer u q)"
  by (simp_all add: asks_for_def attach_def bearer_def)

lemma asks_for_attach [simp]: "asks_for q (bearer u (attach t q))"
  by (simp add: asks_for_def attach_def bearer_def)

lemma sends_mono:
  assumes "sends E Q m" "\<And>r. Q r \<Longrightarrow> R r"
  shows "sends E R m"
proof -
  have "list_all (\<lambda>r. r = refresh_request E \<or> R r) l"
    if "list_all (\<lambda>r. r = refresh_request E \<or> Q r) l" for l
    using that assms(2) by (auto simp: list_all_iff)
  with assms(1) show ?thesis unfolding sends_def by blast
qed

lemma sends_ret [sends_rules]: "sends E R (ret x)"
  by (simp add: sends_def)

lemma sends_api [sends_rules]:
  assumes "ky_contract E" "lock_contract E" "\<And>r. asks_for (mk_request E m p a) r \<Longrightarrow> R r"
  shows "sends E R (api E m p a)"
  unfolding sends_def
proof (intro allI impI, elim conjE)
  fix s x s' assume idle: "\<not> refreshInFlight s" and run: "run_state (api E m p a) s = (x, s')"
  obtain pre t post where w: "\<not> refreshInFlight s'" "pre \<in> {[], [refresh_request E]}"
    "wire s' = wire s @ pre @ [attach t (mk_request E m p a)] @ post"
    "retry_tail E (attach t (mk_request E m p a)) post"
    using api_wire [OF assms(1,2) idle run] by blast
  have "list_all (\<lambda>r. r = refresh_request E \<or> R r) post"
    using w(4) assms(3) by (auto simp: retry_tail_def list_all_iff)
  with w(1-3) assms(3) show "\<not> refreshInFlight s' \<and>
      (\<exists>post. wire s' = wire s @ post \<and> list_all (\<lambda>r. r = refresh_request E \<or> R r) post)"
    by (intro conjI exI [of _ "pre @ [attach t (mk_request E m p a)] @ post"]) auto
qed

text \<open>Two computations one after the other.\<close>

lemma sends_seq:
  assumes "sends E R m" "\<And>v. sends E R (f v)"
    and "\<And>s. run_state m' s = (case run_state m s of (v, s1) \<Rightarrow> run_state (f v) s1)"
  shows "sends E R m'"
  unfolding sends_def
proof (intro allI impI, elim conjE)
  fix s x s' assume idle: "\<not> refreshInFlight s" and run: "run_state m' s = (x, s')"
  obtain v s1 where v: "run_state m s = (v, s1)" by force
  obtain p1 where 1: "\<not> refreshInFlight s1" "wire s1 = wire s @ p1"
    "list_all (\<lambda>r. r = refresh_request E \<or> R r) p1"
    using sendsD [OF assms(1) idle v] by metis
  have "run_state (f v) s1 = (x, s')" using run assms(3) v by simp
  with sendsD [OF assms(2) 1(1)] obtain p2 where "\<not> refreshInFlight s'" "wire s' = wire s1 @ p2"
    "list_all (\<lambda>r. r = refresh_request E \<or> R r) p2" by metis
  with 1 show "\<not> refreshInFlight s' \<and>
      (\<exists>post. wire s' = wire s @ post \<and> list_all (\<lambda>r. r = refresh_request E \<or> R r) post)"
    by (intro conjI exI [of _ "p1 @ p2"]) auto
qed

lemma sends_awaiting [sends_rules]:
  assumes "sends E R m" "\<And>v. sends E R (f v)"
  shows "sends E R (awaiting m f)"
proof (rule sends_seq [OF assms(1), where f = "\<lambda>x. case x of Inl e \<Rightarrow> ret (Inl e) | Inr v \<Rightarrow> f v"])
  show "sends E R (case x of Inl e \<Rightarrow> ret (Inl e) | Inr v \<Rightarrow> f v)" for x
    using assms(2) by (cases x) (auto intro: sends_ret)
qed (simp add: run_awaiting split: prod.split sum.split)

lemma sends_catching [sends_rules]:
  assumes "sends E R m" "\<And>e. sends E R (h e)"
  shows "sends E R (catching m h)"
proof (rule sends_seq [OF assms(1), where f = "\<lambda>x. case x of Inl e \<Rightarrow> h e | Inr v \<Rightarrow> ret (Inr v)"])
  show "sends E R (case x of Inl e \<Rightarrow> h e | Inr v \<Rightarrow> ret (Inr v))" for x
    using assms(2) by (cases x) (auto intro: sends_ret)
qed (simp add: run_catching split: prod.split sum.split)

lemma sends_guarded [sends_rules]: "sends E R m \<Longrightarrow> sends E R (guarded E m)"
  unfolding guarded_def rethrow_def by (intro sends_catching sends_ret)

lemma sends_api_json [sends_rules]:
  assumes "ky_contract E" "lock_contract E" "\<And>r. asks_for (mk_request E m p a) r \<Longrightarrow> R r"
  shows "sends E R (api_json E m p a)"
  unfolding api_json_def body_json_def by (intro sends_awaiting sends_api assms sends_ret)

lemma sends_api_unit [sends_rules]:
  assumes "ky_contract E" "lock_contract E" "\<And>r. asks_for (mk_request E m p a) r \<Longrightarrow> R r"
  shows "sends E R (api_unit E m p a)"
  unfolding api_unit_def by (intro sends_awaiting sends_api assms sends_ret)

lemma sends_option [sends_rules]:
  "(\<And>x. v = Some x \<Longrightarrow> sends E R (f x)) \<Longrightarrow> (v = None \<Longrightarrow> sends E R d) \<Longrightarrow>
     sends E R (case v of None \<Rightarrow> d | Some x \<Rightarrow> f x)"
  by (cases v) auto

lemma sends_if [sends_rules]:
  "(b \<Longrightarrow> sends E R m) \<Longrightarrow> (\<not> b \<Longrightarrow> sends E R n) \<Longrightarrow> sends E R (if b then m else n)"
  by simp

end
