(* ===== verification/Ipv4.thy ===== *)
theory Ipv4
  imports Prelude
begin

text \<open>Dotted quads: how an IPv4 address prints, and the number it stands for.\<close>

definition quad :: "nat \<Rightarrow> nat \<Rightarrow> nat \<Rightarrow> nat \<Rightarrow> string" where
  "quad a b c d = show_nat a @ ''.'' @ show_nat b @ ''.'' @ show_nat c @ ''.'' @ show_nat d"

definition ip4 :: "nat \<Rightarrow> nat \<Rightarrow> nat \<Rightarrow> nat \<Rightarrow> nat" where
  "ip4 a b c d = ((a * 256 + b) * 256 + c) * 256 + d"

lemma show_nat_clean: "\<not> is_digit c \<Longrightarrow> c \<notin> set (show_nat n)"
  using show_nat_digits by blast

lemma dot_slash [simp]: "CHR ''.'' \<notin> set (show_nat n)" "CHR ''/'' \<notin> set (show_nat n)"
  by (rule show_nat_clean, simp add: is_digit_def)+

lemma quad_no_slash [simp]: "CHR ''/'' \<notin> set (quad a b c d)"
  by (simp add: quad_def)

lemma split_quad: "split CHR ''.'' (quad a b c d) = [show_nat a, show_nat b, show_nat c, show_nat d]"
  by (simp add: quad_def split_append_sep split_no_sep)

lemma quad_inj: "quad a b c d = quad e f g h \<longleftrightarrow> a = e \<and> b = f \<and> c = g \<and> d = h"
proof
  assume "quad a b c d = quad e f g h"
  then have "split CHR ''.'' (quad a b c d) = split CHR ''.'' (quad e f g h)" by simp
  then show "a = e \<and> b = f \<and> c = g \<and> d = h" by (simp add: split_quad)
qed simp

lemma trim_show_nat [simp]: "trim (show_nat n) = show_nat n"
proof -
  have "\<not> is_ws ch" if "ch \<in> set (show_nat n)" for ch
    using show_nat_digits [OF that] by (auto simp: is_digit_def is_ws_def)
  then show ?thesis
    by (metis hd_in_set last_in_set show_nat_not_Nil trimEnd_id trimStart_id trim_def)
qed

text \<open>Addresses compare as their four numbers do, and fill 32 bits.\<close>

lemma ip4_bound: "a \<le> 255 \<Longrightarrow> b \<le> 255 \<Longrightarrow> c \<le> 255 \<Longrightarrow> d \<le> 255 \<Longrightarrow> ip4 a b c d < 2 ^ 32"
  by (simp add: ip4_def)

lemma base256_less:
  fixes x y d h :: nat
  assumes "d \<le> 255" "h \<le> 255"
  shows "x * 256 + d < y * 256 + h \<longleftrightarrow> x < y \<or> x = y \<and> d < h"
  using assms by linarith

lemma ip4_less:
  assumes "b \<le> 255" "c \<le> 255" "d \<le> 255" "f \<le> 255" "g \<le> 255" "h \<le> 255"
  shows "ip4 a b c d < ip4 e f g h \<longleftrightarrow> a < e \<or> a = e \<and> (b < f \<or> b = f \<and> (c < g \<or> c = g \<and> d < h))"
proof -
  have eq: "x * 256 + u = y * 256 + v \<longleftrightarrow> x = y \<and> u = v" if "u \<le> 255" "v \<le> 255" for x y u v :: nat
  proof
    assume "x * 256 + u = y * 256 + v"
    moreover have "\<not> x < y" "\<not> y < x" using that calculation by linarith+
    ultimately show "x = y \<and> u = v" by simp
  qed simp
  show ?thesis unfolding ip4_def using assms by (simp only: base256_less eq) blast
qed

end
