(* ===== verification/Wg_Wizard.thy ===== *)
theory Wg_Wizard
  imports Request_Scope Ipv4
begin

text \<open>
  The WireGuard wizard, \<open>app/dashboard/devices/[id]/vpn/wireguard/new/page.tsx\<close>: pick or
  create an interface (and open its port in the firewall), give it a tunnel address, add
  peers. The two long mutations are computations over the API client; the screen is a step
  relation in which a request may settle at any time, also after the step that sent it has
  been left.
\<close>

section \<open>Data\<close>

record WgInterface =
  wi_id :: "string option"
  wi_name :: string
  wi_listen_port :: "rat option"
  wi_public_key :: "string option"
  wi_mtu :: "rat option"
  wi_disabled :: bool
  wi_comment :: "string option"

text \<open>An answer read at the declared type; an absent field reads as null.\<close>

fun as_num :: "json \<Rightarrow> rat option" where
  "as_num (JNum n) = Some n"
| "as_num _ = None"

definition read_interface :: "json \<Rightarrow> WgInterface" where
  "read_interface j = \<lparr>wi_id = jread j ''id'' as_str,
     wi_name = (case jread j ''name'' as_str of Some n \<Rightarrow> n | None \<Rightarrow> []),
     wi_listen_port = jread j ''listen_port'' as_num, wi_public_key = jread j ''public_key'' as_str,
     wi_mtu = jread j ''mtu'' as_num, wi_disabled = (jread j ''disabled'' as_bool = Some True),
     wi_comment = jread j ''comment'' as_str\<rparr>"

definition read_interfaces :: "json \<Rightarrow> WgInterface list" where
  "read_interfaces j = (case as_arr j of Some xs \<Rightarrow> map read_interface xs | None \<Rightarrow> [])"

section \<open>Step 1: the interface\<close>

record iface_form =
  if_creating :: bool
  if_name :: string
  if_port :: rat
  if_mtu :: rat
  if_openFirewall :: bool
  if_error :: "string option"
  if_pending :: bool

definition new_iface_form :: iface_form where
  "new_iface_form = \<lparr>if_creating = False, if_name = ''wg-net'', if_port = 51820, if_mtu = 1420,
     if_openFirewall = True, if_error = None, if_pending = False\<rparr>"

definition iface_payload :: "iface_form \<Rightarrow> WgInterfaceCreate" where
  "iface_payload f = \<lparr>wic_name = if_name f, wic_listen_port = Val (if_port f), wic_private_key = Undefined,
     wic_mtu = Val (if_mtu f), wic_comment = Undefined\<rparr>"

definition hole_rule :: "env \<Rightarrow> iface_form \<Rightarrow> FilterRuleCreate" where
  "hole_rule E f = \<lparr>frc_chain = ''input'', frc_action = ''accept'', frc_src_address = Undefined,
     frc_dst_address = Undefined, frc_src_address_list = Undefined, frc_dst_address_list = Undefined,
     frc_protocol = Val ''udp'', frc_src_port = Undefined, frc_dst_port = Val (numstr E (if_port f)),
     frc_in_interface = Undefined, frc_out_interface = Undefined, frc_connection_state = Undefined,
     frc_log = Undefined, frc_log_prefix = Undefined, frc_disabled = Undefined,
     frc_comment = Val (''netfleet wg '' @ if_name f @ '' listen'')\<rparr>"

text \<open>The first other rule of the input chain that has an id.\<close>

definition first_input :: "json option \<Rightarrow> json list \<Rightarrow> json option" where
  "first_input created_id rules =
     Option.bind (find (\<lambda>r. jget r ''chain'' = Some (JStr ''input'') \<and>
         (case jget r ''id'' of Some i \<Rightarrow> jtruthy i \<and> Some i \<noteq> created_id | None \<Rightarrow> False)) rules)
       (\<lambda>r. jget r ''id'')"

text \<open>\<open>String(v)\<close> of a field that may be missing.\<close>

definition field_str :: "env \<Rightarrow> json option \<Rightarrow> string" where
  "field_str E v = (case v of Some x \<Rightarrow> js_String (numstr E) x | None \<Rightarrow> ''undefined'')"

text \<open>\<open>(e as Error).message\<close>; the message of ky's own error is the argument \<open>ky_text\<close>.\<close>

fun error_message :: "(response \<Rightarrow> string) \<Rightarrow> js_error \<Rightarrow> string" where
  "error_message ky_text (JsError m) = m"
| "error_message ky_text (HTTPError r) = ky_text r"

type_synonym toast_call = "((string \<times> string) list) call"

definition move_to_top :: "env \<Rightarrow> string \<Rightarrow> json \<Rightarrow> unit call" where
  "move_to_top E dev created = awaiting (listFilterRules E dev) (\<lambda>rules.
     (case as_arr rules of
        None \<Rightarrow> ret (Inl (JsError ''rules.find is not a function''))
      | Some rs \<Rightarrow>
          (case first_input (jget created ''id'') rs of
             None \<Rightarrow> ret (Inr ())
           | Some b \<Rightarrow> moveFilterRule E dev (field_str E (jget created ''id'')) (Some (field_str E (Some b))))))"

text \<open>Neither failure is fatal: the result is the list of error toasts.\<close>

definition punch_hole :: "env \<Rightarrow> (response \<Rightarrow> string) \<Rightarrow> string \<Rightarrow> iface_form \<Rightarrow> toast_call" where
  "punch_hole E kt dev f = catching
     (awaiting (createFilterRule E dev (hole_rule E f)) (\<lambda>created.
        catching (awaiting (move_to_top E dev created) (\<lambda>_. ret (Inr [])))
          (\<lambda>e. ret (Inr [(''Rule created but not moved to top'', error_message kt e)]))))
     (\<lambda>e. ret (Inr [(''Firewall hole-punch failed'', error_message kt e)]))"

definition create_interface :: "env \<Rightarrow> (response \<Rightarrow> string) \<Rightarrow> string \<Rightarrow> iface_form \<Rightarrow> toast_call" where
  "create_interface E kt dev f = awaiting (createWgInterface E dev (iface_payload f))
     (\<lambda>_. if if_openFirewall f then punch_hole E kt dev f else ret (Inr []))"

text \<open>The driver does not echo the new interface: fetch the list and match by name.\<close>

definition created_interface :: "env \<Rightarrow> string \<Rightarrow> string \<Rightarrow> WgInterface option call" where
  "created_interface E dev name = awaiting (listWgInterfaces E dev)
     (\<lambda>fresh. ret (Inr (find (\<lambda>i. wi_name i = name) (read_interfaces fresh))))"

definition submit_interface :: "env \<Rightarrow> (response \<Rightarrow> string) \<Rightarrow> string \<Rightarrow> iface_form \<Rightarrow> WgInterface option call" where
  "submit_interface E kt dev f =
     awaiting (create_interface E kt dev f) (\<lambda>_. created_interface E dev (if_name f))"

section \<open>Step 2: the tunnel address\<close>

record addr_form =
  af_cidr :: string
  af_comment :: string
  af_error :: "string option"
  af_skipped :: bool
  af_pending :: bool

definition new_addr_form :: "WgInterface option \<Rightarrow> addr_form" where
  "new_addr_form i = \<lparr>af_cidr = ''10.10.10.1/24'',
     af_comment = ''wg '' @ (case i of Some w \<Rightarrow> wi_name w | None \<Rightarrow> []),
     af_error = None, af_skipped = False, af_pending = False\<rparr>"

definition addr_payload :: "WgInterface \<Rightarrow> addr_form \<Rightarrow> AddressCreate" where
  "addr_payload i f = \<lparr>ac_address = af_cidr f, ac_interface = wi_name i,
     ac_comment = nul (af_comment f)\<rparr>"

section \<open>Step 3: peers\<close>

text \<open>
  \<open>Number(s)\<close>: blank text is zero, digits are their value. The other notations of the
  language (signs, fractions, exponents, hexadecimal) are the argument \<open>other\<close>.
\<close>

definition js_Number :: "(string \<Rightarrow> jsnum) \<Rightarrow> string \<Rightarrow> jsnum" where
  "js_Number other s =
     (if trim s = [] then Num 0
      else if list_all is_digit (trim s) then Num (int (read_nat (trim s))) else other s)"

fun js_add1 :: "jsnum \<Rightarrow> jsnum" where
  "js_add1 NaN = NaN"
| "js_add1 (Num i) = Num (i + 1)"

fun js_num_str :: "jsnum \<Rightarrow> string" where
  "js_num_str NaN = ''NaN''"
| "js_num_str (Num i) = show_int i"

record host_counter =
  hc_prefix :: "string option"
  hc_parts :: "jsnum list"
  hc_counter :: jsnum

definition part_str :: "jsnum list \<Rightarrow> nat \<Rightarrow> string" where
  "part_str ps k = (if k < length ps then js_num_str (ps ! k) else ''undefined'')"

definition mk_router :: "(string \<Rightarrow> jsnum) \<Rightarrow> string option \<Rightarrow> host_counter" where
  "mk_router other tunnelCidr =
     (let base = (case tunnelCidr of Some c \<Rightarrow> c | None \<Rightarrow> ''10.10.10.1/24'');
          fields = split CHR ''/'' base;
          parts = map (js_Number other) (split CHR ''.'' (hd fields))
      in \<lparr>hc_prefix = (if 1 < length fields then Some (fields ! 1) else None), hc_parts = parts,
          hc_counter = (if 3 < length parts then js_add1 (parts ! 3) else NaN)\<rparr>)"

definition nextHost :: "host_counter \<Rightarrow> string \<times> host_counter" where
  "nextHost r =
     (part_str (hc_parts r) 0 @ ''.'' @ part_str (hc_parts r) 1 @ ''.'' @ part_str (hc_parts r) 2 @ ''.'' @
        js_num_str (hc_counter r) @ ''/32'',
      r\<lparr>hc_counter := js_add1 (hc_counter r)\<rparr>)"

record PeerDraft =
  pd_comment :: string
  pd_publicKey :: string
  pd_privateKey :: string
  pd_allowedAddress :: string

record IssuedConfig =
  ic_comment :: string
  ic_filename :: string
  ic_text :: string

record peers_form =
  pf_router :: host_counter
  pf_draft :: PeerDraft
  pf_generateKeys :: bool
  pf_issued :: "IssuedConfig list"
  pf_error :: "string option"
  pf_endpoint :: string
  pf_picks :: "string list"
  pf_pending :: bool

definition fresh_draft :: "string \<Rightarrow> PeerDraft" where
  "fresh_draft a = \<lparr>pd_comment = [], pd_publicKey = [], pd_privateKey = [], pd_allowedAddress = a\<rparr>"

definition new_peers_form :: "(string \<Rightarrow> jsnum) \<Rightarrow> string option \<Rightarrow> peers_form" where
  "new_peers_form other tunnelCidr =
     (let (a, r) = nextHost (mk_router other tunnelCidr)
      in \<lparr>pf_router = r, pf_draft = fresh_draft a, pf_generateKeys = True, pf_issued = [], pf_error = None,
          pf_endpoint = [], pf_picks = [''0.0.0.0/0'', ''::/0''], pf_pending = False\<rparr>)"

definition toggleAi :: "string \<Rightarrow> bool \<Rightarrow> string list \<Rightarrow> string list" where
  "toggleAi cidr on picks =
     (if on then jset_add cidr picks else jset_delete cidr picks)"

text \<open>The effect that fills an empty endpoint with the first suggestion.\<close>

definition fill_endpoint :: "string list \<Rightarrow> string \<Rightarrow> string" where
  "fill_endpoint suggestions e = (if e = [] \<and> suggestions \<noteq> [] then hd suggestions else e)"

definition key_missing :: "peers_form \<Rightarrow> bool" where
  "key_missing p \<longleftrightarrow> \<not> pf_generateKeys p \<and> trim (pd_publicKey (pf_draft p)) = []"

definition peer_payload :: "WgInterface \<Rightarrow> peers_form \<Rightarrow> WgPeerCreate" where
  "peer_payload i p = \<lparr>wpc_interface = wi_name i,
     wpc_public_key = (if pf_generateKeys p then Null else Val (trim (pd_publicKey (pf_draft p)))),
     wpc_preshared_key = Undefined, wpc_allowed_address = Val (pd_allowedAddress (pf_draft p)),
     wpc_endpoint_address = Undefined, wpc_endpoint_port = Undefined, wpc_persistent_keepalive = Undefined,
     wpc_comment = nul (pd_comment (pf_draft p))\<rparr>"

definition config_payload :: "WgInterface \<Rightarrow> peers_form \<Rightarrow> string jopt \<Rightarrow> WgConfigRequest" where
  "config_payload i p key = \<lparr>wcr_server_endpoint = pf_endpoint p,
     wcr_server_endpoint_port = (case wi_listen_port i of Some n \<Rightarrow> n | None \<Rightarrow> 51820),
     wcr_client_address = pd_allowedAddress (pf_draft p), wcr_client_dns = Null,
     wcr_allowed_ips = join '', '' (pf_picks p), wcr_persistent_keepalive = Val 25,
     wcr_client_private_key = key\<rparr>"

text \<open>A nullable text field of an answer, as it is passed on.\<close>

definition passed_on :: "json \<Rightarrow> string \<Rightarrow> string jopt" where
  "passed_on j k = (case jget j k of
     None \<Rightarrow> Undefined | Some (JStr s) \<Rightarrow> Val s | Some _ \<Rightarrow> Null)"

definition create_peer :: "env \<Rightarrow> string \<Rightarrow> WgInterface \<Rightarrow> peers_form \<Rightarrow> IssuedConfig call" where
  "create_peer E dev i p =
     (if key_missing p
      then ret (Inl (JsError ''Paste the peer's public key, or switch key generation back on.''))
      else awaiting (createWgPeer E dev (peer_payload i p)) (\<lambda>res.
        if \<not> (case jget res ''id'' of Some v \<Rightarrow> jtruthy v | None \<Rightarrow> False)
        then ret (Inl (JsError ''No peer id returned''))
        else awaiting (downloadWgClientConfig E dev (field_str E (jget res ''id''))
               (config_payload i p (passed_on res ''private_key'')))
             (\<lambda>(filename, text). ret (Inr \<lparr>ic_comment = pd_comment (pf_draft p),
                ic_filename = filename, ic_text = text\<rparr>))))"

definition peer_added :: "IssuedConfig \<Rightarrow> peers_form \<Rightarrow> peers_form" where
  "peer_added cfg p =
     (let (a, r) = nextHost (pf_router p)
      in p\<lparr>pf_router := r, pf_issued := pf_issued p @ [cfg], pf_draft := fresh_draft a, pf_error := None,
           pf_pending := False\<rparr>)"

section \<open>The wizard\<close>

datatype wg_stage = AtInterface | AtAddress | AtPeers

text \<open>
  A mutation under way with the values it was sent with; \<open>nat\<close> names the mounted step that
  sent it. The callbacks given by the page (\<open>onPicked\<close>, \<open>onCreated\<close>) act whenever it settles;
  a step's own state is only set while that step is still on screen.
\<close>

datatype flight = IfaceFlight iface_form | AddrFlight WgInterface addr_form | PeerFlight WgInterface peers_form

record wizard =
  wz_stage :: wg_stage
  wz_iface :: "WgInterface option"
  wz_tunnel :: "string option"
  wz_mount :: nat
  wz_if :: iface_form
  wz_addr :: addr_form
  wz_peers :: peers_form
  wz_flights :: "(nat \<times> flight) list"
  wz_sent :: "WgPeerCreate list"

definition enter :: "(string \<Rightarrow> jsnum) \<Rightarrow> wg_stage \<Rightarrow> wizard \<Rightarrow> wizard" where
  "enter other st s =
     (if wz_stage s = st then s
      else s\<lparr>wz_stage := st, wz_mount := wz_mount s + 1, wz_if := new_iface_form,
        wz_addr := new_addr_form (wz_iface s), wz_peers := new_peers_form other (wz_tunnel s)\<rparr>)"

definition onPicked :: "(string \<Rightarrow> jsnum) \<Rightarrow> WgInterface \<Rightarrow> wizard \<Rightarrow> wizard" where
  "onPicked other i s = enter other AtAddress (s\<lparr>wz_iface := Some i\<rparr>)"

text \<open>On the peers step a new tunnel address only rebuilds the memoised counter.\<close>

definition onCreated :: "(string \<Rightarrow> jsnum) \<Rightarrow> string \<Rightarrow> wizard \<Rightarrow> wizard" where
  "onCreated other cidr s =
     (let s' = s\<lparr>wz_tunnel := Some cidr\<rparr>
      in if wz_stage s \<noteq> AtPeers then enter other AtPeers s'
         else if wz_tunnel s = Some cidr then s'
         else s'\<lparr>wz_peers := (wz_peers s)\<lparr>pf_router := mk_router other (Some cidr)\<rparr>\<rparr>)"

definition launch :: "flight \<Rightarrow> wizard \<Rightarrow> wizard" where
  "launch x s = s\<lparr>wz_flights := wz_flights s @ [(wz_mount s, x)]\<rparr>"

definition landed :: "nat \<times> flight \<Rightarrow> wizard \<Rightarrow> wizard" where
  "landed x s = s\<lparr>wz_flights := remove1 x (wz_flights s)\<rparr>"

inductive wz_step :: "(string \<Rightarrow> jsnum) \<Rightarrow> string set \<Rightarrow> wizard \<Rightarrow> wizard \<Rightarrow> bool"
  for other :: "string \<Rightarrow> jsnum" and lan :: "string set" where
  pick: "wz_stage s = AtInterface \<Longrightarrow> wz_step other lan s (onPicked other i s)"
| edit_iface: "wz_stage s = AtInterface \<Longrightarrow> if_pending f = if_pending (wz_if s) \<Longrightarrow>
    wz_step other lan s (s\<lparr>wz_if := f\<rparr>)"
| iface_unnamed: "wz_stage s = AtInterface \<Longrightarrow> if_creating (wz_if s) \<Longrightarrow> trim (if_name (wz_if s)) = [] \<Longrightarrow>
    wz_step other lan s (s\<lparr>wz_if := (wz_if s)\<lparr>if_error := Some ''Name is required.''\<rparr>\<rparr>)"
| iface_submit: "wz_stage s = AtInterface \<Longrightarrow> if_creating (wz_if s) \<Longrightarrow> trim (if_name (wz_if s)) \<noteq> [] \<Longrightarrow>
    \<not> if_pending (wz_if s) \<Longrightarrow>
    wz_step other lan s (launch (IfaceFlight (wz_if s))
      (s\<lparr>wz_if := (wz_if s)\<lparr>if_error := None, if_pending := True\<rparr>\<rparr>))"
| iface_ok: "(k, IfaceFlight f) \<in> set (wz_flights s) \<Longrightarrow>
    wz_step other lan s (onPicked other i (landed (k, IfaceFlight f) s))"
| iface_failed: "(k, IfaceFlight f) \<in> set (wz_flights s) \<Longrightarrow>
    wz_step other lan s ((landed (k, IfaceFlight f) s)\<lparr>wz_if :=
      (if k = wz_mount s then (wz_if s)\<lparr>if_error := Some m, if_pending := False\<rparr> else wz_if s)\<rparr>)"
| addr_back: "wz_stage s = AtAddress \<Longrightarrow> wz_iface s \<noteq> None \<Longrightarrow> wz_step other lan s (enter other AtInterface s)"
| edit_addr: "wz_stage s = AtAddress \<Longrightarrow> wz_iface s \<noteq> None \<Longrightarrow> af_pending f = af_pending (wz_addr s) \<Longrightarrow>
    wz_step other lan s (s\<lparr>wz_addr := f\<rparr>)"
| addr_no_prefix: "wz_stage s = AtAddress \<Longrightarrow> wz_iface s \<noteq> None \<Longrightarrow>
    \<not> str_includes (af_cidr (wz_addr s)) ''/'' \<Longrightarrow>
    wz_step other lan s (s\<lparr>wz_addr := (wz_addr s)\<lparr>af_error := Some ''Address must include /CIDR.''\<rparr>\<rparr>)"
| addr_submit: "wz_stage s = AtAddress \<Longrightarrow> wz_iface s = Some i \<Longrightarrow> str_includes (af_cidr (wz_addr s)) ''/'' \<Longrightarrow>
    \<not> af_pending (wz_addr s) \<Longrightarrow>
    wz_step other lan s (launch (AddrFlight i (wz_addr s))
      (s\<lparr>wz_addr := (wz_addr s)\<lparr>af_error := None, af_pending := True\<rparr>\<rparr>))"
| addr_skip: "wz_stage s = AtAddress \<Longrightarrow> wz_iface s \<noteq> None \<Longrightarrow>
    wz_step other lan s (onCreated other (af_cidr (wz_addr s)) (s\<lparr>wz_addr := (wz_addr s)\<lparr>af_skipped := True\<rparr>\<rparr>))"
| addr_ok: "(k, AddrFlight i f) \<in> set (wz_flights s) \<Longrightarrow>
    wz_step other lan s (onCreated other (af_cidr f) (landed (k, AddrFlight i f) s))"
| addr_failed: "(k, AddrFlight i f) \<in> set (wz_flights s) \<Longrightarrow>
    wz_step other lan s ((landed (k, AddrFlight i f) s)\<lparr>wz_addr :=
      (if k = wz_mount s then (wz_addr s)\<lparr>af_error := Some m, af_pending := False\<rparr> else wz_addr s)\<rparr>)"
| peers_back: "wz_stage s = AtPeers \<Longrightarrow> wz_iface s \<noteq> None \<Longrightarrow> wz_step other lan s (enter other AtAddress s)"
| edit_draft: "wz_stage s = AtPeers \<Longrightarrow> wz_iface s \<noteq> None \<Longrightarrow>
    wz_step other lan s (s\<lparr>wz_peers := (wz_peers s)\<lparr>pf_draft := d, pf_generateKeys := g, pf_endpoint := e\<rparr>\<rparr>)"
| endpoint_effect: "wz_stage s = AtPeers \<Longrightarrow> wz_iface s \<noteq> None \<Longrightarrow>
    wz_step other lan s (s\<lparr>wz_peers := (wz_peers s)\<lparr>pf_endpoint := fill_endpoint es (pf_endpoint (wz_peers s))\<rparr>\<rparr>)"
| toggle_ai: "wz_stage s = AtPeers \<Longrightarrow> wz_iface s \<noteq> None \<Longrightarrow> c = ''0.0.0.0/0'' \<or> c \<in> lan \<Longrightarrow>
    wz_step other lan s (s\<lparr>wz_peers := (wz_peers s)\<lparr>pf_picks := toggleAi c on (pf_picks (wz_peers s))\<rparr>\<rparr>)"
| peer_submit: "wz_stage s = AtPeers \<Longrightarrow> wz_iface s = Some i \<Longrightarrow> \<not> pf_pending (wz_peers s) \<Longrightarrow>
    wz_step other lan s (launch (PeerFlight i (wz_peers s))
      (s\<lparr>wz_peers := (wz_peers s)\<lparr>pf_pending := True\<rparr>,
         wz_sent := wz_sent s @ (if key_missing (wz_peers s) then [] else [peer_payload i (wz_peers s)])\<rparr>))"
| peer_ok: "(k, PeerFlight i p) \<in> set (wz_flights s) \<Longrightarrow> \<not> key_missing p \<Longrightarrow>
    cfg = \<lparr>ic_comment = pd_comment (pf_draft p), ic_filename = n, ic_text = t\<rparr> \<Longrightarrow>
    wz_step other lan s ((landed (k, PeerFlight i p) s)\<lparr>wz_peers :=
      (if k = wz_mount s then peer_added cfg (wz_peers s) else wz_peers s)\<rparr>)"
| peer_failed: "(k, PeerFlight i p) \<in> set (wz_flights s) \<Longrightarrow>
    wz_step other lan s ((landed (k, PeerFlight i p) s)\<lparr>wz_peers :=
      (if k = wz_mount s then (wz_peers s)\<lparr>pf_error := Some m, pf_pending := False\<rparr> else wz_peers s)\<rparr>)"

definition wz_init :: "(string \<Rightarrow> jsnum) \<Rightarrow> wizard \<Rightarrow> bool" where
  "wz_init other s \<longleftrightarrow> s = \<lparr>wz_stage = AtInterface, wz_iface = None, wz_tunnel = None, wz_mount = 0,
     wz_if = new_iface_form, wz_addr = new_addr_form None, wz_peers = new_peers_form other None,
     wz_flights = [], wz_sent = []\<rparr>"

section \<open>What holds on every screen of the wizard\<close>

definition stage_ready :: "wizard \<Rightarrow> bool" where
  "stage_ready s \<longleftrightarrow> (wz_stage s \<noteq> AtInterface \<longrightarrow> wz_iface s \<noteq> None) \<and>
     (wz_stage s = AtPeers \<longrightarrow> wz_tunnel s \<noteq> None)"

definition key_given :: "WgPeerCreate \<Rightarrow> bool" where
  "key_given p \<longleftrightarrow> (case wpc_public_key p of Null \<Rightarrow> True | Val k \<Rightarrow> k \<noteq> [] \<and> trim k = k | Undefined \<Rightarrow> False)"

fun flight_ok :: "string set \<Rightarrow> wizard \<Rightarrow> flight \<Rightarrow> bool" where
  "flight_ok lan s (IfaceFlight f) \<longleftrightarrow> trim (if_name f) \<noteq> []"
| "flight_ok lan s (AddrFlight i f) \<longleftrightarrow> wz_iface s \<noteq> None \<and> str_includes (af_cidr f) ''/''"
| "flight_ok lan s (PeerFlight i p) \<longleftrightarrow> (''::/0'' \<in> lan \<or> ''::/0'' \<in> set (pf_picks p))"

definition wz_inv :: "string set \<Rightarrow> wizard \<Rightarrow> bool" where
  "wz_inv lan s \<longleftrightarrow> stage_ready s \<and> (''::/0'' \<in> lan \<or> ''::/0'' \<in> set (pf_picks (wz_peers s))) \<and>
     (\<forall>x \<in> snd ` set (wz_flights s). flight_ok lan s x) \<and> list_all key_given (wz_sent s)"

lemma flight_ok_cong: "wz_iface s = wz_iface t \<or> wz_iface t \<noteq> None \<Longrightarrow> flight_ok lan s x \<Longrightarrow> flight_ok lan t x"
  by (cases x) auto

text \<open>A step that keeps what has been sent and launches nothing.\<close>

lemma wz_inv_quiet:
  assumes "wz_inv lan s" "stage_ready t" "''::/0'' \<in> lan \<or> ''::/0'' \<in> set (pf_picks (wz_peers t))"
    "set (wz_flights t) \<subseteq> set (wz_flights s)" "wz_iface s = wz_iface t \<or> wz_iface t \<noteq> None" "wz_sent t = wz_sent s"
  shows "wz_inv lan t"
proof -
  have "flight_ok lan t x" if "x \<in> snd ` set (wz_flights t)" for x
    using that assms(1,4) flight_ok_cong [OF assms(5)] by (auto simp: wz_inv_def)
  with assms show ?thesis by (simp add: wz_inv_def)
qed

lemma wz_inv_local:
  assumes "wz_inv lan s" "wz_stage t = wz_stage s" "wz_iface t = wz_iface s" "wz_tunnel t = wz_tunnel s"
    "pf_picks (wz_peers t) = pf_picks (wz_peers s)" "set (wz_flights t) \<subseteq> set (wz_flights s)" "wz_sent t = wz_sent s"
  shows "wz_inv lan t"
  by (rule wz_inv_quiet [OF assms(1)]) (use assms in \<open>auto simp: wz_inv_def stage_ready_def\<close>)

lemma new_peers_picks [simp]: "pf_picks (new_peers_form other t) = [''0.0.0.0/0'', ''::/0'']"
  by (simp add: new_peers_form_def split: prod.split)

lemma peer_added_picks [simp]: "pf_picks (peer_added cfg p) = pf_picks p"
  by (simp add: peer_added_def split: prod.split)

lemma enter_simps [simp]:
  "wz_stage (enter other st s) = st" "wz_iface (enter other st s) = wz_iface s"
  "wz_tunnel (enter other st s) = wz_tunnel s" "wz_flights (enter other st s) = wz_flights s"
  "wz_sent (enter other st s) = wz_sent s"
  by (simp_all add: enter_def)

lemma enter_picks: "''::/0'' \<in> set (pf_picks (wz_peers s)) \<Longrightarrow> ''::/0'' \<in> set (pf_picks (wz_peers (enter other st s)))"
  by (simp add: enter_def)

lemma landed_simps [simp]:
  "wz_stage (landed x s) = wz_stage s" "wz_iface (landed x s) = wz_iface s" "wz_tunnel (landed x s) = wz_tunnel s"
  "wz_peers (landed x s) = wz_peers s" "wz_sent (landed x s) = wz_sent s"
  "wz_flights (landed x s) = remove1 x (wz_flights s)"
  by (simp_all add: landed_def)

lemma wz_inv_onPicked: "wz_inv lan s \<Longrightarrow> set (wz_flights t) \<subseteq> set (wz_flights s) \<Longrightarrow> wz_peers t = wz_peers s \<Longrightarrow>
    wz_sent t = wz_sent s \<Longrightarrow> wz_inv lan (onPicked other i t)"
  by (rule wz_inv_quiet [of lan s]) (auto simp: onPicked_def stage_ready_def wz_inv_def intro: enter_picks)

lemma wz_inv_onCreated:
  assumes "wz_inv lan s" "wz_iface s \<noteq> None" "wz_iface t = wz_iface s"
    "set (wz_flights t) \<subseteq> set (wz_flights s)" "wz_peers t = wz_peers s" "wz_sent t = wz_sent s"
  shows "wz_inv lan (onCreated other c t)"
  using assms(2-6)
  by (intro wz_inv_quiet [OF assms(1)])
    (use assms(1) in \<open>auto simp: onCreated_def Let_def stage_ready_def wz_inv_def intro: enter_picks\<close>)

lemma wz_inv_enter:
  assumes "wz_inv lan s" "wz_iface s \<noteq> None" "st \<noteq> AtPeers"
  shows "wz_inv lan (enter other st s)"
  using assms(2,3)
  by (intro wz_inv_quiet [OF assms(1)])
    (use assms(1) in \<open>auto simp: stage_ready_def wz_inv_def intro: enter_picks\<close>)

lemma wz_inv_launch:
  assumes "wz_inv lan s" "flight_ok lan s x" "stage_ready t" "pf_picks (wz_peers t) = pf_picks (wz_peers s)"
    "wz_flights t = wz_flights s" "wz_iface t = wz_iface s" "list_all key_given (wz_sent t)"
  shows "wz_inv lan (launch x t)"
proof -
  have "flight_ok lan (launch x t) y" if "flight_ok lan s y" for y
    by (rule flight_ok_cong [OF _ that]) (simp add: launch_def assms(6))
  with assms show ?thesis by (auto simp: wz_inv_def launch_def stage_ready_def)
qed

lemma key_given_payload: "\<not> key_missing p \<Longrightarrow> key_given (peer_payload i p)"
  by (auto simp: key_given_def peer_payload_def key_missing_def)

lemma wz_invD:
  assumes "wz_inv lan s"
  shows "stage_ready s" "''::/0'' \<in> lan \<or> ''::/0'' \<in> set (pf_picks (wz_peers s))"
    "list_all key_given (wz_sent s)" "(k, x) \<in> set (wz_flights s) \<Longrightarrow> flight_ok lan s x"
  using assms by (auto simp: wz_inv_def)

lemma toggleAi_keeps: "x \<in> set picks \<Longrightarrow> c \<noteq> x \<Longrightarrow> x \<in> set (toggleAi c on picks)"
  by (simp add: toggleAi_def)

lemma wz_inv_step:
  assumes "wz_inv lan s" "wz_step other lan s t"
  shows "wz_inv lan t"
  using assms(2,1)
proof (induction rule: wz_step.induct)
  case (pick s i)
  then show ?case by (intro wz_inv_onPicked [OF pick(2)]) auto
next
  case (iface_ok k f s i)
  then show ?case by (intro wz_inv_onPicked [OF iface_ok(2)]) (auto dest: subsetD [OF set_remove1_subset])
next
  case (iface_submit s)
  then show ?case
    by (intro wz_inv_launch [OF iface_submit(5)]) (auto simp: stage_ready_def dest: wz_invD)
next
  case (addr_submit s i)
  then show ?case
    by (intro wz_inv_launch [OF addr_submit(5)]) (auto simp: stage_ready_def dest: wz_invD)
next
  case (addr_back s)
  then show ?case by (intro wz_inv_enter) auto
next
  case (peers_back s)
  then show ?case by (intro wz_inv_enter) auto
next
  case (addr_skip s)
  then show ?case by (intro wz_inv_onCreated [OF addr_skip(3)]) auto
next
  case (addr_ok k i f s)
  with wz_invD(4) [OF addr_ok(2,1)] show ?case
    by (intro wz_inv_onCreated [OF addr_ok(2)]) (auto dest: subsetD [OF set_remove1_subset])
next
  case (peer_submit s i)
  show ?case
    by (rule wz_inv_launch [OF peer_submit(4)])
      (use wz_invD [OF peer_submit(4)] in \<open>auto simp: stage_ready_def key_given_payload\<close>)
next
  case (toggle_ai s c on)
  show ?case
    by (rule wz_inv_quiet [OF toggle_ai(4)])
      (use wz_invD [OF toggle_ai(4)] toggle_ai(3) in \<open>auto simp: stage_ready_def intro: toggleAi_keeps\<close>)
qed (erule wz_inv_local; simp add: set_remove1_subset)+

interpretation wg_wizard: invariant_system "wz_init other" "wz_step other lan" "wz_inv lan" for other lan
proof
  show "wz_init other s \<Longrightarrow> wz_inv lan s" for s
    by (simp add: wz_init_def wz_inv_def stage_ready_def)
qed (rule wz_inv_step)

lemma join_infix: "w \<in> set ws \<Longrightarrow> sublist w (join sep ws)"
proof (induction sep ws rule: join.induct)
  case (3 sep w' v ws)
  show ?case
  proof (cases "w = w'")
    case False
    with 3 obtain ps ss where "join sep (v # ws) = ps @ w @ ss" by (auto simp: sublist_def)
    then have "join sep (w' # v # ws) = (w' @ sep @ ps) @ w @ ss" by simp
    then show ?thesis unfolding sublist_def by blast
  qed simp
qed auto

text \<open>
  C21. The wizard never shows an empty step: whatever settles late, past the interface step
  there is an interface, and on the peers step also a tunnel address, so the built-in fallback
  address is never suggested from. No interface without a name and no address without a
  prefix is submitted, and a peer is requested with a key to be generated or with a trimmed
  key that is not empty.
\<close>

theorem wizard_steps_ok:
  assumes "reaches (wz_init other) (wz_step other lan) s"
  shows "(wz_stage s \<noteq> AtInterface \<longrightarrow> wz_iface s \<noteq> None) \<and> (wz_stage s = AtPeers \<longrightarrow> wz_tunnel s \<noteq> None) \<and>
    list_all key_given (wz_sent s) \<and>
    ((k, IfaceFlight f) \<in> set (wz_flights s) \<longrightarrow> trim (if_name f) \<noteq> []) \<and>
    ((k, AddrFlight i a) \<in> set (wz_flights s) \<longrightarrow> str_includes (af_cidr a) ''/'')"
proof -
  note inv = wz_invD [OF wg_wizard.reachable_inv [OF assms]]
  show ?thesis using inv(1,3) inv(4) [of k "IfaceFlight f"] inv(4) [of k "AddrFlight i a"]
    by (simp add: stage_ready_def)
qed

text \<open>
  The client of every peer sends all IPv6 traffic into the tunnel: \<open>::/0\<close> is picked to
  begin with and no box on the screen takes it away, so every configuration is requested with
  it, also when the operator has unticked the full tunnel.
\<close>

theorem wizard_ipv6_always_routed:
  assumes "reaches (wz_init other) (wz_step other lan) s" "''::/0'' \<notin> lan"
    "(k, PeerFlight i p) \<in> set (wz_flights s)"
  shows "str_includes (wcr_allowed_ips (config_payload i p key)) ''::/0''"
  using wz_invD(4) [OF wg_wizard.reachable_inv [OF assms(1)] assms(3)] assms(2)
  by (simp add: config_payload_def includes_sublist join_infix)

section \<open>Suggested addresses\<close>

definition tunnel_text :: "nat \<Rightarrow> nat \<Rightarrow> nat \<Rightarrow> nat \<Rightarrow> nat \<Rightarrow> string" where
  "tunnel_text a b c d p = quad a b c d @ ''/'' @ show_nat p"

definition suggestion :: "(string \<Rightarrow> jsnum) \<Rightarrow> string \<Rightarrow> nat \<Rightarrow> string" where
  "suggestion other base n = fst (nextHost (((snd \<circ> nextHost) ^^ n) (mk_router other (Some base))))"

lemma Number_show_nat [simp]: "js_Number other (show_nat n) = Num (int n)"
  by (simp add: js_Number_def list_all_iff show_nat_digits)

lemma router_of_cidr:
  "mk_router other (Some (quad a b c d @ CHR ''/'' # q)) =
     \<lparr>hc_prefix = Some (hd (split CHR ''/'' q)), hc_parts = map (Num \<circ> int) [a, b, c, d], hc_counter = Num (int d + 1)\<rparr>"
proof -
  have "split CHR ''/'' (quad a b c d @ CHR ''/'' # q) = quad a b c d # split CHR ''/'' q"
    by (simp add: split_append_sep)
  then show ?thesis by (simp add: mk_router_def split_quad Let_def hd_conv_nth)
qed

lemma router_after:
  "((snd \<circ> nextHost) ^^ n) (mk_router other (Some (quad a b c d @ CHR ''/'' # q))) =
     \<lparr>hc_prefix = Some (hd (split CHR ''/'' q)), hc_parts = map (Num \<circ> int) [a, b, c, d], hc_counter = Num (int (d + 1 + n))\<rparr>"
  by (induction n) (simp_all add: router_of_cidr nextHost_def)

lemma show_int_of_nat [simp]: "show_int (int n) = show_nat n"
  by (simp add: show_int_def)

lemma suggestion_eq: "suggestion other (quad a b c d @ CHR ''/'' # q) n = quad a b c (d + 1 + n) @ ''/32''"
  unfolding suggestion_def router_after
  by (simp add: nextHost_def part_str_def quad_def del: of_nat_add of_nat_Suc of_nat_1)

text \<open>
  The addresses suggested to successive peers of a tunnel \<open>a.b.c.d/p\<close> count up from the
  router's own: they differ from it and from each other. They are addresses of the tunnel
  range only as long as the last number stays below 256 and inside the prefix; the counter
  itself does not stop there.
\<close>

theorem peer_suggestions:
  "suggestion other (tunnel_text a b c d p) n = quad a b c (d + 1 + n) @ ''/32'' \<and>
   (suggestion other (tunnel_text a b c d p) m = suggestion other (tunnel_text a b c d p) n \<longleftrightarrow> m = n) \<and>
   suggestion other (tunnel_text a b c d p) n \<noteq> quad a b c d @ ''/32'' \<and>
   ((\<exists>e f g h. e \<le> 255 \<and> f \<le> 255 \<and> g \<le> 255 \<and> h \<le> 255 \<and>
        suggestion other (tunnel_text a b c d p) n = quad e f g h @ ''/32'' \<and>
        ip4 e f g h div 2 ^ (32 - p) = ip4 a b c d div 2 ^ (32 - p)) \<longleftrightarrow>
      a \<le> 255 \<and> b \<le> 255 \<and> c \<le> 255 \<and> d + 1 + n \<le> 255 \<and>
        ip4 a b c (d + 1 + n) div 2 ^ (32 - p) = ip4 a b c d div 2 ^ (32 - p))"
  unfolding tunnel_text_def append_Cons append_Nil suggestion_eq append_same_eq quad_inj by auto

lemma sends_punch_hole:
  assumes "ky_contract E" "lock_contract E"
    and "\<And>r. asks_for (mk_request E POST (''devices/'' @ dev @ ''/firewall/filter'')
          (with_json (FilterRuleCreate_json (hole_rule E f)))) r \<Longrightarrow> R r"
    and "\<And>r. asks_for (mk_request E GET (''devices/'' @ dev @ ''/firewall/filter'') no_args) r \<Longrightarrow> R r"
    and "\<And>i b r. asks_for (mk_request E POST (''devices/'' @ dev @ ''/firewall/filter/'' @ encodeURIComponent i @ ''/move'')
          (with_json (JObj [(''before_id'', JStr b)]))) r \<Longrightarrow> R r"
  shows "sends E R (punch_hole E kt dev f)"
  unfolding punch_hole_def move_to_top_def createFilterRule_def listFilterRules_def moveFilterRule_def jnull.simps
  by (intro sends_rules) (erule assms | rule assms)+

lemma sends_submit_interface:
  assumes "ky_contract E" "lock_contract E"
    and "\<And>r. asks_for (mk_request E POST (''devices/'' @ dev @ ''/wireguard/interfaces'')
        (with_json (WgInterfaceCreate_json (iface_payload f)))) r \<Longrightarrow> R r"
    and "\<And>r. asks_for (mk_request E GET (''devices/'' @ dev @ ''/wireguard/interfaces'') no_args) r \<Longrightarrow> R r"
    and "\<And>r. if_openFirewall f \<Longrightarrow> asks_for (mk_request E POST (''devices/'' @ dev @ ''/firewall/filter'')
          (with_json (FilterRuleCreate_json (hole_rule E f)))) r \<Longrightarrow> R r"
    and "\<And>r. if_openFirewall f \<Longrightarrow> asks_for (mk_request E GET (''devices/'' @ dev @ ''/firewall/filter'') no_args) r \<Longrightarrow> R r"
    and "\<And>i b r. if_openFirewall f \<Longrightarrow>
        asks_for (mk_request E POST (''devices/'' @ dev @ ''/firewall/filter/'' @ encodeURIComponent i @ ''/move'')
          (with_json (JObj [(''before_id'', JStr b)]))) r \<Longrightarrow> R r"
  shows "sends E R (submit_interface E kt dev f)"
  unfolding submit_interface_def create_interface_def created_interface_def createWgInterface_def listWgInterfaces_def
  by (intro sends_rules sends_punch_hole [OF assms(1,2)]) (rule assms; assumption?)+

text \<open>
  What creating an interface may send: the interface that was asked for, and nothing to
  the firewall unless the operator left the box ticked. Then it is one kind of rule, accepting
  UDP on the listen port in the input chain, the list of rules, and moves of a rule.
\<close>

theorem interface_request_scope:
  assumes "ky_contract E" "lock_contract E" "\<not> refreshInFlight s"
    and "run_state (submit_interface E kt dev f) s = (x, s')"
  shows "\<exists>post. wire s' = wire s @ post \<and> list_all (\<lambda>r. r = refresh_request E \<or>
     asks_for (mk_request E POST (''devices/'' @ dev @ ''/wireguard/interfaces'')
        (with_json (WgInterfaceCreate_json (iface_payload f)))) r \<or>
     asks_for (mk_request E GET (''devices/'' @ dev @ ''/wireguard/interfaces'') no_args) r \<or>
     if_openFirewall f \<and>
      (asks_for (mk_request E POST (''devices/'' @ dev @ ''/firewall/filter'')
          (with_json (FilterRuleCreate_json (hole_rule E f)))) r \<or>
       asks_for (mk_request E GET (''devices/'' @ dev @ ''/firewall/filter'') no_args) r \<or>
       (\<exists>i b. asks_for (mk_request E POST (''devices/'' @ dev @ ''/firewall/filter/'' @ encodeURIComponent i @ ''/move'')
          (with_json (JObj [(''before_id'', JStr b)]))) r))) post"
    (is "\<exists>post. _ \<and> list_all (\<lambda>r. _ \<or> ?R r) post")
proof -
  have "sends E ?R (submit_interface E kt dev f)"
    by (rule sends_submit_interface [OF assms(1,2)];
        (simp; fail)?; intro disjI2 conjI, assumption, intro exI, assumption)
  then show ?thesis by (rule sends_wire [OF _ assms(3,4)])
qed

text \<open>
  An interface that could not be created touches nothing else, and a failure around the
  firewall rule never loses the interface.
\<close>

lemma interface_first:
  assumes "run_state (createWgInterface E dev (iface_payload f)) s = (Inl e, s')"
  shows "run_state (submit_interface E kt dev f) s = (Inl e, s')"
  using assms by (simp add: submit_interface_def create_interface_def run_awaiting)

lemma hole_never_fatal: "\<exists>ws s'. run_state (punch_hole E kt dev f) s = (Inr ws, s') \<and> length ws \<le> 1"
  by (simp add: punch_hole_def run_catching run_awaiting split: prod.split sum.split)

section \<open>Addresses handed out twice\<close>

text \<open>Steps in which the operator leaves the suggested draft alone.\<close>

definition hands_off :: "(string \<Rightarrow> jsnum) \<Rightarrow> string set \<Rightarrow> wizard \<Rightarrow> wizard \<Rightarrow> bool" where
  "hands_off other lan s t \<longleftrightarrow> wz_step other lan s t \<and>
     (wz_mount t = wz_mount s \<and> pf_router (wz_peers t) = pf_router (wz_peers s) \<longrightarrow>
        pf_draft (wz_peers t) = pf_draft (wz_peers s))"

lemma hands_off_reaches: "reaches i (hands_off other lan) s \<Longrightarrow> reaches i (wz_step other lan) s"
  by (induction rule: reaches.induct) (auto intro: reaches.intros simp: hands_off_def)

definition demo_iface :: WgInterface where
  "demo_iface = \<lparr>wi_id = Some ''*1'', wi_name = ''wg-net'', wi_listen_port = Some 51820, wi_public_key = None,
     wi_mtu = Some 1420, wi_disabled = False, wi_comment = None\<rparr>"

definition wizard_start :: "(string \<Rightarrow> jsnum) \<Rightarrow> wizard" where
  "wizard_start other = \<lparr>wz_stage = AtInterface, wz_iface = None, wz_tunnel = None, wz_mount = 0,
     wz_if = new_iface_form, wz_addr = new_addr_form None, wz_peers = new_peers_form other None,
     wz_flights = [], wz_sent = []\<rparr>"

text \<open>The peers step as it opens when the address step is skipped.\<close>

definition skipped_to_peers :: "(string \<Rightarrow> jsnum) \<Rightarrow> nat \<Rightarrow> WgPeerCreate list \<Rightarrow> wizard" where
  "skipped_to_peers other k sent = \<lparr>wz_stage = AtPeers, wz_iface = Some demo_iface, wz_tunnel = Some ''10.10.10.1/24'',
     wz_mount = k, wz_if = new_iface_form, wz_addr = new_addr_form (Some demo_iface),
     wz_peers = new_peers_form other (Some ''10.10.10.1/24''), wz_flights = [], wz_sent = sent\<rparr>"

definition submitted :: "wizard \<Rightarrow> wizard" where
  "submitted s = launch (PeerFlight demo_iface (wz_peers s))
     (s\<lparr>wz_peers := (wz_peers s)\<lparr>pf_pending := True\<rparr>, wz_sent := wz_sent s @ [peer_payload demo_iface (wz_peers s)]\<rparr>)"

lemma new_peers_simps [simp]:
  "pf_pending (new_peers_form other t) = False" "key_missing (new_peers_form other t) = False"
  by (simp_all add: new_peers_form_def key_missing_def split: prod.split)

lemma reach_peers: "reaches (wz_init other) (hands_off other lan) (skipped_to_peers other (Suc (Suc 0)) [])"
proof -
  let ?a = "onPicked other demo_iface (wizard_start other)"
  have "reaches (wz_init other) (hands_off other lan) ?a"
    by (rule reaches_one [where s = "wizard_start other"])
      (auto simp: wz_init_def wizard_start_def hands_off_def onPicked_def enter_def
        intro: pick [where s = "wizard_start other", unfolded wizard_start_def onPicked_def enter_def, simplified])
  moreover have "hands_off other lan ?a (onCreated other (af_cidr (wz_addr ?a)) (?a\<lparr>wz_addr := (wz_addr ?a)\<lparr>af_skipped := True\<rparr>\<rparr>))"
    unfolding hands_off_def
    by (intro conjI addr_skip) (simp_all add: onPicked_def onCreated_def enter_def wizard_start_def)
  ultimately have "reaches (wz_init other) (hands_off other lan)
      (onCreated other (af_cidr (wz_addr ?a)) (?a\<lparr>wz_addr := (wz_addr ?a)\<lparr>af_skipped := True\<rparr>\<rparr>))"
    by (rule reaches_step)
  then show ?thesis
    by (simp add: onPicked_def onCreated_def enter_def wizard_start_def new_addr_form_def skipped_to_peers_def)
qed

lemma submit_step: "wz_step other lan (skipped_to_peers other k sent) (submitted (skipped_to_peers other k sent))"
  using peer_submit [where s = "skipped_to_peers other k sent" and i = demo_iface]
  by (simp add: skipped_to_peers_def submitted_def)

lemma reach_submitted:
  assumes "reaches (wz_init other) (hands_off other lan) (skipped_to_peers other k sent)"
  shows "reaches (wz_init other) (hands_off other lan) (submitted (skipped_to_peers other k sent))"
  by (rule reaches_step [OF assms])
    (simp add: hands_off_def submit_step, simp add: submitted_def launch_def)

text \<open>Going back from the peers step and skipping the address opens it afresh.\<close>

lemma back_and_skip:
  assumes "reaches (wz_init other) (hands_off other lan) t" "wz_stage t = AtPeers"
    "wz_iface t = Some demo_iface" "wz_flights t = []"
  shows "reaches (wz_init other) (hands_off other lan) (skipped_to_peers other (Suc (Suc (wz_mount t))) (wz_sent t))"
proof -
  define u where "u = enter other AtAddress t"
  have "hands_off other lan t u"
    unfolding hands_off_def u_def by (intro conjI peers_back) (simp_all add: assms enter_def)
  with assms(1) have r: "reaches (wz_init other) (hands_off other lan) u" by (rule reaches_step)
  have u: "wz_stage u = AtAddress" "wz_iface u = Some demo_iface" "wz_flights u = []" "wz_sent u = wz_sent t"
    "wz_mount u = Suc (wz_mount t)" "wz_addr u = new_addr_form (Some demo_iface)"
    using assms by (simp_all add: u_def enter_def)
  have "hands_off other lan u (onCreated other (af_cidr (wz_addr u)) (u\<lparr>wz_addr := (wz_addr u)\<lparr>af_skipped := True\<rparr>\<rparr>))"
    unfolding hands_off_def
    by (intro conjI addr_skip) (simp_all add: u onCreated_def enter_def)
  with r have "reaches (wz_init other) (hands_off other lan)
      (onCreated other (af_cidr (wz_addr u)) (u\<lparr>wz_addr := (wz_addr u)\<lparr>af_skipped := True\<rparr>\<rparr>))"
    by (rule reaches_step)
  moreover have "onCreated other (af_cidr (wz_addr u)) (u\<lparr>wz_addr := (wz_addr u)\<lparr>af_skipped := True\<rparr>\<rparr>) =
      skipped_to_peers other (Suc (Suc (wz_mount t))) (wz_sent t)"
    using u by (simp add: onCreated_def enter_def new_addr_form_def skipped_to_peers_def)
  ultimately show ?thesis by simp
qed

text \<open>The configuration of the first peer arrives, and the operator goes back and skips again.\<close>

lemma reach_again:
  assumes "reaches (wz_init other) (hands_off other lan) (submitted (skipped_to_peers other k []))"
  shows "reaches (wz_init other) (hands_off other lan)
    (skipped_to_peers other (Suc (Suc k)) [peer_payload demo_iface (new_peers_form other (Some ''10.10.10.1/24''))])"
proof -
  let ?f = "new_peers_form other (Some ''10.10.10.1/24'')"
  let ?s = "submitted (skipped_to_peers other k [])"
  let ?cfg = "\<lparr>ic_comment = pd_comment (pf_draft ?f), ic_filename = ''wg.conf'', ic_text = []\<rparr>"
  let ?t = "(landed (k, PeerFlight demo_iface ?f) ?s)\<lparr>wz_peers :=
      (if k = wz_mount ?s then peer_added ?cfg (wz_peers ?s) else wz_peers ?s)\<rparr>"
  have m: "(k, PeerFlight demo_iface ?f) \<in> set (wz_flights ?s)"
    by (simp add: submitted_def skipped_to_peers_def launch_def)
  have "pf_router (wz_peers ?t) \<noteq> pf_router (wz_peers ?s)"
    using router_of_cidr [of other 10 10 10 1 "''24''"]
    by (simp add: submitted_def skipped_to_peers_def launch_def peer_added_def nextHost_def
        new_peers_form_def quad_def show_nat.simps digit_def)
  then have "hands_off other lan ?s ?t"
    unfolding hands_off_def by (intro conjI peer_ok [OF m] refl) simp_all
  with assms have "reaches (wz_init other) (hands_off other lan) ?t" by (rule reaches_step)
  from back_and_skip [OF this] show ?thesis
    by (simp add: submitted_def skipped_to_peers_def launch_def landed_def)
qed

text \<open>
  The wizard can hand out one tunnel address twice: its counter starts again whenever the
  peers step is opened, so going back and forward suggests to the next peer the address of the
  first, and with no typing at all two equal peers are requested.
\<close>

theorem wizard_repeats_address:
  "\<exists>s p. reaches (wz_init other) (hands_off other lan) s \<and> wz_sent s = [p, p] \<and>
     wpc_allowed_address p = Val (suggestion other ''10.10.10.1/24'' 0)"
proof -
  let ?p = "peer_payload demo_iface (new_peers_form other (Some ''10.10.10.1/24''))"
  let ?s = "submitted (skipped_to_peers other (Suc (Suc (Suc (Suc 0)))) [?p])"
  have "reaches (wz_init other) (hands_off other lan) ?s"
    by (intro reach_submitted reach_again reach_peers)
  moreover have "wz_sent ?s = [?p, ?p]" by (simp add: submitted_def skipped_to_peers_def launch_def)
  moreover have "wpc_allowed_address ?p = Val (suggestion other ''10.10.10.1/24'' 0)"
    by (simp add: peer_payload_def new_peers_form_def suggestion_def fresh_draft_def split: prod.split)
  ultimately show ?thesis by blast
qed

text \<open>
  When the configuration cannot be fetched the peer exists and its minted key is gone: the
  whole mutation fails with that error, and the screen keeps the draft, from which the next
  attempt requests the same peer once more.
\<close>

lemma config_failure_loses_key:
  assumes "run_state (createWgPeer E dev (peer_payload i p)) s = (Inr res, s1)" "\<not> key_missing p"
    and "jget res ''id'' = Some v" "jtruthy v"
    and "run_state (downloadWgClientConfig E dev (field_str E (Some v))
           (config_payload i p (passed_on res ''private_key''))) s1 = (Inl e, s2)"
  shows "run_state (create_peer E dev i p) s = (Inl e, s2)"
  using assms by (simp add: create_peer_def run_awaiting)

lemma failed_draft_kept:
  "peer_payload i (p\<lparr>pf_pending := True, pf_error := Some m, pf_pending := False\<rparr>) = peer_payload i p"
  by (simp add: peer_payload_def)

section \<open>Witnesses\<close>

theorem wizard_steps_ok_witness:
  "\<exists>s. reaches (wz_init (\<lambda>_. NaN)) (wz_step (\<lambda>_. NaN) {}) s \<and> wz_stage s = AtPeers \<and> wz_tunnel s \<noteq> None"
proof -
  let ?s = "skipped_to_peers (\<lambda>_. NaN) (Suc (Suc 0)) []"
  have r: "reaches (wz_init (\<lambda>_. NaN)) (wz_step (\<lambda>_. NaN) {}) ?s" by (rule hands_off_reaches [OF reach_peers])
  have "wz_stage ?s = AtPeers" by (simp add: skipped_to_peers_def)
  with wizard_steps_ok [OF r] r show ?thesis by blast
qed

theorem wizard_ipv6_always_routed_witness:
  "str_includes (wcr_allowed_ips (config_payload demo_iface (new_peers_form (\<lambda>_. NaN) (Some ''10.10.10.1/24'')) Null)) ''::/0''"
proof -
  have "reaches (wz_init (\<lambda>_. NaN)) (wz_step (\<lambda>_. NaN) {}) (submitted (skipped_to_peers (\<lambda>_. NaN) (Suc (Suc 0)) []))"
    by (rule hands_off_reaches [OF reach_submitted [OF reach_peers]])
  from wizard_ipv6_always_routed [OF this, of 2 demo_iface] show ?thesis
    by (simp add: submitted_def skipped_to_peers_def launch_def)
qed

theorem interface_request_scope_witness:
  "list_all (\<lambda>r. r = refresh_request demo_env \<or>
     asks_for (mk_request demo_env POST ''devices/r1/wireguard/interfaces''
        (with_json (WgInterfaceCreate_json (iface_payload (new_iface_form\<lparr>if_openFirewall := False\<rparr>))))) r \<or>
     asks_for (mk_request demo_env GET ''devices/r1/wireguard/interfaces'' no_args) r)
   (wire (snd (run_state (submit_interface demo_env (\<lambda>_. []) ''r1'' (new_iface_form\<lparr>if_openFirewall := False\<rparr>)) demo_client)))"
  using interface_request_scope [OF demo_contracts prod.collapse [symmetric],
    of "\<lambda>_. []" "''r1''" "new_iface_form\<lparr>if_openFirewall := False\<rparr>"]
  by (simp add: demo_client_def)

end
