(* ===== verification/S2S_Wizard.thy ===== *)
theory S2S_Wizard
  imports Request_Scope Bulk_Firmware
begin

text \<open>
  The site-to-site wizard, \<open>app/dashboard/wg-s2s/new/page.tsx\<close>: two routers, the addressing of
  the tunnel, the networks each side exposes, the firewall, and one request that builds it
  all. The page is a step relation over its state; what the routers suggest (networks,
  endpoints) is a function of the device, and the answer to the request may come at any time.
\<close>

section \<open>Pure helpers\<close>

definition togglePicks :: "string list \<Rightarrow> string \<Rightarrow> bool \<Rightarrow> string list" where
  "togglePicks picks val on = (if on then jset_add val picks else jset_delete val picks)"

definition cidr_sep :: "char \<Rightarrow> bool" where
  "cidr_sep c \<longleftrightarrow> c = CHR '','' \<or> is_ws c"

definition mergeCidrs :: "string list \<Rightarrow> string \<Rightarrow> string list" where
  "mergeCidrs picks extra =
     fold jset_add (filter (\<lambda>c. c \<noteq> []) (map trim (words_by cidr_sep extra))) picks"

section \<open>The page\<close>

datatype s2s_stage = Pick | Addressing | Subnets | FirewallStage | Review | Done

record s2s_page =
  sw_step :: s2s_stage
  sw_deviceAId :: string
  sw_deviceBId :: string
  sw_tunnelBase :: string
  sw_prefix :: nat
  sw_ifaceA :: string
  sw_ifaceB :: string
  sw_listenPort :: rat
  sw_publicEndpoint :: string
  sw_commentTag :: string
  sw_keepalive :: rat
  sw_exposeA :: "string list"
  sw_exposeB :: "string list"
  sw_extraExposeA :: string
  sw_extraExposeB :: string
  sw_openFirewallA :: bool
  sw_createForwardRules :: bool
  sw_createRoutes :: bool
  sw_applying :: "S2SCreateRequest option"
  sw_sent :: "S2SCreateRequest list"

definition s2s_start :: s2s_page where
  "s2s_start = \<lparr>sw_step = Pick, sw_deviceAId = [], sw_deviceBId = [], sw_tunnelBase = ''10.99.0'', sw_prefix = 30,
     sw_ifaceA = ''wg-to-b'', sw_ifaceB = ''wg-to-a'', sw_listenPort = 51820, sw_publicEndpoint = [],
     sw_commentTag = ''site-to-site-1'', sw_keepalive = 25, sw_exposeA = [], sw_exposeB = [], sw_extraExposeA = [],
     sw_extraExposeB = [], sw_openFirewallA = True, sw_createForwardRules = True, sw_createRoutes = True,
     sw_applying = None, sw_sent = []\<rparr>"

definition tunnelCidrA :: "s2s_page \<Rightarrow> string" where
  "tunnelCidrA s = sw_tunnelBase s @ ''.1/'' @ show_nat (sw_prefix s)"

definition tunnelCidrB :: "s2s_page \<Rightarrow> string" where
  "tunnelCidrB s = sw_tunnelBase s @ ''.2/'' @ show_nat (sw_prefix s)"

definition finalExposeA :: "s2s_page \<Rightarrow> string list" where
  "finalExposeA s = mergeCidrs (sw_exposeA s) (sw_extraExposeA s)"

definition finalExposeB :: "s2s_page \<Rightarrow> string list" where
  "finalExposeB s = mergeCidrs (sw_exposeB s) (sw_extraExposeB s)"

definition s2s_request :: "s2s_page \<Rightarrow> S2SCreateRequest" where
  "s2s_request s = \<lparr>
     sscr_a = \<lparr>sss_device_id = sw_deviceAId s, sss_interface_name = sw_ifaceA s,
        sss_tunnel_cidr = tunnelCidrA s, sss_expose_subnets = finalExposeA s\<rparr>,
     sscr_b = \<lparr>sss_device_id = sw_deviceBId s, sss_interface_name = sw_ifaceB s,
        sss_tunnel_cidr = tunnelCidrB s, sss_expose_subnets = finalExposeB s\<rparr>,
     sscr_listen_port = sw_listenPort s, sscr_public_endpoint = sw_publicEndpoint s,
     sscr_comment_tag = sw_commentTag s, sscr_open_firewall_on_a = sw_openFirewallA s,
     sscr_create_forward_rules = sw_createForwardRules s, sscr_create_routes = sw_createRoutes s,
     sscr_persistent_keepalive = sw_keepalive s\<rparr>"

definition canAdvance :: "s2s_page \<Rightarrow> s2s_stage \<Rightarrow> bool" where
  "canAdvance s st =
     (if st = Pick then sw_deviceAId s \<noteq> [] \<and> sw_deviceBId s \<noteq> [] \<and> sw_deviceAId s \<noteq> sw_deviceBId s
      else if st = Addressing then
        trim (sw_ifaceA s) \<noteq> [] \<and> trim (sw_ifaceB s) \<noteq> [] \<and> trim (sw_tunnelBase s) \<noteq> [] \<and>
        trim (sw_publicEndpoint s) \<noteq> [] \<and> sw_listenPort s > 0
      else True)"

text \<open>The options of a device menu: no device, or a MikroTik router the other menu does not show.\<close>

definition DevicePick :: "Device list \<Rightarrow> string \<Rightarrow> string list" where
  "DevicePick ds excludeId = [] # map d_id (filter (\<lambda>d. d_id d \<noteq> excludeId \<and> d_vendor d = ''mikrotik'') ds)"

fun next_stage :: "s2s_stage \<Rightarrow> s2s_stage" where
  "next_stage Pick = Addressing"
| "next_stage Addressing = Subnets"
| "next_stage Subnets = FirewallStage"
| "next_stage FirewallStage = Review"
| "next_stage Review = Review"
| "next_stage Done = Done"

fun prev_stage :: "s2s_stage \<Rightarrow> s2s_stage" where
  "prev_stage Addressing = Pick"
| "prev_stage Subnets = Addressing"
| "prev_stage FirewallStage = Subnets"
| "prev_stage Review = FirewallStage"
| "prev_stage st = st"

inductive s2s_step :: "Device list \<Rightarrow> (string \<Rightarrow> string list) \<Rightarrow> (string \<Rightarrow> string list) \<Rightarrow> s2s_page \<Rightarrow> s2s_page \<Rightarrow> bool"
  for ds :: "Device list" and subnets :: "string \<Rightarrow> string list" and endpoints :: "string \<Rightarrow> string list" where
  pick_a: "sw_step s = Pick \<Longrightarrow> i \<in> set (DevicePick ds (sw_deviceBId s)) \<Longrightarrow>
    s2s_step ds subnets endpoints s (s\<lparr>sw_deviceAId := i\<rparr>)"
| pick_b: "sw_step s = Pick \<Longrightarrow> i \<in> set (DevicePick ds (sw_deviceAId s)) \<Longrightarrow>
    s2s_step ds subnets endpoints s (s\<lparr>sw_deviceBId := i\<rparr>)"
| endpoint_effect: "sw_publicEndpoint s = [] \<Longrightarrow> sw_deviceAId s \<noteq> [] \<Longrightarrow> endpoints (sw_deviceAId s) = e # es \<Longrightarrow>
    s2s_step ds subnets endpoints s (s\<lparr>sw_publicEndpoint := e\<rparr>)"
| edit_addressing: "sw_step s = Addressing \<Longrightarrow> p \<in> {30, 29, 24} \<Longrightarrow>
    s2s_step ds subnets endpoints s (s\<lparr>sw_ifaceA := a, sw_ifaceB := b, sw_tunnelBase := t, sw_prefix := p,
      sw_listenPort := l, sw_keepalive := k, sw_publicEndpoint := e, sw_commentTag := c\<rparr>)"
| toggle_a: "sw_step s = Subnets \<Longrightarrow> c \<in> set (subnets (sw_deviceAId s)) \<Longrightarrow>
    s2s_step ds subnets endpoints s (s\<lparr>sw_exposeA := togglePicks (sw_exposeA s) c on\<rparr>)"
| toggle_b: "sw_step s = Subnets \<Longrightarrow> c \<in> set (subnets (sw_deviceBId s)) \<Longrightarrow>
    s2s_step ds subnets endpoints s (s\<lparr>sw_exposeB := togglePicks (sw_exposeB s) c on\<rparr>)"
| edit_extra: "sw_step s = Subnets \<Longrightarrow>
    s2s_step ds subnets endpoints s (s\<lparr>sw_extraExposeA := x, sw_extraExposeB := y\<rparr>)"
| edit_firewall: "sw_step s = FirewallStage \<Longrightarrow>
    s2s_step ds subnets endpoints s
      (s\<lparr>sw_openFirewallA := o1, sw_createForwardRules := o2, sw_createRoutes := o3\<rparr>)"
| go_next: "sw_step s \<notin> {Review, Done} \<Longrightarrow> canAdvance s (sw_step s) \<Longrightarrow>
    s2s_step ds subnets endpoints s (s\<lparr>sw_step := next_stage (sw_step s)\<rparr>)"
| go_back: "sw_step s \<notin> {Pick, Done} \<Longrightarrow>
    s2s_step ds subnets endpoints s (s\<lparr>sw_step := prev_stage (sw_step s)\<rparr>)"
| apply_request: "sw_step s = Review \<Longrightarrow> sw_applying s = None \<Longrightarrow>
    s2s_step ds subnets endpoints s
      (s\<lparr>sw_applying := Some (s2s_request s), sw_sent := sw_sent s @ [s2s_request s]\<rparr>)"
| apply_ok: "sw_applying s = Some q \<Longrightarrow>
    s2s_step ds subnets endpoints s (s\<lparr>sw_applying := None, sw_step := Done\<rparr>)"
| apply_failed: "sw_applying s = Some q \<Longrightarrow>
    s2s_step ds subnets endpoints s (s\<lparr>sw_applying := None\<rparr>)"

section \<open>What is asked of the routers\<close>

lemma togglePicks_props:
  "distinct xs \<Longrightarrow> distinct (togglePicks xs c on)"
  "set (togglePicks xs c on) = (if on then insert c (set xs) else set xs - {c})"
  by (simp_all add: togglePicks_def)

lemma words_trim: "map trim (words_by cidr_sep s) = words_by cidr_sep s"
proof (rule map_idI)
  fix w assume w: "w \<in> set (words_by cidr_sep s)"
  have "\<not> is_ws c" if "c \<in> set w" for c using words_by_no_sep [OF w that] by (simp add: cidr_sep_def)
  with words_by_nonempty [OF w] show "trim w = w"
    by (metis hd_in_set last_in_set trimEnd_id trimStart_id trim_def)
qed

lemma mergeCidrs_eq: "mergeCidrs picks extra = fold jset_add (words_by cidr_sep extra) picks"
proof -
  have "filter (\<lambda>c. c \<noteq> []) (words_by cidr_sep extra) = words_by cidr_sep extra"
    by (auto simp: filter_id_conv dest: words_by_nonempty)
  then show ?thesis by (simp add: mergeCidrs_def words_trim)
qed

lemma mergeCidrs_props:
  "set (mergeCidrs picks extra) = set picks \<union> set (words_by cidr_sep extra)"
  "distinct picks \<Longrightarrow> distinct (mergeCidrs picks extra)" "prefix picks (mergeCidrs picks extra)"
  by (simp_all add: mergeCidrs_eq fold_jset_add)

text \<open>A request worth sending: what the page promises of both sides.\<close>

definition tunnel_pair :: "string \<Rightarrow> string \<Rightarrow> bool" where
  "tunnel_pair a b \<longleftrightarrow> (\<exists>base p. trim base \<noteq> [] \<and> p \<in> {30, 29, 24} \<and>
     a = base @ ''.1/'' @ show_nat p \<and> b = base @ ''.2/'' @ show_nat p)"

definition router_of :: "Device list \<Rightarrow> string \<Rightarrow> bool" where
  "router_of ds i \<longleftrightarrow> (\<exists>d \<in> set ds. d_id d = i \<and> d_vendor d = ''mikrotik'')"

definition sound_request :: "Device list \<Rightarrow> S2SCreateRequest \<Rightarrow> bool" where
  "sound_request ds q \<longleftrightarrow>
     sss_device_id (sscr_a q) \<noteq> sss_device_id (sscr_b q) \<and>
     router_of ds (sss_device_id (sscr_a q)) \<and> router_of ds (sss_device_id (sscr_b q)) \<and>
     trim (sss_interface_name (sscr_a q)) \<noteq> [] \<and> trim (sss_interface_name (sscr_b q)) \<noteq> [] \<and>
     trim (sscr_public_endpoint q) \<noteq> [] \<and> sscr_listen_port q > 0 \<and>
     tunnel_pair (sss_tunnel_cidr (sscr_a q)) (sss_tunnel_cidr (sscr_b q)) \<and>
     distinct (sss_expose_subnets (sscr_a q)) \<and> distinct (sss_expose_subnets (sscr_b q))"

definition picked_ok :: "Device list \<Rightarrow> string \<Rightarrow> bool" where
  "picked_ok ds i \<longleftrightarrow> i = [] \<or> router_of ds i"

definition s2s_inv :: "Device list \<Rightarrow> s2s_page \<Rightarrow> bool" where
  "s2s_inv ds s \<longleftrightarrow> picked_ok ds (sw_deviceAId s) \<and> picked_ok ds (sw_deviceBId s) \<and>
     (sw_step s \<in> {Addressing, Subnets, FirewallStage, Review} \<longrightarrow> canAdvance s Pick) \<and>
     (sw_step s \<in> {Subnets, FirewallStage, Review} \<longrightarrow> canAdvance s Addressing) \<and>
     sw_prefix s \<in> {30, 29, 24} \<and> distinct (sw_exposeA s) \<and> distinct (sw_exposeB s) \<and>
     list_all (sound_request ds) (sw_sent s)"

lemma DevicePick_ok: "i \<in> set (DevicePick ds x) \<Longrightarrow> picked_ok ds i"
  by (auto simp: DevicePick_def picked_ok_def router_of_def)

lemma stage_cases:
  "next_stage st \<in> {Addressing, Subnets, FirewallStage, Review} \<Longrightarrow> st \<noteq> Pick \<Longrightarrow> st \<in> {Addressing, Subnets, FirewallStage, Review}"
  "next_stage st \<in> {Subnets, FirewallStage, Review} \<Longrightarrow> st \<noteq> Addressing \<Longrightarrow> st \<in> {Subnets, FirewallStage, Review}"
  "prev_stage st \<in> {Addressing, Subnets, FirewallStage, Review} \<Longrightarrow> st \<in> {Addressing, Subnets, FirewallStage, Review}"
  "prev_stage st \<in> {Subnets, FirewallStage, Review} \<Longrightarrow> st \<in> {Subnets, FirewallStage, Review}"
  by (cases st; simp)+

lemma request_sound:
  assumes "s2s_inv ds s" "sw_step s = Review"
  shows "sound_request ds (s2s_request s)"
proof -
  have "canAdvance s Pick" "canAdvance s Addressing" using assms by (simp_all add: s2s_inv_def)
  moreover have "tunnel_pair (tunnelCidrA s) (tunnelCidrB s)"
    using assms calculation(2) unfolding tunnel_pair_def tunnelCidrA_def tunnelCidrB_def
    by (intro exI [of _ "sw_tunnelBase s"] exI [of _ "sw_prefix s"]) (simp add: s2s_inv_def canAdvance_def)
  ultimately show ?thesis using assms(1)
    by (simp add: sound_request_def s2s_request_def canAdvance_def s2s_inv_def picked_ok_def
        finalExposeA_def finalExposeB_def mergeCidrs_props(2))
qed

lemma canAdvance_cong:
  "sw_deviceAId t = sw_deviceAId s \<Longrightarrow> sw_deviceBId t = sw_deviceBId s \<Longrightarrow> canAdvance t Pick = canAdvance s Pick"
  "sw_ifaceA t = sw_ifaceA s \<Longrightarrow> sw_ifaceB t = sw_ifaceB s \<Longrightarrow> sw_tunnelBase t = sw_tunnelBase s \<Longrightarrow>
     sw_publicEndpoint t = sw_publicEndpoint s \<Longrightarrow> sw_listenPort t = sw_listenPort s \<Longrightarrow>
     canAdvance t Addressing = canAdvance s Addressing"
  by (simp_all add: canAdvance_def)

lemma s2s_inv_step:
  assumes "s2s_inv ds s" "s2s_step ds subnets endpoints s t"
  shows "s2s_inv ds t"
  using assms(2,1)
proof (induction rule: s2s_step.induct)
  case (pick_a s i)
  then show ?case using DevicePick_ok [OF pick_a(2)] by (simp add: s2s_inv_def)
next
  case (pick_b s i)
  then show ?case using DevicePick_ok [OF pick_b(2)] by (simp add: s2s_inv_def)
next
  case (endpoint_effect s e es)
  then show ?case by (auto simp: s2s_inv_def canAdvance_def trim_def trimEnd_def trimStart_def)
next
  case (edit_addressing s p a b t l k e c)
  then show ?case by (auto simp: s2s_inv_def canAdvance_def)
next
  case (go_next s)
  have "canAdvance (s\<lparr>sw_step := next_stage (sw_step s)\<rparr>) x = canAdvance s x" for x by (simp add: canAdvance_def)
  with go_next stage_cases(1,2) [of "sw_step s"] show ?case by (cases "sw_step s") (simp_all add: s2s_inv_def)
next
  case (go_back s)
  have "canAdvance (s\<lparr>sw_step := prev_stage (sw_step s)\<rparr>) x = canAdvance s x" for x by (simp add: canAdvance_def)
  with go_back show ?case by (cases "sw_step s") (simp_all add: s2s_inv_def)
next
  case (apply_request s)
  with request_sound [OF apply_request(3,1)] show ?case by (simp add: s2s_inv_def canAdvance_def)
qed (simp_all add: s2s_inv_def canAdvance_def togglePicks_props)

interpretation s2s: invariant_system "\<lambda>s. s = s2s_start" "s2s_step ds subnets endpoints" "s2s_inv ds"
  for ds subnets endpoints
proof
  show "s = s2s_start \<Longrightarrow> s2s_inv ds s" for s by (simp add: s2s_inv_def s2s_start_def picked_ok_def)
qed (rule s2s_inv_step)

text \<open>
  C8. Whatever the operator does on the way, back and forth, and whenever answers arrive, a
  tunnel is only requested between two different MikroTik routers of the list, with both
  interfaces named, an endpoint to dial, a positive port, the two ends of one tunnel network
  as addresses, and no network exposed twice.
\<close>

theorem s2s_request_sound:
  assumes "reaches (\<lambda>s. s = s2s_start) (s2s_step ds subnets endpoints) s" "q \<in> set (sw_sent s)"
  shows "sss_device_id (sscr_a q) \<noteq> sss_device_id (sscr_b q) \<and>
    router_of ds (sss_device_id (sscr_a q)) \<and> router_of ds (sss_device_id (sscr_b q)) \<and>
    trim (sss_interface_name (sscr_a q)) \<noteq> [] \<and> trim (sss_interface_name (sscr_b q)) \<noteq> [] \<and>
    trim (sscr_public_endpoint q) \<noteq> [] \<and> sscr_listen_port q > 0 \<and>
    tunnel_pair (sss_tunnel_cidr (sscr_a q)) (sss_tunnel_cidr (sscr_b q)) \<and>
    distinct (sss_expose_subnets (sscr_a q)) \<and> distinct (sss_expose_subnets (sscr_b q))"
  using s2s.reachable_inv [OF assms(1)] assms(2)
  by (simp add: s2s_inv_def list_all_iff sound_request_def [symmetric])

section \<open>Leftovers of another router\<close>

text \<open>Steps in which the endpoint is never typed, only filled in when it is empty.\<close>

definition untyped :: "Device list \<Rightarrow> (string \<Rightarrow> string list) \<Rightarrow> (string \<Rightarrow> string list) \<Rightarrow> s2s_page \<Rightarrow> s2s_page \<Rightarrow> bool" where
  "untyped ds subnets endpoints s t \<longleftrightarrow> s2s_step ds subnets endpoints s t \<and>
     sw_publicEndpoint t \<in> {sw_publicEndpoint s} \<union> (if sw_publicEndpoint s = [] then set (endpoints (sw_deviceAId s)) else {})"

definition page_at :: "s2s_stage \<Rightarrow> string \<Rightarrow> string \<Rightarrow> string list \<Rightarrow> s2s_page" where
  "page_at st a e xs = s2s_start\<lparr>sw_step := st, sw_deviceAId := a, sw_deviceBId := ''r2'', sw_publicEndpoint := e, sw_exposeA := xs\<rparr>"

definition three_routers :: "Device list" where
  "three_routers = map (\<lambda>i. demo_device\<lparr>d_id := i, d_vendor := ''mikrotik''\<rparr>) [''r1'', ''r2'', ''r3'']"

definition demo_subnets :: "string \<Rightarrow> string list" where
  "demo_subnets i = (if i = ''r1'' then [''192.168.1.0/24''] else [''10.3.0.0/16''])"

definition demo_endpoints :: "string \<Rightarrow> string list" where
  "demo_endpoints i = (if i = ''r1'' then [''198.51.100.1''] else [''203.0.113.7''])"

abbreviation demo_reaches :: "s2s_page \<Rightarrow> bool" where
  "demo_reaches \<equiv> reaches (\<lambda>s. s = s2s_start) (untyped three_routers demo_subnets demo_endpoints)"

lemma move_on:
  assumes "demo_reaches (page_at st a e xs)" "st \<notin> {Review, Done}" "canAdvance (page_at st a e xs) st"
  shows "demo_reaches (page_at (next_stage st) a e xs)"
proof (rule reaches_step [OF assms(1)])
  show "untyped three_routers demo_subnets demo_endpoints (page_at st a e xs) (page_at (next_stage st) a e xs)"
    using go_next [of "page_at st a e xs"] assms(2,3) by (simp add: untyped_def page_at_def s2s_start_def)
qed

lemma move_back:
  assumes "demo_reaches (page_at st a e xs)" "st \<notin> {Pick, Done}"
  shows "demo_reaches (page_at (prev_stage st) a e xs)"
proof (rule reaches_step [OF assms(1)])
  show "untyped three_routers demo_subnets demo_endpoints (page_at st a e xs) (page_at (prev_stage st) a e xs)"
    using go_back [of "page_at st a e xs"] assms(2) by (simp add: untyped_def page_at_def s2s_start_def)
qed

lemma repick:
  assumes "demo_reaches (page_at Pick a e xs)" "i \<in> {''r1'', ''r3''}"
  shows "demo_reaches (page_at Pick i e xs)"
proof (rule reaches_step [OF assms(1)])
  show "untyped three_routers demo_subnets demo_endpoints (page_at Pick a e xs) (page_at Pick i e xs)"
    using pick_a [of "page_at Pick a e xs" i three_routers] assms(2)
    by (auto simp: untyped_def page_at_def s2s_start_def DevicePick_def three_routers_def)
qed

text \<open>Both routers are picked, the endpoint of the first one is filled in, its network ticked.\<close>

lemma reach_ticked: "demo_reaches (page_at Subnets ''r1'' ''198.51.100.1'' [''192.168.1.0/24''])"
proof -
  have "demo_reaches (page_at Pick [] [] [])"
  proof (rule reaches_one [where s = s2s_start])
    show "untyped three_routers demo_subnets demo_endpoints s2s_start (page_at Pick [] [] [])"
      using pick_b [of s2s_start "''r2''" three_routers]
      by (simp add: untyped_def page_at_def s2s_start_def DevicePick_def three_routers_def)
  qed (rule refl)
  then have "demo_reaches (page_at Pick ''r1'' [] [])" by (rule repick) simp
  moreover have "untyped three_routers demo_subnets demo_endpoints (page_at Pick ''r1'' [] []) (page_at Pick ''r1'' ''198.51.100.1'' [])"
    using endpoint_effect [of "page_at Pick ''r1'' [] []" demo_endpoints "''198.51.100.1''" "[]" three_routers demo_subnets]
    by (simp add: untyped_def page_at_def s2s_start_def demo_endpoints_def)
  ultimately have "demo_reaches (page_at Pick ''r1'' ''198.51.100.1'' [])" by (rule reaches_step)
  from move_on [OF this] have "demo_reaches (page_at Addressing ''r1'' ''198.51.100.1'' [])"
    by (simp add: page_at_def canAdvance_def)
  from move_on [OF this] have r: "demo_reaches (page_at Subnets ''r1'' ''198.51.100.1'' [])"
    by (simp add: page_at_def canAdvance_def s2s_start_def trim_def trimEnd_def trimStart_def is_ws_def)
  show ?thesis
  proof (rule reaches_step [OF r])
    show "untyped three_routers demo_subnets demo_endpoints (page_at Subnets ''r1'' ''198.51.100.1'' [])
        (page_at Subnets ''r1'' ''198.51.100.1'' [''192.168.1.0/24''])"
      using toggle_a [of "page_at Subnets ''r1'' ''198.51.100.1'' []" "''192.168.1.0/24''" demo_subnets three_routers demo_endpoints True]
      by (simp add: untyped_def page_at_def demo_subnets_def togglePicks_def jset_add_def s2s_start_def)
  qed
qed

text \<open>Back to the first page, another listener, and on to the request.\<close>

definition stale_page :: s2s_page where
  "stale_page = page_at Review ''r3'' ''198.51.100.1'' [''192.168.1.0/24'']"

definition stale_applied :: s2s_page where
  "stale_applied = stale_page\<lparr>sw_applying := Some (s2s_request stale_page), sw_sent := [s2s_request stale_page]\<rparr>"

lemma reach_stale: "demo_reaches stale_applied"
proof -
  let ?e = "''198.51.100.1''" and ?x = "[''192.168.1.0/24'']"
  have can: "canAdvance (page_at st ''r3'' ?e ?x) st'" for st st'
    by (simp add: page_at_def canAdvance_def s2s_start_def trim_def trimEnd_def trimStart_def is_ws_def)
  have "demo_reaches (page_at Addressing ''r1'' ?e ?x)" using move_back [OF reach_ticked] by simp
  from move_back [OF this] have "demo_reaches (page_at Pick ''r1'' ?e ?x)" by simp
  then have "demo_reaches (page_at Pick ''r3'' ?e ?x)" by (rule repick) simp
  from move_on [OF this _ can] have "demo_reaches (page_at Addressing ''r3'' ?e ?x)" by simp
  from move_on [OF this _ can] have "demo_reaches (page_at Subnets ''r3'' ?e ?x)" by simp
  from move_on [OF this _ can] have "demo_reaches (page_at FirewallStage ''r3'' ?e ?x)" by simp
  from move_on [OF this _ can] have r: "demo_reaches stale_page" by (simp add: stale_page_def)
  have "untyped three_routers demo_subnets demo_endpoints stale_page stale_applied"
    using apply_request [of stale_page three_routers demo_subnets demo_endpoints]
    by (simp add: untyped_def stale_applied_def stale_page_def page_at_def s2s_start_def)
  with r show ?thesis by (rule reaches_step)
qed

text \<open>
  Picking another listener keeps what belongs to the old one: the endpoint that was filled
  in for the first router and the networks ticked for it go into the request for the second,
  which has neither, and the networks page of the second has no box to untick them.
\<close>

theorem s2s_keeps_old_router:
  "\<exists>s q. reaches (\<lambda>s. s = s2s_start) (untyped three_routers demo_subnets demo_endpoints) s \<and> q \<in> set (sw_sent s) \<and>
     sss_device_id (sscr_a q) = ''r3'' \<and>
     sscr_public_endpoint q \<in> set (demo_endpoints ''r1'') - set (demo_endpoints ''r3'') \<and>
     sss_expose_subnets (sscr_a q) = demo_subnets ''r1'' \<and>
     set (sss_expose_subnets (sscr_a q)) \<inter> set (demo_subnets ''r3'') = {}"
proof -
  have "sss_device_id (sscr_a (s2s_request stale_page)) = ''r3''"
    "sscr_public_endpoint (s2s_request stale_page) = ''198.51.100.1''"
    "sss_expose_subnets (sscr_a (s2s_request stale_page)) = [''192.168.1.0/24'']"
    by (simp_all add: s2s_request_def stale_page_def page_at_def finalExposeA_def mergeCidrs_eq words_by_def s2s_start_def)
  with reach_stale show ?thesis
    by (intro exI [of _ stale_applied] exI [of _ "s2s_request stale_page"])
      (simp add: stale_applied_def demo_endpoints_def demo_subnets_def)
qed

lemma untyped_reaches: "reaches i (untyped ds sn ep) s \<Longrightarrow> reaches i (s2s_step ds sn ep) s"
  by (induction rule: reaches.induct) (auto intro: reaches.intros simp: untyped_def)

theorem s2s_request_sound_witness:
  "tunnel_pair (tunnelCidrA stale_page) (tunnelCidrB stale_page) \<and> router_of three_routers ''r3''"
  using s2s_request_sound [OF untyped_reaches [OF reach_stale], of "s2s_request stale_page"]
  by (simp add: stale_applied_def s2s_request_def) (simp add: stale_page_def page_at_def)

end
