(* ===== verification/Slugs.thy ===== *)
theory Slugs
  imports Api_Client
begin

text \<open>
  \<open>slugify\<close>, which four screens carry a copy of (\<open>setup/page.tsx\<close>, \<open>tenants/page.tsx\<close>,
  \<open>tenants/[id]/page.tsx\<close>, \<open>fleet/new/page.tsx\<close>): the identifier made of a name. The
  server's rule for such an identifier is stated next to it.
\<close>

section \<open>slugify\<close>

definition slug_char :: "char \<Rightarrow> bool" where
  "slug_char c \<longleftrightarrow> (97 \<le> ccode c \<and> ccode c \<le> 122) \<or> is_digit c"

text \<open>\<open>s.replace(/[^a-z0-9]+/g, "-")\<close>: every maximal run of other characters becomes one dash.\<close>

function dash_runs :: "string \<Rightarrow> string" where
  "dash_runs [] = []"
| "dash_runs (c # s) =
     (if slug_char c then c # dash_runs s
      else CHR ''-'' # dash_runs (dropWhile (\<lambda>d. \<not> slug_char d) s))"
  by pat_completeness auto

termination dash_runs
  by (relation "measure length") (auto simp: length_dropWhile_le le_imp_less_Suc)

text \<open>\<open>s.replace(/^-+|-+$/g, "")\<close>.\<close>

definition strip_dashes :: "string \<Rightarrow> string" where
  "strip_dashes s = rev (dropWhile (\<lambda>c. c = CHR ''-'') (rev (dropWhile (\<lambda>c. c = CHR ''-'') s)))"

definition slugify :: "string \<Rightarrow> string" where
  "slugify s = take 63 (strip_dashes (dash_runs (trim (toLowerCase s))))"

section \<open>A reference definition\<close>

text \<open>The words of a name, joined by dashes.\<close>

definition name_words :: "string \<Rightarrow> string list" where
  "name_words s = words_by (\<lambda>c. \<not> slug_char c) (toLowerCase s)"

definition slug_of_words :: "string \<Rightarrow> string" where
  "slug_of_words s = take 63 (join ''-'' (name_words s))"

abbreviation sword :: "string \<Rightarrow> string list" where
  "sword s \<equiv> words_by (\<lambda>c. \<not> slug_char c) s"

lemma dash_not_slug [simp]: "\<not> slug_char CHR ''-''"
  by (simp add: slug_char_def is_digit_def)

lemma words_acc_prefix:
  "list_all (\<lambda>c. \<not> sep c) w \<Longrightarrow> words_acc sep (w @ s) acc = words_acc sep s (rev w @ acc)"
  by (induction w arbitrary: acc) auto

lemma words_by_sep: "sep c \<Longrightarrow> words_by sep (c # s) = words_by sep s"
  by (simp add: words_by_def)

lemma words_by_dropWhile: "words_by sep (dropWhile sep s) = words_by sep s"
  by (induction s) (auto simp: words_by_sep)

text \<open>The first word and what follows it.\<close>

lemma words_by_word:
  assumes "\<not> sep c"
  shows "words_by sep (c # s) =
    (c # takeWhile (\<lambda>d. \<not> sep d) s) # words_by sep (dropWhile (\<lambda>d. \<not> sep d) s)"
proof -
  let ?w = "takeWhile (\<lambda>d. \<not> sep d) s" and ?r = "dropWhile (\<lambda>d. \<not> sep d) s"
  have "words_by sep (c # s) = words_acc sep ((c # ?w) @ ?r) []" by (simp add: words_by_def)
  also have "\<dots> = words_acc sep ?r (rev (c # ?w))"
    using assms by (subst words_acc_prefix) (auto simp: list_all_iff dest: set_takeWhileD)
  also have "\<dots> = (c # ?w) # words_by sep ?r"
  proof (cases ?r)
    case (Cons d r)
    then have "sep d" by (simp add: dropWhile_eq_Cons_conv)
    with Cons show ?thesis by (simp add: words_by_def)
  next
    case Nil
    show ?thesis unfolding Nil by (simp add: words_by_def)
  qed
  finally show ?thesis .
qed

lemma words_acc_trail: "list_all sep t \<Longrightarrow> words_acc sep (s @ t) acc = words_acc sep s acc"
proof (induction s arbitrary: acc)
  case Nil
  have "words_acc sep t [] = []" using Nil by (induction t) auto
  with Nil show ?case by (cases t) auto
qed auto

lemma slug_words_trim: "sword (trim s) = sword s"
proof -
  have ws: "\<not> slug_char c" if "is_ws c" for c using that by (auto simp: is_ws_def slug_char_def is_digit_def)
  have start: "sword (dropWhile is_ws u) = sword u" for u by (induction u) (auto simp: words_by_sep ws)
  have "\<exists>t. list_all is_ws t \<and> u = trimEnd u @ t" for u
  proof (intro exI conjI)
    show "u = trimEnd u @ rev (takeWhile is_ws (rev u))"
      by (metis rev_append rev_rev_ident takeWhile_dropWhile_id trimEnd_def)
  qed (auto simp: list_all_iff dest: set_takeWhileD)
  then obtain t where "list_all is_ws t" "trimStart s = trimEnd (trimStart s) @ t" by blast
  then have "sword (trimStart s) = sword (trim s)"
    using words_acc_trail [of "\<lambda>c. \<not> slug_char c" t "trim s" "[]"] ws
    by (auto simp: trim_def words_by_def list_all_iff)
  then show ?thesis by (simp add: trimStart_def start)
qed

lemma dash_runs_word:
  "list_all slug_char w \<Longrightarrow> dash_runs (w @ r) = w @ dash_runs r"
  by (induction w) auto

lemma dash_runs_first: "s \<noteq> [] \<Longrightarrow> slug_char (hd s) \<Longrightarrow> dropWhile (\<lambda>c. c = CHR ''-'') (dash_runs s) = dash_runs s"
  by (cases s) auto

text \<open>The dashes are those between the words, and at most one before and one after them.\<close>

lemma dash_runs_words:
  "\<exists>t \<in> {[], ''-''}. dropWhile (\<lambda>c. c = CHR ''-'') (dash_runs s) = join ''-'' (sword s) @ t \<and> (sword s = [] \<longrightarrow> t = [])"
proof (induction s rule: length_induct)
  case (1 s)
  show ?case
  proof (cases s)
    case Nil
    then show ?thesis by (simp add: words_by_def)
  next
    case (Cons c u)
    show ?thesis
    proof (cases "slug_char c")
      case False
      have "length (dropWhile (\<lambda>d. \<not> slug_char d) u) < length s"
        using Cons by (simp add: length_dropWhile_le le_imp_less_Suc)
      with 1 have "\<exists>t \<in> {[], ''-''}. dropWhile (\<lambda>c. c = CHR ''-'') (dash_runs (dropWhile (\<lambda>d. \<not> slug_char d) u)) =
          join ''-'' (sword (dropWhile (\<lambda>d. \<not> slug_char d) u)) @ t \<and> (sword (dropWhile (\<lambda>d. \<not> slug_char d) u) = [] \<longrightarrow> t = [])"
        by blast
      with Cons False show ?thesis by (simp add: words_by_sep words_by_dropWhile)
    next
      case True
      define w r where "w = c # takeWhile slug_char u" and "r = dropWhile slug_char u"
      have w: "list_all slug_char w" using True by (auto simp: w_def list_all_iff dest: set_takeWhileD)
      have s: "s = w @ r" by (simp add: Cons w_def r_def)
      have sw: "sword s = w # sword r" using True by (simp add: Cons words_by_word w_def r_def)
      have ds: "dropWhile (\<lambda>c. c = CHR ''-'') (dash_runs s) = w @ dash_runs r"
        using dash_runs_first [of s] dash_runs_word [OF w, of r] True Cons by (metis list.sel(1) list.distinct(1) s)
      show ?thesis
      proof (cases r)
        case Nil
        with sw ds show ?thesis by (simp add: words_by_def)
      next
        case r: (Cons d r')
        then have d: "\<not> slug_char d" using hd_dropWhile [of slug_char u] by (auto simp: r_def)
        define q where "q = dropWhile (\<lambda>d. \<not> slug_char d) r'"
        have "length q < length s"
          using length_dropWhile_le [of "\<lambda>d. \<not> slug_char d" r'] by (simp add: s r q_def)
        with 1 obtain t where t: "t \<in> {[], ''-''}"
          "dropWhile (\<lambda>c. c = CHR ''-'') (dash_runs q) = join ''-'' (sword q) @ t" "sword q = [] \<longrightarrow> t = []"
          by blast
        have q: "q = [] \<or> slug_char (hd q)" using hd_dropWhile [of "\<lambda>d. \<not> slug_char d" r'] by (auto simp: q_def)
        then have "dash_runs q = join ''-'' (sword q) @ t" using t(2) dash_runs_first [of q] by (cases "q = []") auto
        moreover have "sword r = sword q" using d by (simp add: r q_def words_by_sep words_by_dropWhile)
        moreover have "dash_runs r = CHR ''-'' # dash_runs q" using d by (simp add: r q_def)
        ultimately show ?thesis using ds sw t(1,3) by (cases "sword q") auto
      qed
    qed
  qed
qed

lemma join_last_slug:
  assumes "ws \<noteq> []" "\<forall>w \<in> set ws. w \<noteq> [] \<and> list_all slug_char w"
  shows "join ''-'' ws \<noteq> []" "slug_char (last (join ''-'' ws))" "slug_char (hd (join ''-'' ws))"
  using assms by (induction "''-'' :: string" ws rule: join.induct) (auto simp: list_all_iff)

lemma sword_slug: "w \<in> set (sword s) \<Longrightarrow> w \<noteq> [] \<and> list_all slug_char w"
  by (metis (no_types, lifting) list_all_iff words_by_no_sep words_by_nonempty)

lemma strip_dash_runs: "strip_dashes (dash_runs s) = join ''-'' (sword s)"
proof -
  obtain t where t: "t \<in> {[], ''-''}" "dropWhile (\<lambda>c. c = CHR ''-'') (dash_runs s) = join ''-'' (sword s) @ t"
    "sword s = [] \<longrightarrow> t = []" using dash_runs_words by blast
  show ?thesis
  proof (cases "sword s")
    case Nil
    with t(2,3) show ?thesis unfolding strip_dashes_def t(2) by simp
  next
    case Cons
    then have "sword s \<noteq> []" by simp
    moreover have "\<forall>w \<in> set (sword s). w \<noteq> [] \<and> list_all slug_char w" using sword_slug by blast
    ultimately have l: "join ''-'' (sword s) \<noteq> []" "slug_char (last (join ''-'' (sword s)))"
      by (rule join_last_slug)+
    then have "dropWhile (\<lambda>c. c = CHR ''-'') (rev (join ''-'' (sword s))) = rev (join ''-'' (sword s))"
      by (cases "join ''-'' (sword s)" rule: rev_cases) auto
    with t(1,2) show ?thesis by (auto simp: strip_dashes_def)
  qed
qed

lemma slugify_words: "slugify s = slug_of_words s"
  by (simp add: slugify_def slug_of_words_def name_words_def strip_dash_runs slug_words_trim)

section \<open>What the server accepts\<close>

text \<open>
  \<open>backend/app/schemas/tenant.py\<close> and \<open>site.py\<close>: two to 63 characters, letters, digits and
  dashes, with no dash at either end.
\<close>

definition slug_accepted :: "string \<Rightarrow> bool" where
  "slug_accepted t \<longleftrightarrow> 2 \<le> length t \<and> length t \<le> 63 \<and> slug_char (hd t) \<and> slug_char (last t) \<and>
     list_all (\<lambda>c. slug_char c \<or> c = CHR ''-'') t"

lemma join_chars: "\<forall>w \<in> set ws. list_all slug_char w \<Longrightarrow> c \<in> set (join ''-'' ws) \<Longrightarrow> slug_char c \<or> c = CHR ''-''"
  by (induction "''-'' :: string" ws rule: join.induct) (auto simp: list_all_iff)

lemma slug_chars: "c \<in> set (slugify s) \<Longrightarrow> slug_char c \<or> c = CHR ''-''"
  using join_chars [of "name_words s" c] sword_slug
  by (auto simp: slugify_words slug_of_words_def name_words_def dest: in_set_takeD)

lemma slug_hd: "slugify s \<noteq> [] \<Longrightarrow> slug_char (hd (slugify s))"
  using join_last_slug(3) [of "name_words s"] sword_slug
  by (cases "name_words s = []") (auto simp: slugify_words slug_of_words_def name_words_def)

lemma slug_last_uncut:
  assumes "length (join ''-'' (name_words s)) \<le> 63" "slugify s \<noteq> []"
  shows "slug_char (last (slugify s))"
proof -
  have "slugify s = join ''-'' (name_words s)" using assms(1) by (simp add: slugify_words slug_of_words_def)
  moreover have "name_words s \<noteq> []" using assms(2) by (auto simp: slugify_words slug_of_words_def)
  ultimately show ?thesis using join_last_slug(2) [of "name_words s"] sword_slug by (auto simp: name_words_def)
qed

lemma slug_last_cut:
  assumes "63 < length (join ''-'' (name_words s))"
  shows "last (slugify s) = join ''-'' (name_words s) ! 62"
proof -
  let ?j = "join ''-'' (name_words s)"
  have "take 63 ?j \<noteq> []" "length (take 63 ?j) = 63" using assms by auto
  then have "last (take 63 ?j) = take 63 ?j ! 62" by (simp add: last_conv_nth)
  then show ?thesis by (simp add: slugify_words slug_of_words_def)
qed

lemma slug_length: "length (slugify s) = min 63 (length (join ''-'' (name_words s)))"
  by (simp add: slugify_words slug_of_words_def)

lemma slug_accepted_eq: "slug_accepted (slugify s) \<longleftrightarrow> 2 \<le> length (slugify s) \<and> last (slugify s) \<noteq> CHR ''-''"
proof
  assume "2 \<le> length (slugify s) \<and> last (slugify s) \<noteq> CHR ''-''"
  moreover from this have "slugify s \<noteq> []" by auto
  ultimately show "slug_accepted (slugify s)"
    using slug_hd [of s] slug_chars [of "last (slugify s)" s] slug_chars [of _ s] slug_length [of s]
    by (auto simp: slug_accepted_def list_all_iff)
qed (auto simp: slug_accepted_def)

text \<open>
  C36. The slug of a name is its words, runs of letters and digits in lower case, joined by
  single dashes and cut to 63 characters. So it never starts with a dash, and it is made of
  letters, digits and dashes only.
\<close>

theorem slugify_reference:
  "slugify s = take 63 (join ''-'' (name_words s)) \<and>
   (slugify s = [] \<longleftrightarrow> name_words s = []) \<and>
   (slugify s = [] \<or> slug_char (hd (slugify s))) \<and>
   list_all (\<lambda>c. slug_char c \<or> c = CHR ''-'') (slugify s)"
proof -
  have "slugify s = [] \<longleftrightarrow> name_words s = []"
    using join_last_slug(1) [of "name_words s"] sword_slug
    by (cases "name_words s = []") (auto simp: slugify_words slug_of_words_def name_words_def)
  then show ?thesis using slug_hd slug_chars
    by (auto simp: slugify_words [of s, unfolded slug_of_words_def, symmetric] list_all_iff)
qed

text \<open>
  Which names make a slug the server refuses: those with at most one letter or digit, and
  long ones whose sixty-third character is the dash between two words. Nothing else is wrong
  with a slug.
\<close>

theorem slug_refused:
  "\<not> slug_accepted (slugify s) \<longleftrightarrow>
     length (join ''-'' (name_words s)) < 2 \<or>
     63 < length (join ''-'' (name_words s)) \<and> join ''-'' (name_words s) ! 62 = CHR ''-''"
proof -
  consider "length (join ''-'' (name_words s)) \<le> 1" | "2 \<le> length (join ''-'' (name_words s))" "length (join ''-'' (name_words s)) \<le> 63"
    | "63 < length (join ''-'' (name_words s))" by linarith
  then show ?thesis
  proof cases
    case 2
    then have "slugify s \<noteq> []" using slug_length [of s] by auto
    with slug_last_uncut [OF 2(2)] have "last (slugify s) \<noteq> CHR ''-''" by auto
    with 2 show ?thesis by (simp add: slug_accepted_eq slug_length)
  qed (simp_all add: slug_accepted_eq slug_length slug_last_cut)
qed

end
