(* ===== verification/Setup_Page.thy ===== *)
theory Setup_Page
  imports Slugs Sign_In Request_Scope
begin

text \<open>
  The first-run page, \<open>app/setup/page.tsx\<close>: the bootstrap token taken from the address, the
  slug that follows the organization's name, the checks before submitting, and the one
  request. What the browser checks on its own (required fields, the slug's pattern) is left
  out.
\<close>

section \<open>The page\<close>

record setup_page =
  su_orgName :: string
  su_orgSlug :: string
  su_email :: string
  su_displayName :: string
  su_password :: string
  su_confirm :: string
  su_bootstrapToken :: string
  su_tokenFromUrl :: bool
  su_error :: "string option"
  su_submitting :: bool

definition blank_setup :: setup_page where
  "blank_setup = \<lparr>su_orgName = [], su_orgSlug = [], su_email = [], su_displayName = [], su_password = [],
     su_confirm = [], su_bootstrapToken = [], su_tokenFromUrl = False, su_error = None, su_submitting = False\<rparr>"

text \<open>
  The effect that reads \<open>#token=...\<close>; the second component says whether the fragment is
  stripped from the address.
\<close>

definition read_fragment :: "string \<Rightarrow> setup_page \<Rightarrow> setup_page \<times> bool" where
  "read_fragment frag s =
     (if frag = [] then (s, False)
      else
        (let ps = sp_parse (if startsWith frag ''#'' then drop 1 frag else frag)
         in (case map_of ps ''token'' of
               Some t \<Rightarrow> if t \<noteq> [] then (s\<lparr>su_bootstrapToken := t, su_tokenFromUrl := True\<rparr>, True) else (s, False)
             | None \<Rightarrow> (s, False))))"

text \<open>The effect on the name and the slug, and the two fields.\<close>

definition derive_slug :: "setup_page \<Rightarrow> setup_page" where
  "derive_slug s =
     (if su_orgSlug s = [] \<or> su_orgSlug s = slugify (butlast (su_orgName s))
      then s\<lparr>su_orgSlug := slugify (su_orgName s)\<rparr> else s)"

definition edit_orgName :: "string \<Rightarrow> setup_page \<Rightarrow> setup_page" where
  "edit_orgName n s = derive_slug (s\<lparr>su_orgName := n\<rparr>)"

definition edit_orgSlug :: "string \<Rightarrow> setup_page \<Rightarrow> setup_page" where
  "edit_orgSlug v s = derive_slug (s\<lparr>su_orgSlug := v\<rparr>)"

text \<open>\<open>s.length\<close> of a text in UTF-8: code units of UTF-16.\<close>

definition js_length :: "string \<Rightarrow> nat" where
  "js_length s = length (filter (\<lambda>c. ccode c < 128 \<or> 192 \<le> ccode c) s) + length (filter (\<lambda>c. 240 \<le> ccode c) s)"

definition setup_check :: "setup_page \<Rightarrow> string option" where
  "setup_check s =
     (if js_length (su_password s) < 12 then Some ''Password must be at least 12 characters.''
      else if su_password s \<noteq> su_confirm s then Some ''Passwords do not match.''
      else if trim (su_bootstrapToken s) = [] then
        Some (''Bootstrap token is required. Use the URL printed by install.sh, '' @
          ''or paste the value of NETFLEET_BOOTSTRAP_TOKEN from /opt/netfleet/.env.'')
      else None)"

definition setup_payload :: "setup_page \<Rightarrow> SetupPayload" where
  "setup_payload s = \<lparr>organization_name = su_orgName s, organization_slug = su_orgSlug s, admin_email = su_email s,
     admin_display_name = su_displayName s, admin_password = su_password s\<rparr>"

text \<open>
  The handler of the form. The result is the page and the address it goes to, if any; the
  error of the request is shown by its message, \<open>performSetup\<close> throws nothing but \<open>Error\<close>s.
\<close>

definition submit_setup :: "env \<Rightarrow> setup_page \<Rightarrow> (setup_page \<times> string option) call" where
  "submit_setup E s =
     (case setup_check s of
        Some m \<Rightarrow> ret (Inr (s\<lparr>su_error := Some m\<rparr>, None))
      | None \<Rightarrow> catching
          (awaiting (performSetup E (setup_payload s) (trim (su_bootstrapToken s)))
             (\<lambda>_. ret (Inr (s\<lparr>su_error := None, su_submitting := False\<rparr>, Some ''/login?setup=complete''))))
          (\<lambda>e. ret (Inr (s\<lparr>su_error := Some (case e of JsError m \<Rightarrow> m | HTTPError r \<Rightarrow> []), su_submitting := False\<rparr>, None))))"

section \<open>The slug that follows the name\<close>

lemma derive_slug_idem [simp]: "derive_slug (derive_slug s) = derive_slug s"
  by (simp add: derive_slug_def)

definition type_char :: "char \<Rightarrow> setup_page \<Rightarrow> setup_page" where
  "type_char c s = edit_orgName (su_orgName s @ [c]) s"

lemma typed_follows:
  "su_orgName (fold type_char n s) = su_orgName s @ n \<and>
   (su_orgSlug s = slugify (su_orgName s) \<longrightarrow> su_orgSlug (fold type_char n s) = slugify (su_orgName s @ n))"
proof (induction n arbitrary: s)
  case (Cons c n)
  show ?case using Cons [of "type_char c s"]
    by (auto simp: type_char_def edit_orgName_def derive_slug_def)
qed simp

text \<open>
  Typed letter by letter into the empty page, the organization's name brings its slug
  along. But the slug follows additions at the end only: a letter that is deleted stays in
  it whenever it had changed the slug, unless the slug happens to be what it would have been
  two letters earlier, and an emptied slug field fills again at once.
\<close>

theorem setup_slug_follows_typing:
  "su_orgSlug (fold type_char n blank_setup) = slugify n \<and>
   (let s = edit_orgName (butlast n) (fold type_char n blank_setup)
    in su_orgSlug s =
      (if slugify n = [] \<or> slugify n = slugify (butlast (butlast n)) then slugify (butlast n) else slugify n)) \<and>
   su_orgSlug (edit_orgSlug [] (fold type_char n blank_setup)) = slugify n"
proof -
  let ?s = "fold type_char n blank_setup"
  have s: "su_orgName ?s = n" "su_orgSlug ?s = slugify n"
    using typed_follows [of n blank_setup]
    by (simp_all add: blank_setup_def slugify_def toLowerCase_def trim_def trimEnd_def trimStart_def strip_dashes_def)
  then show ?thesis by (simp add: edit_orgName_def edit_orgSlug_def derive_slug_def Let_def)
qed

text \<open>
  Nothing is sent before the page's own checks pass: with a password under twelve
  characters, an unequal confirmation or no token the form shows the reason and stays. A
  checked form sends one kind of request, the setup with the password that was typed twice,
  and the page leaves for the sign-in only when it was accepted.
\<close>

theorem setup_submits_checked:
  assumes "ky_contract E" "lock_contract E" "\<not> refreshInFlight c"
    and "run_state (submit_setup E s) c = (x, c')"
  shows "(setup_check s \<noteq> None \<longrightarrow> c' = c \<and> x = Inr (s\<lparr>su_error := setup_check s\<rparr>, None)) \<and>
    (\<exists>post. wire c' = wire c @ post \<and> list_all (\<lambda>r. r = refresh_request E \<or>
       setup_check s = None \<and> asks_for (mk_request E POST ''setup'' (with_json (SetupPayload_json (setup_payload s)))) r) post) \<and>
    (\<exists>s' goto. x = Inr (s', goto) \<and> (goto \<noteq> None \<longrightarrow> su_error s' = None \<and>
       fst (run_state (performSetup E (setup_payload s) (trim (su_bootstrapToken s))) c) = Inr ()))"
proof -
  have "sends E (\<lambda>r. setup_check s = None \<and>
      asks_for (mk_request E POST ''setup'' (with_json (SetupPayload_json (setup_payload s)))) r) (submit_setup E s)"
    unfolding submit_setup_def performSetup_def
    by (intro sends_rules assms(1,2)) (simp_all add: asks_for_def mk_request_def)
  moreover have "\<exists>s' goto. x = Inr (s', goto) \<and> (goto \<noteq> None \<longrightarrow> su_error s' = None \<and>
       fst (run_state (performSetup E (setup_payload s) (trim (su_bootstrapToken s))) c) = Inr ())"
    using assms(4) by (auto simp: submit_setup_def run_catching run_awaiting split: option.splits prod.splits sum.splits)
  ultimately show ?thesis
    using sends_wire [OF _ assms(3,4)] assms(4) by (auto simp: submit_setup_def)
qed

lemma deleted_letter_stays:
  "su_orgSlug (edit_orgName ''Acme'' (fold type_char ''Acmee'' blank_setup)) = ''acmee''"
  by code_simp

theorem setup_submits_checked_witness:
  "run_state (submit_setup demo_env blank_setup) demo_client =
     (Inr (blank_setup\<lparr>su_error := Some ''Password must be at least 12 characters.''\<rparr>, None), demo_client)"
proof -
  have c: "setup_check blank_setup = Some ''Password must be at least 12 characters.''"
    by (simp add: setup_check_def blank_setup_def js_length_def)
  show ?thesis
    using setup_submits_checked [OF demo_contracts prod.collapse [symmetric], of blank_setup]
    by (simp add: c prod_eq_iff)
qed

end
