(* ===== verification/Onboard_Wizard.thy ===== *)
theory Onboard_Wizard
  imports Slugs Fleet Inventory_Api Format
begin

text \<open>
  Adding to the fleet, \<open>app/dashboard/fleet/new/page.tsx\<close>: pick or create a tenant and a site,
  register a device, onboard it; and the forms of \<open>tenants/page.tsx\<close> and
  \<open>tenants/[id]/page.tsx\<close> that create the same records. A request that creates something may
  settle after its step has been left.
\<close>

section \<open>Tenants and sites\<close>

text \<open>\<open>s || d\<close>\<close>

definition or_else :: "string \<Rightarrow> string \<Rightarrow> string" where
  "or_else s d = (if s = [] then d else s)"

definition wizard_tenant :: "string \<Rightarrow> TenantCreate" where
  "wizard_tenant name = \<lparr>tc_name = name, tc_slug = or_else (slugify name) ''tenant'', tc_description = Undefined,
     tc_primary_contact_name = Undefined, tc_primary_contact_email = Undefined, tc_primary_contact_phone = Undefined\<rparr>"

definition wizard_site :: "string \<Rightarrow> string \<Rightarrow> string \<Rightarrow> (rat \<times> rat) option \<Rightarrow> SiteCreate" where
  "wizard_site tenant name address coords = \<lparr>sc_tenant_id = tenant, sc_name = name,
     sc_slug = or_else (slugify name) ''site'', sc_address = nul address,
     sc_latitude = of_nullable (map_option fst coords), sc_longitude = of_nullable (map_option snd coords),
     sc_contact_email = Undefined, sc_contact_phone = Undefined, sc_notes = Undefined\<rparr>"

text \<open>The forms of the tenant pages have no fallback slug.\<close>

definition TenantForm :: "string \<Rightarrow> string \<Rightarrow> string \<Rightarrow> string \<Rightarrow> string \<Rightarrow> TenantCreate" where
  "TenantForm name description contactName contactEmail contactPhone = \<lparr>tc_name = name, tc_slug = slugify name,
     tc_description = nul description, tc_primary_contact_name = nul contactName,
     tc_primary_contact_email = nul contactEmail, tc_primary_contact_phone = nul contactPhone\<rparr>"

definition SiteForm :: "string \<Rightarrow> string \<Rightarrow> string \<Rightarrow> rat option \<Rightarrow> rat option \<Rightarrow> string \<Rightarrow> string \<Rightarrow> SiteCreate" where
  "SiteForm tenant name address lat lon contactEmail contactPhone = \<lparr>sc_tenant_id = tenant, sc_name = name,
     sc_slug = slugify name, sc_address = nul address, sc_latitude = of_nullable lat, sc_longitude = of_nullable lon,
     sc_contact_email = nul contactEmail, sc_contact_phone = nul contactPhone, sc_notes = Undefined\<rparr>"

section \<open>The device form\<close>

datatype ssh_auth = Generate | Password

record device_form =
  df_name :: string
  df_vendor :: string
  df_host :: string
  df_port :: rat
  df_username :: string
  df_password :: string
  df_verifyTls :: bool
  df_useSudo :: bool
  df_sshAuth :: ssh_auth

definition SERVER_VENDORS :: "string list" where
  "SERVER_VENDORS = [''linux'']"

definition isServer :: "string \<Rightarrow> bool" where
  "isServer v \<longleftrightarrow> v \<in> set SERVER_VENDORS"

definition new_device_form :: device_form where
  "new_device_form = \<lparr>df_name = [], df_vendor = ''mikrotik'', df_host = [], df_port = 8728, df_username = ''admin'',
     df_password = [], df_verifyTls = False, df_useSudo = True, df_sshAuth = Generate\<rparr>"

text \<open>The effect that runs when the vendor has changed.\<close>

definition vendor_effect :: "device_form \<Rightarrow> device_form" where
  "vendor_effect f =
     (if isServer (df_vendor f) then
        f\<lparr>df_port := 22, df_username := (if df_username f = ''admin'' then ''netfleet'' else df_username f)\<rparr>
      else if df_vendor f = ''mikrotik'' then
        f\<lparr>df_port := 8728, df_username := (if df_username f = ''netfleet'' then ''admin'' else df_username f)\<rparr>
      else f)"

definition set_vendor :: "string \<Rightarrow> device_form \<Rightarrow> device_form" where
  "set_vendor v f = (if df_vendor f = v then f else vendor_effect (f\<lparr>df_vendor := v\<rparr>))"

text \<open>The effect that leaves a vendor no driver is installed for.\<close>

definition drivers_effect :: "Driver list option \<Rightarrow> device_form \<Rightarrow> device_form" where
  "drivers_effect drivers f =
     (case drivers of
        None \<Rightarrow> f
      | Some [] \<Rightarrow> f
      | Some (d # ds) \<Rightarrow>
          if \<exists>x \<in> set (d # ds). dr_vendor x = df_vendor f then f else set_vendor (dr_vendor d) f)"

definition device_payload :: "string \<Rightarrow> device_form \<Rightarrow> DeviceCreate" where
  "device_payload site f =
     (let base = \<lparr>dc_site_id = site, dc_vendor = df_vendor f, dc_name = df_name f, dc_host = df_host f,
            dc_port = Val (df_port f), dc_ssh_port = Undefined, dc_transport = Undefined, dc_verify_tls = Undefined,
            dc_username = df_username f, dc_password = nul (df_password f), dc_api_key = Undefined,
            dc_generate_ssh_key = Undefined, dc_ssh_private_key = Undefined, dc_become_method = Undefined,
            dc_become_password = Undefined, dc_notes = Undefined\<rparr>
      in if isServer (df_vendor f)
         then base\<lparr>dc_ssh_port := Val (df_port f), dc_transport := Val ''ssh'',
           dc_password := (if df_sshAuth f = Password then nul (df_password f) else Null),
           dc_generate_ssh_key := Val (df_sshAuth f = Generate),
           dc_become_method := Val (if df_useSudo f then ''sudo'' else ''none'')\<rparr>
         else base\<lparr>dc_verify_tls := Val (df_verifyTls f)\<rparr>)"

text \<open>The file name of the script: \<open>name.replace(/[^a-z0-9-]+/gi, "-").toLowerCase()\<close>.\<close>

definition name_char :: "char \<Rightarrow> bool" where
  "name_char c \<longleftrightarrow> slug_char (lower_char c) \<or> c = CHR ''-''"

function dash_others :: "string \<Rightarrow> string" where
  "dash_others [] = []"
| "dash_others (c # s) =
     (if name_char c then c # dash_others s
      else CHR ''-'' # dash_others (dropWhile (\<lambda>d. \<not> name_char d) s))"
  by pat_completeness auto

termination dash_others
  by (relation "measure length") (auto simp: length_dropWhile_le le_imp_less_Suc)

definition safeName :: "string \<Rightarrow> string" where
  "safeName name = toLowerCase (dash_others name)"

definition script_file :: "Device \<Rightarrow> string" where
  "script_file d = ''netfleet-onboarding-'' @ safeName (d_name d) @ ''.'' @
     (if d_device_class d = ''server'' then ''sh'' else ''rsc'')"

section \<open>The steps\<close>

datatype ob_stage = TenantStage | SiteStage | DeviceStage | OnboardingStage

datatype ob_flight = TenantFlight TenantCreate | SiteFlight SiteCreate | DeviceFlight DeviceCreate

text \<open>
  \<open>ob_visit\<close> counts the changes of step and tenant; a request carries the number under which
  it was sent. \<open>ob_late\<close> records that a site arrived under another number than it was
  requested with.
\<close>

record onboard =
  ob_step :: ob_stage
  ob_tenant :: "Tenant option"
  ob_site :: "Site option"
  ob_device :: "Device option"
  ob_visit :: nat
  ob_flights :: "(nat \<times> ob_flight) list"
  ob_sent :: "DeviceCreate list"
  ob_late :: bool

definition visit :: "ob_stage \<Rightarrow> onboard \<Rightarrow> onboard" where
  "visit st s = s\<lparr>ob_step := st, ob_visit := ob_visit s + 1\<rparr>"

definition tenant_picked :: "Tenant \<Rightarrow> onboard \<Rightarrow> onboard" where
  "tenant_picked t s = visit SiteStage (s\<lparr>ob_tenant := Some t, ob_site := None\<rparr>)"

definition site_picked :: "Site \<Rightarrow> onboard \<Rightarrow> onboard" where
  "site_picked x s = visit DeviceStage (s\<lparr>ob_site := Some x\<rparr>)"

definition device_added :: "Device \<Rightarrow> onboard \<Rightarrow> onboard" where
  "device_added d s = visit OnboardingStage (s\<lparr>ob_device := Some d\<rparr>)"

definition ob_launch :: "ob_flight \<Rightarrow> onboard \<Rightarrow> onboard" where
  "ob_launch x s = s\<lparr>ob_flights := ob_flights s @ [(ob_visit s, x)]\<rparr>"

definition ob_landed :: "nat \<times> ob_flight \<Rightarrow> onboard \<Rightarrow> onboard" where
  "ob_landed x s = s\<lparr>ob_flights := remove1 x (ob_flights s)\<rparr>"

definition ob_pending :: "onboard \<Rightarrow> bool" where
  "ob_pending s \<longleftrightarrow> ob_visit s \<in> fst ` set (ob_flights s)"

text \<open>
  A listed site belongs to the tenant whose sites were asked for, and a created one to the
  tenant it was created under: that is the server's part.
\<close>

inductive ob_step_rel :: "onboard \<Rightarrow> onboard \<Rightarrow> bool" where
  pick_tenant: "ob_step s = TenantStage \<Longrightarrow> ob_step_rel s (tenant_picked t s)"
| tenant_submit: "ob_step s = TenantStage \<Longrightarrow> trim name \<noteq> [] \<Longrightarrow> \<not> ob_pending s \<Longrightarrow>
    ob_step_rel s (ob_launch (TenantFlight (wizard_tenant name)) s)"
| tenant_ok: "(k, TenantFlight p) \<in> set (ob_flights s) \<Longrightarrow>
    ob_step_rel s (tenant_picked t (ob_landed (k, TenantFlight p) s))"
| pick_site: "ob_step s = SiteStage \<Longrightarrow> ob_tenant s = Some t \<Longrightarrow> st_tenant_id x = tn_id t \<Longrightarrow>
    ob_step_rel s (site_picked x s)"
| site_submit: "ob_step s = SiteStage \<Longrightarrow> ob_tenant s = Some t \<Longrightarrow> trim name \<noteq> [] \<Longrightarrow> \<not> ob_pending s \<Longrightarrow>
    ob_step_rel s (ob_launch (SiteFlight (wizard_site (tn_id t) name address coords)) s)"
| site_ok: "(k, SiteFlight p) \<in> set (ob_flights s) \<Longrightarrow> st_tenant_id x = sc_tenant_id p \<Longrightarrow>
    ob_step_rel s ((site_picked x (ob_landed (k, SiteFlight p) s))\<lparr>ob_late := ob_late s \<or> k \<noteq> ob_visit s\<rparr>)"
| site_back: "ob_step s = SiteStage \<Longrightarrow> ob_step_rel s (visit TenantStage s)"
| device_submit: "ob_step s = DeviceStage \<Longrightarrow> ob_site s = Some x \<Longrightarrow> \<not> ob_pending s \<Longrightarrow>
    ob_step_rel s (ob_launch (DeviceFlight (device_payload (st_id x) f))
      (s\<lparr>ob_sent := ob_sent s @ [device_payload (st_id x) f]\<rparr>))"
| device_ok: "(k, DeviceFlight p) \<in> set (ob_flights s) \<Longrightarrow>
    ob_step_rel s (device_added d (ob_landed (k, DeviceFlight p) s))"
| device_back: "ob_step s = DeviceStage \<Longrightarrow> ob_site s \<noteq> None \<Longrightarrow> ob_step_rel s (visit SiteStage s)"
| failed: "ob_step_rel s (ob_landed x s)"

definition ob_init :: "onboard \<Rightarrow> bool" where
  "ob_init s \<longleftrightarrow> ob_step s = TenantStage \<and> ob_tenant s = None \<and> ob_site s = None \<and> ob_device s = None \<and>
     ob_flights s = [] \<and> ob_sent s = [] \<and> \<not> ob_late s"

section \<open>What holds on every step\<close>

definition coherent :: "onboard \<Rightarrow> bool" where
  "coherent s \<longleftrightarrow> (\<forall>x. ob_site s = Some x \<longrightarrow> (\<exists>t. ob_tenant s = Some t \<and> st_tenant_id x = tn_id t))"

definition ob_ready :: "onboard \<Rightarrow> bool" where
  "ob_ready s \<longleftrightarrow> (ob_step s \<in> {SiteStage, DeviceStage} \<longrightarrow> ob_tenant s \<noteq> None) \<and>
     (ob_step s = DeviceStage \<longrightarrow> ob_site s \<noteq> None) \<and> (ob_step s = OnboardingStage \<longrightarrow> ob_device s \<noteq> None)"

definition ob_flight_ok :: "onboard \<Rightarrow> nat \<times> ob_flight \<Rightarrow> bool" where
  "ob_flight_ok s x \<longleftrightarrow> fst x \<le> ob_visit s \<and>
     (\<forall>p. snd x = SiteFlight p \<longrightarrow> ob_tenant s \<noteq> None \<and>
        (fst x = ob_visit s \<longrightarrow> (\<exists>t. ob_tenant s = Some t \<and> sc_tenant_id p = tn_id t)))"

definition exclusive_auth :: "DeviceCreate \<Rightarrow> bool" where
  "exclusive_auth p \<longleftrightarrow> (dc_generate_ssh_key p = Val True \<longrightarrow> dc_password p = Null) \<and> dc_password p \<noteq> Val [] \<and>
     (dc_transport p = Val ''ssh'' \<longleftrightarrow> isServer (dc_vendor p)) \<and> (isServer (dc_vendor p) \<longrightarrow> dc_ssh_port p = dc_port p)"

definition ob_inv :: "onboard \<Rightarrow> bool" where
  "ob_inv s \<longleftrightarrow> ob_ready s \<and> (ob_late s \<or> coherent s) \<and> (\<forall>x \<in> set (ob_flights s). ob_flight_ok s x) \<and>
     list_all exclusive_auth (ob_sent s)"

lemma device_payload_exclusive: "exclusive_auth (device_payload site f)"
  by (auto simp: exclusive_auth_def device_payload_def or_null_def Let_def)

lemma ob_flight_ok_visit:
  "ob_flight_ok s x \<Longrightarrow> ob_tenant t \<noteq> None \<or> ob_tenant t = ob_tenant s \<Longrightarrow> ob_visit t = Suc (ob_visit s) \<Longrightarrow> ob_flight_ok t x"
  by (auto simp: ob_flight_ok_def)

text \<open>A step to another page, after which no request in flight counts as current.\<close>

lemma ob_inv_visit:
  assumes "ob_inv s" "set (ob_flights t) \<subseteq> set (ob_flights s)" "ob_visit t = Suc (ob_visit s)" "ob_ready t"
    "ob_late t \<or> coherent t" "ob_sent t = ob_sent s" "ob_tenant t \<noteq> None \<or> ob_tenant t = ob_tenant s"
  shows "ob_inv t"
proof -
  have "ob_flight_ok t x" if "x \<in> set (ob_flights t)" for x
  proof (rule ob_flight_ok_visit [OF _ assms(7,3)])
    show "ob_flight_ok s x" using that assms(1,2) unfolding ob_inv_def by blast
  qed
  with assms show ?thesis by (simp add: ob_inv_def)
qed

lemma ob_inv_same:
  assumes "ob_inv s" "ob_step t = ob_step s" "ob_tenant t = ob_tenant s" "ob_site t = ob_site s" "ob_device t = ob_device s"
    "ob_visit t = ob_visit s" "ob_late t = ob_late s" "\<forall>x \<in> set (ob_flights t). ob_flight_ok s x"
    "list_all exclusive_auth (ob_sent t)"
  shows "ob_inv t"
proof -
  have "ob_ready t = ob_ready s" "coherent t = coherent s" "ob_flight_ok t x = ob_flight_ok s x" for x
    by (simp_all add: ob_ready_def coherent_def ob_flight_ok_def assms)
  with assms show ?thesis by (simp add: ob_inv_def)
qed

lemma ob_inv_launch:
  assumes "ob_inv s" "ob_flight_ok s (ob_visit s, x)" "list_all exclusive_auth xs"
  shows "ob_inv (ob_launch x (s\<lparr>ob_sent := xs\<rparr>))"
proof -
  have "\<forall>y \<in> set (ob_flights s). ob_flight_ok s y" using assms(1) by (simp add: ob_inv_def)
  with assms(2,3) show ?thesis by (intro ob_inv_same [OF assms(1)]) (simp_all add: ob_launch_def)
qed

lemma ob_inv_step:
  assumes "ob_inv s" "ob_step_rel s t"
  shows "ob_inv t"
  using assms(2,1)
proof (induction rule: ob_step_rel.induct)
  case (tenant_submit s name)
  then show ?case using ob_inv_launch [OF tenant_submit(4), of "TenantFlight (wizard_tenant name)" "ob_sent s"]
    by (simp add: ob_flight_ok_def ob_inv_def)
next
  case (site_submit s t name address coords)
  then show ?case
    using ob_inv_launch [OF site_submit(5), of "SiteFlight (wizard_site (tn_id t) name address coords)" "ob_sent s"]
    by (simp add: ob_flight_ok_def ob_inv_def wizard_site_def)
next
  case (device_submit s x f)
  then show ?case
    by (intro ob_inv_launch) (simp_all add: ob_flight_ok_def ob_inv_def device_payload_exclusive)
next
  case (site_ok k p s x)
  then have f: "ob_flight_ok s (k, SiteFlight p)" by (auto simp: ob_inv_def)
  let ?t = "(site_picked x (ob_landed (k, SiteFlight p) s))\<lparr>ob_late := ob_late s \<or> k \<noteq> ob_visit s\<rparr>"
  have "ob_ready ?t" using f by (simp add: ob_ready_def site_picked_def visit_def ob_landed_def ob_flight_ok_def)
  moreover have "ob_late ?t \<or> coherent ?t"
    using f site_ok(2) by (auto simp: coherent_def site_picked_def visit_def ob_landed_def ob_flight_ok_def)
  ultimately show ?case
    by (intro ob_inv_visit [OF site_ok(3)]) (simp_all add: site_picked_def visit_def ob_landed_def set_remove1_subset)
next
  case (failed s x)
  have "ob_flight_ok s y" if "y \<in> set (remove1 x (ob_flights s))" for y
    using that set_remove1_subset [of x "ob_flights s"] failed unfolding ob_inv_def by blast
  then show ?case using failed by (intro ob_inv_same [OF failed]) (simp_all add: ob_landed_def ob_inv_def)
next
  case (site_back s)
  then show ?case by (intro ob_inv_visit [OF site_back(2)]) (auto simp: visit_def ob_inv_def ob_ready_def coherent_def)
next
  case (device_ok k p s d)
  then show ?case
    by (intro ob_inv_visit [OF device_ok(2)])
      (auto simp: device_added_def visit_def ob_landed_def ob_inv_def ob_ready_def coherent_def
        dest: subsetD [OF set_remove1_subset])
next
  case (device_back s)
  then show ?case by (intro ob_inv_visit [OF device_back(3)]) (auto simp: visit_def ob_inv_def ob_ready_def coherent_def)
qed (erule ob_inv_visit; simp add: tenant_picked_def site_picked_def visit_def ob_landed_def ob_ready_def coherent_def
    set_remove1_subset)+

interpretation onboarding: invariant_system ob_init ob_step_rel ob_inv
proof
  show "ob_init s \<Longrightarrow> ob_inv s" for s by (simp add: ob_init_def ob_inv_def ob_ready_def coherent_def)
qed (rule ob_inv_step)

text \<open>
  Whatever settles when, the wizard is never on a step without what the step needs: a
  tenant for the site, a site for the device, a device for the script. The site belongs to the
  tenant that is shown unless it arrived after its step had been left. A device is requested
  with a generated key or with a password, never both and never an empty password, and a
  server over SSH with one port.
\<close>

theorem onboard_steps_ok:
  assumes "reaches ob_init ob_step_rel s"
  shows "(ob_step s \<in> {SiteStage, DeviceStage} \<longrightarrow> ob_tenant s \<noteq> None) \<and>
    (ob_step s = DeviceStage \<longrightarrow> ob_site s \<noteq> None) \<and> (ob_step s = OnboardingStage \<longrightarrow> ob_device s \<noteq> None) \<and>
    (\<not> ob_late s \<longrightarrow> (\<forall>x. ob_site s = Some x \<longrightarrow> (\<exists>t. ob_tenant s = Some t \<and> st_tenant_id x = tn_id t))) \<and>
    list_all exclusive_auth (ob_sent s)"
  using onboarding.reachable_inv [OF assms] unfolding ob_inv_def ob_ready_def coherent_def by blast

text \<open>
  Switching the vendor there and back restores port and account, except an account name that
  is the other side's default.
\<close>

lemma vendor_there_and_back:
  assumes "df_vendor f = ''mikrotik''" "df_username f \<noteq> ''netfleet''"
  shows "set_vendor ''mikrotik'' (set_vendor ''linux'' f) = f\<lparr>df_port := 8728\<rparr>"
  using assms by (auto simp: set_vendor_def vendor_effect_def isServer_def SERVER_VENDORS_def)

lemma no_driver_left:
  "drivers = Some (d # ds) \<Longrightarrow> \<exists>x \<in> set (d # ds). dr_vendor x = df_vendor (drivers_effect drivers f)"
  by (auto simp: drivers_effect_def set_vendor_def vendor_effect_def)

definition onboard_start :: onboard where
  "onboard_start = \<lparr>ob_step = TenantStage, ob_tenant = None, ob_site = None, ob_device = None, ob_visit = 0,
     ob_flights = [], ob_sent = [], ob_late = False\<rparr>"

theorem onboard_steps_ok_witness:
  "ob_tenant (tenant_picked demo_tenant onboard_start) \<noteq> None"
proof -
  have "reaches ob_init ob_step_rel (tenant_picked demo_tenant onboard_start)"
    by (rule reaches_one [where s = onboard_start], simp add: ob_init_def onboard_start_def,
        rule pick_tenant, simp add: onboard_start_def)
  from onboard_steps_ok [OF this] show ?thesis by (simp add: tenant_picked_def visit_def)
qed

end
