(* ===== verification/Events_Page.thy ===== *)
theory Events_Page
  imports Reporting Pager Request_Scope
begin

text \<open>
  The event inbox, \<open>app/dashboard/events/page.tsx\<close>: the filters sent to the server, the page,
  the filters applied to the rows of a page, the selection, acknowledging and clearing. The
  page is a step relation; what the server answers is left open, except where a theorem is
  about its paging.
\<close>

section \<open>Rows\<close>

record EventRow =
  er_id :: string
  er_organization_id :: string
  er_device_id :: string
  er_device_name :: "string option"
  er_tenant_id :: "string option"
  er_tenant_name :: "string option"
  er_site_id :: "string option"
  er_site_name :: "string option"
  er_observed_at :: string
  er_device_time :: "string option"
  er_severity :: string
  er_topics :: string
  er_message :: string
  er_source :: string
  er_acknowledged_at :: "string option"
  er_acknowledged_by_user_id :: "string option"
  er_acknowledged_by_email :: "string option"

record EventListResponse =
  el_rows :: "EventRow list"
  el_total :: nat
  el_unacknowledged_total :: nat

definition SEVERITIES :: "string list" where
  "SEVERITIES = [''critical'', ''error'', ''warning'', ''info'']"

section \<open>The page\<close>

record events_page =
  ep_severity :: "string list"
  ep_showAcked :: bool
  ep_search :: string
  ep_page :: nat
  ep_limit :: nat
  ep_tenantId :: string
  ep_siteId :: string
  ep_deviceId :: string
  ep_range :: string
  ep_selected :: "string list"
  ep_colFilters :: "string \<Rightarrow> string"
  ep_data :: "EventListResponse option"
  ep_confirmClear :: bool
  ep_acking :: bool
  ep_clearing :: bool
  ep_seen :: "string set"
  ep_acked :: "string list list"

text \<open>The filters a link may carry: \<open>?severity=critical,error&site=...\<close>.\<close>

definition initialSeverity :: "string option \<Rightarrow> string list" where
  "initialSeverity p =
     filter (\<lambda>x. x \<in> set SEVERITIES) (split CHR '','' (case p of None \<Rightarrow> [] | Some v \<Rightarrow> v))"

definition open_events :: "(string \<Rightarrow> string option) \<Rightarrow> events_page" where
  "open_events params = \<lparr>
     ep_severity = (if initialSeverity (params ''severity'') \<noteq> [] then initialSeverity (params ''severity'') else SEVERITIES),
     ep_showAcked = False, ep_search = [], ep_page = 0, ep_limit = 50,
     ep_tenantId = (case params ''tenant'' of None \<Rightarrow> [] | Some v \<Rightarrow> v),
     ep_siteId = (case params ''site'' of None \<Rightarrow> [] | Some v \<Rightarrow> v),
     ep_deviceId = (case params ''device'' of None \<Rightarrow> [] | Some v \<Rightarrow> v),
     ep_range = ''all'', ep_selected = [], ep_colFilters = (\<lambda>_. []), ep_data = None, ep_confirmClear = False,
     ep_acking = False, ep_clearing = False, ep_seen = {}, ep_acked = []\<rparr>"

text \<open>The query; \<open>rangeStart\<close> reads the clock and is the argument \<open>since\<close>.\<close>

definition events_query :: "(string \<Rightarrow> string option) \<Rightarrow> events_page \<Rightarrow> ListEventsParams" where
  "events_query since s = \<lparr>
     ev_severity = (if ep_severity s \<noteq> [] then Some (ep_severity s) else None),
     ev_device_id = or_null (ep_deviceId s), ev_tenant_id = or_null (ep_tenantId s), ev_site_id = or_null (ep_siteId s),
     ev_acknowledged = (if ep_showAcked s then None else Some False), ev_since = since (ep_range s), ev_until = None,
     ev_search = or_null (ep_search s), ev_limit = Some (of_nat (ep_limit s)),
     ev_offset = Some (of_nat (ep_page s * ep_limit s))\<rparr>"

text \<open>Which errors are worth another attempt, and which send the operator to the sign-in.\<close>

definition events_retry :: "nat \<Rightarrow> string \<Rightarrow> bool" where
  "events_retry failureCount emsg =
     (let msg = toLowerCase emsg
      in if str_includes msg ''token'' \<or> str_includes msg ''unauthorized'' \<or> str_includes msg ''401''
         then False else failureCount < 2)"

definition events_bounce :: "string \<Rightarrow> bool" where
  "events_bounce emsg =
     (let msg = toLowerCase emsg
      in str_includes msg ''missing bearer token'' \<or> str_includes msg ''invalid bearer token'' \<or>
         str_includes msg ''token expired'' \<or> str_includes msg ''unauthorized'')"

section \<open>The rows on screen\<close>

text \<open>A column filter: the text of a cell contains the needle, whatever the case.\<close>

definition cell_matches :: "string \<Rightarrow> string \<Rightarrow> bool" where
  "cell_matches needle cell = str_includes (toLowerCase cell) (toLowerCase needle)"

text \<open>The texts of the date column come from the locale and are the argument \<open>when\<close>.\<close>

definition row_visible :: "(string \<Rightarrow> string) \<Rightarrow> (string \<Rightarrow> string) \<Rightarrow> EventRow \<Rightarrow> bool" where
  "row_visible whn f r \<longleftrightarrow>
     (f ''when'' = [] \<or> cell_matches (f ''when'') (whn (er_observed_at r)) \<or> cell_matches (f ''when'') (or_blank (er_device_time r))) \<and>
     (f ''topics'' = [] \<or> cell_matches (f ''topics'') (er_topics r)) \<and>
     (f ''device'' = [] \<or> (\<exists>n. er_device_name r = Some n \<and> cell_matches (f ''device'') n)) \<and>
     (f ''tenant'' = [] \<or> cell_matches (f ''tenant'') (or_blank (er_tenant_name r))) \<and>
     (f ''site'' = [] \<or> cell_matches (f ''site'') (or_blank (er_site_name r))) \<and>
     (f ''message'' = [] \<or> cell_matches (f ''message'') (er_message r))"

definition page_rows :: "events_page \<Rightarrow> EventRow list" where
  "page_rows s = (case ep_data s of None \<Rightarrow> [] | Some d \<Rightarrow> el_rows d)"

definition filteredRows :: "(string \<Rightarrow> string) \<Rightarrow> events_page \<Rightarrow> EventRow list" where
  "filteredRows whn s = filter (row_visible whn (ep_colFilters s)) (page_rows s)"

definition allOnPageSelected :: "(string \<Rightarrow> string) \<Rightarrow> events_page \<Rightarrow> bool" where
  "allOnPageSelected whn s \<longleftrightarrow> filteredRows whn s \<noteq> [] \<and>
     list_all (\<lambda>r. er_id r \<in> set (ep_selected s)) (filteredRows whn s)"

definition toggleAllOnPage :: "(string \<Rightarrow> string) \<Rightarrow> events_page \<Rightarrow> events_page" where
  "toggleAllOnPage whn s = s\<lparr>ep_selected :=
     fold (\<lambda>r sel. if allOnPageSelected whn s then jset_delete (er_id r) sel else jset_add (er_id r) sel)
       (filteredRows whn s) (ep_selected s)\<rparr>"

definition onCheck :: "string \<Rightarrow> bool \<Rightarrow> events_page \<Rightarrow> events_page" where
  "onCheck i c s = s\<lparr>ep_selected := (if c then jset_add i (ep_selected s) else jset_delete i (ep_selected s))\<rparr>"

section \<open>Filters\<close>

definition toggleSev :: "string \<Rightarrow> events_page \<Rightarrow> events_page" where
  "toggleSev v s = s\<lparr>ep_page := 0, ep_severity :=
     (if v \<in> set (ep_severity s) then filter (\<lambda>x. x \<noteq> v) (ep_severity s) else ep_severity s @ [v])\<rparr>"

definition setTenant :: "string \<Rightarrow> events_page \<Rightarrow> events_page" where
  "setTenant t s = s\<lparr>ep_tenantId := t, ep_siteId := [], ep_deviceId := [], ep_page := 0\<rparr>"

definition setSite :: "string \<Rightarrow> events_page \<Rightarrow> events_page" where
  "setSite t s = s\<lparr>ep_siteId := t, ep_deviceId := [], ep_page := 0\<rparr>"

definition resetFilters :: "events_page \<Rightarrow> events_page" where
  "resetFilters s = s\<lparr>ep_severity := SEVERITIES, ep_showAcked := False, ep_search := [], ep_tenantId := [],
     ep_siteId := [], ep_deviceId := [], ep_range := ''all'', ep_colFilters := (\<lambda>_. []), ep_page := 0\<rparr>"

text \<open>The menus: sites of the tenant, devices of the site or of those sites.\<close>

definition siteOptions :: "string \<Rightarrow> (string \<times> string) list \<Rightarrow> (string \<times> string) list" where
  "siteOptions tenantId sites = filter (\<lambda>(i, t). tenantId = [] \<or> t = tenantId) sites"

definition deviceOptions :: "string \<Rightarrow> string \<Rightarrow> (string \<times> string) list \<Rightarrow> (string \<times> string) list \<Rightarrow> (string \<times> string) list" where
  "deviceOptions tenantId siteId sites devices =
     filter (\<lambda>(i, st). if siteId \<noteq> [] then st = siteId
       else tenantId = [] \<or> st \<in> fst ` set (siteOptions tenantId sites)) devices"

section \<open>Steps\<close>

inductive ev_step :: "(string \<Rightarrow> string) \<Rightarrow> events_page \<Rightarrow> events_page \<Rightarrow> bool" for whn :: "string \<Rightarrow> string" where
  answer: "ev_step whn s (s\<lparr>ep_data := Some d, ep_seen := ep_seen s \<union> er_id ` set (el_rows d)\<rparr>)"
| sev: "v \<in> set SEVERITIES \<Longrightarrow> ev_step whn s (toggleSev v s)"
| tenant: "ev_step whn s (setTenant t s)"
| site: "ev_step whn s (setSite t s)"
| device: "ev_step whn s (s\<lparr>ep_deviceId := t, ep_page := 0\<rparr>)"
| range: "ev_step whn s (s\<lparr>ep_range := t, ep_page := 0\<rparr>)"
| search: "ev_step whn s (s\<lparr>ep_search := t, ep_page := 0\<rparr>)"
| acked_too: "ev_step whn s (s\<lparr>ep_showAcked := b, ep_page := 0\<rparr>)"
| reset: "ev_step whn s (resetFilters s)"
| col: "ev_step whn s (s\<lparr>ep_colFilters := (ep_colFilters s)(c := v)\<rparr>)"
| offset: "ep_data s = Some d \<Longrightarrow> 0 < ep_limit s \<Longrightarrow>
    ev_step whn s (s\<lparr>ep_page := nat (go (int (ep_limit s)) (int (el_total d)) p div int (ep_limit s))\<rparr>)"
| limit: "ep_data s \<noteq> None \<Longrightarrow> 0 < n \<Longrightarrow> ev_step whn s (s\<lparr>ep_limit := n, ep_page := 0\<rparr>)"
| check: "r \<in> set (filteredRows whn s) \<Longrightarrow> ev_step whn s (onCheck (er_id r) b s)"
| check_all: "ev_step whn s (toggleAllOnPage whn s)"
| ack: "ep_selected s \<noteq> [] \<Longrightarrow> \<not> ep_acking s \<Longrightarrow>
    ev_step whn s (s\<lparr>ep_acking := True, ep_acked := ep_acked s @ [ep_selected s]\<rparr>)"
| ack_ok: "ep_acking s \<Longrightarrow> ev_step whn s (s\<lparr>ep_acking := False, ep_selected := []\<rparr>)"
| ack_failed: "ep_acking s \<Longrightarrow> ev_step whn s (s\<lparr>ep_acking := False\<rparr>)"
| ask_clear: "\<not> ep_confirmClear s \<Longrightarrow> ev_step whn s (s\<lparr>ep_confirmClear := True\<rparr>)"
| cancel_clear: "ep_confirmClear s \<Longrightarrow> \<not> ep_clearing s \<Longrightarrow> ev_step whn s (s\<lparr>ep_confirmClear := False\<rparr>)"
| clear_all: "ep_confirmClear s \<Longrightarrow> \<not> ep_clearing s \<Longrightarrow> ev_step whn s (s\<lparr>ep_clearing := True\<rparr>)"
| clear_ok: "ep_clearing s \<Longrightarrow>
    ev_step whn s (s\<lparr>ep_clearing := False, ep_confirmClear := False, ep_selected := [], ep_page := 0\<rparr>)"
| clear_failed: "ep_clearing s \<Longrightarrow> ev_step whn s (s\<lparr>ep_clearing := False\<rparr>)"

section \<open>Pages and filters\<close>

definition same_filters :: "events_page \<Rightarrow> events_page \<Rightarrow> bool" where
  "same_filters s t \<longleftrightarrow> (\<forall>since. (events_query since t)\<lparr>ev_offset := None\<rparr> = (events_query since s)\<lparr>ev_offset := None\<rparr>)"

lemma go_page:
  assumes "0 < l"
  shows "nat (go (int l) (int n) p div int l) * l < max 1 n"
proof -
  let ?g = "go (int l) (int n) p"
  have g: "0 \<le> ?g" "?g mod int l = 0" "?g < max 1 (int n)" using go_inside [of "int l" "int n" p] assms by simp_all
  then have "?g div int l * int l = ?g" by (simp add: mult_div_mod_eq [of "?g" "int l"] algebra_simps minus_mod_eq_mult_div [symmetric])
  then have "int (nat (?g div int l) * l) = ?g" using g(1) by (simp add: pos_imp_zdiv_nonneg_iff assms)
  with g(3) show ?thesis by linarith
qed

text \<open>
  A change of what is asked for starts over at the first page. A step that leaves the
  page counter elsewhere has kept every filter and the page size, and either kept the page or
  moved it, through the pager, to one that exists in the last answer.
\<close>

theorem events_filters_restart:
  assumes "ev_step whn s t"
  shows "ep_page t = 0 \<or> same_filters s t \<and>
    (ep_page t = ep_page s \<or> (\<exists>d. ep_data s = Some d \<and> ep_page t * ep_limit t < max 1 (el_total d)))"
  using assms
proof (cases rule: ev_step.cases)
  case (offset d p)
  with go_page [of "ep_limit s" "el_total d" p] show ?thesis
    by (auto simp: same_filters_def events_query_def)
qed (auto simp: same_filters_def events_query_def toggleSev_def setTenant_def setSite_def resetFilters_def onCheck_def
    toggleAllOnPage_def)

text \<open>No severity ticked asks for every severity, like a request without that filter.\<close>

lemma no_severity_is_all:
  "buildSearch E (events_query since (s\<lparr>ep_severity := []\<rparr>)) = buildSearch E ((events_query since s)\<lparr>ev_severity := None\<rparr>)"
  by (simp add: buildSearch_def events_query_def)

section \<open>Acknowledging\<close>

definition ev_inv :: "events_page \<Rightarrow> bool" where
  "ev_inv s \<longleftrightarrow> set (ep_selected s) \<subseteq> ep_seen s \<and> distinct (ep_selected s) \<and> er_id ` set (page_rows s) \<subseteq> ep_seen s \<and>
     list_all (\<lambda>l. l \<noteq> [] \<and> distinct l \<and> set l \<subseteq> ep_seen s) (ep_acked s)"

lemma fold_toggles:
  "set (fold (\<lambda>r. jset_delete (f r)) rs acc) = set acc - f ` set rs"
  "set (fold (\<lambda>r. jset_add (f r)) rs acc) = set acc \<union> f ` set rs"
  "distinct acc \<Longrightarrow> distinct (fold (\<lambda>r. jset_delete (f r)) rs acc)"
  "distinct acc \<Longrightarrow> distinct (fold (\<lambda>r. jset_add (f r)) rs acc)"
  by (induction rs arbitrary: acc) auto

lemma toggle_all_set:
  "set (ep_selected (toggleAllOnPage whn s)) =
     (if allOnPageSelected whn s then set (ep_selected s) - er_id ` set (filteredRows whn s)
      else set (ep_selected s) \<union> er_id ` set (filteredRows whn s))"
  by (simp add: toggleAllOnPage_def fold_toggles)

lemma toggle_all_distinct: "distinct (ep_selected s) \<Longrightarrow> distinct (ep_selected (toggleAllOnPage whn s))"
  by (cases "allOnPageSelected whn s") (simp_all add: toggleAllOnPage_def fold_toggles)

lemma toggle_all_simps [simp]:
  "ep_seen (toggleAllOnPage whn s) = ep_seen s" "page_rows (toggleAllOnPage whn s) = page_rows s"
  "ep_acked (toggleAllOnPage whn s) = ep_acked s"
  by (simp_all add: toggleAllOnPage_def page_rows_def)

lemma visible_sub: "set (filteredRows whn s) \<subseteq> set (page_rows s)"
  by (auto simp: filteredRows_def)

lemma ev_inv_step:
  assumes "ev_inv s" "ev_step whn s t"
  shows "ev_inv t"
  using assms(2,1)
proof (induction rule: ev_step.induct)
  case (answer s d)
  then show ?case by (force simp: ev_inv_def page_rows_def list_all_iff)
next
  case (check r s b)
  then have "er_id r \<in> ep_seen s" using visible_sub [of whn s] by (auto simp: ev_inv_def)
  with check show ?case by (auto simp: ev_inv_def onCheck_def page_rows_def)
next
  case (check_all s)
  then show ?case using visible_sub [of whn s]
    by (auto simp: ev_inv_def toggle_all_set toggle_all_distinct)
qed (auto simp: ev_inv_def page_rows_def toggleSev_def setTenant_def setSite_def resetFilters_def)

interpretation inbox: invariant_system "\<lambda>s. \<exists>params. s = open_events params" "ev_step whn" ev_inv for whn
proof
  show "\<exists>params. s = open_events params \<Longrightarrow> ev_inv s" for s
    by (auto simp: ev_inv_def open_events_def page_rows_def)
qed (rule ev_inv_step)

text \<open>
  C32. Only what has been shown is acknowledged: every request to acknowledge names at least
  one event, none twice, and each of them was a row of some answer the page received.
\<close>

theorem events_ack_seen:
  assumes "reaches (\<lambda>s. \<exists>params. s = open_events params) (ev_step whn) s" "ids \<in> set (ep_acked s)"
  shows "ids \<noteq> [] \<and> distinct ids \<and> set ids \<subseteq> ep_seen s"
  using inbox.reachable_inv [OF assms(1)] assms(2) by (auto simp: ev_inv_def list_all_iff)

section \<open>The last page\<close>

text \<open>The server's answer to a query: a page of the matching events, in order, and their number.\<close>

definition paged :: "EventRow list \<Rightarrow> nat \<Rightarrow> nat \<Rightarrow> EventListResponse" where
  "paged evs limit page = \<lparr>el_rows = take limit (drop (page * limit) evs), el_total = length evs,
     el_unacknowledged_total = length evs\<rparr>"

definition without :: "string list \<Rightarrow> EventRow list \<Rightarrow> EventRow list" where
  "without ids evs = filter (\<lambda>e. er_id e \<notin> set ids) evs"

lemma without_tail:
  assumes "distinct (map er_id evs)"
  shows "without (map er_id (drop n evs)) evs = take n evs"
proof -
  have "er_id ` set (take n evs) \<inter> er_id ` set (drop n evs) = {}"
    using assms by (metis append_take_drop_id distinct_append map_append set_map)
  then have "without (map er_id (drop n evs)) (take n evs @ drop n evs) = take n evs"
    unfolding without_def filter_append by (auto simp: filter_id_conv filter_empty_conv)
  then show ?thesis by simp
qed

text \<open>
  Acknowledging everything on the last page leaves an empty screen: the page counter stays
  where it is, the next answer for it has no rows although events are left on the pages
  before, and the pager's label counts backwards.
\<close>

theorem ack_empties_last_page:
  assumes "distinct (map er_id evs)" "0 < ep_page s" "0 < ep_limit s"
    and "ep_page s * ep_limit s < length evs" "length evs \<le> (ep_page s + 1) * ep_limit s"
    and "ep_data s = Some (paged evs (ep_limit s) (ep_page s))" "ep_selected s = map er_id (page_rows s)"
  shows "page_rows s \<noteq> [] \<and>
    (let t = s\<lparr>ep_acking := False, ep_selected := []\<rparr>;
         d = paged (without (ep_selected s) evs) (ep_limit t) (ep_page t)
     in el_rows d = [] \<and> el_total d = ep_page s * ep_limit s \<and> 0 < el_total d \<and>
        to_of (int (ep_page t * ep_limit t)) (int (ep_limit t)) (int (el_total d)) <
          from_of (int (ep_page t * ep_limit t)) (int (el_total d)))"
proof -
  let ?n = "ep_page s * ep_limit s"
  have rows: "page_rows s = drop ?n evs" using assms(5,6) by (simp add: page_rows_def paged_def)
  then have "without (ep_selected s) evs = take ?n evs" by (simp add: assms(7) without_tail [OF assms(1)])
  then show ?thesis using assms(2-4) rows
    by (simp add: paged_def Let_def from_of_def to_of_def)
qed

section \<open>Witnesses\<close>

definition demo_event :: "string \<Rightarrow> EventRow" where
  "demo_event i = \<lparr>er_id = i, er_organization_id = ''o'', er_device_id = ''d'', er_device_name = None, er_tenant_id = None,
     er_tenant_name = None, er_site_id = None, er_site_name = None, er_observed_at = [], er_device_time = None,
     er_severity = ''info'', er_topics = [], er_message = [], er_source = ''syslog'', er_acknowledged_at = None,
     er_acknowledged_by_user_id = None, er_acknowledged_by_email = None\<rparr>"

abbreviation demo_events :: "EventRow list" where
  "demo_events \<equiv> map demo_event [''a'', ''b'', ''c'']"

definition demo_inbox :: events_page where
  "demo_inbox = (open_events (\<lambda>_. None))\<lparr>ep_limit := 2, ep_page := 1, ep_data := Some (paged demo_events 2 1), ep_selected := [''c'']\<rparr>"

theorem ack_empties_last_page_witness: "el_rows (paged (without [''c''] demo_events) 2 1) = []"
  using ack_empties_last_page [of demo_events demo_inbox]
  by (simp add: demo_inbox_def demo_event_def page_rows_def paged_def Let_def)

theorem events_filters_restart_witness:
  "ep_page (setTenant ''t'' demo_inbox) = 0 \<or> same_filters demo_inbox (setTenant ''t'' demo_inbox)"
  using events_filters_restart [OF tenant [of id demo_inbox "''t''"]] by blast

theorem events_ack_seen_witness:
  "\<exists>s. reaches (\<lambda>s. \<exists>params. s = open_events params) (ev_step id) s \<and> ep_acked s = [[''a'']] \<and> ''a'' \<in> ep_seen s"
proof -
  define i0 where "i0 = open_events (\<lambda>_. None)"
  define i1 where "i1 = i0\<lparr>ep_data := Some (paged demo_events 2 0), ep_seen := ep_seen i0 \<union> er_id ` set (el_rows (paged demo_events 2 0))\<rparr>"
  define i2 where "i2 = onCheck ''a'' True i1"
  define i3 where "i3 = i2\<lparr>ep_acking := True, ep_acked := ep_acked i2 @ [ep_selected i2]\<rparr>"
  have "reaches (\<lambda>s. \<exists>params. s = open_events params) (ev_step id) i1"
    unfolding i1_def by (rule reaches_one [where s = i0]) (auto simp: i0_def intro: answer)
  moreover have "ev_step id i1 i2"
    using check [of "demo_event ''a''" id i1 True]
    by (simp add: i2_def i1_def i0_def filteredRows_def page_rows_def paged_def row_visible_def open_events_def demo_event_def)
  moreover have "ev_step id i2 i3"
    unfolding i3_def by (rule ack) (simp_all add: i2_def i1_def i0_def onCheck_def open_events_def jset_add_def)
  ultimately have r: "reaches (\<lambda>s. \<exists>params. s = open_events params) (ev_step id) i3" by (meson reaches_step)
  moreover have "ep_acked i3 = [[''a'']]"
    by (simp add: i3_def i2_def i1_def i0_def onCheck_def open_events_def jset_add_def)
  moreover from this have "''a'' \<in> ep_seen i3" using events_ack_seen [OF r, of "[''a'']"] by simp
  ultimately show ?thesis by blast
qed

end
