(* ===== verification/Js_Sort.thy ===== *)
theory Js_Sort
  imports Bulk_Firmware
begin

text \<open>
  \<open>Array.prototype.sort\<close> with a comparison function. A comparison that is antisymmetric in
  sign and transitive sorts: the result is a permutation of the rows in which no row stands
  before one that has to precede it, and equal rows keep their order. Comparisons chained with
  \<open>||\<close> are again of that kind.
\<close>

lemma length_sort_by: "length (sort_by cmp xs) = length xs"
  by (metis mset_sort_by size_mset)

definition num_cmp :: "'a :: linordered_idom \<Rightarrow> 'a \<Rightarrow> int" where
  "num_cmp x y = (if x < y then -1 else if x > y then 1 else 0)"

definition or_cmp :: "('a \<Rightarrow> 'a \<Rightarrow> int) \<Rightarrow> ('a \<Rightarrow> 'a \<Rightarrow> int) \<Rightarrow> 'a \<Rightarrow> 'a \<Rightarrow> int" where
  "or_cmp c d x y = (if c x y \<noteq> 0 then c x y else d x y)"

definition consistent :: "('a \<Rightarrow> 'a \<Rightarrow> int) \<Rightarrow> bool" where
  "consistent cmp \<longleftrightarrow> (\<forall>x y. cmp x y \<le> 0 \<longleftrightarrow> 0 \<le> cmp y x) \<and>
     (\<forall>x y z. cmp x y \<le> 0 \<longrightarrow> cmp y z \<le> 0 \<longrightarrow> cmp x z \<le> 0)"

locale js_sort =
  fixes cmp :: "'a \<Rightarrow> 'a \<Rightarrow> int"
  assumes cmp_sym: "cmp x y \<le> 0 \<longleftrightarrow> 0 \<le> cmp y x"
    and cmp_trans: "cmp x y \<le> 0 \<Longrightarrow> cmp y z \<le> 0 \<Longrightarrow> cmp x z \<le> 0"
begin

lemma consistent_cmp: "consistent cmp"
  unfolding consistent_def using cmp_sym cmp_trans by blast

lemma cmp_total: "cmp x y \<le> 0 \<or> cmp y x \<le> 0"
  using cmp_sym [of y x] by linarith

abbreviation ordered_rows :: "'a list \<Rightarrow> bool" where
  "ordered_rows \<equiv> sorted_wrt (\<lambda>x y. cmp x y \<le> 0)"

lemma set_insert_by: "set (insert_by cmp x ys) = insert x (set ys)"
  by (metis mset_insert_by set_mset_add_mset_insert set_mset_mset)

lemma insert_by_ordered: "ordered_rows ys \<Longrightarrow> ordered_rows (insert_by cmp x ys)"
proof (induction ys)
  case (Cons y ys)
  then show ?case using cmp_total [of x y] by (auto simp: set_insert_by intro: cmp_trans)
qed simp

lemma sort_by_ordered: "ordered_rows (sort_by cmp xs)"
  unfolding sort_by_def by (induction xs) (simp_all add: insert_by_ordered)

text \<open>A row that is smaller than another one comes first.\<close>

lemma sort_by_before:
  assumes "i < j" "j < length (sort_by cmp xs)"
  shows "cmp (sort_by cmp xs ! i) (sort_by cmp xs ! j) \<le> 0"
  using sort_by_ordered [of xs] assms by (simp add: sorted_wrt_iff_nth_less)

lemma insert_by_stable:
  assumes "ordered_rows ys"
  shows "filter (\<lambda>y. cmp z y = 0) (insert_by cmp x ys) =
    (if cmp z x = 0 then x # filter (\<lambda>y. cmp z y = 0) ys else filter (\<lambda>y. cmp z y = 0) ys)"
  using assms
proof (induction ys)
  case (Cons y ys)
  have "cmp z y \<noteq> 0" if "\<not> cmp x y \<le> 0" "cmp z x = 0"
  proof
    assume "cmp z y = 0"
    then have "cmp x z \<le> 0" "cmp z y \<le> 0" using that(2) cmp_sym [of x z] by auto
    with cmp_trans that(1) show False by blast
  qed
  with Cons show ?case by auto
qed simp

lemma sort_by_stable: "filter (\<lambda>y. cmp z y = 0) (sort_by cmp xs) = filter (\<lambda>y. cmp z y = 0) xs"
proof (induction xs)
  case (Cons x xs)
  have "ordered_rows (foldr (insert_by cmp) xs [])" using sort_by_ordered [of xs] by (simp add: sort_by_def)
  with Cons show ?case by (simp add: sort_by_def insert_by_stable)
qed (simp add: sort_by_def)

end

lemma consistent_js_sort: "consistent cmp \<longleftrightarrow> js_sort cmp"
  unfolding consistent_def js_sort_def by blast

lemma consistent_num: "consistent (\<lambda>a b. num_cmp (f a) (f b))" "consistent (\<lambda>a b. num_cmp (f b) (f a))"
  by (auto simp: consistent_def num_cmp_def)

lemma consistent_on: "consistent c \<Longrightarrow> consistent (\<lambda>a b. c (f a) (f b))"
  unfolding consistent_def by blast

lemma consistent_or: "consistent c \<Longrightarrow> consistent d \<Longrightarrow> consistent (or_cmp c d)"
proof -
  assume c: "consistent c" and d: "consistent d"
  have zero: "c x y = 0 \<longleftrightarrow> c y x = 0" for x y
    using c unfolding consistent_def by (metis dual_order.antisym order_refl)
  have tr: "c x y \<le> 0 \<Longrightarrow> c y z \<le> 0 \<Longrightarrow> c x z \<le> 0" and td: "d x y \<le> 0 \<Longrightarrow> d y z \<le> 0 \<Longrightarrow> d x z \<le> 0" for x y z
    using c d unfolding consistent_def by blast+
  have sc: "c x y \<le> 0 \<longleftrightarrow> 0 \<le> c y x" and sd: "d x y \<le> 0 \<longleftrightarrow> 0 \<le> d y x" for x y
    using c d unfolding consistent_def by blast+
  show "consistent (or_cmp c d)"
    unfolding consistent_def
  proof (intro conjI allI impI)
    show "or_cmp c d x y \<le> 0 \<longleftrightarrow> 0 \<le> or_cmp c d y x" for x y
      using sc sd zero by (simp add: or_cmp_def)
    fix x y z assume a: "or_cmp c d x y \<le> 0" and b: "or_cmp c d y z \<le> 0"
    then have xy: "c x y \<le> 0" and yz: "c y z \<le> 0" by (auto simp: or_cmp_def split: if_splits)
    show "or_cmp c d x z \<le> 0"
    proof (cases "c x z = 0")
      case True
      then have "c z x \<le> 0" using sc [of z x] by simp
      then have "c y x \<le> 0" "c z y \<le> 0" using tr yz xy by blast+
      then have "c x y = 0" "c y z = 0" using xy yz sc by (metis dual_order.antisym)+
      with a b True td show ?thesis by (simp add: or_cmp_def)
    qed (use tr [OF xy yz] in \<open>simp add: or_cmp_def\<close>)
  qed
qed

text \<open>Sorting by a number is Isabelle's own stable sort.\<close>

lemma sort_by_key: "sort_by (\<lambda>a b. num_cmp (f a) (f b)) xs = sort_key f xs"
proof -
  have "insert_by (\<lambda>a b. num_cmp (f a) (f b)) x ys = insort_key f x ys" for x ys
    by (induction ys) (auto simp: num_cmp_def)
  then show ?thesis unfolding sort_by_def sort_key_def by (induction xs) simp_all
qed

interpretation numeric: js_sort "\<lambda>a b. num_cmp (f a) (f b)" for f :: "'a \<Rightarrow> 'b :: linordered_idom"
  using consistent_num(1) [of f] by (simp add: consistent_js_sort)

end
