(* ===== verification/Tables.thy ===== *)
theory Tables
  imports Js_Sort Ipv4
begin

text \<open>
  The tables of the dashboard: the hook \<open>useTable\<close> of \<open>devices/[id]/dhcp/page.tsx\<close> with its
  address order \<open>ipToInt\<close>, the hook \<open>useColFilters\<close> of \<open>reports/page.tsx\<close>, the list of
  servers (\<open>servers/page.tsx\<close>), of processes (\<open>devices/[id]/processes/page.tsx\<close>) and of the
  interfaces a DHCP server may use.
\<close>

section \<open>IPv4 order\<close>

text \<open>
  \<open>Number(p)\<close> when it is finite: blank text is zero, digits are their value; other notations
  are the argument \<open>other\<close>.
\<close>

definition finite_number :: "(string \<Rightarrow> rat option) \<Rightarrow> string \<Rightarrow> rat option" where
  "finite_number other s =
     (if trim s = [] then Some 0
      else if list_all is_digit (trim s) then Some (of_nat (read_nat (trim s))) else other s)"

fun ip_acc :: "(string \<Rightarrow> rat option) \<Rightarrow> string list \<Rightarrow> rat \<Rightarrow> rat option" where
  "ip_acc other [] acc = Some acc"
| "ip_acc other (p # ps) acc =
     (case finite_number other p of
        None \<Rightarrow> None
      | Some n \<Rightarrow> if n < 0 \<or> n > 255 then None else ip_acc other ps (acc * 256 + n))"

definition ipToInt :: "(string \<Rightarrow> rat option) \<Rightarrow> string \<Rightarrow> rat" where
  "ipToInt other s =
     (let head = trim (hd (split CHR ''-'' (hd (split CHR ''/'' s))));
          parts = split CHR ''.'' head
      in if head = [] then 0
         else if length parts \<noteq> 4 then 0
         else (case ip_acc other parts 0 of None \<Rightarrow> 0 | Some n \<Rightarrow> n))"

section \<open>useColFilters and useTable\<close>

datatype SortDir = Asc | Desc

record SortState =
  so_by :: "string option"
  so_dir :: "SortDir option"

record 'a table_opts =
  to_accessors :: "string \<Rightarrow> ('a \<Rightarrow> string) option"
  to_numeric :: "string \<Rightarrow> ('a \<Rightarrow> rat) option"

record table_state =
  ts_filters :: "(string \<times> string) list"
  ts_sort :: SortState

definition new_table :: table_state where
  "new_table = \<lparr>ts_filters = [], ts_sort = \<lparr>so_by = None, so_dir = None\<rparr>\<rparr>"

text \<open>\<open>{ ...p, [id]: v }\<close>: an existing key keeps its place.\<close>

fun put_entry :: "string \<Rightarrow> string \<Rightarrow> (string \<times> string) list \<Rightarrow> (string \<times> string) list" where
  "put_entry k v [] = [(k, v)]"
| "put_entry k v ((k', v') # es) = (if k = k' then (k, v) # es else (k', v') # put_entry k v es)"

definition onFilter :: "string \<Rightarrow> string \<Rightarrow> table_state \<Rightarrow> table_state" where
  "onFilter k v t = t\<lparr>ts_filters := put_entry k v (ts_filters t)\<rparr>"

definition next_sort :: "string \<Rightarrow> SortState \<Rightarrow> SortState" where
  "next_sort k prev =
     (if so_by prev \<noteq> Some k then \<lparr>so_by = Some k, so_dir = Some Asc\<rparr>
      else if so_dir prev = Some Asc then \<lparr>so_by = Some k, so_dir = Some Desc\<rparr>
      else \<lparr>so_by = None, so_dir = None\<rparr>)"

definition onSort :: "string \<Rightarrow> table_state \<Rightarrow> table_state" where
  "onSort k t = t\<lparr>ts_sort := next_sort k (ts_sort t)\<rparr>"

definition entry_ok :: "(string \<Rightarrow> ('a \<Rightarrow> string) option) \<Rightarrow> 'a \<Rightarrow> string \<times> string \<Rightarrow> bool" where
  "entry_ok accessors r e =
     (let needle = toLowerCase (trim (snd e))
      in if needle = [] then True
         else (case accessors (fst e) of None \<Rightarrow> True | Some acc \<Rightarrow> str_includes (toLowerCase (acc r)) needle))"

text \<open>\<open>apply\<close> of \<open>useColFilters\<close>, the first half of \<open>visible\<close>.\<close>

definition apply_filters :: "(string \<Rightarrow> ('a \<Rightarrow> string) option) \<Rightarrow> (string \<times> string) list \<Rightarrow> 'a list \<Rightarrow> 'a list" where
  "apply_filters accessors filters rows = filter (\<lambda>r. list_all (entry_ok accessors r) filters) rows"

definition row_cmp :: "(string \<Rightarrow> string \<Rightarrow> int) \<Rightarrow> 'a table_opts \<Rightarrow> string \<Rightarrow> 'a \<Rightarrow> 'a \<Rightarrow> int" where
  "row_cmp lc opts k a b =
     (case to_numeric opts k of
        Some f \<Rightarrow> num_cmp (f a) (f b)
      | None \<Rightarrow> (case to_accessors opts k of Some t \<Rightarrow> lc (t a) (t b) | None \<Rightarrow> 0))"

definition visible :: "(string \<Rightarrow> string \<Rightarrow> int) \<Rightarrow> 'a table_opts \<Rightarrow> table_state \<Rightarrow> 'a list \<Rightarrow> 'a list" where
  "visible lc opts t rows =
     (let out = apply_filters (to_accessors opts) (ts_filters t) rows
      in (case (so_by (ts_sort t), so_dir (ts_sort t)) of
            (Some k, Some d) \<Rightarrow>
              if k = [] then out
              else let sorted = sort_by (row_cmp lc opts k) out in (if d = Desc then rev sorted else sorted)
          | _ \<Rightarrow> out))"

section \<open>Servers, processes, interfaces\<close>

text \<open>\<open>[d.name, d.host, d.os_version, d.os_family].filter(Boolean).join(" ")\<close>\<close>

definition server_text :: "Device \<Rightarrow> string" where
  "server_text d = join '' '' (filter (\<lambda>w. w \<noteq> [])
     (map (\<lambda>v. case v of None \<Rightarrow> [] | Some s \<Rightarrow> s) [Some (d_name d), Some (d_host d), d_os_version d, d_os_family d]))"

definition or_minus1 :: "int option \<Rightarrow> int" where
  "or_minus1 n = (case n of None \<Rightarrow> -1 | Some k \<Rightarrow> k)"

definition server_cmp :: "(string \<Rightarrow> string \<Rightarrow> int) \<Rightarrow> Device \<Rightarrow> Device \<Rightarrow> int" where
  "server_cmp lc = or_cmp (\<lambda>a b. num_cmp (or_minus1 (d_packages_security_count b)) (or_minus1 (d_packages_security_count a)))
     (or_cmp (\<lambda>a b. num_cmp (or_minus1 (d_packages_updates_count b)) (or_minus1 (d_packages_updates_count a)))
       (\<lambda>a b. lc (d_name a) (d_name b)))"

definition server_matches :: "string \<Rightarrow> Device \<Rightarrow> bool" where
  "server_matches query d \<longleftrightarrow> d_device_class d = ''server'' \<and>
     (let needle = toLowerCase (trim query) in needle = [] \<or> str_includes (toLowerCase (server_text d)) needle)"

definition servers :: "(string \<Rightarrow> string \<Rightarrow> int) \<Rightarrow> string \<Rightarrow> Device list \<Rightarrow> Device list" where
  "servers lc query devices = sort_by (server_cmp lc) (filter (server_matches query) devices)"

record server_totals =
  st_hosts :: nat
  st_updates :: int
  st_security :: int
  st_reboots :: nat
  st_unchecked :: nat

definition totals :: "Device list \<Rightarrow> server_totals" where
  "totals ds = \<lparr>st_hosts = length ds,
     st_updates = foldl (\<lambda>n d. n + (case d_packages_updates_count d of None \<Rightarrow> 0 | Some k \<Rightarrow> k)) 0 ds,
     st_security = foldl (\<lambda>n d. n + (case d_packages_security_count d of None \<Rightarrow> 0 | Some k \<Rightarrow> k)) 0 ds,
     st_reboots = length (filter (\<lambda>d. d_packages_reboot_required d = Some True) ds),
     st_unchecked = length (filter (\<lambda>d. \<not> truthy_str (d_packages_checked_at d)) ds)\<rparr>"

datatype SortKey = CpuPct | MemPct | RssBytes | Pid

record ProcessInfo =
  pi_pid :: int
  pi_user :: "string option"
  pi_cpu_pct :: "rat option"
  pi_mem_pct :: "rat option"
  pi_rss_bytes :: "rat option"
  pi_state :: "string option"
  pi_started :: "string option"
  pi_cpu_time :: "string option"
  pi_command :: string
  pi_threads :: "rat option"

fun sort_value :: "SortKey \<Rightarrow> ProcessInfo \<Rightarrow> rat" where
  "sort_value CpuPct p = (case pi_cpu_pct p of None \<Rightarrow> 0 | Some v \<Rightarrow> v)"
| "sort_value MemPct p = (case pi_mem_pct p of None \<Rightarrow> 0 | Some v \<Rightarrow> v)"
| "sort_value RssBytes p = (case pi_rss_bytes p of None \<Rightarrow> 0 | Some v \<Rightarrow> v)"
| "sort_value Pid p = of_int (pi_pid p)"

definition process_matches :: "string \<Rightarrow> ProcessInfo \<Rightarrow> bool" where
  "process_matches flt p \<longleftrightarrow>
     (let needle = toLowerCase (trim flt)
      in needle = [] \<or> str_includes (toLowerCase (pi_command p)) needle \<or>
         str_includes (toLowerCase (case pi_user p of None \<Rightarrow> [] | Some u \<Rightarrow> u)) needle \<or> show_int (pi_pid p) = needle)"

definition process_rows :: "SortKey \<Rightarrow> string \<Rightarrow> ProcessInfo list \<Rightarrow> ProcessInfo list" where
  "process_rows k flt ps =
     sort_by (\<lambda>a b. if k = Pid then num_cmp (sort_value k a) (sort_value k b) else num_cmp (sort_value k b) (sort_value k a))
       (filter (process_matches flt) ps)"

text \<open>Interfaces by kind and name, as pairs of name and type.\<close>

definition iface_score :: "string \<Rightarrow> int" where
  "iface_score t =
     (if t = ''bridge'' then 0 else if t = ''vlan'' then 1 else if t = ''ether'' then 2
      else if t = ''wireguard'' \<or> startsWith t ''wg'' then 9 else 3)"

definition sorted_ifaces :: "(string \<Rightarrow> string \<Rightarrow> int) \<Rightarrow> (string \<times> string) list \<Rightarrow> (string \<times> string) list" where
  "sorted_ifaces lc = sort_by (or_cmp (\<lambda>a b. num_cmp (iface_score (snd a)) (iface_score (snd b))) (\<lambda>a b. lc (fst a) (fst b)))"

definition hasCurrent :: "string \<Rightarrow> (string \<times> string) list \<Rightarrow> bool" where
  "hasCurrent value ifs \<longleftrightarrow> value = [] \<or> list_ex (\<lambda>i. fst i = value) ifs"

section \<open>Addresses in order\<close>

lemma finite_number_show [simp]: "finite_number other (show_nat n) = Some (of_nat n)"
  by (simp add: finite_number_def list_all_iff show_nat_digits)

lemma dash_show [simp]: "CHR ''-'' \<notin> set (show_nat n)"
  by (rule show_nat_clean) (simp add: is_digit_def)

lemma quad_no_dash [simp]: "CHR ''-'' \<notin> set (quad a b c d)"
  by (simp add: quad_def)

lemma hd_quad: "is_digit (hd (quad a b c d))" "is_digit (last (quad a b c d))" "quad a b c d \<noteq> []"
proof -
  show "is_digit (hd (quad a b c d))"
    using show_nat_digits [of "hd (show_nat a)" a] by (simp add: quad_def)
  show "is_digit (last (quad a b c d))"
    using show_nat_digits [of "last (show_nat d)" d] by (simp add: quad_def)
  show "quad a b c d \<noteq> []" by (simp add: quad_def)
qed

lemma trim_quad [simp]: "trim (quad a b c d) = quad a b c d"
proof -
  have "\<not> is_ws ch" if "is_digit ch" for ch using that by (auto simp: is_digit_def is_ws_def)
  with hd_quad show ?thesis by (metis trimEnd_id trimStart_id trim_def)
qed

text \<open>The part of a text that \<open>ipToInt\<close> looks at.\<close>

lemma head_of_quad:
  assumes "r = [] \<or> hd r \<in> {CHR ''/'', CHR ''-''}"
  shows "hd (split CHR ''-'' (hd (split CHR ''/'' (quad a b c d @ r)))) = quad a b c d"
proof (cases r)
  case Nil
  then show ?thesis by (simp add: split_no_sep)
next
  case (Cons x u)
  show ?thesis
  proof (cases "x = CHR ''/''")
    case True
    with Cons show ?thesis by (simp add: split_append_sep split_no_sep)
  next
    case False
    with assms Cons have x: "x = CHR ''-''" by simp
    obtain v where "hd (split CHR ''/'' (quad a b c d @ r)) = quad a b c d @ CHR ''-'' # v"
    proof -
      have "\<exists>v. hd (split CHR ''/'' (w @ CHR ''-'' # u)) = w @ CHR ''-'' # v" if "CHR ''/'' \<notin> set w" for w
        using that by (induction w) (auto split: list.splits)
      with that Cons x show thesis using quad_no_slash by blast
    qed
    then show ?thesis by (simp add: split_append_sep)
  qed
qed

lemma ipToInt_quad:
  assumes "a \<le> 255" "b \<le> 255" "c \<le> 255" "d \<le> 255" "r = [] \<or> hd r \<in> {CHR ''/'', CHR ''-''}"
  shows "ipToInt other (quad a b c d @ r) = of_nat (ip4 a b c d)"
proof -
  have le: "(of_nat n :: rat) \<le> 255 \<longleftrightarrow> n \<le> 255" for n using of_nat_le_iff [of n 255, where 'a = rat] by simp
  have "ip_acc other [show_nat a, show_nat b, show_nat c, show_nat d] 0 = Some (of_nat (ip4 a b c d))"
    using assms(1-4) by (simp add: ip4_def not_less le)
  then show ?thesis by (simp add: ipToInt_def head_of_quad [OF assms(5)] split_quad hd_quad(3))
qed

text \<open>
  Addresses sort as numbers: a dotted quad, also one followed by a prefix or the end of a
  range, is read as its 32-bit value, and two of them compare number by number from the left.
\<close>

theorem ipToInt_orders_addresses:
  assumes "a \<le> 255" "b \<le> 255" "c \<le> 255" "d \<le> 255" "e \<le> 255" "f \<le> 255" "g \<le> 255" "h \<le> 255"
    and "r = [] \<or> hd r \<in> {CHR ''/'', CHR ''-''}" "q = [] \<or> hd q \<in> {CHR ''/'', CHR ''-''}"
  shows "ipToInt other (quad a b c d @ r) = of_nat (ip4 a b c d) \<and> ip4 a b c d < 2 ^ 32 \<and>
    (ipToInt other (quad a b c d @ r) < ipToInt other (quad e f g h @ q) \<longleftrightarrow>
       a < e \<or> a = e \<and> (b < f \<or> b = f \<and> (c < g \<or> c = g \<and> d < h)))"
  using ip4_less [OF assms(2,3,4,6,7,8), of a e] ip4_bound [OF assms(1-4)]
  unfolding ipToInt_quad [OF assms(1-4,9)] ipToInt_quad [OF assms(5-8,10)] by simp

text \<open>The comment promises zero for whatever is no dotted quad; an empty part counts as zero instead.\<close>

lemma ipToInt_empty_part: "ipToInt other ''10..0.1'' = of_nat (ip4 10 0 0 1)"
  by (simp add: ipToInt_def trim_def trimEnd_def trimStart_def is_ws_def finite_number_def is_digit_def read_nat_def
      digit_val_def ip4_def)

section \<open>What a table shows\<close>


text \<open>
  The list of servers puts first what needs attention: it is a permutation of the servers
  that match, and a host never stands above one with more security updates, or as many
  security updates and more updates in all; a host that was never checked comes after every
  checked one.
\<close>

theorem servers_worst_first:
  assumes "consistent lc" "i < j" "j < length (servers lc query devices)"
  shows "mset (servers lc query devices) = mset (filter (server_matches query) devices) \<and>
    (let a = servers lc query devices ! i; b = servers lc query devices ! j;
         sec = or_minus1 \<circ> d_packages_security_count; upd = or_minus1 \<circ> d_packages_updates_count
     in sec b < sec a \<or> sec b = sec a \<and> (upd b < upd a \<or> upd b = upd a \<and> lc (d_name a) (d_name b) \<le> 0))"
proof -
  have "consistent (server_cmp lc)"
    unfolding server_cmp_def by (intro consistent_or consistent_num(2) consistent_on [OF assms(1)])
  then have "js_sort (server_cmp lc)" by (simp add: consistent_js_sort)
  from js_sort.sort_by_before [OF this, of i j "filter (server_matches query) devices"] assms(2,3)
  have "server_cmp lc (servers lc query devices ! i) (servers lc query devices ! j) \<le> 0"
    by (simp add: servers_def)
  then show ?thesis
    by (auto simp: server_cmp_def or_cmp_def num_cmp_def Let_def servers_def split: if_splits)
qed

section \<open>Witnesses\<close>

theorem ipToInt_orders_addresses_witness:
  "ipToInt (\<lambda>_. None) (quad 10 0 0 9) < ipToInt (\<lambda>_. None) (quad 10 0 0 10 @ ''/24'')"
  using ipToInt_orders_addresses [of 10 0 0 9 10 0 0 10 "[]" "''/24''" "\<lambda>_. None"] by simp

definition demo_server :: "string \<Rightarrow> int option \<Rightarrow> Device" where
  "demo_server n k = demo_device\<lparr>d_name := n, d_device_class := ''server'', d_packages_security_count := k\<rparr>"

theorem servers_worst_first_witness:
  "or_minus1 (d_packages_security_count (servers (\<lambda>_ _. 0) [] [demo_server ''a'' (Some 1), demo_server ''b'' (Some 7)] ! 1)) \<le>
   or_minus1 (d_packages_security_count (servers (\<lambda>_ _. 0) [] [demo_server ''a'' (Some 1), demo_server ''b'' (Some 7)] ! 0))"
proof -
  let ?ds = "[demo_server ''a'' (Some 1), demo_server ''b'' (Some 7)]"
  have "length (servers (\<lambda>_ _. 0) [] ?ds) = 2"
    by (simp add: servers_def length_sort_by server_matches_def demo_server_def trim_def trimEnd_def trimStart_def toLowerCase_def)
  moreover have "consistent (\<lambda>_ _ :: string. 0)" by (simp add: consistent_def)
  ultimately show ?thesis using servers_worst_first [of "\<lambda>_ _. 0" 0 1 "[]" ?ds] by (auto simp: Let_def)
qed

end
