(* ===== verification/Dhcp_Page.thy ===== *)
theory Dhcp_Page
  imports Tables Network_Api
begin

text \<open>
  The DHCP screen of a router, \<open>app/dashboard/devices/[id]/dhcp/page.tsx\<close>: the four tables and
  their columns, the forms that create servers, networks and pools, and the rows that are
  edited in place. A row's data may be fetched anew at any time, also while it is edited.
\<close>

section \<open>Rows\<close>

record DhcpLease =
  le_id :: "string option"
  le_address :: string
  le_mac_address :: string
  le_host_name :: "string option"
  le_client_id :: "string option"
  le_status :: "string option"
  le_server :: "string option"
  le_expires_at_iso :: "string option"
  le_dynamic :: bool
  le_blocked :: bool
  le_comment :: "string option"

record DhcpServer =
  ds_id :: "string option"
  ds_name :: string
  ds_interface :: string
  ds_address_pool :: "string option"
  ds_lease_time :: "string option"
  ds_authoritative :: "string option"
  ds_disabled :: bool
  ds_comment :: "string option"

record DhcpNetwork =
  dn_id :: "string option"
  dn_address :: string
  dn_gateway :: "string option"
  dn_netmask :: "string option"
  dn_dns_servers :: "string option"
  dn_ntp_servers :: "string option"
  dn_domain :: "string option"
  dn_comment :: "string option"

record DhcpPool =
  dp_id :: "string option"
  dp_name :: string
  dp_ranges :: string
  dp_next_pool :: "string option"
  dp_comment :: "string option"

definition lease_accessors :: "string \<Rightarrow> (DhcpLease \<Rightarrow> string) option" where
  "lease_accessors k = map_of [
     (''address'', le_address), (''mac_address'', le_mac_address), (''host_name'', or_blank \<circ> le_host_name),
     (''status'', or_blank \<circ> le_status), (''server'', or_blank \<circ> le_server),
     (''type'', \<lambda>r. (if le_dynamic r then ''dynamic'' else ''static'') @ (if le_blocked r then '' blocked'' else [])),
     (''expires'', or_blank \<circ> le_expires_at_iso), (''comment'', or_blank \<circ> le_comment), (''actions'', \<lambda>_. [])] k"

definition lease_table :: "(string \<Rightarrow> rat option) \<Rightarrow> DhcpLease table_opts" where
  "lease_table other = \<lparr>to_accessors = lease_accessors, to_numeric = map_of [(''address'', ipToInt other \<circ> le_address)]\<rparr>"

definition server_accessors :: "string \<Rightarrow> (DhcpServer \<Rightarrow> string) option" where
  "server_accessors k = map_of [
     (''name'', ds_name), (''interface'', ds_interface), (''address_pool'', or_blank \<circ> ds_address_pool),
     (''lease_time'', or_blank \<circ> ds_lease_time), (''authoritative'', or_blank \<circ> ds_authoritative),
     (''status'', \<lambda>r. if ds_disabled r then ''disabled'' else ''active''), (''comment'', or_blank \<circ> ds_comment),
     (''actions'', \<lambda>_. [])] k"

definition network_accessors :: "string \<Rightarrow> (DhcpNetwork \<Rightarrow> string) option" where
  "network_accessors k = map_of [
     (''address'', dn_address), (''gateway'', or_blank \<circ> dn_gateway), (''dns_servers'', or_blank \<circ> dn_dns_servers),
     (''ntp_servers'', or_blank \<circ> dn_ntp_servers), (''domain'', or_blank \<circ> dn_domain), (''comment'', or_blank \<circ> dn_comment),
     (''actions'', \<lambda>_. [])] k"

definition network_table :: "(string \<Rightarrow> rat option) \<Rightarrow> DhcpNetwork table_opts" where
  "network_table other = \<lparr>to_accessors = network_accessors,
     to_numeric = map_of [(''address'', ipToInt other \<circ> dn_address),
       (''gateway'', \<lambda>r. if truthy_str (dn_gateway r) then ipToInt other (the (dn_gateway r)) else 0)]\<rparr>"

definition pool_accessors :: "string \<Rightarrow> (DhcpPool \<Rightarrow> string) option" where
  "pool_accessors k = map_of [
     (''name'', dp_name), (''ranges'', dp_ranges), (''next_pool'', or_blank \<circ> dp_next_pool),
     (''comment'', or_blank \<circ> dp_comment), (''actions'', \<lambda>_. [])] k"

definition canReserve :: "DhcpLease \<Rightarrow> bool" where
  "canReserve l \<longleftrightarrow> le_dynamic l \<and> le_id l \<noteq> None"

section \<open>Forms\<close>

text \<open>The new server; without an interface there is no request.\<close>

definition ServerForm :: "string \<Rightarrow> string \<Rightarrow> string \<Rightarrow> string \<Rightarrow> string \<Rightarrow> string + DhcpServerCreate" where
  "ServerForm name iface pool leaseTime comment =
     (if iface = [] then Inl ''Interface is required.''
      else Inr \<lparr>dsc_name = name, dsc_interface = iface, dsc_address_pool = nul pool, dsc_lease_time = nul leaseTime,
        dsc_authoritative = Undefined, dsc_disabled = Undefined, dsc_comment = nul comment\<rparr>)"

definition NetworkForm :: "string \<Rightarrow> string \<Rightarrow> string \<Rightarrow> string \<Rightarrow> string \<Rightarrow> DhcpNetworkCreate" where
  "NetworkForm address gateway dns ntp domain = \<lparr>dnc_address = address, dnc_gateway = nul gateway,
     dnc_netmask = Undefined, dnc_dns_servers = nul dns, dnc_ntp_servers = nul ntp, dnc_domain = nul domain,
     dnc_comment = Undefined\<rparr>"

definition PoolForm :: "string \<Rightarrow> string \<Rightarrow> string \<Rightarrow> DhcpPoolCreate" where
  "PoolForm name ranges comment = \<lparr>dpc_name = name, dpc_ranges = ranges, dpc_next_pool = Undefined,
     dpc_comment = nul comment\<rparr>"

section \<open>Rows edited in place\<close>

text \<open>
  A row of the table with its edit form: the row as last fetched, the fields, whether the
  form is open, the error under it, and whether a save is under way.
\<close>

record ('r, 'f) row_edit =
  re_row :: 'r
  re_form :: 'f
  re_editing :: bool
  re_error :: "string option"
  re_saving :: bool

datatype ('r, 'f) row_action = Refetch 'r | StartEditing | Type 'f | CancelEdit | PressSave | Saved | SaveFailed string

text \<open>
  \<open>startEditing\<close> loads the form anew from the row, and its button shows on rows with an id; the
  fields and the buttons of the form are there only while editing. The save button is disabled
  while a save is under way, the cancel button is not.
\<close>

fun act_row :: "('r \<Rightarrow> string option) \<Rightarrow> ('r \<Rightarrow> 'f) \<Rightarrow> ('r, 'f) row_action \<Rightarrow> ('r, 'f) row_edit \<Rightarrow> ('r, 'f) row_edit" where
  "act_row ident load (Refetch r) s = s\<lparr>re_row := r\<rparr>"
| "act_row ident load StartEditing s =
     (if re_editing s \<or> \<not> truthy_str (ident (re_row s)) then s
      else s\<lparr>re_form := load (re_row s), re_error := None, re_editing := True\<rparr>)"
| "act_row ident load (Type f) s = (if re_editing s then s\<lparr>re_form := f\<rparr> else s)"
| "act_row ident load CancelEdit s = (if re_editing s then s\<lparr>re_error := None, re_editing := False\<rparr> else s)"
| "act_row ident load PressSave s = (if re_editing s \<and> \<not> re_saving s then s\<lparr>re_saving := True\<rparr> else s)"
| "act_row ident load Saved s = (if re_saving s then s\<lparr>re_saving := False, re_editing := False\<rparr> else s)"
| "act_row ident load (SaveFailed m) s = (if re_saving s then s\<lparr>re_saving := False, re_error := Some m\<rparr> else s)"

definition mount_row :: "('r \<Rightarrow> 'f) \<Rightarrow> 'r \<Rightarrow> ('r, 'f) row_edit" where
  "mount_row load r = \<lparr>re_row = r, re_form = load r, re_editing = False, re_error = None, re_saving = False\<rparr>"

record server_form =
  sf_name :: string
  sf_iface :: string
  sf_pool :: string
  sf_leaseTime :: string
  sf_disabled :: bool
  sf_comment :: string

definition load_server :: "DhcpServer \<Rightarrow> server_form" where
  "load_server r = \<lparr>sf_name = ds_name r, sf_iface = ds_interface r, sf_pool = or_blank (ds_address_pool r),
     sf_leaseTime = or_blank (ds_lease_time r), sf_disabled = ds_disabled r, sf_comment = or_blank (ds_comment r)\<rparr>"

definition server_update :: "server_form \<Rightarrow> DhcpServerUpdate" where
  "server_update f = \<lparr>dsu_name = Val (sf_name f), dsu_interface = Val (sf_iface f), dsu_address_pool = nul (sf_pool f),
     dsu_lease_time = nul (sf_leaseTime f), dsu_authoritative = Undefined, dsu_disabled = Val (sf_disabled f),
     dsu_comment = nul (sf_comment f)\<rparr>"

text \<open>A row without an id cannot be saved.\<close>

definition save_server :: "env \<Rightarrow> string \<Rightarrow> (DhcpServer, server_form) row_edit \<Rightarrow> unit call" where
  "save_server E dev s =
     (case ds_id (re_row s) of
        None \<Rightarrow> ret (Inl (JsError ''missing server id''))
      | Some i \<Rightarrow> if i = [] then ret (Inl (JsError ''missing server id''))
          else updateDhcpServer E dev i (server_update (re_form s)))"

record pool_form =
  po_name :: string
  po_ranges :: string
  po_nextPool :: string
  po_comment :: string

definition load_pool :: "DhcpPool \<Rightarrow> pool_form" where
  "load_pool r = \<lparr>po_name = dp_name r, po_ranges = dp_ranges r, po_nextPool = or_blank (dp_next_pool r),
     po_comment = or_blank (dp_comment r)\<rparr>"

definition pool_update :: "pool_form \<Rightarrow> DhcpPoolUpdate" where
  "pool_update f = \<lparr>dpu_name = Val (po_name f), dpu_ranges = Val (po_ranges f), dpu_next_pool = nul (po_nextPool f),
     dpu_comment = nul (po_comment f)\<rparr>"

definition save_pool :: "env \<Rightarrow> string \<Rightarrow> (DhcpPool, pool_form) row_edit \<Rightarrow> unit call" where
  "save_pool E dev s =
     (case dp_id (re_row s) of
        None \<Rightarrow> ret (Inl (JsError ''missing pool id''))
      | Some i \<Rightarrow> if i = [] then ret (Inl (JsError ''missing pool id''))
          else updateDhcpPool E dev i (pool_update (re_form s)))"

text \<open>
  The comment of a lease: its text is loaded when the row appears and when an edit is
  cancelled, not when an edit begins; the outcome of a save is a notification and changes
  nothing here.
\<close>

fun lease_act :: "(DhcpLease, string) row_action \<Rightarrow> (DhcpLease, string) row_edit \<Rightarrow> (DhcpLease, string) row_edit" where
  "lease_act (Refetch r) s = s\<lparr>re_row := r\<rparr>"
| "lease_act StartEditing s = s\<lparr>re_editing := True\<rparr>"
| "lease_act (Type f) s = (if re_editing s then s\<lparr>re_form := f\<rparr> else s)"
| "lease_act CancelEdit s =
     (if re_editing s then s\<lparr>re_form := or_blank (le_comment (re_row s)), re_editing := False\<rparr> else s)"
| "lease_act PressSave s = s\<lparr>re_editing := False\<rparr>"
| "lease_act Saved s = s"
| "lease_act (SaveFailed m) s = s"

text \<open>The call made by the save button of the comment; nothing is sent for a lease without an id.\<close>

definition save_lease :: "env \<Rightarrow> string \<Rightarrow> (DhcpLease, string) row_edit \<Rightarrow> unit call option" where
  "save_lease E dev s =
     (case le_id (re_row s) of
        None \<Rightarrow> None
      | Some i \<Rightarrow> if i = [] then None else Some (setLeaseComment E dev i (or_null (re_form s))))"

section \<open>What an untouched edit saves\<close>

text \<open>
  A row whose form loads what the row says and whose payload says what the form shows: an
  edit in which nothing is typed asks for the values the row had when the edit began.
\<close>

locale row_editor =
  fixes ident :: "'r \<Rightarrow> string option" and load :: "'r \<Rightarrow> 'f" and payload :: "'f \<Rightarrow> 'p" and current :: "'r \<Rightarrow> 'p" and proper :: "'r \<Rightarrow> bool"
  assumes payload_load: "proper r \<Longrightarrow> payload (load r) = current r"
begin

lemma refetch_form: "re_form (fold (act_row ident load) (map Refetch rs) s) = re_form s"
  by (induction rs arbitrary: s) auto

lemma untouched:
  assumes "\<not> re_editing s" "proper (re_row s)" "truthy_str (ident (re_row s))"
  shows "payload (re_form (fold (act_row ident load) (StartEditing # map Refetch rs) s)) = current (re_row s)"
  using assms by (simp add: refetch_form payload_load)

end

definition proper_server :: "DhcpServer \<Rightarrow> bool" where
  "proper_server r \<longleftrightarrow> no_blank (ds_address_pool r) \<and> no_blank (ds_lease_time r) \<and> no_blank (ds_comment r)"

definition current_server :: "DhcpServer \<Rightarrow> DhcpServerUpdate" where
  "current_server r = \<lparr>dsu_name = Val (ds_name r), dsu_interface = Val (ds_interface r),
     dsu_address_pool = of_nullable (ds_address_pool r), dsu_lease_time = of_nullable (ds_lease_time r),
     dsu_authoritative = Undefined, dsu_disabled = Val (ds_disabled r), dsu_comment = of_nullable (ds_comment r)\<rparr>"

interpretation server_row: row_editor ds_id load_server server_update current_server proper_server
  by unfold_locales
    (simp add: load_server_def server_update_def current_server_def proper_server_def nul_or_blank)

definition proper_pool :: "DhcpPool \<Rightarrow> bool" where
  "proper_pool r \<longleftrightarrow> no_blank (dp_next_pool r) \<and> no_blank (dp_comment r)"

definition current_pool :: "DhcpPool \<Rightarrow> DhcpPoolUpdate" where
  "current_pool r = \<lparr>dpu_name = Val (dp_name r), dpu_ranges = Val (dp_ranges r), dpu_next_pool = of_nullable (dp_next_pool r),
     dpu_comment = of_nullable (dp_comment r)\<rparr>"

interpretation pool_row: row_editor dp_id load_pool pool_update current_pool proper_pool
  by unfold_locales (simp add: load_pool_def pool_update_def current_pool_def proper_pool_def nul_or_blank)

text \<open>
  C37. Opening a DHCP server or an address pool for editing and saving it untouched asks for
  exactly the values the row showed when the edit began, whatever was loaded, typed or
  cancelled before; so it changes nothing on the router.
\<close>

theorem dhcp_edit_untouched:
  assumes "\<not> re_editing s" "proper_server (re_row s)" "truthy_str (ds_id (re_row s))"
    "\<not> re_editing t" "proper_pool (re_row t)" "truthy_str (dp_id (re_row t))"
  shows "server_update (re_form (fold (act_row ds_id load_server) (StartEditing # map Refetch rs) s)) =
      current_server (re_row s) \<and>
    pool_update (re_form (fold (act_row dp_id load_pool) (StartEditing # map Refetch ps) t)) = current_pool (re_row t)"
  using server_row.untouched [OF assms(1-3)] pool_row.untouched [OF assms(4-6)] by blast

text \<open>
  A save that is answered late closes the edit that is open then, whatever was typed into
  it: cancelling while a save is under way and opening the row again loses the second edit.
\<close>

theorem dhcp_late_save_closes:
  assumes "\<not> re_editing s" "\<not> re_saving s" "truthy_str (ident (re_row s))"
  shows "let t = fold (act_row ident load) [StartEditing, Type f, PressSave, CancelEdit, StartEditing, Type g, Saved] s
    in \<not> re_editing t \<and> re_form (act_row ident load StartEditing t) = load (re_row s)"
  using assms by simp

text \<open>
  The comment of a lease is not so: its text is the one of the first time the row was
  shown. A comment that changed since is put back by an edit in which nothing is typed.
\<close>

theorem lease_comment_reverts:
  assumes "le_id old = Some i" "i \<noteq> []" "le_id new = le_id old"
  shows "save_lease E dev (fold lease_act [Refetch new, StartEditing] (mount_row (or_blank \<circ> le_comment) old)) =
    Some (setLeaseComment E dev i (or_null (or_blank (le_comment old))))"
  using assms by (simp add: save_lease_def mount_row_def)

section \<open>Witnesses\<close>

definition demo_dhcp_server :: DhcpServer where
  "demo_dhcp_server = \<lparr>ds_id = Some ''*1'', ds_name = ''lan'', ds_interface = ''bridge'', ds_address_pool = Some ''pool'',
     ds_lease_time = Some ''1d'', ds_authoritative = None, ds_disabled = False, ds_comment = None\<rparr>"

definition demo_dhcp_pool :: DhcpPool where
  "demo_dhcp_pool = \<lparr>dp_id = Some ''*1'', dp_name = ''pool'', dp_ranges = ''10.0.0.10-10.0.0.250'', dp_next_pool = None,
     dp_comment = None\<rparr>"

theorem dhcp_edit_untouched_witness:
  "server_update (re_form (act_row ds_id load_server StartEditing (mount_row load_server demo_dhcp_server))) =
     current_server demo_dhcp_server"
  using dhcp_edit_untouched [of "mount_row load_server demo_dhcp_server" "mount_row load_pool demo_dhcp_pool" "[]" "[]"]
  by (simp add: mount_row_def proper_server_def proper_pool_def no_blank_def truthy_str_def demo_dhcp_server_def demo_dhcp_pool_def)

definition demo_lease :: DhcpLease where
  "demo_lease = \<lparr>le_id = Some ''*5'', le_address = ''10.0.0.7'', le_mac_address = ''00:11:22:33:44:55'', le_host_name = None,
     le_client_id = None, le_status = Some ''bound'', le_server = None, le_expires_at_iso = None, le_dynamic = True,
     le_blocked = False, le_comment = Some ''printer''\<rparr>"

theorem lease_comment_reverts_witness:
  "save_lease demo_env ''r1'' (fold lease_act [Refetch (demo_lease\<lparr>le_comment := Some ''scanner''\<rparr>), StartEditing]
       (mount_row (or_blank \<circ> le_comment) demo_lease)) =
     Some (setLeaseComment demo_env ''r1'' ''*5'' (Some ''printer''))"
  using lease_comment_reverts [of demo_lease "''*5''" "demo_lease\<lparr>le_comment := Some ''scanner''\<rparr>" demo_env "''r1''"]
  by (simp add: demo_lease_def or_null_def)

end
