(* ===== verification/Firewall_Page.thy ===== *)
theory Firewall_Page
  imports Firewall_Api Format
begin

text \<open>
  The filter and NAT tables of a router (\<open>devices/[id]/firewall/page.tsx\<close>): which rules are
  listed, the buttons that reorder them within a chain, the buttons of a row, the two forms
  and the printed counters. What the router does with a move is an argument, with its
  documented behaviour as the hypothesis \<open>places_as_documented\<close>.
\<close>

section \<open>Rules\<close>

record FilterRule =
  fr_id :: "string option"
  fr_chain :: string
  fr_action :: string
  fr_src_address :: "string option"
  fr_dst_address :: "string option"
  fr_src_address_list :: "string option"
  fr_dst_address_list :: "string option"
  fr_protocol :: "string option"
  fr_src_port :: "string option"
  fr_dst_port :: "string option"
  fr_in_interface :: "string option"
  fr_out_interface :: "string option"
  fr_connection_state :: "string option"
  fr_log :: bool
  fr_log_prefix :: "string option"
  fr_bytes_count :: "int option"
  fr_packets_count :: "int option"
  fr_disabled :: bool
  fr_comment :: "string option"

record NatRule =
  nr_id :: "string option"
  nr_chain :: string
  nr_action :: string
  nr_src_address :: "string option"
  nr_dst_address :: "string option"
  nr_dst_port :: "string option"
  nr_protocol :: "string option"
  nr_to_addresses :: "string option"
  nr_to_ports :: "string option"
  nr_in_interface :: "string option"
  nr_out_interface :: "string option"
  nr_log :: bool
  nr_log_prefix :: "string option"
  nr_bytes_count :: "int option"
  nr_packets_count :: "int option"
  nr_disabled :: bool
  nr_comment :: "string option"

definition filtered_rules :: "string \<Rightarrow> FilterRule list \<Rightarrow> FilterRule list" where
  "filtered_rules chainFilter rules = filter (\<lambda>r. if chainFilter = ''all'' then True else fr_chain r = chainFilter) rules"

definition filtered_nat :: "string \<Rightarrow> NatRule list \<Rightarrow> NatRule list" where
  "filtered_nat chainFilter rules = filter (\<lambda>r. if chainFilter = ''all'' then True else nr_chain r = chainFilter) rules"

section \<open>Reordering\<close>

record neighbors =
  nb_isFirst :: bool
  nb_isLast :: bool
  nb_prev :: "FilterRule option"
  nb_next :: "FilterRule option"
  nb_afterNext :: "FilterRule option"
  nb_first :: "FilterRule option"
  nb_last :: "FilterRule option"

definition sameChain :: "FilterRule list \<Rightarrow> FilterRule \<Rightarrow> FilterRule list" where
  "sameChain rules rule = filter (\<lambda>r. fr_chain r = fr_chain rule) rules"

definition neighborsOf :: "FilterRule list \<Rightarrow> FilterRule \<Rightarrow> neighbors" where
  "neighborsOf rules rule =
     (let sc = sameChain rules rule; n = length sc;
          first = (if sc = [] then None else Some (hd sc)); final = (if sc = [] then None else Some (last sc))
      in case findIndex (\<lambda>r. fr_id r = fr_id rule) sc of
           None \<Rightarrow> \<lparr>nb_isFirst = True, nb_isLast = True, nb_prev = None, nb_next = None, nb_afterNext = None,
                    nb_first = first, nb_last = final\<rparr>
         | Some i \<Rightarrow> \<lparr>nb_isFirst = (i = 0), nb_isLast = (Suc i = n),
                    nb_prev = (if 0 < i then Some (sc ! (i - 1)) else None),
                    nb_next = (if Suc i < n then Some (sc ! Suc i) else None),
                    nb_afterNext = (if Suc (Suc i) < n then Some (sc ! Suc (Suc i)) else None),
                    nb_first = first, nb_last = final\<rparr>)"

text \<open>
  A request to move a rule: its id and the id of the rule it goes before, null for the end of
  the table. The handlers of the four buttons return early in the cases the source does.
\<close>

type_synonym move_request = "(string \<times> string option) option"

definition onMoveUp :: "FilterRule list \<Rightarrow> FilterRule \<Rightarrow> move_request" where
  "onMoveUp rules r =
     (let n = neighborsOf rules r; p = Option.bind (nb_prev n) fr_id
      in if \<not> truthy_str (fr_id r) \<or> nb_isFirst n \<or> \<not> truthy_str p then None else Some (the (fr_id r), p))"

definition onMoveDown :: "FilterRule list \<Rightarrow> FilterRule \<Rightarrow> move_request" where
  "onMoveDown rules r =
     (let n = neighborsOf rules r
      in if \<not> truthy_str (fr_id r) \<or> nb_isLast n then None
         else Some (the (fr_id r), Option.bind (nb_afterNext n) fr_id))"

definition onMoveTop :: "FilterRule list \<Rightarrow> FilterRule \<Rightarrow> move_request" where
  "onMoveTop rules r =
     (let n = neighborsOf rules r; f = Option.bind (nb_first n) fr_id
      in if \<not> truthy_str (fr_id r) \<or> nb_isFirst n \<or> \<not> truthy_str f \<or> f = fr_id r then None
         else Some (the (fr_id r), f))"

definition onMoveBottom :: "FilterRule list \<Rightarrow> FilterRule \<Rightarrow> move_request" where
  "onMoveBottom rules r =
     (let n = neighborsOf rules r
      in if \<not> truthy_str (fr_id r) \<or> nb_isLast n then None else Some (the (fr_id r), None))"

section \<open>The buttons of a row\<close>

text \<open>A row without an id does nothing. Deleting asks for a confirmation, the argument \<open>yes\<close>.\<close>

definition with_id :: "string option \<Rightarrow> (string \<Rightarrow> 'a) \<Rightarrow> 'a option" where
  "with_id i f = (if truthy_str i then Some (f (the i)) else None)"

definition toggle_filter :: "env \<Rightarrow> string \<Rightarrow> FilterRule \<Rightarrow> unit call option" where
  "toggle_filter E dev r = with_id (fr_id r) (\<lambda>i. setFilterRuleDisabled E dev i (\<not> fr_disabled r))"

definition toggle_filter_log :: "env \<Rightarrow> string \<Rightarrow> FilterRule \<Rightarrow> unit call option" where
  "toggle_filter_log E dev r = with_id (fr_id r)
     (\<lambda>i. updateFilterRule E dev i \<lparr>fru_disabled = Undefined, fru_log = Val (\<not> fr_log r), fru_log_prefix = Undefined\<rparr>)"

definition reset_filter :: "env \<Rightarrow> string \<Rightarrow> FilterRule \<Rightarrow> unit call option" where
  "reset_filter E dev r = with_id (fr_id r) (resetFilterRuleCounters E dev)"

definition delete_filter :: "env \<Rightarrow> string \<Rightarrow> bool \<Rightarrow> FilterRule \<Rightarrow> unit call option" where
  "delete_filter E dev yes r = (if yes then with_id (fr_id r) (deleteFilterRule E dev) else None)"

definition toggle_nat :: "env \<Rightarrow> string \<Rightarrow> NatRule \<Rightarrow> unit call option" where
  "toggle_nat E dev r = with_id (nr_id r)
     (\<lambda>i. updateNatRule E dev i \<lparr>nru_disabled = Val (\<not> nr_disabled r), nru_log = Undefined, nru_log_prefix = Undefined\<rparr>)"

definition toggle_nat_log :: "env \<Rightarrow> string \<Rightarrow> NatRule \<Rightarrow> unit call option" where
  "toggle_nat_log E dev r = with_id (nr_id r)
     (\<lambda>i. updateNatRule E dev i \<lparr>nru_disabled = Undefined, nru_log = Val (\<not> nr_log r), nru_log_prefix = Undefined\<rparr>)"

definition reset_nat :: "env \<Rightarrow> string \<Rightarrow> NatRule \<Rightarrow> unit call option" where
  "reset_nat E dev r = with_id (nr_id r) (resetNatRuleCounters E dev)"

definition delete_nat :: "env \<Rightarrow> string \<Rightarrow> bool \<Rightarrow> NatRule \<Rightarrow> unit call option" where
  "delete_nat E dev yes r = (if yes then with_id (nr_id r) (deleteNatRule E dev) else None)"

section \<open>The forms\<close>

record filter_form =
  ff_chain :: string
  ff_action :: string
  ff_srcAddress :: string
  ff_dstAddress :: string
  ff_protocol :: string
  ff_srcPort :: string
  ff_dstPort :: string
  ff_inIface :: string
  ff_outIface :: string
  ff_connState :: string
  ff_log :: bool
  ff_logPrefix :: string
  ff_comment :: string

definition defaultChain :: "string \<Rightarrow> string" where
  "defaultChain chainFilter = (if chainFilter = ''all'' then ''forward'' else chainFilter)"

definition new_filter_form :: "string \<Rightarrow> filter_form" where
  "new_filter_form chainFilter = \<lparr>ff_chain = defaultChain chainFilter, ff_action = ''accept'', ff_srcAddress = [],
     ff_dstAddress = [], ff_protocol = [], ff_srcPort = [], ff_dstPort = [], ff_inIface = [], ff_outIface = [],
     ff_connState = [], ff_log = False, ff_logPrefix = [], ff_comment = []\<rparr>"

definition filter_payload :: "filter_form \<Rightarrow> FilterRuleCreate" where
  "filter_payload f = \<lparr>frc_chain = ff_chain f, frc_action = ff_action f, frc_src_address = nul (ff_srcAddress f),
     frc_dst_address = nul (ff_dstAddress f), frc_src_address_list = Undefined, frc_dst_address_list = Undefined,
     frc_protocol = nul (ff_protocol f), frc_src_port = nul (ff_srcPort f), frc_dst_port = nul (ff_dstPort f),
     frc_in_interface = nul (ff_inIface f), frc_out_interface = nul (ff_outIface f),
     frc_connection_state = nul (ff_connState f), frc_log = Val (ff_log f), frc_log_prefix = nul (ff_logPrefix f),
     frc_disabled = Undefined, frc_comment = nul (ff_comment f)\<rparr>"

record nat_form =
  nf_chain :: string
  nf_action :: string
  nf_srcAddress :: string
  nf_dstAddress :: string
  nf_protocol :: string
  nf_dstPort :: string
  nf_toAddresses :: string
  nf_toPorts :: string
  nf_inInterface :: string
  nf_outInterface :: string
  nf_log :: bool
  nf_comment :: string

definition new_nat_form :: nat_form where
  "new_nat_form = \<lparr>nf_chain = ''dstnat'', nf_action = ''dst-nat'', nf_srcAddress = [], nf_dstAddress = [],
     nf_protocol = ''tcp'', nf_dstPort = [], nf_toAddresses = [], nf_toPorts = [], nf_inInterface = [],
     nf_outInterface = [], nf_log = False, nf_comment = []\<rparr>"

definition nat_payload :: "nat_form \<Rightarrow> NatRuleCreate" where
  "nat_payload f = \<lparr>nrc_chain = nf_chain f, nrc_action = nf_action f, nrc_src_address = nul (nf_srcAddress f),
     nrc_dst_address = nul (nf_dstAddress f), nrc_dst_port = nul (nf_dstPort f), nrc_protocol = nul (nf_protocol f),
     nrc_to_addresses = nul (nf_toAddresses f), nrc_to_ports = nul (nf_toPorts f),
     nrc_in_interface = nul (nf_inInterface f), nrc_out_interface = nul (nf_outInterface f),
     nrc_log = Val (nf_log f), nrc_log_prefix = Undefined, nrc_disabled = Undefined, nrc_comment = nul (nf_comment f)\<rparr>"

section \<open>Counters\<close>

definition toFixed2 :: "rat \<Rightarrow> string" where
  "toFixed2 v =
     (let n = nat (Math_round (\<bar>v\<bar> * 100))
      in (if v < 0 then ''-'' else []) @ show_nat (n div 100) @ ''.'' @ show_nat (n mod 100 div 10) @ show_nat (n mod 10))"

definition formatBytes_fw :: "int option \<Rightarrow> string" where
  "formatBytes_fw n =
     (case n of
        None \<Rightarrow> ''0''
      | Some x \<Rightarrow>
          if x = 0 then ''0''
          else if x < 1024 then show_int x @ ''B''
          else if x < 1024 * 1024 then toFixed1 (of_int x / 1024) @ ''K''
          else if x < 1024 * 1024 * 1024 then toFixed1 (of_int x / 1024 / 1024) @ ''M''
          else toFixed2 (of_int x / 1024 / 1024 / 1024) @ ''G'')"

section \<open>What a move does to a chain\<close>

text \<open>
  The behaviour of the router's \<open>move\<close> that the page relies on: the rule is taken out of the
  table and put in front of the destination, or at the end when there is none. Identifiers
  are unique in the table.
\<close>

definition places_as_documented :: "(string \<Rightarrow> string option \<Rightarrow> FilterRule list \<Rightarrow> FilterRule list) \<Rightarrow> bool" where
  "places_as_documented mv \<longleftrightarrow> (\<forall>rs r i. distinct (map fr_id rs) \<longrightarrow> r \<in> set rs \<longrightarrow> fr_id r = Some i \<longrightarrow>
     mv i None rs = remove1 r rs @ [r] \<and>
     (\<forall>pre x post j. remove1 r rs = pre @ x # post \<longrightarrow> fr_id x = Some j \<longrightarrow> mv i (Some j) rs = pre @ r # x # post))"

definition after_move :: "(string \<Rightarrow> string option \<Rightarrow> FilterRule list \<Rightarrow> FilterRule list) \<Rightarrow> move_request
    \<Rightarrow> FilterRule list \<Rightarrow> FilterRule list" where
  "after_move mv q rs = (case q of None \<Rightarrow> rs | Some (i, b) \<Rightarrow> mv i b rs)"

definition chain_of :: "string \<Rightarrow> FilterRule list \<Rightarrow> FilterRule list" where
  "chain_of c = filter (\<lambda>r. fr_chain r = c)"

lemma ids_distinct: "distinct (map fr_id rs) \<Longrightarrow> distinct rs"
  by (simp add: distinct_map)

lemma neighbors_at:
  assumes "distinct (map fr_id rs)" "chain_of (fr_chain r) rs = xs @ r # ys"
  shows "neighborsOf rs r = \<lparr>nb_isFirst = (xs = []), nb_isLast = (ys = []),
     nb_prev = (if xs = [] then None else Some (last xs)),
     nb_next = (case ys of [] \<Rightarrow> None | y # zs \<Rightarrow> Some y),
     nb_afterNext = (case ys of y # z # zs \<Rightarrow> Some z | _ \<Rightarrow> None),
     nb_first = Some (hd (xs @ [r])), nb_last = Some (last (r # ys))\<rparr>"
proof -
  have "distinct (map fr_id (xs @ r # ys))"
    using assms distinct_map_filter [of fr_id rs] by (metis chain_of_def)
  then have "findIndex (\<lambda>q. fr_id q = fr_id r) (xs @ r # ys) = Some (length xs)"
    by (intro findIndex_here) (auto simp: rev_image_eqI)
  then show ?thesis
    by (auto simp: neighborsOf_def assms(2) sameChain_def chain_of_def [symmetric] Let_def nth_append last_conv_nth hd_append split: list.splits)
qed

lemma remaining_chain:
  assumes "distinct rs" "chain_of (fr_chain r) rs = xs @ r # ys"
  shows "chain_of (fr_chain r) (remove1 r rs) = xs @ ys"
    and "d \<noteq> fr_chain r \<Longrightarrow> chain_of d (remove1 r rs) = chain_of d rs"
proof -
  have "distinct (xs @ r # ys)" using assms distinct_filter by (metis chain_of_def)
  then show "chain_of (fr_chain r) (remove1 r rs) = xs @ ys"
    using assms(2) by (simp add: chain_of_def filter_remove1 remove1_append)
  show "d \<noteq> fr_chain r \<Longrightarrow> chain_of d (remove1 r rs) = chain_of d rs"
    by (auto simp: chain_of_def filter_remove1 intro!: remove1_idem)
qed

text \<open>Putting a rule before another of its chain, and at the end of the table.\<close>

lemma put_before:
  assumes "places_as_documented mv" "distinct (map fr_id rs)" "chain_of (fr_chain r) rs = xs @ r # ys"
    and "fr_id r = Some i" "xs @ ys = as @ x # bs" "fr_id x = Some j"
  shows "chain_of (fr_chain r) (mv i (Some j) rs) = as @ r # x # bs"
    and "d \<noteq> fr_chain r \<Longrightarrow> chain_of d (mv i (Some j) rs) = chain_of d rs"
proof -
  have dist: "distinct rs" using assms(2) by (rule ids_distinct)
  note rest = remaining_chain [OF dist assms(3)]
  have r: "r \<in> set rs" and x: "x \<in> set (remove1 r rs)" "fr_chain x = fr_chain r"
    using arg_cong [OF assms(3), of set] arg_cong [OF rest(1), of set] arg_cong [OF assms(5), of set]
    by (auto simp: chain_of_def)
  obtain pre post where split: "remove1 r rs = pre @ x # post" using x(1) by (meson split_list)
  then have mv: "mv i (Some j) rs = pre @ r # x # post"
    using assms(1,2,4,6) r by (simp add: places_as_documented_def)
  have "distinct (as @ x # bs)"
    using dist rest(1) assms(5) by (metis chain_of_def distinct_filter distinct_remove1)
  then have x': "x \<notin> set as" "x \<notin> set bs" by simp_all
  have "as @ x # bs = chain_of (fr_chain r) pre @ x # chain_of (fr_chain r) post"
    using rest(1) x(2) by (simp add: split assms(5) chain_of_def)
  then have "chain_of (fr_chain r) pre = as \<and> chain_of (fr_chain r) post = bs"
    using append_Cons_eq_iff [OF x'] by simp
  then show "chain_of (fr_chain r) (mv i (Some j) rs) = as @ r # x # bs"
    using x(2) by (auto simp: mv chain_of_def)
  show "d \<noteq> fr_chain r \<Longrightarrow> chain_of d (mv i (Some j) rs) = chain_of d rs"
    using rest(2) x(2) by (auto simp: mv split chain_of_def)
qed

lemma put_last:
  assumes "places_as_documented mv" "distinct (map fr_id rs)" "chain_of (fr_chain r) rs = xs @ r # ys"
    and "fr_id r = Some i"
  shows "chain_of (fr_chain r) (mv i None rs) = xs @ ys @ [r]"
    and "d \<noteq> fr_chain r \<Longrightarrow> chain_of d (mv i None rs) = chain_of d rs"
proof -
  have "r \<in> set rs" using arg_cong [OF assms(3), of set] by (auto simp: chain_of_def)
  then have mv: "mv i None rs = remove1 r rs @ [r]"
    using assms(1,2,4) by (simp add: places_as_documented_def)
  note rest = remaining_chain [OF ids_distinct [OF assms(2)] assms(3)]
  show "chain_of (fr_chain r) (mv i None rs) = xs @ ys @ [r]" using rest(1) by (simp add: mv chain_of_def)
  show "d \<noteq> fr_chain r \<Longrightarrow> chain_of d (mv i None rs) = chain_of d rs"
    using rest(2) by (simp add: mv chain_of_def)
qed

text \<open>What the buttons promise: the order of the chain \<open>xs @ r # ys\<close> after the rule \<open>r\<close> moved.\<close>

definition up_one :: "'a list \<Rightarrow> 'a \<Rightarrow> 'a list \<Rightarrow> 'a list" where
  "up_one xs r ys = (if xs = [] then r # ys else butlast xs @ r # last xs # ys)"

fun down_one :: "'a list \<Rightarrow> 'a \<Rightarrow> 'a list \<Rightarrow> 'a list" where
  "down_one xs r [] = xs @ [r]"
| "down_one xs r (y # ys) = xs @ y # r # ys"

definition reorders :: "(string \<Rightarrow> string option \<Rightarrow> FilterRule list \<Rightarrow> FilterRule list) \<Rightarrow> FilterRule list \<Rightarrow> string
    \<Rightarrow> FilterRule list \<Rightarrow> move_request \<Rightarrow> bool" where
  "reorders mv rs c new q \<longleftrightarrow> chain_of c (after_move mv q rs) = new \<and>
     (\<forall>d. d \<noteq> c \<longrightarrow> chain_of d (after_move mv q rs) = chain_of d rs)"

lemma reorders_rules:
  assumes "places_as_documented mv" "distinct (map fr_id rs)" "chain_of (fr_chain r) rs = xs @ r # ys" "fr_id r = Some i"
  shows "reorders mv rs (fr_chain r) (xs @ r # ys) None"
    and "xs @ ys = as @ x # bs \<Longrightarrow> fr_id x = Some j \<Longrightarrow> reorders mv rs (fr_chain r) (as @ r # x # bs) (Some (i, Some j))"
    and "reorders mv rs (fr_chain r) (xs @ ys @ [r]) (Some (i, None))"
  using put_before [OF assms] put_last [OF assms] assms(3) by (simp_all add: reorders_def after_move_def)

lemma chain_ids:
  assumes "\<forall>q\<in>set rs. truthy_str (fr_id q)" "chain_of (fr_chain r) rs = xs @ r # ys" "q \<in> set (xs @ r # ys)"
  shows "\<exists>j. fr_id q = Some j \<and> j \<noteq> []"
proof -
  have "q \<in> set rs" using assms(3) arg_cong [OF assms(2), of set] by (auto simp: chain_of_def)
  with assms(1) have "truthy_str (fr_id q)" by blast
  then show ?thesis by (cases "fr_id q") (auto simp: truthy_str_def)
qed

text \<open>
  C19. The four buttons do within the chain what they say, one place up or down, to the top or to
  the bottom of the chain, and leave the order of every other chain alone, although the
  router keeps all chains in one table and only knows how to put a rule before another one.
\<close>

theorem buttons_reorder_chain:
  assumes "places_as_documented mv" "distinct (map fr_id rs)" "\<forall>q\<in>set rs. truthy_str (fr_id q)"
    and "chain_of (fr_chain r) rs = xs @ r # ys"
  shows "reorders mv rs (fr_chain r) (up_one xs r ys) (onMoveUp rs r) \<and>
    reorders mv rs (fr_chain r) (down_one xs r ys) (onMoveDown rs r) \<and>
    reorders mv rs (fr_chain r) (r # xs @ ys) (onMoveTop rs r) \<and>
    reorders mv rs (fr_chain r) (xs @ ys @ [r]) (onMoveBottom rs r)"
proof -
  note ids = chain_ids [OF assms(3,4)] and n = neighbors_at [OF assms(2,4)]
  obtain i where i: "fr_id r = Some i" "i \<noteq> []" using ids [of r] by auto
  note R = reorders_rules [OF assms(1,2,4) i(1)]
  have "reorders mv rs (fr_chain r) (up_one xs r ys) (onMoveUp rs r)"
  proof (cases "xs = []")
    case False
    then obtain j where "fr_id (last xs) = Some j" "j \<noteq> []" using ids [of "last xs"] by auto
    then show ?thesis
      using False i R(2) [of "butlast xs" "last xs" ys] by (simp add: onMoveUp_def n up_one_def truthy_str_def)
  qed (use R(1) in \<open>simp add: onMoveUp_def n up_one_def\<close>)
  moreover have "reorders mv rs (fr_chain r) (down_one xs r ys) (onMoveDown rs r)"
  proof (cases ys)
    case (Cons y zs)
    show ?thesis
    proof (cases zs)
      case Nil
      then show ?thesis using Cons i R(3) by (simp add: onMoveDown_def n truthy_str_def)
    next
      case (Cons z us)
      then obtain j where "fr_id z = Some j" using ids [of z] \<open>ys = y # zs\<close> by auto
      then show ?thesis
        using Cons \<open>ys = y # zs\<close> i R(2) [of "xs @ [y]" z us] by (simp add: onMoveDown_def n truthy_str_def)
    qed
  qed (use R(1) in \<open>simp add: onMoveDown_def n\<close>)
  moreover have "reorders mv rs (fr_chain r) (r # xs @ ys) (onMoveTop rs r)"
  proof (cases xs)
    case (Cons x us)
    then obtain j where j: "fr_id x = Some j" "j \<noteq> []" using ids [of x] by auto
    have "fr_id x \<noteq> fr_id r"
      using assms(2) distinct_map_filter [OF assms(2), of "\<lambda>q. fr_chain q = fr_chain r"] assms(4) Cons
      by (auto simp: chain_of_def)
    then show ?thesis using Cons j i R(2) [of "[]" x "us @ ys"] by (simp add: onMoveTop_def n truthy_str_def)
  qed (use R(1) in \<open>simp add: onMoveTop_def n\<close>)
  moreover have "reorders mv rs (fr_chain r) (xs @ ys @ [r]) (onMoveBottom rs r)"
    using R(1,3) i by (cases "ys = []") (simp_all add: onMoveBottom_def n truthy_str_def)
  ultimately show ?thesis by blast
qed

text \<open>A move as documented, on a table of three rules in two chains.\<close>

definition place_rule :: "string \<Rightarrow> string option \<Rightarrow> FilterRule list \<Rightarrow> FilterRule list" where
  "place_rule i b rs =
     (case filter (\<lambda>r. fr_id r = Some i) rs of
        [] \<Rightarrow> rs
      | r # _ \<Rightarrow>
          (let rest = remove1 r rs; other = (\<lambda>x. b = None \<or> fr_id x \<noteq> b)
           in takeWhile other rest @ r # dropWhile other rest))"

lemma place_rule_documented: "places_as_documented place_rule"
  unfolding places_as_documented_def
proof (intro allI impI)
  fix rs :: "FilterRule list" and r :: FilterRule and i :: string
  assume d: "distinct (map fr_id rs)" and r: "r \<in> set rs" "fr_id r = Some i"
  obtain pre post where s: "rs = pre @ r # post" using r(1) by (meson split_list)
  then have "filter (\<lambda>x. fr_id x = Some i) pre = []" "filter (\<lambda>x. fr_id x = Some i) post = []"
    using d r(2) by (force simp: filter_empty_conv)+
  then have "filter (\<lambda>x. fr_id x = Some i) rs = [r]" using s r(2) by simp
  then have p: "place_rule i b rs = (let other = (\<lambda>x. b = None \<or> fr_id x \<noteq> b)
      in takeWhile other (remove1 r rs) @ r # dropWhile other (remove1 r rs))" for b
    by (simp add: place_rule_def Let_def)
  have "distinct (map fr_id (remove1 r rs))" using d s by (auto simp: remove1_append)
  then have "place_rule i (Some j) rs = pre' @ r # x # post'"
    if "remove1 r rs = pre' @ x # post'" "fr_id x = Some j" for pre' x post' j
    using that by (auto simp: p Let_def takeWhile_append dropWhile_append rev_image_eqI)
  then show "place_rule i None rs = remove1 r rs @ [r] \<and>
     (\<forall>pre x post j. remove1 r rs = pre @ x # post \<longrightarrow> fr_id x = Some j \<longrightarrow> place_rule i (Some j) rs = pre @ r # x # post)"
    by (simp add: p Let_def)
qed

definition demo_rule :: "string \<Rightarrow> string \<Rightarrow> FilterRule" where
  "demo_rule i c = \<lparr>fr_id = Some i, fr_chain = c, fr_action = ''accept'', fr_src_address = None, fr_dst_address = None,
     fr_src_address_list = None, fr_dst_address_list = None, fr_protocol = None, fr_src_port = None, fr_dst_port = None,
     fr_in_interface = None, fr_out_interface = None, fr_connection_state = None, fr_log = False, fr_log_prefix = None,
     fr_bytes_count = None, fr_packets_count = None, fr_disabled = False, fr_comment = None\<rparr>"

definition demo_table :: "FilterRule list" where
  "demo_table = [demo_rule ''*1'' ''input'', demo_rule ''*2'' ''forward'', demo_rule ''*3'' ''input'']"

theorem buttons_reorder_chain_witness:
  "reorders place_rule demo_table ''input'' [demo_rule ''*3'' ''input'', demo_rule ''*1'' ''input'']
     (onMoveUp demo_table (demo_rule ''*3'' ''input''))"
  using buttons_reorder_chain [OF place_rule_documented, of demo_table "demo_rule ''*3'' ''input''"
      "[demo_rule ''*1'' ''input'']" "[]"]
  by (simp add: demo_table_def demo_rule_def chain_of_def up_one_def truthy_str_def)

end
