(* ===== verification/Bulk_Page.thy ===== *)
theory Bulk_Page
  imports Firewall_Api S2S_Wizard Setup_Page
begin

text \<open>
  Actions on many devices: the device picker and the three cards of \<open>bulk/page.tsx\<close>, and the
  SNMP wizard of \<open>bulk/zabbix-snmp/page.tsx\<close>, which has a copy of the picker. A set of
  JavaScript is the list of its members in insertion order.
\<close>

section \<open>The device picker\<close>

definition filteredDevices :: "Device list option \<Rightarrow> string \<Rightarrow> Device list" where
  "filteredDevices devices siteFilter =
     (case devices of
        None \<Rightarrow> []
      | Some ds \<Rightarrow> if siteFilter = [] then ds else filter (\<lambda>d. d_site_id d = siteFilter) ds)"

definition allSelected :: "Device list \<Rightarrow> string list \<Rightarrow> bool" where
  "allSelected shown selected \<longleftrightarrow> shown \<noteq> [] \<and> list_all (\<lambda>d. d_id d \<in> set selected) shown"

definition toggleAll :: "Device list \<Rightarrow> string list \<Rightarrow> string list" where
  "toggleAll shown selected =
     (if allSelected shown selected then fold (\<lambda>d. jset_delete (d_id d)) shown selected
      else fold (\<lambda>d. jset_add (d_id d)) shown selected)"

definition toggleOne :: "string \<Rightarrow> string list \<Rightarrow> string list" where
  "toggleOne i selected = (if i \<in> set selected then jset_delete i selected else jset_add i selected)"

section \<open>The cards\<close>

text \<open>A submission is refused with a message or becomes a call on the selected devices.\<close>

record reset_card =
  rc_selected :: "string list"
  rc_username :: string
  rc_password :: string
  rc_confirm :: string

definition reset_check :: "reset_card \<Rightarrow> string option" where
  "reset_check c =
     (if rc_selected c = [] then Some ''Select at least one device.''
      else if rc_username c = [] then Some ''Username is required.''
      else if js_length (rc_password c) < 8 then Some ''Password must be at least 8 characters.''
      else if rc_password c \<noteq> rc_confirm c then Some ''Passwords do not match.''
      else None)"

definition submit_reset :: "env \<Rightarrow> reset_card \<Rightarrow> string + json call" where
  "submit_reset E c =
     (case reset_check c of
        Some e \<Rightarrow> Inl e
      | None \<Rightarrow> Inr (bulkResetDeviceUserPassword E (rc_selected c) (rc_username c) (rc_password c)))"

record address_card =
  ac_selected :: "string list"
  ac_listName :: string
  ac_address :: string
  ac_timeout :: string
  ac_comment :: string

definition address_check :: "address_card \<Rightarrow> string option" where
  "address_check c =
     (if ac_selected c = [] then Some ''Select at least one device.''
      else if ac_listName c = [] then Some ''List name is required.''
      else if ac_address c = [] then Some ''Address is required.''
      else None)"

definition address_request :: "address_card \<Rightarrow> BulkAddressListAddRequest" where
  "address_request c = \<lparr>balar_device_ids = ac_selected c, balar_list_name = ac_listName c, balar_address = ac_address c,
     balar_timeout = nul (ac_timeout c), balar_comment = nul (ac_comment c)\<rparr>"

definition submit_address :: "env \<Rightarrow> address_card \<Rightarrow> string + json call" where
  "submit_address E c =
     (case address_check c of Some e \<Rightarrow> Inl e | None \<Rightarrow> Inr (bulkAddressListAdd E (address_request c)))"

record rule_card =
  uc_selected :: "string list"
  uc_chain :: string
  uc_action :: string
  uc_srcAddress :: string
  uc_dstAddress :: string
  uc_srcAddressList :: string
  uc_dstAddressList :: string
  uc_protocol :: string
  uc_srcPort :: string
  uc_dstPort :: string
  uc_connectionState :: string
  uc_log :: bool
  uc_logPrefix :: string
  uc_disabled :: bool
  uc_comment :: string

definition rule_check :: "rule_card \<Rightarrow> string option" where
  "rule_check c =
     (if uc_selected c = [] then Some ''Select at least one device.''
      else if uc_chain c = [] then Some ''Chain is required.''
      else if uc_action c = [] then Some ''Action is required.''
      else None)"

definition rule_request :: "rule_card \<Rightarrow> BulkFirewallFilterRequest" where
  "rule_request c = \<lparr>bffr_device_ids = uc_selected c, bffr_rule =
     \<lparr>bfr_chain = uc_chain c, bfr_action = uc_action c, bfr_src_address = nul (uc_srcAddress c),
      bfr_dst_address = nul (uc_dstAddress c), bfr_src_address_list = nul (uc_srcAddressList c),
      bfr_dst_address_list = nul (uc_dstAddressList c), bfr_protocol = nul (uc_protocol c),
      bfr_src_port = nul (uc_srcPort c), bfr_dst_port = nul (uc_dstPort c), bfr_in_interface = Undefined,
      bfr_out_interface = Undefined, bfr_connection_state = nul (uc_connectionState c), bfr_log = Val (uc_log c),
      bfr_log_prefix = nul (uc_logPrefix c), bfr_disabled = Val (uc_disabled c), bfr_comment = nul (uc_comment c)\<rparr>\<rparr>"

definition submit_rule_card :: "env \<Rightarrow> rule_card \<Rightarrow> string + json call" where
  "submit_rule_card E c =
     (case rule_check c of Some e \<Rightarrow> Inl e | None \<Rightarrow> Inr (bulkFirewallFilterAdd E (rule_request c)))"

section \<open>The SNMP wizard\<close>

datatype zb_stage = ZbDevices | ZbSettings | ZbApply

text \<open>
  The state of the page, with the devices as last fetched and the filter of the picker, which
  is forgotten when the step is left. \<open>zb_applying\<close> is the pending call of the step that is
  shown, \<open>zb_underway\<close> the calls not yet answered. \<open>zb_sent\<close> and \<open>zb_seen\<close> record the requests
  made and the devices ever listed.
\<close>

record zb_page =
  zb_stage :: zb_stage
  zb_selected :: "string list"
  zb_zabbixAddrs :: string
  zb_addressList :: string
  zb_community :: string
  zb_snmpPort :: rat
  zb_configureCommunity :: bool
  zb_error :: "string option"
  zb_devices :: "Device list option"
  zb_siteFilter :: string
  zb_applying :: bool
  zb_underway :: nat
  zb_sent :: "BulkZabbixSnmpSetupRequest list"
  zb_seen :: "string set"

definition zb_start :: zb_page where
  "zb_start = \<lparr>zb_stage = ZbDevices, zb_selected = [], zb_zabbixAddrs = [], zb_addressList = ''zabbix'',
     zb_community = ''public'', zb_snmpPort = 161, zb_configureCommunity = True, zb_error = None, zb_devices = None,
     zb_siteFilter = [], zb_applying = False, zb_underway = 0, zb_sent = [], zb_seen = {}\<rparr>"

definition addrList :: "zb_page \<Rightarrow> string list" where
  "addrList s = filter (\<lambda>a. a \<noteq> []) (map trim (words_by cidr_sep (zb_zabbixAddrs s)))"

definition settings_check :: "zb_page \<Rightarrow> string option" where
  "settings_check s =
     (if addrList s = [] then Some ''Enter at least one Zabbix IP or CIDR.''
      else if trim (zb_addressList s) = [] then Some ''Address-list name is required.''
      else if zb_configureCommunity s \<and> trim (zb_community s) = [] then
        Some ''Community name is required (or turn off community setup).''
      else None)"

definition zb_request :: "zb_page \<Rightarrow> BulkZabbixSnmpSetupRequest" where
  "zb_request s = \<lparr>bzssr_device_ids = zb_selected s, bzssr_zabbix_addresses = addrList s,
     bzssr_address_list_name = Val (zb_addressList s), bzssr_firewall_chain = Undefined,
     bzssr_snmp_port = Val (zb_snmpPort s), bzssr_community_name = Val (zb_community s),
     bzssr_configure_community = Val (zb_configureCommunity s), bzssr_comment_tag = Undefined\<rparr>"

definition zb_shown :: "zb_page \<Rightarrow> Device list" where
  "zb_shown s = filteredDevices (zb_devices s) (zb_siteFilter s)"

text \<open>
  Going to a step mounts it anew. The review step shows nothing that edits what it sends, and
  the community field is disabled while the community is left alone.
\<close>

definition zb_goto :: "zb_stage \<Rightarrow> zb_page \<Rightarrow> zb_page" where
  "zb_goto st s = s\<lparr>zb_stage := st, zb_error := None, zb_siteFilter := [], zb_applying := False\<rparr>"

inductive zb_step :: "zb_page \<Rightarrow> zb_page \<Rightarrow> bool" where
  fetched: "zb_step s (s\<lparr>zb_devices := Some ds, zb_seen := zb_seen s \<union> d_id ` set ds\<rparr>)"
| filter_site: "zb_stage s = ZbDevices \<Longrightarrow> zb_step s (s\<lparr>zb_siteFilter := v\<rparr>)"
| all_devices: "zb_stage s = ZbDevices \<Longrightarrow> zb_step s (s\<lparr>zb_selected := toggleAll (zb_shown s) (zb_selected s)\<rparr>)"
| one_device: "zb_stage s = ZbDevices \<Longrightarrow> d \<in> set (zb_shown s) \<Longrightarrow>
    zb_step s (s\<lparr>zb_selected := toggleOne (d_id d) (zb_selected s)\<rparr>)"
| to_settings: "zb_stage s = ZbDevices \<Longrightarrow> zb_selected s \<noteq> [] \<Longrightarrow> zb_step s (zb_goto ZbSettings s)"
| edit_settings: "zb_stage s = ZbSettings \<Longrightarrow> zb_configureCommunity s \<or> c = zb_community s \<Longrightarrow>
    zb_step s (s\<lparr>zb_zabbixAddrs := a, zb_addressList := l, zb_community := c, zb_snmpPort := p\<rparr>)"
| tick_community: "zb_stage s = ZbSettings \<Longrightarrow> zb_step s (s\<lparr>zb_configureCommunity := b\<rparr>)"
| refused: "zb_stage s = ZbSettings \<Longrightarrow> settings_check s = Some e \<Longrightarrow> zb_step s (s\<lparr>zb_error := Some e\<rparr>)"
| to_apply: "zb_stage s = ZbSettings \<Longrightarrow> settings_check s = None \<Longrightarrow> zb_step s (zb_goto ZbApply s)"
| back_to_devices: "zb_stage s = ZbSettings \<Longrightarrow> zb_step s (zb_goto ZbDevices s)"
| back_to_settings: "zb_stage s = ZbApply \<Longrightarrow> zb_step s (zb_goto ZbSettings s)"
| apply_now: "zb_stage s = ZbApply \<Longrightarrow> \<not> zb_applying s \<Longrightarrow>
    zb_step s (s\<lparr>zb_applying := True, zb_underway := zb_underway s + 1, zb_sent := zb_sent s @ [zb_request s]\<rparr>)"
| answered: "zb_underway s > 0 \<Longrightarrow> zb_applying s \<Longrightarrow>
    zb_step s (s\<lparr>zb_applying := False, zb_underway := zb_underway s - 1\<rparr>)"
| answered_late: "zb_underway s > (if zb_applying s then 1 else 0) \<Longrightarrow>
    zb_step s (s\<lparr>zb_underway := zb_underway s - 1\<rparr>)"

section \<open>The picker edits a set of devices\<close>

lemma fold_delete: "set (fold (\<lambda>d. jset_delete (f d)) ds xs) = set xs - f ` set ds"
  by (induction ds arbitrary: xs) auto

lemma fold_add: "set (fold (\<lambda>d. jset_add (f d)) ds xs) = set xs \<union> f ` set ds"
  by (induction ds arbitrary: xs) auto

lemma fold_distinct:
  assumes "distinct xs"
  shows "distinct (fold (\<lambda>d. jset_delete (f d)) ds xs)" "distinct (fold (\<lambda>d. jset_add (f d)) ds xs)"
  using assms by (induction ds arbitrary: xs) auto

lemma set_toggleAll:
  "set (toggleAll shown selected) =
     (if allSelected shown selected then set selected - d_id ` set shown else set selected \<union> d_id ` set shown)"
  by (simp add: toggleAll_def fold_delete fold_add)

lemma set_toggleOne: "set (toggleOne i selected) = (if i \<in> set selected then set selected - {i} else insert i (set selected))"
  by (simp add: toggleOne_def)

lemma toggle_distinct: "distinct xs \<Longrightarrow> distinct (toggleAll shown xs)" "distinct xs \<Longrightarrow> distinct (toggleOne i xs)"
  by (simp_all add: toggleAll_def toggleOne_def fold_distinct)

lemma allSelected_iff: "allSelected shown selected \<longleftrightarrow> shown \<noteq> [] \<and> d_id ` set shown \<subseteq> set selected"
  by (auto simp: allSelected_def list_all_iff)

text \<open>
  The header box selects all devices on show, and a second click none of them. The devices the
  site filter hides stay selected throughout, so a card that is submitted under a filter acts
  on devices that are not on show.
\<close>

theorem picker_hides_selection:
  assumes "shown \<noteq> []" "\<not> allSelected shown selected"
  shows "set (toggleAll shown selected) = set selected \<union> d_id ` set shown \<and>
    set (toggleAll shown (toggleAll shown selected)) = set selected - d_id ` set shown \<and>
    (i \<notin> d_id ` set shown \<longrightarrow> (i \<in> set (toggleAll shown selected) \<longleftrightarrow> i \<in> set selected))"
  using assms by (auto simp: set_toggleAll allSelected_iff)

section \<open>What the wizard requests\<close>

definition zb_request_ok :: "string set \<Rightarrow> BulkZabbixSnmpSetupRequest \<Rightarrow> bool" where
  "zb_request_ok seen q \<longleftrightarrow>
     bzssr_device_ids q \<noteq> [] \<and> distinct (bzssr_device_ids q) \<and> set (bzssr_device_ids q) \<subseteq> seen \<and>
     bzssr_zabbix_addresses q \<noteq> [] \<and> (\<forall>a\<in>set (bzssr_zabbix_addresses q). a \<noteq> [] \<and> list_all (\<lambda>c. \<not> cidr_sep c) a) \<and>
     (\<exists>l. bzssr_address_list_name q = Val l \<and> trim l \<noteq> []) \<and>
     (bzssr_configure_community q = Val True \<longrightarrow> (\<exists>c. bzssr_community_name q = Val c \<and> trim c \<noteq> []))"

definition zb_inv :: "zb_page \<Rightarrow> bool" where
  "zb_inv s \<longleftrightarrow> distinct (zb_selected s) \<and> set (zb_selected s) \<subseteq> zb_seen s \<and>
     (\<forall>ds. zb_devices s = Some ds \<longrightarrow> d_id ` set ds \<subseteq> zb_seen s) \<and>
     (zb_stage s \<noteq> ZbDevices \<longrightarrow> zb_selected s \<noteq> []) \<and>
     (zb_stage s = ZbApply \<longrightarrow> settings_check s = None) \<and>
     (\<forall>q\<in>set (zb_sent s). zb_request_ok (zb_seen s) q)"

lemma addrs_ok:
  assumes "a \<in> set (addrList s)"
  shows "a \<noteq> [] \<and> list_all (\<lambda>c. \<not> cidr_sep c) a"
  using assms words_by_no_sep [of _ cidr_sep "zb_zabbixAddrs s"]
  by (auto simp: addrList_def words_trim list_all_iff)

lemma zb_request_sound:
  assumes "zb_inv s" "zb_stage s = ZbApply"
  shows "zb_request_ok (zb_seen s) (zb_request s)"
proof -
  have "settings_check s = None" "zb_selected s \<noteq> []" using assms by (simp_all add: zb_inv_def)
  then show ?thesis
    using assms(1) addrs_ok [of _ s]
    by (auto simp: zb_request_ok_def zb_request_def zb_inv_def settings_check_def split: if_splits)
qed

lemma shown_seen:
  assumes "zb_inv s"
  shows "d_id ` set (zb_shown s) \<subseteq> zb_seen s"
proof (cases "zb_devices s")
  case (Some ds)
  then have "d_id ` set ds \<subseteq> zb_seen s" using assms by (simp add: zb_inv_def)
  then show ?thesis by (auto simp: zb_shown_def filteredDevices_def Some)
qed (simp add: zb_shown_def filteredDevices_def)

lemma request_ok_mono: "zb_request_ok seen q \<Longrightarrow> seen \<subseteq> seen' \<Longrightarrow> zb_request_ok seen' q"
  by (auto simp: zb_request_ok_def)

lemma settings_check_simps [simp]:
  "settings_check (s\<lparr>zb_stage := v0\<rparr>) = settings_check s" "settings_check (s\<lparr>zb_selected := v1\<rparr>) = settings_check s" "settings_check (s\<lparr>zb_devices := v2\<rparr>) = settings_check s"
   "settings_check (s\<lparr>zb_seen := v3\<rparr>) = settings_check s" "settings_check (s\<lparr>zb_siteFilter := v4\<rparr>) = settings_check s" "settings_check (s\<lparr>zb_applying := v5\<rparr>) = settings_check s"
   "settings_check (s\<lparr>zb_underway := v6\<rparr>) = settings_check s" "settings_check (s\<lparr>zb_sent := v7\<rparr>) = settings_check s" "settings_check (s\<lparr>zb_error := v8\<rparr>) = settings_check s"
  by (simp_all add: settings_check_def addrList_def)

lemma zb_goto_simps [simp]:
  "zb_selected (zb_goto st s) = zb_selected s" "zb_devices (zb_goto st s) = zb_devices s"
  "zb_seen (zb_goto st s) = zb_seen s" "zb_sent (zb_goto st s) = zb_sent s" "zb_stage (zb_goto st s) = st"
  "settings_check (zb_goto st s) = settings_check s"
  by (simp_all add: zb_goto_def)

lemma zb_inv_step:
  assumes "zb_inv s" "zb_step s t"
  shows "zb_inv t"
  using assms(2,1)
proof cases
  case (fetched ds)
  then show ?thesis using assms(1) by (auto simp: zb_inv_def intro: request_ok_mono)
next
  case all_devices
  then show ?thesis
    using assms(1) shown_seen [OF assms(1)] toggle_distinct(1) by (auto simp: zb_inv_def set_toggleAll split: if_splits)
next
  case (one_device d)
  then show ?thesis
    using assms(1) shown_seen [OF assms(1)] toggle_distinct(2) by (auto simp: zb_inv_def set_toggleOne split: if_splits)
next
  case apply_now
  then show ?thesis
    using assms(1) zb_request_sound [OF assms(1)] by (simp add: zb_inv_def)
qed (use assms(1) in \<open>simp_all add: zb_inv_def\<close>)

interpretation zb: invariant_system "\<lambda>s. s = zb_start" zb_step zb_inv
proof
  show "zb_inv s" if "s = zb_start" for s using that by (simp add: zb_inv_def zb_start_def)
qed (rule zb_inv_step)

text \<open>
  Whatever is clicked, in whichever order answers arrive, the SNMP wizard only asks for
  devices that were listed and selected, at least one and none twice, with at least one
  address and no separators left in any, for a named address list, and for a community with a
  name when it is to be configured.
\<close>

theorem snmp_request_sound:
  assumes "reaches (\<lambda>s. s = zb_start) zb_step s" "q \<in> set (zb_sent s)"
  shows "bzssr_device_ids q \<noteq> [] \<and> distinct (bzssr_device_ids q) \<and> set (bzssr_device_ids q) \<subseteq> zb_seen s \<and>
    bzssr_zabbix_addresses q \<noteq> [] \<and>
    (a \<in> set (bzssr_zabbix_addresses q) \<longrightarrow> a \<noteq> [] \<and> list_all (\<lambda>c. \<not> cidr_sep c) a) \<and>
    (\<exists>l. bzssr_address_list_name q = Val l \<and> trim l \<noteq> []) \<and>
    (bzssr_configure_community q = Val True \<longrightarrow> (\<exists>c. bzssr_community_name q = Val c \<and> trim c \<noteq> []))"
  using zb.reachable_inv [OF assms(1)] assms(2) unfolding zb_inv_def zb_request_ok_def by blast

text \<open>
  The three cards act on exactly the selected devices, once their checks pass, and otherwise
  say which check failed; a password is never sent unconfirmed or short.
\<close>

theorem cards_submit_checked:
  "(submit_reset E c = Inr k \<longleftrightarrow> rc_selected c \<noteq> [] \<and> rc_username c \<noteq> [] \<and> 8 \<le> js_length (rc_password c) \<and>
      rc_confirm c = rc_password c \<and> k = bulkResetDeviceUserPassword E (rc_selected c) (rc_username c) (rc_password c)) \<and>
   (submit_address E a = Inr k \<longleftrightarrow> ac_selected a \<noteq> [] \<and> ac_listName a \<noteq> [] \<and> ac_address a \<noteq> [] \<and>
      k = bulkAddressListAdd E (address_request a)) \<and>
   (submit_rule_card E u = Inr k \<longleftrightarrow> uc_selected u \<noteq> [] \<and> uc_chain u \<noteq> [] \<and> uc_action u \<noteq> [] \<and>
      k = bulkFirewallFilterAdd E (rule_request u))"
  by (auto simp: submit_reset_def reset_check_def submit_address_def address_check_def submit_rule_card_def rule_check_def)

section \<open>Witnesses\<close>

text \<open>Both routers ticked, one address entered, applied.\<close>

definition zb_picked :: zb_page where
  "zb_picked = zb_start\<lparr>zb_devices := Some three_routers, zb_seen := {''r1'', ''r2'', ''r3''},
     zb_selected := [''r1'', ''r2'', ''r3'']\<rparr>"

definition zb_filled :: zb_page where
  "zb_filled = zb_picked\<lparr>zb_stage := ZbApply, zb_zabbixAddrs := ''10.0.0.5''\<rparr>"

definition zb_applied :: zb_page where
  "zb_applied = zb_filled\<lparr>zb_applying := True, zb_underway := 1, zb_sent := [zb_request zb_filled]\<rparr>"

lemmas zb_demo = zb_start_def zb_picked_def zb_filled_def zb_applied_def

lemma zb_demo_steps:
  "zb_step zb_start (zb_start\<lparr>zb_devices := Some three_routers, zb_seen := {''r1'', ''r2'', ''r3''}\<rparr>)"
  "zb_step (zb_start\<lparr>zb_devices := Some three_routers, zb_seen := {''r1'', ''r2'', ''r3''}\<rparr>) zb_picked"
  "zb_step zb_picked (zb_picked\<lparr>zb_stage := ZbSettings\<rparr>)"
  "zb_step (zb_picked\<lparr>zb_stage := ZbSettings\<rparr>) (zb_picked\<lparr>zb_stage := ZbSettings, zb_zabbixAddrs := ''10.0.0.5''\<rparr>)"
  "zb_step (zb_picked\<lparr>zb_stage := ZbSettings, zb_zabbixAddrs := ''10.0.0.5''\<rparr>) zb_filled"
  "zb_step zb_filled zb_applied"
proof -
  let ?f = "zb_start\<lparr>zb_devices := Some three_routers, zb_seen := {''r1'', ''r2'', ''r3''}\<rparr>"
  let ?s = "zb_picked\<lparr>zb_stage := ZbSettings\<rparr>" and ?e = "zb_picked\<lparr>zb_stage := ZbSettings, zb_zabbixAddrs := ''10.0.0.5''\<rparr>"
  show "zb_step zb_start ?f" using fetched [of zb_start three_routers] by (simp add: zb_start_def three_routers_def)
  show "zb_step ?f zb_picked" using all_devices [of ?f]
    by (simp add: zb_demo zb_shown_def filteredDevices_def toggleAll_def allSelected_def three_routers_def jset_add_def)
  show "zb_step zb_picked ?s" using to_settings [of zb_picked] by (simp add: zb_demo zb_goto_def)
  show "zb_step ?s ?e" using edit_settings [where s = ?s and c = "''public''" and a = "''10.0.0.5''" and l = "''zabbix''" and p = 161] by (simp add: zb_demo)
  show "zb_step ?e zb_filled" using to_apply [of ?e]
    by (simp add: zb_demo zb_goto_def settings_check_def addrList_def words_by_def cidr_sep_def is_ws_def trim_def
        trimStart_def trimEnd_def)
  show "zb_step zb_filled zb_applied" using apply_now [of zb_filled] by (simp add: zb_demo)
qed

lemma reach_applied: "reaches (\<lambda>s. s = zb_start) zb_step zb_applied"
  using reaches_init [of "\<lambda>s. s = zb_start" zb_start zb_step] zb_demo_steps by (meson reaches_step)

theorem snmp_request_sound_witness:
  "set (zb_selected zb_filled) \<subseteq> zb_seen zb_applied \<and> addrList zb_filled \<noteq> []"
  using snmp_request_sound [OF reach_applied, of "zb_request zb_filled"]
  by (simp add: zb_applied_def) (simp add: zb_request_def)

theorem picker_hides_selection_witness:
  "set (toggleAll [demo_device] [''x'']) = {''x'', d_id demo_device}"
  using picker_hides_selection [of "[demo_device]" "[''x'']"] by (auto simp: allSelected_def demo_device_def)

end
