(* ===== verification/Updates_Page.thy ===== *)
theory Updates_Page
  imports Admin_Api Format
begin

text \<open>
  The updater screen (\<open>settings/updates/page.tsx\<close>) and the banner of the dashboard
  (\<open>components/update-banner.tsx\<close>): what they show of the status of the updater, and when an
  update is started.
\<close>

section \<open>Status and views\<close>

record UpdateStatus =
  ut_current :: string
  ut_updater_version :: "string option"
  ut_available :: "string option"
  ut_target_version :: "string option"
  ut_channel :: string
  ut_repo :: string
  ut_state :: UpdateState
  ut_last_checked_iso :: "string option"
  ut_last_error :: "string option"
  ut_check_error :: "string option"
  ut_started_at_iso :: "string option"
  ut_finished_at_iso :: "string option"
  ut_log_tail :: "string list"

text \<open>How long until the next poll, in milliseconds: of the page and of the banner.\<close>

definition page_interval :: "UpdateStatus option \<Rightarrow> nat" where
  "page_interval d = (case d of Some x \<Rightarrow> if isInProgress (ut_state x) then 2000 else 30000 | None \<Rightarrow> 30000)"

definition banner_interval :: "UpdateStatus option \<Rightarrow> nat" where
  "banner_interval d = (case d of Some x \<Rightarrow> if isInProgress (ut_state x) then 2000 else 60000 | None \<Rightarrow> 60000)"

datatype update_banner = NoBanner | ProgressBanner UpdateState | FailedBanner "string option" | OfferBanner string

definition UpdateBanner :: "string \<Rightarrow> UpdateStatus option \<Rightarrow> update_banner" where
  "UpdateBanner pathname d =
     (case d of
        None \<Rightarrow> NoBanner
      | Some x \<Rightarrow>
          if startsWith pathname ''/dashboard/settings/updates'' then NoBanner
          else if isInProgress (ut_state x) then ProgressBanner (ut_state x)
          else if ut_state x = us_failed then FailedBanner (if truthy_str (ut_last_error x) then ut_last_error x else None)
          else if truthy_str (ut_available x) then OfferBanner (the (ut_available x))
          else NoBanner)"

text \<open>The card of the available version and the area below the cards.\<close>

datatype available_card = AvailableCard string | CheckFailedCard string | UpToDateCard

definition available_card :: "UpdateStatus \<Rightarrow> available_card" where
  "available_card x =
     (if truthy_str (ut_available x) then AvailableCard (the (ut_available x))
      else if truthy_str (ut_check_error x) then CheckFailedCard (the (ut_check_error x)) else UpToDateCard)"

datatype action_area = ProgressView | UpgradePrompt string | UpToDateView | UpdateFailedView "string option" | LatestRelease

definition action_area :: "UpdateStatus \<Rightarrow> action_area" where
  "action_area x =
     (if isInProgress (ut_state x) then ProgressView
      else if truthy_str (ut_available x) then UpgradePrompt (the (ut_available x))
      else if ut_state x = us_success then UpToDateView
      else if ut_state x = us_failed then UpdateFailedView (ut_last_error x)
      else LatestRelease)"

text \<open>The steps of a running update: those before the current one are done.\<close>

definition STEPS :: "UpdateState list" where
  "STEPS = [us_backing_up, us_pulling, us_recreating, us_health_checking]"

datatype step_mark = StepDone | StepActive | StepPending

definition step_mark :: "UpdateState \<Rightarrow> nat \<Rightarrow> step_mark" where
  "step_mark st i =
     (case findIndex (\<lambda>k. k = st) STEPS of
        None \<Rightarrow> StepPending
      | Some cur \<Rightarrow> if i < cur then StepDone else if i = cur then StepActive else StepPending)"

section \<open>The page\<close>

text \<open>
  The state of the page and the history of what was read, asked, and requested. A failed
  query keeps the data of the last one; a forced check replaces the data.
\<close>

datatype update_event = StatusRead UpdateStatus | AskConfirm | Cancelled | BackupSet bool | Triggered string bool | Started

record update_page =
  up_data :: "UpdateStatus option"
  up_error :: "string option"
  up_confirming :: bool
  up_backup :: bool
  up_pending :: bool
  up_forcing :: bool
  up_history :: "update_event list"

definition update_start :: update_page where
  "update_start = \<lparr>up_data = None, up_error = None, up_confirming = False, up_backup = True, up_pending = False,
     up_forcing = False, up_history = []\<rparr>"

definition prompt_of :: "update_page \<Rightarrow> string option" where
  "prompt_of s =
     (case up_data s of
        Some x \<Rightarrow> if up_error s = None then (case action_area x of UpgradePrompt v \<Rightarrow> Some v | _ \<Rightarrow> None) else None
      | None \<Rightarrow> None)"

definition logged :: "update_event \<Rightarrow> update_page \<Rightarrow> update_page" where
  "logged e s = s\<lparr>up_history := up_history s @ [e]\<rparr>"

inductive update_step :: "update_page \<Rightarrow> update_page \<Rightarrow> bool" where
  poll_ok: "update_step s (logged (StatusRead x) (s\<lparr>up_data := Some x, up_error := None\<rparr>))"
| poll_failed: "update_step s (s\<lparr>up_error := Some m\<rparr>)"
| force_check: "up_error s = None \<Longrightarrow> up_data s \<noteq> None \<Longrightarrow> \<not> up_forcing s \<Longrightarrow> update_step s (s\<lparr>up_forcing := True\<rparr>)"
| force_ok: "up_forcing s \<Longrightarrow>
    update_step s (logged (StatusRead x) (s\<lparr>up_data := Some x, up_error := None, up_forcing := False\<rparr>))"
| force_failed: "up_forcing s \<Longrightarrow> update_step s (s\<lparr>up_forcing := False\<rparr>)"
| ask: "prompt_of s \<noteq> None \<Longrightarrow> \<not> up_confirming s \<Longrightarrow> update_step s (logged AskConfirm (s\<lparr>up_confirming := True\<rparr>))"
| cancel: "prompt_of s \<noteq> None \<Longrightarrow> up_confirming s \<Longrightarrow> update_step s (logged Cancelled (s\<lparr>up_confirming := False\<rparr>))"
| set_backup: "prompt_of s \<noteq> None \<Longrightarrow> up_confirming s \<Longrightarrow> update_step s (logged (BackupSet b) (s\<lparr>up_backup := b\<rparr>))"
| confirm: "prompt_of s = Some v \<Longrightarrow> up_confirming s \<Longrightarrow> \<not> up_pending s \<Longrightarrow>
    update_step s (logged (Triggered v (up_backup s)) (s\<lparr>up_pending := True\<rparr>))"
| started: "up_pending s \<Longrightarrow> update_step s (logged Started (s\<lparr>up_pending := False, up_confirming := False\<rparr>))"
| start_failed: "up_pending s \<Longrightarrow> update_step s (s\<lparr>up_pending := False\<rparr>)"

text \<open>The call a confirmation makes.\<close>

definition start_update :: "env \<Rightarrow> update_event \<Rightarrow> json call option" where
  "start_update E e = (case e of Triggered v b \<Rightarrow> Some (triggerUpdate E v b) | _ \<Rightarrow> None)"

section \<open>When an update is started\<close>

definition last_read :: "update_event list \<Rightarrow> UpdateStatus option" where
  "last_read h = fold (\<lambda>e x. case e of StatusRead d \<Rightarrow> Some d | _ \<Rightarrow> x) h None"

definition asked :: "update_event list \<Rightarrow> bool" where
  "asked h = fold (\<lambda>e x. case e of AskConfirm \<Rightarrow> True | Cancelled \<Rightarrow> False | Started \<Rightarrow> False | _ \<Rightarrow> x) h False"

definition wants_backup :: "update_event list \<Rightarrow> bool" where
  "wants_backup h = fold (\<lambda>e x. case e of BackupSet b \<Rightarrow> b | _ \<Rightarrow> x) h True"

definition start_justified :: "update_event list \<Rightarrow> update_event \<Rightarrow> bool" where
  "start_justified h e \<longleftrightarrow> (\<forall>v b. e = Triggered v b \<longrightarrow> asked h \<and> b = wants_backup h \<and>
     (\<exists>x. last_read h = Some x \<and> ut_available x = Some v \<and> v \<noteq> [] \<and> \<not> isInProgress (ut_state x)))"

definition update_inv :: "update_page \<Rightarrow> bool" where
  "update_inv s \<longleftrightarrow> up_data s = last_read (up_history s) \<and> up_confirming s = asked (up_history s) \<and>
     up_backup s = wants_backup (up_history s) \<and> with_past start_justified (up_history s)"

lemma poll_history_snoc [simp]:
  "last_read (h @ [e]) = (case e of StatusRead d \<Rightarrow> Some d | _ \<Rightarrow> last_read h)"
  "asked (h @ [e]) = (case e of AskConfirm \<Rightarrow> True | Cancelled \<Rightarrow> False | Started \<Rightarrow> False | _ \<Rightarrow> asked h)"
  "wants_backup (h @ [e]) = (case e of BackupSet b \<Rightarrow> b | _ \<Rightarrow> wants_backup h)"
  by (simp_all add: last_read_def asked_def wants_backup_def split: update_event.split)

lemma poll_history_Nil [simp]: "last_read [] = None" "asked [] = False" "wants_backup [] = True"
  by (simp_all add: last_read_def asked_def wants_backup_def)

lemma prompt_ofD:
  assumes "prompt_of s = Some v"
  shows "\<exists>x. up_data s = Some x \<and> ut_available x = Some v \<and> v \<noteq> [] \<and> \<not> isInProgress (ut_state x)"
  using assms
  by (auto simp: prompt_of_def action_area_def truthy_str_def split: option.splits if_splits action_area.splits)

lemma update_inv_step: "update_step s t \<Longrightarrow> update_inv s \<Longrightarrow> update_inv t"
proof (induction rule: update_step.induct)
  case (confirm s v)
  then show ?case using prompt_ofD [of s v] by (simp add: update_inv_def logged_def start_justified_def)
qed (simp_all add: update_inv_def logged_def start_justified_def)

interpretation updater: invariant_system "\<lambda>s. s = update_start" update_step update_inv
proof
  show "update_inv s" if "s = update_start" for s using that by (simp add: update_inv_def update_start_def)
qed (rule update_inv_step)

text \<open>
  C25. An update is only started for the version the last status that was read offers, which is
  the version on the button, while that status shows no update under way, after the operator
  asked to confirm and did not cancel, and with a backup unless that was unticked.
\<close>

theorem update_started_as_confirmed:
  assumes "reaches (\<lambda>s. s = update_start) update_step s" "up_history s = h1 @ Triggered v b # h2"
  shows "asked h1 \<and> b = wants_backup h1 \<and>
    (\<exists>x. last_read h1 = Some x \<and> action_area x = UpgradePrompt v \<and> \<not> isInProgress (ut_state x))"
proof -
  have "with_past start_justified (h1 @ Triggered v b # h2)"
    using updater.reachable_inv [OF assms(1)] assms(2) by (simp add: update_inv_def)
  from with_pastD [OF this] obtain x where x: "asked h1" "b = wants_backup h1" "last_read h1 = Some x"
    "ut_available x = Some v" "v \<noteq> []" "\<not> isInProgress (ut_state x)"
    by (auto simp: start_justified_def)
  then have "action_area x = UpgradePrompt v" by (simp add: action_area_def truthy_str_def)
  with x show ?thesis by blast
qed

text \<open>
  A release check that failed is reported as such on its card, and at the same time the area
  below says that the latest release is installed, unless an update has just succeeded or
  failed. The banner is silent too.
\<close>

theorem failed_check_claims_latest:
  assumes "ut_check_error x = Some e" "e \<noteq> []" "ut_available x = None" "ut_state x \<in> {us_idle, us_checking}"
  shows "available_card x = CheckFailedCard e \<and> action_area x = LatestRelease \<and> UpdateBanner p (Some x) = NoBanner"
  using assms
  by (auto simp: available_card_def action_area_def UpdateBanner_def truthy_str_def isInProgress_def IN_PROGRESS_STATES_def)

text \<open>While an update runs exactly one step is active, those before it are done, those after it are not.\<close>

theorem progress_one_active:
  assumes "isInProgress st"
  shows "\<exists>cur < length STEPS. STEPS ! cur = st \<and>
    (\<forall>i < length STEPS. step_mark st i = (if i < cur then StepDone else if i = cur then StepActive else StepPending))"
proof -
  obtain cur where c: "findIndex (\<lambda>k. k = st) STEPS = Some cur"
    using assms by (auto simp: isInProgress_def IN_PROGRESS_STATES_def STEPS_def)
  then have "cur < length STEPS" "STEPS ! cur = st" by (simp_all add: findIndex_Some_iff)
  then show ?thesis by (intro exI [of _ cur]) (simp add: step_mark_def c)
qed

section \<open>Witnesses\<close>

definition demo_update :: UpdateStatus where
  "demo_update = \<lparr>ut_current = ''1.0'', ut_updater_version = None, ut_available = Some ''1.1'', ut_target_version = None,
     ut_channel = ''stable'', ut_repo = ''r'', ut_state = us_idle, ut_last_checked_iso = None, ut_last_error = None,
     ut_check_error = None, ut_started_at_iso = None, ut_finished_at_iso = None, ut_log_tail = []\<rparr>"

definition update_read :: update_page where
  "update_read = update_start\<lparr>up_data := Some demo_update, up_history := [StatusRead demo_update]\<rparr>"

definition update_asked :: update_page where
  "update_asked = update_read\<lparr>up_confirming := True, up_history := [StatusRead demo_update, AskConfirm]\<rparr>"

definition update_sent :: update_page where
  "update_sent = update_asked\<lparr>up_pending := True, up_history := [StatusRead demo_update, AskConfirm, Triggered ''1.1'' True]\<rparr>"

lemma reach_sent: "reaches (\<lambda>s. s = update_start) update_step update_sent"
proof -
  have p: "prompt_of update_read = Some ''1.1''" "prompt_of update_asked = Some ''1.1''"
    by (simp_all add: update_asked_def update_read_def update_start_def prompt_of_def action_area_def demo_update_def
        truthy_str_def isInProgress_def IN_PROGRESS_STATES_def)
  have "update_step update_start update_read"
    using poll_ok [of update_start demo_update] by (simp add: update_read_def update_start_def logged_def)
  moreover have "update_step update_read update_asked"
    using ask [of update_read] p by (simp add: update_asked_def update_read_def update_start_def logged_def)
  moreover have "update_step update_asked update_sent"
    using confirm [of update_asked "''1.1''"] p
    by (simp add: update_sent_def update_asked_def update_read_def update_start_def logged_def)
  ultimately show ?thesis
    using reaches_init [of "\<lambda>s. s = update_start" update_start update_step] by (meson reaches_step)
qed

theorem update_started_as_confirmed_witness:
  "asked [StatusRead demo_update, AskConfirm] \<and>
   (\<exists>x. last_read [StatusRead demo_update, AskConfirm] = Some x \<and> action_area x = UpgradePrompt ''1.1'')"
  using update_started_as_confirmed [OF reach_sent, of "[StatusRead demo_update, AskConfirm]" "''1.1''" True "[]"]
  by (auto simp: update_sent_def)

theorem failed_check_claims_latest_witness:
  "action_area (demo_update\<lparr>ut_available := None, ut_check_error := Some ''timeout''\<rparr>) = LatestRelease"
  using failed_check_claims_latest [of "demo_update\<lparr>ut_available := None, ut_check_error := Some ''timeout''\<rparr>" "''timeout''"]
  by (simp add: demo_update_def)

theorem progress_one_active_witness: "\<exists>i < length STEPS. step_mark us_pulling i = StepActive"
  using progress_one_active [of us_pulling] by (auto simp: isInProgress_def IN_PROGRESS_STATES_def)

end
