(* ===== verification/Settings_Form.thy ===== *)
theory Settings_Form
  imports Prelude
begin

text \<open>
  The form over a query that the settings screens share: an effect copies the answer of the
  query into the fields, the operator edits them, and a mutation sends them. The screens
  differ in whether the form is there before the data is, in how the fields are loaded, in
  what a successful save does to them and in when the button is enabled; these are arguments.
\<close>

section \<open>The form and its events\<close>

text \<open>
  \<open>qf_loading\<close> is \<open>isLoading\<close>: a first fetch under way and no data yet. \<open>qf_sent\<close> records what
  was submitted, with the data the form was over at that time.
\<close>

record ('d, 'f) query_form =
  qf_data :: "'d option"
  qf_loading :: bool
  qf_form :: 'f
  qf_saving :: bool
  qf_error :: "string option"
  qf_done :: bool
  qf_sent :: "('d option \<times> 'f) list"

datatype ('d, 'f) form_event =
  Fetched 'd | FetchFailed | Refetching | Typed 'f | Submit | SaveOk | SaveErr string | HideDone

definition form_start :: "'f \<Rightarrow> ('d, 'f) query_form" where
  "form_start f = \<lparr>qf_data = None, qf_loading = True, qf_form = f, qf_saving = False, qf_error = None, qf_done = False,
     qf_sent = []\<rparr>"

definition form_shown :: "bool \<Rightarrow> ('d, 'f) query_form \<Rightarrow> bool" where
  "form_shown needs s \<longleftrightarrow> \<not> qf_loading s \<and> (needs \<longrightarrow> qf_data s \<noteq> None)"

text \<open>
  The query keeps its data object when an answer is equal to the one before, so that the effect
  only runs on a change.
\<close>

fun form_act :: "bool \<Rightarrow> ('f \<Rightarrow> bool) \<Rightarrow> ('d \<Rightarrow> 'f \<Rightarrow> 'f) \<Rightarrow> ('d option \<Rightarrow> 'f \<Rightarrow> 'f) \<Rightarrow> ('d, 'f) form_event
    \<Rightarrow> ('d, 'f) query_form \<Rightarrow> ('d, 'f) query_form" where
  "form_act needs ready load saved (Fetched d) s = s\<lparr>qf_data := Some d, qf_loading := False,
     qf_form := (if qf_data s = Some d then qf_form s else load d (qf_form s))\<rparr>"
| "form_act needs ready load saved FetchFailed s = s\<lparr>qf_loading := False\<rparr>"
| "form_act needs ready load saved Refetching s = s\<lparr>qf_loading := (qf_data s = None)\<rparr>"
| "form_act needs ready load saved (Typed f) s = (if form_shown needs s then s\<lparr>qf_form := f\<rparr> else s)"
| "form_act needs ready load saved Submit s =
     (if form_shown needs s \<and> ready (qf_form s) \<and> \<not> qf_saving s
      then s\<lparr>qf_error := None, qf_saving := True, qf_sent := qf_sent s @ [(qf_data s, qf_form s)]\<rparr> else s)"
| "form_act needs ready load saved SaveOk s =
     (if qf_saving s then s\<lparr>qf_saving := False, qf_done := True, qf_form := saved (qf_data s) (qf_form s)\<rparr> else s)"
| "form_act needs ready load saved (SaveErr m) s =
     (if qf_saving s then s\<lparr>qf_saving := False, qf_error := Some m\<rparr> else s)"
| "form_act needs ready load saved HideDone s = s\<lparr>qf_done := False\<rparr>"

section \<open>What forms that reload promise\<close>

text \<open>
  A form whose fields say what the data says: a submission in which nothing was typed asks for
  the values that were read. Loading ignores what was in the fields, so every change of the
  data, from whichever refetch, drops what was typed and not yet saved.
\<close>

locale reloading_form =
  fixes needs :: bool and ready :: "'f \<Rightarrow> bool" and load :: "'d \<Rightarrow> 'f \<Rightarrow> 'f" and saved :: "'d option \<Rightarrow> 'f \<Rightarrow> 'f"
    and payload :: "'f \<Rightarrow> 'p" and current :: "'d \<Rightarrow> 'p" and proper :: "'d \<Rightarrow> bool"
  assumes payload_load: "proper d \<Longrightarrow> payload (load d f) = current d"
    and ready_load: "ready (load d f)"
begin

lemma untouched:
  assumes "proper d" "qf_data s \<noteq> Some d" "\<not> qf_saving s"
  shows "let t = fold (form_act needs ready load saved) [Fetched d, Submit] s
    in qf_sent t = qf_sent s @ [(Some d, load d (qf_form s))] \<and> payload (load d (qf_form s)) = current d"
  using assms by (simp add: form_shown_def payload_load ready_load)

lemma refetch_drops:
  assumes "proper d" "qf_data s \<noteq> Some d"
  shows "payload (qf_form (fold (form_act needs ready load saved) [Typed f, Fetched d] s)) = current d"
  using assms by (simp add: payload_load)

end

text \<open>A form that is not there before its data never submits without having read it.\<close>

lemma needed_data_read:
  "\<forall>p\<in>set (qf_sent s). fst p \<noteq> None \<Longrightarrow> \<forall>p\<in>set (qf_sent (fold (form_act True ready load saved) es s)). fst p \<noteq> None"
proof (induction es arbitrary: s)
  case (Cons e es)
  have "\<forall>p\<in>set (qf_sent (form_act True ready load saved e s)). fst p \<noteq> None"
    using Cons.prems by (cases e) (auto simp: form_shown_def)
  then show ?case using Cons.IH by simp
qed simp

lemma sent_over_data: "p \<in> set (qf_sent (fold (form_act True ready load saved) es (form_start f))) \<Longrightarrow> fst p \<noteq> None"
  using needed_data_read [of "form_start f" ready load saved es] by (simp add: form_start_def)

text \<open>A form that is there without its data can submit the values it started with.\<close>

lemma unread_defaults_sent:
  assumes "ready f"
  shows "(None, f) \<in> set (qf_sent (fold (form_act False ready load saved) [FetchFailed, Submit] (form_start f)))"
  using assms by (simp add: form_start_def form_shown_def)

section \<open>Tabs\<close>

text \<open>
  The tabs of a device: those its driver supports, all of them while that is not known. A link
  to a tab the device does not have opens its first tab.
\<close>

definition shown_tabs :: "string set option \<Rightarrow> ('t \<times> string) list \<Rightarrow> ('t \<times> string) list" where
  "shown_tabs caps tabs = (case caps of None \<Rightarrow> tabs | Some cs \<Rightarrow> filter (\<lambda>t. snd t \<in> cs) tabs)"

definition active_tab :: "('t \<times> string) list \<Rightarrow> 't \<Rightarrow> 't" where
  "active_tab tabs requested = (if requested \<in> fst ` set tabs \<or> tabs = [] then requested else fst (hd tabs))"

lemma active_tab_shown: "tabs \<noteq> [] \<Longrightarrow> active_tab tabs requested \<in> fst ` set tabs"
  by (cases tabs) (auto simp: active_tab_def)

end
