(* ===== verification/System_Page.thy ===== *)
theory System_Page
  imports Settings_Form Dhcp_Page Format Host_Api Inventory_Api
begin

text \<open>
  The system page of a device (\<open>devices/[id]/system/page.tsx\<close>): its tabs, rebooting, the
  forms for NTP, SNMP and the time zone over the queries they load from, the SNMP communities
  edited in place, logging rules and actions, and the logging templates of
  \<open>lib/system-logging.ts\<close>.
\<close>

section \<open>Tabs and rebooting\<close>

definition SYSTEM_TABS :: "(string \<times> string) list" where
  "SYSTEM_TABS = [(''clock'', ''system.clock''), (''ntp'', ''system.clock''), (''snmp'', ''system.snmp''),
     (''logging'', ''system.log''), (''reboot'', ''system.reboot'')]"

definition isTabId :: "string option \<Rightarrow> bool" where
  "isTabId v \<longleftrightarrow> (\<exists>t. v = Some t \<and> t \<in> fst ` set SYSTEM_TABS)"

definition system_tab :: "string set option \<Rightarrow> string option \<Rightarrow> string" where
  "system_tab caps rawTab =
     active_tab (shown_tabs caps SYSTEM_TABS) (if isTabId rawTab then the rawTab else ''clock'')"

text \<open>The reboot button: armed by the name of the device, disabled while a reboot is under way.\<close>

definition reboot_armed :: "string option \<Rightarrow> string \<Rightarrow> bool" where
  "reboot_armed name confirmText \<longleftrightarrow> trim confirmText = or_blank name \<and> or_blank name \<noteq> []"

definition press_reboot :: "env \<Rightarrow> string \<Rightarrow> string option \<Rightarrow> string \<Rightarrow> bool \<Rightarrow> unit call option" where
  "press_reboot E dev name confirmText pending =
     (if reboot_armed name confirmText \<and> \<not> pending then Some (rebootDevice E dev) else None)"

section \<open>NTP\<close>

record NtpClient =
  nc_provider :: "string option"
  nc_synchronized :: "bool option"
  nc_server_name :: "string option"
  nc_server_address :: "string option"
  nc_enabled :: bool
  nc_mode :: "string option"
  nc_servers :: "string option"
  nc_primary :: "string option"
  nc_secondary :: "string option"

record ntp_form =
  nt_enabled :: bool
  nt_mode :: string
  nt_servers :: string

definition new_ntp_form :: ntp_form where
  "new_ntp_form = \<lparr>nt_enabled = True, nt_mode = ''unicast'', nt_servers = []\<rparr>"

definition load_ntp :: "NtpClient \<Rightarrow> ntp_form \<Rightarrow> ntp_form" where
  "load_ntp d f = \<lparr>nt_enabled = nc_enabled d,
     nt_mode = (if truthy_str (nc_mode d) then the (nc_mode d) else ''unicast''),
     nt_servers = (if truthy_str (nc_servers d) then the (nc_servers d)
       else join '','' (map the (filter truthy_str [nc_primary d, nc_secondary d])))\<rparr>"

definition ntp_payload :: "ntp_form \<Rightarrow> NtpUpdate" where
  "ntp_payload f = \<lparr>nu_enabled = Val (nt_enabled f), nu_mode = Val (nt_mode f), nu_servers = nul (nt_servers f),
     nu_primary = Undefined, nu_secondary = Undefined\<rparr>"

text \<open>What the panel above the form says of the server in use.\<close>

definition ntp_source :: "NtpClient \<Rightarrow> string option" where
  "ntp_source d =
     (if \<not> truthy_str (nc_server_name d) \<and> \<not> truthy_str (nc_server_address d) then None
      else Some ((case nc_server_name d of Some n \<Rightarrow> n | None \<Rightarrow> or_blank (nc_server_address d)) @
        (if truthy_str (nc_server_name d) \<and> truthy_str (nc_server_address d)
         then '' ('' @ the (nc_server_address d) @ '')'' else [])))"

record NtpServer =
  ns_enabled :: bool
  ns_broadcast :: "bool option"
  ns_multicast :: "bool option"
  ns_manycast :: "bool option"
  ns_auth_key :: "string option"

record ntp_server_form =
  nsf_enabled :: bool
  nsf_broadcast :: bool
  nsf_multicast :: bool
  nsf_manycast :: bool

definition new_ntp_server_form :: ntp_server_form where
  "new_ntp_server_form = \<lparr>nsf_enabled = False, nsf_broadcast = False, nsf_multicast = False, nsf_manycast = False\<rparr>"

definition load_ntp_server :: "NtpServer \<Rightarrow> ntp_server_form \<Rightarrow> ntp_server_form" where
  "load_ntp_server d f = \<lparr>nsf_enabled = ns_enabled d, nsf_broadcast = (ns_broadcast d = Some True),
     nsf_multicast = (ns_multicast d = Some True), nsf_manycast = (ns_manycast d = Some True)\<rparr>"

definition ntp_server_payload :: "ntp_server_form \<Rightarrow> NtpServerUpdate" where
  "ntp_server_payload f = \<lparr>nsu_enabled = Val (nsf_enabled f), nsu_broadcast = Val (nsf_broadcast f),
     nsu_multicast = Val (nsf_multicast f), nsu_manycast = Val (nsf_manycast f)\<rparr>"

section \<open>SNMP\<close>

record SnmpSettings =
  sn_enabled :: bool
  sn_contact :: "string option"
  sn_location :: "string option"
  sn_trap_target :: "string option"
  sn_trap_version :: "string option"
  sn_engine_id :: "string option"

record snmp_form =
  sm_enabled :: bool
  sm_contact :: string
  sm_location :: string
  sm_trapTarget :: string
  sm_trapVersion :: string

definition new_snmp_form :: snmp_form where
  "new_snmp_form = \<lparr>sm_enabled = False, sm_contact = [], sm_location = [], sm_trapTarget = [], sm_trapVersion = ''2''\<rparr>"

text \<open>A trap version the form does not know leaves the one that is selected.\<close>

definition load_snmp :: "SnmpSettings \<Rightarrow> snmp_form \<Rightarrow> snmp_form" where
  "load_snmp d f = \<lparr>sm_enabled = sn_enabled d, sm_contact = or_blank (sn_contact d), sm_location = or_blank (sn_location d),
     sm_trapTarget = or_blank (sn_trap_target d),
     sm_trapVersion = (if sn_trap_version d \<in> {Some ''1'', Some ''2'', Some ''3''} then the (sn_trap_version d)
       else sm_trapVersion f)\<rparr>"

definition snmp_payload :: "snmp_form \<Rightarrow> SnmpUpdate" where
  "snmp_payload f = \<lparr>su_enabled = Val (sm_enabled f), su_contact = nul (sm_contact f), su_location = nul (sm_location f),
     su_trap_target = nul (sm_trapTarget f), su_trap_version = Val (sm_trapVersion f)\<rparr>"

record SnmpCommunity =
  sc_id :: "string option"
  sc_name :: string
  sc_addresses :: "string option"
  sc_security :: "string option"
  sc_read_access :: bool
  sc_write_access :: bool
  sc_disabled :: bool

record community_form =
  cf_addresses :: string
  cf_readAccess :: bool
  cf_writeAccess :: bool
  cf_disabled :: bool

definition load_community :: "SnmpCommunity \<Rightarrow> community_form" where
  "load_community r = \<lparr>cf_addresses = or_blank (sc_addresses r), cf_readAccess = sc_read_access r,
     cf_writeAccess = sc_write_access r, cf_disabled = sc_disabled r\<rparr>"

text \<open>An empty text of addresses is sent as it is: any source.\<close>

definition community_update :: "community_form \<Rightarrow> SnmpCommunityUpdate" where
  "community_update f = \<lparr>scu_name = Undefined, scu_addresses = Val (cf_addresses f), scu_security = Undefined,
     scu_read_access = Val (cf_readAccess f), scu_write_access = Val (cf_writeAccess f), scu_disabled = Val (cf_disabled f)\<rparr>"

definition save_community :: "env \<Rightarrow> string \<Rightarrow> (SnmpCommunity, community_form) row_edit \<Rightarrow> unit call" where
  "save_community E dev s =
     (if truthy_str (sc_id (re_row s)) then updateSnmpCommunity E dev (the (sc_id (re_row s))) (community_update (re_form s))
      else ret (Inl (JsError ''missing community id'')))"

definition CommunityForm :: "string \<Rightarrow> string \<Rightarrow> bool \<Rightarrow> bool \<Rightarrow> SnmpCommunityCreate" where
  "CommunityForm name addresses readAccess writeAccess = \<lparr>scc_name = name, scc_addresses = nul addresses,
     scc_security = Undefined, scc_read_access = readAccess, scc_write_access = writeAccess\<rparr>"

definition delete_community :: "env \<Rightarrow> string \<Rightarrow> bool \<Rightarrow> SnmpCommunity \<Rightarrow> unit call option" where
  "delete_community E dev yes c =
     (if truthy_str (sc_id c) \<and> yes then Some (deleteSnmpCommunity E dev (the (sc_id c))) else None)"

section \<open>Time zone\<close>

record DeviceClock =
  dc_time :: "string option"
  dc_date :: "string option"
  dc_time_zone_name :: "string option"
  dc_time_zone_autodetect :: "bool option"
  dc_gmt_offset :: "string option"
  dc_dst_active :: "bool option"

record zone_form =
  zf_tz :: string
  zf_autodetect :: bool
  zf_touched :: bool

definition new_zone_form :: zone_form where
  "new_zone_form = \<lparr>zf_tz = [], zf_autodetect = False, zf_touched = False\<rparr>"

definition read_zone :: "DeviceClock \<Rightarrow> zone_form" where
  "read_zone d = \<lparr>zf_tz = or_blank (dc_time_zone_name d), zf_autodetect = (dc_time_zone_autodetect d = Some True),
     zf_touched = False\<rparr>"

text \<open>
  The effect leaves an edited form alone. A successful save resets \<open>touched\<close>, which runs the
  effect on the data at hand, read before the save.
\<close>

definition load_zone :: "DeviceClock \<Rightarrow> zone_form \<Rightarrow> zone_form" where
  "load_zone d f = (if zf_touched f then f else read_zone d)"

definition saved_zone :: "DeviceClock option \<Rightarrow> zone_form \<Rightarrow> zone_form" where
  "saved_zone d f = (case d of Some x \<Rightarrow> read_zone x | None \<Rightarrow> f\<lparr>zf_touched := False\<rparr>)"

definition type_zone :: "string \<Rightarrow> bool \<Rightarrow> zone_form" where
  "type_zone tz auto = \<lparr>zf_tz = tz, zf_autodetect = auto, zf_touched = True\<rparr>"

definition zone_payload :: "zone_form \<Rightarrow> DeviceClockUpdate" where
  "zone_payload f = \<lparr>dcu_time_zone_name = nul (zf_tz f), dcu_time_zone_autodetect = Val (zf_autodetect f)\<rparr>"

text \<open>
  Only the text field waits for the clock to be read: the checkbox can be ticked and the form
  saved before.
\<close>

fun zone_act :: "(DeviceClock, zone_form) form_event \<Rightarrow> (DeviceClock, zone_form) query_form \<Rightarrow> (DeviceClock, zone_form) query_form" where
  "zone_act (Typed f) s =
     (if \<not> qf_loading s \<or> zf_tz f = zf_tz (qf_form s) then s\<lparr>qf_form := f, qf_error := None\<rparr> else s)"
| "zone_act Submit s =
     (if zf_touched (qf_form s) \<and> \<not> qf_saving s
      then s\<lparr>qf_error := None, qf_saving := True, qf_sent := qf_sent s @ [(qf_data s, qf_form s)]\<rparr> else s)"
| "zone_act e s = form_act False zf_touched load_zone saved_zone e s"

section \<open>Logging\<close>

record LoggingRule =
  lr_id :: "string option"
  lr_topics :: string
  lr_action :: string
  lr_prefix :: "string option"
  lr_disabled :: bool
  lr_invalid :: bool
  lr_default :: bool

record LoggingTemplate =
  lt_key :: string
  lt_topics :: string
  lt_action :: string
  lt_prefix :: "string option"

definition LOGGING_TEMPLATES :: "LoggingTemplate list" where
  "LOGGING_TEMPLATES = [
     \<lparr>lt_key = ''firewall-drops'', lt_topics = ''firewall'', lt_action = ''memory'', lt_prefix = Some ''fw-drop''\<rparr>,
     \<lparr>lt_key = ''ssh-winbox-logins'', lt_topics = ''account,system,!debug,!packet,!info'', lt_action = ''disk'', lt_prefix = Some ''auth''\<rparr>,
     \<lparr>lt_key = ''dhcp-activity'', lt_topics = ''dhcp'', lt_action = ''memory'', lt_prefix = None\<rparr>,
     \<lparr>lt_key = ''vpn-events'', lt_topics = ''l2tp,pptp,ovpn,sstp,ipsec,wireguard'', lt_action = ''disk'', lt_prefix = Some ''vpn''\<rparr>,
     \<lparr>lt_key = ''wireguard-handshakes'', lt_topics = ''wireguard'', lt_action = ''memory'', lt_prefix = Some ''wg''\<rparr>,
     \<lparr>lt_key = ''warnings-errors-criticals'', lt_topics = ''warning,error,critical'', lt_action = ''disk'', lt_prefix = None\<rparr>,
     \<lparr>lt_key = ''ipsec-key-exchange'', lt_topics = ''ipsec'', lt_action = ''memory'', lt_prefix = Some ''ipsec''\<rparr>,
     \<lparr>lt_key = ''ospf-bgp-routing'', lt_topics = ''ospf,bgp,routing'', lt_action = ''memory'', lt_prefix = Some ''route''\<rparr>]"

definition template_rule :: "LoggingTemplate \<Rightarrow> LoggingRuleCreate" where
  "template_rule t = \<lparr>lrc_topics = lt_topics t, lrc_action = lt_action t, lrc_prefix = of_nullable (lt_prefix t),
     lrc_disabled = Val False\<rparr>"

text \<open>The buttons of a rule and of an action; the default ones have none.\<close>

definition toggle_logging :: "env \<Rightarrow> string \<Rightarrow> LoggingRule \<Rightarrow> unit call option" where
  "toggle_logging E dev r =
     (if \<not> lr_default r \<and> truthy_str (lr_id r) then Some (updateLoggingRule E dev (the (lr_id r))
        \<lparr>lru_topics = Undefined, lru_action = Undefined, lru_prefix = Undefined, lru_disabled = Val (\<not> lr_disabled r)\<rparr>)
      else None)"

definition remove_logging :: "env \<Rightarrow> string \<Rightarrow> bool \<Rightarrow> LoggingRule \<Rightarrow> unit call option" where
  "remove_logging E dev yes r =
     (if \<not> lr_default r \<and> truthy_str (lr_id r) \<and> yes then Some (deleteLoggingRule E dev (the (lr_id r))) else None)"

record LoggingAction =
  la_id :: "string option"
  la_name :: string
  la_target :: string
  la_remote :: "string option"
  la_remote_port :: "rat option"
  la_src_address :: "string option"
  la_bsd_syslog :: "bool option"
  la_syslog_facility :: "string option"
  la_syslog_severity :: "string option"
  la_memory_lines :: "rat option"
  la_disk_lines_per_file :: "rat option"
  la_disk_file_count :: "rat option"
  la_default :: bool

definition remove_action :: "env \<Rightarrow> string \<Rightarrow> bool \<Rightarrow> LoggingAction \<Rightarrow> unit call option" where
  "remove_action E dev yes a =
     (if \<not> la_default a \<and> truthy_str (la_id a) \<and> yes then Some (deleteLoggingAction E dev (the (la_id a))) else None)"

definition AddRuleForm :: "string \<Rightarrow> string \<Rightarrow> string \<Rightarrow> bool \<Rightarrow> string + LoggingRuleCreate" where
  "AddRuleForm topics act pre disabled =
     (if trim topics = [] then Inl ''Topics required''
      else Inr \<lparr>lrc_topics = topics, lrc_action = act, lrc_prefix = nul pre, lrc_disabled = Val disabled\<rparr>)"

definition AddActionForm :: "string \<Rightarrow> string \<Rightarrow> string \<Rightarrow> rat \<Rightarrow> string \<Rightarrow> bool \<Rightarrow> string + LoggingActionCreate" where
  "AddActionForm name target remote port severity bsd =
     (let only = (\<lambda>v. if target = ''remote'' then Val v else Null)
      in if trim name = [] then Inl ''Name required''
         else if target = ''remote'' \<and> trim remote = [] then Inl ''Remote syslog server required''
         else Inr \<lparr>lac_name = name, lac_target = target, lac_remote = only remote,
           lac_remote_port = (if target = ''remote'' then Val port else Null), lac_src_address = Undefined,
           lac_bsd_syslog = (if target = ''remote'' then Val bsd else Null), lac_syslog_facility = Undefined,
           lac_syslog_severity = only severity, lac_memory_lines = Undefined\<rparr>)"

section \<open>The forms over their queries\<close>

abbreviation plain_act :: "('d \<Rightarrow> 'f \<Rightarrow> 'f) \<Rightarrow> ('d, 'f) form_event \<Rightarrow> ('d, 'f) query_form \<Rightarrow> ('d, 'f) query_form" where
  "plain_act load \<equiv> form_act False (\<lambda>_. True) load (\<lambda>_ f. f)"

definition proper_ntp :: "NtpClient \<Rightarrow> bool" where
  "proper_ntp d \<longleftrightarrow> truthy_str (nc_mode d) \<and> truthy_str (nc_servers d)"

definition current_ntp :: "NtpClient \<Rightarrow> NtpUpdate" where
  "current_ntp d = \<lparr>nu_enabled = Val (nc_enabled d), nu_mode = of_nullable (nc_mode d), nu_servers = of_nullable (nc_servers d),
     nu_primary = Undefined, nu_secondary = Undefined\<rparr>"

lemma truthy_str_iff: "truthy_str v \<longleftrightarrow> (\<exists>t. v = Some t \<and> t \<noteq> [])"
  by (cases v) auto

interpretation ntp: reloading_form False "\<lambda>_. True" load_ntp "\<lambda>_ f. f" ntp_payload current_ntp proper_ntp
  by unfold_locales
    (auto simp: proper_ntp_def current_ntp_def ntp_payload_def load_ntp_def truthy_str_iff or_null_def)

definition proper_snmp :: "SnmpSettings \<Rightarrow> bool" where
  "proper_snmp d \<longleftrightarrow> no_blank (sn_contact d) \<and> no_blank (sn_location d) \<and> no_blank (sn_trap_target d) \<and>
     sn_trap_version d \<in> {Some ''1'', Some ''2'', Some ''3''}"

definition current_snmp :: "SnmpSettings \<Rightarrow> SnmpUpdate" where
  "current_snmp d = \<lparr>su_enabled = Val (sn_enabled d), su_contact = of_nullable (sn_contact d),
     su_location = of_nullable (sn_location d), su_trap_target = of_nullable (sn_trap_target d),
     su_trap_version = of_nullable (sn_trap_version d)\<rparr>"

interpretation snmp: reloading_form False "\<lambda>_. True" load_snmp "\<lambda>_ f. f" snmp_payload current_snmp proper_snmp
  by unfold_locales
    (auto simp: proper_snmp_def current_snmp_def snmp_payload_def load_snmp_def nul_or_blank)

definition proper_ntp_server :: "NtpServer \<Rightarrow> bool" where
  "proper_ntp_server d \<longleftrightarrow> ns_broadcast d \<noteq> None \<and> ns_multicast d \<noteq> None \<and> ns_manycast d \<noteq> None"

definition current_ntp_server :: "NtpServer \<Rightarrow> NtpServerUpdate" where
  "current_ntp_server d = \<lparr>nsu_enabled = Val (ns_enabled d), nsu_broadcast = of_nullable (ns_broadcast d),
     nsu_multicast = of_nullable (ns_multicast d), nsu_manycast = of_nullable (ns_manycast d)\<rparr>"

interpretation ntp_server: reloading_form False "\<lambda>_. True" load_ntp_server "\<lambda>_ f. f" ntp_server_payload
  current_ntp_server proper_ntp_server
  by unfold_locales
    (auto simp: proper_ntp_server_def current_ntp_server_def ntp_server_payload_def load_ntp_server_def)

definition current_community :: "SnmpCommunity \<Rightarrow> SnmpCommunityUpdate" where
  "current_community r = \<lparr>scu_name = Undefined, scu_addresses = Val (or_blank (sc_addresses r)), scu_security = Undefined,
     scu_read_access = Val (sc_read_access r), scu_write_access = Val (sc_write_access r), scu_disabled = Val (sc_disabled r)\<rparr>"

interpretation community_row: row_editor sc_id load_community community_update current_community "\<lambda>_. True"
  by unfold_locales (simp add: load_community_def community_update_def current_community_def)

text \<open>
  Saving the NTP, SNMP or NTP server form, or a community, in which nothing was typed asks for
  the values that were read, whatever was in the fields before: the settings of the device stay
  as they are.
\<close>

theorem device_forms_untouched:
  assumes "proper_ntp n" "qf_data s \<noteq> Some n" "\<not> qf_saving s"
    and "proper_snmp m" "qf_data t \<noteq> Some m" "\<not> qf_saving t"
    and "proper_ntp_server v" "qf_data u \<noteq> Some v" "\<not> qf_saving u"
    and "\<not> re_editing w" "truthy_str (sc_id (re_row w))"
  shows "map_prod id ntp_payload (last (qf_sent (fold (plain_act load_ntp) [Fetched n, Submit] s))) = (Some n, current_ntp n) \<and>
    map_prod id snmp_payload (last (qf_sent (fold (plain_act load_snmp) [Fetched m, Submit] t))) = (Some m, current_snmp m) \<and>
    map_prod id ntp_server_payload (last (qf_sent (fold (plain_act load_ntp_server) [Fetched v, Submit] u))) =
      (Some v, current_ntp_server v) \<and>
    community_update (re_form (fold (act_row sc_id load_community) (StartEditing # map Refetch rs) w)) =
      current_community (re_row w)"
  using ntp.untouched [OF assms(1-3)] snmp.untouched [OF assms(4-6)] ntp_server.untouched [OF assms(7-9)]
    community_row.untouched [OF assms(10) TrueI assms(11)]
  by (simp add: Let_def)

text \<open>
  When the settings could not be read, these forms are there all the same, filled with the
  values they start with, and saving sends those: SNMP off and its contact, location and trap
  target cleared, the NTP client on with no servers, the NTP server off.
\<close>

theorem unread_settings_overwritten:
  "(None, new_snmp_form) \<in> set (qf_sent (fold (plain_act load_snmp) [FetchFailed, Submit] (form_start new_snmp_form))) \<and>
   snmp_payload new_snmp_form = \<lparr>su_enabled = Val False, su_contact = Null, su_location = Null, su_trap_target = Null,
     su_trap_version = Val ''2''\<rparr> \<and>
   (None, new_ntp_form) \<in> set (qf_sent (fold (plain_act load_ntp) [FetchFailed, Submit] (form_start new_ntp_form))) \<and>
   nu_servers (ntp_payload new_ntp_form) = Null \<and>
   (None, new_ntp_server_form) \<in>
     set (qf_sent (fold (plain_act load_ntp_server) [FetchFailed, Submit] (form_start new_ntp_server_form))) \<and>
   nsu_enabled (ntp_server_payload new_ntp_server_form) = Val False"
  by (intro conjI unread_defaults_sent TrueI)
    (simp_all add: snmp_payload_def new_snmp_form_def ntp_payload_def new_ntp_form_def ntp_server_payload_def
      new_ntp_server_form_def or_null_def)

section \<open>The time zone\<close>

lemma zone_fetches_keep:
  assumes "zf_touched (qf_form s)"
  shows "qf_form (fold zone_act (map Fetched ds) s) = qf_form s"
  using assms by (induction ds arbitrary: s) (auto simp: load_zone_def)

text \<open>
  The time zone form is the one that guards what was typed: no refetch changes an edited form,
  and the button sends exactly what was typed. But a save that succeeds puts the fields back
  to the zone read before it, and drops what was typed while it was under way.
\<close>

theorem zone_form_guarded:
  assumes "\<not> qf_loading s" "\<not> qf_saving s" "qf_data s = Some d"
  shows "qf_form (fold zone_act (Typed (type_zone tz b) # map Fetched ds) s) = type_zone tz b \<and>
    snd (last (qf_sent (fold zone_act [Typed (type_zone tz b), Submit] s))) = type_zone tz b \<and>
    qf_form (fold zone_act [Typed (type_zone tz b), Submit, Typed (type_zone tz' b'), SaveOk] s) = read_zone d"
  using assms zone_fetches_keep [of "s\<lparr>qf_form := type_zone tz b, qf_error := None\<rparr>" ds]
  by (simp add: form_shown_def type_zone_def saved_zone_def)

text \<open>
  Ticking the checkbox before the clock is read keeps the answer out of the form: the zone
  stays empty in it, and saving asks for no zone.
\<close>

lemma early_tick_clears_zone:
  "zone_payload (qf_form (fold zone_act [Typed (type_zone [] b), Fetched d] (form_start new_zone_form))) =
     \<lparr>dcu_time_zone_name = Null, dcu_time_zone_autodetect = Val b\<rparr>"
  by (simp add: form_start_def new_zone_form_def type_zone_def load_zone_def zone_payload_def or_null_def)

section \<open>Tabs and names\<close>

text \<open>
  The page opens a tab the device has, whatever the link asks for, unless the driver has none
  of the five: then the bar is empty and the section that was asked for is shown all the same.
\<close>

theorem system_tab_supported:
  "(shown_tabs caps SYSTEM_TABS \<noteq> [] \<longrightarrow> system_tab caps raw \<in> fst ` set (shown_tabs caps SYSTEM_TABS)) \<and>
   (shown_tabs caps SYSTEM_TABS = [] \<longrightarrow> isTabId (Some r) \<longrightarrow> system_tab caps (Some r) = r)"
  by (simp add: system_tab_def active_tab_shown) (simp add: active_tab_def)

text \<open>A device whose name begins or ends with a blank cannot be rebooted from here.\<close>

lemma padded_name_never_armed: "trim name \<noteq> name \<Longrightarrow> \<not> reboot_armed (Some name) confirmText"
  using trim_idem [of confirmText] by (auto simp: reboot_armed_def)

lemma template_keys_distinct: "distinct (map lt_key LOGGING_TEMPLATES)"
  by (simp add: LOGGING_TEMPLATES_def)

section \<open>Witnesses\<close>

definition demo_ntp :: NtpClient where
  "demo_ntp = \<lparr>nc_provider = None, nc_synchronized = None, nc_server_name = None, nc_server_address = None, nc_enabled = True,
     nc_mode = Some ''unicast'', nc_servers = Some ''pool.ntp.org'', nc_primary = None, nc_secondary = None\<rparr>"

definition demo_snmp :: SnmpSettings where
  "demo_snmp = \<lparr>sn_enabled = True, sn_contact = Some ''noc'', sn_location = None, sn_trap_target = None,
     sn_trap_version = Some ''2'', sn_engine_id = None\<rparr>"

definition demo_ntp_server :: NtpServer where
  "demo_ntp_server = \<lparr>ns_enabled = False, ns_broadcast = Some False, ns_multicast = Some False, ns_manycast = Some False,
     ns_auth_key = None\<rparr>"

definition demo_community :: SnmpCommunity where
  "demo_community = \<lparr>sc_id = Some ''*0'', sc_name = ''public'', sc_addresses = None, sc_security = None,
     sc_read_access = True, sc_write_access = False, sc_disabled = False\<rparr>"

definition demo_clock :: DeviceClock where
  "demo_clock = \<lparr>dc_time = None, dc_date = None, dc_time_zone_name = Some ''UTC'', dc_time_zone_autodetect = Some False,
     dc_gmt_offset = None, dc_dst_active = None\<rparr>"

theorem device_forms_untouched_witness:
  "map_prod id snmp_payload (last (qf_sent (fold (plain_act load_snmp) [Fetched demo_snmp, Submit] (form_start new_snmp_form)))) =
     (Some demo_snmp, current_snmp demo_snmp)"
proof -
  have 1: "proper_ntp demo_ntp" "proper_snmp demo_snmp" "proper_ntp_server demo_ntp_server"
    by (simp_all add: proper_ntp_def proper_snmp_def proper_ntp_server_def no_blank_def demo_ntp_def demo_snmp_def demo_ntp_server_def)
  have 2: "qf_data (form_start f) \<noteq> Some x" "\<not> qf_saving (form_start f)" for f x by (simp_all add: form_start_def)
  have 3: "\<not> re_editing (mount_row load_community demo_community)"
    "truthy_str (sc_id (re_row (mount_row load_community demo_community)))"
    by (simp_all add: mount_row_def demo_community_def)
  from device_forms_untouched [OF 1(1) 2 1(2) 2 1(3) 2 3] show ?thesis by blast
qed

theorem zone_form_guarded_witness:
  "qf_form (fold zone_act [Typed (type_zone ''Asia/Tbilisi'' False), Submit, Typed (type_zone ''Asia/Dubai'' False), SaveOk]
     (zone_act (Fetched demo_clock) (form_start new_zone_form))) = read_zone demo_clock"
proof -
  let ?s = "zone_act (Fetched demo_clock) (form_start new_zone_form)"
  have "\<not> qf_loading ?s" "\<not> qf_saving ?s" "qf_data ?s = Some demo_clock" by (simp_all add: form_start_def)
  from zone_form_guarded [OF this, of "''Asia/Tbilisi''" False "[]" "''Asia/Dubai''" False] show ?thesis by blast
qed

end
