(* ===== verification/Settings_Page.thy ===== *)
theory Settings_Page
  imports Settings_Form Admin_Api Format Toast
begin

text \<open>
  The organisation settings (\<open>settings/page.tsx\<close>): the tab kept in the session storage, the
  forms for sign-in providers, mail, SMS and the external addresses over the queries they load
  from, the SMS presets, the test buttons, and the system backups. A secret is never read back:
  it is in the draft only when it was typed, and a flag says whether it is to be sent.
\<close>

section \<open>Tabs\<close>

definition SETTINGS_TABS :: "string list" where
  "SETTINGS_TABS = [''general'', ''authorization'', ''email'', ''sms'', ''backups'']"

record settings_tab =
  st_tab :: string
  st_stored :: "string option"

text \<open>
  Mounting runs both effects: the first reads the stored tab before the second writes the
  initial one, and the render that follows writes the restored tab.
\<close>

definition mount_settings :: "string option \<Rightarrow> settings_tab" where
  "mount_settings stored =
     (let t = (case stored of Some v \<Rightarrow> if v \<noteq> [] \<and> v \<in> set SETTINGS_TABS then v else ''general'' | None \<Rightarrow> ''general'')
      in \<lparr>st_tab = t, st_stored = Some t\<rparr>)"

definition pick_settings_tab :: "string \<Rightarrow> settings_tab \<Rightarrow> settings_tab" where
  "pick_settings_tab t s = (if t \<in> set SETTINGS_TABS then \<lparr>st_tab = t, st_stored = Some t\<rparr> else s)"

section \<open>Drafts\<close>

text \<open>An empty text of a nullable field is sent as null; a field that is not there stays away.\<close>

definition null_blank :: "string jopt \<Rightarrow> string jopt" where
  "null_blank v = (if v = Val [] then Null else v)"

text \<open>\<open>delete payload.k\<close> unless the field was touched.\<close>

definition if_touched :: "bool \<Rightarrow> 'a jopt \<Rightarrow> 'a jopt" where
  "if_touched t v = (if t then v else Undefined)"

record 'u secret_draft =
  sd_draft :: 'u
  sd_touched :: bool

subsection \<open>Mail\<close>

record SmtpSettings =
  ss_smtp_enabled :: bool
  ss_smtp_host :: "string option"
  ss_smtp_port :: rat
  ss_smtp_username :: "string option"
  ss_smtp_from_email :: "string option"
  ss_smtp_from_name :: "string option"
  ss_smtp_use_tls :: bool
  ss_smtp_use_starttls :: bool
  ss_has_smtp_password :: bool

definition new_smtp :: "SmtpSettingsUpdate secret_draft" where
  "new_smtp = \<lparr>sd_draft = \<lparr>ssu_smtp_enabled = Undefined, ssu_smtp_host = Undefined, ssu_smtp_port = Undefined,
       ssu_smtp_username = Undefined, ssu_smtp_password = Undefined, ssu_smtp_from_email = Undefined,
       ssu_smtp_from_name = Undefined, ssu_smtp_use_tls = Undefined, ssu_smtp_use_starttls = Undefined\<rparr>, sd_touched = False\<rparr>"

definition load_smtp :: "SmtpSettings \<Rightarrow> SmtpSettingsUpdate secret_draft \<Rightarrow> SmtpSettingsUpdate secret_draft" where
  "load_smtp d f = \<lparr>sd_draft = \<lparr>ssu_smtp_enabled = Val (ss_smtp_enabled d), ssu_smtp_host = Val (or_blank (ss_smtp_host d)),
       ssu_smtp_port = Val (ss_smtp_port d), ssu_smtp_username = Val (or_blank (ss_smtp_username d)),
       ssu_smtp_password = Undefined, ssu_smtp_from_email = Val (or_blank (ss_smtp_from_email d)),
       ssu_smtp_from_name = Val (or_blank (ss_smtp_from_name d)), ssu_smtp_use_tls = Val (ss_smtp_use_tls d),
       ssu_smtp_use_starttls = Val (ss_smtp_use_starttls d)\<rparr>, sd_touched = False\<rparr>"

datatype smtp_edit =
  SmtpEnabled bool | SmtpHost string | SmtpPort rat | SmtpUsername string | SmtpPassword string
  | SmtpFromEmail string | SmtpFromName string | SmtpStarttls bool | SmtpTls bool

fun smtp_field :: "smtp_edit \<Rightarrow> SmtpSettingsUpdate \<Rightarrow> SmtpSettingsUpdate" where
  "smtp_field (SmtpEnabled b) d = d\<lparr>ssu_smtp_enabled := Val b\<rparr>"
| "smtp_field (SmtpHost v) d = d\<lparr>ssu_smtp_host := Val v\<rparr>"
| "smtp_field (SmtpPort n) d = d\<lparr>ssu_smtp_port := Val n\<rparr>"
| "smtp_field (SmtpUsername v) d = d\<lparr>ssu_smtp_username := Val v\<rparr>"
| "smtp_field (SmtpPassword v) d = d\<lparr>ssu_smtp_password := Val v\<rparr>"
| "smtp_field (SmtpFromEmail v) d = d\<lparr>ssu_smtp_from_email := Val v\<rparr>"
| "smtp_field (SmtpFromName v) d = d\<lparr>ssu_smtp_from_name := Val v\<rparr>"
| "smtp_field (SmtpStarttls b) d = d\<lparr>ssu_smtp_use_starttls := Val b\<rparr>"
| "smtp_field (SmtpTls b) d = d\<lparr>ssu_smtp_use_tls := Val b\<rparr>"

fun smtp_secret :: "smtp_edit \<Rightarrow> string option" where
  "smtp_secret (SmtpPassword v) = Some v"
| "smtp_secret _ = None"

definition edit_smtp :: "smtp_edit \<Rightarrow> SmtpSettingsUpdate secret_draft \<Rightarrow> SmtpSettingsUpdate secret_draft" where
  "edit_smtp e f = f\<lparr>sd_draft := smtp_field e (sd_draft f), sd_touched := (sd_touched f \<or> smtp_secret e \<noteq> None)\<rparr>"

definition smtp_payload :: "SmtpSettingsUpdate secret_draft \<Rightarrow> SmtpSettingsUpdate" where
  "smtp_payload f = (let d = sd_draft f in
     d\<lparr>ssu_smtp_password := if_touched (sd_touched f) (ssu_smtp_password d), ssu_smtp_host := null_blank (ssu_smtp_host d),
       ssu_smtp_username := null_blank (ssu_smtp_username d), ssu_smtp_from_email := null_blank (ssu_smtp_from_email d),
       ssu_smtp_from_name := null_blank (ssu_smtp_from_name d)\<rparr>)"

definition untouch :: "'u secret_draft \<Rightarrow> 'u secret_draft" where
  "untouch f = f\<lparr>sd_touched := False\<rparr>"

definition save_smtp :: "env \<Rightarrow> SmtpSettingsUpdate secret_draft \<Rightarrow> json call" where
  "save_smtp E f = updateSmtpSettings E (smtp_payload f)"

definition test_smtp :: "env \<Rightarrow> bool \<Rightarrow> string \<Rightarrow> json call option" where
  "test_smtp E pending to = (if pending \<or> to = [] then None else Some (testSmtp E to))"

definition smtp_tested :: "bool \<Rightarrow> string option \<Rightarrow> string \<Rightarrow> toasts \<Rightarrow> toasts" where
  "smtp_tested ok err to =
     (if ok then push Success ''Test email sent'' (Some (''Check '' @ to))
      else push ErrorToast ''Test failed'' (Some (case err of Some m \<Rightarrow> m | None \<Rightarrow> ''unknown error'')))"

subsection \<open>SMS\<close>

record SmsSettings =
  ss_sms_enabled :: bool
  ss_sms_provider :: string
  ss_sms_api_url :: "string option"
  ss_sms_http_method :: string
  ss_sms_body_format :: string
  ss_sms_body_template :: "string option"
  ss_sms_auth_header_name :: "string option"
  ss_sms_auth_header_value_template :: "string option"
  ss_sms_sender :: "string option"
  ss_sms_success_status_min :: rat
  ss_sms_success_status_max :: rat
  ss_sms_success_body_contains :: "string option"
  ss_sms_timeout_seconds :: rat
  ss_has_sms_api_key :: bool
  ss_sms_last_test_at :: "string option"
  ss_sms_last_test_ok :: "bool option"
  ss_sms_last_test_message :: "string option"

definition new_sms :: "SmsSettingsUpdate secret_draft" where
  "new_sms = \<lparr>sd_draft = \<lparr>ssu_sms_enabled = Undefined, ssu_sms_provider = Undefined, ssu_sms_api_url = Undefined,
       ssu_sms_http_method = Undefined, ssu_sms_body_format = Undefined, ssu_sms_body_template = Undefined,
       ssu_sms_auth_header_name = Undefined, ssu_sms_auth_header_value_template = Undefined, ssu_sms_api_key = Undefined,
       ssu_sms_sender = Undefined, ssu_sms_success_status_min = Undefined, ssu_sms_success_status_max = Undefined,
       ssu_sms_success_body_contains = Undefined, ssu_sms_timeout_seconds = Undefined\<rparr>, sd_touched = False\<rparr>"

definition load_sms :: "SmsSettings \<Rightarrow> SmsSettingsUpdate secret_draft \<Rightarrow> SmsSettingsUpdate secret_draft" where
  "load_sms d f = \<lparr>sd_draft = \<lparr>ssu_sms_enabled = Val (ss_sms_enabled d), ssu_sms_provider = Val (ss_sms_provider d),
       ssu_sms_api_url = Val (or_blank (ss_sms_api_url d)), ssu_sms_http_method = Val (ss_sms_http_method d),
       ssu_sms_body_format = Val (ss_sms_body_format d), ssu_sms_body_template = Val (or_blank (ss_sms_body_template d)),
       ssu_sms_auth_header_name = Val (or_blank (ss_sms_auth_header_name d)),
       ssu_sms_auth_header_value_template = Val (or_blank (ss_sms_auth_header_value_template d)), ssu_sms_api_key = Undefined,
       ssu_sms_sender = Val (or_blank (ss_sms_sender d)), ssu_sms_success_status_min = Val (ss_sms_success_status_min d),
       ssu_sms_success_status_max = Val (ss_sms_success_status_max d),
       ssu_sms_success_body_contains = Val (or_blank (ss_sms_success_body_contains d)),
       ssu_sms_timeout_seconds = Val (ss_sms_timeout_seconds d)\<rparr>, sd_touched = False\<rparr>"

record SmsProviderPreset =
  sp_key :: string
  sp_label :: string
  sp_api_url :: string
  sp_http_method :: string
  sp_body_format :: string
  sp_body_template :: string
  sp_auth_header_name :: "string option"
  sp_auth_header_value_template :: "string option"
  sp_success_status_min :: rat
  sp_success_status_max :: rat
  sp_success_body_contains :: "string option"
  sp_notes :: "string option"

text \<open>A preset the list does not have, or none read yet, changes nothing.\<close>

definition applyPreset :: "SmsProviderPreset list option \<Rightarrow> string \<Rightarrow> SmsSettingsUpdate \<Rightarrow> SmsSettingsUpdate" where
  "applyPreset presets key d =
     (case presets of None \<Rightarrow> d
      | Some ps \<Rightarrow> (case find (\<lambda>p. sp_key p = key) ps of None \<Rightarrow> d
        | Some p \<Rightarrow> d\<lparr>ssu_sms_provider := Val (sp_key p), ssu_sms_api_url := Val (sp_api_url p),
            ssu_sms_http_method := Val (sp_http_method p), ssu_sms_body_format := Val (sp_body_format p),
            ssu_sms_body_template := Val (sp_body_template p),
            ssu_sms_auth_header_name := Val (or_blank (sp_auth_header_name p)),
            ssu_sms_auth_header_value_template := Val (or_blank (sp_auth_header_value_template p)),
            ssu_sms_success_status_min := Val (sp_success_status_min p),
            ssu_sms_success_status_max := Val (sp_success_status_max p),
            ssu_sms_success_body_contains := Val (or_blank (sp_success_body_contains p))\<rparr>))"

datatype sms_edit =
  SmsEnabled bool | SmsPreset string | SmsSender string | SmsUrl string | SmsKey string | SmsMethod string | SmsFormat string
  | SmsTemplate string | SmsHeaderName string | SmsHeaderValue string | SmsStatusMin rat | SmsStatusMax rat
  | SmsBodyContains string | SmsTimeout rat

fun sms_field :: "SmsProviderPreset list option \<Rightarrow> sms_edit \<Rightarrow> SmsSettingsUpdate \<Rightarrow> SmsSettingsUpdate" where
  "sms_field ps (SmsEnabled b) d = d\<lparr>ssu_sms_enabled := Val b\<rparr>"
| "sms_field ps (SmsPreset k) d = applyPreset ps k d"
| "sms_field ps (SmsSender v) d = d\<lparr>ssu_sms_sender := Val v\<rparr>"
| "sms_field ps (SmsUrl v) d = d\<lparr>ssu_sms_api_url := Val v\<rparr>"
| "sms_field ps (SmsKey v) d = d\<lparr>ssu_sms_api_key := Val v\<rparr>"
| "sms_field ps (SmsMethod v) d = d\<lparr>ssu_sms_http_method := Val v\<rparr>"
| "sms_field ps (SmsFormat v) d = d\<lparr>ssu_sms_body_format := Val v\<rparr>"
| "sms_field ps (SmsTemplate v) d = d\<lparr>ssu_sms_body_template := Val v\<rparr>"
| "sms_field ps (SmsHeaderName v) d = d\<lparr>ssu_sms_auth_header_name := Val v\<rparr>"
| "sms_field ps (SmsHeaderValue v) d = d\<lparr>ssu_sms_auth_header_value_template := Val v\<rparr>"
| "sms_field ps (SmsStatusMin n) d = d\<lparr>ssu_sms_success_status_min := Val n\<rparr>"
| "sms_field ps (SmsStatusMax n) d = d\<lparr>ssu_sms_success_status_max := Val n\<rparr>"
| "sms_field ps (SmsBodyContains v) d = d\<lparr>ssu_sms_success_body_contains := Val v\<rparr>"
| "sms_field ps (SmsTimeout n) d = d\<lparr>ssu_sms_timeout_seconds := Val n\<rparr>"

fun sms_secret :: "sms_edit \<Rightarrow> string option" where
  "sms_secret (SmsKey v) = Some v"
| "sms_secret _ = None"

definition edit_sms :: "SmsProviderPreset list option \<Rightarrow> sms_edit \<Rightarrow> SmsSettingsUpdate secret_draft \<Rightarrow> SmsSettingsUpdate secret_draft" where
  "edit_sms ps e f = f\<lparr>sd_draft := sms_field ps e (sd_draft f), sd_touched := (sd_touched f \<or> sms_secret e \<noteq> None)\<rparr>"

definition sms_payload :: "SmsSettingsUpdate secret_draft \<Rightarrow> SmsSettingsUpdate" where
  "sms_payload f = (let d = sd_draft f in
     d\<lparr>ssu_sms_api_key := if_touched (sd_touched f) (ssu_sms_api_key d), ssu_sms_api_url := null_blank (ssu_sms_api_url d),
       ssu_sms_body_template := null_blank (ssu_sms_body_template d),
       ssu_sms_auth_header_name := null_blank (ssu_sms_auth_header_name d),
       ssu_sms_auth_header_value_template := null_blank (ssu_sms_auth_header_value_template d),
       ssu_sms_sender := null_blank (ssu_sms_sender d),
       ssu_sms_success_body_contains := null_blank (ssu_sms_success_body_contains d)\<rparr>)"

definition save_sms :: "env \<Rightarrow> SmsSettingsUpdate secret_draft \<Rightarrow> json call" where
  "save_sms E f = updateSmsSettings E (sms_payload f)"

definition test_sms :: "env \<Rightarrow> bool \<Rightarrow> string \<Rightarrow> string \<Rightarrow> json call option" where
  "test_sms E pending to txt = (if pending \<or> to = [] then None else Some (testSms E to txt))"

definition sms_tested :: "bool \<Rightarrow> int option \<Rightarrow> string option \<Rightarrow> toasts \<Rightarrow> toasts" where
  "sms_tested ok http_status err =
     (let http = ''HTTP '' @ (case http_status of Some n \<Rightarrow> show_int n | None \<Rightarrow> ''?'')
      in if ok then push Success ''Test SMS sent'' (Some http)
         else push ErrorToast ''Test SMS failed'' (Some (case err of Some m \<Rightarrow> m | None \<Rightarrow> http)))"

subsection \<open>Sign-in providers\<close>

record AuthSettings =
  au_microsoft_oidc_enabled :: bool
  au_microsoft_oidc_tenant_id :: "string option"
  au_microsoft_oidc_client_id :: "string option"
  au_has_microsoft_oidc_client_secret :: bool
  au_google_oidc_enabled :: bool
  au_google_oidc_client_id :: "string option"
  au_has_google_oidc_client_secret :: bool
  au_mfa_totp_enabled :: bool
  au_mfa_sms_otp_enabled :: bool
  au_mfa_email_otp_enabled :: bool
  au_microsoft_redirect_uri :: string
  au_google_redirect_uri :: string

record auth_draft =
  ad_draft :: AuthSettingsUpdate
  ad_msSecretTouched :: bool
  ad_googleSecretTouched :: bool

definition new_auth :: auth_draft where
  "new_auth = \<lparr>ad_draft = \<lparr>asu_microsoft_oidc_enabled = Undefined, asu_microsoft_oidc_tenant_id = Undefined,
       asu_microsoft_oidc_client_id = Undefined, asu_microsoft_oidc_client_secret = Undefined,
       asu_google_oidc_enabled = Undefined, asu_google_oidc_client_id = Undefined, asu_google_oidc_client_secret = Undefined,
       asu_mfa_totp_enabled = Undefined, asu_mfa_sms_otp_enabled = Undefined, asu_mfa_email_otp_enabled = Undefined\<rparr>,
     ad_msSecretTouched = False, ad_googleSecretTouched = False\<rparr>"

definition load_auth :: "AuthSettings \<Rightarrow> auth_draft \<Rightarrow> auth_draft" where
  "load_auth d f = \<lparr>ad_draft = \<lparr>asu_microsoft_oidc_enabled = Val (au_microsoft_oidc_enabled d),
       asu_microsoft_oidc_tenant_id = Val (or_blank (au_microsoft_oidc_tenant_id d)),
       asu_microsoft_oidc_client_id = Val (or_blank (au_microsoft_oidc_client_id d)), asu_microsoft_oidc_client_secret = Undefined,
       asu_google_oidc_enabled = Val (au_google_oidc_enabled d),
       asu_google_oidc_client_id = Val (or_blank (au_google_oidc_client_id d)), asu_google_oidc_client_secret = Undefined,
       asu_mfa_totp_enabled = Val (au_mfa_totp_enabled d), asu_mfa_sms_otp_enabled = Val (au_mfa_sms_otp_enabled d),
       asu_mfa_email_otp_enabled = Val (au_mfa_email_otp_enabled d)\<rparr>, ad_msSecretTouched = False, ad_googleSecretTouched = False\<rparr>"

datatype auth_edit =
  MsEnabled bool | MsTenant string | MsClient string | MsSecret string | GoogleEnabled bool | GoogleClient string
  | GoogleSecret string | MfaTotp bool | MfaEmail bool | MfaSms bool

fun auth_field :: "auth_edit \<Rightarrow> AuthSettingsUpdate \<Rightarrow> AuthSettingsUpdate" where
  "auth_field (MsEnabled b) d = d\<lparr>asu_microsoft_oidc_enabled := Val b\<rparr>"
| "auth_field (MsTenant v) d = d\<lparr>asu_microsoft_oidc_tenant_id := Val v\<rparr>"
| "auth_field (MsClient v) d = d\<lparr>asu_microsoft_oidc_client_id := Val v\<rparr>"
| "auth_field (MsSecret v) d = d\<lparr>asu_microsoft_oidc_client_secret := Val v\<rparr>"
| "auth_field (GoogleEnabled b) d = d\<lparr>asu_google_oidc_enabled := Val b\<rparr>"
| "auth_field (GoogleClient v) d = d\<lparr>asu_google_oidc_client_id := Val v\<rparr>"
| "auth_field (GoogleSecret v) d = d\<lparr>asu_google_oidc_client_secret := Val v\<rparr>"
| "auth_field (MfaTotp b) d = d\<lparr>asu_mfa_totp_enabled := Val b\<rparr>"
| "auth_field (MfaEmail b) d = d\<lparr>asu_mfa_email_otp_enabled := Val b\<rparr>"
| "auth_field (MfaSms b) d = d\<lparr>asu_mfa_sms_otp_enabled := Val b\<rparr>"

fun ms_secret :: "auth_edit \<Rightarrow> string option" where
  "ms_secret (MsSecret v) = Some v"
| "ms_secret _ = None"

fun google_secret :: "auth_edit \<Rightarrow> string option" where
  "google_secret (GoogleSecret v) = Some v"
| "google_secret _ = None"

definition edit_auth :: "auth_edit \<Rightarrow> auth_draft \<Rightarrow> auth_draft" where
  "edit_auth e f = \<lparr>ad_draft = auth_field e (ad_draft f),
     ad_msSecretTouched = (ad_msSecretTouched f \<or> ms_secret e \<noteq> None),
     ad_googleSecretTouched = (ad_googleSecretTouched f \<or> google_secret e \<noteq> None)\<rparr>"

definition auth_payload :: "auth_draft \<Rightarrow> AuthSettingsUpdate" where
  "auth_payload f = (let d = ad_draft f in
     d\<lparr>asu_microsoft_oidc_client_secret := if_touched (ad_msSecretTouched f) (asu_microsoft_oidc_client_secret d),
       asu_google_oidc_client_secret := if_touched (ad_googleSecretTouched f) (asu_google_oidc_client_secret d),
       asu_microsoft_oidc_tenant_id := null_blank (asu_microsoft_oidc_tenant_id d),
       asu_microsoft_oidc_client_id := null_blank (asu_microsoft_oidc_client_id d),
       asu_google_oidc_client_id := null_blank (asu_google_oidc_client_id d)\<rparr>)"

definition untouch_auth :: "auth_draft \<Rightarrow> auth_draft" where
  "untouch_auth f = f\<lparr>ad_msSecretTouched := False, ad_googleSecretTouched := False\<rparr>"

definition save_auth :: "env \<Rightarrow> auth_draft \<Rightarrow> json call" where
  "save_auth E f = updateAuthSettings E (auth_payload f)"

section \<open>External addresses\<close>

definition comma_parts :: "string \<Rightarrow> string list" where
  "comma_parts s = filter (\<lambda>p. p \<noteq> []) (map trim (split CHR '','' s))"

definition load_org :: "OrgInfo \<Rightarrow> string list \<Rightarrow> string list" where
  "load_org d rows = (let parts = comma_parts (or_blank (oi_netfleet_external_ips d)) in if parts \<noteq> [] then parts else [[]])"

definition org_payload :: "string list \<Rightarrow> OrgInfo" where
  "org_payload rows = \<lparr>oi_netfleet_external_ips = or_null (join '','' (filter (\<lambda>r. r \<noteq> []) (map trim rows)))\<rparr>"

datatype row_event = RowTyped nat string | RowRemoved nat | RowAdded

fun edit_rows :: "row_event \<Rightarrow> string list \<Rightarrow> string list" where
  "edit_rows (RowTyped i v) rows = rows[i := v]"
| "edit_rows (RowRemoved i) rows = (if length rows = 1 then [[]] else take i rows @ drop (Suc i) rows)"
| "edit_rows RowAdded rows = rows @ [[]]"

definition save_org :: "env \<Rightarrow> string list \<Rightarrow> json call" where
  "save_org E rows = updateOrgInfo E (org_payload rows)"

section \<open>System backups\<close>

definition permission_hint :: "string \<Rightarrow> bool" where
  "permission_hint msg \<longleftrightarrow> str_includes msg ''Permission denied'' \<or> str_includes msg ''Errno 13''"

definition create_backup :: "env \<Rightarrow> bool \<Rightarrow> json call option" where
  "create_backup E pending = (if pending then None else Some (createSystemBackup E))"

definition download_backup :: "env \<Rightarrow> string \<Rightarrow> (string \<times> string) call" where
  "download_backup E filename =
     downloadAuthed E (''/api/v1/settings/system-backup/'' @ encodeURIComponent filename) filename"

definition delete_backup :: "env \<Rightarrow> bool \<Rightarrow> string \<Rightarrow> unit call option" where
  "delete_backup E yes filename = (if yes then Some (deleteSystemBackup E filename) else None)"

definition formatSize_settings :: "rat \<Rightarrow> string" where
  "formatSize_settings x = fixed_unit x"

section \<open>Secrets are sent only when typed\<close>

text \<open>The secret that the last of a list of edits typed, if any did.\<close>

fun typed_secret :: "('e \<Rightarrow> string option) \<Rightarrow> 'e list \<Rightarrow> string jopt" where
  "typed_secret sec [] = Undefined"
| "typed_secret sec (e # es) =
     (case typed_secret sec es of Undefined \<Rightarrow> (case sec e of None \<Rightarrow> Undefined | Some v \<Rightarrow> Val v) | w \<Rightarrow> w)"

lemma typed_secret_snoc: "typed_secret sec (es @ [e]) = (case sec e of None \<Rightarrow> typed_secret sec es | Some v \<Rightarrow> Val v)"
  by (induction es) (auto split: option.splits jopt.splits)

text \<open>What a form with a write-only field promises: the field and its flag change only by typing into it.\<close>

locale secret_form =
  fixes edit :: "'e \<Rightarrow> 'f \<Rightarrow> 'f" and secret_of :: "'e \<Rightarrow> string option" and stored sent :: "'f \<Rightarrow> string jopt"
    and touched :: "'f \<Rightarrow> bool" and saved :: "'f \<Rightarrow> 'f"
  assumes edit_stored: "stored (edit e f) = (case secret_of e of None \<Rightarrow> stored f | Some v \<Rightarrow> Val v)"
    and edit_touched: "touched (edit e f) = (touched f \<or> secret_of e \<noteq> None)"
    and saved_touched: "\<not> touched (saved f)"
    and sent_stored: "sent f = (if touched f then stored f else Undefined)"
begin

lemma sent_last: "\<not> touched f \<Longrightarrow> sent (fold edit es f) = typed_secret secret_of es"
proof (induction es rule: rev_induct)
  case (snoc e es)
  then show ?case
    by (cases "secret_of e") (simp_all add: typed_secret_snoc sent_stored edit_stored edit_touched split: if_splits)
qed (simp add: sent_stored)

text \<open>After a save, whatever was typed before its answer came is not sent again.\<close>

lemma saved_forgets: "sent (fold edit es (saved f)) = typed_secret secret_of es"
  by (rule sent_last [OF saved_touched])

end

lemmas secret_defs = edit_smtp_def smtp_payload_def edit_sms_def sms_payload_def edit_auth_def auth_payload_def untouch_def
  untouch_auth_def if_touched_def Let_def

interpretation smtp_secret: secret_form edit_smtp smtp_secret "ssu_smtp_password \<circ> sd_draft" "ssu_smtp_password \<circ> smtp_payload"
  sd_touched untouch
proof unfold_locales
  show "(ssu_smtp_password \<circ> sd_draft) (edit_smtp e f) =
      (case smtp_secret e of None \<Rightarrow> (ssu_smtp_password \<circ> sd_draft) f | Some v \<Rightarrow> Val v)" for e f
    by (cases e) (simp_all add: secret_defs)
qed (auto simp: secret_defs)

lemma sms_field_key: "ssu_sms_api_key (sms_field ps e d) = (case sms_secret e of None \<Rightarrow> ssu_sms_api_key d | Some v \<Rightarrow> Val v)"
  by (cases e) (simp_all add: applyPreset_def split: option.split)

interpretation sms_secret: secret_form "edit_sms ps" sms_secret "ssu_sms_api_key \<circ> sd_draft" "ssu_sms_api_key \<circ> sms_payload"
  sd_touched untouch for ps
  by unfold_locales (auto simp: secret_defs sms_field_key split: option.split)

interpretation ms_secret: secret_form edit_auth ms_secret "asu_microsoft_oidc_client_secret \<circ> ad_draft"
  "asu_microsoft_oidc_client_secret \<circ> auth_payload" ad_msSecretTouched untouch_auth
proof unfold_locales
  show "(asu_microsoft_oidc_client_secret \<circ> ad_draft) (edit_auth e f) =
      (case ms_secret e of None \<Rightarrow> (asu_microsoft_oidc_client_secret \<circ> ad_draft) f | Some v \<Rightarrow> Val v)" for e f
    by (cases e) (simp_all add: secret_defs)
qed (auto simp: secret_defs)

interpretation google_secret: secret_form edit_auth google_secret "asu_google_oidc_client_secret \<circ> ad_draft"
  "asu_google_oidc_client_secret \<circ> auth_payload" ad_googleSecretTouched untouch_auth
proof unfold_locales
  show "(asu_google_oidc_client_secret \<circ> ad_draft) (edit_auth e f) =
      (case google_secret e of None \<Rightarrow> (asu_google_oidc_client_secret \<circ> ad_draft) f | Some v \<Rightarrow> Val v)" for e f
    by (cases e) (simp_all add: secret_defs)
qed (auto simp: secret_defs)


text \<open>
  A password typed while a save is under way is not sent: the answer of that save clears the
  flag, and the next save leaves the password out although the field still shows it. And one
  that was typed and erased again is sent as an empty text, which clears the stored one.
\<close>

theorem typed_secret_dropped:
  "ssu_smtp_password (smtp_payload (untouch (edit_smtp (SmtpPassword v) f))) = Undefined \<and>
   ssu_smtp_password (sd_draft (untouch (edit_smtp (SmtpPassword v) f))) = Val v \<and>
   ssu_smtp_password (smtp_payload (fold edit_smtp [SmtpPassword v, SmtpPassword []] f)) = Val []"
  by (simp add: secret_defs)

section \<open>The forms over their queries\<close>

abbreviation settings_act :: "('d \<Rightarrow> 'f \<Rightarrow> 'f) \<Rightarrow> ('f \<Rightarrow> 'f) \<Rightarrow> ('d, 'f) form_event \<Rightarrow> ('d, 'f) query_form \<Rightarrow> ('d, 'f) query_form" where
  "settings_act load saved \<equiv> form_act True (\<lambda>_. True) load (\<lambda>_. saved)"

lemma null_blank_or_blank [simp]: "no_blank v \<Longrightarrow> null_blank (Val (or_blank v)) = of_nullable v"
  by (cases v) (auto simp: null_blank_def no_blank_def)

definition current_smtp :: "SmtpSettings \<Rightarrow> SmtpSettingsUpdate" where
  "current_smtp d = \<lparr>ssu_smtp_enabled = Val (ss_smtp_enabled d), ssu_smtp_host = of_nullable (ss_smtp_host d),
     ssu_smtp_port = Val (ss_smtp_port d), ssu_smtp_username = of_nullable (ss_smtp_username d), ssu_smtp_password = Undefined,
     ssu_smtp_from_email = of_nullable (ss_smtp_from_email d), ssu_smtp_from_name = of_nullable (ss_smtp_from_name d),
     ssu_smtp_use_tls = Val (ss_smtp_use_tls d), ssu_smtp_use_starttls = Val (ss_smtp_use_starttls d)\<rparr>"

definition proper_smtp :: "SmtpSettings \<Rightarrow> bool" where
  "proper_smtp d \<longleftrightarrow> no_blank (ss_smtp_host d) \<and> no_blank (ss_smtp_username d) \<and> no_blank (ss_smtp_from_email d) \<and>
     no_blank (ss_smtp_from_name d)"

interpretation smtp: reloading_form True "\<lambda>_. True" load_smtp "\<lambda>_. untouch" smtp_payload current_smtp proper_smtp
  by unfold_locales (auto simp: smtp_payload_def load_smtp_def current_smtp_def proper_smtp_def if_touched_def)

definition current_sms :: "SmsSettings \<Rightarrow> SmsSettingsUpdate" where
  "current_sms d = \<lparr>ssu_sms_enabled = Val (ss_sms_enabled d), ssu_sms_provider = Val (ss_sms_provider d),
     ssu_sms_api_url = of_nullable (ss_sms_api_url d), ssu_sms_http_method = Val (ss_sms_http_method d),
     ssu_sms_body_format = Val (ss_sms_body_format d), ssu_sms_body_template = of_nullable (ss_sms_body_template d),
     ssu_sms_auth_header_name = of_nullable (ss_sms_auth_header_name d),
     ssu_sms_auth_header_value_template = of_nullable (ss_sms_auth_header_value_template d), ssu_sms_api_key = Undefined,
     ssu_sms_sender = of_nullable (ss_sms_sender d), ssu_sms_success_status_min = Val (ss_sms_success_status_min d),
     ssu_sms_success_status_max = Val (ss_sms_success_status_max d),
     ssu_sms_success_body_contains = of_nullable (ss_sms_success_body_contains d),
     ssu_sms_timeout_seconds = Val (ss_sms_timeout_seconds d)\<rparr>"

definition proper_sms :: "SmsSettings \<Rightarrow> bool" where
  "proper_sms d \<longleftrightarrow> no_blank (ss_sms_api_url d) \<and> no_blank (ss_sms_body_template d) \<and> no_blank (ss_sms_auth_header_name d) \<and>
     no_blank (ss_sms_auth_header_value_template d) \<and> no_blank (ss_sms_sender d) \<and> no_blank (ss_sms_success_body_contains d)"

interpretation sms: reloading_form True "\<lambda>_. True" load_sms "\<lambda>_. untouch" sms_payload current_sms proper_sms
  by unfold_locales (auto simp: sms_payload_def load_sms_def current_sms_def proper_sms_def if_touched_def)

definition current_auth :: "AuthSettings \<Rightarrow> AuthSettingsUpdate" where
  "current_auth d = \<lparr>asu_microsoft_oidc_enabled = Val (au_microsoft_oidc_enabled d),
     asu_microsoft_oidc_tenant_id = of_nullable (au_microsoft_oidc_tenant_id d),
     asu_microsoft_oidc_client_id = of_nullable (au_microsoft_oidc_client_id d), asu_microsoft_oidc_client_secret = Undefined,
     asu_google_oidc_enabled = Val (au_google_oidc_enabled d), asu_google_oidc_client_id = of_nullable (au_google_oidc_client_id d),
     asu_google_oidc_client_secret = Undefined, asu_mfa_totp_enabled = Val (au_mfa_totp_enabled d),
     asu_mfa_sms_otp_enabled = Val (au_mfa_sms_otp_enabled d), asu_mfa_email_otp_enabled = Val (au_mfa_email_otp_enabled d)\<rparr>"

definition proper_auth :: "AuthSettings \<Rightarrow> bool" where
  "proper_auth d \<longleftrightarrow> no_blank (au_microsoft_oidc_tenant_id d) \<and> no_blank (au_microsoft_oidc_client_id d) \<and>
     no_blank (au_google_oidc_client_id d)"

interpretation auth: reloading_form True "\<lambda>_. True" load_auth "\<lambda>_. untouch_auth" auth_payload current_auth proper_auth
  by unfold_locales (auto simp: auth_payload_def load_auth_def current_auth_def proper_auth_def if_touched_def)

subsection \<open>The list of external addresses\<close>

lemma comma_parts_Cons: "comma_parts (r @ CHR '','' # s) = comma_parts r @ comma_parts s"
  by (simp add: comma_parts_def split_append)

lemma comma_parts_Nil [simp]: "comma_parts [] = []"
  by (simp add: comma_parts_def trim_def trimStart_def trimEnd_def)

lemma comma_parts_join: "comma_parts (join '','' rows) = concat (map comma_parts rows)"
proof (induction rows rule: induct_list012)
  case (3 v w ws)
  then show ?case using comma_parts_Cons [of v "join '','' (w # ws)"] by simp
qed simp_all

lemma trim_ws_Cons: "is_ws c \<Longrightarrow> trim (c # w) = trim w"
  by (simp add: trim_def trimStart_def)

lemma trim_ws_snoc: "is_ws c \<Longrightarrow> trim (w @ [c]) = trim w"
  by (induction w) (simp_all add: trim_def trimStart_def trimEnd_def)

lemma split_snoc: "c \<noteq> d \<Longrightarrow> split d (s @ [c]) = butlast (split d s) @ [last (split d s) @ [c]]"
  by (induction s) (auto split: list.split)

lemma comma_not_ws: "is_ws c \<Longrightarrow> c \<noteq> CHR '',''"
  by (auto simp: is_ws_def)

lemma comma_parts_ws_Cons: "is_ws c \<Longrightarrow> comma_parts (c # s) = comma_parts s"
  by (cases "split CHR '','' s") (simp_all add: comma_parts_def comma_not_ws trim_ws_Cons)

lemma comma_parts_ws_snoc:
  assumes "is_ws c"
  shows "comma_parts (s @ [c]) = comma_parts s"
proof -
  obtain w ws where w: "split CHR '','' s = ws @ [w]" by (metis append_butlast_last_id split_not_Nil)
  then show ?thesis using assms by (simp add: comma_parts_def split_snoc comma_not_ws trim_ws_snoc)
qed

lemma comma_parts_trimStart: "comma_parts (trimStart s) = comma_parts s"
  by (induction s) (simp_all add: trimStart_def comma_parts_ws_Cons)

lemma comma_parts_trimEnd: "comma_parts (trimEnd s) = comma_parts s"
  by (induction s rule: rev_induct) (simp_all add: trimEnd_def comma_parts_ws_snoc)

lemma comma_parts_trim: "comma_parts (trim s) = comma_parts s"
  by (simp add: trim_def comma_parts_trimStart comma_parts_trimEnd)

lemma concat_comma_parts: "concat (map comma_parts (filter (\<lambda>r. r \<noteq> []) (map trim rows))) = concat (map comma_parts rows)"
proof (induction rows)
  case (Cons r rows)
  then show ?case using comma_parts_trim [of r] by (cases "trim r = []") simp_all
qed simp

text \<open>
  The addresses survive saving and reading back: they come back in their order, one per row,
  without the blank rows and the blanks around them, and a row with several of them between
  commas comes back as several rows. There is always at least one row.
\<close>

theorem org_rows_roundtrip:
  "load_org (org_payload rows) old =
     (let parts = concat (map comma_parts rows) in if parts = [] then [[]] else parts)"
proof -
  have "or_blank (or_null s) = s" for s by (simp add: or_null_def)
  then show ?thesis by (simp add: load_org_def org_payload_def comma_parts_join concat_comma_parts Let_def)
qed

lemma rows_never_empty: "rows \<noteq> [] \<Longrightarrow> edit_rows e rows \<noteq> []"
  by (cases rows; cases "tl rows"; cases e) (auto simp: take_Cons' drop_Cons' split: nat.splits)

section \<open>What the forms promise\<close>

text \<open>
  Whatever happens to a settings form from the moment it is mounted, everything it submits was
  over settings that had been read; and saving a form in which nothing was typed asks for what
  was read, leaving the stored secrets alone.
\<close>

theorem settings_sent_over_data:
  "\<forall>p\<in>set (qf_sent (fold (settings_act load saved) es (form_start f))). fst p \<noteq> None"
  using sent_over_data by fast

theorem settings_forms_untouched:
  assumes "proper_smtp d" "qf_data s \<noteq> Some d" "\<not> qf_saving s"
    and "proper_sms m" "qf_data t \<noteq> Some m" "\<not> qf_saving t"
    and "proper_auth n" "qf_data u \<noteq> Some n" "\<not> qf_saving u"
  shows "map_prod id smtp_payload (last (qf_sent (fold (settings_act load_smtp untouch) [Fetched d, Submit] s))) =
      (Some d, current_smtp d) \<and>
    map_prod id sms_payload (last (qf_sent (fold (settings_act load_sms untouch) [Fetched m, Submit] t))) =
      (Some m, current_sms m) \<and>
    map_prod id auth_payload (last (qf_sent (fold (settings_act load_auth untouch_auth) [Fetched n, Submit] u))) =
      (Some n, current_auth n)"
  using smtp.untouched [OF assms(1-3)] sms.untouched [OF assms(4-6)] auth.untouched [OF assms(7-9)]
  by (simp add: Let_def)

text \<open>
  A test message changes the time of the last test, so that the next refetch finds other
  settings and puts back every field that was edited and not saved.
\<close>

theorem sms_test_drops_edits:
  assumes "qf_data s = Some d" "\<not> qf_loading s" "proper_sms d" "ss_sms_last_test_at d \<noteq> Some stamp"
  shows "sms_payload (qf_form (fold (settings_act load_sms untouch)
      [Typed (fold (edit_sms ps) es (qf_form s)), Fetched (d\<lparr>ss_sms_last_test_at := Some stamp\<rparr>)] s)) = current_sms d"
proof -
  let ?d = "d\<lparr>ss_sms_last_test_at := Some stamp\<rparr>"
  have "qf_data s \<noteq> Some ?d" using assms(1,4) by (metis SmsSettings.select_convs(15) SmsSettings.surjective
      SmsSettings.update_convs(15) option.inject)
  moreover have "proper_sms ?d" "current_sms ?d = current_sms d"
    using assms(3) by (simp_all add: proper_sms_def current_sms_def)
  ultimately show ?thesis using sms.refetch_drops by metis
qed

lemma stored_tab: "let s = fold pick_settings_tab ts (mount_settings v)
  in st_tab s \<in> set SETTINGS_TABS \<and> st_stored s = Some (st_tab s) \<and> mount_settings (st_stored s) = s"
proof -
  have "st_tab (mount_settings v) \<in> set SETTINGS_TABS \<and> st_stored (mount_settings v) = Some (st_tab (mount_settings v))"
    by (simp add: mount_settings_def SETTINGS_TABS_def Let_def split: option.split)
  then have "st_tab (fold pick_settings_tab ts s) \<in> set SETTINGS_TABS \<and>
      st_stored (fold pick_settings_tab ts s) = Some (st_tab (fold pick_settings_tab ts s))"
    if "s = mount_settings v" for s
    unfolding that by (induction ts rule: rev_induct) (auto simp: pick_settings_tab_def)
  then show ?thesis
    by (auto simp: Let_def mount_settings_def SETTINGS_TABS_def intro!: settings_tab.equality)
qed

section \<open>Witnesses\<close>

definition demo_smtp :: SmtpSettings where
  "demo_smtp = \<lparr>ss_smtp_enabled = True, ss_smtp_host = Some ''smtp.example.com'', ss_smtp_port = 587, ss_smtp_username = None,
     ss_smtp_from_email = Some ''noc@example.com'', ss_smtp_from_name = None, ss_smtp_use_tls = True, ss_smtp_use_starttls = True,
     ss_has_smtp_password = True\<rparr>"

definition demo_sms :: SmsSettings where
  "demo_sms = \<lparr>ss_sms_enabled = False, ss_sms_provider = ''custom'', ss_sms_api_url = None, ss_sms_http_method = ''POST'',
     ss_sms_body_format = ''json'', ss_sms_body_template = None, ss_sms_auth_header_name = None,
     ss_sms_auth_header_value_template = None, ss_sms_sender = Some ''NetFleet'', ss_sms_success_status_min = 200,
     ss_sms_success_status_max = 299, ss_sms_success_body_contains = None, ss_sms_timeout_seconds = 10, ss_has_sms_api_key = False,
     ss_sms_last_test_at = None, ss_sms_last_test_ok = None, ss_sms_last_test_message = None\<rparr>"

definition demo_auth :: AuthSettings where
  "demo_auth = \<lparr>au_microsoft_oidc_enabled = True, au_microsoft_oidc_tenant_id = Some ''common'', au_microsoft_oidc_client_id = None,
     au_has_microsoft_oidc_client_secret = True, au_google_oidc_enabled = False, au_google_oidc_client_id = None,
     au_has_google_oidc_client_secret = False, au_mfa_totp_enabled = True, au_mfa_sms_otp_enabled = False,
     au_mfa_email_otp_enabled = True, au_microsoft_redirect_uri = ''https://nf/ms'', au_google_redirect_uri = ''https://nf/g''\<rparr>"

lemma demo_proper: "proper_smtp demo_smtp" "proper_sms demo_sms" "proper_auth demo_auth"
  by (simp_all add: proper_smtp_def demo_smtp_def proper_sms_def demo_sms_def proper_auth_def demo_auth_def no_blank_def)

definition sms_shown :: "(SmsSettings, SmsSettingsUpdate secret_draft) query_form" where
  "sms_shown = settings_act load_sms untouch (Fetched demo_sms) (form_start new_sms)"

theorem settings_forms_untouched_witness:
  "map_prod id smtp_payload (last (qf_sent (fold (settings_act load_smtp untouch) [Fetched demo_smtp, Submit] (form_start new_smtp)))) =
     (Some demo_smtp, current_smtp demo_smtp)"
  using settings_forms_untouched [OF demo_proper(1) _ _ demo_proper(2) _ _ demo_proper(3),
      of "form_start new_smtp" "form_start new_sms" "form_start new_auth"]
  by (simp add: form_start_def)

theorem settings_sent_over_data_witness:
  "\<forall>p\<in>set (qf_sent (fold (settings_act load_org id) [Fetched \<lparr>oi_netfleet_external_ips = Some ''203.0.113.10''\<rparr>, Submit]
     (form_start [[]]))). fst p \<noteq> None"
  by (rule settings_sent_over_data)

theorem sms_test_drops_edits_witness:
  "sms_payload (qf_form (fold (settings_act load_sms untouch)
     [Typed (fold (edit_sms None) [SmsSender ''me''] (qf_form sms_shown)),
      Fetched (demo_sms\<lparr>ss_sms_last_test_at := Some ''2024-01-01''\<rparr>)] sms_shown)) = current_sms demo_sms"
  by (rule sms_test_drops_edits) (simp_all add: demo_proper, simp_all add: sms_shown_def demo_sms_def)

end
