(* ===== verification/Network_Page.thy ===== *)
theory Network_Page
  imports Complex_Main Settings_Form Fleet Network_Api
begin

text \<open>
  The network page of a device (\<open>devices/[id]/network/page.tsx\<close>): its tabs, neighbour
  discovery and its toggles, the layout of the neighbour graph (with real arithmetic for the
  drawing), the grouping of interface list members, and the forms for routes and VLANs.
\<close>

section \<open>Tabs\<close>

definition NETWORK_TABS :: "(string \<times> string) list" where
  "NETWORK_TABS = [(''addresses'', ''ip.address.config''), (''interfaces'', ''interface.list''),
     (''interface-lists'', ''interface.list.member''), (''routes'', ''ip.route''), (''vlans'', ''interface.vlan''),
     (''arp'', ''ip.arp''), (''bridge'', ''bridge.host''), (''neighbors'', ''ip.neighbor'')]"

definition network_tab :: "string set option \<Rightarrow> string \<Rightarrow> string" where
  "network_tab caps tab = active_tab (shown_tabs caps NETWORK_TABS) tab"

section \<open>Neighbour discovery\<close>

definition ALL_PROTOCOLS :: "string list" where
  "ALL_PROTOCOLS = [''cdp'', ''lldp'', ''mndp'']"

definition parseProtocols :: "string option \<Rightarrow> string set" where
  "parseProtocols s =
     (if \<not> truthy_str s then {}
      else set (filter (\<lambda>p. p \<in> set ALL_PROTOCOLS) (map (\<lambda>p. toLowerCase (trim p)) (split CHR '','' (the s)))))"

definition enabledProtocols :: "NeighborDiscovery option \<Rightarrow> string set" where
  "enabledProtocols d = parseProtocols (Option.bind d nd_protocols)"

definition ifaceList :: "NeighborDiscovery option \<Rightarrow> string option" where
  "ifaceList d = Option.bind d nd_discover_interface_list"

definition interfacesOn :: "NeighborDiscovery option \<Rightarrow> bool" where
  "interfacesOn d \<longleftrightarrow> truthy_str (ifaceList d) \<and> ifaceList d \<noteq> Some ''none''"

definition allProtocolsOn :: "NeighborDiscovery option \<Rightarrow> bool" where
  "allProtocolsOn d \<longleftrightarrow> (\<forall>p\<in>set ALL_PROTOCOLS. p \<in> enabledProtocols d) \<and> interfacesOn d"

definition discoveryOff :: "NeighborDiscovery option \<Rightarrow> bool" where
  "discoveryOff d \<longleftrightarrow> \<not> interfacesOn d \<or> enabledProtocols d = {}"

definition toggleProtocol :: "NeighborDiscovery option \<Rightarrow> string \<Rightarrow> NeighborDiscovery" where
  "toggleProtocol d p =
     (let on = enabledProtocols d; next = (if p \<in> on then on - {p} else insert p on)
      in \<lparr>nd_discover_interface_list = (if interfacesOn d then ifaceList d else Some ''all''),
          nd_protocols = Some (join '','' (filter (\<lambda>x. x \<in> next) ALL_PROTOCOLS))\<rparr>)"

definition enableAll :: NeighborDiscovery where
  "enableAll = \<lparr>nd_discover_interface_list = Some ''all'', nd_protocols = Some ''cdp,lldp,mndp''\<rparr>"

text \<open>The pills are there once the settings were read; the button only asks for \<open>discoveryOff\<close>.\<close>

definition press_pill :: "env \<Rightarrow> string \<Rightarrow> bool \<Rightarrow> NeighborDiscovery option \<Rightarrow> string \<Rightarrow> json call option" where
  "press_pill E dev pending d p =
     (if d \<noteq> None \<and> p \<in> set ALL_PROTOCOLS \<and> \<not> pending then Some (setNeighborDiscovery E dev (toggleProtocol d p)) else None)"

definition press_enable :: "env \<Rightarrow> string \<Rightarrow> bool \<Rightarrow> NeighborDiscovery option \<Rightarrow> json call option" where
  "press_enable E dev pending d =
     (if discoveryOff d \<and> \<not> pending then Some (setNeighborDiscovery E dev enableAll) else None)"

section \<open>The neighbour graph\<close>

record Neighbor =
  nb_id :: "string option"
  nb_interface :: "string option"
  nb_address :: "string option"
  nb_address6 :: "string option"
  nb_mac_address :: "string option"
  nb_identity :: "string option"
  nb_platform :: "string option"
  nb_version :: "string option"
  nb_board :: "string option"
  nb_interface_name :: "string option"
  nb_discovered_by :: "string option"
  nb_age :: "string option"

definition graph_w :: real where "graph_w = 800"
definition graph_cy :: real where "graph_cy = 80"
definition ANGLE_START :: real where "ANGLE_START = pi * 15 / 100"
definition ANGLE_END :: real where "ANGLE_END = pi * 85 / 100"
definition NODE_HALF :: real where "NODE_HALF = 70"

definition graph_h :: "nat \<Rightarrow> real" where
  "graph_h n = max 440 (240 + real n * 16)"

definition graph_radius :: "nat \<Rightarrow> real" where
  "graph_radius n = min (graph_h n - graph_cy - 100) ((graph_w / 2 - NODE_HALF) / cos ANGLE_START)"

definition node_angle :: "nat \<Rightarrow> nat \<Rightarrow> real" where
  "node_angle n i =
     (if n = 1 then pi / 2 else ANGLE_START + real i / real (n - 1) * (ANGLE_END - ANGLE_START))"

definition node_xy :: "nat \<Rightarrow> nat \<Rightarrow> real \<times> real" where
  "node_xy n i = (graph_w / 2 + graph_radius n * cos (node_angle n i), graph_cy + graph_radius n * sin (node_angle n i))"

text \<open>The box of a node: its left, top, right and bottom edges.\<close>

definition NodeShape :: "bool \<Rightarrow> real \<times> real \<Rightarrow> real \<times> real \<times> real \<times> real" where
  "NodeShape isCenter p =
     (let w = (if isCenter then 150 else 130); h = (if isCenter then 48 else 40)
      in (fst p - w / 2, snd p - h / 2, fst p - w / 2 + w, snd p - h / 2 + h))"

definition tooltip_lines :: "Neighbor \<Rightarrow> (string \<times> string option) list" where
  "tooltip_lines n = filter (\<lambda>l. truthy_str (snd l))
     [(''Identity'', nb_identity n), (''Address'', if nb_address n \<noteq> None then nb_address n else nb_address6 n),
      (''MAC'', nb_mac_address n), (''Platform'', nb_platform n), (''Version'', nb_version n), (''Board'', nb_board n),
      (''Local port'', nb_interface n), (''Remote port'', nb_interface_name n), (''Proto'', nb_discovered_by n),
      (''Age'', nb_age n)]"

definition NodeTooltip :: "real \<times> real \<Rightarrow> Neighbor \<Rightarrow> real \<times> real \<times> real \<times> real" where
  "NodeTooltip p n =
     (let boxW = 230; boxH = 8 * 2 + real (length (tooltip_lines n)) * 14;
          tx = (if fst p + 30 + boxW > graph_w then fst p - 30 - boxW else fst p + 30);
          ty = max 8 (snd p - boxH / 2)
      in (tx, ty, tx + boxW, ty + boxH))"

definition platformColor :: "string option \<Rightarrow> string" where
  "platformColor platform =
     (let p = toLowerCase (or_blank platform)
      in if str_includes p ''mikrotik'' then ''#2563eb''
         else if str_includes p ''cisco'' then ''#0891b2''
         else if str_includes p ''ubiquiti'' \<or> str_includes p ''uisp'' \<or> str_includes p ''unifi'' then ''#16a34a''
         else if str_includes p ''aruba'' \<or> str_includes p ''hpe'' then ''#ea580c''
         else if str_includes p ''juniper'' then ''#7c3aed''
         else if str_includes p ''fortigate'' \<or> str_includes p ''fortinet'' then ''#dc2626''
         else ''#64748b'')"

definition node_label :: "Neighbor \<Rightarrow> string" where
  "node_label n = (case nb_identity n of Some v \<Rightarrow> v | None \<Rightarrow> (case nb_address n of Some v \<Rightarrow> v | None \<Rightarrow>
     (case nb_mac_address n of Some v \<Rightarrow> v | None \<Rightarrow> ''?'')))"

section \<open>Interface lists\<close>

record InterfaceListMember =
  lm_id :: "string option"
  lm_list :: string
  lm_interface :: string
  lm_dynamic :: bool
  lm_disabled :: bool
  lm_comment :: "string option"

definition listsByInterface :: "InterfaceListMember list option \<Rightarrow> string \<Rightarrow> InterfaceListMember list" where
  "listsByInterface members name = get_list (by_key lm_interface (case members of None \<Rightarrow> [] | Some rs \<Rightarrow> rs)) name"

definition membersByList :: "InterfaceListMember list option \<Rightarrow> string \<Rightarrow> InterfaceListMember list" where
  "membersByList members name = get_list (by_key lm_list (case members of None \<Rightarrow> [] | Some rs \<Rightarrow> rs)) name"

datatype member_style = Struck | DynamicRing | Manual

definition membership_style :: "InterfaceListMember \<Rightarrow> member_style" where
  "membership_style m = (if lm_disabled m then Struck else if lm_dynamic m then DynamicRing else Manual)"

definition membership_title :: "InterfaceListMember \<Rightarrow> string" where
  "membership_title m =
     (if lm_dynamic m then ''Dynamic membership '' @ em_dash @ '' comes from include/exclude rules on the list''
      else if lm_disabled m then ''Membership row is disabled''
      else ''Manually added to list \"'' @ lm_list m @ ''\"'')"

definition interface_state :: "bool \<Rightarrow> bool option \<Rightarrow> string" where
  "interface_state disabled running =
     (if disabled then ''disabled'' else if running = Some True then ''running'' else ''down'')"

section \<open>Routes and VLANs\<close>

text \<open>A number field the browser accepts: empty where that is allowed, else a whole number in range.\<close>

definition number_ok :: "rat \<Rightarrow> rat \<Rightarrow> rat option \<Rightarrow> bool" where
  "number_ok lo hi v = (case v of None \<Rightarrow> True | Some x \<Rightarrow> lo \<le> x \<and> x \<le> hi \<and> x = of_int \<lfloor>x\<rfloor>)"

record route_form =
  rf_dst :: string
  rf_gw :: string
  rf_distance :: "rat option"
  rf_comment :: string

definition new_route :: route_form where
  "new_route = \<lparr>rf_dst = ''0.0.0.0/0'', rf_gw = [], rf_distance = Some 1, rf_comment = []\<rparr>"

definition route_payload :: "route_form \<Rightarrow> IpRouteCreate" where
  "route_payload f = \<lparr>irc_dst_address = rf_dst f, irc_gateway = nul (rf_gw f), irc_distance = of_nullable (rf_distance f),
     irc_routing_table = Undefined, irc_pref_src = Undefined, irc_disabled = Undefined, irc_comment = nul (rf_comment f)\<rparr>"

definition submit_route :: "env \<Rightarrow> string \<Rightarrow> bool \<Rightarrow> route_form \<Rightarrow> json call option" where
  "submit_route E dev pending f =
     (if \<not> pending \<and> rf_dst f \<noteq> [] \<and> number_ok 1 255 (rf_distance f) then Some (createRoute E dev (route_payload f)) else None)"

definition delete_route :: "env \<Rightarrow> string \<Rightarrow> bool \<Rightarrow> string option \<Rightarrow> bool option \<Rightarrow> unit call option" where
  "delete_route E dev yes i dynamic =
     (if dynamic \<noteq> Some True \<and> truthy_str i \<and> yes then Some (deleteRoute E dev (the i)) else None)"

record vlan_form =
  vf_name :: string
  vf_iface :: string
  vf_vlanId :: rat
  vf_mtu :: "rat option"
  vf_comment :: string

definition new_vlan :: "string list \<Rightarrow> vlan_form" where
  "new_vlan interfaces = \<lparr>vf_name = [], vf_iface = (case interfaces of [] \<Rightarrow> [] | i # _ \<Rightarrow> i), vf_vlanId = 10, vf_mtu = Some 1500,
     vf_comment = []\<rparr>"

definition vlan_payload :: "vlan_form \<Rightarrow> VlanCreate" where
  "vlan_payload f = \<lparr>vc_name = vf_name f, vc_interface = vf_iface f, vc_vlan_id = vf_vlanId f, vc_mtu = of_nullable (vf_mtu f),
     vc_comment = nul (vf_comment f)\<rparr>"

definition submit_vlan :: "env \<Rightarrow> string \<Rightarrow> bool \<Rightarrow> vlan_form \<Rightarrow> json call option" where
  "submit_vlan E dev pending f =
     (if \<not> pending \<and> vf_name f \<noteq> [] \<and> number_ok 1 4094 (Some (vf_vlanId f)) \<and> number_ok 576 9000 (vf_mtu f)
      then Some (createVlan E dev (vlan_payload f)) else None)"

definition delete_vlan :: "env \<Rightarrow> string \<Rightarrow> bool \<Rightarrow> string option \<Rightarrow> unit call option" where
  "delete_vlan E dev yes i = (if truthy_str i \<and> yes then Some (deleteVlan E dev (the i)) else None)"

section \<open>Discovery toggles\<close>

lemma parse_join:
  assumes "set ps \<subseteq> set ALL_PROTOCOLS"
  shows "parseProtocols (Some (join '','' ps)) = set ps"
proof (cases "ps = []")
  case False
  have c: "CHR '','' \<notin> set p \<and> toLowerCase (trim p) = p \<and> p \<noteq> []" if "p \<in> set ALL_PROTOCOLS" for p
    using that by (auto simp: ALL_PROTOCOLS_def toLowerCase_def lower_char_def trim_def trimStart_def trimEnd_def is_ws_def)
  have "split CHR '','' (join '','' ps) = ps" using False assms c by (intro split_join) auto
  moreover have "map (\<lambda>p. toLowerCase (trim p)) ps = ps" using assms c by (intro map_idI) auto
  moreover have "join '','' ps \<noteq> []" using False assms c by (cases ps rule: remdups_adj.cases) auto
  ultimately show ?thesis using assms by (auto simp: parseProtocols_def)
qed (simp add: parseProtocols_def)

lemma parse_filter: "A \<subseteq> set ALL_PROTOCOLS \<Longrightarrow> parseProtocols (Some (join '','' (filter (\<lambda>x. x \<in> A) ALL_PROTOCOLS))) = A"
  using parse_join [of "filter (\<lambda>x. x \<in> A) ALL_PROTOCOLS"] by auto

lemma parse_known: "parseProtocols s \<subseteq> set ALL_PROTOCOLS"
  by (auto simp: parseProtocols_def)

lemma interfaces_on_simps [simp]:
  "interfacesOn (Some \<lparr>nd_discover_interface_list = Some ''all'', nd_protocols = q\<rparr>)"
  by (simp add: interfacesOn_def ifaceList_def)

text \<open>
  A click on a pill flips that protocol and no other, leaves the interface list of a router
  that discovers at all as it is, and turns a router that does not onto all interfaces; a second
  click gives back the protocols of before. The button leaves nothing to turn on.
\<close>

theorem toggle_flips_one:
  assumes "p \<in> set ALL_PROTOCOLS"
  shows "enabledProtocols (Some (toggleProtocol d p)) =
      (if p \<in> enabledProtocols d then enabledProtocols d - {p} else insert p (enabledProtocols d)) \<and>
    (interfacesOn d \<longrightarrow> ifaceList (Some (toggleProtocol d p)) = ifaceList d) \<and>
    interfacesOn (Some (toggleProtocol d p)) \<and>
    enabledProtocols (Some (toggleProtocol (Some (toggleProtocol d p)) p)) = enabledProtocols d \<and>
    allProtocolsOn (Some enableAll)"
proof -
  have flip: "enabledProtocols (Some (toggleProtocol e p)) =
      (if p \<in> enabledProtocols e then enabledProtocols e - {p} else insert p (enabledProtocols e))" (is "_ = ?n") for e
  proof -
    have n: "?n \<subseteq> set ALL_PROTOCOLS" using assms parse_known by (auto simp: enabledProtocols_def)
    have "enabledProtocols (Some (toggleProtocol e p)) =
        parseProtocols (Some (join '','' (filter (\<lambda>x. x \<in> ?n) ALL_PROTOCOLS)))"
      by (simp add: enabledProtocols_def [of "Some _"] toggleProtocol_def Let_def)
    also have "\<dots> = ?n" by (rule parse_filter [OF n])
    finally show ?thesis .
  qed
  have "join '','' ALL_PROTOCOLS = ''cdp,lldp,mndp''" by (simp add: ALL_PROTOCOLS_def)
  then have "parseProtocols (Some ''cdp,lldp,mndp'') = set ALL_PROTOCOLS"
    using parse_join [of ALL_PROTOCOLS] by simp
  then have "allProtocolsOn (Some enableAll)" by (simp add: allProtocolsOn_def enabledProtocols_def enableAll_def)
  moreover have "interfacesOn (Some (toggleProtocol d p))" "interfacesOn d \<longrightarrow> ifaceList (Some (toggleProtocol d p)) = ifaceList d"
    by (auto simp: toggleProtocol_def Let_def interfacesOn_def ifaceList_def)
  ultimately show ?thesis using flip by auto
qed

text \<open>
  Before the settings are read, or when they cannot be, the page takes discovery for off: the
  button is there, and pressing it replaces whatever list of interfaces the router has.
\<close>

theorem unread_discovery_enabled:
  "discoveryOff None \<and> press_enable E dev False None = Some (setNeighborDiscovery E dev enableAll) \<and>
   press_pill E dev False None p = None"
  by (simp add: discoveryOff_def interfacesOn_def ifaceList_def press_enable_def press_pill_def)

section \<open>The drawing stays on its canvas\<close>

lemma angle_bounds:
  assumes "i < n"
  shows "ANGLE_START \<le> node_angle n i" "node_angle n i \<le> ANGLE_END"
proof -
  have w: "0 \<le> ANGLE_END - ANGLE_START" by (simp add: ANGLE_START_def ANGLE_END_def)
  have q: "0 \<le> real i / real (n - 1)" "real i / real (n - 1) \<le> 1" if "n \<noteq> 1"
    using assms that by (auto simp: divide_le_eq_1)
  have half: "ANGLE_START \<le> pi / 2" "pi / 2 \<le> ANGLE_END" by (simp_all add: ANGLE_START_def ANGLE_END_def)
  show "ANGLE_START \<le> node_angle n i"
    using q(1) w half by (auto simp: node_angle_def)
  have "real i / real (n - 1) * (ANGLE_END - ANGLE_START) \<le> ANGLE_END - ANGLE_START" if "n \<noteq> 1"
    using q [OF that] w by (intro mult_left_le_one_le)
  then show "node_angle n i \<le> ANGLE_END" using half by (cases "n = 1") (auto simp: node_angle_def)
qed

lemma cos_start_pos: "0 < cos ANGLE_START"
  by (rule cos_gt_zero_pi) (use pi_gt_zero in \<open>simp_all add: ANGLE_START_def\<close>)

lemma cos_angle:
  assumes "i < n"
  shows "\<bar>cos (node_angle n i)\<bar> \<le> cos ANGLE_START"
proof -
  have e: "ANGLE_END = pi - ANGLE_START" by (simp add: ANGLE_START_def ANGLE_END_def)
  have r: "0 \<le> ANGLE_START" "ANGLE_END \<le> pi" by (simp_all add: ANGLE_START_def ANGLE_END_def)
  have "cos (node_angle n i) \<le> cos ANGLE_START"
    using angle_bounds [OF assms] r by (intro cos_monotone_0_pi_le) auto
  moreover have "cos ANGLE_END \<le> cos (node_angle n i)"
    using angle_bounds [OF assms] r by (intro cos_monotone_0_pi_le) auto
  ultimately show ?thesis by (simp add: e abs_le_iff)
qed

lemma sin_angle: "i < n \<Longrightarrow> 0 \<le> sin (node_angle n i)"
  using angle_bounds [of i n] pi_gt_zero by (intro sin_ge_zero) (auto simp: ANGLE_START_def ANGLE_END_def)

lemma radius_bounds: "0 \<le> graph_radius n" "graph_radius n \<le> graph_h n - 180" "graph_radius n * cos ANGLE_START \<le> 330"
proof -
  have "graph_radius n \<le> 330 / cos ANGLE_START"
    by (simp add: graph_radius_def graph_w_def NODE_HALF_def)
  then show "graph_radius n * cos ANGLE_START \<le> 330" using cos_start_pos by (simp add: pos_le_divide_eq)
  show "0 \<le> graph_radius n"
    using cos_start_pos by (simp add: graph_radius_def graph_h_def graph_cy_def graph_w_def NODE_HALF_def)
qed (simp add: graph_radius_def graph_cy_def)

lemma node_bounds:
  assumes "i < n"
  shows "70 \<le> fst (node_xy n i)" "fst (node_xy n i) \<le> 730" "80 \<le> snd (node_xy n i)" "snd (node_xy n i) \<le> graph_h n - 100"
proof -
  have "\<bar>graph_radius n * cos (node_angle n i)\<bar> \<le> graph_radius n * cos ANGLE_START"
    using cos_angle [OF assms] radius_bounds(1) [of n] by (simp add: abs_mult mult_left_mono)
  then have x: "\<bar>graph_radius n * cos (node_angle n i)\<bar> \<le> 330" using radius_bounds(3) [of n] by linarith
  then show "70 \<le> fst (node_xy n i)" "fst (node_xy n i) \<le> 730" by (auto simp: node_xy_def graph_w_def abs_le_iff)
  have "0 \<le> graph_radius n * sin (node_angle n i)" using radius_bounds(1) sin_angle [OF assms] by simp
  then show "80 \<le> snd (node_xy n i)" by (simp add: node_xy_def graph_cy_def)
  have "graph_radius n * sin (node_angle n i) \<le> graph_radius n * 1"
    using radius_bounds(1) by (intro mult_left_mono) auto
  then show "snd (node_xy n i) \<le> graph_h n - 100" using radius_bounds(2) [of n] by (simp add: node_xy_def graph_cy_def)
qed

text \<open>A box lies on the canvas for so many neighbours.\<close>

definition on_canvas :: "nat \<Rightarrow> real \<times> real \<times> real \<times> real \<Rightarrow> bool" where
  "on_canvas n b = (case b of (l, t, r, u) \<Rightarrow> 0 \<le> l \<and> 0 \<le> t \<and> r \<le> graph_w \<and> u \<le> graph_h n)"

text \<open>
  However many neighbours there are, the device, every peer and the tooltip of every peer are
  drawn inside the canvas.
\<close>

theorem graph_on_canvas:
  assumes "i < n"
  shows "on_canvas n (NodeShape True (graph_w / 2, graph_cy)) \<and> on_canvas n (NodeShape False (node_xy n i)) \<and>
    on_canvas n (NodeTooltip (node_xy n i) nb)"
proof -
  have "length (tooltip_lines nb) \<le> 10"
    unfolding tooltip_lines_def by (rule order_trans [OF length_filter_le]) simp
  then have len: "real (length (tooltip_lines nb)) \<le> 10" by simp
  have "440 \<le> graph_h n" by (simp add: graph_h_def)
  with node_bounds [OF assms] len show ?thesis
    by (auto simp: on_canvas_def NodeShape_def NodeTooltip_def Let_def graph_w_def graph_cy_def max_def field_simps)
qed

section \<open>Grouping and forms\<close>

text \<open>
  The two indexes of the list members agree with the rows: under an interface, and under a
  list, stand exactly the rows that name it, in their order.
\<close>

theorem membership_indexes:
  "listsByInterface (Some ms) name = filter (\<lambda>r. lm_interface r = name) ms \<and>
   membersByList (Some ms) name = filter (\<lambda>r. lm_list r = name) ms \<and>
   (m \<in> set (listsByInterface (Some ms) name) \<and> lm_list m = l \<longleftrightarrow> m \<in> set (membersByList (Some ms) l) \<and> lm_interface m = name)"
  by (auto simp: listsByInterface_def membersByList_def)

lemma submitted_vlan:
  assumes "submit_vlan E dev pending f = Some c"
  shows "c = createVlan E dev (vlan_payload f)" "1 \<le> vc_vlan_id (vlan_payload f)" "vc_vlan_id (vlan_payload f) \<le> 4094"
    "vc_mtu (vlan_payload f) \<noteq> Undefined"
  using assms by (cases "vf_mtu f"; auto simp: submit_vlan_def vlan_payload_def number_ok_def split: if_splits)+

lemma first_interface_offered: "interfaces \<noteq> [] \<Longrightarrow> vf_iface (new_vlan interfaces) \<in> set interfaces"
  by (cases interfaces) (simp_all add: new_vlan_def)

section \<open>Witnesses\<close>

theorem toggle_flips_one_witness:
  "enabledProtocols (Some (toggleProtocol (Some enableAll) ''lldp'')) = enabledProtocols (Some enableAll) - {''lldp''}"
proof -
  have "''lldp'' \<in> set ALL_PROTOCOLS" by (simp add: ALL_PROTOCOLS_def)
  from toggle_flips_one [OF this, of "Some enableAll"] this show ?thesis by (auto simp: allProtocolsOn_def)
qed

theorem graph_on_canvas_witness:
  "on_canvas 3 (NodeShape False (node_xy 3 2)) \<and> on_canvas 3 (NodeTooltip (node_xy 3 2)
     \<lparr>nb_id = None, nb_interface = Some ''ether1'', nb_address = None, nb_address6 = None, nb_mac_address = None,
      nb_identity = Some ''sw1'', nb_platform = None, nb_version = None, nb_board = None, nb_interface_name = None,
      nb_discovered_by = None, nb_age = None\<rparr>)"
  using graph_on_canvas [of 2 3] by simp

end
