(* ===== verification/Wg_Page.thy ===== *)
theory Wg_Page
  imports Network_Page Wg_Wizard S2S_Wizard Slugs
begin

text \<open>
  The WireGuard page of a router (\<open>devices/[id]/vpn/wireguard/page.tsx\<close>): the forms for
  interfaces and peers, the dialog that builds a client configuration and the dialog that
  restricts what a peer can reach.
\<close>

section \<open>Interfaces and peers\<close>

record wg_iface_form =
  wf_name :: string
  wf_listenPort :: "rat option"
  wf_mtu :: "rat option"
  wf_comment :: string

definition new_wg_iface :: wg_iface_form where
  "new_wg_iface = \<lparr>wf_name = [], wf_listenPort = Some 51820, wf_mtu = Some 1420, wf_comment = []\<rparr>"

definition wg_iface_payload :: "wg_iface_form \<Rightarrow> WgInterfaceCreate" where
  "wg_iface_payload f = \<lparr>wic_name = wf_name f, wic_listen_port = of_nullable (wf_listenPort f), wic_private_key = Undefined,
     wic_mtu = of_nullable (wf_mtu f), wic_comment = nul (wf_comment f)\<rparr>"

definition submit_wg_iface :: "env \<Rightarrow> string \<Rightarrow> bool \<Rightarrow> wg_iface_form \<Rightarrow> json call option" where
  "submit_wg_iface E dev pending f =
     (if \<not> pending \<and> wf_name f \<noteq> [] \<and> number_ok 1 65535 (wf_listenPort f) \<and> number_ok 576 9000 (wf_mtu f)
      then Some (createWgInterface E dev (wg_iface_payload f)) else None)"

definition delete_wg_iface :: "env \<Rightarrow> string \<Rightarrow> bool \<Rightarrow> WgInterface \<Rightarrow> unit call option" where
  "delete_wg_iface E dev yes i = (if truthy_str (wi_id i) \<and> yes then Some (deleteWgInterface E dev (the (wi_id i))) else None)"

record WgPeer =
  wp_id :: "string option"
  wp_interface :: string
  wp_public_key :: "string option"
  wp_allowed_address :: "string option"
  wp_endpoint_address :: "string option"
  wp_endpoint_port :: "rat option"
  wp_persistent_keepalive :: "rat option"
  wp_disabled :: bool
  wp_comment :: "string option"

record wg_peer_form =
  pr_ifaceName :: string
  pr_publicKey :: string
  pr_allowedAddress :: string
  pr_comment :: string

definition new_wg_peer :: "WgInterface list \<Rightarrow> wg_peer_form" where
  "new_wg_peer interfaces = \<lparr>pr_ifaceName = (case interfaces of [] \<Rightarrow> [] | i # _ \<Rightarrow> wi_name i), pr_publicKey = [],
     pr_allowedAddress = [], pr_comment = []\<rparr>"

definition type_public_key :: "string \<Rightarrow> wg_peer_form \<Rightarrow> wg_peer_form" where
  "type_public_key v f = f\<lparr>pr_publicKey := trim v\<rparr>"

definition wg_peer_payload :: "wg_peer_form \<Rightarrow> WgPeerCreate" where
  "wg_peer_payload f = \<lparr>wpc_interface = pr_ifaceName f, wpc_public_key = Val (pr_publicKey f), wpc_preshared_key = Undefined,
     wpc_allowed_address = nul (pr_allowedAddress f), wpc_endpoint_address = Undefined, wpc_endpoint_port = Undefined,
     wpc_persistent_keepalive = Undefined, wpc_comment = nul (pr_comment f)\<rparr>"

definition submit_wg_peer :: "env \<Rightarrow> string \<Rightarrow> bool \<Rightarrow> wg_peer_form \<Rightarrow> json call option" where
  "submit_wg_peer E dev pending f =
     (if \<not> pending \<and> pr_publicKey f \<noteq> [] then Some (createWgPeer E dev (wg_peer_payload f)) else None)"

definition delete_wg_peer :: "env \<Rightarrow> string \<Rightarrow> bool \<Rightarrow> WgPeer \<Rightarrow> unit call option" where
  "delete_wg_peer E dev yes p = (if truthy_str (wp_id p) \<and> yes then Some (deleteWgPeer E dev (the (wp_id p))) else None)"

text \<open>The dialogs of the page; a peer without an id opens none, and a key is shown when there is one.\<close>

record wg_page =
  wg_showIfForm :: bool
  wg_showPeerForm :: bool
  wg_configFor :: "WgPeer option"
  wg_restrictFor :: "WgPeer option"
  wg_createdPsk :: "(string \<times> string) option"

definition dialog_peer :: "WgPeer option \<Rightarrow> string option" where
  "dialog_peer p = (case p of Some q \<Rightarrow> if truthy_str (wp_id q) then wp_id q else None | None \<Rightarrow> None)"

definition onPeerCreated :: "string \<Rightarrow> string option \<Rightarrow> wg_page \<Rightarrow> wg_page" where
  "onPeerCreated i psk s =
     (let t = (if truthy_str psk then s\<lparr>wg_createdPsk := Some (i, the psk)\<rparr> else s) in t\<lparr>wg_showPeerForm := False\<rparr>)"

section \<open>The client configuration\<close>

definition toggleSubnet :: "string \<Rightarrow> bool \<Rightarrow> string list \<Rightarrow> string list" where
  "toggleSubnet cidr on picks = (if on then jset_add cidr picks else jset_delete cidr picks)"

text \<open>\<open>split(/[,\s]+/).map(trim).filter(Boolean)\<close>\<close>

definition extra_cidrs :: "string \<Rightarrow> string list" where
  "extra_cidrs s = filter (\<lambda>c. c \<noteq> []) (map trim (words_by cidr_sep s))"

record config_modal =
  cm_endpoint :: string
  cm_port :: rat
  cm_clientAddr :: string
  cm_dns :: string
  cm_subnetPicks :: "string list"
  cm_extraCidrs :: string
  cm_keepalive :: rat

definition open_config :: "WgPeer \<Rightarrow> config_modal" where
  "open_config p = \<lparr>cm_endpoint = [], cm_port = 51820, cm_clientAddr = or_blank (wp_allowed_address p), cm_dns = ''1.1.1.1'',
     cm_subnetPicks = [''0.0.0.0/0'', ''::/0''], cm_extraCidrs = [], cm_keepalive = 25\<rparr>"

definition allowedIps :: "config_modal \<Rightarrow> string" where
  "allowedIps m = join '', '' (cm_subnetPicks m @ extra_cidrs (cm_extraCidrs m))"

definition config_request :: "config_modal \<Rightarrow> WgConfigRequest" where
  "config_request m = \<lparr>wcr_server_endpoint = cm_endpoint m, wcr_server_endpoint_port = cm_port m,
     wcr_client_address = cm_clientAddr m, wcr_client_dns = nul (cm_dns m), wcr_allowed_ips = allowedIps m,
     wcr_persistent_keepalive = Val (cm_keepalive m), wcr_client_private_key = Undefined\<rparr>"

text \<open>The fields the browser checks first, then the checks of the handler, which the former leave nothing to do.\<close>

definition config_check :: "config_modal \<Rightarrow> string option" where
  "config_check m =
     (if cm_endpoint m = [] then Some ''Server endpoint is required.''
      else if cm_clientAddr m = [] then Some ''Client address is required.'' else None)"

definition config_fields_ok :: "config_modal \<Rightarrow> bool" where
  "config_fields_ok m \<longleftrightarrow> cm_endpoint m \<noteq> [] \<and> number_ok 1 65535 (Some (cm_port m)) \<and> cm_clientAddr m \<noteq> [] \<and>
     number_ok 0 65535 (Some (cm_keepalive m))"

definition submit_config :: "env \<Rightarrow> string \<Rightarrow> string \<Rightarrow> bool \<Rightarrow> config_modal \<Rightarrow> (string \<times> string) call option" where
  "submit_config E dev peer pending m =
     (if \<not> pending \<and> config_fields_ok m \<and> config_check m = None
      then Some (downloadWgClientConfig E dev peer (config_request m)) else None)"

section \<open>Restricting a peer\<close>

definition tag_char :: "char \<Rightarrow> bool" where
  "tag_char c \<longleftrightarrow> (let n = ccode c in (97 \<le> n \<and> n \<le> 122) \<or> (65 \<le> n \<and> n \<le> 90) \<or> (48 \<le> n \<and> n \<le> (57 :: nat)) \<or> n = 45)"

definition peer_tag :: "WgPeer \<Rightarrow> string" where
  "peer_tag p =
     (let t = (case wp_id p of Some i \<Rightarrow> filter tag_char i | None \<Rightarrow> [])
      in if t \<noteq> [] then t else take 8 (or_blank (wp_public_key p)))"

record restrict_modal =
  rm_picks :: "string list"
  rm_extra :: string
  rm_dropRest :: bool
  rm_error :: "string option"
  rm_created :: "nat option"
  rm_pending :: bool
  rm_sent :: "WgPeerRestrictRequest list"

definition open_restrict :: restrict_modal where
  "open_restrict = \<lparr>rm_picks = [], rm_extra = [], rm_dropRest = True, rm_error = None, rm_created = None, rm_pending = False,
     rm_sent = []\<rparr>"

definition restrict_request :: "WgPeer \<Rightarrow> restrict_modal \<Rightarrow> WgPeerRestrictRequest" where
  "restrict_request p m = \<lparr>wprr_allowed_cidrs = rm_picks m @ extra_cidrs (rm_extra m), wprr_drop_rest = rm_dropRest m,
     wprr_comment_tag = peer_tag p\<rparr>"

datatype restrict_event =
  Tick string bool | TypeExtra string | TickDrop bool | RestrictSubmit | RestrictOk nat | RestrictErr string

text \<open>The form makes way for the result once rules were created; only listed subnets have a checkbox.\<close>

fun restrict_act :: "string set \<Rightarrow> WgPeer \<Rightarrow> restrict_event \<Rightarrow> restrict_modal \<Rightarrow> restrict_modal" where
  "restrict_act lan p (Tick c on) m =
     (if rm_created m = None \<and> c \<in> lan then m\<lparr>rm_picks := toggleSubnet c on (rm_picks m)\<rparr> else m)"
| "restrict_act lan p (TypeExtra s) m = (if rm_created m = None then m\<lparr>rm_extra := s\<rparr> else m)"
| "restrict_act lan p (TickDrop b) m = (if rm_created m = None then m\<lparr>rm_dropRest := b\<rparr> else m)"
| "restrict_act lan p RestrictSubmit m =
     (if rm_created m \<noteq> None \<or> rm_pending m then m
      else if rm_picks m = [] \<and> trim (rm_extra m) = [] \<and> \<not> rm_dropRest m
      then m\<lparr>rm_error := Some ''Pick at least one allowed destination or enable drop-rest.''\<rparr>
      else m\<lparr>rm_error := None, rm_pending := True, rm_sent := rm_sent m @ [restrict_request p m]\<rparr>)"
| "restrict_act lan p (RestrictOk n) m =
     (if rm_pending m then m\<lparr>rm_pending := False, rm_created := Some n, rm_error := None\<rparr> else m)"
| "restrict_act lan p (RestrictErr e) m = (if rm_pending m then m\<lparr>rm_pending := False, rm_error := Some e\<rparr> else m)"

section \<open>Lists of networks\<close>

lemma extra_cidrs_words: "extra_cidrs s = words_by cidr_sep s"
  by (auto simp: extra_cidrs_def words_trim filter_id_conv dest: words_by_nonempty)

definition clean_cidr :: "string \<Rightarrow> bool" where
  "clean_cidr w \<longleftrightarrow> w \<noteq> [] \<and> list_all (\<lambda>c. \<not> cidr_sep c) w"

lemma extra_clean: "w \<in> set (extra_cidrs s) \<Longrightarrow> clean_cidr w"
  by (auto simp: extra_cidrs_words clean_cidr_def list_all_iff dest: words_by_nonempty words_by_no_sep)

lemma sep_simps [simp]: "cidr_sep CHR '',''" "cidr_sep CHR '' ''"
  by (simp_all add: cidr_sep_def is_ws_def)

lemma words_join:
  assumes "\<forall>w\<in>set ws. clean_cidr w"
  shows "words_by cidr_sep (join '', '' ws) = ws"
  using assms
proof (induction ws rule: induct_list012)
  case (3 v w ws)
  then have "words_by cidr_sep (join '', '' (w # ws)) = w # ws" "v \<noteq> []" "list_all (\<lambda>c. \<not> cidr_sep c) v"
    by (simp_all add: clean_cidr_def)
  then show ?case using words_acc_prefix [of cidr_sep v "'', '' @ join '', '' (w # ws)" "[]"]
    by (simp add: words_by_def)
next
  case (2 w)
  then show ?case using words_acc_prefix [of cidr_sep w "[]" "[]"] by (simp add: words_by_def clean_cidr_def)
qed (simp add: words_by_def)

text \<open>
  A client configuration is only asked for with an endpoint, a port and a client address, and
  its list of allowed networks reads back as the ticked ones followed by the typed ones.
\<close>

theorem config_request_faithful:
  assumes "submit_config E dev peer pending m = Some c" "\<forall>w\<in>set (cm_subnetPicks m). clean_cidr w"
  shows "c = downloadWgClientConfig E dev peer (config_request m) \<and> wcr_server_endpoint (config_request m) \<noteq> [] \<and>
    wcr_client_address (config_request m) \<noteq> [] \<and> 1 \<le> wcr_server_endpoint_port (config_request m) \<and>
    wcr_server_endpoint_port (config_request m) \<le> 65535 \<and>
    words_by cidr_sep (wcr_allowed_ips (config_request m)) = cm_subnetPicks m @ words_by cidr_sep (cm_extraCidrs m)"
proof -
  have "\<forall>w\<in>set (cm_subnetPicks m @ extra_cidrs (cm_extraCidrs m)). clean_cidr w"
    using assms(2) extra_clean by auto
  from words_join [OF this] assms(1) show ?thesis
    by (auto simp: submit_config_def config_fields_ok_def number_ok_def config_request_def allowedIps_def extra_cidrs_words
        split: if_splits)
qed

section \<open>What a restriction asks for\<close>

definition restrict_inv :: "string set \<Rightarrow> WgPeer \<Rightarrow> restrict_modal \<Rightarrow> bool" where
  "restrict_inv lan p m \<longleftrightarrow> distinct (rm_picks m) \<and> set (rm_picks m) \<subseteq> lan \<and>
     (\<forall>r\<in>set (rm_sent m). wprr_comment_tag r = peer_tag p \<and> (\<forall>w\<in>set (wprr_allowed_cidrs r). w \<in> lan \<or> clean_cidr w))"

lemma restrict_inv_start: "restrict_inv lan p open_restrict"
  by (simp add: restrict_inv_def open_restrict_def)

lemma restrict_inv_act: "restrict_inv lan p m \<Longrightarrow> restrict_inv lan p (restrict_act lan p e m)"
  by (cases e) (auto simp: restrict_inv_def toggleSubnet_def restrict_request_def dest: extra_clean)

lemma restrict_inv_fold: "restrict_inv lan p m \<Longrightarrow> restrict_inv lan p (fold (restrict_act lan p) es m)"
  by (induction es arbitrary: m) (auto simp: restrict_inv_act)

lemma created_frozen: "rm_created m \<noteq> None \<Longrightarrow> \<not> rm_pending m \<Longrightarrow> restrict_act lan p e m = m"
  by (cases e) auto

lemma created_idle_act:
  "(rm_created m \<noteq> None \<longrightarrow> \<not> rm_pending m) \<Longrightarrow>
   rm_created (restrict_act lan p e m) \<noteq> None \<longrightarrow> \<not> rm_pending (restrict_act lan p e m)"
  by (cases e) auto

lemma created_idle:
  "(rm_created m \<noteq> None \<longrightarrow> \<not> rm_pending m) \<Longrightarrow>
   rm_created (fold (restrict_act lan p) es m) \<noteq> None \<longrightarrow> \<not> rm_pending (fold (restrict_act lan p) es m)"
proof (induction es arbitrary: m)
  case (Cons e es)
  from Cons.IH [OF created_idle_act [OF Cons.prems, of lan p e]] show ?case by simp
qed simp

lemma frozen_fold:
  "rm_created m \<noteq> None \<Longrightarrow> \<not> rm_pending m \<Longrightarrow> fold (restrict_act lan p) es m = m"
  by (induction es) (auto simp: created_frozen)


text \<open>
  The check for an empty restriction looks at the text and not at the networks in it: a lone
  comma passes, and the request allows nothing and drops nothing.
\<close>

theorem comma_restricts_nothing:
  "rm_sent (fold (restrict_act lan p) [TickDrop False, TypeExtra '','', RestrictSubmit] open_restrict) =
     [\<lparr>wprr_allowed_cidrs = [], wprr_drop_rest = False, wprr_comment_tag = peer_tag p\<rparr>]"
  by (simp add: open_restrict_def restrict_request_def extra_cidrs_words words_by_def trim_def trimStart_def trimEnd_def is_ws_def)

text \<open>
  Tags tell peers apart: the ids of RouterOS, an asterisk before hexadecimal digits, have
  different tags, so that revoking the rules of one peer leaves those of another.
\<close>

lemma tag_of_handle:
  assumes "wp_id p = Some (CHR ''*'' # h)" "h \<noteq> []" "list_all tag_char h"
  shows "peer_tag p = h"
proof -
  have "filter tag_char h = h" using assms(3) by (simp add: list_all_iff filter_id_conv)
  then show ?thesis using assms(1,2) by (simp add: peer_tag_def tag_char_def Let_def)
qed

theorem peer_tags_distinct:
  assumes "wp_id p = Some (CHR ''*'' # h)" "h \<noteq> []" "list_all tag_char h"
    and "wp_id q = Some (CHR ''*'' # k)" "k \<noteq> []" "list_all tag_char k"
  shows "peer_tag p = peer_tag q \<longleftrightarrow> wp_id p = wp_id q"
  using assms by (simp add: tag_of_handle)

section \<open>Witnesses\<close>

definition demo_peer :: "string \<Rightarrow> WgPeer" where
  "demo_peer i = \<lparr>wp_id = Some i, wp_interface = ''wg0'', wp_public_key = None, wp_allowed_address = Some ''10.10.10.5/32'',
     wp_endpoint_address = None, wp_endpoint_port = None, wp_persistent_keepalive = None, wp_disabled = False, wp_comment = None\<rparr>"

theorem peer_tags_distinct_witness: "peer_tag (demo_peer ''*4'') \<noteq> peer_tag (demo_peer ''*1A'')"
  using peer_tags_distinct [of "demo_peer ''*4''" "''4''" "demo_peer ''*1A''" "''1A''"]
  by (simp add: demo_peer_def tag_char_def Let_def)


definition demo_config :: config_modal where
  "demo_config = (open_config (demo_peer ''*4''))\<lparr>cm_endpoint := ''vpn.example.com'', cm_extraCidrs := ''172.16.0.0/12''\<rparr>"

theorem config_request_faithful_witness:
  "\<forall>E. words_by cidr_sep (wcr_allowed_ips (config_request demo_config)) =
     [''0.0.0.0/0'', ''::/0''] @ words_by cidr_sep ''172.16.0.0/12'' \<and>
     submit_config E ''d1'' ''*4'' False demo_config = Some (downloadWgClientConfig E ''d1'' ''*4'' (config_request demo_config))"
proof
  fix E
  have s: "submit_config E ''d1'' ''*4'' False demo_config = Some (downloadWgClientConfig E ''d1'' ''*4'' (config_request demo_config))"
    by (simp add: submit_config_def demo_config_def open_config_def demo_peer_def config_fields_ok_def config_check_def number_ok_def)
  have p: "cm_subnetPicks demo_config = [''0.0.0.0/0'', ''::/0'']" "cm_extraCidrs demo_config = ''172.16.0.0/12''"
    by (simp_all add: demo_config_def open_config_def)
  have "\<forall>w\<in>set (cm_subnetPicks demo_config). clean_cidr w" by (simp add: p clean_cidr_def cidr_sep_def is_ws_def)
  from config_request_faithful [OF s this] s show "words_by cidr_sep (wcr_allowed_ips (config_request demo_config)) =
     [''0.0.0.0/0'', ''::/0''] @ words_by cidr_sep ''172.16.0.0/12'' \<and>
     submit_config E ''d1'' ''*4'' False demo_config = Some (downloadWgClientConfig E ''d1'' ''*4'' (config_request demo_config))"
    by (simp only: p simp_thms)
qed

end
