(* ===== verification/User_Page.thy ===== *)
theory User_Page
  imports Fleet Admin_Api Toast
begin

text \<open>
  The user screens (\<open>users/page.tsx\<close> and \<open>users/[id]/page.tsx\<close>): inviting a user, the
  switches and the password of a user, and granting a role on a tree of tenants, sites and
  devices, where a ticked node stands for everything below it.
\<close>

section \<open>Inviting a user\<close>

record user_form =
  ui_email :: string
  ui_displayName :: string
  ui_mobile :: string
  ui_autoGenerate :: bool
  ui_password :: string
  ui_isAdmin :: bool
  ui_roleIds :: "string list"
  ui_error :: "string option"
  ui_generated :: "(string \<times> string) option"
  ui_closed :: bool

definition new_user_form :: user_form where
  "new_user_form = \<lparr>ui_email = [], ui_displayName = [], ui_mobile = [], ui_autoGenerate = True, ui_password = [],
     ui_isAdmin = False, ui_roleIds = [], ui_error = None, ui_generated = None, ui_closed = False\<rparr>"

definition toggleRole :: "string \<Rightarrow> bool \<Rightarrow> user_form \<Rightarrow> user_form" where
  "toggleRole i on f = f\<lparr>ui_roleIds := (if on then jset_add i (ui_roleIds f) else jset_delete i (ui_roleIds f))\<rparr>"

definition user_payload :: "user_form \<Rightarrow> UserCreate" where
  "user_payload f = \<lparr>uc_email = ui_email f, uc_display_name = ui_displayName f,
     uc_password = (if ui_autoGenerate f then Null else Val (ui_password f)), uc_mobile_phone = nul (trim (ui_mobile f)),
     uc_is_admin = Val (ui_isAdmin f), uc_role_ids = Val (ui_roleIds f)\<rparr>"

definition submit_user :: "user_form \<Rightarrow> user_form \<times> UserCreate option" where
  "submit_user f =
     (if \<not> ui_autoGenerate f \<and> length (ui_password f) < 12
      then (f\<lparr>ui_error := Some ''Password must be at least 12 characters.''\<rparr>, None)
      else (f\<lparr>ui_error := None\<rparr>, Some (user_payload f)))"

definition user_invited :: "bool \<Rightarrow> string option \<Rightarrow> user_form \<times> toasts \<Rightarrow> user_form \<times> toasts" where
  "user_invited email_sent generated_password s =
     (let f = fst s
      in if email_sent then (f\<lparr>ui_closed := True\<rparr>, push Success ''Invite emailed'' (Some (ui_email f)) (snd s))
         else if truthy_str generated_password
         then (f\<lparr>ui_generated := Some (the generated_password, ui_email f)\<rparr>, snd s)
         else (f\<lparr>ui_closed := True\<rparr>, push Success ''User created'' (Some (ui_email f)) (snd s)))"

definition close_generated :: "user_form \<Rightarrow> user_form" where
  "close_generated f = (if ui_generated f \<noteq> None then f\<lparr>ui_generated := None, ui_closed := True\<rparr> else f)"

section \<open>Switches and password\<close>

definition isSelf :: "string option \<Rightarrow> string \<Rightarrow> bool" where
  "isSelf me i \<longleftrightarrow> me = Some i"

definition no_update :: UserUpdate where
  "no_update = \<lparr>uu_display_name = Undefined, uu_mobile_phone = Undefined, uu_is_active = Undefined, uu_is_admin = Undefined\<rparr>"

definition press_admin :: "env \<Rightarrow> string option \<Rightarrow> string \<Rightarrow> bool \<Rightarrow> bool \<Rightarrow> json call option" where
  "press_admin E me i is_admin pending =
     (if pending \<or> isSelf me i then None else Some (updateUser E i (no_update\<lparr>uu_is_admin := Val (\<not> is_admin)\<rparr>)))"

definition press_active :: "env \<Rightarrow> string option \<Rightarrow> string \<Rightarrow> bool \<Rightarrow> bool \<Rightarrow> json call option" where
  "press_active E me i is_active pending =
     (if pending \<or> isSelf me i then None else Some (updateUser E i (no_update\<lparr>uu_is_active := Val (\<not> is_active)\<rparr>)))"

definition revoke_assignment :: "env \<Rightarrow> string \<Rightarrow> bool \<Rightarrow> string \<Rightarrow> unit call option" where
  "revoke_assignment E i yes aid = (if yes then Some (deleteAssignment E i aid) else None)"

definition reset_password :: "env \<Rightarrow> string \<Rightarrow> bool \<Rightarrow> string \<Rightarrow> (string + unit call) option" where
  "reset_password E i pending pw =
     (if pending then None
      else Some (if length pw < 12 then Inl ''Password must be at least 12 characters.'' else Inr (resetUserPassword E i pw)))"

text \<open>An assignment that expires at this very moment counts as expired.\<close>

definition assignment_expired :: "int option \<Rightarrow> int \<Rightarrow> bool" where
  "assignment_expired expires_at now = (case expires_at of None \<Rightarrow> False | Some t \<Rightarrow> t \<le> now)"

section \<open>The tree of scopes\<close>

definition by_name :: "(string \<Rightarrow> string \<Rightarrow> int) \<Rightarrow> ('a \<Rightarrow> string) \<Rightarrow> 'a list \<Rightarrow> 'a list" where
  "by_name lc f xs = sort_by (\<lambda>a b. lc (f a) (f b)) xs"

lemma set_by_name [simp]: "set (by_name lc f xs) = set xs"
  by (simp add: by_name_def)

definition scope_tree :: "(string \<Rightarrow> string \<Rightarrow> int) \<Rightarrow> Tenant list \<Rightarrow> Site list \<Rightarrow> Device list
    \<Rightarrow> (Tenant \<times> (Site \<times> Device list) list) list" where
  "scope_tree lc tenants sites devices =
     map (\<lambda>t. (t, map (\<lambda>s. (s, by_name lc d_name (get_list (by_key d_site_id devices) (st_id s))))
         (by_name lc st_name (get_list (by_key st_tenant_id sites) (tn_id t)))))
       (by_name lc tn_name tenants)"

record assign_form =
  af_roleId :: string
  af_organization :: bool
  af_tenantPicks :: "string list"
  af_sitePicks :: "string list"
  af_devicePicks :: "string list"
  af_error :: "string option"

definition new_assign_form :: "string list \<Rightarrow> assign_form" where
  "new_assign_form roles = \<lparr>af_roleId = (case roles of [] \<Rightarrow> [] | r # _ \<Rightarrow> r), af_organization = True, af_tenantPicks = [],
     af_sitePicks = [], af_devicePicks = [], af_error = None\<rparr>"

definition toggle_pick :: "string list \<Rightarrow> string \<Rightarrow> bool \<Rightarrow> string list" where
  "toggle_pick picks v on = (if on then jset_add v picks else jset_delete v picks)"

definition tenant_scope :: "string \<Rightarrow> AssignmentBulkScope" where
  "tenant_scope i = \<lparr>abs_scope_type = ''tenant'', abs_scope_id = Val i\<rparr>"

definition site_scope :: "string \<Rightarrow> AssignmentBulkScope" where
  "site_scope i = \<lparr>abs_scope_type = ''site'', abs_scope_id = Val i\<rparr>"

definition device_scope :: "string \<Rightarrow> AssignmentBulkScope" where
  "device_scope i = \<lparr>abs_scope_type = ''device'', abs_scope_id = Val i\<rparr>"

fun site_scopes :: "assign_form \<Rightarrow> Site \<times> Device list \<Rightarrow> AssignmentBulkScope list" where
  "site_scopes f (s, ds) =
     (if st_id s \<in> set (af_sitePicks f) then [site_scope (st_id s)]
      else map (\<lambda>d. device_scope (d_id d)) (filter (\<lambda>d. d_id d \<in> set (af_devicePicks f)) ds))"

fun tenant_scopes :: "assign_form \<Rightarrow> Tenant \<times> (Site \<times> Device list) list \<Rightarrow> AssignmentBulkScope list" where
  "tenant_scopes f (t, sns) =
     (if tn_id t \<in> set (af_tenantPicks f) then [tenant_scope (tn_id t)] else concat (map (site_scopes f) sns))"

definition coalescedScopes :: "(Tenant \<times> (Site \<times> Device list) list) list \<Rightarrow> assign_form \<Rightarrow> AssignmentBulkScope list" where
  "coalescedScopes tree f = concat (map (tenant_scopes f) tree)"

definition totalChildrenCovered :: "(Tenant \<times> (Site \<times> Device list) list) list \<Rightarrow> assign_form \<Rightarrow> nat" where
  "totalChildrenCovered tree f =
     sum_list (map (\<lambda>(t, sns).
       if tn_id t \<in> set (af_tenantPicks f) then length sns + sum_list (map (length \<circ> snd) sns)
       else sum_list (map (\<lambda>(s, ds). if st_id s \<in> set (af_sitePicks f) then length ds else 0) sns)) tree)"

definition assign_payload :: "(Tenant \<times> (Site \<times> Device list) list) list \<Rightarrow> assign_form \<Rightarrow> AssignmentBulkCreate" where
  "assign_payload tree f = \<lparr>abc_role_id = af_roleId f,
     abc_scopes = (if af_organization f then [\<lparr>abs_scope_type = ''organization'', abs_scope_id = Null\<rparr>]
       else coalescedScopes tree f)\<rparr>"

definition canSubmit_assign :: "(Tenant \<times> (Site \<times> Device list) list) list \<Rightarrow> bool \<Rightarrow> assign_form \<Rightarrow> bool" where
  "canSubmit_assign tree pending f \<longleftrightarrow>
     af_roleId f \<noteq> [] \<and> (af_organization f \<or> coalescedScopes tree f \<noteq> []) \<and> \<not> pending"

definition submit_assign :: "env \<Rightarrow> string \<Rightarrow> (Tenant \<times> (Site \<times> Device list) list) list \<Rightarrow> bool \<Rightarrow> assign_form \<Rightarrow> json call option" where
  "submit_assign E user tree pending f =
     (if canSubmit_assign tree pending f then Some (bulkCreateAssignments E user (assign_payload tree f)) else None)"

definition assigned :: "assign_form \<Rightarrow> assign_form" where
  "assigned f = f\<lparr>af_error := None, af_tenantPicks := [], af_sitePicks := [], af_devicePicks := []\<rparr>"

section \<open>What a grant reaches\<close>

text \<open>The devices a scope reaches: the device itself, those of the site, those of the sites of the tenant.\<close>

definition reaches_device :: "Site list \<Rightarrow> AssignmentBulkScope \<Rightarrow> Device \<Rightarrow> bool" where
  "reaches_device sites sc d \<longleftrightarrow>
     (sc = device_scope (d_id d)) \<or> (sc = site_scope (d_site_id d)) \<or>
     (\<exists>s\<in>set sites. st_id s = d_site_id d \<and> sc = tenant_scope (st_tenant_id s))"

text \<open>What the ticks mean without coalescing: the device, its site or the tenant of its site is ticked.\<close>

definition ticked :: "Tenant list \<Rightarrow> Site list \<Rightarrow> assign_form \<Rightarrow> Device \<Rightarrow> bool" where
  "ticked tenants sites f d \<longleftrightarrow>
     (\<exists>s\<in>set sites. \<exists>t\<in>set tenants. st_id s = d_site_id d \<and> tn_id t = st_tenant_id s \<and>
        (tn_id t \<in> set (af_tenantPicks f) \<or> st_id s \<in> set (af_sitePicks f) \<or> d_id d \<in> set (af_devicePicks f)))"

lemma scope_inject [simp]:
  "tenant_scope i = tenant_scope j \<longleftrightarrow> i = j" "site_scope i = site_scope j \<longleftrightarrow> i = j"
  "device_scope i = device_scope j \<longleftrightarrow> i = j" "tenant_scope i \<noteq> site_scope j" "site_scope j \<noteq> tenant_scope i"
  "tenant_scope i \<noteq> device_scope j" "device_scope j \<noteq> tenant_scope i" "site_scope i \<noteq> device_scope j"
  "device_scope j \<noteq> site_scope i"
  by (simp_all add: tenant_scope_def site_scope_def device_scope_def)

text \<open>The scopes that are sent, level by level: nothing below a ticked node is sent.\<close>

lemma set_coalesced:
  "set (coalescedScopes (scope_tree lc ts ss ds) f) =
     (\<Union>t\<in>set ts. if tn_id t \<in> set (af_tenantPicks f) then {tenant_scope (tn_id t)}
        else (\<Union>s\<in>{s \<in> set ss. st_tenant_id s = tn_id t}. if st_id s \<in> set (af_sitePicks f) then {site_scope (st_id s)}
          else (\<lambda>d. device_scope (d_id d)) ` {d \<in> set ds. d_site_id d = st_id s \<and> d_id d \<in> set (af_devicePicks f)}))"
  by (simp add: coalescedScopes_def scope_tree_def)

lemma coalesced_tenant:
  "tenant_scope i \<in> set (coalescedScopes (scope_tree lc ts ss ds) f) \<longleftrightarrow>
     (\<exists>t\<in>set ts. tn_id t = i \<and> i \<in> set (af_tenantPicks f))"
  by (auto simp: set_coalesced split: if_splits)

lemma coalesced_site:
  "site_scope i \<in> set (coalescedScopes (scope_tree lc ts ss ds) f) \<longleftrightarrow>
     (\<exists>t\<in>set ts. \<exists>s\<in>set ss. st_tenant_id s = tn_id t \<and> tn_id t \<notin> set (af_tenantPicks f) \<and>
        st_id s = i \<and> i \<in> set (af_sitePicks f))"
  by (auto simp: set_coalesced split: if_splits)

lemma coalesced_device:
  "device_scope i \<in> set (coalescedScopes (scope_tree lc ts ss ds) f) \<longleftrightarrow>
     (\<exists>t\<in>set ts. \<exists>s\<in>set ss. \<exists>d\<in>set ds. st_tenant_id s = tn_id t \<and> tn_id t \<notin> set (af_tenantPicks f) \<and>
        d_site_id d = st_id s \<and> st_id s \<notin> set (af_sitePicks f) \<and> d_id d = i \<and> i \<in> set (af_devicePicks f))"
  by (auto simp: set_coalesced split: if_splits) blast

lemma same_id: "distinct (map f xs) \<Longrightarrow> x \<in> set xs \<Longrightarrow> y \<in> set xs \<Longrightarrow> f x = f y \<Longrightarrow> x = y"
  by (simp add: distinct_map inj_on_def)

lemma coalesced_reaches:
  assumes "distinct (map d_id ds)" "d \<in> set ds"
  shows "(\<exists>sc\<in>set (coalescedScopes (scope_tree lc ts ss ds) f). reaches_device ss sc d) \<longleftrightarrow> ticked ts ss f d"
proof -
  have "(\<exists>sc\<in>set (coalescedScopes (scope_tree lc ts ss ds) f). reaches_device ss sc d) \<longleftrightarrow>
      device_scope (d_id d) \<in> set (coalescedScopes (scope_tree lc ts ss ds) f) \<or>
      site_scope (d_site_id d) \<in> set (coalescedScopes (scope_tree lc ts ss ds) f) \<or>
      (\<exists>s\<in>set ss. st_id s = d_site_id d \<and> tenant_scope (st_tenant_id s) \<in> set (coalescedScopes (scope_tree lc ts ss ds) f))"
    by (auto simp: reaches_device_def)
  also have "\<dots> \<longleftrightarrow> ticked ts ss f d"
  proof
    assume "ticked ts ss f d"
    then show "device_scope (d_id d) \<in> set (coalescedScopes (scope_tree lc ts ss ds) f) \<or>
      site_scope (d_site_id d) \<in> set (coalescedScopes (scope_tree lc ts ss ds) f) \<or>
      (\<exists>s\<in>set ss. st_id s = d_site_id d \<and> tenant_scope (st_tenant_id s) \<in> set (coalescedScopes (scope_tree lc ts ss ds) f))"
      unfolding coalesced_tenant coalesced_site coalesced_device ticked_def using assms(2) by metis
  qed (use same_id [OF assms(1) _ assms(2)] in
      \<open>auto simp: coalesced_tenant coalesced_site coalesced_device ticked_def; metis\<close>)
  finally show ?thesis .
qed

lemma coalesced_apart:
  assumes "distinct (map d_id ds)" "distinct (map st_id ss)" "d \<in> set ds"
    and "sc \<in> set (coalescedScopes (scope_tree lc ts ss ds) f)" "reaches_device ss sc d"
    and "sc' \<in> set (coalescedScopes (scope_tree lc ts ss ds) f)" "reaches_device ss sc' d"
  shows "sc = sc'"
proof -
  define C where "C = set (coalescedScopes (scope_tree lc ts ss ds) f)"
  have d: "e = d" if "e \<in> set ds" "d_id e = d_id d" for e using same_id assms(1,3) that by metis
  have s: "s = s'" if "s \<in> set ss" "s' \<in> set ss" "st_id s = st_id s'" for s s' using same_id assms(2) that by metis
  have dev: "site_scope (d_site_id d) \<notin> C \<and> (\<forall>s\<in>set ss. st_id s = d_site_id d \<longrightarrow> tenant_scope (st_tenant_id s) \<notin> C)"
    if "device_scope (d_id d) \<in> C"
    using that d s unfolding C_def coalesced_tenant coalesced_site coalesced_device by metis
  have site: "\<forall>s\<in>set ss. st_id s = d_site_id d \<longrightarrow> tenant_scope (st_tenant_id s) \<notin> C" if "site_scope (d_site_id d) \<in> C"
    using that s unfolding C_def coalesced_tenant coalesced_site by metis
  from assms(4-7) dev site s show ?thesis unfolding reaches_device_def C_def [symmetric] by metis
qed

text \<open>
  C18. Coalescing changes nothing: a device is reached by the scopes that are sent exactly when it,
  its site or its tenant is ticked. And it leaves nothing to coalesce: no scope that is sent
  lies below another one.
\<close>

theorem coalescing_exact:
  assumes "distinct (map d_id ds)" "distinct (map st_id ss)" "d \<in> set ds"
  shows "((\<exists>sc\<in>set (coalescedScopes (scope_tree lc ts ss ds) f). reaches_device ss sc d) \<longleftrightarrow> ticked ts ss f d) \<and>
    (\<forall>sc\<in>set (coalescedScopes (scope_tree lc ts ss ds) f). \<forall>sc'\<in>set (coalescedScopes (scope_tree lc ts ss ds) f).
       reaches_device ss sc d \<longrightarrow> reaches_device ss sc' d \<longrightarrow> sc = sc')"
  using coalesced_reaches [OF assms(1,3)] coalesced_apart [OF assms] by blast

section \<open>Invitations\<close>

text \<open>
  An invitation carries a password only when the inviter chose to type one, and then one of at
  least twelve characters. A password the server made and could not mail is shown, with the
  form kept open until it is closed; in every other case the form is done.
\<close>

theorem invite_password_handled:
  "(\<forall>u. snd (submit_user f) = Some u \<longrightarrow> (uc_password u = Null \<and> ui_autoGenerate f) \<or>
      (\<exists>p. uc_password u = Val p \<and> 12 \<le> length p \<and> \<not> ui_autoGenerate f)) \<and>
   (ui_generated (fst (user_invited sent gen (f, t))) =
      (if \<not> sent \<and> truthy_str gen then Some (the gen, ui_email f) else ui_generated f)) \<and>
   (\<not> ui_closed f \<longrightarrow> (ui_closed (fst (user_invited sent gen (f, t))) \<longleftrightarrow> sent \<or> \<not> truthy_str gen)) \<and>
   (\<not> sent \<and> truthy_str gen \<longrightarrow> ui_closed (close_generated (fst (user_invited sent gen (f, t)))))"
  by (auto simp: submit_user_def user_payload_def user_invited_def close_generated_def Let_def split: if_splits)

text \<open>
  Whoever is signed in cannot take the own rights or account away here once the page knows who
  that is; before that the two buttons are there.
\<close>

lemma own_switches: "press_admin E (Some i) i a pending = None" "press_active E (Some i) i a pending = None"
    "press_admin E None i a False \<noteq> None"
  by (simp_all add: press_admin_def press_active_def isSelf_def)

section \<open>Witnesses\<close>

definition site_ticked :: assign_form where
  "site_ticked = (new_assign_form [''r1''])\<lparr>af_organization := False, af_sitePicks := [st_id demo_site],
     af_devicePicks := [d_id demo_device]\<rparr>"

theorem coalescing_exact_witness:
  "(\<exists>sc\<in>set (coalescedScopes (scope_tree (\<lambda>_ _. 0) [demo_tenant] [demo_site] [demo_device]) site_ticked).
      reaches_device [demo_site] sc demo_device) \<and>
   coalescedScopes (scope_tree (\<lambda>_ _. 0) [demo_tenant] [demo_site] [demo_device]) site_ticked = [site_scope (st_id demo_site)]"
proof
  have "ticked [demo_tenant] [demo_site] site_ticked demo_device"
    by (simp add: ticked_def site_ticked_def new_assign_form_def demo_tenant_def demo_site_def demo_device_def)
  moreover have "distinct (map d_id [demo_device])" "distinct (map st_id [demo_site])" "demo_device \<in> set [demo_device]" by simp_all
  ultimately show "\<exists>sc\<in>set (coalescedScopes (scope_tree (\<lambda>_ _. 0) [demo_tenant] [demo_site] [demo_device]) site_ticked).
      reaches_device [demo_site] sc demo_device"
    using coalescing_exact [THEN conjunct1] by blast
  show "coalescedScopes (scope_tree (\<lambda>_ _. 0) [demo_tenant] [demo_site] [demo_device]) site_ticked = [site_scope (st_id demo_site)]"
    by (simp add: coalescedScopes_def scope_tree_def by_name_def sort_by_def site_ticked_def new_assign_form_def demo_tenant_def
        demo_site_def demo_device_def)
qed

theorem invite_password_handled_witness:
  "ui_generated (fst (user_invited False (Some ''s3cret'') (new_user_form, \<lparr>items = [], idRef = 0\<rparr>))) = Some (''s3cret'', [])"
  using invite_password_handled [of new_user_form False "Some ''s3cret''"] by (simp add: new_user_form_def)

end
