(* ===== verification/Access_Page.thy ===== *)
theory Access_Page
  imports Admin_Api Format
begin

text \<open>
  Asking for access (\<open>access-requests/page.tsx\<close>, \<open>access-requests/[id]/page.tsx\<close>,
  \<open>components/request-access-button.tsx\<close>): the directory of tenants, sites and devices with its
  filter, sending, deciding and cancelling a request; and the bell of
  \<open>components/notification-bell.tsx\<close>.
\<close>

section \<open>The directory\<close>

record DirectoryDeviceNode =
  dd_id :: string
  dd_name :: string
  dd_has_access :: bool

record DirectorySiteNode =
  dsn_id :: string
  dsn_name :: string
  dsn_has_access :: bool
  dsn_devices :: "DirectoryDeviceNode list"

record DirectoryTenantNode =
  dtn_id :: string
  dtn_name :: string
  dtn_has_access :: bool
  dtn_sites :: "DirectorySiteNode list"

definition name_has :: "string \<Rightarrow> string \<Rightarrow> bool" where
  "name_has needle name = str_includes (toLowerCase name) needle"

definition dir_devices :: "bool \<Rightarrow> string \<Rightarrow> string \<Rightarrow> DirectorySiteNode \<Rightarrow> DirectoryDeviceNode list" where
  "dir_devices only needle tn s =
     filter (\<lambda>d. \<not> (only \<and> dd_has_access d) \<and>
       (needle = [] \<or> name_has needle (dd_name d) \<or> name_has needle (dsn_name s) \<or> name_has needle tn)) (dsn_devices s)"

definition dir_site :: "bool \<Rightarrow> string \<Rightarrow> string \<Rightarrow> DirectorySiteNode \<Rightarrow> DirectorySiteNode option" where
  "dir_site only needle tn s =
     (let devices = dir_devices only needle tn s;
          sMatches = (needle = [] \<or> name_has needle (dsn_name s) \<or> name_has needle tn)
      in if only \<and> dsn_has_access s \<and> devices = [] then None
         else if \<not> sMatches \<and> devices = [] then None
         else Some (s\<lparr>dsn_devices := devices\<rparr>))"

definition dir_tenant :: "bool \<Rightarrow> string \<Rightarrow> DirectoryTenantNode \<Rightarrow> DirectoryTenantNode option" where
  "dir_tenant only needle t =
     (let sites = List.map_filter (dir_site only needle (dtn_name t)) (dtn_sites t);
          tMatches = (needle = [] \<or> name_has needle (dtn_name t))
      in if only \<and> dtn_has_access t \<and> sites = [] then None
         else if \<not> tMatches \<and> sites = [] then None
         else Some (t\<lparr>dtn_sites := sites\<rparr>))"

definition filteredTenants :: "DirectoryTenantNode list option \<Rightarrow> string \<Rightarrow> bool \<Rightarrow> DirectoryTenantNode list" where
  "filteredTenants directory txt only =
     (case directory of None \<Rightarrow> [] | Some ts \<Rightarrow> List.map_filter (dir_tenant only (toLowerCase (trim txt))) ts)"

section \<open>Requests\<close>

definition list_requests :: "env \<Rightarrow> string \<Rightarrow> json call" where
  "list_requests E statusFilter = listAccessRequests E (if statusFilter = ''all'' then None else Some statusFilter)"

definition send_request :: "env \<Rightarrow> bool \<Rightarrow> string \<Rightarrow> string \<Rightarrow> string \<Rightarrow> json call option" where
  "send_request E pending scopeType scopeId reason =
     (if pending then None
      else Some (createAccessRequest E \<lparr>arc_scope_type = scopeType, arc_scope_id = scopeId, arc_reason = nul (trim reason)\<rparr>))"

text \<open>Who may press what: the requester cancels, an administrator decides, both only while pending.\<close>

definition can_cancel :: "string \<Rightarrow> string \<Rightarrow> string \<Rightarrow> bool" where
  "can_cancel me requester status \<longleftrightarrow> me = requester \<and> status = ''pending''"

definition can_decide :: "bool \<Rightarrow> bool \<Rightarrow> string \<Rightarrow> bool" where
  "can_decide is_admin roles_read status \<longleftrightarrow> is_admin \<and> status = ''pending'' \<and> roles_read"

definition cancel_request :: "env \<Rightarrow> string \<Rightarrow> bool \<Rightarrow> json call option" where
  "cancel_request E i yes = (if yes then Some (cancelAccessRequest E i) else None)"

record decide_card =
  de_roleIds :: "string list"
  de_expiresAt :: string
  de_note :: string
  de_error :: "string option"
  de_pending :: bool
  de_sent :: "(AccessRequestApprove + AccessRequestDeny) list"

definition new_decision :: decide_card where
  "new_decision = \<lparr>de_roleIds = [], de_expiresAt = [], de_note = [], de_error = None, de_pending = False, de_sent = []\<rparr>"

text \<open>
  \<open>new Date(v).toISOString()\<close> is the argument \<open>to_iso\<close>; it throws for a text that is no time,
  before anything is sent.
\<close>

definition approve_payload :: "(string \<Rightarrow> string option) \<Rightarrow> decide_card \<Rightarrow> AccessRequestApprove option" where
  "approve_payload to_iso c =
     (if de_expiresAt c = [] then Some \<lparr>ara_role_ids = de_roleIds c, ara_expires_at = Null, ara_note = nul (trim (de_note c))\<rparr>
      else map_option (\<lambda>t. \<lparr>ara_role_ids = de_roleIds c, ara_expires_at = Val t, ara_note = nul (trim (de_note c))\<rparr>)
        (to_iso (de_expiresAt c)))"

datatype decide_event =
  TickRole string bool | TypeExpiry string | TypeNote string | Approve | Deny | Refused string | Decided

fun decide_act :: "(string \<Rightarrow> string option) \<Rightarrow> string set \<Rightarrow> decide_event \<Rightarrow> decide_card \<Rightarrow> decide_card" where
  "decide_act to_iso roles (TickRole r on) c =
     (if r \<in> roles then c\<lparr>de_roleIds := (if on then jset_add r (de_roleIds c) else jset_delete r (de_roleIds c))\<rparr> else c)"
| "decide_act to_iso roles (TypeExpiry v) c = c\<lparr>de_expiresAt := v\<rparr>"
| "decide_act to_iso roles (TypeNote v) c = c\<lparr>de_note := v\<rparr>"
| "decide_act to_iso roles Approve c =
     (if de_pending c then c
      else if de_roleIds c = [] then c\<lparr>de_error := Some ''Pick at least one role to grant.''\<rparr>
      else (case approve_payload to_iso c of
          None \<Rightarrow> c\<lparr>de_error := Some ''Invalid time value''\<rparr>
        | Some p \<Rightarrow> c\<lparr>de_error := None, de_pending := True, de_sent := de_sent c @ [Inl p]\<rparr>))"
| "decide_act to_iso roles Deny c =
     (if de_pending c then c
      else c\<lparr>de_error := None, de_pending := True, de_sent := de_sent c @ [Inr \<lparr>ard_note = nul (trim (de_note c))\<rparr>]\<rparr>)"
| "decide_act to_iso roles (Refused m) c = (if de_pending c then c\<lparr>de_pending := False, de_error := Some m\<rparr> else c)"
| "decide_act to_iso roles Decided c = (if de_pending c then c\<lparr>de_pending := False\<rparr> else c)"

section \<open>The bell\<close>

text \<open>Opening it marks what is unread as read; closing it does nothing.\<close>

definition bell_toggle :: "nat option \<Rightarrow> bool \<Rightarrow> bool \<times> bool" where
  "bell_toggle unread opened =
     (let next = (\<not> opened) in (next, next \<and> (case unread of None \<Rightarrow> False | Some n \<Rightarrow> n > 0)))"

definition bell_badge :: "nat option \<Rightarrow> string option" where
  "bell_badge unread = (case unread of None \<Rightarrow> None
     | Some n \<Rightarrow> if n = 0 then None else Some (if n > 9 then ''9+'' else show_nat n))"

definition formatRelative_bell :: "(string \<Rightarrow> int) \<Rightarrow> (string \<Rightarrow> string) \<Rightarrow> int \<Rightarrow> string \<Rightarrow> string" where
  "formatRelative_bell parse local_date now stamp =
     (let diff = max 0 (now - parse stamp); mins = diff div 60000
      in if mins < 1 then ''just now''
         else if mins < 60 then show_int mins @ ''m ago''
         else let hours = mins div 60
              in if hours < 24 then show_int hours @ ''h ago''
                 else let days = hours div 24
                      in if days < 30 then show_int days @ ''d ago'' else local_date stamp)"

section \<open>What the directory shows\<close>

text \<open>The devices of a directory with the names of their tenant and site, in order.\<close>

definition dir_flat :: "DirectoryTenantNode list \<Rightarrow> (string \<times> string \<times> DirectoryDeviceNode) list" where
  "dir_flat ts = concat (map (\<lambda>t. concat (map (\<lambda>s. map (\<lambda>d. (dtn_name t, dsn_name s, d)) (dsn_devices s)) (dtn_sites t))) ts)"

definition dir_matches :: "bool \<Rightarrow> string \<Rightarrow> string \<times> string \<times> DirectoryDeviceNode \<Rightarrow> bool" where
  "dir_matches only needle x = (case x of (tn, sn, d) \<Rightarrow>
     \<not> (only \<and> dd_has_access d) \<and>
     (needle = [] \<or> name_has needle (dd_name d) \<or> name_has needle sn \<or> name_has needle tn))"

lemma map_filter_Cons: "List.map_filter f (x # xs) = (case f x of None \<Rightarrow> [] | Some y \<Rightarrow> [y]) @ List.map_filter f xs"
  by (simp split: option.split)

lemma dir_sites_flat:
  "concat (map (\<lambda>s. map (\<lambda>d. (tn, dsn_name s, d)) (dsn_devices s)) (List.map_filter (dir_site only needle tn) ss)) =
   filter (dir_matches only needle) (concat (map (\<lambda>s. map (\<lambda>d. (tn, dsn_name s, d)) (dsn_devices s)) ss))"
proof (induction ss)
  case (Cons s ss)
  have "concat (map (\<lambda>s. map (\<lambda>d. (tn, dsn_name s, d)) (dsn_devices s))
      (case dir_site only needle tn s of None \<Rightarrow> [] | Some y \<Rightarrow> [y])) =
      filter (dir_matches only needle) (map (\<lambda>d. (tn, dsn_name s, d)) (dsn_devices s))"
    by (auto simp: dir_site_def dir_devices_def dir_matches_def filter_map comp_def Let_def)
  with Cons.IH show ?case unfolding map_filter_Cons by simp
qed simp

lemma in_map_filter: "y \<in> set (List.map_filter f xs) \<Longrightarrow> \<exists>x\<in>set xs. f x = Some y"
  by (auto simp: List.map_filter_def)

lemma dir_site_kept: "dir_site True needle tn s = Some s' \<Longrightarrow> dsn_has_access s' \<Longrightarrow> dsn_devices s' \<noteq> []"
  by (auto simp: dir_site_def Let_def split: if_splits)

lemma dir_tenant_kept:
  assumes "dir_tenant True needle t = Some t'"
  shows "(dtn_has_access t' \<longrightarrow> dtn_sites t' \<noteq> []) \<and> (\<forall>s\<in>set (dtn_sites t'). dsn_has_access s \<longrightarrow> dsn_devices s \<noteq> [])"
proof -
  have t': "t' = t\<lparr>dtn_sites := List.map_filter (dir_site True needle (dtn_name t)) (dtn_sites t)\<rparr>"
    using assms by (simp add: dir_tenant_def Let_def split: if_splits)
  moreover have "dtn_has_access t \<longrightarrow> List.map_filter (dir_site True needle (dtn_name t)) (dtn_sites t) \<noteq> []"
    using assms by (auto simp: dir_tenant_def Let_def split: if_splits)
  ultimately show ?thesis using in_map_filter dir_site_kept by fastforce
qed

text \<open>
  The filter shows exactly the devices that match it, in their order: those whose name, or the
  name of their site or tenant, contains the text, and with the tick only those out of reach.
  With the tick, a site or tenant that can be reached is only there for something below it.
\<close>

theorem directory_filter_exact:
  "dir_flat (filteredTenants (Some ts) txt only) = filter (dir_matches only (toLowerCase (trim txt))) (dir_flat ts) \<and>
   (only \<longrightarrow> (\<forall>t\<in>set (filteredTenants (Some ts) txt only). (dtn_has_access t \<longrightarrow> dtn_sites t \<noteq> []) \<and>
      (\<forall>s\<in>set (dtn_sites t). dsn_has_access s \<longrightarrow> dsn_devices s \<noteq> [])))"
proof
  let ?n = "toLowerCase (trim txt)"
  show "dir_flat (filteredTenants (Some ts) txt only) = filter (dir_matches only ?n) (dir_flat ts)"
  proof (induction ts)
    case (Cons t ts)
    have "dir_flat (case dir_tenant only ?n t of None \<Rightarrow> [] | Some y \<Rightarrow> [y]) = filter (dir_matches only ?n) (dir_flat [t])"
      using dir_sites_flat [of "dtn_name t" only ?n "dtn_sites t"]
      by (auto simp: dir_tenant_def dir_flat_def Let_def)
    with Cons.IH show ?case
      unfolding filteredTenants_def option.case map_filter_Cons by (simp add: dir_flat_def)
  qed (simp add: filteredTenants_def dir_flat_def)
  show "only \<longrightarrow> (\<forall>t\<in>set (filteredTenants (Some ts) txt only). (dtn_has_access t \<longrightarrow> dtn_sites t \<noteq> []) \<and>
      (\<forall>s\<in>set (dtn_sites t). dsn_has_access s \<longrightarrow> dsn_devices s \<noteq> []))"
    using dir_tenant_kept by (fastforce simp: filteredTenants_def dest: in_map_filter)
qed

section \<open>Decisions\<close>

definition decision_ok :: "string set \<Rightarrow> AccessRequestApprove + AccessRequestDeny \<Rightarrow> bool" where
  "decision_ok roles r = (case r of
     Inl p \<Rightarrow> ara_role_ids p \<noteq> [] \<and> distinct (ara_role_ids p) \<and> set (ara_role_ids p) \<subseteq> roles | Inr _ \<Rightarrow> True)"

definition decide_inv :: "string set \<Rightarrow> decide_card \<Rightarrow> bool" where
  "decide_inv roles c \<longleftrightarrow> distinct (de_roleIds c) \<and> set (de_roleIds c) \<subseteq> roles \<and> (\<forall>r\<in>set (de_sent c). decision_ok roles r)"

lemma decide_inv_act: "decide_inv roles c \<Longrightarrow> decide_inv roles (decide_act to_iso roles e c)"
  by (cases e) (auto simp: decide_inv_def decision_ok_def approve_payload_def split: option.splits if_splits)

lemma decide_inv_fold: "decide_inv roles c \<Longrightarrow> decide_inv roles (fold (decide_act to_iso roles) es c)"
  by (induction es arbitrary: c) (simp_all add: decide_inv_act)

text \<open>
  Whatever is clicked, an approval grants at least one role, none twice and only roles on the
  list; and nothing is sent while an answer is awaited.
\<close>

theorem approvals_grant_listed_roles:
  "list_all (decision_ok roles) (de_sent (fold (decide_act to_iso roles) es new_decision)) \<and>
   (de_pending (fold (decide_act to_iso roles) es new_decision) \<longrightarrow>
      de_sent (fold (decide_act to_iso roles) (es @ [Approve, Deny]) new_decision) =
      de_sent (fold (decide_act to_iso roles) es new_decision))"
  using decide_inv_fold [of roles new_decision to_iso es]
  by (auto simp: decide_inv_def new_decision_def list_all_iff)

text \<open>The text of the bell is that of \<open>lib/time.ts\<close>, for a stamp that is a time.\<close>

lemma bell_relative: "s \<noteq> [] \<Longrightarrow> formatRelative_bell parse loc now s = formatRelative (Some \<circ> parse) loc now (Some s)"
  by (auto simp: formatRelative_bell_def formatRelative_def Let_def max_def)

lemma bell_quiet: "snd (bell_toggle None opened) = False" "snd (bell_toggle u True) = False"
  by (simp_all add: bell_toggle_def Let_def)

section \<open>Witnesses\<close>

definition demo_directory :: "DirectoryTenantNode list" where
  "demo_directory = [\<lparr>dtn_id = ''t1'', dtn_name = ''Acme'', dtn_has_access = True, dtn_sites =
     [\<lparr>dsn_id = ''s1'', dsn_name = ''HQ'', dsn_has_access = True, dsn_devices =
        [\<lparr>dd_id = ''d1'', dd_name = ''rtr1'', dd_has_access = True\<rparr>, \<lparr>dd_id = ''d2'', dd_name = ''rtr2'', dd_has_access = False\<rparr>]\<rparr>]\<rparr>]"

theorem directory_filter_exact_witness:
  "dir_flat (filteredTenants (Some demo_directory) [] True) = [(''Acme'', ''HQ'', \<lparr>dd_id = ''d2'', dd_name = ''rtr2'', dd_has_access = False\<rparr>)]"
  using directory_filter_exact [of demo_directory "[]" True, THEN conjunct1]
  by (simp add: dir_flat_def demo_directory_def dir_matches_def toLowerCase_def trim_def trimStart_def trimEnd_def)

theorem approvals_grant_listed_roles_witness:
  "list_all (decision_ok {''r1''}) (de_sent (fold (decide_act (\<lambda>_. None) {''r1''}) [TickRole ''r1'' True, Approve] new_decision))"
  using approvals_grant_listed_roles by blast

end
