(* ===== verification/Device_Shell.thy ===== *)
theory Device_Shell
  imports Format Inventory_Api
begin

text \<open>
  The frame around the pages of a device (\<open>devices/[id]/layout.tsx\<close>) with its tabs, and the
  firmware card of the overview (\<open>components/firmware-card.tsx\<close>) with the policy for automatic
  upgrades.
\<close>

section \<open>The tabs of a device\<close>

text \<open>The part of the address after that of the device, and the capabilities of which one is needed.\<close>

definition ALL_TABS :: "(string \<times> string list option) list" where
  "ALL_TABS = [
     ([], None),
     (''/services'', Some [''ip.service'']),
     (''/system-users'', Some [''system.user'']),
     (''/vpn'', Some [''ppp.secret'', ''vpn.wireguard.interface'', ''vpn.l2tp'']),
     (''/firewall'', Some [''firewall.filter'', ''firewall.nat'', ''firewall.ufw'']),
     (''/network'', Some [''interface.list'', ''ip.address'', ''ip.route'']),
     (''/dhcp'', Some [''dhcp.server'', ''dhcp.lease'']),
     (''/queues'', Some [''queue.simple'']),
     (''/storage'', Some [''disk.usage'']),
     (''/processes'', Some [''proc.list'']),
     (''/packages'', Some [''pkg.manager'']),
     (''/scheduled'', Some [''cron'']),
     (''/logs'', Some [''system.log'']),
     (''/system'', Some [''system.info'']),
     (''/backups'', Some [''system.backup''])]"

definition device_tabs :: "string set option \<Rightarrow> (string \<times> string list option) list" where
  "device_tabs caps = (case caps of None \<Rightarrow> ALL_TABS
     | Some cs \<Rightarrow> filter (\<lambda>t. case snd t of None \<Rightarrow> True | Some needs \<Rightarrow> \<exists>c\<in>set needs. c \<in> cs) ALL_TABS)"

definition device_base :: "string \<Rightarrow> string" where
  "device_base i = ''/dashboard/devices/'' @ i"

definition tab_active :: "string \<Rightarrow> string \<Rightarrow> string \<Rightarrow> bool" where
  "tab_active base pathname part =
     (if base @ part = base then pathname = base else startsWith pathname (base @ part))"

definition active_parts :: "string set option \<Rightarrow> string \<Rightarrow> string \<Rightarrow> string list" where
  "active_parts caps i pathname = filter (tab_active (device_base i) pathname) (map fst (device_tabs caps))"

definition device_address :: "string \<Rightarrow> string \<Rightarrow> int \<Rightarrow> int \<Rightarrow> string" where
  "device_address host cls port ssh_port = host @ '':'' @ show_int (if cls = ''server'' then ssh_port else port)"

section \<open>The firmware card\<close>

record FirmwareStatus =
  fs_current_version :: "string option"
  fs_available_version :: "string option"
  fs_channel :: "string option"
  fs_checked_at :: "string option"
  fs_routerboard_current :: "string option"
  fs_routerboard_available :: "string option"
  fs_needs_upgrade :: bool

definition press_upgrade :: "env \<Rightarrow> string \<Rightarrow> FirmwareStatus option \<Rightarrow> bool \<Rightarrow> bool \<Rightarrow> json call option" where
  "press_upgrade E dev fw yes pending =
     (case fw of None \<Rightarrow> None
      | Some d \<Rightarrow> if fs_needs_upgrade d \<and> \<not> pending \<and> yes then Some (triggerFirmwareUpgrade E dev routeros) else None)"

definition press_check :: "env \<Rightarrow> string \<Rightarrow> FirmwareStatus option \<Rightarrow> bool \<Rightarrow> json call option" where
  "press_check E dev fw pending = (if fw = None \<or> pending then None else Some (checkDeviceFirmware E dev))"

definition details_shown :: "string option \<Rightarrow> AutoUpgradePolicy option \<Rightarrow> bool" where
  "details_shown last_status policy \<longleftrightarrow>
     \<not> (\<not> truthy_str last_status \<and> \<not> (case policy of None \<Rightarrow> False | Some p \<Rightarrow> aup_enabled p) \<and> policy = None)"

subsection \<open>The policy\<close>

record policy_form =
  pl_initial :: "AutoUpgradePolicy option"
  pl_enabled :: bool
  pl_start :: string
  pl_end :: string
  pl_dirty :: bool
  pl_saving :: bool
  pl_sent :: "AutoUpgradePolicy list"

text \<open>An hour as it is read is a whole number.\<close>

definition hour_text :: "rat option \<Rightarrow> string" where
  "hour_text h = (case h of None \<Rightarrow> [] | Some x \<Rightarrow> show_int \<lfloor>x\<rfloor>)"

definition hydrate_policy :: "policy_form \<Rightarrow> policy_form" where
  "hydrate_policy f = (case pl_initial f of None \<Rightarrow> f
     | Some p \<Rightarrow> if pl_dirty f then f else f\<lparr>pl_enabled := aup_enabled p, pl_start := hour_text (aup_window_start_hour p),
         pl_end := hour_text (aup_window_end_hour p)\<rparr>)"

definition mount_policy :: "AutoUpgradePolicy option \<Rightarrow> policy_form" where
  "mount_policy initial = hydrate_policy \<lparr>pl_initial = initial, pl_enabled = False, pl_start = [], pl_end = [], pl_dirty = False,
     pl_saving = False, pl_sent = []\<rparr>"

text \<open>\<open>Number\<close> of what a number field holds, which is empty or a numeral.\<close>

definition policy_hour :: "(string \<Rightarrow> rat) \<Rightarrow> string \<Rightarrow> rat option" where
  "policy_hour num v = (if v = [] then None else Some (num v))"

definition policy_payload :: "(string \<Rightarrow> rat) \<Rightarrow> policy_form \<Rightarrow> AutoUpgradePolicy" where
  "policy_payload num f = \<lparr>aup_enabled = pl_enabled f, aup_window_start_hour = policy_hour num (pl_start f),
     aup_window_end_hour = policy_hour num (pl_end f)\<rparr>"

datatype policy_event =
  PolicyRead AutoUpgradePolicy | TickEnabled bool | TypeStart string | TypeEnd string | SavePolicy | PolicySaved | PolicyRefused

text \<open>The button stands outside any form: the browser checks none of the fields.\<close>

fun policy_act :: "(string \<Rightarrow> rat) \<Rightarrow> policy_event \<Rightarrow> policy_form \<Rightarrow> policy_form" where
  "policy_act num (PolicyRead p) f = hydrate_policy (f\<lparr>pl_initial := Some p\<rparr>)"
| "policy_act num (TickEnabled b) f = f\<lparr>pl_enabled := b, pl_dirty := True\<rparr>"
| "policy_act num (TypeStart v) f = f\<lparr>pl_start := v, pl_dirty := True\<rparr>"
| "policy_act num (TypeEnd v) f = f\<lparr>pl_end := v, pl_dirty := True\<rparr>"
| "policy_act num SavePolicy f =
     (if pl_dirty f \<and> \<not> pl_saving f then f\<lparr>pl_saving := True, pl_sent := pl_sent f @ [policy_payload num f]\<rparr> else f)"
| "policy_act num PolicySaved f = (if pl_saving f then hydrate_policy (f\<lparr>pl_saving := False, pl_dirty := False\<rparr>) else f)"
| "policy_act num PolicyRefused f = f\<lparr>pl_saving := False\<rparr>"

section \<open>One tab at a time\<close>

lemma active_append [simp]:
  "tab_active b (b @ x) y \<longleftrightarrow> (if y = [] then x = [] else startsWith x y)"
  by (simp add: tab_active_def startsWith_prefix)

lemma parts_apart:
  assumes "p \<in> fst ` set ALL_TABS" "q \<in> fst ` set ALL_TABS" "q \<noteq> []" "startsWith p q" "p \<noteq> ''/system-users''"
  shows "p = q"
proof -
  have "list_all (\<lambda>p. list_all (\<lambda>q. q = [] \<or> \<not> startsWith p q \<or> p = ''/system-users'' \<or> p = q) (map fst ALL_TABS)) (map fst ALL_TABS)"
    by code_simp
  with assms show ?thesis by (auto simp: list_all_iff)
qed

lemma filter_single: "distinct xs \<Longrightarrow> x \<in> set xs \<Longrightarrow> (\<And>y. y \<in> set xs \<Longrightarrow> P y \<longleftrightarrow> y = x) \<Longrightarrow> filter P xs = [x]"
  by (induction xs) (auto simp: filter_empty_conv)

lemma device_tabs_sub: "set (device_tabs caps) \<subseteq> set ALL_TABS" "distinct (map fst (device_tabs caps))"
proof -
  have "distinct (map fst ALL_TABS)" by (simp add: ALL_TABS_def)
  then show "distinct (map fst (device_tabs caps))"
    by (auto simp: device_tabs_def distinct_map_filter split: option.split)
qed (auto simp: device_tabs_def split: option.split)

text \<open>
  On the page of a tab exactly that tab is marked, whichever tabs the device has, with one
  exception: on the page of the device users the system tab is marked too, since the one
  address begins with the other.
\<close>

theorem one_tab_marked:
  "(\<forall>t\<in>set (device_tabs caps). fst t \<noteq> ''/system-users'' \<longrightarrow> active_parts caps i (device_base i @ fst t) = [fst t]) \<and>
   active_parts None i (device_base i @ ''/system-users'') = [''/system-users'', ''/system'']"
proof (intro conjI ballI impI)
  fix t assume t: "t \<in> set (device_tabs caps)" "fst t \<noteq> ''/system-users''"
  have "tab_active (device_base i) (device_base i @ fst t) q \<longleftrightarrow> q = fst t" if "q \<in> fst ` set (device_tabs caps)" for q
  proof -
    have "fst t \<in> fst ` set ALL_TABS" "q \<in> fst ` set ALL_TABS" using t(1) that device_tabs_sub(1) [of caps] by auto
    then show ?thesis using parts_apart [of "fst t" q] t(2) by (auto simp: startsWith_prefix)
  qed
  then show "active_parts caps i (device_base i @ fst t) = [fst t]"
    using t(1) device_tabs_sub(2) unfolding active_parts_def by (intro filter_single) auto
next
  show "active_parts None i (device_base i @ ''/system-users'') = [''/system-users'', ''/system'']"
    by (simp add: active_parts_def device_tabs_def ALL_TABS_def startsWith_prefix)
qed

section \<open>The policy form\<close>

definition hour_ok :: "rat option \<Rightarrow> bool" where
  "hour_ok h = (case h of None \<Rightarrow> True | Some x \<Rightarrow> 0 \<le> x \<and> x < 24 \<and> x = of_int \<lfloor>x\<rfloor>)"

lemma hour_reads_back:
  assumes "\<And>n. num (show_int n) = of_int n" "hour_ok h" "\<And>n. show_int n \<noteq> []"
  shows "policy_hour num (hour_text h) = h"
  using assms by (auto simp: policy_hour_def hour_text_def hour_ok_def split: option.splits)

lemma dirty_kept:
  assumes "pl_dirty f"
  shows "policy_payload num (fold (policy_act num) (map PolicyRead ps) f) = policy_payload num f"
proof -
  have "pl_dirty (fold (policy_act num) (map PolicyRead ps) f) \<and>
      policy_payload num (fold (policy_act num) (map PolicyRead ps) f) = policy_payload num f"
    using assms by (induction ps arbitrary: f) (auto simp: hydrate_policy_def policy_payload_def)
  then show ?thesis ..
qed

text \<open>
  The policy that is saved is the one on show: what was edited survives every refetch. But the
  hours are not checked before they are sent, and a save that succeeds shows the policy of
  before it until the next answer, dropping what was typed meanwhile.
\<close>

theorem policy_saved_as_shown:
  assumes "pl_dirty f" "\<not> pl_saving f"
  shows "pl_sent (fold (policy_act num) (map PolicyRead ps @ [SavePolicy]) f) =
      pl_sent (fold (policy_act num) (map PolicyRead ps) f) @ [policy_payload num f] \<and>
    pl_sent (fold (policy_act num) [TypeStart v, SavePolicy] f) =
      pl_sent f @ [(policy_payload num f)\<lparr>aup_window_start_hour := policy_hour num v\<rparr>] \<and>
    (pl_initial f = Some p \<longrightarrow> pl_enabled (fold (policy_act num) [SavePolicy, TickEnabled b, PolicySaved] f) = aup_enabled p)"
proof -
  have "pl_dirty (fold (policy_act num) (map PolicyRead ps) f) \<and> \<not> pl_saving (fold (policy_act num) (map PolicyRead ps) f)"
    using assms by (induction ps arbitrary: f) (auto simp: hydrate_policy_def)
  then show ?thesis using assms dirty_kept [OF assms(1), of num ps]
    by (auto simp: policy_payload_def hydrate_policy_def)
qed

section \<open>Witnesses\<close>

theorem policy_saved_as_shown_witness:
  "pl_sent (fold (policy_act (\<lambda>_. 99)) [TypeStart ''99'', SavePolicy] (policy_act (\<lambda>_. 99) (TickEnabled True) (mount_policy None))) =
     [\<lparr>aup_enabled = True, aup_window_start_hour = Some 99, aup_window_end_hour = None\<rparr>]"
  using policy_saved_as_shown [of "policy_act (\<lambda>_. 99) (TickEnabled True) (mount_policy None)" "\<lambda>_. 99" "[]" "''99''"]
  by (simp add: mount_policy_def hydrate_policy_def policy_payload_def policy_hour_def)

theorem one_tab_marked_witness:
  "active_parts (Some {''cron''}) ''d1'' (device_base ''d1'' @ ''/scheduled'') = [''/scheduled'']"
  using one_tab_marked [of "Some {''cron''}" "''d1''"]
  by (simp add: device_tabs_def ALL_TABS_def)

end
