(* ===== verification/Linux_Accounts.thy ===== *)
theory Linux_Accounts
  imports Host_Api
begin

text \<open>
  The accounts and groups of a Linux host (\<open>components/linux-accounts.tsx\<close>): the tables, the
  buttons of an account, the form for a new one and the editor of its groups.
\<close>

section \<open>Accounts\<close>

text \<open>An optional flag that is not there reads as false.\<close>

record DeviceUser =
  du_id :: "string option"
  du_name :: string
  du_group :: "string option"
  du_disabled :: bool
  du_comment :: "string option"
  du_last_logged_in :: "string option"
  du_uid :: "int option"
  du_gid :: "int option"
  du_groups :: "string list option"
  du_shell :: "string option"
  du_home :: "string option"
  du_is_system :: bool
  du_is_protected :: bool

record DeviceGroup =
  dg_name :: string
  dg_gid :: "int option"
  dg_members :: "string list"
  dg_is_system :: bool

definition visible_users :: "bool \<Rightarrow> DeviceUser list option \<Rightarrow> DeviceUser list" where
  "visible_users showSystem users =
     filter (\<lambda>u. showSystem \<or> \<not> du_is_system u) (case users of None \<Rightarrow> [] | Some us \<Rightarrow> us)"

definition visible_groups :: "bool \<Rightarrow> DeviceGroup list \<Rightarrow> DeviceGroup list" where
  "visible_groups showSystem groups = filter (\<lambda>g. showSystem \<or> \<not> dg_is_system g) groups"

definition press_lock :: "env \<Rightarrow> string \<Rightarrow> bool \<Rightarrow> DeviceUser \<Rightarrow> unit call option" where
  "press_lock E dev pending u =
     (if du_is_protected u \<or> pending then None else Some (setDeviceUserDisabled E dev (du_name u) (\<not> du_disabled u)))"

definition press_delete :: "env \<Rightarrow> string \<Rightarrow> bool \<Rightarrow> bool \<Rightarrow> DeviceUser \<Rightarrow> unit call option" where
  "press_delete E dev pending yes u =
     (if du_is_protected u \<or> pending \<or> \<not> yes then None else Some (deleteDeviceUser E dev (du_name u) True))"

text \<open>\<open>prompt\<close> answers null when it is cancelled.\<close>

definition press_password :: "env \<Rightarrow> string \<Rightarrow> bool \<Rightarrow> string option \<Rightarrow> DeviceUser \<Rightarrow> unit call option" where
  "press_password E dev pending answer u =
     (if du_is_protected u \<or> pending \<or> \<not> truthy_str answer then None
      else Some (resetDeviceUserPassword E dev (du_name u) (the answer)))"

section \<open>A new account\<close>

record account_form =
  ac_username :: string
  ac_password :: string
  ac_selected :: "string list"
  ac_shell :: string

definition new_account :: account_form where
  "new_account = \<lparr>ac_username = [], ac_password = [], ac_selected = [], ac_shell = ''/bin/bash''\<rparr>"

text \<open>The checkboxes of the form: groups of people, and the three system groups that grant rights.\<close>

definition offered_groups :: "DeviceGroup list \<Rightarrow> DeviceGroup list" where
  "offered_groups groups = filter (\<lambda>g. \<not> dg_is_system g \<or> dg_name g \<in> {''sudo'', ''docker'', ''adm''}) groups"

definition tick_group :: "string \<Rightarrow> bool \<Rightarrow> string list \<Rightarrow> string list" where
  "tick_group name on selected = (if on then selected @ [name] else filter (\<lambda>x. x \<noteq> name) selected)"

definition account_payload :: "account_form \<Rightarrow> DeviceUserCreate" where
  "account_payload f = \<lparr>duc_username = ac_username f, duc_password = nul (ac_password f), duc_groups = Val (ac_selected f),
     duc_shell = Val (ac_shell f), duc_comment = Undefined, duc_create_home = Val True\<rparr>"

definition submit_account :: "env \<Rightarrow> string \<Rightarrow> bool \<Rightarrow> account_form \<Rightarrow> unit call option" where
  "submit_account E dev pending f =
     (if pending \<or> ac_username f = [] then None else Some (createDeviceUser E dev (account_payload f)))"

definition account_created_text :: "account_form \<Rightarrow> string" where
  "account_created_text f = ac_username f @
     (if ac_password f \<noteq> [] then '' can log in with the password you set.''
      else '' was created without a password '' @ em_dash @ '' key-only until you set one.'')"

section \<open>The groups of an account\<close>

record group_editor =
  ge_open :: bool
  ge_user :: DeviceUser
  ge_selected :: "string list"
  ge_saving :: bool
  ge_sent :: "(string \<times> string list) list"

datatype group_event =
  OpenGroups | CancelGroups | TickGroup string bool | SaveGroups | GroupsSaved | GroupsRefused | UserRefetched DeviceUser

definition mount_groups :: "DeviceUser \<Rightarrow> group_editor" where
  "mount_groups u = \<lparr>ge_open = False, ge_user = u, ge_selected = (case du_groups u of None \<Rightarrow> [] | Some gs \<Rightarrow> gs),
     ge_saving = False, ge_sent = []\<rparr>"

text \<open>
  A checkbox only ever reports the state it was not in: ticking asks for a group that is not
  selected. That of the primary group is disabled.
\<close>

fun group_act :: "string set \<Rightarrow> group_event \<Rightarrow> group_editor \<Rightarrow> group_editor" where
  "group_act all OpenGroups s =
     (if ge_open s then s
      else s\<lparr>ge_selected := (case du_groups (ge_user s) of None \<Rightarrow> [] | Some gs \<Rightarrow> gs), ge_open := True\<rparr>)"
| "group_act all CancelGroups s = (if ge_open s then s\<lparr>ge_open := False\<rparr> else s)"
| "group_act all (TickGroup g on) s =
     (if ge_open s \<and> g \<in> all \<and> Some g \<noteq> du_group (ge_user s) \<and> (g \<in> set (ge_selected s) \<longleftrightarrow> \<not> on)
      then s\<lparr>ge_selected := tick_group g on (ge_selected s)\<rparr> else s)"
| "group_act all SaveGroups s =
     (if ge_open s \<and> \<not> ge_saving s
      then s\<lparr>ge_saving := True, ge_sent := ge_sent s @
        [(du_name (ge_user s), filter (\<lambda>g. Some g \<noteq> du_group (ge_user s)) (ge_selected s))]\<rparr> else s)"
| "group_act all GroupsSaved s = (if ge_saving s then s\<lparr>ge_saving := False, ge_open := False\<rparr> else s)"
| "group_act all GroupsRefused s = s\<lparr>ge_saving := False\<rparr>"
| "group_act all (UserRefetched u) s = (if du_name u = du_name (ge_user s) then s\<lparr>ge_user := u\<rparr> else s)"

definition submit_group :: "env \<Rightarrow> string \<Rightarrow> bool \<Rightarrow> string \<Rightarrow> unit call option" where
  "submit_group E dev pending name = (if name = [] \<or> pending then None else Some (createDeviceGroup E dev name))"

definition delete_group :: "env \<Rightarrow> string \<Rightarrow> bool \<Rightarrow> DeviceGroup \<Rightarrow> unit call option" where
  "delete_group E dev yes g = (if dg_is_system g \<or> \<not> yes then None else Some (deleteDeviceGroup E dev (dg_name g)))"

section \<open>What is asked of the host\<close>

lemma protected_left_alone:
  assumes "du_is_protected u"
  shows "press_lock E dev p u = None" "press_delete E dev p yes u = None" "press_password E dev p a u = None"
  using assms by (simp_all add: press_lock_def press_delete_def press_password_def)

lemma set_tick_group: "set (tick_group g on xs) = (if on then insert g (set xs) else set xs - {g})"
  by (auto simp: tick_group_def)

text \<open>
  Opening the editor, flipping some groups and saving asks for the groups the account had with
  exactly those flipped, and never for the primary group, which the host manages itself.
\<close>

definition flips :: "string set \<Rightarrow> DeviceUser \<Rightarrow> string list \<Rightarrow> string set \<Rightarrow> string set" where
  "flips all u gs S = fold (\<lambda>g S. if g \<in> all \<and> Some g \<noteq> du_group u then (if g \<in> S then S - {g} else insert g S) else S) gs S"

fun flip_events :: "string list \<Rightarrow> string list \<Rightarrow> group_event list" where
  "flip_events sel [] = []"
| "flip_events sel (g # gs) = TickGroup g (g \<notin> set sel) # flip_events (tick_group g (g \<notin> set sel) sel) gs"

lemma flip_all:
  assumes "ge_open s" "set gs \<subseteq> {g \<in> all. Some g \<noteq> du_group (ge_user s)}"
  shows "set (ge_selected (fold (group_act all) (flip_events (ge_selected s) gs) s)) = flips all (ge_user s) gs (set (ge_selected s)) \<and>
    ge_open (fold (group_act all) (flip_events (ge_selected s) gs) s) \<and>
    ge_user (fold (group_act all) (flip_events (ge_selected s) gs) s) = ge_user s \<and>
    ge_saving (fold (group_act all) (flip_events (ge_selected s) gs) s) = ge_saving s \<and>
    ge_sent (fold (group_act all) (flip_events (ge_selected s) gs) s) = ge_sent s"
  using assms
proof (induction gs arbitrary: s)
  case (Cons g gs)
  let ?t = "s\<lparr>ge_selected := tick_group g (g \<notin> set (ge_selected s)) (ge_selected s)\<rparr>"
  have "group_act all (TickGroup g (g \<notin> set (ge_selected s))) s = ?t" using Cons.prems by simp
  moreover have "set (ge_selected ?t) = (if g \<in> set (ge_selected s) then set (ge_selected s) - {g} else insert g (set (ge_selected s)))"
    by (simp add: set_tick_group)
  ultimately show ?case using Cons.IH [of ?t] Cons.prems by (simp add: flips_def)
qed (simp add: flips_def)

theorem groups_saved_as_flipped:
  assumes "set gs \<subseteq> {g \<in> all. Some g \<noteq> du_group u}" "\<not> ge_open s" "\<not> ge_saving s" "ge_user s = u" "du_groups u = Some cur"
  shows "\<exists>req. ge_sent (fold (group_act all) (OpenGroups # flip_events cur gs @ [SaveGroups]) s) = ge_sent s @ [(du_name u, req)] \<and>
    set req = flips all u gs (set cur) - {g. Some g = du_group u}"
proof -
  let ?o = "s\<lparr>ge_selected := cur, ge_open := True\<rparr>"
  have "fold (group_act all) (OpenGroups # flip_events cur gs @ [SaveGroups]) s =
      group_act all SaveGroups (fold (group_act all) (flip_events (ge_selected ?o) gs) ?o)"
    using assms by simp
  with flip_all [of ?o gs all] assms show ?thesis by auto
qed

text \<open>
  The controls of a protected account are disabled, save the editor of its groups: that one
  opens, and its save asks for the groups of the very account the host is managed with.
\<close>

theorem protected_groups_editable:
  assumes "du_is_protected u" "du_groups u = Some [''sudo'']" "du_group u = Some ''netfleet'' "
  shows "ge_sent (fold (group_act {''sudo''}) [OpenGroups, TickGroup ''sudo'' False, SaveGroups] (mount_groups u)) = [(du_name u, [])] \<and>
    press_lock E dev p u = None \<and> press_delete E dev p yes u = None \<and> press_password E dev p a u = None"
  using assms by (simp add: mount_groups_def tick_group_def protected_left_alone)

section \<open>Witnesses\<close>

definition managed_user :: DeviceUser where
  "managed_user = \<lparr>du_id = None, du_name = ''netfleet'', du_group = Some ''netfleet'', du_disabled = False, du_comment = None,
     du_last_logged_in = None, du_uid = Some 998, du_gid = Some 998, du_groups = Some [''sudo''], du_shell = None, du_home = None, du_is_system = False, du_is_protected = True\<rparr>"

theorem groups_saved_as_flipped_witness:
  "\<exists>req. ge_sent (fold (group_act {''docker''}) (OpenGroups # flip_events [''sudo''] [''docker''] @ [SaveGroups]) (mount_groups managed_user)) =
     [(''netfleet'', req)] \<and> set req = {''sudo'', ''docker''}"
  using groups_saved_as_flipped [of "[''docker'']" "{''docker''}" managed_user "mount_groups managed_user" "[''sudo'']"]
  by (simp add: mount_groups_def managed_user_def flips_def insert_commute)

theorem protected_groups_editable_witness:
  "ge_sent (fold (group_act {''sudo''}) [OpenGroups, TickGroup ''sudo'' False, SaveGroups] (mount_groups managed_user)) = [(''netfleet'', [])]"
  using protected_groups_editable [of managed_user] by (simp add: managed_user_def)

end
