(* ===== verification/Profile_Page.thy ===== *)
theory Profile_Page
  imports Sign_In
begin

text \<open>
  The profile page (\<open>app/dashboard/profile/page.tsx\<close>): the identity form, the change of the
  password, enrolment in and removal of time-based codes, and the one-time code at sign-in, as
  one state machine over the account they share.

  The page is modelled from the moment the account was read. Each section is a function from an
  event to its new state and the requests it makes; the answer of a request is an event of its
  own, so that anything may happen between the two.
\<close>

section \<open>What the page asks for\<close>

datatype profile_request =
  UpdateProfile ProfileUpdate | ChangePassword string string | TotpBegin | TotpConfirm string | TotpDisable string

section \<open>Identity\<close>

record identity_form =
  id_name :: string
  id_mobile :: string
  id_saving :: bool

definition load_identity :: "UserPublic \<Rightarrow> identity_form \<Rightarrow> identity_form" where
  "load_identity me f = f\<lparr>id_name := (case u_display_name me of None \<Rightarrow> [] | Some s \<Rightarrow> s),
     id_mobile := (case u_mobile_phone me of None \<Rightarrow> [] | Some s \<Rightarrow> s)\<rparr>"

definition mount_identity :: "UserPublic \<Rightarrow> identity_form" where
  "mount_identity me = load_identity me \<lparr>id_name = [], id_mobile = [], id_saving = False\<rparr>"

definition identity_payload :: "identity_form \<Rightarrow> ProfileUpdate" where
  "identity_payload f = \<lparr>pu_display_name = nul (trim (id_name f)), pu_mobile_phone = nul (trim (id_mobile f)),
     pu_otp_login_enabled = Undefined\<rparr>"

datatype identity_event = TypeDisplayName string | TypeMobile string | SaveIdentity | IdentityRefused

fun identity_act :: "identity_event \<Rightarrow> identity_form \<Rightarrow> identity_form \<times> profile_request list" where
  "identity_act (TypeDisplayName v) f = (f\<lparr>id_name := v\<rparr>, [])"
| "identity_act (TypeMobile v) f = (f\<lparr>id_mobile := v\<rparr>, [])"
| "identity_act SaveIdentity f = (if id_saving f then (f, []) else (f\<lparr>id_saving := True\<rparr>, [UpdateProfile (identity_payload f)]))"
| "identity_act IdentityRefused f = (f\<lparr>id_saving := False\<rparr>, [])"

section \<open>Password\<close>

record password_form =
  pw_current :: string
  pw_next :: string
  pw_confirm :: string
  pw_error :: "string option"
  pw_pending :: bool

definition mount_password :: password_form where
  "mount_password = \<lparr>pw_current = [], pw_next = [], pw_confirm = [], pw_error = None, pw_pending = False\<rparr>"

text \<open>What the browser asks of the three fields before the form is submitted.\<close>

definition password_fields_ok :: "password_form \<Rightarrow> bool" where
  "password_fields_ok f \<longleftrightarrow> pw_current f \<noteq> [] \<and> 12 \<le> length (pw_next f) \<and> 12 \<le> length (pw_confirm f)"

definition password_check :: "password_form \<Rightarrow> string option" where
  "password_check f =
     (if length (pw_next f) < 12 then Some ''New password must be at least 12 characters.''
      else if pw_next f \<noteq> pw_confirm f then Some ''New passwords do not match.''
      else if pw_current f = pw_next f then Some ''New password must differ from current password.''
      else None)"

datatype password_event =
  TypeCurrent string | TypeNext string | TypeConfirm string | SubmitPassword | PasswordChanged | PasswordRefused string

fun password_act :: "password_event \<Rightarrow> password_form \<Rightarrow> password_form \<times> profile_request list" where
  "password_act (TypeCurrent v) f = (f\<lparr>pw_current := v\<rparr>, [])"
| "password_act (TypeNext v) f = (f\<lparr>pw_next := v\<rparr>, [])"
| "password_act (TypeConfirm v) f = (f\<lparr>pw_confirm := v\<rparr>, [])"
| "password_act SubmitPassword f =
     (if pw_pending f \<or> \<not> password_fields_ok f then (f, [])
      else case password_check f of
        Some m \<Rightarrow> (f\<lparr>pw_error := Some m\<rparr>, [])
      | None \<Rightarrow> (f\<lparr>pw_error := None, pw_pending := True\<rparr>, [ChangePassword (pw_current f) (pw_next f)]))"
| "password_act PasswordChanged f =
     (if pw_pending f then (f\<lparr>pw_current := [], pw_next := [], pw_confirm := [], pw_pending := False\<rparr>, []) else (f, []))"
| "password_act (PasswordRefused m) f =
     (if pw_pending f then (f\<lparr>pw_error := Some m, pw_pending := False\<rparr>, []) else (f, []))"

section \<open>Time-based codes\<close>

record TotpEnrollResponse =
  te_secret :: string
  te_otpauth_uri :: string

record totp_form =
  to_enrolment :: "TotpEnrollResponse option"
  to_code :: string
  to_password :: string
  to_error :: "string option"
  to_begin :: bool
  to_confirm :: bool
  to_remove :: bool

definition mount_totp :: totp_form where
  "mount_totp = \<lparr>to_enrolment = None, to_code = [], to_password = [], to_error = None,
     to_begin = False, to_confirm = False, to_remove = False\<rparr>"

text \<open>The pattern of the field for the code.\<close>

definition totp_code_ok :: "string \<Rightarrow> bool" where
  "totp_code_ok c \<longleftrightarrow> list_all is_digit c \<and> 6 \<le> length c \<and> length c \<le> 8"

text \<open>The address the picture of the QR code is fetched from.\<close>

definition qr_source :: "TotpEnrollResponse \<Rightarrow> string" where
  "qr_source e = ''https://api.qrserver.com/v1/create-qr-code/?size=180x180&data='' @ encodeURIComponent (te_otpauth_uri e)"

datatype totp_event =
  PressEnable | BeginAnswered "string + TotpEnrollResponse" | TypeTotpCode string | SubmitCode | CodeAccepted
| CodeRefused string | CancelEnrolment | TypeTotpPassword string | SubmitDisable | TotpRemoved | RemoveRefused string

fun totp_act :: "bool \<Rightarrow> totp_event \<Rightarrow> totp_form \<Rightarrow> totp_form \<times> profile_request list" where
  "totp_act enrolled PressEnable f =
     (if \<not> enrolled \<and> to_enrolment f = None \<and> \<not> to_begin f
      then (f\<lparr>to_error := None, to_begin := True\<rparr>, [TotpBegin]) else (f, []))"
| "totp_act enrolled (BeginAnswered r) f =
     (if \<not> to_begin f then (f, []) else case r of
        Inl m \<Rightarrow> (f\<lparr>to_begin := False, to_error := Some m\<rparr>, [])
      | Inr e \<Rightarrow> (f\<lparr>to_begin := False, to_enrolment := Some e, to_error := None\<rparr>, []))"
| "totp_act enrolled (TypeTotpCode v) f =
     (if to_enrolment f = None then (f, []) else (f\<lparr>to_code := filter is_digit v\<rparr>, []))"
| "totp_act enrolled SubmitCode f =
     (if to_enrolment f \<noteq> None \<and> totp_code_ok (to_code f) \<and> \<not> to_confirm f
      then (f\<lparr>to_error := None, to_confirm := True\<rparr>, [TotpConfirm (to_code f)]) else (f, []))"
| "totp_act enrolled CodeAccepted f =
     (if to_confirm f then (f\<lparr>to_confirm := False, to_enrolment := None, to_code := []\<rparr>, []) else (f, []))"
| "totp_act enrolled (CodeRefused m) f =
     (if to_confirm f then (f\<lparr>to_confirm := False, to_error := Some m\<rparr>, []) else (f, []))"
| "totp_act enrolled CancelEnrolment f =
     (if to_enrolment f = None then (f, []) else (f\<lparr>to_enrolment := None, to_code := []\<rparr>, []))"
| "totp_act enrolled (TypeTotpPassword v) f = (if enrolled then (f\<lparr>to_password := v\<rparr>, []) else (f, []))"
| "totp_act enrolled SubmitDisable f =
     (if \<not> enrolled \<or> to_remove f then (f, [])
      else if to_password f = [] then (f\<lparr>to_error := Some ''Re-enter your password to disable TOTP.''\<rparr>, [])
      else (f\<lparr>to_error := None, to_remove := True\<rparr>, [TotpDisable (to_password f)]))"
| "totp_act enrolled TotpRemoved f =
     (if to_remove f then (f\<lparr>to_remove := False, to_password := []\<rparr>, []) else (f, []))"
| "totp_act enrolled (RemoveRefused m) f =
     (if to_remove f then (f\<lparr>to_remove := False, to_error := Some m\<rparr>, []) else (f, []))"

section \<open>The one-time code at sign-in\<close>

record otp_form =
  ot_enabled :: bool
  ot_saving :: bool

definition mount_otp :: "UserPublic \<Rightarrow> otp_form" where
  "mount_otp me = \<lparr>ot_enabled = u_otp_login_enabled me, ot_saving = False\<rparr>"

definition otp_payload :: "otp_form \<Rightarrow> ProfileUpdate" where
  "otp_payload f = \<lparr>pu_display_name = Undefined, pu_mobile_phone = Undefined, pu_otp_login_enabled = Val (ot_enabled f)\<rparr>"

datatype otp_event = TickOtp bool | SaveOtp | OtpRefused

fun otp_act :: "bool \<Rightarrow> otp_event \<Rightarrow> otp_form \<Rightarrow> otp_form \<times> profile_request list" where
  "otp_act stored (TickOtp b) f = (f\<lparr>ot_enabled := b\<rparr>, [])"
| "otp_act stored SaveOtp f =
     (if ot_saving f \<or> ot_enabled f = stored then (f, []) else (f\<lparr>ot_saving := True\<rparr>, [UpdateProfile (otp_payload f)]))"
| "otp_act stored OtpRefused f = (f\<lparr>ot_saving := False\<rparr>, [])"

section \<open>The page\<close>

record profile_page =
  pp_me :: UserPublic
  pp_force :: bool
  pp_identity :: identity_form
  pp_password :: password_form
  pp_totp :: totp_form
  pp_otp :: otp_form
  pp_sent :: "profile_request list"

definition lockedToPassword :: "profile_page \<Rightarrow> bool" where
  "lockedToPassword p \<longleftrightarrow> u_must_change_password (pp_me p) \<or> pp_force p"

definition mount_profile :: "(string \<Rightarrow> string option) \<Rightarrow> UserPublic \<Rightarrow> profile_page" where
  "mount_profile searchParams me = \<lparr>pp_me = me, pp_force = (searchParams ''force'' = Some ''password''),
     pp_identity = mount_identity me, pp_password = mount_password, pp_totp = mount_totp, pp_otp = mount_otp me, pp_sent = []\<rparr>"

text \<open>
  A new answer for the account, from a refetch or written by a save. The query keeps its object
  when nothing changed. Sections that come back after the lock start anew; those that are there
  run their effects: the identity form on any change of the account, the switch on a change of
  its own field.
\<close>

definition read_me :: "UserPublic \<Rightarrow> profile_page \<Rightarrow> profile_page" where
  "read_me u p =
     (if u = pp_me p then p
      else let q = p\<lparr>pp_me := u\<rparr> in
        if lockedToPassword q then q
        else if lockedToPassword p then q\<lparr>pp_identity := mount_identity u, pp_totp := mount_totp, pp_otp := mount_otp u\<rparr>
        else q\<lparr>pp_identity := load_identity u (pp_identity p),
               pp_otp := (if u_otp_login_enabled u = u_otp_login_enabled (pp_me p) then pp_otp p
                          else (pp_otp p)\<lparr>ot_enabled := u_otp_login_enabled u\<rparr>)\<rparr>)"

datatype profile_event =
  MeRead UserPublic | Identity identity_event | IdentitySaved UserPublic | Passwd password_event | Totp2 totp_event
| OtpLogin otp_event | OtpSaved UserPublic

fun profile_act :: "profile_event \<Rightarrow> profile_page \<Rightarrow> profile_page" where
  "profile_act (MeRead u) p = read_me u p"
| "profile_act (Identity e) p =
     (if lockedToPassword p then p
      else let (f, rs) = identity_act e (pp_identity p) in p\<lparr>pp_identity := f, pp_sent := pp_sent p @ rs\<rparr>)"
| "profile_act (IdentitySaved u) p =
     (if lockedToPassword p \<or> \<not> id_saving (pp_identity p) then p
      else read_me u (p\<lparr>pp_identity := (pp_identity p)\<lparr>id_saving := False\<rparr>\<rparr>))"
| "profile_act (Passwd e) p =
     (let (f, rs) = password_act e (pp_password p) in p\<lparr>pp_password := f, pp_sent := pp_sent p @ rs\<rparr>)"
| "profile_act (Totp2 e) p =
     (if lockedToPassword p then p
      else let (f, rs) = totp_act (u_totp_enrolled (pp_me p)) e (pp_totp p) in p\<lparr>pp_totp := f, pp_sent := pp_sent p @ rs\<rparr>)"
| "profile_act (OtpLogin e) p =
     (if lockedToPassword p then p
      else let (f, rs) = otp_act (u_otp_login_enabled (pp_me p)) e (pp_otp p) in p\<lparr>pp_otp := f, pp_sent := pp_sent p @ rs\<rparr>)"
| "profile_act (OtpSaved u) p =
     (if lockedToPassword p \<or> \<not> ot_saving (pp_otp p) then p
      else read_me u (p\<lparr>pp_otp := (pp_otp p)\<lparr>ot_saving := False\<rparr>\<rparr>))"

section \<open>What is sent\<close>

definition clean_text :: "string jopt \<Rightarrow> bool" where
  "clean_text v = (case v of Undefined \<Rightarrow> True | Null \<Rightarrow> True | Val s \<Rightarrow> s \<noteq> [] \<and> trim s = s)"

fun profile_request_ok :: "profile_request \<Rightarrow> bool" where
  "profile_request_ok (UpdateProfile p) \<longleftrightarrow> clean_text (pu_display_name p) \<and> clean_text (pu_mobile_phone p) \<and>
     (pu_otp_login_enabled p = Undefined \<or> pu_display_name p = Undefined \<and> pu_mobile_phone p = Undefined)"
| "profile_request_ok (ChangePassword old new) \<longleftrightarrow> old \<noteq> [] \<and> 12 \<le> length new \<and> new \<noteq> old"
| "profile_request_ok TotpBegin \<longleftrightarrow> True"
| "profile_request_ok (TotpConfirm c) \<longleftrightarrow> totp_code_ok c"
| "profile_request_ok (TotpDisable pw) \<longleftrightarrow> pw \<noteq> []"

lemma clean_nul: "clean_text (nul (trim s))"
  by (simp add: clean_text_def or_null_def)

lemma identity_ok: "list_all profile_request_ok (snd (identity_act e f))"
  by (cases e) (simp_all add: identity_payload_def clean_nul)

lemma password_ok: "list_all profile_request_ok (snd (password_act e f))"
  by (cases e) (auto simp: password_fields_ok_def password_check_def split: option.splits if_splits)

lemma password_only: "list_all (\<lambda>r. \<exists>old new. r = ChangePassword old new) (snd (password_act e f))"
  by (cases e) (auto split: option.splits)

lemma totp_ok: "list_all profile_request_ok (snd (totp_act b e f))"
  by (cases e) (auto split: sum.splits)

lemma otp_ok: "list_all profile_request_ok (snd (otp_act b e f))"
  by (cases e) (simp_all add: otp_payload_def clean_text_def)

lemma read_me_sent [simp]: "pp_sent (read_me u p) = pp_sent p"
  by (simp add: read_me_def Let_def)

lemma read_me_force [simp]: "pp_force (read_me u p) = pp_force p"
  by (simp add: read_me_def Let_def)

lemma profile_act_ok: "list_all profile_request_ok (pp_sent p) \<Longrightarrow> list_all profile_request_ok (pp_sent (profile_act e p))"
  using identity_ok password_ok totp_ok otp_ok by (cases e) (simp_all add: case_prod_beta Let_def)

lemma profile_fold_ok:
  "list_all profile_request_ok (pp_sent p) \<Longrightarrow> list_all profile_request_ok (pp_sent (fold profile_act es p))"
  by (induction es arbitrary: p) (simp_all add: profile_act_ok)

lemma locked_step:
  assumes "lockedToPassword p" "\<And>u. e \<noteq> MeRead u"
  shows "pp_me (profile_act e p) = pp_me p \<and> pp_force (profile_act e p) = pp_force p \<and>
    (\<exists>rs. pp_sent (profile_act e p) = pp_sent p @ rs \<and> list_all (\<lambda>r. \<exists>old new. r = ChangePassword old new) rs)"
  using assms password_only by (cases e) (auto simp: case_prod_beta Let_def)

lemma locked_fold:
  assumes "lockedToPassword p" "\<And>u. MeRead u \<notin> set es"
  shows "\<exists>rs. pp_sent (fold profile_act es p) = pp_sent p @ rs \<and> list_all (\<lambda>r. \<exists>old new. r = ChangePassword old new) rs"
  using assms
proof (induction es arbitrary: p)
  case (Cons e es)
  from Cons.prems have s: "pp_me (profile_act e p) = pp_me p" "pp_force (profile_act e p) = pp_force p"
    and rs: "\<exists>rs. pp_sent (profile_act e p) = pp_sent p @ rs \<and> list_all (\<lambda>r. \<exists>old new. r = ChangePassword old new) rs"
    using locked_step [of p e] by auto
  have "lockedToPassword (profile_act e p)" using Cons.prems(1) s by (simp add: lockedToPassword_def)
  from Cons.IH [OF this] Cons.prems(2) rs show ?case by fastforce
qed simp


section \<open>Drafts\<close>

text \<open>Saving an identity that was not touched asks for the values that were read.\<close>

definition tidy_user :: "UserPublic \<Rightarrow> bool" where
  "tidy_user u \<longleftrightarrow> clean_text (of_nullable (u_display_name u)) \<and> clean_text (of_nullable (u_mobile_phone u))"

lemma trim_empty [simp]: "trim [] = []"
  by (simp add: trim_def trimStart_def trimEnd_def)

lemma identity_untouched:
  "tidy_user u \<Longrightarrow> identity_payload (load_identity u f) =
     \<lparr>pu_display_name = of_nullable (u_display_name u), pu_mobile_phone = of_nullable (u_mobile_phone u), pu_otp_login_enabled = Undefined\<rparr>"
  by (auto simp: identity_payload_def load_identity_def tidy_user_def clean_text_def or_null_def split: option.splits)

text \<open>
  Saving the switch of the one-time code replaces the account, and every change of the account
  reloads the identity form: what was typed there and not saved is lost.
\<close>

theorem otp_save_drops_identity_edits:
  assumes "\<not> lockedToPassword p" "\<not> ot_saving (pp_otp p)"
    and "u = (pp_me p)\<lparr>u_otp_login_enabled := \<not> u_otp_login_enabled (pp_me p)\<rparr>"
  shows "let q = fold profile_act [Identity (TypeDisplayName v), OtpLogin (TickOtp (u_otp_login_enabled u)), OtpLogin SaveOtp, OtpSaved u] p
    in pp_sent q = pp_sent p @ [UpdateProfile (otp_payload \<lparr>ot_enabled = u_otp_login_enabled u, ot_saving = False\<rparr>)] \<and>
       id_name (pp_identity q) = (case u_display_name (pp_me p) of None \<Rightarrow> [] | Some s \<Rightarrow> s)"
proof -
  have "u \<noteq> pp_me p" using assms(3) by (cases "pp_me p") auto
  with assms show ?thesis by (simp add: Let_def read_me_def lockedToPassword_def load_identity_def otp_payload_def)
qed

text \<open>With \<open>?force=password\<close> in the address the page stays locked after the password was changed.\<close>

lemma profile_act_force: "pp_force (profile_act e p) = pp_force p"
  by (cases e) (simp_all add: case_prod_beta Let_def)

theorem force_outlives_change: "sp ''force'' = Some ''password'' \<Longrightarrow> lockedToPassword (fold profile_act es (mount_profile sp me))"
proof -
  have "pp_force (fold profile_act es p) = pp_force p" for p
    by (induction es arbitrary: p) (simp_all add: profile_act_force)
  then show "sp ''force'' = Some ''password'' \<Longrightarrow> ?thesis" by (simp add: lockedToPassword_def mount_profile_def)
qed

text \<open>The address of the QR code, sent to another host, gives the enrolment address with its secret.\<close>

lemma qr_reveals_uri: "pct_decode False (drop (length ''https://api.qrserver.com/v1/create-qr-code/?size=180x180&data='') (qr_source e)) = Some (te_otpauth_uri e)"
  by (simp add: qr_source_def encodeURIComponent_decode)

section \<open>Witnesses\<close>

definition demo_me :: UserPublic where
  "demo_me = \<lparr>u_id = ''u1'', u_email = ''a@example.org'', u_display_name = Some ''Ana'', u_mobile_phone = None, u_is_admin = False,
     u_totp_enrolled = False, u_otp_login_enabled = False, u_must_change_password = False, u_auth_method = ''local'', u_organization_id = ''o1''\<rparr>"


theorem otp_save_drops_identity_edits_witness:
  "id_name (pp_identity (fold profile_act [Identity (TypeDisplayName ''Anna''), OtpLogin (TickOtp True), OtpLogin SaveOtp,
     OtpSaved (demo_me\<lparr>u_otp_login_enabled := True\<rparr>)] (mount_profile Map.empty demo_me))) = ''Ana''"
  using otp_save_drops_identity_edits [of "mount_profile Map.empty demo_me" "demo_me\<lparr>u_otp_login_enabled := True\<rparr>" "''Anna''"]
  by (simp add: mount_profile_def lockedToPassword_def demo_me_def mount_otp_def Let_def)

theorem force_outlives_change_witness:
  "lockedToPassword (fold profile_act [Passwd PasswordChanged, MeRead demo_me] (mount_profile [''force'' \<mapsto> ''password''] (demo_me\<lparr>u_must_change_password := True\<rparr>)))"
  by (rule force_outlives_change) simp

end
