(* ===== verification/Vpn_Page.thy ===== *)
theory Vpn_Page
  imports Vpn_Api
begin

text \<open>
  The page for the PPP secrets of a device (\<open>devices/[id]/vpn/page.tsx\<close>): the list with its
  tabs, the form for a new secret, and the dialogs that reveal and reset a password, as one state
  machine. A dialog covers the page, so that the buttons of the list are out of reach while one
  is open; its state begins anew each time it opens, and the answer to a request of a dialog
  that was closed is lost.
\<close>

section \<open>The list\<close>

record PppSecret =
  pp_id :: "string option"
  pp_name :: string
  pp_service :: string
  pp_profile :: "string option"
  pp_local_address :: "string option"
  pp_remote_address :: "string option"
  pp_disabled :: bool
  pp_comment :: "string option"

definition SERVICES :: "string list" where
  "SERVICES = [''any'', ''l2tp'', ''pptp'', ''sstp'', ''ovpn'', ''pppoe'']"

definition vpn_tabs :: "string list" where
  "vpn_tabs = [''all'', ''l2tp'', ''pptp'', ''sstp'', ''ovpn'']"

definition filtered_secrets :: "string \<Rightarrow> PppSecret list option \<Rightarrow> PppSecret list" where
  "filtered_secrets tab secrets =
     filter (\<lambda>s. if tab = ''all'' then True else pp_service s = tab \<or> pp_service s = ''any'')
       (case secrets of None \<Rightarrow> [] | Some ss \<Rightarrow> ss)"

section \<open>The new secret\<close>

record ppp_form =
  pf_name :: string
  pf_service :: string
  pf_password :: string
  pf_profile :: string
  pf_local :: string
  pf_remote :: string
  pf_comment :: string
  pf_error :: "string option"
  pf_pending :: bool

definition open_ppp_form :: "string \<Rightarrow> ppp_form" where
  "open_ppp_form tab = \<lparr>pf_name = [], pf_service = (if tab = ''all'' then ''l2tp'' else tab), pf_password = [], pf_profile = [],
     pf_local = [], pf_remote = [], pf_comment = [], pf_error = None, pf_pending = False\<rparr>"

definition ppp_payload :: "ppp_form \<Rightarrow> PppSecretCreate" where
  "ppp_payload f = \<lparr>psc_name = pf_name f, psc_service = pf_service f, psc_password = pf_password f, psc_profile = nul (pf_profile f),
     psc_local_address = nul (pf_local f), psc_remote_address = nul (pf_remote f), psc_comment = nul (pf_comment f)\<rparr>"

section \<open>The dialogs\<close>

record reveal_modal =
  rv_secret :: PppSecret
  rv_justification :: string
  rv_confirmed :: bool
  rv_revealed :: "string option"
  rv_error :: "string option"
  rv_pending :: bool

definition open_reveal :: "PppSecret \<Rightarrow> reveal_modal" where
  "open_reveal s = \<lparr>rv_secret = s, rv_justification = [], rv_confirmed = False, rv_revealed = None, rv_error = None, rv_pending = False\<rparr>"

text \<open>The dialog shows the password in place of the form when there is one to show.\<close>

definition password_shown :: "reveal_modal \<Rightarrow> bool" where
  "password_shown m \<longleftrightarrow> truthy_str (rv_revealed m)"

record reset_modal =
  rs_secret :: PppSecret
  rs_pw :: string
  rs_confirm :: string
  rs_done :: bool
  rs_error :: "string option"
  rs_pending :: bool

definition open_reset :: "PppSecret \<Rightarrow> reset_modal" where
  "open_reset s = \<lparr>rs_secret = s, rs_pw = [], rs_confirm = [], rs_done = False, rs_error = None, rs_pending = False\<rparr>"

definition ppp_reset_check :: "reset_modal \<Rightarrow> string option" where
  "ppp_reset_check m = (if length (rs_pw m) < 6 then Some ''Password must be at least 6 characters.''
     else if rs_pw m \<noteq> rs_confirm m then Some ''Passwords do not match.'' else None)"

section \<open>The page\<close>

text \<open>\<open>None\<close> for a dialog: no secret is chosen, or one without an id.\<close>

datatype vpn_request = CreatePpp PppSecretCreate | DeletePpp string | RevealPpp string string | ResetPpp string string

record vpn_page =
  vp_tab :: string
  vp_form :: "ppp_form option"
  vp_reveal :: "reveal_modal option"
  vp_reset :: "reset_modal option"
  vp_sent :: "vpn_request list"

definition mount_vpn :: vpn_page where
  "mount_vpn = \<lparr>vp_tab = ''all'', vp_form = None, vp_reveal = None, vp_reset = None, vp_sent = []\<rparr>"

definition on_page :: "vpn_page \<Rightarrow> bool" where
  "on_page p \<longleftrightarrow> vp_reveal p = None \<and> vp_reset p = None"

text \<open>A dialog is there for a secret with a truthy id.\<close>

definition dialog_for :: "PppSecret \<Rightarrow> (PppSecret \<Rightarrow> 'm) \<Rightarrow> 'm option" where
  "dialog_for s start = (if truthy_str (pp_id s) then Some (start s) else None)"

subsection \<open>List and form\<close>

datatype ppp_field = FName | FPassword | FProfile | FLocal | FRemote | FComment

fun type_ppp :: "ppp_field \<Rightarrow> string \<Rightarrow> ppp_form \<Rightarrow> ppp_form" where
  "type_ppp FName v f = f\<lparr>pf_name := v\<rparr>"
| "type_ppp FPassword v f = f\<lparr>pf_password := v\<rparr>"
| "type_ppp FProfile v f = f\<lparr>pf_profile := v\<rparr>"
| "type_ppp FLocal v f = f\<lparr>pf_local := v\<rparr>"
| "type_ppp FRemote v f = f\<lparr>pf_remote := v\<rparr>"
| "type_ppp FComment v f = f\<lparr>pf_comment := v\<rparr>"

datatype list_event =
  PickTab string | ToggleForm | TypePpp ppp_field string | PickService string | SubmitPpp | PppCreated | PppRefused string
| PressReveal PppSecret | PressReset PppSecret | PressDelete PppSecret bool

text \<open>The name and the password are required; the browser stops a form in which one is empty.\<close>

definition submit_ppp :: "ppp_form \<Rightarrow> ppp_form \<times> vpn_request list" where
  "submit_ppp f = (if pf_pending f \<or> pf_name f = [] \<or> pf_password f = [] then (f, [])
     else (f\<lparr>pf_error := None, pf_pending := True\<rparr>, [CreatePpp (ppp_payload f)]))"

fun list_act :: "list_event \<Rightarrow> vpn_page \<Rightarrow> vpn_page" where
  "list_act (PickTab t) p = (if t \<in> set vpn_tabs then p\<lparr>vp_tab := t\<rparr> else p)"
| "list_act ToggleForm p =
     p\<lparr>vp_form := (case vp_form p of None \<Rightarrow> Some (open_ppp_form (vp_tab p)) | Some _ \<Rightarrow> None)\<rparr>"
| "list_act (TypePpp fd v) p = p\<lparr>vp_form := map_option (type_ppp fd v) (vp_form p)\<rparr>"
| "list_act (PickService v) p =
     (if v \<in> set SERVICES then p\<lparr>vp_form := map_option (pf_service_update (\<lambda>_. v)) (vp_form p)\<rparr> else p)"
| "list_act SubmitPpp p =
     (case vp_form p of None \<Rightarrow> p
      | Some f \<Rightarrow> let (g, rs) = submit_ppp f in p\<lparr>vp_form := Some g, vp_sent := vp_sent p @ rs\<rparr>)"
| "list_act PppCreated p =
     (case vp_form p of Some f \<Rightarrow> if pf_pending f then p\<lparr>vp_form := None\<rparr> else p | None \<Rightarrow> p)"
| "list_act (PppRefused m) p =
     p\<lparr>vp_form := map_option (\<lambda>f. if pf_pending f then f\<lparr>pf_error := Some m, pf_pending := False\<rparr> else f) (vp_form p)\<rparr>"
| "list_act (PressReveal s) p = p\<lparr>vp_reveal := dialog_for s open_reveal\<rparr>"
| "list_act (PressReset s) p = p\<lparr>vp_reset := dialog_for s open_reset\<rparr>"
| "list_act (PressDelete s yes) p =
     (if truthy_str (pp_id s) \<and> yes then p\<lparr>vp_sent := vp_sent p @ [DeletePpp (the (pp_id s))]\<rparr> else p)"

subsection \<open>Revealing\<close>

datatype reveal_event = TypeJustification string | TickConfirmed bool | SubmitReveal | RevealAnswer string | RevealRefused string

text \<open>The text is at most 1024 characters long.\<close>

fun reveal_act :: "reveal_event \<Rightarrow> reveal_modal \<Rightarrow> reveal_modal \<times> vpn_request list" where
  "reveal_act (TypeJustification v) m =
     (if password_shown m \<or> 1024 < length v then (m, []) else (m\<lparr>rv_justification := v\<rparr>, []))"
| "reveal_act (TickConfirmed b) m = (if password_shown m then (m, []) else (m\<lparr>rv_confirmed := b\<rparr>, []))"
| "reveal_act SubmitReveal m =
     (if password_shown m \<or> rv_pending m then (m, [])
      else if \<not> rv_confirmed m then (m\<lparr>rv_error := Some ''Please confirm you understand the audit consequence.''\<rparr>, [])
      else (m\<lparr>rv_error := None, rv_pending := True\<rparr>, [RevealPpp (the (pp_id (rv_secret m))) (rv_justification m)]))"
| "reveal_act (RevealAnswer pw) m = (if rv_pending m then (m\<lparr>rv_pending := False, rv_revealed := Some pw\<rparr>, []) else (m, []))"
| "reveal_act (RevealRefused e) m = (if rv_pending m then (m\<lparr>rv_pending := False, rv_error := Some e\<rparr>, []) else (m, []))"

subsection \<open>Resetting\<close>

datatype reset_event = TypePw string | TypeConfirmPw string | SubmitReset | ResetDone | ResetRefused string

fun reset_act :: "reset_event \<Rightarrow> reset_modal \<Rightarrow> reset_modal \<times> vpn_request list" where
  "reset_act (TypePw v) m = (if rs_done m then (m, []) else (m\<lparr>rs_pw := v\<rparr>, []))"
| "reset_act (TypeConfirmPw v) m = (if rs_done m then (m, []) else (m\<lparr>rs_confirm := v\<rparr>, []))"
| "reset_act SubmitReset m =
     (if rs_done m \<or> rs_pending m \<or> rs_pw m = [] \<or> rs_confirm m = [] then (m, [])
      else case ppp_reset_check m of
        Some e \<Rightarrow> (m\<lparr>rs_error := Some e\<rparr>, [])
      | None \<Rightarrow> (m\<lparr>rs_error := None, rs_pending := True\<rparr>, [ResetPpp (the (pp_id (rs_secret m))) (rs_pw m)]))"
| "reset_act ResetDone m = (if rs_pending m then (m\<lparr>rs_pending := False, rs_done := True\<rparr>, []) else (m, []))"
| "reset_act (ResetRefused e) m = (if rs_pending m then (m\<lparr>rs_pending := False, rs_error := Some e\<rparr>, []) else (m, []))"

datatype vpn_event = OnList list_event | OnReveal reveal_event | OnReset reset_event | CloseDialog

fun vpn_act :: "vpn_event \<Rightarrow> vpn_page \<Rightarrow> vpn_page" where
  "vpn_act (OnList e) p = (if on_page p \<or> e = PppCreated \<or> (\<exists>m. e = PppRefused m) then list_act e p else p)"
| "vpn_act (OnReveal e) p =
     (case vp_reveal p of None \<Rightarrow> p
      | Some m \<Rightarrow> let (n, rs) = reveal_act e m in p\<lparr>vp_reveal := Some n, vp_sent := vp_sent p @ rs\<rparr>)"
| "vpn_act (OnReset e) p =
     (case vp_reset p of None \<Rightarrow> p
      | Some m \<Rightarrow> let (n, rs) = reset_act e m in p\<lparr>vp_reset := Some n, vp_sent := vp_sent p @ rs\<rparr>)"
| "vpn_act CloseDialog p = p\<lparr>vp_reveal := None, vp_reset := None\<rparr>"

section \<open>Every reveal is accounted for\<close>

fun vpn_request_ok :: "vpn_request \<Rightarrow> bool" where
  "vpn_request_ok (CreatePpp c) \<longleftrightarrow> psc_name c \<noteq> [] \<and> psc_password c \<noteq> [] \<and> psc_service c \<in> set SERVICES"
| "vpn_request_ok (DeletePpp i) \<longleftrightarrow> i \<noteq> []"
| "vpn_request_ok (RevealPpp i j) \<longleftrightarrow> i \<noteq> [] \<and> length j \<le> 1024"
| "vpn_request_ok (ResetPpp i pw) \<longleftrightarrow> i \<noteq> [] \<and> 6 \<le> length pw"

text \<open>
  A password on the screen, and one on its way there, belongs to a reveal that was asked for,
  for this very secret.
\<close>

definition reveal_inv :: "vpn_request list \<Rightarrow> reveal_modal \<Rightarrow> bool" where
  "reveal_inv sent m \<longleftrightarrow> truthy_str (pp_id (rv_secret m)) \<and> length (rv_justification m) \<le> 1024 \<and>
     (rv_pending m \<or> rv_revealed m \<noteq> None \<longrightarrow> (\<exists>j. RevealPpp (the (pp_id (rv_secret m))) j \<in> set sent))"

definition vpn_inv :: "vpn_page \<Rightarrow> bool" where
  "vpn_inv p \<longleftrightarrow> list_all vpn_request_ok (vp_sent p) \<and> vp_tab p \<in> set vpn_tabs \<and>
     (case vp_form p of None \<Rightarrow> True | Some f \<Rightarrow> pf_service f \<in> set SERVICES) \<and>
     (case vp_reveal p of None \<Rightarrow> True | Some m \<Rightarrow> reveal_inv (vp_sent p) m) \<and>
     (case vp_reset p of None \<Rightarrow> True | Some m \<Rightarrow> truthy_str (pp_id (rs_secret m)))"

lemma truthy_the: "truthy_str x \<Longrightarrow> the x \<noteq> []"
  by (auto simp: truthy_str_def split: option.splits)

lemma tabs_are_services: "t \<in> set vpn_tabs \<Longrightarrow> (if t = ''all'' then ''l2tp'' else t) \<in> set SERVICES"
  by (auto simp: vpn_tabs_def SERVICES_def)

lemma reveal_inv_more: "reveal_inv sent m \<Longrightarrow> reveal_inv (sent @ rs) m"
  by (auto simp: reveal_inv_def)

lemma reveal_inv_act:
  assumes "reveal_inv sent m"
  shows "reveal_inv (sent @ snd (reveal_act e m)) (fst (reveal_act e m)) \<and> list_all vpn_request_ok (snd (reveal_act e m))"
  using assms truthy_the by (cases e) (auto simp: reveal_inv_def)

lemma reset_act_ok:
  assumes "truthy_str (pp_id (rs_secret m))"
  shows "rs_secret (fst (reset_act e m)) = rs_secret m \<and> list_all vpn_request_ok (snd (reset_act e m))"
  using assms truthy_the by (cases e) (auto simp: ppp_reset_check_def split: option.splits if_splits)

lemma type_ppp_service: "pf_service (type_ppp fd v f) = pf_service f"
  by (cases fd) simp_all

lemma submit_ppp_ok:
  assumes "pf_service f \<in> set SERVICES"
  shows "pf_service (fst (submit_ppp f)) = pf_service f \<and> list_all vpn_request_ok (snd (submit_ppp f))"
  using assms by (simp add: submit_ppp_def ppp_payload_def)

lemma vpn_inv_list: "vpn_inv p \<Longrightarrow> vpn_inv (list_act e p)"
proof (cases e)
  case ToggleForm
  assume "vpn_inv p"
  with ToggleForm tabs_are_services show ?thesis by (auto simp: vpn_inv_def open_ppp_form_def split: option.splits)
next
  case SubmitPpp
  assume "vpn_inv p"
  with SubmitPpp submit_ppp_ok reveal_inv_more show ?thesis
    by (auto simp: vpn_inv_def case_prod_beta Let_def split: option.splits)
next
  case (PressDelete s yes)
  assume "vpn_inv p"
  with PressDelete truthy_the reveal_inv_more show ?thesis by (auto simp: vpn_inv_def split: option.splits)
qed (auto simp: vpn_inv_def type_ppp_service dialog_for_def reveal_inv_def open_reveal_def open_reset_def split: option.splits)

lemma vpn_inv_act:
  assumes "vpn_inv p"
  shows "vpn_inv (vpn_act e p)"
proof (cases e)
  case (OnReveal r)
  with assms reveal_inv_act show ?thesis by (auto simp: vpn_inv_def case_prod_beta Let_def split: option.splits)
next
  case (OnReset r)
  with assms reset_act_ok reveal_inv_more show ?thesis by (auto simp: vpn_inv_def case_prod_beta Let_def split: option.splits)
qed (use assms vpn_inv_list in \<open>simp_all add: vpn_inv_def split: option.splits\<close>)

lemma vpn_inv_fold: "vpn_inv p \<Longrightarrow> vpn_inv (fold vpn_act es p)"
  by (induction es arbitrary: p) (simp_all add: vpn_inv_act)


text \<open>Nothing is revealed without the tick.\<close>

lemma reveal_needs_tick: "\<not> rv_confirmed m \<Longrightarrow> snd (reveal_act e m) = []"
  by (cases e) simp_all

text \<open>
  A secret whose password is empty: the reveal is recorded, the dialog goes on showing its form as
  if nothing had come back, and a second click records a second reveal.
\<close>

theorem empty_password_revealed_twice:
  assumes "rv_confirmed m" "rv_revealed m = None" "\<not> rv_pending m" "vp_reveal p = Some m"
  shows "let q = fold vpn_act [OnReveal SubmitReveal, OnReveal (RevealAnswer []), OnReveal SubmitReveal] p;
      r = RevealPpp (the (pp_id (rv_secret m))) (rv_justification m)
    in vp_sent q = vp_sent p @ [r, r] \<and> (case vp_reveal q of Some n \<Rightarrow> \<not> password_shown n | None \<Rightarrow> False)"
  using assms by (simp add: Let_def password_shown_def truthy_str_def)

text \<open>The tabs leave nothing out but the services that have none.\<close>

lemma secrets_on_tabs:
  "s \<in> set ss \<Longrightarrow> pp_service s \<in> set vpn_tabs \<union> {''any''} \<Longrightarrow> pp_service s \<noteq> ''all'' \<Longrightarrow> s \<in> set (filtered_secrets (pp_service s) (Some ss)) \<or>
     pp_service s = ''any'' \<and> (\<forall>t. s \<in> set (filtered_secrets t (Some ss)))"
  by (auto simp: filtered_secrets_def)

section \<open>Witnesses\<close>

definition demo_secret :: PppSecret where
  "demo_secret = \<lparr>pp_id = Some ''*1'', pp_name = ''alpha'', pp_service = ''l2tp'', pp_profile = None, pp_local_address = None,
     pp_remote_address = None, pp_disabled = False, pp_comment = None\<rparr>"


theorem empty_password_revealed_twice_witness:
  "vp_sent (fold vpn_act [OnReveal SubmitReveal, OnReveal (RevealAnswer []), OnReveal SubmitReveal]
     (mount_vpn\<lparr>vp_reveal := Some ((open_reveal demo_secret)\<lparr>rv_confirmed := True\<rparr>)\<rparr>)) = [RevealPpp ''*1'' [], RevealPpp ''*1'' []]"
  using empty_password_revealed_twice [of "(open_reveal demo_secret)\<lparr>rv_confirmed := True\<rparr>" "mount_vpn\<lparr>vp_reveal := Some ((open_reveal demo_secret)\<lparr>rv_confirmed := True\<rparr>)\<rparr>"]
  by (simp add: open_reveal_def demo_secret_def mount_vpn_def Let_def)

end
