(* ===== verification/Reports_Page.thy ===== *)
theory Reports_Page
  imports Reporting Tables
begin

text \<open>
  The reports screen (\<open>app/dashboard/reports/page.tsx\<close>): the range of time and its fields, the
  query of each report and the download that mirrors it, the four filtered tables, the counts of
  changes, and the reports on roles and on the reach of a user.

  A time is its number of milliseconds since the epoch; \<open>to_iso\<close>, the text \<open>toISOString\<close> makes of
  it, and \<open>toLocal\<close>, the text in the language of the browser, are arguments.
\<close>

section \<open>The range of time\<close>

definition day_ms :: int where
  "day_ms = 86400000"

definition isoStartOf :: "int \<Rightarrow> int \<Rightarrow> int" where
  "isoStartOf now daysAgo = (now div day_ms - daysAgo) * day_ms"

text \<open>
  A field of type \<open>datetime-local\<close> holds a date and a time of day to the minute, here the number
  of minutes that a clock showing it would have run since it showed the epoch. \<open>toDateInput\<close> shows
  the clock of UTC. \<open>fromDateInput\<close> reads the clock of the browser, which is \<open>off v\<close> milliseconds
  ahead of UTC when it shows \<open>v\<close>. An emptied field is no date, and \<open>toISOString\<close> throws.
\<close>

definition toDateInput :: "int \<Rightarrow> int" where
  "toDateInput t = t div 60000"

definition fromDateInput :: "(int \<Rightarrow> int) \<Rightarrow> int option \<Rightarrow> int option" where
  "fromDateInput off v = map_option (\<lambda>m. m * 60000 - off m) v"

section \<open>The page\<close>

datatype report_tab = UserTab | DeviceTab | SecretTab | ChangesTab | UserRolesTab | UserAccessTab

record report_page =
  rp_tab :: report_tab
  rp_from :: int
  rp_to :: int
  rp_userId :: string
  rp_deviceId :: string
  rp_section :: string

definition open_reports :: "int \<Rightarrow> report_page" where
  "open_reports now = \<lparr>rp_tab = UserTab, rp_from = isoStartOf now 30, rp_to = now, rp_userId = [], rp_deviceId = [], rp_section = []\<rparr>"

datatype report_event =
  PickReport report_tab | EditFrom "int option" | EditTo "int option" | EditUserId string | EditDeviceId string | EditSection string

definition audit_tab :: "report_tab \<Rightarrow> bool" where
  "audit_tab t \<longleftrightarrow> t \<in> {UserTab, DeviceTab, SecretTab, ChangesTab}"

text \<open>An event handler that throws leaves the state alone.\<close>

fun report_act :: "(int \<Rightarrow> int) \<Rightarrow> report_event \<Rightarrow> report_page \<Rightarrow> report_page" where
  "report_act off (PickReport t) p = p\<lparr>rp_tab := t\<rparr>"
| "report_act off (EditFrom v) p =
     (case fromDateInput off v of Some t \<Rightarrow> if audit_tab (rp_tab p) then p\<lparr>rp_from := t\<rparr> else p | None \<Rightarrow> p)"
| "report_act off (EditTo v) p =
     (case fromDateInput off v of Some t \<Rightarrow> if audit_tab (rp_tab p) then p\<lparr>rp_to := t\<rparr> else p | None \<Rightarrow> p)"
| "report_act off (EditUserId v) p = (if rp_tab p \<in> {UserTab, SecretTab} then p\<lparr>rp_userId := v\<rparr> else p)"
| "report_act off (EditDeviceId v) p = (if rp_tab p = DeviceTab then p\<lparr>rp_deviceId := v\<rparr> else p)"
| "report_act off (EditSection v) p = (if rp_tab p = ChangesTab then p\<lparr>rp_section := v\<rparr> else p)"

subsection \<open>What the screen asks for\<close>

text \<open>The report on screen; the device report waits for a device.\<close>

definition screen_call :: "env \<Rightarrow> (int \<Rightarrow> string) \<Rightarrow> report_page \<Rightarrow> json call option" where
  "screen_call E to_iso p = (case rp_tab p of
     UserTab \<Rightarrow> Some (userActivityReport E (to_iso (rp_from p)) (to_iso (rp_to p)) (or_null (rp_userId p)))
   | DeviceTab \<Rightarrow> if rp_deviceId p = [] then None
       else Some (deviceActivityReport E (to_iso (rp_from p)) (to_iso (rp_to p)) (rp_deviceId p))
   | SecretTab \<Rightarrow> Some (secretAccessReport E (to_iso (rp_from p)) (to_iso (rp_to p)) (or_null (rp_userId p)))
   | ChangesTab \<Rightarrow> Some (changeReport E (to_iso (rp_from p)) (to_iso (rp_to p)) (or_null (rp_section p)))
   | UserRolesTab \<Rightarrow> Some (userRolesReport E)
   | UserAccessTab \<Rightarrow> None)"

subsection \<open>The download\<close>

definition csv_entries :: "(int \<Rightarrow> string) \<Rightarrow> report_page \<Rightarrow> (string \<times> string option) list" where
  "csv_entries to_iso p = [(''ts_from'', Some (to_iso (rp_from p))), (''ts_to'', Some (to_iso (rp_to p)))] @
     (case rp_tab p of
        UserTab \<Rightarrow> [(''user_id'', or_null (rp_userId p))]
      | DeviceTab \<Rightarrow> [(''device_id'', or_null (rp_deviceId p))]
      | SecretTab \<Rightarrow> [(''user_id'', or_null (rp_userId p))]
      | ChangesTab \<Rightarrow> [(''section'', or_null (rp_section p))]
      | _ \<Rightarrow> [])"

definition csv_endpoint :: "report_tab \<Rightarrow> string" where
  "csv_endpoint t = (if t = UserTab then ''user-activity'' else if t = DeviceTab then ''device-activity''
     else if t = SecretTab then ''secret-access'' else ''changes'')"

definition press_download :: "env \<Rightarrow> (int \<Rightarrow> string) \<Rightarrow> report_page \<Rightarrow> (string \<times> string) call option" where
  "press_download E to_iso p = (if audit_tab (rp_tab p)
     then Some (downloadReportCsv E (csv_endpoint (rp_tab p)) (csv_entries to_iso p) (csv_endpoint (rp_tab p))) else None)"

section \<open>The rows of the reports\<close>

datatype outcome = OutcomeOk | OutcomeDenied | OutcomeFailed

fun outcome_name :: "outcome \<Rightarrow> string" where
  "outcome_name OutcomeOk = ''ok''"
| "outcome_name OutcomeDenied = ''denied''"
| "outcome_name OutcomeFailed = ''failed''"

record UserActivityRow =
  uar_ts :: string
  uar_user_id :: "string option"
  uar_user_email :: "string option"
  uar_section :: string
  uar_action :: string
  uar_outcome :: outcome
  uar_device_id :: "string option"
  uar_device_name :: "string option"
  uar_site_id :: "string option"
  uar_site_name :: "string option"
  uar_tenant_name :: "string option"
  uar_ip_address :: "string option"

record UserActivitySummary =
  uas_user_id :: "string option"
  uas_user_email :: "string option"
  uas_total :: int
  uas_writes :: int
  uas_failures :: int
  uas_sections_touched :: int
  uas_devices_touched :: int

record UserActivityReport =
  uap_range_from :: string
  uap_range_to :: string
  uap_rows :: "UserActivityRow list"
  uap_summary :: "UserActivitySummary list"
  uap_truncated :: bool

record DeviceActivityRow =
  dar_ts :: string
  dar_user_email :: "string option"
  dar_section :: string
  dar_action :: string
  dar_outcome :: outcome
  dar_ip_address :: "string option"
  dar_request_payload :: "json option"
  dar_error_message :: "string option"

record DeviceActivityReport =
  dap_device_id :: string
  dap_device_name :: "string option"
  dap_range_from :: string
  dap_range_to :: string
  dap_rows :: "DeviceActivityRow list"
  dap_truncated :: bool

record SecretAccessRow =
  sar_ts :: string
  sar_user_email :: "string option"
  sar_device_id :: string
  sar_device_name :: "string option"
  sar_secret_kind :: string
  sar_secret_identifier :: string
  sar_secret_label :: "string option"
  sar_last_rotation_ts :: "string option"
  sar_rotated_since_reveal :: bool
  sar_ip_address :: "string option"
  sar_justification :: "string option"

record SecretAccessReport =
  sap_range_from :: string
  sap_range_to :: string
  sap_rows :: "SecretAccessRow list"
  sap_unrotated_count :: int

record ChangeRow =
  chr_ts :: string
  chr_user_email :: "string option"
  chr_section :: string
  chr_action :: string
  chr_outcome :: outcome
  chr_device_id :: "string option"
  chr_device_name :: "string option"
  chr_request_payload :: "json option"

text \<open>The counts as the entries of their objects.\<close>

record ChangeReport =
  chp_range_from :: string
  chp_range_to :: string
  chp_rows :: "ChangeRow list"
  chp_by_section :: "(string \<times> int) list"
  chp_by_user :: "(string \<times> int) list"
  chp_truncated :: bool

section \<open>The tables\<close>

abbreviation or_dash :: "string option \<Rightarrow> string" where
  "or_dash v \<equiv> (case v of None \<Rightarrow> em_dash | Some s \<Rightarrow> s)"

definition user_cols :: "string list" where
  "user_cols = [''when'', ''user'', ''section'', ''action'', ''outcome'', ''device'', ''site'']"

definition user_accessors :: "(string \<Rightarrow> string) \<Rightarrow> string \<Rightarrow> (UserActivityRow \<Rightarrow> string) option" where
  "user_accessors toLocal = [
     ''when'' \<mapsto> \<lambda>r. toLocal (uar_ts r),
     ''user'' \<mapsto> \<lambda>r. or_blank (uar_user_email r),
     ''section'' \<mapsto> uar_section,
     ''action'' \<mapsto> uar_action,
     ''outcome'' \<mapsto> \<lambda>r. outcome_name (uar_outcome r),
     ''device'' \<mapsto> \<lambda>r. or_blank (uar_device_name r),
     ''site'' \<mapsto> \<lambda>r. join '' '' (filter (\<lambda>w. w \<noteq> []) (map or_blank [uar_tenant_name r, uar_site_name r]))]"

definition user_cells :: "(string \<Rightarrow> string) \<Rightarrow> UserActivityRow \<Rightarrow> string list" where
  "user_cells toLocal r = [toLocal (uar_ts r), or_dash (uar_user_email r), uar_section r, uar_action r, outcome_name (uar_outcome r),
     or_dash (uar_device_name r),
     (if truthy_str (uar_tenant_name r) \<and> truthy_str (uar_site_name r)
      then the (uar_tenant_name r) @ '' '' @ mid_dot @ '' '' @ the (uar_site_name r)
      else case uar_tenant_name r of Some t \<Rightarrow> t | None \<Rightarrow> or_dash (uar_site_name r))]"

definition device_cols :: "string list" where
  "device_cols = [''when'', ''user'', ''section'', ''action'', ''outcome'', ''error'']"

definition device_accessors :: "(string \<Rightarrow> string) \<Rightarrow> string \<Rightarrow> (DeviceActivityRow \<Rightarrow> string) option" where
  "device_accessors toLocal = [
     ''when'' \<mapsto> \<lambda>r. toLocal (dar_ts r),
     ''user'' \<mapsto> \<lambda>r. or_blank (dar_user_email r),
     ''section'' \<mapsto> dar_section,
     ''action'' \<mapsto> dar_action,
     ''outcome'' \<mapsto> \<lambda>r. outcome_name (dar_outcome r),
     ''error'' \<mapsto> \<lambda>r. or_blank (dar_error_message r)]"

definition device_cells :: "(string \<Rightarrow> string) \<Rightarrow> DeviceActivityRow \<Rightarrow> string list" where
  "device_cells toLocal r = [toLocal (dar_ts r), or_dash (dar_user_email r), dar_section r, dar_action r, outcome_name (dar_outcome r),
     or_dash (dar_error_message r)]"

definition secret_cols :: "string list" where
  "secret_cols = [''when'', ''user'', ''device'', ''kind'', ''secret'', ''rotated'', ''justification'']"

definition secret_name :: "SecretAccessRow \<Rightarrow> string" where
  "secret_name r = (case sar_secret_label r of None \<Rightarrow> sar_secret_identifier r | Some l \<Rightarrow> l)"

definition secret_accessors :: "(string \<Rightarrow> string) \<Rightarrow> string \<Rightarrow> (SecretAccessRow \<Rightarrow> string) option" where
  "secret_accessors toLocal = [
     ''when'' \<mapsto> \<lambda>r. toLocal (sar_ts r),
     ''user'' \<mapsto> \<lambda>r. or_blank (sar_user_email r),
     ''device'' \<mapsto> \<lambda>r. or_blank (sar_device_name r),
     ''kind'' \<mapsto> sar_secret_kind,
     ''secret'' \<mapsto> secret_name,
     ''rotated'' \<mapsto> \<lambda>r. if sar_rotated_since_reveal r then ''yes'' else ''no'',
     ''justification'' \<mapsto> \<lambda>r. or_blank (sar_justification r)]"

definition secret_cells :: "(string \<Rightarrow> string) \<Rightarrow> SecretAccessRow \<Rightarrow> string list" where
  "secret_cells toLocal r = [toLocal (sar_ts r), or_dash (sar_user_email r), or_dash (sar_device_name r), sar_secret_kind r, secret_name r,
     (if sar_rotated_since_reveal r
      then ''yes '' @ em_dash @ '' '' @ (if truthy_str (sar_last_rotation_ts r) then toLocal (the (sar_last_rotation_ts r)) else [])
      else ''no '' @ em_dash @ '' still leaked''),
     or_dash (sar_justification r)]"

definition change_cols :: "string list" where
  "change_cols = [''when'', ''user'', ''section'', ''action'', ''device'', ''payload'']"

definition change_accessors :: "(string \<Rightarrow> string) \<Rightarrow> (json \<Rightarrow> string) \<Rightarrow> string \<Rightarrow> (ChangeRow \<Rightarrow> string) option" where
  "change_accessors toLocal stringify = [
     ''when'' \<mapsto> \<lambda>r. toLocal (chr_ts r),
     ''user'' \<mapsto> \<lambda>r. or_blank (chr_user_email r),
     ''section'' \<mapsto> chr_section,
     ''action'' \<mapsto> chr_action,
     ''device'' \<mapsto> \<lambda>r. or_blank (chr_device_name r),
     ''payload'' \<mapsto> \<lambda>r. or_blank (map_option stringify (chr_request_payload r))]"

definition change_cells :: "(string \<Rightarrow> string) \<Rightarrow> (json \<Rightarrow> string) \<Rightarrow> ChangeRow \<Rightarrow> string list" where
  "change_cells toLocal stringify r = [toLocal (chr_ts r), or_dash (chr_user_email r), chr_section r, chr_action r,
     or_dash (chr_device_name r), or_dash (map_option stringify (chr_request_payload r))]"

subsection \<open>Titles\<close>

definition of_total :: "nat \<Rightarrow> nat \<Rightarrow> string" where
  "of_total shown n = (if shown \<noteq> n then '' of '' @ show_nat n else [])"

definition plus_mark :: "bool \<Rightarrow> string" where
  "plus_mark truncated = (if truncated then ''+'' else [])"

definition user_title :: "nat \<Rightarrow> UserActivityReport \<Rightarrow> string" where
  "user_title shown d = ''Events ('' @ show_nat shown @ plus_mark (uap_truncated d) @ of_total shown (length (uap_rows d)) @ '')''"

definition device_title :: "nat \<Rightarrow> DeviceActivityReport \<Rightarrow> string" where
  "device_title shown d = (case dap_device_name d of None \<Rightarrow> dap_device_id d | Some n \<Rightarrow> n) @ '' '' @ em_dash @ '' '' @
     show_nat shown @ plus_mark (dap_truncated d) @ of_total shown (length (dap_rows d)) @ '' events''"

definition secret_title :: "nat \<Rightarrow> SecretAccessReport \<Rightarrow> string" where
  "secret_title shown d = ''Secret reveals ('' @ show_nat shown @ of_total shown (length (sap_rows d)) @ '')''"

definition change_title :: "nat \<Rightarrow> ChangeReport \<Rightarrow> string" where
  "change_title shown d = ''Changes ('' @ show_nat shown @ plus_mark (chp_truncated d) @ of_total shown (length (chp_rows d)) @ '')''"

text \<open>\<open>Object.entries(...).sort(([, a], [, b]) => b - a)\<close>\<close>

definition counts_first :: "(string \<times> int) list \<Rightarrow> (string \<times> int) list" where
  "counts_first es = sort_by (\<lambda>x y. snd y - snd x) es"

subsection \<open>The filters of a table\<close>

text \<open>The filters after a sequence of edits, each to the field of a column.\<close>

definition typed_filters :: "(string \<times> string) list \<Rightarrow> (string \<times> string) list" where
  "typed_filters edits = fold (\<lambda>(c, v). put_entry c v) edits []"

section \<open>Users and roles\<close>

record UserRoleAssignmentRow =
  ura_role_id :: string
  ura_role_name :: string
  ura_scope_type :: string
  ura_scope_id :: "string option"
  ura_scope_label :: "string option"

record UserRoleSummary =
  urs_user_id :: string
  urs_email :: string
  urs_display_name :: "string option"
  urs_is_admin :: bool
  urs_is_active :: bool
  urs_totp_enrolled :: bool
  urs_otp_login_enabled :: bool
  urs_assignments :: "UserRoleAssignmentRow list"
  urs_permission_count :: int

record RoleSummary =
  ros_role_id :: string
  ros_role_name :: string
  ros_is_system :: bool
  ros_description :: "string option"
  ros_user_count :: int
  ros_permissions :: "string list"

record UserRolesReport =
  urr_users :: "UserRoleSummary list"
  urr_roles :: "RoleSummary list"

definition filteredUsers :: "UserRolesReport option \<Rightarrow> string \<Rightarrow> string \<Rightarrow> UserRoleSummary list" where
  "filteredUsers data userFilter roleFilter = (case data of None \<Rightarrow> []
     | Some d \<Rightarrow> let needle = toLowerCase (trim userFilter) in
         filter (\<lambda>u. if needle \<noteq> [] \<and> \<not> (str_includes (toLowerCase (urs_email u)) needle \<or>
                           str_includes (toLowerCase (or_blank (urs_display_name u))) needle) then False
                     else if roleFilter \<noteq> [] \<and> \<not> list_ex (\<lambda>a. ura_role_id a = roleFilter) (urs_assignments u) then False
                     else True) (urr_users d))"

definition assignment_text :: "UserRoleAssignmentRow \<Rightarrow> string" where
  "assignment_text a = ura_role_name a @ '' '' @ mid_dot @ '' '' @ ura_scope_type a @
     (if truthy_str (ura_scope_label a) \<and> ura_scope_type a \<noteq> ''organization'' then '' '' @ mid_dot @ '' '' @ the (ura_scope_label a) else [])"

section \<open>The reach of a user\<close>

record UserScopeGrant =
  usg_role_id :: "string option"
  usg_role_name :: "string option"
  usg_via_scope_type :: "string option"
  usg_via_scope_id :: "string option"
  usg_via_scope_label :: "string option"

record PermissionTuple =
  pt_section :: string
  pt_action :: string

definition permission_label :: "PermissionTuple \<Rightarrow> string" where
  "permission_label p = (if pt_section p = ''*'' \<and> pt_action p = ''*'' then ''* (super-admin)'' else pt_section p @ '':'' @ pt_action p)"

definition grant_title :: "UserScopeGrant \<Rightarrow> string" where
  "grant_title g = (if truthy_str (usg_via_scope_type g)
     then ''via '' @ the (usg_via_scope_type g) @
       (if truthy_str (usg_via_scope_label g) then '' '' @ mid_dot @ '' '' @ the (usg_via_scope_label g) else [])
     else ''via super-admin'')"

definition grant_label :: "UserScopeGrant \<Rightarrow> string" where
  "grant_label g = (case usg_role_name g of None \<Rightarrow> ''super-admin'' | Some n \<Rightarrow> n) @ '' ('' @
     (case usg_via_scope_type g of None \<Rightarrow> ''*'' | Some t \<Rightarrow> t) @ '')''"

section \<open>The range\<close>

text \<open>The range begins at midnight UTC and reaches back thirty days and the day under way.\<close>

lemma start_of_range:
  "isoStartOf now n mod day_ms = 0" "n * day_ms \<le> now - isoStartOf now n" "now - isoStartOf now n < (n + 1) * day_ms"
proof -
  have d: "(0 :: int) < day_ms" by (simp add: day_ms_def)
  have "now - isoStartOf now n = now mod day_ms + n * day_ms"
    using div_mult_mod_eq [of now day_ms] by (simp add: isoStartOf_def algebra_simps)
  moreover have "0 \<le> now mod day_ms" "now mod day_ms < day_ms" using d by simp_all
  ultimately show "n * day_ms \<le> now - isoStartOf now n" "now - isoStartOf now n < (n + 1) * day_ms"
    by (simp_all add: algebra_simps)
qed (simp add: isoStartOf_def)

lemma field_shift: "off m = k * 60000 \<Longrightarrow> map_option toDateInput (fromDateInput off (Some m)) = Some (m - k)"
proof -
  assume "off m = k * 60000"
  then have "m * 60000 - off m = (m - k) * 60000" by (simp add: algebra_simps)
  then show ?thesis by (simp add: fromDateInput_def toDateInput_def)
qed

text \<open>
  The fields show the clock of UTC and read the clock of the browser: in every zone but UTC the
  field does not show the minute that was picked but one shifted by the offset of the zone,
  and picking what it shows shifts the range again.
\<close>

theorem date_field_drifts:
  assumes "\<And>m. off m = k * 60000"
  shows "toDateInput (rp_from (report_act off (EditFrom (Some v)) (open_reports now))) = v - k \<and>
    toDateInput (rp_from (fold (\<lambda>_ p. report_act off (EditFrom (Some (toDateInput (rp_from p)))) p) [0 ..< n] (open_reports now))) =
      toDateInput (rp_from (open_reports now)) - int n * k"
proof
  show "toDateInput (rp_from (report_act off (EditFrom (Some v)) (open_reports now))) = v - k"
    using field_shift [of off v k] assms by (simp add: open_reports_def audit_tab_def fromDateInput_def)
  have "toDateInput (rp_from (fold (\<lambda>_ p. report_act off (EditFrom (Some (toDateInput (rp_from p)))) p) xs p)) =
      toDateInput (rp_from p) - int (length xs) * k" if "rp_tab p = UserTab" for xs :: "nat list" and p
    using that
  proof (induction xs arbitrary: p)
    case (Cons x xs)
    let ?q = "report_act off (EditFrom (Some (toDateInput (rp_from p)))) p"
    have "rp_tab ?q = UserTab" "toDateInput (rp_from ?q) = toDateInput (rp_from p) - k"
      using field_shift [of off "toDateInput (rp_from p)" k] assms Cons.prems by (simp_all add: audit_tab_def fromDateInput_def)
    with Cons.IH [of ?q] show ?case by (simp add: algebra_simps)
  qed simp
  from this [of "open_reports now" "[0 ..< n]"]
  show "toDateInput (rp_from (fold (\<lambda>_ p. report_act off (EditFrom (Some (toDateInput (rp_from p)))) p) [0 ..< n] (open_reports now))) =
      toDateInput (rp_from (open_reports now)) - int n * k" by (simp add: open_reports_def)
qed

section \<open>The download\<close>

text \<open>The query of the report on screen, by the table that is shown.\<close>

definition screen_query :: "(int \<Rightarrow> string) \<Rightarrow> report_page \<Rightarrow> (string \<times> params) option" where
  "screen_query to_iso p = (let r = date_range (to_iso (rp_from p)) (to_iso (rp_to p)) in case rp_tab p of
     UserTab \<Rightarrow> Some (''user-activity'', range_params (r @ opt_entry ''user_id'' (or_null (rp_userId p))))
   | DeviceTab \<Rightarrow> if rp_deviceId p = [] then None
       else Some (''device-activity'', range_params (r @ [(''device_id'', JStr (rp_deviceId p))]))
   | SecretTab \<Rightarrow> Some (''secret-access'', range_params (r @ opt_entry ''user_id'' (or_null (rp_userId p))))
   | ChangesTab \<Rightarrow> Some (''changes'', range_params (r @ opt_entry ''section'' (or_null (rp_section p))))
   | _ \<Rightarrow> None)"

lemma screen_query_call:
  "screen_query to_iso p = Some (ep, q) \<Longrightarrow> screen_call E to_iso p = Some (api_json E GET (''reports/'' @ ep) (with_search q))"
  by (auto simp: screen_query_def screen_call_def Let_def userActivityReport_def deviceActivityReport_def secretAccessReport_def
      changeReport_def split: report_tab.splits if_splits)

lemma range_getAll:
  "sp_getAll (range_params ([(a, JStr x), (b, JStr y)] @ es)) k =
     (if k = a \<and> x \<noteq> [] then [x] else []) @ (if k = b \<and> y \<noteq> [] then [y] else []) @ sp_getAll (range_params es) k"
  by (simp add: range_params_def sp_getAll_def)

lemma opt_getAll: "sp_getAll (range_params (opt_entry c v)) k = (if k = c then asked v else [])"
  by (auto simp: range_params_def opt_entry_def sp_getAll_def truthy_str_def split: option.split)

text \<open>The one filter of a report beside the range, and the values its query has for a key.\<close>

definition tab_filter :: "report_page \<Rightarrow> string \<times> string" where
  "tab_filter p = (case rp_tab p of DeviceTab \<Rightarrow> (''device_id'', rp_deviceId p) | ChangesTab \<Rightarrow> (''section'', rp_section p)
     | _ \<Rightarrow> (''user_id'', rp_userId p))"

definition screen_values :: "(int \<Rightarrow> string) \<Rightarrow> report_page \<Rightarrow> string \<Rightarrow> string list" where
  "screen_values to_iso p k = asked (if k = ''ts_from'' then Some (to_iso (rp_from p)) else if k = ''ts_to'' then Some (to_iso (rp_to p))
     else if k = fst (tab_filter p) then Some (snd (tab_filter p)) else None)"

lemma or_null_truthy [simp]: "truthy_str (or_null s) \<longleftrightarrow> s \<noteq> []" "s \<noteq> [] \<Longrightarrow> the (or_null s) = s"
  by (simp_all add: or_null_def truthy_str_def)

lemma csv_values:
  assumes "audit_tab (rp_tab p)"
  shows "asked (value_of (csv_entries to_iso p) k) = screen_values to_iso p k"
  using assms by (cases "rp_tab p") (simp_all add: audit_tab_def csv_entries_def value_of_def screen_values_def tab_filter_def)

lemma one_getAll: "sp_getAll (range_params [(c, JStr v)]) k = (if k = c then asked (Some v) else [])"
  by (simp add: range_params_def sp_getAll_def truthy_str_def)

lemma screen_query_values:
  assumes "audit_tab (rp_tab p)"
  shows "case screen_query to_iso p of None \<Rightarrow> rp_tab p = DeviceTab \<and> rp_deviceId p = []
    | Some (ep, q) \<Rightarrow> ep = csv_endpoint (rp_tab p) \<and> sp_getAll q k = screen_values to_iso p k"
  using assms
  by (cases "rp_tab p")
    (simp_all add: screen_query_def Let_def date_range_def range_getAll opt_getAll one_getAll csv_endpoint_def screen_values_def
      tab_filter_def audit_tab_def del: append_Cons)


section \<open>What the tables show\<close>

text \<open>
  A report table: every column has an accessor. Its edits go to the fields of its columns, and it
  shows exactly the rows whose text in every column contains what was last typed there.
\<close>

definition column_text :: "(string \<times> string) list \<Rightarrow> string \<Rightarrow> string" where
  "column_text edits c = (case map_of (rev edits) c of None \<Rightarrow> [] | Some v \<Rightarrow> toLowerCase (trim v))"

locale report_table =
  fixes cols :: "string list" and accessors :: "string \<Rightarrow> ('r \<Rightarrow> string) option"
  assumes has_accessor: "dom accessors = set cols"
begin

lemma put_entry_map: "map_of (put_entry c v es) = (map_of es)(c \<mapsto> v)"
  by (induction es) (auto simp: fun_eq_iff)

lemma put_entry_keys: "fst ` set (put_entry c v es) = insert c (fst ` set es)"
  by (induction c v es rule: put_entry.induct) auto

lemma put_entry_distinct: "distinct (map fst es) \<Longrightarrow> distinct (map fst (put_entry c v es))"
proof (induction c v es rule: put_entry.induct)
  case (2 c v c' v' es)
  then show ?case using put_entry_keys [of c v es] by (auto simp flip: set_map)
qed simp

lemma typed_map: "map_of (fold (\<lambda>(c, v). put_entry c v) edits es) = map_of es ++ map_of (rev edits)"
  by (induction edits arbitrary: es) (auto simp: put_entry_map fun_eq_iff map_add_def split: option.splits)

lemma typed_distinct: "distinct (map fst es) \<Longrightarrow> distinct (map fst (fold (\<lambda>(c, v). put_entry c v) edits es))"
  by (induction edits arbitrary: es) (auto simp: put_entry_distinct)

lemma typed_mem: "(c, v) \<in> set (typed_filters edits) \<longleftrightarrow> map_of (rev edits) c = Some v"
proof -
  have "distinct (map fst (typed_filters edits))" "map_of (typed_filters edits) = map_of (rev edits)"
    by (simp_all add: typed_filters_def typed_distinct typed_map)
  then show ?thesis by (metis map_of_eq_Some_iff)
qed

lemma shows_matches:
  assumes "fst ` set edits \<subseteq> set cols"
  shows "apply_filters accessors (typed_filters edits) rows =
    filter (\<lambda>r. \<forall>c\<in>set cols. str_includes (toLowerCase (the (accessors c) r)) (column_text edits c)) rows"
proof -
  have "list_all (entry_ok accessors r) (typed_filters edits) \<longleftrightarrow>
      (\<forall>c\<in>set cols. str_includes (toLowerCase (the (accessors c) r)) (column_text edits c))" for r
  proof -
    have inc: "str_includes s []" for s by (cases s) (simp_all add: startsWith_prefix)
    have key: "map_of (rev edits) c = Some v \<Longrightarrow> c \<in> set cols" for c v
      using assms map_of_SomeD [of "rev edits" c v] by force
    have "list_all (entry_ok accessors r) (typed_filters edits) \<longleftrightarrow>
        (\<forall>c v. map_of (rev edits) c = Some v \<longrightarrow> entry_ok accessors r (c, v))"
      using typed_mem by (auto simp: list_all_iff)
    also have "\<dots> \<longleftrightarrow> (\<forall>c\<in>set cols. str_includes (toLowerCase (the (accessors c) r)) (column_text edits c))"
    proof -
      have "(\<forall>v. map_of (rev edits) c = Some v \<longrightarrow> entry_ok accessors r (c, v)) \<longleftrightarrow>
          str_includes (toLowerCase (the (accessors c) r)) (column_text edits c)" if "c \<in> set cols" for c
      proof -
        have "c \<in> dom accessors" using that has_accessor by simp
        then obtain acc where "accessors c = Some acc" by blast
        then show ?thesis using inc by (cases "map_of (rev edits) c") (simp_all add: entry_ok_def column_text_def Let_def)
      qed
      with key show ?thesis by blast
    qed
    finally show ?thesis .
  qed
  then show ?thesis by (simp add: apply_filters_def)
qed

end

interpretation user_table: report_table user_cols "user_accessors toLocal"
  by unfold_locales (auto simp: user_cols_def user_accessors_def)

interpretation device_table: report_table device_cols "device_accessors toLocal"
  by unfold_locales (auto simp: device_cols_def device_accessors_def)

interpretation secret_table: report_table secret_cols "secret_accessors toLocal"
  by unfold_locales (auto simp: secret_cols_def secret_accessors_def)

interpretation change_table: report_table change_cols "change_accessors toLocal stringify"
  by unfold_locales (auto simp: change_cols_def change_accessors_def)

text \<open>
  Each of the four tables shows exactly the rows whose text in every column contains what was
  last typed over it, whatever else was typed before; a count of the form \<open>n of m\<close> is in a title
  exactly when rows are hidden.
\<close>

theorem report_tables_exact:
  "(fst ` set es \<subseteq> set user_cols \<longrightarrow> apply_filters (user_accessors loc) (typed_filters es) us =
      filter (\<lambda>r. \<forall>c\<in>set user_cols. str_includes (toLowerCase (the (user_accessors loc c) r)) (column_text es c)) us) \<and>
   (fst ` set es \<subseteq> set device_cols \<longrightarrow> apply_filters (device_accessors loc) (typed_filters es) ds =
      filter (\<lambda>r. \<forall>c\<in>set device_cols. str_includes (toLowerCase (the (device_accessors loc c) r)) (column_text es c)) ds) \<and>
   (fst ` set es \<subseteq> set secret_cols \<longrightarrow> apply_filters (secret_accessors loc) (typed_filters es) ss =
      filter (\<lambda>r. \<forall>c\<in>set secret_cols. str_includes (toLowerCase (the (secret_accessors loc c) r)) (column_text es c)) ss) \<and>
   (fst ` set es \<subseteq> set change_cols \<longrightarrow> apply_filters (change_accessors loc sfy) (typed_filters es) cs =
      filter (\<lambda>r. \<forall>c\<in>set change_cols. str_includes (toLowerCase (the (change_accessors loc sfy c) r)) (column_text es c)) cs)"
  using user_table.shows_matches [of es loc us] device_table.shows_matches [of es loc ds] secret_table.shows_matches [of es loc ss]
    change_table.shows_matches [of es loc sfy cs] by blast

text \<open>A secret that was not rotated is found by typing over its column, though the cell says more.\<close>

lemma rotated_filter_on_cell: "the (secret_accessors loc ''rotated'') r = (if sar_rotated_since_reveal r then ''yes'' else ''no'')"
  by (simp add: secret_accessors_def)

lemma leaked_not_found:
  "\<not> sar_rotated_since_reveal r \<Longrightarrow> \<not> str_includes (toLowerCase (the (secret_accessors loc ''rotated'') r)) ''leaked''"
  by (simp add: secret_accessors_def toLowerCase_def lower_char_def startsWith_def)

text \<open>The counts of changes: the same entries, largest first, equal ones in their order.\<close>

interpretation counts: js_sort "\<lambda>x y :: string \<times> int. snd y - snd x"
  by unfold_locales auto

lemma counts_first_sorted:
  "mset (counts_first es) = mset es" "sorted_wrt (\<lambda>x y. snd y \<le> snd x) (counts_first es)"
  "filter (\<lambda>y. snd y = n) (counts_first es) = filter (\<lambda>y. snd y = n) es"
  using counts.sort_by_ordered [of es] counts.sort_by_stable [of "(undefined, n)" es]
  by (simp_all add: counts_first_def)

text \<open>Filtering the users: by text in name or address, and by a role they hold anywhere.\<close>

lemma filteredUsers_mem:
  "u \<in> set (filteredUsers (Some d) txt role) \<longleftrightarrow> u \<in> set (urr_users d) \<and>
     (let n = toLowerCase (trim txt) in n = [] \<or> str_includes (toLowerCase (urs_email u)) n \<or>
        str_includes (toLowerCase (or_blank (urs_display_name u))) n) \<and>
     (role = [] \<or> (\<exists>a\<in>set (urs_assignments u). ura_role_id a = role))"
  by (auto simp: filteredUsers_def Let_def list_ex_iff)

section \<open>Witnesses\<close>

theorem date_field_drifts_witness:
  "toDateInput (rp_from (report_act (\<lambda>_. 240 * 60000) (EditFrom (Some 29000000)) (open_reports 0))) = 28999760"
  using date_field_drifts [of "\<lambda>_. 240 * 60000" 240 29000000 0 0] by simp


lemma lower_ufw: "toLowerCase ''UFW'' = ''ufw''" "toLowerCase ''ufw'' = ''ufw''"
  by (simp_all add: toLowerCase_def, code_simp+)

definition demo_row :: DeviceActivityRow where
  "demo_row = \<lparr>dar_ts = ''2026-01-01'', dar_user_email = None, dar_section = ''ufw'', dar_action = ''write'', dar_outcome = OutcomeOk,
     dar_ip_address = None, dar_request_payload = None, dar_error_message = None\<rparr>"

theorem report_tables_exact_witness:
  "apply_filters (device_accessors id) (typed_filters [(''section'', ''x''), (''section'', '' UFW '')]) [demo_row] = [demo_row]"
proof -
  have "fst ` set [(''section'', ''x''), (''section'', '' UFW '')] \<subseteq> set device_cols" by (simp add: device_cols_def)
  with report_tables_exact [of "[(''section'', ''x''), (''section'', '' UFW '')]" id _ "[demo_row]"]
  have "apply_filters (device_accessors id) (typed_filters [(''section'', ''x''), (''section'', '' UFW '')]) [demo_row] =
      filter (\<lambda>r. \<forall>c\<in>set device_cols. str_includes (toLowerCase (the (device_accessors id c) r))
        (column_text [(''section'', ''x''), (''section'', '' UFW '')] c)) [demo_row]" by blast
  also have "\<dots> = [demo_row]"
    by (simp add: device_cols_def device_accessors_def demo_row_def column_text_def trim_def trimStart_def trimEnd_def is_ws_def
        lower_ufw startsWith_def)
  finally show ?thesis .
qed

end
