(* ===== verification/Devices_Page.thy ===== *)
theory Devices_Page
  imports Onboard_Wizard
begin

text \<open>
  The list of devices with the form for a new one (\<open>devices/page.tsx\<close>) and the overview of a
  device with its buttons and its editor (\<open>devices/[id]/page.tsx\<close>).
\<close>

section \<open>The list\<close>

text \<open>The filters come from the address; a missing one is None.\<close>

definition osUpgrade :: "Device \<Rightarrow> bool" where
  "osUpgrade d \<longleftrightarrow> truthy_str (d_firmware_available d) \<and> truthy_str (d_firmware d) \<and>
     normFw (d_firmware_available d) \<noteq> normFw (d_firmware d)"

definition rbUpgrade :: "Device \<Rightarrow> bool" where
  "rbUpgrade d \<longleftrightarrow> truthy_str (d_routerboard_available d) \<and> truthy_str (d_routerboard_current d) \<and>
     normFw (d_routerboard_available d) \<noteq> normFw (d_routerboard_current d)"

definition filtered_devices :: "string option \<Rightarrow> string option \<Rightarrow> Device list option \<Rightarrow> Device list option" where
  "filtered_devices statusFilter firmwareFilter devices = map_option (filter (\<lambda>d.
     if truthy_str statusFilter \<and> Some (d_status d) \<noteq> statusFilter then False
     else if firmwareFilter = Some ''available'' \<and> \<not> osUpgrade d \<and> \<not> rbUpgrade d then False
     else True)) devices"

definition activeFilter :: "string option \<Rightarrow> string option \<Rightarrow> string option" where
  "activeFilter statusFilter firmwareFilter = (if firmwareFilter = Some ''available'' then Some ''firmware updates'' else statusFilter)"

text \<open>The marks a row has beside its firmware, and its other cells.\<close>

definition firmware_marks :: "Device \<Rightarrow> string list" where
  "firmware_marks d = (if osUpgrade d then [right_arrow @ '' '' @ the (d_firmware_available d)] else []) @
     (if rbUpgrade d then [''RB '' @ right_arrow @ '' '' @ the (d_routerboard_available d)] else [])"

definition device_row :: "Site list option \<Rightarrow> Driver list option \<Rightarrow> Device \<Rightarrow> string list" where
  "device_row sites drivers d = [d_name d,
     (case map_of (rev (map (\<lambda>s. (st_id s, st_name s)) (case sites of None \<Rightarrow> [] | Some ss \<Rightarrow> ss))) (d_site_id d) of
        None \<Rightarrow> em_dash | Some n \<Rightarrow> n),
     (case map_of (rev (map (\<lambda>r. (dr_vendor r, dr_display_name r)) (case drivers of None \<Rightarrow> [] | Some rs \<Rightarrow> rs))) (d_vendor d) of
        None \<Rightarrow> d_vendor d | Some n \<Rightarrow> n),
     d_host d @ '':'' @ show_int (d_port d),
     (case d_firmware d of None \<Rightarrow> em_dash | Some f \<Rightarrow> f)]"

section \<open>The new device\<close>

text \<open>
  The options of the site, by tenant: an object lists the keys that are array indices first, in
  their order, and the others in the order of their first use.
\<close>

definition index_key :: "string \<Rightarrow> bool" where
  "index_key k \<longleftrightarrow> k = show_nat (read_nat k) \<and> read_nat k < 4294967295"

definition object_order :: "string list \<Rightarrow> string list" where
  "object_order ks = sort_key read_nat (filter index_key ks) @ filter (\<lambda>k. \<not> index_key k) ks"

definition tenant_key :: "Site \<Rightarrow> string" where
  "tenant_key s = (case st_tenant_name s of None \<Rightarrow> ''(no tenant)'' | Some n \<Rightarrow> n)"

definition site_groups :: "Site list \<Rightarrow> (string \<times> Site list) list" where
  "site_groups sites = map (\<lambda>k. (k, filter (\<lambda>s. tenant_key s = k) sites)) (object_order (rev (remdups (rev (map tenant_key sites)))))"

record add_form =
  af_name :: string
  af_siteId :: string
  af_vendor :: string
  af_host :: string
  af_port :: rat
  af_username :: string
  af_password :: string
  af_verifyTls :: bool
  af_error :: "string option"
  af_pending :: bool
  af_created :: "Device option"

text \<open>The effect on the vendor puts the port of the native API back.\<close>

definition vendor_port :: "add_form \<Rightarrow> add_form" where
  "vendor_port f = (if af_vendor f = ''mikrotik'' then f\<lparr>af_port := 8728\<rparr> else f)"

definition new_add_form :: "Site list \<Rightarrow> Driver list \<Rightarrow> add_form" where
  "new_add_form sites drivers = vendor_port \<lparr>af_name = [],
     af_siteId = (case sites of [] \<Rightarrow> [] | s # _ \<Rightarrow> st_id s),
     af_vendor = (case drivers of [] \<Rightarrow> ''mikrotik'' | r # _ \<Rightarrow> dr_vendor r),
     af_host = [], af_port = 8728, af_username = ''admin'', af_password = [], af_verifyTls = False, af_error = None,
     af_pending = False, af_created = None\<rparr>"

definition add_payload :: "add_form \<Rightarrow> DeviceCreate" where
  "add_payload f = \<lparr>dc_site_id = af_siteId f, dc_vendor = af_vendor f, dc_name = af_name f, dc_host = af_host f,
     dc_port = Val (af_port f), dc_ssh_port = Undefined, dc_transport = Undefined, dc_verify_tls = Val (af_verifyTls f),
     dc_username = af_username f, dc_password = nul (af_password f), dc_api_key = Undefined, dc_generate_ssh_key = Undefined,
     dc_ssh_private_key = Undefined, dc_become_method = Undefined, dc_become_password = Undefined, dc_notes = Undefined\<rparr>"

text \<open>A whole number between 1 and 65535; an emptied number field reads as 0.\<close>

definition port_field_ok :: "rat \<Rightarrow> bool" where
  "port_field_ok x \<longleftrightarrow> 1 \<le> x \<and> x \<le> 65535 \<and> x = of_int \<lfloor>x\<rfloor>"

definition device_fields_ok :: "add_form \<Rightarrow> bool" where
  "device_fields_ok f \<longleftrightarrow> af_name f \<noteq> [] \<and> af_siteId f \<noteq> [] \<and> af_host f \<noteq> [] \<and> af_username f \<noteq> [] \<and> port_field_ok (af_port f)"

record devices_page =
  dp_form :: "add_form option"
  dp_sent :: "DeviceCreate list"

datatype device_field = DName | DHost | DUser | DPassword

fun type_device :: "device_field \<Rightarrow> string \<Rightarrow> add_form \<Rightarrow> add_form" where
  "type_device DName v f = f\<lparr>af_name := v\<rparr>"
| "type_device DHost v f = f\<lparr>af_host := v\<rparr>"
| "type_device DUser v f = f\<lparr>af_username := v\<rparr>"
| "type_device DPassword v f = f\<lparr>af_password := v\<rparr>"

datatype devices_event =
  ToggleDeviceForm | TypeDevice device_field string | PickSite string | PickVendor string | TypePort "rat option" | TickTls bool
| SubmitDevice | DeviceCreated Device | DeviceRefused string | OnboardingDone

text \<open>While the panel with the onboarding script is shown the form is not.\<close>

definition in_form :: "(add_form \<Rightarrow> add_form) \<Rightarrow> devices_page \<Rightarrow> devices_page" where
  "in_form g p = p\<lparr>dp_form := map_option (\<lambda>f. if af_created f = None then g f else f) (dp_form p)\<rparr>"

fun devices_act :: "Site list \<Rightarrow> Driver list \<Rightarrow> devices_event \<Rightarrow> devices_page \<Rightarrow> devices_page" where
  "devices_act sites drivers ToggleDeviceForm p =
     (if sites = [] then p
      else p\<lparr>dp_form := (case dp_form p of None \<Rightarrow> Some (new_add_form sites drivers) | Some _ \<Rightarrow> None)\<rparr>)"
| "devices_act sites drivers (TypeDevice fd v) p = in_form (type_device fd v) p"
| "devices_act sites drivers (PickSite i) p = (if i \<in> st_id ` set sites then in_form (af_siteId_update (\<lambda>_. i)) p else p)"
| "devices_act sites drivers (PickVendor v) p =
     (if v \<in> dr_vendor ` set drivers
      then in_form (\<lambda>f. if v = af_vendor f then f else vendor_port (f\<lparr>af_vendor := v\<rparr>)) p else p)"
| "devices_act sites drivers (TypePort x) p = in_form (af_port_update (\<lambda>_. case x of None \<Rightarrow> 0 | Some n \<Rightarrow> n)) p"
| "devices_act sites drivers (TickTls b) p = in_form (af_verifyTls_update (\<lambda>_. b)) p"
| "devices_act sites drivers SubmitDevice p =
     (case dp_form p of None \<Rightarrow> p
      | Some f \<Rightarrow> if af_created f \<noteq> None \<or> af_pending f \<or> \<not> device_fields_ok f then p
          else p\<lparr>dp_form := Some (f\<lparr>af_error := None, af_pending := True\<rparr>), dp_sent := dp_sent p @ [add_payload f]\<rparr>)"
| "devices_act sites drivers (DeviceCreated d) p =
     p\<lparr>dp_form := map_option (\<lambda>f. if af_pending f then f\<lparr>af_pending := False, af_created := Some d\<rparr> else f) (dp_form p)\<rparr>"
| "devices_act sites drivers (DeviceRefused m) p =
     p\<lparr>dp_form := map_option (\<lambda>f. if af_pending f then f\<lparr>af_pending := False, af_error := Some m\<rparr> else f) (dp_form p)\<rparr>"
| "devices_act sites drivers OnboardingDone p =
     (case dp_form p of Some f \<Rightarrow> if af_created f \<noteq> None then p\<lparr>dp_form := None\<rparr> else p | None \<Rightarrow> p)"

text \<open>The panel downloads the script, and tells which file to import.\<close>

definition panel_download :: "env \<Rightarrow> Device \<Rightarrow> (string \<times> string) call" where
  "panel_download E d = downloadAuthed E (''/api/v1/devices/'' @ d_id d @ ''/onboarding-script'')
     (''netfleet-onboarding-'' @ d_name d @ ''.rsc'')"

definition import_command :: "Device \<Rightarrow> string" where
  "import_command d = ''/import file=netfleet-onboarding-'' @ take 8 (d_id d) @ ''.rsc''"

section \<open>The overview of a device\<close>

definition is_server :: "Device \<Rightarrow> bool" where
  "is_server d \<longleftrightarrow> d_device_class d = ''server''"

text \<open>The name of the file is made as in the onboarding wizard.\<close>

definition press_onboarding :: "env \<Rightarrow> Device \<Rightarrow> (string \<times> string) call" where
  "press_onboarding E d = downloadAuthed E (''/api/v1/devices/'' @ d_id d @ ''/onboarding-script'')
     (script_file d)"

definition press_test :: "env \<Rightarrow> bool \<Rightarrow> Device \<Rightarrow> json call option" where
  "press_test E pending d = (if pending then None else Some (testDeviceConnection E (d_id d)))"

definition press_rotate :: "env \<Rightarrow> bool \<Rightarrow> bool \<Rightarrow> Device \<Rightarrow> json call option" where
  "press_rotate E pending yes d = (if is_server d \<and> \<not> pending \<and> yes then Some (rotateDeviceSshKey E (d_id d)) else None)"

definition press_delete_device :: "env \<Rightarrow> bool \<Rightarrow> bool \<Rightarrow> Device \<Rightarrow> unit call option" where
  "press_delete_device E pending yes d = (if pending \<or> \<not> yes then None else Some (deleteDevice E (d_id d)))"

definition no_device_update :: DeviceUpdate where
  "no_device_update = \<lparr>du_name = Undefined, du_host = Undefined, du_port = Undefined, du_ssh_port = Undefined, du_transport = Undefined,
     du_verify_tls = Undefined, du_username = Undefined, du_password = Undefined, du_api_key = Undefined, du_ssh_private_key = Undefined,
     du_become_method = Undefined, du_become_password = Undefined, du_reset_host_key = Undefined, du_site_id = Undefined,
     du_is_enabled = Undefined, du_notes = Undefined\<rparr>"

text \<open>The control to move a device is there with more than one site, and offers the others.\<close>

definition move_targets :: "Site list option \<Rightarrow> Device \<Rightarrow> Site list" where
  "move_targets sites d = (case sites of None \<Rightarrow> []
     | Some ss \<Rightarrow> if length ss > 1 then filter (\<lambda>s. st_id s \<noteq> d_site_id d) ss else [])"

definition press_move :: "env \<Rightarrow> Site list option \<Rightarrow> bool \<Rightarrow> bool \<Rightarrow> string \<Rightarrow> Device \<Rightarrow> json call option" where
  "press_move E sites pending yes target d =
     (if \<not> pending \<and> target \<noteq> [] \<and> target \<in> st_id ` set (move_targets sites d) \<and> yes
      then Some (updateDevice E (d_id d) (no_device_update\<lparr>du_site_id := Val target\<rparr>)) else None)"

definition credentials :: "Device \<Rightarrow> string list" where
  "credentials d = (if d_has_password d then [''password''] else []) @ (if d_has_api_key d then [''api_key''] else []) @
     (if d_has_ssh_key d then [''ssh key''] else []) @
     (if \<not> d_has_password d \<and> \<not> d_has_api_key d \<and> \<not> d_has_ssh_key d then [''none''] else [])"

definition host_key_text :: "Device \<Rightarrow> string" where
  "host_key_text d = (if truthy_str (d_ssh_host_key_fingerprint d)
     then take 26 (the (d_ssh_host_key_fingerprint d)) @ [CHR 0xE2, CHR 0x80, CHR 0xA6]
     else ''not pinned '' @ em_dash @ '' run Test connection'')"

definition formatLastSeen :: "(string \<Rightarrow> int) \<Rightarrow> (string \<Rightarrow> string) \<Rightarrow> int \<Rightarrow> string \<Rightarrow> string" where
  "formatLastSeen parse local_date now stamp =
     (let mins = max 0 (now - parse stamp) div 60000; hours = mins div 60; days = hours div 24
      in if mins < 1 then ''just now'' else if mins < 60 then show_int mins @ ''m ago''
         else if hours < 24 then show_int hours @ ''h ago'' else if days < 30 then show_int days @ ''d ago'' else local_date stamp)"

subsection \<open>The editor\<close>

record device_editor =
  ed_name :: string
  ed_host :: string
  ed_port :: rat
  ed_sshPort :: rat
  ed_transport :: string
  ed_username :: string
  ed_password :: string
  ed_apiKey :: string
  ed_verifyTls :: bool
  ed_notes :: string

definition open_editor :: "Device \<Rightarrow> device_editor" where
  "open_editor d = \<lparr>ed_name = d_name d, ed_host = d_host d, ed_port = of_int (d_port d), ed_sshPort = of_int (d_ssh_port d),
     ed_transport = d_transport d, ed_username = d_username d, ed_password = [], ed_apiKey = [], ed_verifyTls = d_verify_tls d,
     ed_notes = (case d_notes d of None \<Rightarrow> [] | Some n \<Rightarrow> n)\<rparr>"

definition typed_or_undef :: "string \<Rightarrow> string jopt" where
  "typed_or_undef s = (if s \<noteq> [] then Val s else Undefined)"

definition editor_payload :: "device_editor \<Rightarrow> DeviceUpdate" where
  "editor_payload f = no_device_update\<lparr>du_name := Val (ed_name f), du_host := Val (ed_host f), du_port := Val (ed_port f),
     du_ssh_port := Val (ed_sshPort f), du_transport := Val (ed_transport f), du_username := Val (ed_username f),
     du_password := typed_or_undef (ed_password f), du_api_key := typed_or_undef (ed_apiKey f), du_verify_tls := Val (ed_verifyTls f),
     du_notes := nul (ed_notes f)\<rparr>"

definition editor_fields_ok :: "device_editor \<Rightarrow> bool" where
  "editor_fields_ok f \<longleftrightarrow> ed_name f \<noteq> [] \<and> ed_host f \<noteq> [] \<and> ed_username f \<noteq> [] \<and> port_field_ok (ed_port f) \<and> port_field_ok (ed_sshPort f)"

definition submit_editor :: "env \<Rightarrow> Device \<Rightarrow> bool \<Rightarrow> device_editor \<Rightarrow> json call option" where
  "submit_editor E d pending f =
     (if pending \<or> \<not> editor_fields_ok f then None else Some (updateDevice E (d_id d) (editor_payload f)))"

section \<open>The list shows what it says\<close>

text \<open>
  A list filtered by firmware holds exactly the rows with a mark, in order; with a status only
  those of it; and a filter that is not there hides nothing.
\<close>

theorem device_filters_exact:
  "filtered_devices st (Some ''available'') (Some ds) =
     Some (filter (\<lambda>d. (truthy_str st \<longrightarrow> st = Some (d_status d)) \<and> firmware_marks d \<noteq> []) ds) \<and>
   filtered_devices None None (Some ds) = Some ds \<and>
   (fw \<noteq> Some ''available'' \<longrightarrow> filtered_devices st fw (Some ds) = Some (filter (\<lambda>d. truthy_str st \<longrightarrow> st = Some (d_status d)) ds))"
proof -
  have "firmware_marks d \<noteq> [] \<longleftrightarrow> osUpgrade d \<or> rbUpgrade d" for d by (simp add: firmware_marks_def)
  then show ?thesis
    by (auto simp: filtered_devices_def truthy_str_def intro!: filter_cong split: option.splits)
qed

text \<open>With both filters in the address the list is narrowed by both, the banner names one.\<close>

lemma banner_names_one: "activeFilter (Some ''offline'') (Some ''available'') = Some ''firmware updates''"
  by (simp add: activeFilter_def)

text \<open>Every site is offered once, under its tenant.\<close>

lemma object_order_mset: "mset (object_order ks) = mset ks"
  by (simp add: object_order_def)

lemma groups_cover: "distinct ks \<Longrightarrow> tenant_key ` set ss \<subseteq> set ks \<Longrightarrow>
  mset (concat (map (\<lambda>k. filter (\<lambda>s. tenant_key s = k) ss) ks)) = mset ss"
proof (induction ss)
  case (Cons s ss)
  have "mset (concat (map (\<lambda>k. filter (\<lambda>x. tenant_key x = k) (s # ss)) ks)) =
      (if tenant_key s \<in> set ks then {#s#} else {#}) + mset (concat (map (\<lambda>k. filter (\<lambda>x. tenant_key x = k) ss) ks))"
    using Cons.prems(1) by (induction ks) auto
  with Cons show ?case by simp
qed simp

lemma every_site_offered: "mset (concat (map snd (site_groups ss))) = mset ss"
proof -
  let ?ks = "object_order (rev (remdups (rev (map tenant_key ss))))"
  have "set ?ks = tenant_key ` set ss" using mset_eq_setD [OF object_order_mset] by simp
  moreover have "distinct ?ks"
    by (metis distinct_remdups distinct_rev mset_eq_imp_distinct_iff object_order_mset)
  ultimately show ?thesis using groups_cover [of ?ks ss] by (simp add: site_groups_def comp_def)
qed

section \<open>Requests\<close>

definition create_ok :: "Site list \<Rightarrow> Driver list \<Rightarrow> DeviceCreate \<Rightarrow> bool" where
  "create_ok sites drivers c \<longleftrightarrow> dc_name c \<noteq> [] \<and> dc_host c \<noteq> [] \<and> dc_username c \<noteq> [] \<and> dc_site_id c \<in> st_id ` set sites \<and>
     (dc_vendor c \<in> dr_vendor ` set drivers \<or> drivers = [] \<and> dc_vendor c = ''mikrotik'') \<and>
     (\<exists>n. dc_port c = Val (of_int n) \<and> 1 \<le> n \<and> n \<le> 65535) \<and> dc_password c \<noteq> Val []"

definition form_inv :: "Site list \<Rightarrow> Driver list \<Rightarrow> add_form \<Rightarrow> bool" where
  "form_inv sites drivers f \<longleftrightarrow> af_siteId f \<in> st_id ` set sites \<and>
     (af_vendor f \<in> dr_vendor ` set drivers \<or> drivers = [] \<and> af_vendor f = ''mikrotik'')"

definition devices_inv :: "Site list \<Rightarrow> Driver list \<Rightarrow> devices_page \<Rightarrow> bool" where
  "devices_inv sites drivers p \<longleftrightarrow> pred_option (form_inv sites drivers) (dp_form p) \<and> list_all (create_ok sites drivers) (dp_sent p)"

lemma form_inv_new: "sites \<noteq> [] \<Longrightarrow> form_inv sites drivers (new_add_form sites drivers)"
  by (auto simp: form_inv_def new_add_form_def vendor_port_def split: list.split)

lemma in_form_inv:
  "devices_inv sites drivers p \<Longrightarrow> (\<And>f. form_inv sites drivers f \<Longrightarrow> form_inv sites drivers (g f)) \<Longrightarrow> devices_inv sites drivers (in_form g p)"
  by (cases "dp_form p") (auto simp: devices_inv_def in_form_def)

lemma type_device_inv: "form_inv sites drivers (type_device fd v f) = form_inv sites drivers f"
  by (cases fd) (simp_all add: form_inv_def)

lemma port_whole: "port_field_ok x \<Longrightarrow> \<exists>n. x = of_int n \<and> 1 \<le> n \<and> n \<le> 65535"
  by (intro exI [of _ "\<lfloor>x\<rfloor>"]) (auto simp: port_field_ok_def le_floor_iff floor_le_iff)

lemma payload_ok: "form_inv sites drivers f \<Longrightarrow> device_fields_ok f \<Longrightarrow> create_ok sites drivers (add_payload f)"
  using port_whole [of "af_port f"]
  by (auto simp: form_inv_def device_fields_ok_def create_ok_def add_payload_def or_null_def)

lemma vendor_port_inv: "form_inv sites drivers (vendor_port f) = form_inv sites drivers f"
  by (simp add: vendor_port_def form_inv_def)

lemma devices_inv_act:
  assumes "devices_inv sites drivers p"
  shows "devices_inv sites drivers (devices_act sites drivers e p)"
proof (cases e)
  case ToggleDeviceForm
  then show ?thesis using assms form_inv_new [of sites drivers] by (auto simp: devices_inv_def split: option.split)
next
  case (PickVendor v)
  have "form_inv sites drivers (if v = af_vendor f then f else vendor_port (f\<lparr>af_vendor := v\<rparr>))"
    if "v \<in> dr_vendor ` set drivers" "form_inv sites drivers f" for f
    using that by (simp add: vendor_port_inv) (simp add: form_inv_def)
  then show ?thesis using PickVendor assms in_form_inv [of sites drivers p] by simp
next
  case SubmitDevice
  then show ?thesis using assms payload_ok by (auto simp: devices_inv_def form_inv_def split: option.splits)
qed (use assms type_device_inv [of sites drivers] in
    \<open>auto simp: devices_inv_def in_form_def form_inv_def option.pred_map comp_def elim!: option.pred_mono_strong split: option.splits\<close>)

lemma devices_inv_fold: "devices_inv sites drivers p \<Longrightarrow> devices_inv sites drivers (fold (devices_act sites drivers) es p)"
  by (induction es arbitrary: p) (simp_all add: devices_inv_act)

text \<open>
  Whatever is clicked and typed, a device is created with a name, a host and a user, on a listed
  site, with a listed vendor and a whole port number between 1 and 65535, and never with an empty
  password.
\<close>

theorem created_devices_sound:
  "list_all (create_ok sites drivers) (dp_sent (fold (devices_act sites drivers) es \<lparr>dp_form = None, dp_sent = []\<rparr>))"
  using devices_inv_fold [of sites drivers "\<lparr>dp_form = None, dp_sent = []\<rparr>" es] by (simp add: devices_inv_def)

text \<open>
  Saving the editor asks for what its fields show. One in which nothing was typed asks for the
  stored values and no secret; a secret is in the request exactly when one was typed.
\<close>

theorem device_edit_keeps_secrets:
  "du_password (editor_payload f) = (if ed_password f = [] then Undefined else Val (ed_password f)) \<and>
   du_api_key (editor_payload f) = (if ed_apiKey f = [] then Undefined else Val (ed_apiKey f)) \<and>
   editor_payload (open_editor d) = no_device_update\<lparr>du_name := Val (d_name d), du_host := Val (d_host d),
     du_port := Val (of_int (d_port d)), du_ssh_port := Val (of_int (d_ssh_port d)), du_transport := Val (d_transport d),
     du_username := Val (d_username d), du_verify_tls := Val (d_verify_tls d),
     du_notes := (if truthy_str (d_notes d) then Val (the (d_notes d)) else Null)\<rparr>"
  by (simp add: editor_payload_def typed_or_undef_def open_editor_def no_device_update_def or_null_def truthy_str_def split: option.split)

text \<open>A device is only ever moved to another listed site.\<close>

lemma moves_to_other_site: "press_move E sites pending yes t d = Some c \<Longrightarrow> t \<noteq> d_site_id d"
  by (auto simp: press_move_def move_targets_def split: if_splits option.splits)

section \<open>Times\<close>

lemma last_seen_relative: "s \<noteq> [] \<Longrightarrow> formatLastSeen parse loc now s = formatRelative (Some \<circ> parse) loc now (Some s)"
  by (auto simp: formatLastSeen_def formatRelative_def Let_def max_def)

section \<open>Witnesses\<close>

theorem device_filters_exact_witness: "filtered_devices (Some ''offline'') (Some ''x'') (Some []) = Some []"
  using device_filters_exact [of "Some ''offline''" "[]" "Some ''x''"] by simp

end
