(* ===== verification/Device_Pages.thy ===== *)
theory Device_Pages
  imports Host_Api Inventory_Api Network_Api Firewall_Api Js_Sort Format
begin

text \<open>
  The smaller pages of a device: its IP services, queues, backups, packages, router accounts,
  logs, scheduled jobs and storage (the pages of these names under \<open>devices/[id]\<close>, and
  \<open>components/usage-bar.tsx\<close>).
\<close>

section \<open>IP services\<close>

record IpService =
  sv_name :: string
  sv_port :: int
  sv_enabled :: bool
  sv_address :: "string option"
  sv_certificate :: "string option"
  sv_tls_only :: "bool option"

definition insecure :: "IpService \<Rightarrow> bool" where
  "insecure s \<longleftrightarrow> sv_enabled s \<and> sv_tls_only s \<noteq> Some True \<and> sv_name s \<notin> {''api'', ''winbox'', ''ssh''}"

record service_row =
  sr_service :: IpService
  sr_port :: string
  sr_address :: string
  sr_portPending :: bool
  sr_addressPending :: bool
  sr_togglePending :: bool
  sr_sent :: "IpServiceUpdate list"

abbreviation stored_address :: "IpService \<Rightarrow> string" where
  "stored_address s \<equiv> (case sv_address s of None \<Rightarrow> [] | Some a \<Rightarrow> a)"

definition mount_service :: "IpService \<Rightarrow> service_row" where
  "mount_service s = \<lparr>sr_service = s, sr_port = show_int (sv_port s), sr_address = stored_address s,
     sr_portPending = False, sr_addressPending = False, sr_togglePending = False, sr_sent = []\<rparr>"

definition portDirty :: "service_row \<Rightarrow> bool" where
  "portDirty r \<longleftrightarrow> sr_port r \<noteq> show_int (sv_port (sr_service r))"

definition addressDirty :: "service_row \<Rightarrow> bool" where
  "addressDirty r \<longleftrightarrow> trim (sr_address r) \<noteq> stored_address (sr_service r)"

text \<open>\<open>num\<close> is \<open>Number\<close> of what a number field holds, which is empty or a numeral.\<close>

definition portValid :: "(string \<Rightarrow> rat) \<Rightarrow> service_row \<Rightarrow> bool" where
  "portValid num r \<longleftrightarrow> sr_port r \<noteq> [] \<and> 1 \<le> num (sr_port r) \<and> num (sr_port r) \<le> 65535"

definition no_service_update :: IpServiceUpdate where
  "no_service_update = \<lparr>isu_enabled = Undefined, isu_port = Undefined, isu_address = Undefined\<rparr>"

datatype service_event =
  ServiceRead IpService | TypeServicePort string | TypeAddress string | EnterPort | ClickPort | EnterAddress | ClickAddress | Toggle
| PortAnswered | AddressAnswered | ToggleAnswered

definition savePort :: "(string \<Rightarrow> rat) \<Rightarrow> service_row \<Rightarrow> service_row" where
  "savePort num r = (if portDirty r \<and> portValid num r
     then r\<lparr>sr_portPending := True, sr_sent := sr_sent r @ [no_service_update\<lparr>isu_port := Val (num (sr_port r))\<rparr>]\<rparr> else r)"

definition saveAddress :: "service_row \<Rightarrow> service_row" where
  "saveAddress r = (if addressDirty r
     then r\<lparr>sr_addressPending := True, sr_sent := sr_sent r @ [no_service_update\<lparr>isu_address := Val (trim (sr_address r))\<rparr>]\<rparr> else r)"

text \<open>
  A new answer of the query: each field is reloaded when its own stored value changed. The save
  buttons are disabled while their request is under way, the enter key is not.
\<close>

fun service_act :: "(string \<Rightarrow> rat) \<Rightarrow> service_event \<Rightarrow> service_row \<Rightarrow> service_row" where
  "service_act num (ServiceRead s) r = r\<lparr>sr_service := s,
     sr_port := (if sv_port s = sv_port (sr_service r) then sr_port r else show_int (sv_port s)),
     sr_address := (if sv_address s = sv_address (sr_service r) then sr_address r else stored_address s)\<rparr>"
| "service_act num (TypeServicePort v) r = r\<lparr>sr_port := v\<rparr>"
| "service_act num (TypeAddress v) r = r\<lparr>sr_address := v\<rparr>"
| "service_act num EnterPort r = savePort num r"
| "service_act num ClickPort r = (if sr_portPending r then r else savePort num r)"
| "service_act num EnterAddress r = saveAddress r"
| "service_act num ClickAddress r = (if sr_addressPending r then r else saveAddress r)"
| "service_act num Toggle r = (if sr_togglePending r then r
     else r\<lparr>sr_togglePending := True, sr_sent := sr_sent r @ [no_service_update\<lparr>isu_enabled := Val (\<not> sv_enabled (sr_service r))\<rparr>]\<rparr>)"
| "service_act num PortAnswered r = r\<lparr>sr_portPending := False\<rparr>"
| "service_act num AddressAnswered r = r\<lparr>sr_addressPending := False\<rparr>"
| "service_act num ToggleAnswered r = r\<lparr>sr_togglePending := False\<rparr>"

section \<open>Queues\<close>

record SimpleQueue =
  sq_id :: "string option"
  sq_name :: string
  sq_target :: "string option"
  sq_max_limit :: "string option"
  sq_burst_limit :: "string option"
  sq_burst_threshold :: "string option"
  sq_burst_time :: "string option"
  sq_parent :: "string option"
  sq_priority :: "string option"
  sq_bytes_in :: "rat option"
  sq_bytes_out :: "rat option"
  sq_disabled :: bool
  sq_comment :: "string option"

record queue_form =
  qu_name :: string
  qu_target :: string
  qu_maxLimit :: string
  qu_burstLimit :: string
  qu_comment :: string

definition new_queue :: queue_form where
  "new_queue = \<lparr>qu_name = [], qu_target = [], qu_maxLimit = ''10M/10M'', qu_burstLimit = [], qu_comment = []\<rparr>"

definition queue_payload :: "queue_form \<Rightarrow> SimpleQueueCreate" where
  "queue_payload f = \<lparr>sqc_name = qu_name f, sqc_target = nul (qu_target f), sqc_max_limit = nul (qu_maxLimit f),
     sqc_burst_limit = nul (qu_burstLimit f), sqc_burst_threshold = Undefined, sqc_burst_time = Undefined, sqc_parent = Undefined,
     sqc_priority = Undefined, sqc_disabled = Undefined, sqc_comment = nul (qu_comment f)\<rparr>"

definition submit_queue :: "env \<Rightarrow> string \<Rightarrow> bool \<Rightarrow> queue_form \<Rightarrow> json call option" where
  "submit_queue E dev pending f = (if pending \<or> qu_name f = [] then None else Some (createSimpleQueue E dev (queue_payload f)))"

definition press_reset_queue :: "env \<Rightarrow> string \<Rightarrow> SimpleQueue \<Rightarrow> unit call option" where
  "press_reset_queue E dev q = (if truthy_str (sq_id q) then Some (resetSimpleQueueCounters E dev (the (sq_id q))) else None)"

definition press_delete_queue :: "env \<Rightarrow> string \<Rightarrow> bool \<Rightarrow> SimpleQueue \<Rightarrow> unit call option" where
  "press_delete_queue E dev yes q =
     (if truthy_str (sq_id q) \<and> yes then Some (deleteSimpleQueue E dev (the (sq_id q))) else None)"

definition queue_cells :: "SimpleQueue \<Rightarrow> string list" where
  "queue_cells q = (let dash = (\<lambda>v. case v of None \<Rightarrow> em_dash | Some s \<Rightarrow> s) in
     [sq_name q, dash (sq_target q), dash (sq_max_limit q), dash (sq_burst_limit q), formatBytes_net (sq_bytes_out q),
      formatBytes_net (sq_bytes_in q), dash (sq_comment q)])"

section \<open>Backups\<close>

record DeviceBackup =
  bk_id :: string
  bk_ts :: string
  bk_device_id :: string
  bk_triggered_by_user_id :: "string option"
  bk_source :: string
  bk_status :: string
  bk_backup_filename :: "string option"
  bk_rsc_filename :: "string option"
  bk_backup_size_bytes :: "rat option"
  bk_rsc_size_bytes :: "rat option"
  bk_error_message :: "string option"
  bk_duration_ms :: "rat option"

record backups_page =
  bp_restoringId :: "string option"
  bp_restoreError :: "string option"
  bp_restoreOk :: "string option"
  bp_running :: bool
  bp_restores :: "string list"
  bp_runs :: nat

definition mount_backups :: backups_page where
  "mount_backups = \<lparr>bp_restoringId = None, bp_restoreError = None, bp_restoreOk = None, bp_running = False, bp_restores = [], bp_runs = 0\<rparr>"

datatype backup_event =
  BackupNow | BackupAnswered | PressRestore DeviceBackup bool | RestoreOk string | RestoreFailed string

definition restorable :: "DeviceBackup \<Rightarrow> bool" where
  "restorable b \<longleftrightarrow> truthy_str (bk_backup_filename b) \<and> bk_status b = ''ok''"

fun backup_act :: "backup_event \<Rightarrow> backups_page \<Rightarrow> backups_page" where
  "backup_act BackupNow p = (if bp_running p then p else p\<lparr>bp_running := True, bp_runs := bp_runs p + 1\<rparr>)"
| "backup_act BackupAnswered p = p\<lparr>bp_running := False\<rparr>"
| "backup_act (PressRestore b yes) p =
     (if restorable b \<and> bp_restoringId p = None \<and> yes
      then p\<lparr>bp_restoringId := Some (bk_id b), bp_restoreError := None, bp_restoreOk := None, bp_restores := bp_restores p @ [bk_id b]\<rparr>
      else p)"
| "backup_act (RestoreOk filename) p =
     (if bp_restoringId p = None then p
      else p\<lparr>bp_restoreOk := Some (''Restore dispatched ('' @ filename @ ''). The device is rebooting now.''), bp_restoringId := None\<rparr>)"
| "backup_act (RestoreFailed m) p =
     (if bp_restoringId p = None then p else p\<lparr>bp_restoreError := Some m, bp_restoringId := None\<rparr>)"

text \<open>The files a row offers, by the kind the server is asked for.\<close>

definition backup_downloads :: "DeviceBackup \<Rightarrow> (string \<times> string) list" where
  "backup_downloads b = (if truthy_str (bk_backup_filename b) then [(''backup'', the (bk_backup_filename b))] else []) @
     (if truthy_str (bk_rsc_filename b) then [(''rsc'', the (bk_rsc_filename b))] else [])"

definition press_backup_file :: "env \<Rightarrow> string \<Rightarrow> DeviceBackup \<Rightarrow> string \<Rightarrow> (string \<times> string) call option" where
  "press_backup_file E dev b kind = map_option (downloadBackupFile E dev (bk_id b) kind) (map_of (backup_downloads b) kind)"

definition duration_text :: "DeviceBackup \<Rightarrow> string" where
  "duration_text b = (case bk_duration_ms b of None \<Rightarrow> em_dash | Some ms \<Rightarrow> toFixed1 (ms / 1000) @ ''s'')"

section \<open>Packages\<close>

record PackageUpdate =
  pk_name :: string
  pk_current_version :: "string option"
  pk_candidate_version :: "string option"
  pk_is_security :: bool
  pk_origin :: "string option"
  pk_architecture :: "string option"

record PackageState =
  ps_manager :: string
  ps_updates :: "PackageUpdate list"
  ps_security_count :: int
  ps_reboot_required :: bool
  ps_reboot_required_by :: "string list"
  ps_last_refreshed_iso :: "string option"

record PackageRun =
  pr_id :: string
  pr_kind :: string
  pr_state :: string
  pr_packages :: "string option"
  pr_started_at :: string
  pr_finished_at :: "string option"
  pr_output :: "string option"
  pr_error :: "string option"

record packages_page =
  pg_data :: "PackageState option"
  pg_runs :: "PackageRun list option"
  pg_selected :: "string list"
  pg_filter :: string
  pg_upgrading :: bool
  pg_refreshing :: bool
  pg_upgrades :: "string list list"

definition mount_packages :: packages_page where
  "mount_packages = \<lparr>pg_data = None, pg_runs = None, pg_selected = [], pg_filter = [], pg_upgrading = False, pg_refreshing = False,
     pg_upgrades = []\<rparr>"

definition run_active :: "packages_page \<Rightarrow> bool" where
  "run_active p \<longleftrightarrow> (case pg_runs p of None \<Rightarrow> False | Some rs \<Rightarrow> list_ex (\<lambda>r. pr_state r = ''running'') rs)"

definition package_rows :: "packages_page \<Rightarrow> PackageUpdate list" where
  "package_rows p = (let needle = toLowerCase (trim (pg_filter p)) in
     filter (\<lambda>u. needle = [] \<or> str_includes (toLowerCase (pk_name u)) needle)
       (case pg_data p of None \<Rightarrow> [] | Some d \<Rightarrow> ps_updates d))"

definition upgrade_enabled :: "packages_page \<Rightarrow> bool" where
  "upgrade_enabled p \<longleftrightarrow> \<not> run_active p \<and> \<not> pg_upgrading p \<and> (case pg_data p of None \<Rightarrow> False | Some d \<Rightarrow> ps_updates d \<noteq> [])"

definition upgrade_question :: "packages_page \<Rightarrow> string" where
  "upgrade_question p = (if pg_selected p \<noteq> [] then ''Upgrade '' @ show_nat (length (pg_selected p)) @ '' selected package(s)?''
     else ''Upgrade all '' @ show_nat (case pg_data p of None \<Rightarrow> 0 | Some d \<Rightarrow> length (ps_updates d)) @
       '' package(s) on this host?'' @ [CHR 0x0A, CHR 0x0A] @
       ''Services may restart. If the kernel is among them the host will need a reboot afterwards.'')"

datatype package_event =
  PackagesRead PackageState | RunsRead "PackageRun list" | TypeFilter string | TickPackage string bool | PressUpgrade bool
| UpgradeStarted | UpgradeRefused | PressRefresh | RefreshAnswered

text \<open>A checkbox of a row on screen reports the state it was not in. An upgrade of no package is one of all.\<close>

fun package_act :: "package_event \<Rightarrow> packages_page \<Rightarrow> packages_page" where
  "package_act (PackagesRead d) p = p\<lparr>pg_data := Some d\<rparr>"
| "package_act (RunsRead rs) p = p\<lparr>pg_runs := Some rs\<rparr>"
| "package_act (TypeFilter v) p = p\<lparr>pg_filter := v\<rparr>"
| "package_act (TickPackage n on) p =
     (if n \<in> pk_name ` set (package_rows p) \<and> (n \<in> set (pg_selected p) \<longleftrightarrow> \<not> on)
      then p\<lparr>pg_selected := (if on then pg_selected p @ [n] else filter (\<lambda>x. x \<noteq> n) (pg_selected p))\<rparr> else p)"
| "package_act (PressUpgrade yes) p =
     (if upgrade_enabled p \<and> yes then p\<lparr>pg_upgrading := True, pg_upgrades := pg_upgrades p @ [pg_selected p]\<rparr> else p)"
| "package_act UpgradeStarted p = (if pg_upgrading p then p\<lparr>pg_upgrading := False, pg_selected := []\<rparr> else p)"
| "package_act UpgradeRefused p = p\<lparr>pg_upgrading := False\<rparr>"
| "package_act PressRefresh p = (if run_active p \<or> pg_refreshing p then p else p\<lparr>pg_refreshing := True\<rparr>)"
| "package_act RefreshAnswered p = p\<lparr>pg_refreshing := False\<rparr>"

text \<open>How long a run took, in seconds; times in milliseconds.\<close>

definition run_seconds :: "int \<Rightarrow> int \<Rightarrow> int" where
  "run_seconds t0 t1 = max 1 (Math_round (of_int (t1 - t0) / 1000))"

section \<open>Router accounts\<close>

text \<open>\<open>minLength\<close> and \<open>required\<close> are checked by the browser, then the handler checks again.\<close>

definition router_password_check :: "string \<Rightarrow> string \<Rightarrow> string option" where
  "router_password_check pw confirm = (if length pw < 8 then Some ''Password must be at least 8 characters.''
     else if pw \<noteq> confirm then Some ''Passwords do not match.'' else None)"

definition submit_router_password :: "env \<Rightarrow> string \<Rightarrow> string \<Rightarrow> bool \<Rightarrow> string \<Rightarrow> string \<Rightarrow> unit call option" where
  "submit_router_password E dev username pending pw confirm =
     (if pending \<or> length pw < 8 \<or> confirm = [] \<or> router_password_check pw confirm \<noteq> None then None
      else Some (resetDeviceUserPassword E dev username pw))"

definition press_router_disable :: "env \<Rightarrow> string \<Rightarrow> string \<Rightarrow> bool \<Rightarrow> unit call" where
  "press_router_disable E dev username disabled = setDeviceUserDisabled E dev username (\<not> disabled)"

section \<open>Logs\<close>

record LogEntry =
  lg_time :: string
  lg_topics :: string
  lg_message :: string

definition LOG_SEVERITIES :: "string list" where
  "LOG_SEVERITIES = [''critical'', ''error'', ''warning'', ''info'', ''debug'']"

definition LIMITS :: "nat list" where
  "LIMITS = [200, 500, 1000, 2000]"

definition toggleSeverity :: "string \<Rightarrow> string set \<Rightarrow> string set" where
  "toggleSeverity s hidden = (if s \<in> hidden then hidden - {s} else insert s hidden)"

definition log_haystack :: "LogEntry \<Rightarrow> string" where
  "log_haystack r = toLowerCase (lg_time r @ [CHR 0x1F] @ lg_topics r @ [CHR 0x1F] @ lg_message r)"

definition visible_logs :: "string \<Rightarrow> string set \<Rightarrow> LogEntry list option \<Rightarrow> LogEntry list" where
  "visible_logs clientFilter hidden data = (case data of None \<Rightarrow> []
     | Some rs \<Rightarrow> let needle = toLowerCase (trim clientFilter) in
         filter (\<lambda>r. if needle \<noteq> [] \<and> \<not> str_includes (log_haystack r) needle then False
                     else if hidden \<noteq> {} \<and> list_ex (\<lambda>t. toLowerCase (trim t) \<in> hidden) (split CHR '','' (lg_topics r)) then False
                     else True) rs)"

definition logs_call :: "env \<Rightarrow> string \<Rightarrow> string \<Rightarrow> nat \<Rightarrow> json call" where
  "logs_call E dev topics limit = listLogs E dev (or_null topics) (Some (of_nat limit))"

definition line_topics :: "LogEntry \<Rightarrow> string list" where
  "line_topics r = filter (\<lambda>t. t \<noteq> []) (map trim (split CHR '','' (lg_topics r)))"

definition messageClass :: "string list \<Rightarrow> string" where
  "messageClass topics = (if list_ex (\<lambda>t. t \<in> {''error'', ''critical''}) topics then ''text-red-200''
     else if list_ex (\<lambda>t. t = ''warning'') topics then ''text-amber-200'' else ''text-zinc-200'')"

definition topicColor :: "string \<Rightarrow> string" where
  "topicColor t = (if t \<in> {''error'', ''critical''} then ''bg-red-900/60 text-red-100''
     else if t = ''warning'' then ''bg-amber-900/60 text-amber-100''
     else if t = ''firewall'' then ''bg-purple-900/60 text-purple-100''
     else if t \<in> {''dhcp'', ''dhcp4'', ''dhcp6''} then ''bg-sky-900/60 text-sky-100''
     else if t \<in> {''wireless'', ''interface''} then ''bg-emerald-900/60 text-emerald-100''
     else if t = ''info'' then ''bg-zinc-700 text-zinc-200''
     else if t = ''debug'' then ''bg-zinc-800 text-zinc-400'' else ''bg-zinc-700 text-zinc-200'')"

definition severityChipClass :: "string \<Rightarrow> string" where
  "severityChipClass s = (if s = ''critical'' then ''bg-red-200 text-red-900'' else if s = ''error'' then ''bg-red-100 text-red-800''
     else if s = ''warning'' then ''bg-amber-100 text-amber-900'' else if s = ''info'' then ''bg-zinc-100 text-zinc-700''
     else ''bg-zinc-100 text-zinc-500'')"

section \<open>Scheduled jobs\<close>

record ScheduledJob =
  sj_source :: string
  sj_schedule :: string
  sj_command :: string
  sj_user :: "string option"
  sj_enabled :: bool
  sj_origin :: "string option"
  sj_unit :: "string option"
  sj_activates :: "string option"
  sj_next_run_iso :: "string option"
  sj_last_run_iso :: "string option"
  sj_comment :: "string option"

definition SOURCE_LABEL :: "string \<Rightarrow> string option" where
  "SOURCE_LABEL = [''user-crontab'' \<mapsto> ''User crontab'', ''system-crontab'' \<mapsto> ''/etc/crontab'', ''cron.d'' \<mapsto> ''/etc/cron.d'',
     ''run-parts'' \<mapsto> ''cron.daily etc.'', ''timer'' \<mapsto> ''systemd timer'']"

text \<open>The order \<open>sort()\<close> has for strings: by the codes of their characters.\<close>

fun code_cmp :: "string \<Rightarrow> string \<Rightarrow> int" where
  "code_cmp [] [] = 0"
| "code_cmp [] (d # t) = -1"
| "code_cmp (c # s) [] = 1"
| "code_cmp (c # s) (d # t) = (if c = d then code_cmp s t else num_cmp (int (ccode c)) (int (ccode d)))"

text \<open>A set keeps the order of the first insertions.\<close>

definition job_sources :: "ScheduledJob list option \<Rightarrow> string list" where
  "job_sources data = sort_by code_cmp (rev (remdups (rev (map sj_source (case data of None \<Rightarrow> [] | Some js \<Rightarrow> js)))))"

definition source_options :: "ScheduledJob list \<Rightarrow> (string \<times> nat) list" where
  "source_options js = map (\<lambda>s. (case SOURCE_LABEL s of None \<Rightarrow> s | Some l \<Rightarrow> l, length (filter (\<lambda>j. sj_source j = s) js))) (job_sources (Some js))"

definition job_rows :: "string \<Rightarrow> string \<Rightarrow> ScheduledJob list option \<Rightarrow> ScheduledJob list" where
  "job_rows txt source data = (let needle = toLowerCase (trim txt); has = (\<lambda>v. str_includes (toLowerCase v) needle) in
     filter (\<lambda>j. (source = ''all'' \<or> sj_source j = source) \<and>
       (needle = [] \<or> has (sj_command j) \<or> has (sj_schedule j) \<or> has (case sj_user j of None \<Rightarrow> [] | Some u \<Rightarrow> u) \<or>
        has (case sj_comment j of None \<Rightarrow> [] | Some c \<Rightarrow> c)))
       (case data of None \<Rightarrow> [] | Some js \<Rightarrow> js))"

definition short_origin :: "string \<Rightarrow> string" where
  "short_origin o' = (if length o' > 34 then [CHR 0xE2, CHR 0x80, CHR 0xA6] @ drop (length o' - 32) o' else o')"

section \<open>Storage\<close>

definition bar_value :: "rat option \<Rightarrow> rat option" where
  "bar_value pc = map_option (\<lambda>x. max 0 (min 100 x)) pc"

datatype bar_tone = ToneMuted | ToneRed | ToneAmber | ToneGreen

definition usage_tone :: "rat option \<Rightarrow> bar_tone" where
  "usage_tone pc = (case bar_value pc of None \<Rightarrow> ToneMuted
     | Some v \<Rightarrow> if v \<ge> 90 then ToneRed else if v \<ge> 75 then ToneAmber else ToneGreen)"

definition usage_text :: "rat option \<Rightarrow> string" where
  "usage_text pc = (case bar_value pc of None \<Rightarrow> em_dash | Some v \<Rightarrow> toFixed1 v @ ''%'')"

record DirEntryUsage =
  de_path :: string
  de_name :: string
  de_size_bytes :: rat
  de_is_dir :: bool

definition dir_largest :: "DirEntryUsage list option \<Rightarrow> rat" where
  "dir_largest data = (case data of Some (e # _) \<Rightarrow> de_size_bytes e | _ \<Rightarrow> 0)"

definition dir_share :: "rat \<Rightarrow> DirEntryUsage \<Rightarrow> rat" where
  "dir_share largest e = (if largest > 0 then de_size_bytes e / largest * 100 else 0)"

section \<open>What the services page asks for\<close>

definition service_request_ok :: "IpServiceUpdate \<Rightarrow> bool" where
  "service_request_ok u \<longleftrightarrow>
     (\<exists>b. u = no_service_update\<lparr>isu_enabled := Val b\<rparr>) \<or> (\<exists>x. u = no_service_update\<lparr>isu_port := Val x\<rparr> \<and> 1 \<le> x \<and> x \<le> 65535) \<or>
     (\<exists>a. u = no_service_update\<lparr>isu_address := Val a\<rparr> \<and> trim a = a)"

lemma service_act_ok:
  "list_all service_request_ok (sr_sent r) \<Longrightarrow> list_all service_request_ok (sr_sent (service_act num e r))"
  by (cases e) (auto simp: savePort_def saveAddress_def portValid_def service_request_ok_def)

text \<open>
  Every request of a service row changes one thing: it switches the service, sets a port in range,
  or sets an address without surrounding blanks.
\<close>

lemma service_requests_sound:
  "list_all service_request_ok (sr_sent (fold (service_act num) es (mount_service s)))"
proof -
  have "list_all service_request_ok (sr_sent (fold (service_act num) es r))" if "list_all service_request_ok (sr_sent r)" for r
    using that by (induction es arbitrary: r) (simp_all add: service_act_ok)
  then show ?thesis by (simp add: mount_service_def)
qed

text \<open>What was typed survives every refetch that leaves the stored value of its own field alone.\<close>

lemma drafts_survive:
  "sv_port s = sv_port (sr_service r) \<Longrightarrow> sr_port (service_act num (ServiceRead s) r) = sr_port r"
  "sv_address s = sv_address (sr_service r) \<Longrightarrow> sr_address (service_act num (ServiceRead s) r) = sr_address r"
  by simp_all

text \<open>
  The port is not a field of a form, so the browser does not check that it is whole: a broken
  number in range is sent. And the enter key asks again while the request is under way.
\<close>

theorem broken_port_sent_twice:
  assumes "num v = 161 / 2" "v \<noteq> show_int (sv_port s)" "v \<noteq> []"
  shows "sr_sent (fold (service_act num) [TypeServicePort v, EnterPort, EnterPort] (mount_service s)) =
    [no_service_update\<lparr>isu_port := Val (161 / 2)\<rparr>, no_service_update\<lparr>isu_port := Val (161 / 2)\<rparr>]"
  using assms by (simp add: mount_service_def savePort_def portDirty_def portValid_def)

section \<open>Restoring\<close>

definition restore_answers :: "backup_event list \<Rightarrow> nat" where
  "restore_answers es = length (filter (\<lambda>e. case e of RestoreOk _ \<Rightarrow> True | RestoreFailed _ \<Rightarrow> True | _ \<Rightarrow> False) es)"

definition waiting :: "backups_page \<Rightarrow> nat" where
  "waiting p = (if bp_restoringId p = None then 0 else 1)"

lemma restores_step:
  "length (bp_restores (backup_act e p)) + waiting p \<le> length (bp_restores p) + waiting (backup_act e p) + restore_answers [e] \<and>
   set (bp_restores (backup_act e p)) \<subseteq> set (bp_restores p) \<union> {bk_id b |b. e = PressRestore b True \<and> restorable b}"
  by (cases e) (auto simp: waiting_def restore_answers_def)

lemma restores_fold:
  "length (bp_restores (fold backup_act es p)) + waiting p \<le> length (bp_restores p) + waiting (fold backup_act es p) + restore_answers es \<and>
   set (bp_restores (fold backup_act es p)) \<subseteq> set (bp_restores p) \<union> {bk_id b |b. PressRestore b True \<in> set es \<and> restorable b}"
proof (induction es arbitrary: p)
  case (Cons e es)
  have a: "restore_answers (e # es) = restore_answers [e] + restore_answers es" by (simp add: restore_answers_def)
  have "length (bp_restores (fold backup_act es (backup_act e p))) + waiting p \<le>
      length (bp_restores p) + waiting (fold backup_act es (backup_act e p)) + restore_answers (e # es)"
    using Cons.IH [of "backup_act e p", THEN conjunct1] restores_step [of e p, THEN conjunct1] unfolding a by linarith
  moreover have "set (bp_restores (fold backup_act es (backup_act e p))) \<subseteq>
      set (bp_restores p) \<union> {bk_id b |b. PressRestore b True \<in> set (e # es) \<and> restorable b}"
    using Cons.IH [of "backup_act e p", THEN conjunct2] restores_step [of e p, THEN conjunct2] by auto
  ultimately show ?case by simp
qed (simp add: restore_answers_def)

text \<open>
  C28. A device is restored, and so rebooted, only from a complete backup with a file whose restore
  was confirmed, and never while an earlier restore has not answered: there are at most as many
  restores as answers, and one.
\<close>

theorem restores_confirmed_one_by_one:
  "length (bp_restores (fold backup_act es mount_backups)) \<le> restore_answers es + 1 \<and>
   set (bp_restores (fold backup_act es mount_backups)) \<subseteq> {bk_id b |b. PressRestore b True \<in> set es \<and> restorable b}"
proof -
  have "waiting p \<le> 1" for p by (simp add: waiting_def)
  from this [of "fold backup_act es mount_backups"] restores_fold [of es mount_backups]
  show ?thesis by (auto simp: mount_backups_def)
qed

section \<open>Upgrades\<close>

definition listed_before :: "package_event list \<Rightarrow> string set" where
  "listed_before es = {pk_name u |u d. PackagesRead d \<in> set es \<and> u \<in> set (ps_updates d)}"

definition package_inv :: "string set \<Rightarrow> packages_page \<Rightarrow> bool" where
  "package_inv N p \<longleftrightarrow> distinct (pg_selected p) \<and> set (pg_selected p) \<subseteq> N \<and>
     (case pg_data p of None \<Rightarrow> True | Some d \<Rightarrow> pk_name ` set (ps_updates d) \<subseteq> N) \<and>
     (\<forall>u\<in>set (pg_upgrades p). distinct u \<and> set u \<subseteq> N)"

lemma rows_listed: "package_inv N p \<Longrightarrow> pk_name ` set (package_rows p) \<subseteq> N"
  by (auto simp: package_inv_def package_rows_def Let_def split: option.splits)

lemma package_inv_act:
  assumes "package_inv N p" "listed_before [e] \<subseteq> N"
  shows "package_inv N (package_act e p)"
proof (cases e)
  case (PackagesRead d)
  then show ?thesis using assms by (auto simp: package_inv_def listed_before_def)
next
  case (TickPackage n on)
  have "package_act e p = p \<or> n \<in> N \<and> (n \<in> set (pg_selected p) \<longleftrightarrow> \<not> on) \<and>
      package_act e p = p\<lparr>pg_selected := (if on then pg_selected p @ [n] else filter (\<lambda>x. x \<noteq> n) (pg_selected p))\<rparr>"
    using TickPackage rows_listed [OF assms(1)] by auto
  then show ?thesis using assms(1) by (auto simp: package_inv_def)
qed (use assms in \<open>auto simp: package_inv_def\<close>)

lemma package_inv_fold: "package_inv N p \<Longrightarrow> listed_before es \<subseteq> N \<Longrightarrow> package_inv N (fold package_act es p)"
proof (induction es arbitrary: p)
  case (Cons e es)
  then have "listed_before [e] \<subseteq> N" "listed_before es \<subseteq> N" by (auto simp: listed_before_def)
  with Cons package_inv_act show ?case by simp
qed simp

text \<open>
  Every upgrade asks for packages that a list on this page named, none twice; while a run is
  known to be under way, or the start of one was not answered, none is started.
\<close>

theorem upgrades_of_listed_packages:
  "(\<forall>u\<in>set (pg_upgrades (fold package_act es mount_packages)). distinct u \<and> set u \<subseteq> listed_before es) \<and>
   (run_active p \<or> pg_upgrading p \<longrightarrow> pg_upgrades (package_act e p) = pg_upgrades p)"
proof
  have "package_inv (listed_before es) mount_packages" by (simp add: package_inv_def mount_packages_def)
  then show "\<forall>u\<in>set (pg_upgrades (fold package_act es mount_packages)). distinct u \<and> set u \<subseteq> listed_before es"
    using package_inv_fold [of "listed_before es" mount_packages es] by (simp add: package_inv_def)
  show "run_active p \<or> pg_upgrading p \<longrightarrow> pg_upgrades (package_act e p) = pg_upgrades p"
    by (cases e) (auto simp: upgrade_enabled_def)
qed

text \<open>
  The selection is not tied to the list: a package that was ticked and then left the list, since
  it was upgraded in the meantime, has no row to untick it in any more and is asked for all the
  same. Ticks set while the start of an upgrade is awaited are dropped by its answer.
\<close>

theorem stale_selection_upgraded:
  assumes "n \<in> pk_name ` set (ps_updates d)" "n \<notin> pk_name ` set (ps_updates d')" "ps_updates d' \<noteq> []"
  shows "let p = fold package_act [PackagesRead d, TickPackage n True, PackagesRead d', TickPackage n False, PressUpgrade True] mount_packages
    in pg_upgrades p = [[n]] \<and> n \<notin> pk_name ` set (package_rows p)"
proof -
  have r: "package_rows p = (case pg_data p of None \<Rightarrow> [] | Some d \<Rightarrow> ps_updates d)" if "pg_filter p = []" for p
    using that by (simp add: package_rows_def Let_def trim_def trimStart_def trimEnd_def toLowerCase_def)
  show ?thesis using assms by (auto simp: mount_packages_def r upgrade_enabled_def run_active_def Let_def)
qed

section \<open>Logs and jobs\<close>

text \<open>
  The log shows exactly the lines that contain the text and none of whose topics is hidden;
  hiding a severity twice changes nothing, and without filters every line is shown.
\<close>

theorem logs_shown_exactly:
  "set (visible_logs txt hidden (Some rs)) = {r \<in> set rs. str_includes (log_haystack r) (toLowerCase (trim txt)) \<and>
     (\<forall>t\<in>set (split CHR '','' (lg_topics r)). toLowerCase (trim t) \<notin> hidden)} \<and>
   visible_logs [] {} (Some rs) = rs \<and> toggleSeverity s (toggleSeverity s hidden) = hidden"
proof -
  have "str_includes w []" for w by (cases w) (simp_all add: startsWith_def)
  moreover have "toLowerCase (trim []) = []" by (simp add: toLowerCase_def trim_def trimStart_def trimEnd_def)
  ultimately show ?thesis
    by (auto simp: visible_logs_def Let_def list_ex_iff toggleSeverity_def)
qed

lemma sources_split:
  "distinct ks \<Longrightarrow> sj_source ` set js \<subseteq> set ks \<Longrightarrow> sum_list (map (\<lambda>s. length (filter (\<lambda>j. sj_source j = s) js)) ks) = length js"
proof (induction js)
  case (Cons j js)
  have "sum_list (map (\<lambda>s. length (filter (\<lambda>x. sj_source x = s) (j # js))) ks) =
      (if sj_source j \<in> set ks then 1 else 0) + sum_list (map (\<lambda>s. length (filter (\<lambda>x. sj_source x = s) js)) ks)"
    using Cons.prems(1) by (induction ks) auto
  with Cons show ?case by simp
qed simp

text \<open>The counts beside the sources add up to the count of all jobs, and a source lists as many rows as it says.\<close>

theorem source_counts_total:
  "sum_list (map snd (source_options js)) = length js \<and>
   (s \<noteq> ''all'' \<longrightarrow> length (job_rows [] s (Some js)) = length (filter (\<lambda>j. sj_source j = s) js)) \<and> job_rows [] ''all'' (Some js) = js"
proof -
  let ?ks = "job_sources (Some js)"
  have "mset ?ks = mset (remdups (rev (map sj_source js)))" by (simp add: job_sources_def)
  then have "set ?ks = sj_source ` set js" "distinct ?ks"
    by (metis image_set mset_eq_setD set_remdups set_rev) (metis \<open>mset ?ks = _\<close> distinct_remdups mset_eq_imp_distinct_iff)
  then have "sum_list (map snd (source_options js)) = length js"
    using sources_split [of ?ks js] by (simp add: source_options_def comp_def)
  moreover have "toLowerCase (trim []) = []" by (simp add: toLowerCase_def trim_def trimStart_def trimEnd_def)
  ultimately show ?thesis by (simp add: job_rows_def Let_def)
qed

section \<open>Bars\<close>

text \<open>A bar never leaves its box, and its colour never gets calmer as the number grows.\<close>

lemma bar_in_box: "bar_value pc = Some v \<Longrightarrow> 0 \<le> v \<and> v \<le> 100"
  by (auto simp: bar_value_def)

fun alarm :: "bar_tone \<Rightarrow> nat" where
  "alarm ToneMuted = 0" | "alarm ToneGreen = 1" | "alarm ToneAmber = 2" | "alarm ToneRed = 3"

lemma tone_mono: "x \<le> y \<Longrightarrow> alarm (usage_tone (Some x)) \<le> alarm (usage_tone (Some y))"
  by (auto simp: usage_tone_def bar_value_def)

lemma share_in_box:
  assumes "sorted_wrt (\<lambda>a b. de_size_bytes b \<le> de_size_bytes a) es" "e \<in> set es" "0 \<le> de_size_bytes e"
  shows "0 \<le> dir_share (dir_largest (Some es)) e \<and> dir_share (dir_largest (Some es)) e \<le> 100"
  using assms by (cases es) (auto simp: dir_share_def dir_largest_def divide_simps)

section \<open>Witnesses\<close>

theorem broken_port_sent_twice_witness:
  "sr_sent (fold (service_act (\<lambda>_. 161 / 2)) [TypeServicePort ''80.5'', EnterPort, EnterPort]
     (mount_service \<lparr>sv_name = ''www'', sv_port = 80, sv_enabled = True, sv_address = None, sv_certificate = None, sv_tls_only = None\<rparr>)) =
   [no_service_update\<lparr>isu_port := Val (161 / 2)\<rparr>, no_service_update\<lparr>isu_port := Val (161 / 2)\<rparr>]"
proof -
  have "''80.5'' \<noteq> show_int 80" by (simp add: show_int_def show_nat.simps digit_def)
  then show ?thesis by (intro broken_port_sent_twice) simp_all
qed

definition demo_package :: "string \<Rightarrow> PackageUpdate" where
  "demo_package n = \<lparr>pk_name = n, pk_current_version = None, pk_candidate_version = None, pk_is_security = False, pk_origin = None,
     pk_architecture = None\<rparr>"

definition demo_packages :: "string list \<Rightarrow> PackageState" where
  "demo_packages ns = \<lparr>ps_manager = ''apt'', ps_updates = map demo_package ns, ps_security_count = 0, ps_reboot_required = False,
     ps_reboot_required_by = [], ps_last_refreshed_iso = None\<rparr>"

theorem stale_selection_upgraded_witness:
  "pg_upgrades (fold package_act [PackagesRead (demo_packages [''curl'']), TickPackage ''curl'' True, PackagesRead (demo_packages [''vim'']),
     TickPackage ''curl'' False, PressUpgrade True] mount_packages) = [[''curl'']]"
  using stale_selection_upgraded [of "''curl''" "demo_packages [''curl'']" "demo_packages [''vim'']"]
  by (simp only: Let_def) (simp add: demo_packages_def demo_package_def)

theorem upgrades_of_listed_packages_witness:
  "pg_upgrades (package_act (PressUpgrade True) (mount_packages\<lparr>pg_upgrading := True\<rparr>)) = []"
  using upgrades_of_listed_packages [of "[]" "mount_packages\<lparr>pg_upgrading := True\<rparr>" "PressUpgrade True", THEN conjunct2]
  by (simp add: mount_packages_def)

theorem logs_shown_exactly_witness:
  "visible_logs [] {} (Some [\<lparr>lg_time = ''12:00'', lg_topics = ''system,info'', lg_message = ''up''\<rparr>]) =
     [\<lparr>lg_time = ''12:00'', lg_topics = ''system,info'', lg_message = ''up''\<rparr>]"
  by (rule logs_shown_exactly [THEN conjunct2, THEN conjunct1])

theorem source_counts_total_witness: "length (job_rows [] ''timer'' (Some [])) = 0"
  using source_counts_total [of "[]" "''timer''"] by simp

end
