(* ===== verification/Event_Machine.thy ===== *)
theory Event_Machine
  imports Prelude
begin

text \<open>
  Pages as machines over events: what is clicked and typed and what is answered acts on the state,
  in any order. The locale proves an invariant once for every history.
\<close>

locale event_machine =
  fixes act :: "'e \<Rightarrow> 's \<Rightarrow> 's" and start :: 's and inv :: "'s \<Rightarrow> bool"
  assumes inv_start: "inv start"
    and inv_act: "inv s \<Longrightarrow> inv (act e s)"
begin

lemma inv_fold: "inv s \<Longrightarrow> inv (fold act es s)"
  by (induction es arbitrary: s) (simp_all add: inv_act)

lemma inv_history: "inv (fold act es start)"
  by (rule inv_fold [OF inv_start])

lemma inv_next: "inv (act e (fold act es start))"
  by (rule inv_act [OF inv_history])

end

text \<open>
  Every such machine is a transition system, whose reachable states are those of the histories.
\<close>

sublocale event_machine \<subseteq> run: invariant_system "\<lambda>s. s = start" "\<lambda>s t. \<exists>e. t = act e s" inv
  by unfold_locales (auto intro: inv_start inv_act)

context event_machine
begin

lemma reachable_iff_history: "reaches (\<lambda>s. s = start) (\<lambda>s t. \<exists>e. t = act e s) s \<longleftrightarrow> (\<exists>es. s = fold act es start)"
proof
  assume "reaches (\<lambda>s. s = start) (\<lambda>s t. \<exists>e. t = act e s) s"
  then show "\<exists>es. s = fold act es start"
  proof (induction rule: reaches.induct)
    case (reaches_init s)
    then show ?case by (intro exI [of _ "[]"]) simp
  next
    case (reaches_step s t)
    then obtain es e where "t = fold act (es @ [e]) start" by auto
    then show ?case by blast
  qed
next
  assume "\<exists>es. s = fold act es start"
  then obtain es where "s = fold act es start" ..
  then show "reaches (\<lambda>s. s = start) (\<lambda>s t. \<exists>e. t = act e s) s"
  proof (induction es arbitrary: s rule: rev_induct)
    case (snoc e es)
    then show ?case by (auto intro: reaches.intros)
  qed (auto intro: reaches.intros)
qed

end

text \<open>A history of which only some events may occur keeps what those keep.\<close>

locale guarded_machine =
  fixes act :: "'e \<Rightarrow> 's \<Rightarrow> 's" and allowed :: "'e \<Rightarrow> bool" and inv :: "'s \<Rightarrow> bool"
  assumes inv_act: "inv s \<Longrightarrow> allowed e \<Longrightarrow> inv (act e s)"
begin

lemma inv_fold: "inv s \<Longrightarrow> list_all allowed es \<Longrightarrow> inv (fold act es s)"
  by (induction es arbitrary: s) (simp_all add: inv_act)

end

end
