(* ===== verification/Site_Page.thy ===== *)
theory Site_Page
  imports Onboard_Wizard Event_Machine
begin

text \<open>
  The pages of a site and of a tenant (\<open>sites/[id]/page.tsx\<close>, \<open>tenants/[id]/page.tsx\<close>) and the
  picker of a location they share (\<open>components/site-location-picker.tsx\<close>).
\<close>

section \<open>The picker of a location\<close>

record NominatimResult =
  nr_display_name :: string
  nr_lat :: string
  nr_lon :: string

text \<open>
  The place and the address belong to the page around the picker. \<open>pi_timer\<close> is the search that
  waits for its half second, \<open>pi_flight\<close> the searches that were sent and not answered. A
  coordinate that is no finite number is None.
\<close>

record picker =
  pi_place :: "(rat option \<times> rat option) option"
  pi_address :: "string option"
  pi_search :: string
  pi_results :: "NominatimResult list"
  pi_searching :: bool
  pi_timer :: "string option"
  pi_flight :: "string list"
  pi_coordInput :: string
  pi_coordError :: "string option"
  pi_touched :: bool

text \<open>\<open>fix6\<close> is \<open>toFixed(6)\<close>.\<close>

definition place_text :: "(rat option \<Rightarrow> string) \<Rightarrow> (rat option \<times> rat option) option \<Rightarrow> string" where
  "place_text fix6 pl = (case pl of None \<Rightarrow> [] | Some (lat, lng) \<Rightarrow> fix6 lat @ '', '' @ fix6 lng)"

text \<open>The effect on the search text.\<close>

definition schedule :: "picker \<Rightarrow> picker" where
  "schedule p = (if length (trim (pi_search p)) < 3 then p\<lparr>pi_timer := None, pi_results := []\<rparr> else p\<lparr>pi_timer := Some (pi_search p)\<rparr>)"

definition set_search :: "string \<Rightarrow> picker \<Rightarrow> picker" where
  "set_search v p = (if v = pi_search p then p else schedule (p\<lparr>pi_search := v\<rparr>))"

definition mount_picker :: "(rat option \<Rightarrow> string) \<Rightarrow> (rat option \<times> rat option) option \<Rightarrow> string option \<Rightarrow> picker" where
  "mount_picker fix6 pl adr = schedule \<lparr>pi_place = pl, pi_address = adr, pi_search = or_blank adr, pi_results = [], pi_searching = False,
     pi_timer = None, pi_flight = [], pi_coordInput = place_text fix6 pl, pi_coordError = None, pi_touched = False\<rparr>"

text \<open>The page takes the new place; the effect shows it unless the coordinates are being typed.\<close>

definition move_pin :: "(rat option \<Rightarrow> string) \<Rightarrow> rat option \<Rightarrow> rat option \<Rightarrow> picker \<Rightarrow> picker" where
  "move_pin fix6 lat lng p = p\<lparr>pi_place := Some (lat, lng),
     pi_coordInput := (if pi_touched p \<or> pi_place p = Some (lat, lng) then pi_coordInput p else place_text fix6 (Some (lat, lng)))\<rparr>"

definition coord_sep :: "char \<Rightarrow> bool" where
  "coord_sep c \<longleftrightarrow> is_ws c \<or> c \<in> {CHR '','', CHR '';'', CHR ''/''}"

text \<open>\<open>pf\<close> is \<open>parseFloat\<close>, None for what is no finite number.\<close>

definition applyCoords :: "(rat option \<Rightarrow> string) \<Rightarrow> (string \<Rightarrow> rat option) \<Rightarrow> picker \<Rightarrow> picker" where
  "applyCoords fix6 pf p =
     (let raw = trim (pi_coordInput p); parts = words_by coord_sep raw
      in if raw = [] then p\<lparr>pi_coordError := None\<rparr>
         else if length parts \<noteq> 2 then p\<lparr>pi_coordError := Some (''Expected two numbers '' @ em_dash @ '' latitude and longitude.'')\<rparr>
         else case (pf (parts ! 0), pf (parts ! 1)) of
           (Some lat, Some lng) \<Rightarrow>
             if lat < -90 \<or> lat > 90 then p\<lparr>pi_coordError := Some ''Latitude must be between -90 and 90.''\<rparr>
             else if lng < -180 \<or> lng > 180 then p\<lparr>pi_coordError := Some ''Longitude must be between -180 and 180.''\<rparr>
             else move_pin fix6 (Some lat) (Some lng) (p\<lparr>pi_coordError := None, pi_touched := False\<rparr>)
         | _ \<Rightarrow> p\<lparr>pi_coordError := Some ''Couldn't parse those values as numbers.''\<rparr>)"

datatype picker_event =
  TypeSearch string | TimerFires | SearchAnswer string "NominatimResult list option" | PickResult NominatimResult
| TypeCoords string | ApplyCoords | ClickMap rat rat | AddressTyped string

text \<open>
  What is typed goes to the address of the page, and an address typed on the page comes back
  into the search. A search that failed answers None. Picking a result asks \<open>pf\<close> for its place.
\<close>

fun picker_act :: "(rat option \<Rightarrow> string) \<Rightarrow> (string \<Rightarrow> rat option) \<Rightarrow> picker_event \<Rightarrow> picker \<Rightarrow> picker" where
  "picker_act fix6 pf (TypeSearch v) p = set_search v (p\<lparr>pi_address := Some v\<rparr>)"
| "picker_act fix6 pf TimerFires p =
     (case pi_timer p of None \<Rightarrow> p
      | Some q \<Rightarrow> p\<lparr>pi_timer := None, pi_searching := True, pi_flight := pi_flight p @ [q]\<rparr>)"
| "picker_act fix6 pf (SearchAnswer q r) p =
     (if q \<in> set (pi_flight p)
      then p\<lparr>pi_flight := remove1 q (pi_flight p), pi_results := (case r of None \<Rightarrow> [] | Some rs \<Rightarrow> rs), pi_searching := False\<rparr> else p)"
| "picker_act fix6 pf (PickResult r) p =
     (if r \<in> set (pi_results p)
      then set_search (nr_display_name r)
        ((move_pin fix6 (pf (nr_lat r)) (pf (nr_lon r)) p)\<lparr>pi_address := Some (nr_display_name r), pi_results := []\<rparr>)
      else p)"
| "picker_act fix6 pf (TypeCoords v) p = p\<lparr>pi_touched := True, pi_coordInput := v, pi_coordError := None\<rparr>"
| "picker_act fix6 pf ApplyCoords p = applyCoords fix6 pf p"
| "picker_act fix6 pf (ClickMap lat lng) p = move_pin fix6 (Some lat) (Some lng) p"
| "picker_act fix6 pf (AddressTyped v) p = set_search v (p\<lparr>pi_address := Some v\<rparr>)"

definition search_url :: "string \<Rightarrow> string" where
  "search_url q = ''https://nominatim.openstreetmap.org/search?format=json&limit=5&q='' @ encodeURIComponent q"

definition map_center :: "(rat option \<times> rat option) option \<Rightarrow> rat option \<times> rat option" where
  "map_center pl = (case pl of Some x \<Rightarrow> x | None \<Rightarrow> (Some (417151 / 10000), Some (448271 / 10000)))"

section \<open>The card of a site\<close>

definition site_draft :: "Site \<Rightarrow> SiteUpdate" where
  "site_draft s = \<lparr>su_name = Val (st_name s), su_address = of_nullable (st_address s), su_latitude = of_nullable (st_latitude s),
     su_longitude = of_nullable (st_longitude s), su_contact_email = of_nullable (st_contact_email s),
     su_contact_phone = of_nullable (st_contact_phone s), su_notes = of_nullable (st_notes s), su_tenant_id = Undefined\<rparr>"

text \<open>\<open>v || null\<close> and \<open>v ?? null\<close> of a field of the draft.\<close>

definition text_or_null :: "string jopt \<Rightarrow> string jopt" where
  "text_or_null v = (case v of Val s \<Rightarrow> if s = [] then Null else Val s | _ \<Rightarrow> Null)"

definition value_or_null :: "'a jopt \<Rightarrow> 'a jopt" where
  "value_or_null v = (case v of Val x \<Rightarrow> Val x | _ \<Rightarrow> Null)"

definition site_payload :: "SiteUpdate \<Rightarrow> SiteUpdate" where
  "site_payload d = \<lparr>su_name = su_name d, su_address = text_or_null (su_address d), su_latitude = value_or_null (su_latitude d),
     su_longitude = value_or_null (su_longitude d), su_contact_email = text_or_null (su_contact_email d),
     su_contact_phone = text_or_null (su_contact_phone d), su_notes = text_or_null (su_notes d), su_tenant_id = Undefined\<rparr>"

record site_card =
  sc_site :: Site
  sc_editing :: bool
  sc_draft :: SiteUpdate
  sc_error :: "string option"
  sc_pending :: bool
  sc_sent :: "SiteUpdate list"

definition mount_site_card :: "Site \<Rightarrow> site_card" where
  "mount_site_card s = \<lparr>sc_site = s, sc_editing = False, sc_draft = site_draft s, sc_error = None, sc_pending = False, sc_sent = []\<rparr>"

text \<open>The effect on the site and on the editing: a draft that is not edited follows the site.\<close>

definition sync_draft :: "site_card \<Rightarrow> site_card" where
  "sync_draft c = (if sc_editing c then c else c\<lparr>sc_draft := site_draft (sc_site c)\<rparr>)"

datatype site_field = SName | SAddress | SEmail | SPhone | SNotes

fun type_site :: "site_field \<Rightarrow> string \<Rightarrow> SiteUpdate \<Rightarrow> SiteUpdate" where
  "type_site SName v d = d\<lparr>su_name := Val v\<rparr>"
| "type_site SAddress v d = d\<lparr>su_address := Val v\<rparr>"
| "type_site SEmail v d = d\<lparr>su_contact_email := Val v\<rparr>"
| "type_site SPhone v d = d\<lparr>su_contact_phone := Val v\<rparr>"
| "type_site SNotes v d = d\<lparr>su_notes := Val v\<rparr>"

datatype site_event =
  SiteRead Site | EditSite | CancelEdit | TypeSite site_field string | PlaceSite rat rat | SaveSite | SiteSaved | SiteRefused string

text \<open>\<open>ok\<close> is the check of the browser: a name, and an address of mail that looks like one.\<close>

fun site_act :: "(SiteUpdate \<Rightarrow> bool) \<Rightarrow> site_event \<Rightarrow> site_card \<Rightarrow> site_card" where
  "site_act ok (SiteRead s) c = sync_draft (c\<lparr>sc_site := s\<rparr>)"
| "site_act ok EditSite c = c\<lparr>sc_editing := True\<rparr>"
| "site_act ok CancelEdit c = (if sc_editing c then sync_draft (c\<lparr>sc_editing := False, sc_error := None\<rparr>) else c)"
| "site_act ok (TypeSite f v) c = (if sc_editing c then c\<lparr>sc_draft := type_site f v (sc_draft c)\<rparr> else c)"
| "site_act ok (PlaceSite lat lng) c =
     (if sc_editing c then c\<lparr>sc_draft := (sc_draft c)\<lparr>su_latitude := Val lat, su_longitude := Val lng\<rparr>\<rparr> else c)"
| "site_act ok SaveSite c =
     (if sc_editing c \<and> \<not> sc_pending c \<and> ok (sc_draft c)
      then c\<lparr>sc_error := None, sc_pending := True, sc_sent := sc_sent c @ [site_payload (sc_draft c)]\<rparr> else c)"
| "site_act ok SiteSaved c =
     (if sc_pending c then sync_draft (c\<lparr>sc_pending := False, sc_editing := False, sc_error := None\<rparr>) else c)"
| "site_act ok (SiteRefused m) c = (if sc_pending c then c\<lparr>sc_pending := False, sc_error := Some m\<rparr> else c)"

section \<open>A new site of a tenant\<close>

text \<open>The picker of the form writes the place and the address; the address has a field of its own too.\<close>

record new_site =
  ns_name :: string
  ns_address :: string
  ns_latitude :: "rat option"
  ns_longitude :: "rat option"
  ns_contactEmail :: string
  ns_contactPhone :: string
  ns_error :: "string option"
  ns_pending :: bool
  ns_sent :: "SiteCreate list"

definition blank_new_site :: new_site where
  "blank_new_site = \<lparr>ns_name = [], ns_address = [], ns_latitude = None, ns_longitude = None, ns_contactEmail = [], ns_contactPhone = [],
     ns_error = None, ns_pending = False, ns_sent = []\<rparr>"

datatype new_site_field = NName | NAddress | NEmail | NPhone

fun type_new_site :: "new_site_field \<Rightarrow> string \<Rightarrow> new_site \<Rightarrow> new_site" where
  "type_new_site NName v f = f\<lparr>ns_name := v\<rparr>"
| "type_new_site NAddress v f = f\<lparr>ns_address := v\<rparr>"
| "type_new_site NEmail v f = f\<lparr>ns_contactEmail := v\<rparr>"
| "type_new_site NPhone v f = f\<lparr>ns_contactPhone := v\<rparr>"

definition new_site_payload :: "string \<Rightarrow> new_site \<Rightarrow> SiteCreate" where
  "new_site_payload tenant f = SiteForm tenant (ns_name f) (ns_address f) (ns_latitude f) (ns_longitude f) (ns_contactEmail f) (ns_contactPhone f)"

text \<open>The form is on the page while it is shown; the page drops it when its site was created.\<close>

datatype tenant_event =
  ToggleForm | TypeNewSite new_site_field string | PlaceNewSite rat rat | CreateSite | SiteCreated | SiteNotCreated string

fun tenant_act :: "(new_site \<Rightarrow> bool) \<Rightarrow> string \<Rightarrow> tenant_event \<Rightarrow> new_site option \<Rightarrow> new_site option" where
  "tenant_act ok tenant ToggleForm t = (case t of None \<Rightarrow> Some blank_new_site | Some _ \<Rightarrow> None)"
| "tenant_act ok tenant (TypeNewSite fl v) t = map_option (type_new_site fl v) t"
| "tenant_act ok tenant (PlaceNewSite lat lng) t = map_option (\<lambda>f. f\<lparr>ns_latitude := Some lat, ns_longitude := Some lng\<rparr>) t"
| "tenant_act ok tenant CreateSite t =
     map_option (\<lambda>f. if ns_pending f \<or> \<not> ok f then f
       else f\<lparr>ns_error := None, ns_pending := True, ns_sent := ns_sent f @ [new_site_payload tenant f]\<rparr>) t"
| "tenant_act ok tenant SiteCreated t = (case t of Some f \<Rightarrow> if ns_pending f then None else t | None \<Rightarrow> None)"
| "tenant_act ok tenant (SiteNotCreated m) t =
     map_option (\<lambda>f. if ns_pending f then f\<lparr>ns_pending := False, ns_error := Some m\<rparr> else f) t"

section \<open>Deleting, counting\<close>

definition press_delete_site :: "env \<Rightarrow> bool \<Rightarrow> bool \<Rightarrow> Site \<Rightarrow> unit call option" where
  "press_delete_site E pending yes s = (if pending \<or> st_device_count s > 0 \<or> \<not> yes then None else Some (deleteSite E (st_id s)))"

definition tenant_delete_site :: "env \<Rightarrow> bool \<Rightarrow> Site \<Rightarrow> unit call option" where
  "tenant_delete_site E yes s = (if yes then Some (deleteSite E (st_id s)) else None)"

definition press_delete_tenant :: "env \<Rightarrow> bool \<Rightarrow> string \<Rightarrow> unit call option" where
  "press_delete_tenant E yes i = (if yes then Some (deleteTenant E i) else None)"

definition site_stats :: "Device list \<Rightarrow> nat list" where
  "site_stats ds = length ds # map (\<lambda>st. length (filter (\<lambda>d. d_status d = st) ds)) [''online'', ''offline'', ''error'', ''unknown'']"

section \<open>Places\<close>

fun place_ok :: "(rat option \<times> rat option) option \<Rightarrow> bool" where
  "place_ok None \<longleftrightarrow> True"
| "place_ok (Some (Some lat, Some lng)) \<longleftrightarrow> -90 \<le> lat \<and> lat \<le> 90 \<and> -180 \<le> lng \<and> lng \<le> 180"
| "place_ok (Some _) \<longleftrightarrow> False"

definition typed_event :: "picker_event \<Rightarrow> bool" where
  "typed_event e = (case e of ClickMap _ _ \<Rightarrow> False | PickResult _ \<Rightarrow> False | _ \<Rightarrow> True)"

lemma set_search_place [simp]: "pi_place (set_search v p) = pi_place p"
  by (simp add: set_search_def schedule_def)

lemma place_ok_act:
  assumes "place_ok (pi_place p)" "typed_event e"
  shows "place_ok (pi_place (picker_act fix6 pf e p))"
proof (cases e)
  case ApplyCoords
  then show ?thesis using assms(1)
    by (auto simp: applyCoords_def Let_def move_pin_def split: option.splits if_splits)
qed (use assms in \<open>auto simp: typed_event_def split: option.splits\<close>)

interpretation typing: guarded_machine "picker_act fix6 pf" typed_event "\<lambda>p. place_ok (pi_place p)" for fix6 pf
  by unfold_locales (rule place_ok_act)

text \<open>
  Whatever is typed and in whatever order searches are answered, the place stays on the globe:
  coordinates that are out of range are refused with a message and move nothing.
\<close>

theorem typed_place_on_globe:
  assumes "place_ok pl" "list_all typed_event es"
  shows "place_ok (pi_place (fold (picker_act fix6 pf) es (mount_picker fix6 pl adr)))"
  using assms by (intro typing.inv_fold) (simp_all add: mount_picker_def schedule_def)

text \<open>A click is taken as the map reports it: on a copy of the world beside the first one it is off the globe.\<close>

lemma click_off_globe: "\<not> place_ok (pi_place (picker_act fix6 pf (ClickMap 0 200) p))"
  by (simp add: move_pin_def)

text \<open>
  Only a search that still waits is cancelled by typing on; one that was sent is not. Its answer,
  when it comes last, replaces the results of the text that is in the field.
\<close>

theorem stale_answer_shown:
  assumes "3 \<le> length (trim a)" "3 \<le> length (trim b)" "a \<noteq> b" "a \<noteq> pi_search p" "pi_flight p = []"
  shows "let q = fold (picker_act fix6 pf) [TypeSearch a, TimerFires, TypeSearch b, TimerFires,
      SearchAnswer b (Some rb), SearchAnswer a (Some ra)] p
    in pi_search q = b \<and> pi_results q = ra"
  using assms by (simp add: set_search_def schedule_def Let_def)

text \<open>Picking a result searches for its name, and the list that was closed opens again.\<close>

theorem picked_list_opens_again:
  assumes "r \<in> set (pi_results p)" "3 \<le> length (trim (nr_display_name r))"
    and "nr_display_name r \<noteq> pi_search p"
  shows "let q = picker_act fix6 pf (PickResult r) p in pi_results q = [] \<and>
    pi_results (fold (picker_act fix6 pf) [TimerFires, SearchAnswer (nr_display_name r) (Some rs)] q) = rs"
  using assms by (simp add: set_search_def schedule_def move_pin_def Let_def)

section \<open>Edits\<close>

definition draft_ok :: "site_card \<Rightarrow> bool" where
  "draft_ok c \<longleftrightarrow> sc_editing c \<or> sc_draft c = site_draft (sc_site c)"

lemma draft_ok_act: "draft_ok c \<Longrightarrow> draft_ok (site_act ok e c)"
  by (cases e) (auto simp: draft_ok_def sync_draft_def)

interpretation site_editor: event_machine "site_act ok" "mount_site_card s" draft_ok for ok s
  by unfold_locales (simp add: draft_ok_def mount_site_card_def, rule draft_ok_act)

definition tidy_site :: "Site \<Rightarrow> bool" where
  "tidy_site s \<longleftrightarrow> st_address s \<noteq> Some [] \<and> st_contact_email s \<noteq> Some [] \<and> st_contact_phone s \<noteq> Some [] \<and> st_notes s \<noteq> Some []"

lemma text_or_null_nullable [simp]: "v \<noteq> Some [] \<Longrightarrow> text_or_null (of_nullable v) = of_nullable v"
  by (cases v) (simp_all add: text_or_null_def)

lemma value_or_null_nullable [simp]: "value_or_null (of_nullable v) = of_nullable v"
  by (cases v) (simp_all add: value_or_null_def)

text \<open>
  After any history, opening the editor and saving without typing asks for the site as it was
  last read; and what is being typed survives every refetch.
\<close>

theorem site_edit_untouched:
  assumes "c = fold (site_act ok) es (mount_site_card s0)" "\<not> sc_editing c" "\<not> sc_pending c" "tidy_site (sc_site c)" "ok (site_draft (sc_site c))"
  shows "sc_sent (fold (site_act ok) [EditSite, SaveSite] c) = sc_sent c @ [site_draft (sc_site c)] \<and>
    sc_draft (fold (site_act ok) [EditSite, TypeSite f v, SiteRead s] c) = type_site f v (site_draft (sc_site c))"
proof -
  have d: "sc_draft c = site_draft (sc_site c)" using site_editor.inv_history assms(1,2) by (auto simp: draft_ok_def)
  have "site_payload (site_draft (sc_site c)) = site_draft (sc_site c)"
    using assms(4) by (simp add: site_payload_def site_draft_def tidy_site_def)
  then show ?thesis using assms(3,5) d by (simp add: sync_draft_def)
qed

text \<open>
  Cancelling does not stop a save that is under way, and its answer closes the editor, whatever
  was typed into it since.
\<close>

theorem late_save_drops_edit:
  assumes "\<not> sc_editing c" "\<not> sc_pending c" "sc_draft c = site_draft (sc_site c)" "ok (site_draft (sc_site c))"
  shows "let t = fold (site_act ok) [EditSite, SaveSite, CancelEdit, EditSite, TypeSite SName v, SiteSaved] c
    in \<not> sc_editing t \<and> sc_draft t = site_draft (sc_site c) \<and> sc_sent t = sc_sent c @ [site_payload (site_draft (sc_site c))]"
  using assms by (simp add: sync_draft_def Let_def)

text \<open>The page of a site refuses to delete one with devices; the page of its tenant does not.\<close>

theorem tenant_page_deletes_occupied:
  assumes "st_device_count s > 0"
  shows "press_delete_site E pending yes s = None \<and> tenant_delete_site E True s = Some (deleteSite E (st_id s))"
  using assms by (simp add: press_delete_site_def tenant_delete_site_def)

lemma stats_add_up:
  assumes "\<And>d. d \<in> set ds \<Longrightarrow> d_status d \<in> {''online'', ''offline'', ''error'', ''unknown''}"
  shows "hd (site_stats ds) = sum_list (tl (site_stats ds))"
  using assms
proof (induction ds)
  case (Cons d ds)
  have "d_status d \<in> {''online'', ''offline'', ''error'', ''unknown''}" using Cons.prems by simp
  then show ?case using Cons by (elim insertE) (simp_all add: site_stats_def)
qed (simp add: site_stats_def)

definition half_placed :: "new_site \<Rightarrow> bool" where
  "half_placed f \<longleftrightarrow> (ns_latitude f = None) \<noteq> (ns_longitude f = None)"

definition new_site_ok :: "string \<Rightarrow> new_site option \<Rightarrow> bool" where
  "new_site_ok tenant t \<longleftrightarrow> (case t of None \<Rightarrow> True | Some f \<Rightarrow> \<not> half_placed f \<and>
     list_all (\<lambda>q. sc_tenant_id q = tenant \<and> sc_slug q = slugify (sc_name q) \<and> sc_latitude q \<noteq> Undefined \<and>
       (sc_latitude q = Null \<longleftrightarrow> sc_longitude q = Null)) (ns_sent f))"

lemma of_nullable_shape [simp]: "of_nullable v \<noteq> Undefined" "of_nullable v = Null \<longleftrightarrow> v = None"
  by (cases v; simp)+

lemma new_site_ok_act: "new_site_ok tenant t \<Longrightarrow> new_site_ok tenant (tenant_act ok tenant e t)"
proof (cases e)
  case (TypeNewSite fl v)
  then show "new_site_ok tenant t \<Longrightarrow> ?thesis"
    by (cases fl) (auto simp: new_site_ok_def half_placed_def split: option.splits)
qed (auto simp: new_site_ok_def half_placed_def blank_new_site_def new_site_payload_def SiteForm_def split: option.splits if_splits)

interpretation new_sites: event_machine "tenant_act ok tenant" None "new_site_ok tenant" for ok tenant
  by unfold_locales (simp_all add: new_site_ok_act del: tenant_act.simps, simp add: new_site_ok_def)

text \<open>
  Whatever is pressed on the page of a tenant, a site that is created goes to that tenant under
  the slug of its name, and its place is given whole or not at all.
\<close>

theorem new_sites_whole:
  "new_site_ok tenant (fold (tenant_act ok tenant) es None)"
  by (rule new_sites.inv_history)

section \<open>Witnesses\<close>

definition demo_site :: Site where
  "demo_site = \<lparr>st_id = ''s1'', st_organization_id = ''o'', st_tenant_id = ''t'', st_tenant_name = None, st_name = ''HQ'', st_slug = ''hq'',
     st_address = None, st_latitude = None, st_longitude = None, st_contact_email = None, st_contact_phone = None, st_notes = None,
     st_device_count = 2, st_created_at = [], st_updated_at = []\<rparr>"

theorem typed_place_on_globe_witness:
  "place_ok (pi_place (fold (picker_act (\<lambda>_. []) (\<lambda>_. Some 95)) [TypeCoords ''95 95'', ApplyCoords] (mount_picker (\<lambda>_. []) (Some (Some 41, Some 44)) None)))"
  by (rule typed_place_on_globe) (simp_all add: typed_event_def)

theorem stale_answer_shown_witness:
  "pi_results (fold (picker_act (\<lambda>_. []) (\<lambda>_. None)) [TypeSearch ''rustavi'', TimerFires, TypeSearch ''tbilisi'', TimerFires,
     SearchAnswer ''tbilisi'' (Some []), SearchAnswer ''rustavi'' (Some [\<lparr>nr_display_name = ''Rustavi'', nr_lat = ''41.5'', nr_lon = ''45''\<rparr>])]
     (mount_picker (\<lambda>_. []) None None)) = [\<lparr>nr_display_name = ''Rustavi'', nr_lat = ''41.5'', nr_lon = ''45''\<rparr>]"
proof -
  have t: "trim ''rustavi'' = ''rustavi''" "trim ''tbilisi'' = ''tbilisi''"
    by (simp_all add: trim_def trimStart_def trimEnd_def is_ws_def)
  from stale_answer_shown [of "''rustavi''" "''tbilisi''" "mount_picker (\<lambda>_. []) None None" "\<lambda>_. []" "\<lambda>_. None" "[]"
      "[\<lparr>nr_display_name = ''Rustavi'', nr_lat = ''41.5'', nr_lon = ''45''\<rparr>]"]
  show ?thesis unfolding t Let_def by (simp del: picker_act.simps add: mount_picker_def schedule_def or_blank_def trim_def trimStart_def trimEnd_def)
qed

theorem site_edit_untouched_witness:
  "sc_sent (fold (site_act (\<lambda>_. True)) [EditSite, SaveSite] (mount_site_card demo_site)) = [site_draft demo_site]"
  using site_edit_untouched [of "mount_site_card demo_site" "\<lambda>_. True" "[]" demo_site]
  by (simp del: site_act.simps add: mount_site_card_def tidy_site_def demo_site_def)

theorem late_save_drops_edit_witness:
  "sc_editing (fold (site_act (\<lambda>_. True)) [EditSite, SaveSite, CancelEdit, EditSite, TypeSite SName ''New'', SiteSaved] (mount_site_card demo_site)) = False"
  using late_save_drops_edit [of "mount_site_card demo_site" "\<lambda>_. True" "''New''"]
  by (simp del: site_act.simps add: mount_site_card_def Let_def)

end
