(* ===== verification/Health_Page.thy ===== *)
theory Health_Page
  imports Device_Pages Reporting
begin

text \<open>
  The page of the server's own health (\<open>system-health/page.tsx\<close>, with the types of
  \<open>lib/host-health.ts\<close>) and the card of a device's resources (\<open>components/resources-card.tsx\<close>).
\<close>

section \<open>What the server reports\<close>

record NicStats =
  nic_name :: string
  nic_ipv4 :: "string option"
  nic_is_up :: bool
  nic_speed_mbps :: rat
  nic_rx_bytes :: rat
  nic_tx_bytes :: rat
  nic_rx_packets :: rat
  nic_tx_packets :: rat
  nic_errors_in :: rat
  nic_errors_out :: rat

record PeerConnection =
  pc_remote :: string
  pc_count :: rat
  pc_by_state :: "(string \<times> rat) list"

record HostHealth =
  hh_sampled_at :: string
  hh_cpu_percent :: rat
  hh_cpu_count :: rat
  hh_memory_used_bytes :: rat
  hh_memory_total_bytes :: rat
  hh_memory_percent :: rat
  hh_disk_used_bytes :: rat
  hh_disk_total_bytes :: rat
  hh_disk_percent :: rat
  hh_net_rx_bytes :: rat
  hh_net_tx_bytes :: rat
  hh_boot_at_unix :: rat
  hh_nics :: "NicStats list"
  hh_peers :: "PeerConnection list"

record HistoryPoint =
  hp_sampled_at :: string
  hp_cpu_percent :: rat
  hp_memory_used_bytes :: rat
  hp_memory_total_bytes :: rat
  hp_disk_used_bytes :: rat
  hp_disk_total_bytes :: rat
  hp_net_rx_bytes :: rat
  hp_net_tx_bytes :: rat

section \<open>Throughput\<close>

text \<open>\<open>ms\<close> is the time of a timestamp, in milliseconds.\<close>

definition sample_gap :: "(string \<Rightarrow> int) \<Rightarrow> HistoryPoint \<Rightarrow> HistoryPoint \<Rightarrow> rat" where
  "sample_gap ms prev cur =
     (let dt = of_int (ms (hp_sampled_at cur) - ms (hp_sampled_at prev)) / 1000 in if dt > 0 then dt else 1)"

record rate_point =
  rt_t :: string
  rt_rx :: rat
  rt_tx :: rat

definition rate_between :: "(string \<Rightarrow> int) \<Rightarrow> HistoryPoint \<Rightarrow> HistoryPoint \<Rightarrow> rate_point" where
  "rate_between ms prev cur = \<lparr>rt_t = hp_sampled_at cur,
     rt_rx = max 0 ((hp_net_rx_bytes cur - hp_net_rx_bytes prev) / sample_gap ms prev cur),
     rt_tx = max 0 ((hp_net_tx_bytes cur - hp_net_tx_bytes prev) / sample_gap ms prev cur)\<rparr>"

fun throughput :: "(string \<Rightarrow> int) \<Rightarrow> HistoryPoint list \<Rightarrow> rate_point list" where
  "throughput ms (prev # cur # ps) = rate_between ms prev cur # throughput ms (cur # ps)"
| "throughput ms _ = []"

definition lastThroughput :: "rate_point list \<Rightarrow> rate_point option" where
  "lastThroughput ts = (if ts = [] then None else Some (last ts))"

definition throughput_latest :: "rate_point list \<Rightarrow> rat" where
  "throughput_latest ts = (case lastThroughput ts of None \<Rightarrow> 0 | Some t \<Rightarrow> rt_rx t + rt_tx t)"

section \<open>Gauges and charts\<close>

datatype gauge_color = Primary | Emerald | Amber

definition gauge_safe :: "rat \<Rightarrow> rat" where
  "gauge_safe percent = max 0 (min 100 percent)"

definition ringColor :: "gauge_color \<Rightarrow> rat \<Rightarrow> string" where
  "ringColor color percent =
     (let safe = gauge_safe percent
      in if safe > 85 then ''stroke-red-500'' else if safe > 70 then ''stroke-amber-500''
         else case color of Primary \<Rightarrow> ''stroke-blue-500'' | Emerald \<Rightarrow> ''stroke-emerald-500'' | Amber \<Rightarrow> ''stroke-amber-500'')"

text \<open>\<open>circ\<close> is the length of the ring.\<close>

definition ring_offset :: "rat \<Rightarrow> rat \<Rightarrow> rat" where
  "ring_offset circ percent = circ - (gauge_safe percent / 100) * circ"

definition gauge_text :: "rat \<Rightarrow> string" where
  "gauge_text percent = toFixed0 (gauge_safe percent) @ ''%''"

definition chart_top :: "rat option \<Rightarrow> rat list \<Rightarrow> rat" where
  "chart_top mx values = (case mx of Some m \<Rightarrow> m | None \<Rightarrow> fold max values 1)"

definition chart_point :: "rat \<Rightarrow> rat \<Rightarrow> nat \<Rightarrow> rat \<Rightarrow> rat \<times> rat" where
  "chart_point tp step i v = (of_nat i * step, 60 - (max 0 (min tp v) / tp) * 60)"

definition chart_points :: "rat option \<Rightarrow> rat list \<Rightarrow> (rat \<times> rat) list" where
  "chart_points mx values =
     (let step = if length values > 1 then 240 / of_nat (length values - 1) else 0
      in map (\<lambda>(i, v). chart_point (chart_top mx values) step i v) (enumerate 0 values))"

definition chart_path :: "rat option \<Rightarrow> rat list \<Rightarrow> string" where
  "chart_path mx values =
     join '' '' (map (\<lambda>(i, x, y). (if i = 0 then ''M'' else ''L'') @ toFixed1 x @ '','' @ toFixed1 y) (enumerate 0 (chart_points mx values)))"

definition chart_area :: "rat option \<Rightarrow> rat list \<Rightarrow> string" where
  "chart_area mx values = (let p = chart_path mx values in if p = [] then [] else p @ '' L240,60 L0,60 Z'')"

text \<open>The three charts of the page.\<close>

definition health_charts :: "(string \<Rightarrow> int) \<Rightarrow> HostHealth option \<Rightarrow> HistoryPoint list \<Rightarrow> (rat \<times> rat) list list" where
  "health_charts ms live points =
     [chart_points (Some 100) (map hp_cpu_percent points),
      chart_points (map_option hh_memory_total_bytes live) (map hp_memory_used_bytes points),
      chart_points None (map (\<lambda>t. rt_rx t + rt_tx t) (throughput ms points))]"

section \<open>Interfaces and peers\<close>

definition shown_nics :: "HostHealth option \<Rightarrow> NicStats list" where
  "shown_nics live = filter (\<lambda>n. \<not> startsWith (nic_name n) ''lo'') (case live of None \<Rightarrow> [] | Some h \<Rightarrow> hh_nics h)"

definition link_text :: "(rat \<Rightarrow> string) \<Rightarrow> NicStats \<Rightarrow> string" where
  "link_text ns n = (if nic_is_up n then ''up '' @ mid_dot @ '' '' @ (if nic_speed_mbps n = 0 then ''?'' else ns (nic_speed_mbps n)) @ '' Mb/s'' else ''down'')"

definition shown_peers :: "PeerConnection list \<Rightarrow> PeerConnection list" where
  "shown_peers ps = take 50 ps"

definition more_peers :: "PeerConnection list \<Rightarrow> nat option" where
  "more_peers ps = (if length ps > 50 then Some (length ps - 50) else None)"

definition peer_tone :: "string \<Rightarrow> string" where
  "peer_tone state = (if state = ''ESTABLISHED'' then ''emerald'' else if state = ''TIME_WAIT'' then ''zinc'' else ''amber'')"

section \<open>The resources of a device\<close>

record SystemResources =
  sr_identity :: string
  sr_model :: "string option"
  sr_serial :: "string option"
  sr_firmware :: "string option"
  sr_os_family :: "string option"
  sr_os_version :: "string option"
  sr_uptime_seconds :: "int option"
  sr_cpu_count :: "rat option"
  sr_cpu_load_pct :: "rat option"
  sr_load_avg_1 :: "rat option"
  sr_load_avg_5 :: "rat option"
  sr_load_avg_15 :: "rat option"
  sr_memory_used_pct :: "rat option"
  sr_memory_total_bytes :: "rat option"
  sr_memory_used_bytes :: "rat option"
  sr_swap_total_bytes :: "rat option"
  sr_swap_used_bytes :: "rat option"

text \<open>A device whose host key is not pinned is not asked.\<close>

definition resources_call :: "env \<Rightarrow> string \<Rightarrow> string option \<Rightarrow> json call option" where
  "resources_call E deviceId pinned = (if deviceId \<noteq> [] \<and> truthy_str pinned then Some (getResources E deviceId) else None)"

record usage_row =
  ur_label :: string
  ur_pct :: "rat option"
  ur_detail :: "string option"

definition or_dash :: "(rat \<Rightarrow> string) \<Rightarrow> rat option \<Rightarrow> string" where
  "or_dash ns v = (case v of None \<Rightarrow> em_dash | Some x \<Rightarrow> ns x)"

definition cpu_row :: "(rat \<Rightarrow> string) \<Rightarrow> SystemResources \<Rightarrow> usage_row" where
  "cpu_row ns d = \<lparr>
     ur_label = ''CPU'' @ (case sr_cpu_count d of None \<Rightarrow> [] | Some c \<Rightarrow> if c = 0 then [] else '' '' @ mid_dot @ '' '' @ ns c @ '' cores''),
     ur_pct = sr_cpu_load_pct d,
     ur_detail = map_option (\<lambda>l. ''load '' @ ns l @ '' / '' @ or_dash ns (sr_load_avg_5 d) @ '' / '' @ or_dash ns (sr_load_avg_15 d)) (sr_load_avg_1 d)\<rparr>"

definition memory_row :: "SystemResources \<Rightarrow> usage_row" where
  "memory_row d = \<lparr>ur_label = ''Memory'', ur_pct = sr_memory_used_pct d,
     ur_detail = map_option (\<lambda>t. formatBytes (sr_memory_used_bytes d) @ '' of '' @ formatBytes (Some t)) (sr_memory_total_bytes d)\<rparr>"

text \<open>In a quotient a null counts as zero.\<close>

definition swap_row :: "SystemResources \<Rightarrow> usage_row option" where
  "swap_row d =
     (case sr_swap_total_bytes d of None \<Rightarrow> None
      | Some t \<Rightarrow> if t > 0 then Some \<lparr>ur_label = ''Swap'',
            ur_pct = Some ((case sr_swap_used_bytes d of None \<Rightarrow> 0 | Some u \<Rightarrow> u) / t * 100),
            ur_detail = Some (formatBytes (sr_swap_used_bytes d) @ '' of '' @ formatBytes (Some t))\<rparr> else None)"

definition usage_rows :: "(rat \<Rightarrow> string) \<Rightarrow> SystemResources \<Rightarrow> usage_row list" where
  "usage_rows ns d = [cpu_row ns d, memory_row d] @ (case swap_row d of None \<Rightarrow> [] | Some r \<Rightarrow> [r])"

text \<open>When the host booted, in milliseconds, of a reading fetched at \<open>fetched\<close>.\<close>

definition booted_at :: "int \<Rightarrow> SystemResources \<Rightarrow> int option" where
  "booted_at fetched d =
     (case sr_uptime_seconds d of None \<Rightarrow> None | Some u \<Rightarrow> if fetched > 0 then Some (fetched - u * 1000) else None)"

definition pad2 :: "nat \<Rightarrow> string" where
  "pad2 n = (let s = show_nat n in replicate (2 - length s) CHR ''0'' @ s)"

text \<open>\<open>civil\<close> gives year, month (from 0), day, hour and minute of a time, in the local zone.\<close>

definition since_label :: "(int \<Rightarrow> nat \<times> nat \<times> nat \<times> nat \<times> nat) \<Rightarrow> int \<Rightarrow> string" where
  "since_label civil at_ms = (case civil at_ms of (y, mo, d, h, mi) \<Rightarrow>
     show_nat y @ ''-'' @ pad2 (mo + 1) @ ''-'' @ pad2 d @ '' '' @ pad2 h @ '':'' @ pad2 mi)"

section \<open>Counters\<close>

definition counting :: "(string \<Rightarrow> int) \<Rightarrow> HistoryPoint \<Rightarrow> HistoryPoint \<Rightarrow> bool" where
  "counting ms p c \<longleftrightarrow> ms (hp_sampled_at p) < ms (hp_sampled_at c) \<and> hp_net_rx_bytes p \<le> hp_net_rx_bytes c \<and> hp_net_tx_bytes p \<le> hp_net_tx_bytes c"

fun steady :: "(string \<Rightarrow> int) \<Rightarrow> HistoryPoint list \<Rightarrow> bool" where
  "steady ms (p # c # ps) \<longleftrightarrow> counting ms p c \<and> steady ms (c # ps)"
| "steady ms _ \<longleftrightarrow> True"

text \<open>The bytes a series of rates stands for.\<close>

fun volume :: "(string \<Rightarrow> int) \<Rightarrow> (rate_point \<Rightarrow> rat) \<Rightarrow> HistoryPoint list \<Rightarrow> rat" where
  "volume ms f (p # c # ps) = f (rate_between ms p c) * sample_gap ms p c + volume ms f (c # ps)"
| "volume ms f _ = 0"

lemma sample_gap_pos: "sample_gap ms p c > 0"
  by (simp add: sample_gap_def Let_def)

lemma rate_times_gap:
  "counting ms p c \<Longrightarrow> rt_rx (rate_between ms p c) * sample_gap ms p c = hp_net_rx_bytes c - hp_net_rx_bytes p"
  "counting ms p c \<Longrightarrow> rt_tx (rate_between ms p c) * sample_gap ms p c = hp_net_tx_bytes c - hp_net_tx_bytes p"
  using sample_gap_pos [of ms p c] by (simp_all add: rate_between_def counting_def max_def field_simps)

lemma throughput_length [simp]: "length (throughput ms ps) = length ps - 1"
  by (induction ms ps rule: throughput.induct) simp_all

lemma throughput_nonneg: "t \<in> set (throughput ms ps) \<Longrightarrow> 0 \<le> rt_rx t \<and> 0 \<le> rt_tx t"
  by (induction ms ps rule: throughput.induct) (auto simp: rate_between_def)

lemma volume_telescopes:
  assumes "steady ms ps" "ps \<noteq> []"
  shows "volume ms rt_rx ps = hp_net_rx_bytes (last ps) - hp_net_rx_bytes (hd ps)"
    and "volume ms rt_tx ps = hp_net_tx_bytes (last ps) - hp_net_tx_bytes (hd ps)"
  using assms by (induction ms ps rule: steady.induct) (simp_all add: rate_times_gap)

text \<open>
  The rates of a history are one fewer than its samples and none is negative. Over samples whose
  times rise and whose counters do not fall they lose no byte: rate by length of the interval,
  summed, is what the counters rose by.
\<close>

theorem throughput_loses_nothing:
  assumes "ps \<noteq> []" "steady ms ps"
  shows "length (throughput ms ps) + 1 = length ps \<and>
    (\<forall>t \<in> set (throughput ms ps). 0 \<le> rt_rx t \<and> 0 \<le> rt_tx t) \<and>
    volume ms rt_rx ps = hp_net_rx_bytes (last ps) - hp_net_rx_bytes (hd ps) \<and>
    volume ms rt_tx ps = hp_net_tx_bytes (last ps) - hp_net_tx_bytes (hd ps)"
  using assms throughput_nonneg volume_telescopes by (cases ps) auto

text \<open>A restart in between hides the traffic after it: the counters fall and the rate shown is zero.\<close>

lemma restart_shows_zero:
  assumes "hp_net_rx_bytes c < hp_net_rx_bytes p"
  shows "rt_rx (rate_between ms p c) = 0"
  using assms sample_gap_pos [of ms p c] by (simp add: rate_between_def max_def field_simps)

section \<open>Inside the frame\<close>

lemma fold_max_ge: "(a::rat) \<le> fold max xs a"
  by (induction xs arbitrary: a) (auto intro: order_trans [OF max.cobounded2])

lemma fold_max_upper: "x \<in> set xs \<Longrightarrow> (x::rat) \<le> fold max xs a"
proof (induction xs arbitrary: a)
  case (Cons y ys)
  have "y \<le> fold max ys (max y a)" by (rule order_trans [OF max.cobounded1 fold_max_ge])
  with Cons show ?case by auto
qed simp

lemma chart_top_pos: "(\<And>m. mx = Some m \<Longrightarrow> m > 0) \<Longrightarrow> chart_top mx vs > 0"
  using fold_max_ge [of 1 vs] by (auto simp: chart_top_def split: option.splits)

text \<open>A chart that has no maximum of its own cuts off no value.\<close>

lemma own_scale_unclipped: "v \<in> set vs \<Longrightarrow> min (chart_top None vs) v = v"
  using fold_max_upper by (simp add: chart_top_def min_absorb2)

lemma chart_y_bounds:
  assumes "tp > 0"
  shows "0 \<le> snd (chart_point tp s i v) \<and> snd (chart_point tp s i v) \<le> 60"
  using assms by (simp add: chart_point_def divide_le_eq)

lemma chart_points_nth:
  "i < length vs \<Longrightarrow> chart_points mx vs ! i =
     chart_point (chart_top mx vs) (if length vs > 1 then 240 / of_nat (length vs - 1) else 0) i (vs ! i)"
  by (simp add: chart_points_def Let_def nth_enumerate_eq)

lemma chart_points_length [simp]: "length (chart_points mx vs) = length vs"
  by (simp add: chart_points_def Let_def)

text \<open>
  A chart has one point per value, from the left edge to the right one at equal steps, inside its
  frame of 240 by 60; a value that is higher is not drawn lower.
\<close>

theorem chart_inside_frame:
  assumes "\<And>m. mx = Some m \<Longrightarrow> m > 0" "i < length vs" "j < length vs"
  shows "length (chart_points mx vs) = length vs \<and>
    (case chart_points mx vs ! i of (x, y) \<Rightarrow> 0 \<le> x \<and> x \<le> 240 \<and> 0 \<le> y \<and> y \<le> 60) \<and>
    (length vs > 1 \<longrightarrow> fst (chart_points mx vs ! 0) = 0 \<and> fst (last (chart_points mx vs)) = 240) \<and>
    (vs ! i \<le> vs ! j \<longrightarrow> snd (chart_points mx vs ! j) \<le> snd (chart_points mx vs ! i))"
proof (intro conjI impI)
  have top: "chart_top mx vs > 0" using chart_top_pos assms(1) by blast
  have "of_nat i * (240 / of_nat (length vs - 1)) \<le> (240::rat)" if "length vs > 1"
    using assms(2) that by (simp add: field_simps of_nat_diff)
  then have "0 \<le> fst (chart_points mx vs ! i) \<and> fst (chart_points mx vs ! i) \<le> 240"
    using assms(2) by (simp add: chart_points_nth chart_point_def)
  moreover have "0 \<le> snd (chart_points mx vs ! i) \<and> snd (chart_points mx vs ! i) \<le> 60"
    using chart_y_bounds [OF top] assms(2) by (simp add: chart_points_nth)
  ultimately show "case chart_points mx vs ! i of (x, y) \<Rightarrow> 0 \<le> x \<and> x \<le> 240 \<and> 0 \<le> y \<and> y \<le> 60"
    by (simp add: case_prod_beta)
  show "fst (chart_points mx vs ! 0) = 0" if "length vs > 1"
    using that by (subst chart_points_nth) (auto simp: chart_point_def)
  show "fst (last (chart_points mx vs)) = 240" if "length vs > 1"
  proof -
    have "last (chart_points mx vs) = chart_points mx vs ! (length vs - 1)"
      using that by (metis chart_points_length last_conv_nth list.size(3) not_one_less_zero)
    moreover have "of_nat (length vs - 1) * (240 / of_nat (length vs - 1)) = (240::rat)"
      using that by (simp add: times_divide_eq_right nonzero_mult_div_cancel_left del: of_nat_diff)
    ultimately show ?thesis
      using that chart_points_nth [of "length vs - 1" vs mx] by (simp add: chart_point_def del: of_nat_diff)
  qed
  show "snd (chart_points mx vs ! j) \<le> snd (chart_points mx vs ! i)" if "vs ! i \<le> vs ! j"
    using that assms(2,3) top by (auto simp: chart_points_nth chart_point_def intro!: divide_right_mono)
qed simp

lemma ring_offset_bounds: "0 \<le> circ \<Longrightarrow> 0 \<le> ring_offset circ p \<and> ring_offset circ p \<le> circ"
proof -
  assume c: "0 \<le> circ"
  have g: "0 \<le> gauge_safe p / 100" "gauge_safe p / 100 \<le> 1" by (simp_all add: gauge_safe_def)
  have "(gauge_safe p / 100) * circ \<le> 1 * circ" using g(2) c by (rule mult_right_mono)
  moreover have "0 \<le> (gauge_safe p / 100) * circ" using g(1) c by (rule mult_nonneg_nonneg)
  ultimately show ?thesis unfolding ring_offset_def by linarith
qed

section \<open>Tables\<close>

lemma peers_accounted: "length (shown_peers ps) + (case more_peers ps of None \<Rightarrow> 0 | Some n \<Rightarrow> n) = length ps"
  by (simp add: shown_peers_def more_peers_def)

text \<open>More than the loopback is hidden: every interface whose name starts as its name does.\<close>

lemma hidden_with_loopback:
  "nic_name n = ''lowpan0'' \<Longrightarrow> n \<notin> set (shown_nics live)"
  by (auto simp: shown_nics_def startsWith_def)

text \<open>A swap whose use the host did not report is drawn as empty, beside a detail that says unknown.\<close>

theorem unknown_swap_drawn_empty:
  assumes "sr_swap_total_bytes d = Some t" "t > 0" "sr_swap_used_bytes d = None"
  shows "\<exists>r. swap_row d = Some r \<and> usage_text (ur_pct r) = toFixed1 0 @ ''%'' \<and>
    ur_detail r = Some (em_dash @ '' of '' @ formatBytes (Some t))"
  using assms by (simp add: swap_row_def usage_text_def bar_value_def formatBytes_def)

text \<open>The percentage of a reported swap is that of its sizes, and two readings of one boot agree on its time.\<close>

lemma swap_share:
  assumes "sr_swap_used_bytes d = Some u" "sr_swap_total_bytes d = Some t" "0 \<le> u" "u \<le> t" "0 < t"
  shows "\<exists>p. map_option ur_pct (swap_row d) = Some (Some p) \<and> 0 \<le> p \<and> p \<le> 100 \<and> p * t = u * 100"
  using assms by (simp add: swap_row_def divide_le_eq)

lemma booted_at_steady:
  assumes "booted_at f d = Some b" "sr_uptime_seconds d = Some u" "sr_uptime_seconds d' = Some (u + s)" "s \<ge> 0"
  shows "booted_at (f + s * 1000) d' = Some b"
  using assms by (simp add: booted_at_def algebra_simps split: if_splits)

section \<open>Witnesses\<close>

definition demo_point :: "string \<Rightarrow> rat \<Rightarrow> HistoryPoint" where
  "demo_point t rx = \<lparr>hp_sampled_at = t, hp_cpu_percent = 5, hp_memory_used_bytes = 1, hp_memory_total_bytes = 2, hp_disk_used_bytes = 1,
     hp_disk_total_bytes = 2, hp_net_rx_bytes = rx, hp_net_tx_bytes = 7\<rparr>"

theorem throughput_loses_nothing_witness:
  "volume (\<lambda>t. int (length t) * 1000) rt_rx [demo_point [] 100, demo_point ''ab'' 500] = 400"
  using throughput_loses_nothing [of "[demo_point [] 100, demo_point ''ab'' 500]" "\<lambda>t. int (length t) * 1000"]
  by (simp del: volume.simps throughput.simps add: counting_def demo_point_def)

theorem chart_inside_frame_witness:
  "fst (last (chart_points (Some 100) [20, 150, 40])) = 240 \<and> snd (chart_points (Some 100) [20, 150, 40] ! 1) \<le> snd (chart_points (Some 100) [20, 150, 40] ! 0)"
  using chart_inside_frame [of "Some 100" 0 "[20, 150, 40]" 1] by simp

end
