(* ===== verification/Session_Page.thy ===== *)
theory Session_Page
  imports Reporting Sign_In Admin_Api Format Event_Machine
begin

text \<open>
  The page of one session of the audit log (\<open>audit/sessions/[id]/page.tsx\<close>) and the panel of who
  has access to a place (\<open>components/access-panel.tsx\<close>).
\<close>

section \<open>The session\<close>

record AuditSession =
  se_session_id :: string
  se_user_id :: "string option"
  se_user_email :: "string option"
  se_user_name :: "string option"
  se_role :: "string option"
  se_started_at :: "string option"
  se_last_activity_at :: "string option"
  se_sign_in_method :: "string option"
  se_ip_address :: "string option"
  se_user_agent :: "string option"
  se_active :: bool
  se_expires_at :: "string option"
  se_previous_session_id :: "string option"
  se_next_session_id :: "string option"
  se_entries :: "AuditLogEntry list"

text \<open>Times are in milliseconds; \<open>ms\<close> reads a timestamp.\<close>

definition session_duration :: "int \<Rightarrow> int \<Rightarrow> string" where
  "session_duration t0 t1 =
     (let mins = max 0 (Math_round (of_int (t1 - t0) / 60000))
      in if mins < 60 then show_int mins @ '' min'' else show_int (mins div 60) @ '' h '' @ show_int (mins mod 60) @ '' min'')"

definition relativeFuture :: "int \<Rightarrow> int \<Rightarrow> string" where
  "relativeFuture now t =
     (let days = Math_round (of_int (t - now) / 86400000)
      in if days \<ge> 1 then ''in '' @ show_int days @ '' day'' @ (if days = 1 then [] else ''s'')
         else ''in '' @ show_int (max 0 (Math_round (of_int (t - now) / 3600000))) @ '' h'')"

definition export_name :: "AuditSession \<Rightarrow> string" where
  "export_name s = ''netfleet-session-'' @ se_session_id s @ ''.json''"

definition session_steps :: "AuditSession option \<Rightarrow> AuditLogEntry list" where
  "session_steps s = rev (case s of None \<Rightarrow> [] | Some x \<Rightarrow> se_entries x)"

record session_counts =
  sn_ok :: nat
  sn_denied :: nat
  sn_failed :: nat
  sn_devices :: nat

definition count_outcome :: "string \<Rightarrow> AuditLogEntry list \<Rightarrow> nat" where
  "count_outcome oc es = length (filter (\<lambda>x. e_outcome x = oc) es)"

definition devices_touched :: "AuditLogEntry list \<Rightarrow> string list" where
  "devices_touched es = remdups (map the (filter truthy_str (map e_device_id es)))"

definition session_counts_of :: "AuditLogEntry list \<Rightarrow> session_counts" where
  "session_counts_of es = \<lparr>sn_ok = count_outcome ''ok'' es, sn_denied = count_outcome ''denied'' es,
     sn_failed = count_outcome ''failed'' es, sn_devices = length (devices_touched es)\<rparr>"

definition session_who :: "AuditSession \<Rightarrow> string" where
  "session_who s = (if truthy_str (se_user_name s) then the (se_user_name s)
     else if truthy_str (se_user_email s) then the (se_user_email s) else ''Unknown user'')"

definition ownSession :: "UserPublic option \<Rightarrow> AuditSession \<Rightarrow> bool" where
  "ownSession me s \<longleftrightarrow> (case me of None \<Rightarrow> False | Some u \<Rightarrow> se_user_id s = Some (u_id u))"

definition dash :: "string option \<Rightarrow> string" where
  "dash v = (case v of None \<Rightarrow> em_dash | Some x \<Rightarrow> x)"

text \<open>\<open>when\<close> is \<open>fullWhen\<close>, of the locale.\<close>

definition when_or_dash :: "(string \<Rightarrow> string) \<Rightarrow> string option \<Rightarrow> string" where
  "when_or_dash fullWhen v = (if truthy_str v then fullWhen (the v) else em_dash)"

definition session_meta :: "(string \<Rightarrow> string) \<Rightarrow> (string \<Rightarrow> int) \<Rightarrow> int \<Rightarrow> AuditSession \<Rightarrow> (string \<times> string) list" where
  "session_meta fullWhen ms now s =
     [(''Started'', when_or_dash fullWhen (se_started_at s)),
      (''Last activity'', when_or_dash fullWhen (se_last_activity_at s)),
      (''Sign-in method'', dash (se_sign_in_method s)),
      (''Source IP'', dash (se_ip_address s)),
      (''Client'', describeClient (se_user_agent s)),
      (''Role'', dash (se_role s)),
      (''Session ID'', se_session_id s),
      (''Expires'', if se_active s \<and> truthy_str (se_expires_at s)
         then relativeFuture now (ms (the (se_expires_at s))) @ '' (refresh token)'' else ''Ended'')]"

definition session_links :: "AuditSession \<Rightarrow> string list" where
  "session_links s = map (\<lambda>i. ''/dashboard/audit/sessions/'' @ the i) (filter truthy_str [se_previous_session_id s, se_next_session_id s])"

section \<open>A step of the session\<close>

definition DOT :: "string \<Rightarrow> string" where
  "DOT oc = (if oc = ''ok'' then ''bg-emerald-500'' else if oc = ''denied'' then ''bg-amber-500''
     else if oc = ''failed'' then ''bg-red-500'' else ''bg-zinc-400'')"

text \<open>A field of the two objects, the later one first.\<close>

definition merged :: "AuditLogEntry \<Rightarrow> string \<Rightarrow> json option" where
  "merged e k =
     (case map_of (case e_response_meta e of None \<Rightarrow> [] | Some m \<Rightarrow> m) k of
        Some v \<Rightarrow> Some v | None \<Rightarrow> map_of (case e_request_payload e of None \<Rightarrow> [] | Some m \<Rightarrow> m) k)"

fun scalar :: "(rat \<Rightarrow> string) \<Rightarrow> json option \<Rightarrow> string option" where
  "scalar ns (Some (JStr s)) = Some s"
| "scalar ns (Some (JNum n)) = Some (ns n)"
| "scalar ns _ = None"

definition diff_keys :: "(string \<times> string) list" where
  "diff_keys = [(''from'', ''to''), (''before'', ''after''), (''from_version'', ''to_version''), (''current_version'', ''target_version'')]"

fun first_pair :: "(string \<Rightarrow> string option) \<Rightarrow> (string \<times> string) list \<Rightarrow> (string \<times> string) option" where
  "first_pair get [] = None"
| "first_pair get ((a, b) # ks) = (case (get a, get b) of (Some x, Some y) \<Rightarrow> Some (x, y) | _ \<Rightarrow> first_pair get ks)"

definition diffOf :: "(rat \<Rightarrow> string) \<Rightarrow> AuditLogEntry \<Rightarrow> (string \<times> string) option" where
  "diffOf ns e = first_pair (\<lambda>k. scalar ns (merged e k)) diff_keys"

definition step_where :: "AuditLogEntry \<Rightarrow> string" where
  "step_where e =
     (let target = auditTarget e;
          place = (case e_device_name e of Some d \<Rightarrow> Some d | None \<Rightarrow> if target \<noteq> em_dash then Some target else None)
      in join ('' '' @ mid_dot @ '' '') (map the (filter truthy_str [place, e_site_name e])))"

definition step_line :: "AuditLogEntry \<Rightarrow> string" where
  "step_line e = step_where e @
     (if truthy_str (e_error_message e) then (if step_where e \<noteq> [] then '' '' @ mid_dot @ '' '' else []) @ the (e_error_message e) else [])"

section \<open>Revoking\<close>

record session_page =
  sp_me :: "UserPublic option"
  sp_session :: "AuditSession option"
  sp_expanded :: "string option"
  sp_confirm :: bool
  sp_pending :: bool
  sp_error :: "string option"
  sp_sent :: "string list"

definition blank_session_page :: session_page where
  "blank_session_page = \<lparr>sp_me = None, sp_session = None, sp_expanded = None, sp_confirm = False, sp_pending = False, sp_error = None, sp_sent = []\<rparr>"

definition can_revoke :: "session_page \<Rightarrow> bool" where
  "can_revoke p \<longleftrightarrow> (case (sp_me p, sp_session p) of
     (Some u, Some s) \<Rightarrow> u_is_admin u \<and> se_active s \<and> \<not> ownSession (Some u) s | _ \<Rightarrow> False)"

datatype session_event =
  MeRead "UserPublic option" | SessionRead AuditSession | PressRevoke | YesRevoke | NoRevoke | RevokeDone | RevokeFailed string | ToggleStep string

fun session_act :: "string \<Rightarrow> session_event \<Rightarrow> session_page \<Rightarrow> session_page" where
  "session_act i (MeRead u) p = p\<lparr>sp_me := u\<rparr>"
| "session_act i (SessionRead s) p = p\<lparr>sp_session := Some s\<rparr>"
| "session_act i PressRevoke p = (if can_revoke p \<and> \<not> sp_confirm p then p\<lparr>sp_confirm := True\<rparr> else p)"
| "session_act i YesRevoke p =
     (if can_revoke p \<and> sp_confirm p \<and> \<not> sp_pending p then p\<lparr>sp_pending := True, sp_error := None, sp_sent := sp_sent p @ [i]\<rparr> else p)"
| "session_act i NoRevoke p = (if can_revoke p \<and> sp_confirm p then p\<lparr>sp_confirm := False\<rparr> else p)"
| "session_act i RevokeDone p = (if sp_pending p then p\<lparr>sp_pending := False, sp_confirm := False\<rparr> else p)"
| "session_act i (RevokeFailed m) p = (if sp_pending p then p\<lparr>sp_pending := False, sp_error := Some m\<rparr> else p)"
| "session_act i (ToggleStep k) p = p\<lparr>sp_expanded := (if sp_expanded p = Some k then None else Some k)\<rparr>"

section \<open>Who has access\<close>

datatype access_scope = TenantScope | SiteScope | DeviceScope

definition access_call :: "env \<Rightarrow> access_scope \<Rightarrow> string \<Rightarrow> json call option" where
  "access_call E sc i = (if i = [] then None else Some
     (case sc of TenantScope \<Rightarrow> fetchTenantAccess E i | SiteScope \<Rightarrow> fetchSiteAccess E i | DeviceScope \<Rightarrow> fetchDeviceAccess E i))"

record AccessEntry =
  ae_user_id :: string
  ae_email :: string
  ae_display_name :: "string option"
  ae_is_admin :: bool
  ae_role_id :: "string option"
  ae_role_name :: "string option"
  ae_source_scope_type :: "string option"
  ae_source_scope_id :: "string option"
  ae_source_scope_label :: "string option"

definition access_key :: "nat \<Rightarrow> AccessEntry \<Rightarrow> string" where
  "access_key n e = ae_user_id e @ '':'' @ (case ae_role_id e of None \<Rightarrow> ''admin'' | Some r \<Rightarrow> r) @ '':'' @ show_nat n"

definition access_user :: "AccessEntry \<Rightarrow> string" where
  "access_user e = (case ae_display_name e of None \<Rightarrow> ae_email e | Some d \<Rightarrow> d)"

definition access_role :: "AccessEntry \<Rightarrow> string" where
  "access_role e = (if ae_is_admin e \<and> ae_role_id e = None then ''super-admin'' else dash (ae_role_name e))"

definition access_via :: "AccessEntry \<Rightarrow> string" where
  "access_via e =
     (case ae_source_scope_type e of None \<Rightarrow> ''bypass via super-admin''
      | Some t \<Rightarrow> t @ (if truthy_str (ae_source_scope_label e) then mid_dot @ '' '' @ the (ae_source_scope_label e) else []))"

definition grants_text :: "AccessEntry list option \<Rightarrow> string" where
  "grants_text d = (case d of None \<Rightarrow> [] | Some es \<Rightarrow> show_nat (length es) @ '' grant'' @ (if length es = 1 then [] else ''s''))"

section \<open>Who signs whom out\<close>

text \<open>
  One event sends at most one revocation, of the session of the page, and only the answer Yes
  does, of an administrator, to a question that was asked, of a session that was active and of
  somebody else when last read.
\<close>

definition revoke_step_ok :: "string \<Rightarrow> session_event \<Rightarrow> session_page \<Rightarrow> bool" where
  "revoke_step_ok i e p \<longleftrightarrow> sp_sent (session_act i e p) = sp_sent p \<or>
     (e = YesRevoke \<and> sp_confirm p \<and> \<not> sp_pending p \<and> sp_sent (session_act i e p) = sp_sent p @ [i] \<and>
      (\<exists>u s. sp_me p = Some u \<and> sp_session p = Some s \<and> u_is_admin u \<and> se_active s \<and> se_user_id s \<noteq> Some (u_id u)))"

lemma can_revoke_iff:
  "can_revoke p \<longleftrightarrow> (\<exists>u s. sp_me p = Some u \<and> sp_session p = Some s \<and> u_is_admin u \<and> se_active s \<and> se_user_id s \<noteq> Some (u_id u))"
  by (auto simp: can_revoke_def ownSession_def split: option.splits)

lemma revoke_step: "revoke_step_ok i e p"
  by (cases e) (simp_all add: revoke_step_ok_def can_revoke_iff)

text \<open>How often a revocation may have been sent: once for each question asked, and again after each that failed.\<close>

definition revoke_grounds :: "session_event list \<Rightarrow> nat" where
  "revoke_grounds es = length (filter (\<lambda>e. case e of PressRevoke \<Rightarrow> True | RevokeFailed _ \<Rightarrow> True | _ \<Rightarrow> False) es)"

lemma revoke_grounds_Nil [simp]: "revoke_grounds [] = 0"
  by (simp add: revoke_grounds_def)

lemma revoke_grounds_snoc [simp]:
  "revoke_grounds (es @ [e]) = revoke_grounds es + (case e of PressRevoke \<Rightarrow> 1 | RevokeFailed _ \<Rightarrow> 1 | _ \<Rightarrow> 0)"
  by (cases e) (simp_all add: revoke_grounds_def)

definition revoke_budget :: "nat \<Rightarrow> session_page \<Rightarrow> bool" where
  "revoke_budget n p \<longleftrightarrow> length (sp_sent p) + (if sp_confirm p \<and> \<not> sp_pending p then 1 else 0) \<le> n"

lemma revoke_budget_act:
  "revoke_budget n p \<Longrightarrow> revoke_budget (n + (case e of PressRevoke \<Rightarrow> 1 | RevokeFailed _ \<Rightarrow> 1 | _ \<Rightarrow> 0)) (session_act i e p)"
  by (cases e) (auto simp: revoke_budget_def split: if_splits)

text \<open>
  C38. After any history: every revocation sent names the session of the page, there are no more of
  them than questions asked and failed attempts, and the next event sends one only with the
  rights and the confirmation it needs.
\<close>

theorem revocations_confirmed:
  "let p = fold (session_act i) es blank_session_page
   in set (sp_sent p) \<subseteq> {i} \<and> length (sp_sent p) \<le> revoke_grounds es \<and> revoke_step_ok i e p"
proof -
  have "set (sp_sent (fold (session_act i) es blank_session_page)) \<subseteq> {i} \<and> revoke_budget (revoke_grounds es) (fold (session_act i) es blank_session_page)"
  proof (induction es rule: rev_induct)
    case (snoc x xs)
    have "set (sp_sent (session_act i x q)) \<subseteq> insert i (set (sp_sent q))" for q
      using revoke_step [of i x q] by (auto simp: revoke_step_ok_def)
    then show ?case using snoc.IH revoke_budget_act by (fastforce simp del: session_act.simps)
  qed (simp add: blank_session_page_def revoke_budget_def)
  then show ?thesis by (simp add: Let_def revoke_step revoke_budget_def del: session_act.simps split: if_splits)
qed

section \<open>What is counted and shown\<close>

lemma outcome_counts:
  assumes "\<And>x. x \<in> set es \<Longrightarrow> e_outcome x \<in> {''ok'', ''denied'', ''failed''}"
  shows "count_outcome ''ok'' es + count_outcome ''denied'' es + count_outcome ''failed'' es = length es"
  using assms
proof (induction es)
  case (Cons x xs)
  have "e_outcome x \<in> {''ok'', ''denied'', ''failed''}" using Cons.prems by simp
  then show ?case using Cons by (elim insertE) (simp_all add: count_outcome_def)
qed (simp add: count_outcome_def)

lemma devices_touched_bound: "length (devices_touched es) \<le> length es"
  unfolding devices_touched_def
  by (rule order_trans [OF length_remdups_leq]) (simp add: order_trans [OF length_filter_le])

text \<open>The counts of a session add up to its entries, and it touched no more devices than it has entries.\<close>

theorem session_counts_add_up:
  assumes "\<And>x. x \<in> set es \<Longrightarrow> e_outcome x \<in> {''ok'', ''denied'', ''failed''}"
  shows "sn_ok (session_counts_of es) + sn_denied (session_counts_of es) + sn_failed (session_counts_of es) = length es \<and>
    sn_devices (session_counts_of es) \<le> length es \<and>
    sn_devices (session_counts_of es) = card {d. \<exists>x \<in> set es. e_device_id x = Some d \<and> d \<noteq> []}"
proof -
  have "set (devices_touched es) = {d. \<exists>x \<in> set es. e_device_id x = Some d \<and> d \<noteq> []}"
    by (force simp: devices_touched_def truthy_str_def split: option.splits)
  moreover have "distinct (devices_touched es)" by (simp add: devices_touched_def)
  ultimately have "length (devices_touched es) = card {d. \<exists>x \<in> set es. e_device_id x = Some d \<and> d \<noteq> []}"
    using distinct_card by metis
  then show ?thesis using outcome_counts [of es] assms devices_touched_bound [of es]
    by (simp add: session_counts_of_def)
qed

text \<open>What the device answered decides the difference; a field it answered with null hides that of the request.\<close>

lemma answer_overrides:
  "e_response_meta e = Some [(''from'', JStr a), (''to'', JStr b)] \<Longrightarrow> diffOf ns e = Some (a, b)"
  by (simp add: diffOf_def diff_keys_def merged_def)

text \<open>An entry of a site that is about no device names the site twice.\<close>

theorem site_named_twice:
  assumes "e_device_name e = None" "e_site_name e = Some s" "s \<noteq> []" "s \<noteq> em_dash"
  shows "step_where e = s @ '' '' @ mid_dot @ '' '' @ s"
  using assms by (simp add: step_where_def auditTarget_def truthy_str_def)

section \<open>Durations\<close>

text \<open>Hours and minutes of a duration are its whole minutes, the minutes below sixty.\<close>

lemma duration_parts:
  assumes "t0 + 3600000 \<le> t1"
  shows "\<exists>h m. session_duration t0 t1 = show_int h @ '' h '' @ show_int m @ '' min'' \<and>
    1 \<le> h \<and> 0 \<le> m \<and> m < 60 \<and> \<bar>of_int (h * 60 + m) * 60000 - (of_int (t1 - t0) :: rat)\<bar> \<le> 30000"
proof -
  define r where "r = (of_int (t1 - t0) / 60000 :: rat)"
  have "(of_int 3600000 :: rat) \<le> of_int (t1 - t0)" unfolding of_int_le_iff using assms by simp
  then have r: "60 \<le> r" by (simp add: r_def)
  define k where "k = Math_round r"
  have k: "of_int k \<le> r + 1 / 2" "r + 1 / 2 < of_int k + 1" unfolding k_def Math_round_def by linarith+
  then have "60 \<le> k" using r by linarith
  then have "session_duration t0 t1 = show_int (k div 60) @ '' h '' @ show_int (k mod 60) @ '' min''"
    by (simp add: session_duration_def k_def r_def Let_def max_def)
  moreover have "\<bar>of_int (k div 60 * 60 + k mod 60) * 60000 - (of_int (t1 - t0) :: rat)\<bar> \<le> 30000"
  proof -
    have "(of_int (t1 - t0) :: rat) = r * 60000" by (simp add: r_def)
    then show ?thesis using k by (simp add: abs_le_iff)
  qed
  ultimately show ?thesis using \<open>60 \<le> k\<close> by (intro exI [of _ "k div 60"] exI [of _ "k mod 60"]) auto
qed

end
