(* ===== verification/Audit_Page.thy ===== *)
theory Audit_Page
  imports Session_Page Pager
begin

text \<open>
  The audit log (\<open>audit/page.tsx\<close>, with \<open>components/audit-entry.tsx\<close> and the times of
  \<open>components/pager.tsx\<close>): its filters, the query it asks with, its pages and the headers of the
  sessions. Times are in milliseconds.
\<close>

section \<open>The local calendar\<close>

text \<open>
  What the page uses of \<open>Date\<close>: the midnight before a time, the same time on the next and on the
  last day, the year, the two formats of the locale, the second with or without a year, and
  \<open>toISOString\<close>.
\<close>

record calendar =
  cal_midnight :: "int \<Rightarrow> int"
  cal_next :: "int \<Rightarrow> int"
  cal_prev :: "int \<Rightarrow> int"
  cal_year :: "int \<Rightarrow> int"
  cal_hm :: "int \<Rightarrow> string"
  cal_date :: "bool \<Rightarrow> int \<Rightarrow> string"
  cal_iso :: "int \<Rightarrow> string"

definition shortWhen :: "calendar \<Rightarrow> int \<Rightarrow> int \<Rightarrow> string" where
  "shortWhen cal now d =
     (let diff = Math_round (of_int (cal_midnight cal now - cal_midnight cal d) / 86400000)
      in if diff = 0 then ''Today '' @ cal_hm cal d
         else if diff = 1 then ''Yesterday '' @ cal_hm cal d
         else cal_date cal (cal_year cal d \<noteq> cal_year cal now) d @ '' '' @ cal_hm cal d)"

definition dayBounds :: "calendar \<Rightarrow> int \<Rightarrow> string \<Rightarrow> (int \<times> int) option" where
  "dayBounds cal now day =
     (if day = [] then None
      else let start = (if day = ''yesterday'' then cal_prev cal (cal_midnight cal now) else cal_midnight cal now)
           in Some (start, cal_next cal start))"

section \<open>The page\<close>

record AuditPage =
  apg_items :: "AuditLogEntry list"
  apg_total :: int
  apg_limit :: int
  apg_offset :: int
  apg_active_session_ids :: "string list"

datatype audit_mode = Entries | Sessions

text \<open>
  \<open>au_key\<close> is the query of the last rendering, \<open>au_asked\<close> the queries that were sent and
  \<open>au_cache\<close> the answers to them. While a query has no answer the last data stay.
\<close>

record audit_page =
  au_mode :: audit_mode
  au_search :: string
  au_range :: string
  au_day :: string
  au_section :: string
  au_action :: string
  au_target :: string
  au_outcome :: string
  au_offset :: int
  au_limit :: int
  au_expanded :: "string option"
  au_key :: "AuditFilters option"
  au_asked :: "AuditFilters list"
  au_cache :: "(AuditFilters \<times> AuditPage) list"
  au_data :: "AuditPage option"

definition DEFAULT_LIMIT :: int where
  "DEFAULT_LIMIT = 50"

definition audit_limits :: "int list" where
  "audit_limits = [25, 50, 100, 200]"

definition audit_filters :: "calendar \<Rightarrow> int \<Rightarrow> audit_page \<Rightarrow> AuditFilters" where
  "audit_filters cal now p =
     (let bounds = dayBounds cal now (au_day p)
      in \<lparr>af_user_id = None, af_section = or_null (au_section p), af_action = or_null (au_action p), af_outcome = or_null (au_outcome p),
          af_device_id = None, af_site_id = None, af_session_id = None, af_target = or_null (au_target p), af_search = or_null (au_search p),
          af_ts_from = map_option (cal_iso cal) (case bounds of Some (a, b) \<Rightarrow> Some a | None \<Rightarrow> rangeStart now (au_range p)),
          af_ts_to = map_option (\<lambda>x. cal_iso cal (snd x)) bounds,
          af_limit = Some (of_int (au_limit p)), af_offset = Some (of_int (au_offset p))\<rparr>)"

text \<open>
  A rendering makes the query of its moment the key: one that was never asked for is sent, one
  with an answer shows it. (Answers are asked for again only when they are older than thirty
  seconds; that is not modelled.)
\<close>

definition render_audit :: "calendar \<Rightarrow> int \<Rightarrow> audit_page \<Rightarrow> audit_page" where
  "render_audit cal now p =
     (let k = audit_filters cal now p
      in p\<lparr>au_key := Some k, au_asked := (if k \<in> set (au_asked p) then au_asked p else au_asked p @ [k]),
           au_data := (case map_of (au_cache p) k of Some d \<Rightarrow> Some d | None \<Rightarrow> au_data p)\<rparr>)"

definition blank_audit :: audit_page where
  "blank_audit = \<lparr>au_mode = Sessions, au_search = [], au_range = ''all'', au_day = [], au_section = [],
     au_action = [], au_target = [], au_outcome = [], au_offset = 0, au_limit = DEFAULT_LIMIT, au_expanded = None,
     au_key = None, au_asked = [], au_cache = [], au_data = None\<rparr>"

definition mount_audit :: "calendar \<Rightarrow> int \<Rightarrow> audit_page" where
  "mount_audit cal now = render_audit cal now blank_audit"

datatype audit_filter = FSearch | FRange | FDay | FSection | FAction | FTarget | FOutcome

fun set_audit_filter :: "audit_filter \<Rightarrow> string \<Rightarrow> audit_page \<Rightarrow> audit_page" where
  "set_audit_filter FSearch v p = p\<lparr>au_search := v\<rparr>"
| "set_audit_filter FRange v p = p\<lparr>au_range := v\<rparr>"
| "set_audit_filter FDay v p = p\<lparr>au_day := v\<rparr>"
| "set_audit_filter FSection v p = p\<lparr>au_section := v\<rparr>"
| "set_audit_filter FAction v p = p\<lparr>au_action := v\<rparr>"
| "set_audit_filter FTarget v p = p\<lparr>au_target := v\<rparr>"
| "set_audit_filter FOutcome v p = p\<lparr>au_outcome := v\<rparr>"

definition reset_audit :: "audit_page \<Rightarrow> audit_page" where
  "reset_audit p = p\<lparr>au_search := [], au_range := ''all'', au_day := [], au_section := [], au_action := [], au_target := [],
     au_outcome := [], au_offset := 0\<rparr>"

datatype audit_event =
  SetMode audit_mode | Filter audit_filter string | ResetFilters | ShowPage int | SetLimit int | ToggleEntry string
| AuditAnswer AuditFilters AuditPage

text \<open>The pager is there when there are data, and offers the limits of its list.\<close>

fun audit_act :: "audit_event \<Rightarrow> audit_page \<Rightarrow> audit_page" where
  "audit_act (SetMode m) p = p\<lparr>au_mode := m\<rparr>"
| "audit_act (Filter f v) p = (set_audit_filter f v p)\<lparr>au_offset := 0\<rparr>"
| "audit_act ResetFilters p = reset_audit p"
| "audit_act (ShowPage n) p = (case au_data p of None \<Rightarrow> p | Some d \<Rightarrow> p\<lparr>au_offset := go (au_limit p) (apg_total d) n\<rparr>)"
| "audit_act (SetLimit n) p = (if au_data p \<noteq> None \<and> n \<in> set audit_limits then p\<lparr>au_limit := n, au_offset := 0\<rparr> else p)"
| "audit_act (ToggleEntry i) p = p\<lparr>au_expanded := (if au_expanded p = Some i then None else Some i)\<rparr>"
| "audit_act (AuditAnswer k d) p =
     (if k \<in> set (au_asked p) \<and> k \<notin> fst ` set (au_cache p) then p\<lparr>au_cache := (k, d) # au_cache p\<rparr> else p)"

text \<open>Every event renders the page, but for an answer to a query that is not that of the page.\<close>

definition audit_step :: "calendar \<Rightarrow> int \<times> audit_event \<Rightarrow> audit_page \<Rightarrow> audit_page" where
  "audit_step cal te p =
     (let q = audit_act (snd te) p
      in case snd te of AuditAnswer k d \<Rightarrow> if au_key p = Some k then render_audit cal (fst te) q else q
         | _ \<Rightarrow> render_audit cal (fst te) q)"

section \<open>Headers and rows\<close>

definition header_who :: "AuditLogEntry \<Rightarrow> string" where
  "header_who e = (if \<not> truthy_str (e_user_id e) then ''Scheduled jobs''
     else if truthy_str (e_user_name e) then the (e_user_name e)
     else if truthy_str (e_user_email e) then the (e_user_email e) else ''Unknown user'')"

definition header_initials :: "AuditLogEntry \<Rightarrow> string" where
  "header_initials e = (if \<not> truthy_str (e_user_id e) then ''SY'' else initials (e_user_name e) (e_user_email e))"

definition strip_day :: "string \<Rightarrow> string" where
  "strip_day s = (if startsWith s ''Today '' then drop 6 s else if startsWith s ''Yesterday '' then drop 10 s else s)"

definition en_dash :: string where
  "en_dash = [CHR 0xE2, CHR 0x80, CHR 0x93]"

text \<open>\<open>ms\<close> reads a timestamp; the rows of a group are newest first.\<close>

definition header_span :: "calendar \<Rightarrow> (string \<Rightarrow> int) \<Rightarrow> int \<Rightarrow> AuditGroup \<Rightarrow> string" where
  "header_span cal ms now g =
     (let fst' = last (ag_rows g); lst = hd (ag_rows g)
      in if e_id fst' = e_id lst then shortWhen cal now (ms (e_ts fst'))
         else shortWhen cal now (ms (e_ts fst')) @ '' '' @ en_dash @ '' '' @ strip_day (shortWhen cal now (ms (e_ts lst))) @
           '' ('' @ show_int (minutesBetween (ms (e_ts fst')) (ms (e_ts lst))) @ '' min)'')"

text \<open>The method of a sign-in is a string where it is given.\<close>

definition header_method :: "AuditGroup \<Rightarrow> string option" where
  "header_method g =
     (case List.find (\<lambda>r. e_section r = ''auth'' \<and> e_action r = ''login'') (ag_rows g) of
        None \<Rightarrow> None
      | Some r \<Rightarrow> (case map_of (case e_response_meta r of None \<Rightarrow> [] | Some m \<Rightarrow> m) ''method'' of Some (JStr s) \<Rightarrow> Some s | _ \<Rightarrow> None))"

definition header_denied :: "AuditGroup \<Rightarrow> nat" where
  "header_denied g = count_outcome ''denied'' (ag_rows g)"

definition header_line :: "calendar \<Rightarrow> (string \<Rightarrow> int) \<Rightarrow> int \<Rightarrow> AuditGroup \<Rightarrow> string" where
  "header_line cal ms now g =
     header_span cal ms now g @
     (if truthy_str (header_method g) then '' '' @ mid_dot @ '' '' @ the (header_method g) else []) @
     (if truthy_str (e_ip_address (last (ag_rows g))) then '' '' @ mid_dot @ '' '' @ the (e_ip_address (last (ag_rows g))) else []) @
     '' '' @ mid_dot @ '' '' @ (if length (ag_rows g) = 1 then ''1 entry'' else show_nat (length (ag_rows g)) @ '' entries'')"

definition header_active :: "AuditPage \<Rightarrow> AuditGroup \<Rightarrow> bool" where
  "header_active d g \<longleftrightarrow> truthy_str (ag_sessionId g) \<and> the (ag_sessionId g) \<in> set (apg_active_session_ids d)"

definition header_link :: "AuditGroup \<Rightarrow> string option" where
  "header_link g = (if truthy_str (ag_sessionId g) then Some (''/dashboard/audit/sessions/'' @ the (ag_sessionId g)) else None)"

definition row_user :: "AuditLogEntry \<Rightarrow> string" where
  "row_user e = (if truthy_str (e_user_id e) then (if truthy_str (e_user_name e) then the (e_user_name e) else or_blank (e_user_email e)) else ''Scheduled jobs'')"

definition outcome_label :: "string \<Rightarrow> string" where
  "outcome_label oc = (if oc = ''ok'' then ''success'' else if oc = ''denied'' then ''denied'' else ''error'')"

text \<open>The entries shown, in either mode: those of the groups are the rows under the headers.\<close>

definition shown_entries :: "audit_page \<Rightarrow> AuditLogEntry list" where
  "shown_entries p =
     (let items = (case au_data p of None \<Rightarrow> [] | Some d \<Rightarrow> apg_items d)
      in case au_mode p of Entries \<Rightarrow> items | Sessions \<Rightarrow> concat (map ag_rows (groupBySession items)))"

text \<open>The named details of an entry; \<open>text\<close> is the full time, \<open>str\<close> is \<open>JSON.stringify\<close>.\<close>

definition named_id :: "string option \<Rightarrow> string \<Rightarrow> string" where
  "named_id n i = (if truthy_str n then the n @ '' '' @ mid_dot @ '' '' else []) @ i"

definition entry_details :: "(string \<Rightarrow> string) \<Rightarrow> ((string \<times> json) list \<Rightarrow> string) \<Rightarrow> AuditLogEntry \<Rightarrow> (string \<times> string) list" where
  "entry_details fullWhen str e =
     [(''When'', fullWhen (e_ts e)), (''Source IP'', dash (e_ip_address e)), (''User'', dash (e_user_email e)), (''User agent'', dash (e_user_agent e))] @
     (if truthy_str (e_device_id e) then [(''Device'', named_id (e_device_name e) (the (e_device_id e)))] else []) @
     (if truthy_str (e_site_id e) then [(''Site'', named_id (e_site_name e) (the (e_site_id e)))] else []) @
     (case e_request_payload e of None \<Rightarrow> [] | Some m \<Rightarrow> [(''Request'', str m)]) @
     (case e_response_meta e of None \<Rightarrow> [] | Some m \<Rightarrow> [(''Response'', str m)]) @
     (if truthy_str (e_error_message e) then [(''Error'', the (e_error_message e))] else [])"

section \<open>Pages\<close>

definition page_ok :: "int \<Rightarrow> int \<Rightarrow> bool" where
  "page_ok limit offset \<longleftrightarrow> limit \<in> set audit_limits \<and> 0 \<le> offset \<and> limit dvd offset"

definition query_ok :: "AuditFilters \<Rightarrow> bool" where
  "query_ok k \<longleftrightarrow> (\<exists>l off. af_limit k = Some (of_int l) \<and> af_offset k = Some (of_int off) \<and> page_ok l off)"

definition audit_ok :: "audit_page \<Rightarrow> bool" where
  "audit_ok p \<longleftrightarrow> page_ok (au_limit p) (au_offset p) \<and> list_all query_ok (au_asked p) \<and> distinct (au_asked p)"

lemma render_fields [simp]:
  "au_offset (render_audit cal t p) = au_offset p" "au_limit (render_audit cal t p) = au_limit p"
  "au_day (render_audit cal t p) = au_day p" "au_range (render_audit cal t p) = au_range p"
  "au_section (render_audit cal t p) = au_section p" "au_action (render_audit cal t p) = au_action p"
  "au_target (render_audit cal t p) = au_target p" "au_outcome (render_audit cal t p) = au_outcome p"
  "au_search (render_audit cal t p) = au_search p" "au_cache (render_audit cal t p) = au_cache p" "au_key (render_audit cal t p) = Some (audit_filters cal t p)"
  by (simp_all add: render_audit_def Let_def)

lemma filters_render [simp]:
  "audit_filters cal u (render_audit cal t p) = audit_filters cal u p" "audit_filters cal u (p\<lparr>au_cache := c\<rparr>) = audit_filters cal u p"
  by (simp_all add: audit_filters_def Let_def cong: option.case_cong)

lemma go_page_ok: "limit \<in> set audit_limits \<Longrightarrow> page_ok limit (go limit totl n)"
  by (auto simp: page_ok_def go_def audit_limits_def pages_of_def)

lemma filter_page [simp]:
  "au_limit (set_audit_filter f v p) = au_limit p" "au_asked (set_audit_filter f v p) = au_asked p"
  by (cases f; simp)+

lemma audit_ok_act: "audit_ok p \<Longrightarrow> audit_ok (audit_act e p)"
proof (cases e)
  case (ShowPage n)
  then show "audit_ok p \<Longrightarrow> ?thesis"
    using go_page_ok by (auto simp: audit_ok_def page_ok_def split: option.splits)
qed (auto simp: audit_ok_def page_ok_def reset_audit_def audit_limits_def)

lemma audit_ok_render: "audit_ok p \<Longrightarrow> audit_ok (render_audit cal t p)"
  by (auto simp: audit_ok_def render_audit_def Let_def query_ok_def audit_filters_def)

lemma audit_ok_step: "audit_ok p \<Longrightarrow> audit_ok (audit_step cal te p)"
  by (cases "snd te") (simp_all add: audit_step_def Let_def audit_ok_act audit_ok_render del: audit_act.simps)

lemma audit_ok_mount: "audit_ok (mount_audit cal t0)"
  unfolding mount_audit_def by (rule audit_ok_render) (simp add: audit_ok_def page_ok_def audit_limits_def DEFAULT_LIMIT_def blank_audit_def)

interpretation audit_log: event_machine "audit_step cal" "mount_audit cal t0" audit_ok for cal t0
  by unfold_locales (rule audit_ok_mount, rule audit_ok_step)

text \<open>
  Whatever is clicked, typed and answered: every query asks for a page of one of the offered
  sizes, from its first entry on, and no query is sent twice.
\<close>

theorem audit_queries_paged:
  "audit_ok (fold (audit_step cal) tes (mount_audit cal t0))"
  by (rule audit_log.inv_history)

section \<open>Ranges that move\<close>

text \<open>The page as it is answered, at the given times, whenever its query is open.\<close>

fun answered :: "calendar \<Rightarrow> AuditPage \<Rightarrow> int list \<Rightarrow> audit_page \<Rightarrow> audit_page" where
  "answered cal d [] p = p"
| "answered cal d (t # ts) p = answered cal d ts (audit_step cal (t, AuditAnswer (the (au_key p)) d) p)"

definition moving :: "calendar \<Rightarrow> int \<Rightarrow> int \<Rightarrow> audit_page \<Rightarrow> bool" where
  "moving cal h t p \<longleftrightarrow> au_day p = [] \<and> (\<forall>u. rangeStart u (au_range p) = Some (u - h)) \<and>
     (\<exists>k. au_key p = Some k \<and> k \<in> set (au_asked p) \<and> k \<notin> fst ` set (au_cache p)) \<and>
     (\<forall>k \<in> set (au_asked p). af_ts_from k = None \<or> (\<exists>u \<le> t. af_ts_from k = Some (cal_iso cal (u - h)))) \<and>
     fst ` set (au_cache p) \<subseteq> set (au_asked p)"

lemma moving_key: "moving cal h t p \<Longrightarrow> af_ts_from (audit_filters cal u (p\<lparr>au_cache := c\<rparr>)) = Some (cal_iso cal (u - h))"
  by (simp add: moving_def audit_filters_def dayBounds_def Let_def)

lemma asked_render: "au_asked (render_audit cal t p) =
    (if audit_filters cal t p \<in> set (au_asked p) then au_asked p else au_asked p @ [audit_filters cal t p])"
  by (simp add: render_audit_def Let_def)

lemma moving_step:
  assumes m: "moving cal h t p" and tu: "t < u" and inj: "inj (cal_iso cal)"
  shows "moving cal h u (audit_step cal (u, AuditAnswer (the (au_key p)) d) p) \<and>
    length (au_asked (audit_step cal (u, AuditAnswer (the (au_key p)) d) p)) = Suc (length (au_asked p))"
proof -
  obtain k where k: "au_key p = Some k" "k \<in> set (au_asked p)" "k \<notin> fst ` set (au_cache p)"
    using m by (auto simp: moving_def)
  define q where "q = p\<lparr>au_cache := (k, d) # au_cache p\<rparr>"
  define k' where "k' = audit_filters cal u q"
  have frm: "af_ts_from k' = Some (cal_iso cal (u - h))" unfolding k'_def q_def by (rule moving_key [OF m])
  have old: "\<exists>w \<le> t. af_ts_from x = Some (cal_iso cal (w - h))" if "x \<in> set (au_asked p)" "af_ts_from x \<noteq> None" for x
    using m that by (auto simp: moving_def)
  have new: "k' \<notin> set (au_asked p)"
  proof
    assume "k' \<in> set (au_asked p)"
    with old [of k'] frm obtain w where "w \<le> t" "cal_iso cal (u - h) = cal_iso cal (w - h)" by auto
    then show False using inj tu by (simp add: inj_eq)
  qed
  have s: "audit_step cal (u, AuditAnswer (the (au_key p)) d) p = render_audit cal u q"
    using k by (simp add: audit_step_def q_def Let_def)
  have asked: "au_asked (render_audit cal u q) = au_asked p @ [k']"
    using new by (simp add: asked_render k'_def q_def)
  have c: "fst ` set (au_cache q) \<subseteq> set (au_asked p)" using k m by (auto simp: q_def moving_def)
  have "af_ts_from x = None \<or> (\<exists>w \<le> u. af_ts_from x = Some (cal_iso cal (w - h)))" if "x \<in> set (au_asked p @ [k'])" for x
  proof (cases "x = k'")
    case False
    then show ?thesis using that old [of x] tu by (cases "af_ts_from x = None") (auto intro: order_trans less_imp_le)
  qed (use frm in auto)
  moreover have "au_day q = []" "\<forall>v. rangeStart v (au_range q) = Some (v - h)" using m by (simp_all add: q_def moving_def)
  ultimately have "moving cal h u (render_audit cal u q)"
    unfolding moving_def asked using c new by (auto simp flip: k'_def)
  then show ?thesis by (simp add: s asked)
qed

lemma moving_answered:
  "\<lbrakk>moving cal h t p; sorted_wrt (<) (t # ts); inj (cal_iso cal)\<rbrakk> \<Longrightarrow>
   length (au_asked (answered cal d ts p)) = length (au_asked p) + length ts"
proof (induction ts arbitrary: t p)
  case (Cons u us)
  have "t < u" using Cons.prems(2) by simp
  from moving_step [OF Cons.prems(1) this Cons.prems(3), of d]
  show ?case using Cons.IH [of u] Cons.prems(2,3) by simp
qed simp

definition audit_settled :: "calendar \<Rightarrow> audit_page \<Rightarrow> bool" where
  "audit_settled cal p \<longleftrightarrow> au_day p = [] \<and> au_range p = ''all'' \<and> (\<forall>u. au_key p = Some (audit_filters cal u p)) \<and> the (au_key p) \<in> set (au_asked p)"

lemma settled_step:
  assumes "audit_settled cal p"
  shows "audit_settled cal (audit_step cal (t, AuditAnswer (the (au_key p)) d) p) \<and>
    au_asked (audit_step cal (t, AuditAnswer (the (au_key p)) d) p) = au_asked p"
proof -
  have k: "audit_filters cal u p = the (au_key p)" for u using assms unfolding audit_settled_def by (metis option.sel)
  then show ?thesis using assms by (auto simp: audit_settled_def audit_step_def asked_render)
qed

lemma settled_answered: "audit_settled cal p \<Longrightarrow> au_asked (answered cal d ts p) = au_asked p"
  by (induction ts arbitrary: p) (simp_all add: settled_step)

lemma all_time_filters: "au_day p = [] \<Longrightarrow> au_range p = ''all'' \<Longrightarrow> audit_filters cal u p = audit_filters cal v p"
  by (simp add: audit_filters_def dayBounds_def rangeStart_def Let_def)

lemma settled_mount: "audit_settled cal (mount_audit cal t0) \<and> au_asked (mount_audit cal t0) = [audit_filters cal t0 blank_audit]"
proof -
  have "audit_filters cal t0 blank_audit = audit_filters cal u blank_audit" for u
    by (rule all_time_filters) (simp_all add: blank_audit_def)
  moreover have "au_asked blank_audit = []" "au_day blank_audit = []" "au_range blank_audit = ''all''" by (simp_all add: blank_audit_def)
  ultimately show ?thesis by (simp add: audit_settled_def mount_audit_def asked_render)
qed

lemma moving_start:
  fixes cal t0 t1
  defines "p \<equiv> audit_step cal (t1, Filter FRange ''1h'') (mount_audit cal t0)"
  shows "moving cal 3600000 t1 p \<and> length (au_asked p) = 2"
proof -
  define q where "q = audit_act (Filter FRange ''1h'') (mount_audit cal t0)"
  have p: "p = render_audit cal t1 q" by (simp add: p_def q_def audit_step_def)
  have q: "au_day q = []" "au_range q = ''1h''" "au_asked q = [audit_filters cal t0 blank_audit]" "au_cache q = []"
    using settled_mount [of cal t0] by (simp_all add: q_def mount_audit_def blank_audit_def audit_settled_def)
  have f: "af_ts_from (audit_filters cal u q) = Some (cal_iso cal (u - 3600000))" for u
    using q by (simp add: audit_filters_def dayBounds_def rangeStart_def Let_def)
  have n: "af_ts_from (audit_filters cal t0 blank_audit) = None"
    by (simp add: audit_filters_def dayBounds_def rangeStart_def Let_def blank_audit_def)
  have "audit_filters cal t1 q \<noteq> audit_filters cal t0 blank_audit" using f [of t1] n by auto
  then show ?thesis using q f n by (auto simp: p moving_def asked_render rangeStart_def)
qed


section \<open>Witnesses\<close>

definition demo_cal :: calendar where
  "demo_cal = \<lparr>cal_midnight = id, cal_next = id, cal_prev = id, cal_year = id, cal_hm = (\<lambda>_. []), cal_date = (\<lambda>_ _. []),
     cal_iso = (\<lambda>n. replicate (nat n) CHR ''+'' @ replicate (nat (- n)) CHR ''-'')\<rparr>"

lemma demo_iso_inj: "inj (cal_iso demo_cal)"
proof (rule injI)
  fix m n
  assume e: "cal_iso demo_cal m = cal_iso demo_cal n"
  have v: "int (length (filter ((=) CHR ''+'') (cal_iso demo_cal k))) - int (length (filter ((=) CHR ''-'') (cal_iso demo_cal k))) = k" for k
    by (simp add: demo_cal_def)
  show "m = n" using v [of m] v [of n] unfolding e by linarith
qed


end
