(* ===== verification/Logging_Page.thy ===== *)
theory Logging_Page
  imports System_Page Session_Page
begin

text \<open>
  The logging tab of a device (\<open>LoggingSection\<close> of \<open>devices/[id]/system/page.tsx\<close>) as one machine:
  the templates, the rules and actions of the device, and the two forms. The clock above the tabs
  is here too.
\<close>

section \<open>The clock\<close>

text \<open>What the card says of a clock that was read: time, date, zone and summer time.\<close>

definition zone_text :: "DeviceClock \<Rightarrow> string" where
  "zone_text c = dash (dc_time_zone_name c) @
     (if truthy_str (dc_gmt_offset c) then ''('' @ the (dc_gmt_offset c) @ '')'' else []) @
     (if dc_time_zone_autodetect c = Some True then ''auto'' else [])"

definition dst_text :: "DeviceClock \<Rightarrow> string" where
  "dst_text c = (case dc_dst_active c of None \<Rightarrow> em_dash | Some b \<Rightarrow> if b then ''active'' else ''off'')"

definition clock_card :: "DeviceClock option \<Rightarrow> (string \<times> string) list" where
  "clock_card d =
     (case d of None \<Rightarrow> [(''Time'', em_dash), (''Date'', em_dash), (''Timezone'', em_dash), (''DST'', em_dash)]
      | Some c \<Rightarrow> [(''Time'', dash (dc_time c)), (''Date'', dash (dc_date c)), (''Timezone'', zone_text c), (''DST'', dst_text c)])"

section \<open>Rows\<close>

definition logging_rule_buttons :: "LoggingRule \<Rightarrow> string list" where
  "logging_rule_buttons r = (if \<not> lr_default r \<and> truthy_str (lr_id r) then [if lr_disabled r then ''Enable'' else ''Disable'', ''Delete''] else [])"

definition logging_rule_badges :: "LoggingRule \<Rightarrow> string list" where
  "logging_rule_badges r = (if lr_default r then [''default''] else []) @ (if lr_invalid r then [''invalid''] else []) @
     [if lr_disabled r then ''disabled'' else ''active'']"

definition logging_rule_key :: "LoggingRule \<Rightarrow> string" where
  "logging_rule_key r = (case lr_id r of Some i \<Rightarrow> i | None \<Rightarrow> lr_topics r @ ''-'' @ lr_action r)"

text \<open>A remote that is null is shown as nothing.\<close>

definition action_details :: "(rat \<Rightarrow> string) \<Rightarrow> LoggingAction \<Rightarrow> string" where
  "action_details ns a =
     (if la_target a = ''remote'' then or_blank (la_remote a) @ '':'' @ ns (case la_remote_port a of None \<Rightarrow> 514 | Some p \<Rightarrow> p) @
        (if truthy_str (la_syslog_severity a)
         then '' '' @ mid_dot @ '' severity '' @ [CHR 0xE2, CHR 0x89, CHR 0xA5] @ '' '' @ the (la_syslog_severity a) else [])
      else if la_target a = ''memory'' then (case la_memory_lines a of None \<Rightarrow> [] | Some n \<Rightarrow> ns n @ '' lines'')
      else if la_target a = ''disk'' then (case la_disk_lines_per_file a of None \<Rightarrow> []
        | Some n \<Rightarrow> ns n @ '' lines '' @ [CHR 0xC3, CHR 0x97] @ '' '' @ ns (case la_disk_file_count a of None \<Rightarrow> 0 | Some k \<Rightarrow> k) @ '' files'')
      else [])"

section \<open>Forms\<close>

record rule_draft =
  rd_topics :: string
  rd_action :: string
  rd_prefix :: string
  rd_disabled :: bool

definition new_rule_draft :: rule_draft where
  "new_rule_draft = \<lparr>rd_topics = [], rd_action = ''memory'', rd_prefix = [], rd_disabled = False\<rparr>"

record action_draft =
  ad_name :: string
  ad_target :: string
  ad_remote :: string
  ad_remotePort :: rat
  ad_severity :: string
  ad_bsdSyslog :: bool

definition new_action_draft :: action_draft where
  "new_action_draft = \<lparr>ad_name = [], ad_target = ''remote'', ad_remote = [], ad_remotePort = 514, ad_severity = ''warning'', ad_bsdSyslog = True\<rparr>"

definition action_options :: "LoggingAction list \<Rightarrow> string list" where
  "action_options as = (if as = [] then [''memory''] else map la_name as)"

definition SYSLOG_TARGETS :: "string list" where
  "SYSLOG_TARGETS = [''remote'', ''memory'', ''disk'', ''echo'']"

definition SYSLOG_SEVERITIES :: "string list" where
  "SYSLOG_SEVERITIES = [''debug'', ''info'', ''notice'', ''warning'', ''error'', ''critical'']"

datatype logging_edit =
  RuleTopics string | RuleAction string | RulePrefix string | RuleDisabled bool
| ActionName string | ActionTarget string | ActionRemote string | ActionPort rat | ActionSeverity string | ActionBsd bool

text \<open>The fields of a remote action are on the form while its target is remote; a choice is one of the options.\<close>

fun edit_rule_draft :: "LoggingAction list \<Rightarrow> logging_edit \<Rightarrow> rule_draft \<Rightarrow> rule_draft" where
  "edit_rule_draft as (RuleTopics v) d = d\<lparr>rd_topics := v\<rparr>"
| "edit_rule_draft as (RuleAction v) d = (if v \<in> set (action_options as) then d\<lparr>rd_action := v\<rparr> else d)"
| "edit_rule_draft as (RulePrefix v) d = d\<lparr>rd_prefix := v\<rparr>"
| "edit_rule_draft as (RuleDisabled b) d = d\<lparr>rd_disabled := b\<rparr>"
| "edit_rule_draft as _ d = d"

fun edit_action_draft :: "logging_edit \<Rightarrow> action_draft \<Rightarrow> action_draft" where
  "edit_action_draft (ActionName v) d = d\<lparr>ad_name := v\<rparr>"
| "edit_action_draft (ActionTarget v) d = (if v \<in> set SYSLOG_TARGETS then d\<lparr>ad_target := v\<rparr> else d)"
| "edit_action_draft (ActionRemote v) d = (if ad_target d = ''remote'' then d\<lparr>ad_remote := v\<rparr> else d)"
| "edit_action_draft (ActionPort n) d = (if ad_target d = ''remote'' then d\<lparr>ad_remotePort := n\<rparr> else d)"
| "edit_action_draft (ActionSeverity v) d = (if ad_target d = ''remote'' \<and> v \<in> set SYSLOG_SEVERITIES then d\<lparr>ad_severity := v\<rparr> else d)"
| "edit_action_draft (ActionBsd b) d = (if ad_target d = ''remote'' then d\<lparr>ad_bsdSyslog := b\<rparr> else d)"
| "edit_action_draft _ d = d"

text \<open>What the browser lets through: the port is a whole number of its range while its field is there.\<close>

definition port_lets :: "action_draft \<Rightarrow> bool" where
  "port_lets d \<longleftrightarrow> ad_target d = ''remote'' \<longrightarrow> 1 \<le> ad_remotePort d \<and> ad_remotePort d \<le> 65535 \<and> ad_remotePort d = of_int \<lfloor>ad_remotePort d\<rfloor>"

section \<open>The tab\<close>

datatype logging_request =
  NewRule LoggingRuleCreate | NewAction LoggingActionCreate | SwitchRule string bool | DropRule string | DropAction string

record logging_tab =
  lg_rules :: "LoggingRule list"
  lg_actions :: "LoggingAction list"
  lg_rule_form :: "(rule_draft \<times> bool) option"
  lg_action_form :: "(action_draft \<times> bool) option"
  lg_late_rules :: nat
  lg_late_actions :: nat
  lg_template_busy :: bool
  lg_sent :: "logging_request list"

definition blank_logging :: logging_tab where
  "blank_logging = \<lparr>lg_rules = [], lg_actions = [], lg_rule_form = None, lg_action_form = None, lg_late_rules = 0, lg_late_actions = 0, lg_template_busy = False, lg_sent = []\<rparr>"

datatype logging_event =
  RulesRead "LoggingRule list" | ActionsRead "LoggingAction list" | ApplyTemplate LoggingTemplate | TemplateDone
| ToggleRule LoggingRule | DeleteRule bool LoggingRule | DeleteAction bool LoggingAction
| ToggleRuleForm | ToggleActionForm | EditLogging logging_edit | SubmitRule | RuleAnswered bool | SubmitAction | ActionAnswered bool
| LateRule bool | LateAction bool

definition send_logging :: "logging_request \<Rightarrow> logging_tab \<Rightarrow> logging_tab" where
  "send_logging q t = t\<lparr>lg_sent := lg_sent t @ [q]\<rparr>"

text \<open>
  The flag of a form tells that its request is under way. A form may be closed while it is: then
  the request is one of the late ones, and its success closes the form that is open by then.
\<close>

definition close_rule_form :: "logging_tab \<Rightarrow> logging_tab" where
  "close_rule_form t = t\<lparr>lg_rule_form := None,
     lg_late_rules := (case lg_rule_form t of Some (_, True) \<Rightarrow> lg_late_rules t + 1 | _ \<Rightarrow> lg_late_rules t)\<rparr>"

definition close_action_form :: "logging_tab \<Rightarrow> logging_tab" where
  "close_action_form t = t\<lparr>lg_action_form := None,
     lg_late_actions := (case lg_action_form t of Some (_, True) \<Rightarrow> lg_late_actions t + 1 | _ \<Rightarrow> lg_late_actions t)\<rparr>"

fun logging_act :: "logging_event \<Rightarrow> logging_tab \<Rightarrow> logging_tab" where
  "logging_act (RulesRead rs) t = t\<lparr>lg_rules := rs\<rparr>"
| "logging_act (ActionsRead as) t = t\<lparr>lg_actions := as\<rparr>"
| "logging_act (ApplyTemplate tpl) t =
     (if tpl \<in> set LOGGING_TEMPLATES \<and> \<not> lg_template_busy t then send_logging (NewRule (template_rule tpl)) (t\<lparr>lg_template_busy := True\<rparr>) else t)"
| "logging_act TemplateDone t = t\<lparr>lg_template_busy := False\<rparr>"
| "logging_act (ToggleRule r) t =
     (if r \<in> set (lg_rules t) \<and> \<not> lr_default r \<and> truthy_str (lr_id r) then send_logging (SwitchRule (the (lr_id r)) (\<not> lr_disabled r)) t else t)"
| "logging_act (DeleteRule yes r) t =
     (if r \<in> set (lg_rules t) \<and> \<not> lr_default r \<and> truthy_str (lr_id r) \<and> yes then send_logging (DropRule (the (lr_id r))) t else t)"
| "logging_act (DeleteAction yes a) t =
     (if a \<in> set (lg_actions t) \<and> \<not> la_default a \<and> truthy_str (la_id a) \<and> yes then send_logging (DropAction (the (la_id a))) t else t)"
| "logging_act ToggleRuleForm t =
     (case lg_rule_form t of None \<Rightarrow> t\<lparr>lg_rule_form := Some (new_rule_draft, False)\<rparr> | Some _ \<Rightarrow> close_rule_form t)"
| "logging_act ToggleActionForm t =
     (case lg_action_form t of None \<Rightarrow> t\<lparr>lg_action_form := Some (new_action_draft, False)\<rparr> | Some _ \<Rightarrow> close_action_form t)"
| "logging_act (EditLogging e) t = t\<lparr>lg_rule_form := map_option (map_prod (edit_rule_draft (lg_actions t) e) id) (lg_rule_form t),
     lg_action_form := map_option (map_prod (edit_action_draft e) id) (lg_action_form t)\<rparr>"
| "logging_act SubmitRule t =
     (case lg_rule_form t of
        Some (d, False) \<Rightarrow>
          (case AddRuleForm (rd_topics d) (rd_action d) (rd_prefix d) (rd_disabled d) of
             Inl m \<Rightarrow> t | Inr q \<Rightarrow> send_logging (NewRule q) (t\<lparr>lg_rule_form := Some (d, True)\<rparr>))
      | _ \<Rightarrow> t)"
| "logging_act (RuleAnswered ok) t =
     (case lg_rule_form t of Some (d, True) \<Rightarrow> t\<lparr>lg_rule_form := (if ok then None else Some (d, False))\<rparr> | _ \<Rightarrow> t)"
| "logging_act SubmitAction t =
     (case lg_action_form t of
        Some (d, False) \<Rightarrow>
          if port_lets d
          then (case AddActionForm (ad_name d) (ad_target d) (ad_remote d) (ad_remotePort d) (ad_severity d) (ad_bsdSyslog d) of
             Inl m \<Rightarrow> t | Inr q \<Rightarrow> send_logging (NewAction q) (t\<lparr>lg_action_form := Some (d, True)\<rparr>))
          else t
      | _ \<Rightarrow> t)"
| "logging_act (ActionAnswered ok) t =
     (case lg_action_form t of Some (d, True) \<Rightarrow> t\<lparr>lg_action_form := (if ok then None else Some (d, False))\<rparr> | _ \<Rightarrow> t)"
| "logging_act (LateRule ok) t =
     (if lg_late_rules t = 0 then t
      else let u = t\<lparr>lg_late_rules := lg_late_rules t - 1\<rparr> in if ok then close_rule_form u else u)"
| "logging_act (LateAction ok) t =
     (if lg_late_actions t = 0 then t
      else let u = t\<lparr>lg_late_actions := lg_late_actions t - 1\<rparr> in if ok then close_action_form u else u)"

section \<open>What is asked for\<close>

text \<open>
  A rule that is created has topics, or is one of the templates; an action has a name and a known
  target; a remote one has a server and a whole port of the range, and any other none.
\<close>

definition new_rule_ok :: "LoggingRuleCreate \<Rightarrow> bool" where
  "new_rule_ok q \<longleftrightarrow> trim (lrc_topics q) \<noteq> [] \<or> q \<in> set (map template_rule LOGGING_TEMPLATES)"

definition new_action_ok :: "LoggingActionCreate \<Rightarrow> bool" where
  "new_action_ok q \<longleftrightarrow> trim (lac_name q) \<noteq> [] \<and> lac_target q \<in> set SYSLOG_TARGETS \<and>
     (if lac_target q = ''remote''
      then (\<exists>r n. lac_remote q = Val r \<and> trim r \<noteq> [] \<and> lac_remote_port q = Val n \<and> 1 \<le> n \<and> n \<le> 65535 \<and> n = of_int \<lfloor>n\<rfloor>)
      else lac_remote q = Null \<and> lac_remote_port q = Null)"

fun logging_request_ok :: "logging_request \<Rightarrow> bool" where
  "logging_request_ok (NewRule q) \<longleftrightarrow> new_rule_ok q"
| "logging_request_ok (NewAction q) \<longleftrightarrow> new_action_ok q"
| "logging_request_ok (SwitchRule i b) \<longleftrightarrow> i \<noteq> []"
| "logging_request_ok (DropRule i) \<longleftrightarrow> i \<noteq> []"
| "logging_request_ok (DropAction i) \<longleftrightarrow> i \<noteq> []"

definition logging_ok :: "logging_tab \<Rightarrow> bool" where
  "logging_ok t \<longleftrightarrow> list_all logging_request_ok (lg_sent t) \<and> (\<forall>d b. lg_action_form t = Some (d, b) \<longrightarrow> ad_target d \<in> set SYSLOG_TARGETS)"

text \<open>What a change or a deletion names: a row on the screen that is not a default one.\<close>

definition logging_grounded :: "logging_event \<Rightarrow> logging_tab \<Rightarrow> bool" where
  "logging_grounded e t \<longleftrightarrow> (\<forall>q. lg_sent (logging_act e t) = lg_sent t @ [q] \<longrightarrow>
     (case q of
        SwitchRule i b \<Rightarrow> (\<exists>r \<in> set (lg_rules t). lr_id r = Some i \<and> \<not> lr_default r \<and> b = (\<not> lr_disabled r))
      | DropRule i \<Rightarrow> (\<exists>r \<in> set (lg_rules t). lr_id r = Some i \<and> \<not> lr_default r \<and> e = DeleteRule True r)
      | DropAction i \<Rightarrow> (\<exists>a \<in> set (lg_actions t). la_id a = Some i \<and> \<not> la_default a \<and> e = DeleteAction True a)
      | _ \<Rightarrow> True))"

lemma edit_action_target: "ad_target d \<in> set SYSLOG_TARGETS \<Longrightarrow> ad_target (edit_action_draft e d) \<in> set SYSLOG_TARGETS"
  by (cases e) auto

lemma AddActionForm_ok:
  assumes "AddActionForm (ad_name d) (ad_target d) (ad_remote d) (ad_remotePort d) (ad_severity d) (ad_bsdSyslog d) = Inr q"
    and "port_lets d" "ad_target d \<in> set SYSLOG_TARGETS"
  shows "new_action_ok q"
  using assms by (auto simp: AddActionForm_def new_action_ok_def port_lets_def split: if_splits)

lemma AddRuleForm_ok: "AddRuleForm tp a p b = Inr q \<Longrightarrow> new_rule_ok q"
  by (auto simp: AddRuleForm_def new_rule_ok_def split: if_splits)

lemma template_rule_ok: "tpl \<in> set LOGGING_TEMPLATES \<Longrightarrow> new_rule_ok (template_rule tpl)"
  by (simp add: new_rule_ok_def)

lemma truthy_id: "truthy_str v \<Longrightarrow> the v \<noteq> []"
  by (cases v) simp_all

lemma new_target: "ad_target new_action_draft \<in> set SYSLOG_TARGETS"
  by (simp add: new_action_draft_def SYSLOG_TARGETS_def)

lemma logging_ok_act: "logging_ok t \<Longrightarrow> logging_ok (logging_act e t)"
  by (cases e) (auto simp: logging_ok_def send_logging_def close_rule_form_def close_action_form_def Let_def truthy_id template_rule_ok AddRuleForm_ok AddActionForm_ok
      edit_action_target new_target split: option.splits bool.splits sum.splits)

interpretation logging: event_machine logging_act blank_logging logging_ok
  by unfold_locales (simp add: logging_ok_def blank_logging_def, rule logging_ok_act)

lemma truthy_Some: "truthy_str v \<Longrightarrow> v = Some (the v)"
  by (cases v) simp_all

lemma logging_step: "logging_grounded e t"
  by (cases e) (auto simp: logging_grounded_def send_logging_def close_rule_form_def close_action_form_def Let_def intro: truthy_Some split: option.splits bool.splits sum.splits if_splits)

text \<open>
  C12. Whatever is typed, pressed and answered on the tab: every rule and action asked for is well
  formed, and what is switched or deleted is a row on the screen, none of the defaults, deleted
  only after a confirmation.
\<close>

theorem logging_requests_sound:
  "let t = fold logging_act es blank_logging in list_all logging_request_ok (lg_sent t) \<and> logging_grounded e t"
  using logging.inv_history by (simp add: Let_def logging_step logging_ok_def)

text \<open>
  The form starts with the action \<open>memory\<close>, whatever actions the device has: while none of them is
  called so the list shows its first one, and what is sent is \<open>memory\<close>.
\<close>

theorem unlisted_action_sent:
  assumes "trim tp \<noteq> []" "lg_rule_form t = None" "''memory'' \<notin> set (action_options (lg_actions t))"
  shows "\<exists>q. lg_sent (fold logging_act [ToggleRuleForm, EditLogging (RuleTopics tp), SubmitRule] t) = lg_sent t @ [NewRule q] \<and>
    lrc_action q \<notin> set (action_options (lg_actions t))"
  using assms by (simp add: new_rule_draft_def AddRuleForm_def send_logging_def)

end
