(* ===== verification/Overview_Pages.thy ===== *)
theory Overview_Pages
  imports Fleet Tables Role_Form Login_Page Bulk_Page Ufw_Screen Session_Page
begin

text \<open>
  Pages that mostly show what others compute: the frame of the dashboard with its navigation
  (\<open>dashboard/layout.tsx\<close>), the overview (\<open>dashboard/page.tsx\<close>), the list of roles and their matrix
  (\<open>roles/page.tsx\<close>), the users (\<open>users/page.tsx\<close>), the servers (\<open>servers/page.tsx\<close>), the results of
  a bulk operation (\<open>bulk/page.tsx\<close>), and the pending change of a host's firewall
  (\<open>components/ufw-firewall.tsx\<close>).
\<close>

section \<open>Navigation\<close>

definition NAV_GROUPS :: "(string \<times> (string \<times> string) list) list" where
  "NAV_GROUPS = [
     (''Operations'', [(''/dashboard'', ''Overview''), (''/dashboard/fleet'', ''Fleet''), (''/dashboard/servers'', ''Servers''), (''/dashboard/bulk'', ''Bulk'')]),
     (''Access'', [(''/dashboard/users'', ''Users''), (''/dashboard/access-requests'', ''Access requests'')]),
     (''Monitoring'', [(''/dashboard/events'', ''Events''), (''/dashboard/audit'', ''Audit log''), (''/dashboard/reports'', ''Reports''),
        (''/dashboard/system-health'', ''Host health'')]),
     (''System'', [(''/dashboard/settings'', ''Settings'')])]"

record nav_item =
  ni_label :: string
  ni_link :: "string option"
  ni_active :: bool

text \<open>While a change of password is required the items are no links.\<close>

definition NavItem :: "string \<Rightarrow> bool \<Rightarrow> string \<times> string \<Rightarrow> nav_item" where
  "NavItem path required it = (if required then \<lparr>ni_label = snd it, ni_link = None, ni_active = False\<rparr>
     else \<lparr>ni_label = snd it, ni_link = Some (fst it), ni_active = isActive path (fst it)\<rparr>)"

definition sidebar :: "string \<Rightarrow> bool \<Rightarrow> (string \<times> nav_item list) list" where
  "sidebar path required = map (\<lambda>(g, its). (g, map (NavItem path required) its)) NAV_GROUPS"

definition me_name :: "UserPublic \<Rightarrow> string" where
  "me_name me = (case u_display_name me of None \<Rightarrow> u_email me | Some n \<Rightarrow> n)"

definition Avatar :: "string \<Rightarrow> string" where
  "Avatar name =
     (let i = concat (map (\<lambda>w. toUpperCase [hd w]) (take 2 (words_by (\<lambda>c. is_ws c \<or> c \<in> set ''@._-'') name)))
      in if i = [] then ''?'' else i)"

definition sidebar_foot :: "UserPublic \<Rightarrow> string list" where
  "sidebar_foot me = [Avatar (me_name me), me_name me, if u_is_admin me then ''Admin'' else ''Member'']"

section \<open>The overview\<close>

record FleetFirmwareSummary =
  ff_total :: rat
  ff_updates_available :: rat
  ff_checked_ever :: rat
  ff_never_checked :: rat

record EventsSummary =
  es_unacknowledged_total :: rat
  es_by_severity :: "(string \<times> rat) list"

record home_card =
  hc_title :: string
  hc_value :: string
  hc_badge :: bool
  hc_href :: string
  hc_hint :: string

definition count_status :: "string \<Rightarrow> Device list option \<Rightarrow> nat" where
  "count_status st ds = (case ds of None \<Rightarrow> 0 | Some xs \<Rightarrow> length (filter (\<lambda>d. d_status d = st) xs))"

definition count_all :: "'a list option \<Rightarrow> nat" where
  "count_all xs = (case xs of None \<Rightarrow> 0 | Some l \<Rightarrow> length l)"

definition allUpToDate :: "FleetFirmwareSummary option \<Rightarrow> bool" where
  "allUpToDate fw = (case fw of None \<Rightarrow> False | Some f \<Rightarrow> ff_total f > 0 \<and> ff_updates_available f = 0 \<and> ff_never_checked f = 0)"

definition devices_card :: "Device list option \<Rightarrow> home_card" where
  "devices_card ds = \<lparr>hc_title = ''Devices'', hc_value = show_nat (count_all ds), hc_badge = False, hc_href = ''/dashboard/devices'',
     hc_hint = show_nat (count_status ''online'' ds) @ '' online '' @ mid_dot @ '' '' @ show_nat (count_status ''offline'' ds) @ '' offline '' @
       mid_dot @ '' '' @ show_nat (count_status ''error'' ds) @ '' error''\<rparr>"

definition firmware_tile :: "(rat \<Rightarrow> string) \<Rightarrow> FleetFirmwareSummary option \<Rightarrow> home_card" where
  "firmware_tile ns fw = \<lparr>hc_title = ''Firmware updates'',
     hc_value = (if allUpToDate fw then ''0'' else case fw of None \<Rightarrow> em_dash | Some f \<Rightarrow> ns (ff_updates_available f)),
     hc_badge = allUpToDate fw,
     hc_href = (case fw of Some f \<Rightarrow> if ff_updates_available f > 0 then ''/dashboard/devices?firmware=available'' else ''/dashboard/devices''
       | None \<Rightarrow> ''/dashboard/devices''),
     hc_hint = (case fw of None \<Rightarrow> ''checked nightly''
       | Some f \<Rightarrow> if allUpToDate fw then ''all devices up to date''
           else ns (ff_checked_ever f) @ '' of '' @ ns (ff_total f) @ '' checked'' @
             (if ff_never_checked f > 0 then '' '' @ mid_dot @ '' '' @ ns (ff_never_checked f) @ '' never checked'' else []))\<rparr>"

definition severity_count :: "EventsSummary \<Rightarrow> string \<Rightarrow> rat" where
  "severity_count e s = (case map_of (es_by_severity e) s of None \<Rightarrow> 0 | Some n \<Rightarrow> n)"

definition events_tile :: "(rat \<Rightarrow> string) \<Rightarrow> EventsSummary option \<Rightarrow> home_card" where
  "events_tile ns ev = \<lparr>hc_title = ''Unack events'', hc_value = (case ev of None \<Rightarrow> em_dash | Some e \<Rightarrow> ns (es_unacknowledged_total e)),
     hc_badge = False, hc_href = ''/dashboard/events'',
     hc_hint = (case ev of None \<Rightarrow> ''scanned every 5 min''
       | Some e \<Rightarrow> ns (severity_count e ''critical'') @ '' critical '' @ mid_dot @ '' '' @ ns (severity_count e ''error'') @ '' error '' @
           mid_dot @ '' '' @ ns (severity_count e ''warning'') @ '' warning'')\<rparr>"

definition getting_started :: "Device list option \<Rightarrow> bool" where
  "getting_started ds \<longleftrightarrow> count_all ds = 0"

section \<open>Roles\<close>

record Permission =
  pm_id :: string
  pm_section :: string
  pm_action :: string

record Role =
  ro_id :: string
  ro_organization_id :: string
  ro_name :: string
  ro_description :: "string option"
  ro_is_system :: bool
  ro_permissions :: "Permission list"
  ro_assignment_count :: rat
  ro_created_at :: string
  ro_updated_at :: string

text \<open>The keys of a \<open>Map\<close> stand in the order in which they first came.\<close>

definition first_keys :: "('a \<Rightarrow> string) \<Rightarrow> 'a list \<Rightarrow> string list" where
  "first_keys f xs = rev (remdups (rev (map f xs)))"

definition bySection :: "Permission list \<Rightarrow> (string \<times> string list) list" where
  "bySection ps = map (\<lambda>s. (s, map pm_action (get_list (by_key pm_section ps) s))) (first_keys pm_section ps)"

text \<open>\<open>lc\<close> is \<open>localeCompare\<close>.\<close>

definition PermissionMatrix :: "(string \<Rightarrow> string \<Rightarrow> int) \<Rightarrow> Permission list \<Rightarrow> (string \<times> string list) list" where
  "PermissionMatrix lc ps =
     map (\<lambda>(s, as). (s, filter (\<lambda>a. a \<in> set as) [''read'', ''write'', ''execute''])) (sort_by (\<lambda>a b. lc (fst a) (fst b)) (bySection ps))"

definition role_counts :: "(rat \<Rightarrow> string) \<Rightarrow> Role \<Rightarrow> string \<times> string" where
  "role_counts ns r =
     (show_nat (length (ro_permissions r)) @ '' permission'' @ (if length (ro_permissions r) = 1 then [] else ''s''),
      ns (ro_assignment_count r) @ '' assignment'' @ (if ro_assignment_count r = 1 then [] else ''s''))"

record roles_page =
  rl_roles :: "Role list"
  rl_sections :: bool
  rl_form :: bool
  rl_editing :: "string option"
  rl_sent :: "string list"

definition blank_roles :: roles_page where
  "blank_roles = \<lparr>rl_roles = [], rl_sections = False, rl_form = False, rl_editing = None, rl_sent = []\<rparr>"

datatype roles_event =
  RolesRead "Role list" | SectionsRead | ToggleNewRole | NewRoleDone | EditRole Role | EditDone | DeleteRole bool Role

text \<open>A role that is being edited shows its form once the sections are known, and no buttons.\<close>

definition role_form_shown :: "roles_page \<Rightarrow> Role \<Rightarrow> bool" where
  "role_form_shown p r \<longleftrightarrow> rl_editing p = Some (ro_id r) \<and> rl_sections p"

definition role_buttons :: "roles_page \<Rightarrow> Role \<Rightarrow> bool" where
  "role_buttons p r \<longleftrightarrow> r \<in> set (rl_roles p) \<and> \<not> role_form_shown p r \<and> \<not> ro_is_system r"

fun roles_act :: "roles_event \<Rightarrow> roles_page \<Rightarrow> roles_page" where
  "roles_act (RolesRead rs) p = p\<lparr>rl_roles := rs\<rparr>"
| "roles_act SectionsRead p = p\<lparr>rl_sections := True\<rparr>"
| "roles_act ToggleNewRole p = p\<lparr>rl_form := \<not> rl_form p\<rparr>"
| "roles_act NewRoleDone p = (if rl_form p \<and> rl_sections p then p\<lparr>rl_form := False\<rparr> else p)"
| "roles_act (EditRole r) p = (if role_buttons p r then p\<lparr>rl_editing := Some (ro_id r)\<rparr> else p)"
| "roles_act EditDone p = (if \<exists>r \<in> set (rl_roles p). role_form_shown p r then p\<lparr>rl_editing := None\<rparr> else p)"
| "roles_act (DeleteRole yes r) p = (if role_buttons p r \<and> yes then p\<lparr>rl_sent := rl_sent p @ [ro_id r]\<rparr> else p)"

definition delete_role_call :: "env \<Rightarrow> string \<Rightarrow> unit call" where
  "delete_role_call E i = deleteRole E i"

section \<open>Users\<close>

record UserListItem =
  ul_id :: string
  ul_email :: string
  ul_display_name :: "string option"
  ul_mobile_phone :: "string option"
  ul_is_active :: bool
  ul_is_admin :: bool
  ul_totp_enrolled :: bool
  ul_otp_login_enabled :: bool
  ul_must_change_password :: bool
  ul_auth_method :: string
  ul_last_login_at :: "string option"
  ul_created_at :: string
  ul_assignment_count :: rat

text \<open>\<open>when\<close> is \<open>toLocaleString\<close>; the tick of the second factor is a flag.\<close>

definition user_row_cells :: "(string \<Rightarrow> string) \<Rightarrow> (rat \<Rightarrow> string) \<Rightarrow> UserListItem \<Rightarrow> string list" where
  "user_row_cells whn ns u = [
     dash (ul_display_name u) @ (if ul_is_admin u then ''admin'' else []), ul_email u, dash (ul_mobile_phone u), ul_auth_method u,
     (if ul_totp_enrolled u then [CHR 0xE2, CHR 0x9C, CHR 0x93] else em_dash), ns (ul_assignment_count u),
     (if ul_is_active u then ''active'' else ''disabled'') @ (if ul_must_change_password u then ''must change pwd'' else []),
     (if truthy_str (ul_last_login_at u) then whn (the (ul_last_login_at u)) else ''never'')]"

section \<open>Servers\<close>

datatype count_cell = NeverChecked | CountCell int bool

text \<open>The flag is the colour of a warning.\<close>

definition Count :: "int option \<Rightarrow> bool \<Rightarrow> count_cell" where
  "Count v warn = (case v of None \<Rightarrow> NeverChecked | Some n \<Rightarrow> CountCell n (n \<noteq> 0 \<and> warn))"

definition security_cell :: "Device \<Rightarrow> count_cell" where
  "security_cell d = Count (d_packages_security_count d) (case d_packages_security_count d of None \<Rightarrow> False | Some n \<Rightarrow> n > 0)"

definition checked_cell :: "(string \<Rightarrow> string) \<Rightarrow> Device \<Rightarrow> string" where
  "checked_cell rel d = (if truthy_str (d_packages_check_error d) then ''check failed''
     else if truthy_str (d_packages_checked_at d) then rel (the (d_packages_checked_at d)) else ''never'')"

definition server_href :: "Device \<Rightarrow> string" where
  "server_href d = ''/dashboard/devices/'' @ d_id d @ ''/packages''"

definition servers_empty_text :: "(string \<Rightarrow> string \<Rightarrow> int) \<Rightarrow> string \<Rightarrow> Device list \<Rightarrow> string option" where
  "servers_empty_text lc query devices =
     (if servers lc query devices \<noteq> [] then None
      else Some (if devices = [] then ''No devices yet.'' else ''No Linux servers yet '' @ em_dash @ '' add one from Fleet '' @ [CHR 0xE2, CHR 0x86, CHR 0x92] @ '' New device.''))"

definition refresh_all_text :: "(int \<Rightarrow> string) \<Rightarrow> int \<Rightarrow> int \<Rightarrow> string" where
  "refresh_all_text ns checked failed = ns checked @ '' host(s) refreshed'' @ (if failed \<noteq> 0 then '', '' @ ns failed @ '' failed'' else []) @ ''.''"

section \<open>Bulk operations\<close>

definition BULK_TABS :: "string list" where
  "BULK_TABS = [''password'', ''address-list'', ''firewall'']"

definition picker_label :: "string list \<Rightarrow> Device list \<Rightarrow> string" where
  "picker_label selected shown = show_nat (length selected) @ '' of '' @ show_nat (length shown) @ '' selected''"

record BulkResult =
  br_device_id :: string
  br_device_name :: "string option"
  br_status :: string
  br_error :: "string option"
  br_detail :: "string jopt"

definition ResultPanel :: "BulkResult list \<Rightarrow> (string \<times> string \<times> string \<times> string) list" where
  "ResultPanel rs = map (\<lambda>r. (case br_device_name r of None \<Rightarrow> br_device_id r | Some n \<Rightarrow> n,
     if br_status r = ''ok'' then ''emerald'' else if br_status r = ''skipped'' then ''zinc'' else ''red'', br_status r, dash (br_error r))) rs"

definition result_head :: "(rat \<Rightarrow> string) \<Rightarrow> rat \<Rightarrow> rat \<Rightarrow> rat \<Rightarrow> rat \<Rightarrow> string" where
  "result_head ns totl ok failed skipped = ns ok @ '' succeeded '' @ mid_dot @ '' '' @ ns failed @ '' failed '' @ mid_dot @ '' '' @ ns skipped @
     '' skipped of '' @ ns totl"

section \<open>A pending change of the firewall\<close>

datatype guard_flight = KeepFlight | UndoFlight

record pending_guard =
  pg_id :: string
  pg_expires :: int
  pg_left :: int
  pg_flight :: "guard_flight option"
  pg_sent :: "(string \<times> guard_flight) list"
  pg_answered :: nat

definition mount_guard :: "int \<Rightarrow> string \<Rightarrow> int \<Rightarrow> pending_guard" where
  "mount_guard now i expires = \<lparr>pg_id = i, pg_expires = expires, pg_left = secondsLeft now expires, pg_flight = None, pg_sent = [], pg_answered = 0\<rparr>"

datatype guard_event = Tick int | PressKeep | PressUndo | GuardAnswered bool

fun guard_act :: "guard_event \<Rightarrow> pending_guard \<Rightarrow> pending_guard" where
  "guard_act (Tick now) g = g\<lparr>pg_left := secondsLeft now (pg_expires g)\<rparr>"
| "guard_act PressKeep g = (if pg_flight g = None then g\<lparr>pg_flight := Some KeepFlight, pg_sent := pg_sent g @ [(pg_id g, KeepFlight)]\<rparr> else g)"
| "guard_act PressUndo g = (if pg_flight g = None then g\<lparr>pg_flight := Some UndoFlight, pg_sent := pg_sent g @ [(pg_id g, UndoFlight)]\<rparr> else g)"
| "guard_act (GuardAnswered ok) g = (if pg_flight g = None then g else g\<lparr>pg_flight := None, pg_answered := pg_answered g + 1\<rparr>)"

definition guard_text :: "pending_guard \<Rightarrow> string option" where
  "guard_text g = (if pg_left g > 0 then Some (formatLeft (pg_left g)) else None)"

definition guard_call :: "env \<Rightarrow> string \<Rightarrow> string \<times> guard_flight \<Rightarrow> json call" where
  "guard_call E dev q = (case snd q of KeepFlight \<Rightarrow> confirmGuard E dev (fst q) | UndoFlight \<Rightarrow> rollbackGuard E dev (fst q))"

definition disabled_cells :: "(rat \<Rightarrow> string) \<Rightarrow> UfwDisabledRule \<Rightarrow> string list" where
  "disabled_cells ns r = [(case ud_position r of None \<Rightarrow> em_dash | Some n \<Rightarrow> ns n), ud_destination r, ud_action r, ud_direction r, ud_source r,
     dash (ud_comment r)]"

section \<open>One item is active\<close>

definition nav_hrefs :: "string list" where
  "nav_hrefs = map fst (concat (map snd NAV_GROUPS))"

lemma nav_hrefs_table:
  "list_all (\<lambda>h. list_all (\<lambda>k. h = ''/dashboard'' \<or> take (length h) k \<noteq> h \<or> h = k) nav_hrefs) nav_hrefs"
  "list_all (\<lambda>h. h = ''/dashboard'' \<or> \<not> isActive ''/dashboard'' h) nav_hrefs"
  by code_simp+

lemma nav_hrefs_apart: "h \<in> set nav_hrefs \<Longrightarrow> k \<in> set nav_hrefs \<Longrightarrow> h \<noteq> ''/dashboard'' \<Longrightarrow> prefix h k \<Longrightarrow> h = k"
  using nav_hrefs_table(1) unfolding list_all_iff startsWith_prefix [symmetric] startsWith_def by blast

lemma dashboard_only: "h \<in> set nav_hrefs \<Longrightarrow> isActive ''/dashboard'' h \<Longrightarrow> h = ''/dashboard''"
  using nav_hrefs_table(2) unfolding list_all_iff by blast

lemma nav_active_unique:
  assumes "h \<in> set nav_hrefs" "k \<in> set nav_hrefs" "isActive path h" "isActive path k"
  shows "h = k"
proof (cases "h = ''/dashboard'' \<or> k = ''/dashboard''")
  case True
  then have "path = ''/dashboard''" using assms(3,4) by (auto simp only: isActive_def if_True simp_thms)
  then show ?thesis using assms dashboard_only by metis
next
  case False
  then have "prefix h path" "prefix k path" using assms(3,4) by (simp_all add: isActive_def startsWith_prefix)
  then have "prefix h k \<or> prefix k h" using prefix_same_cases by blast
  then show ?thesis using nav_hrefs_apart assms(1,2) False by metis
qed

text \<open>
  On every address at most one item of the navigation is marked, and while a change of password
  is required none is a link.
\<close>

theorem one_nav_item_active:
  "(\<forall>h \<in> set nav_hrefs. \<forall>k \<in> set nav_hrefs. isActive path h \<and> isActive path k \<longrightarrow> h = k) \<and>
   (\<forall>it \<in> set (concat (map snd (sidebar path True))). ni_link it = None) \<and>
   map ni_link (concat (map snd (sidebar path False))) = map Some nav_hrefs"
proof (intro conjI)
  show "\<forall>h \<in> set nav_hrefs. \<forall>k \<in> set nav_hrefs. isActive path h \<and> isActive path k \<longrightarrow> h = k"
    using nav_active_unique by blast
qed (auto simp: sidebar_def NavItem_def nav_hrefs_def NAV_GROUPS_def)

section \<open>The matrix of a role\<close>

lemma set_first_keys [simp]: "set (first_keys f xs) = f ` set xs"
  by (simp add: first_keys_def)

lemma distinct_first_keys [simp]: "distinct (first_keys f xs)"
  by (simp add: first_keys_def)

text \<open>
  The matrix names every section of the role once, in the order of its comparison, and under it
  exactly the actions granted there.
\<close>

theorem matrix_shows_permissions:
  assumes "consistent lc" "\<And>p. p \<in> set ps \<Longrightarrow> pm_action p \<in> {''read'', ''write'', ''execute''}"
  shows "distinct (map fst (PermissionMatrix lc ps)) \<and> sorted_wrt (\<lambda>x y. lc (fst x) (fst y) \<le> 0) (PermissionMatrix lc ps) \<and>
    {(s, a). \<exists>as. (s, as) \<in> set (PermissionMatrix lc ps) \<and> a \<in> set as} = (\<lambda>p. (pm_section p, pm_action p)) ` set ps"
proof (intro conjI)
  let ?m = "\<lambda>(s, as). (s, filter (\<lambda>a. a \<in> set as) [''read'', ''write'', ''execute''])"
  have fst: "map fst (map ?m xs) = map fst xs" for xs :: "(string \<times> string list) list" by (induction xs) auto
  have "mset (map fst (PermissionMatrix lc ps)) = mset (map fst (bySection ps))"
    unfolding PermissionMatrix_def fst by (simp add: mset_map)
  moreover have "distinct (map fst (bySection ps))" by (simp add: bySection_def comp_def)
  ultimately show "distinct (map fst (PermissionMatrix lc ps))" by (metis mset_eq_imp_distinct_iff)
  have "sorted_wrt (\<lambda>x y. lc (fst x) (fst y) \<le> 0) (sort_by (\<lambda>a b. lc (fst a) (fst b)) (bySection ps))"
    using consistent_on [OF assms(1)] by (rule js_sort.sort_by_ordered [OF iffD1 [OF consistent_js_sort]])
  then show "sorted_wrt (\<lambda>x y. lc (fst x) (fst y) \<le> 0) (PermissionMatrix lc ps)"
    by (simp add: PermissionMatrix_def sorted_wrt_map case_prod_beta)
  show "{(s, a). \<exists>as. (s, as) \<in> set (PermissionMatrix lc ps) \<and> a \<in> set as} = (\<lambda>p. (pm_section p, pm_action p)) ` set ps"
  proof -
    define K where "K = [''read'', ''write'', ''execute'']"
    have K: "pm_action p \<in> set K" if "p \<in> set ps" for p using assms(2) [OF that] by (simp add: K_def)
    have "(\<exists>as. (s, as) \<in> set (PermissionMatrix lc ps) \<and> a \<in> set as) \<longleftrightarrow> a \<in> set K \<and> (\<exists>p \<in> set ps. pm_section p = s \<and> pm_action p = a)" for s a
      unfolding PermissionMatrix_def K_def [symmetric] by (auto simp: bySection_def image_iff)
    then show ?thesis using K by auto
  qed
qed

section \<open>Roles, servers, firmware\<close>

text \<open>What an event of the list of roles may send: the deletion of a role on the screen, confirmed, and none of the system's.\<close>

definition role_delete_ok :: "roles_event \<Rightarrow> roles_page \<Rightarrow> bool" where
  "role_delete_ok e p \<longleftrightarrow> rl_sent (roles_act e p) = rl_sent p \<or>
     (\<exists>r \<in> set (rl_roles p). e = DeleteRole True r \<and> \<not> ro_is_system r \<and> rl_sent (roles_act e p) = rl_sent p @ [ro_id r])"

lemma role_delete: "role_delete_ok e p"
  by (cases e) (auto simp: role_delete_ok_def role_buttons_def)

text \<open>The form in a row of the list belongs to a role that may be edited.\<close>

definition editing_ok :: "string set \<Rightarrow> roles_page \<Rightarrow> bool" where
  "editing_ok system p \<longleftrightarrow> (\<forall>r \<in> set (rl_roles p). ro_is_system r \<longleftrightarrow> ro_id r \<in> system) \<and> (\<forall>i. rl_editing p = Some i \<longrightarrow> i \<notin> system)"

definition roles_faithful :: "string set \<Rightarrow> roles_event \<Rightarrow> bool" where
  "roles_faithful system e \<longleftrightarrow> (case e of RolesRead rs \<Rightarrow> list_all (\<lambda>r. ro_is_system r \<longleftrightarrow> ro_id r \<in> system) rs | _ \<Rightarrow> True)"

lemma editing_ok_act: "editing_ok system p \<Longrightarrow> roles_faithful system e \<Longrightarrow> editing_ok system (roles_act e p)"
  by (cases e) (auto simp: editing_ok_def roles_faithful_def role_buttons_def list_all_iff)

interpretation roles: guarded_machine roles_act "roles_faithful system" "editing_ok system" for system
  by unfold_locales (rule editing_ok_act)

text \<open>
  A system role is never edited and never deleted, whatever the list says next, as long as the
  server does not change its mind about which roles are the system's.
\<close>

theorem system_roles_untouched:
  assumes "list_all (roles_faithful system) es"
  shows "let p = fold roles_act es blank_roles in
    (\<forall>r \<in> set (rl_roles p). role_form_shown p r \<longrightarrow> \<not> ro_is_system r) \<and> role_delete_ok e p"
proof -
  have "editing_ok system blank_roles" by (simp add: editing_ok_def blank_roles_def)
  then have "editing_ok system (fold roles_act es blank_roles)" using assms by (rule roles.inv_fold)
  then show ?thesis by (auto simp: Let_def role_delete editing_ok_def role_form_shown_def)
qed

text \<open>The badge: something was counted, nothing is to update and nothing unchecked; then the link is to all devices.\<close>

lemma badge_means_up_to_date:
  assumes "hc_badge (firmware_tile ns fw)"
  shows "\<exists>f. fw = Some f \<and> ff_total f > 0 \<and> ff_updates_available f = 0 \<and> ff_never_checked f = 0 \<and>
    hc_href (firmware_tile ns fw) = ''/dashboard/devices'' \<and> hc_hint (firmware_tile ns fw) = ''all devices up to date''"
  using assms by (auto simp: firmware_tile_def allUpToDate_def split: option.splits)

text \<open>A host that was never checked is no clean bill of health, and a count of updates is shown as it is.\<close>

lemma unchecked_is_not_zero: "Count v w = CountCell 0 b \<longleftrightarrow> v = Some 0 \<and> \<not> b"
  by (auto simp: Count_def split: option.splits)

text \<open>A search that fits no server says that there are none.\<close>

theorem search_denies_servers:
  assumes "d \<in> set devices" "d_device_class d = ''server''" "\<And>x. x \<in> set devices \<Longrightarrow> \<not> server_matches query x"
  shows "servers lc [] devices \<noteq> [] \<and>
    servers_empty_text lc query devices = Some (''No Linux servers yet '' @ em_dash @ '' add one from Fleet '' @ [CHR 0xE2, CHR 0x86, CHR 0x92] @ '' New device.'')"
proof -
  have "d \<in> set (servers lc [] devices)" using assms(1,2) by (simp add: servers_def server_matches_def trim_def trimStart_def trimEnd_def toLowerCase_def)
  moreover have "servers lc query devices = []" using assms(3) by (simp add: servers_def sort_by_def)
  ultimately show ?thesis using assms(1) by (auto simp: servers_empty_text_def)
qed

text \<open>The picker counts what is selected against what is shown: a device that the filter hides stays selected.\<close>

theorem hidden_devices_stay_selected:
  assumes "d \<in> set ds" "d_site_id d \<noteq> site" "site \<noteq> []" "d_id d \<in> set selected"
    and "\<And>x. x \<in> set ds \<Longrightarrow> d_id x = d_id d \<Longrightarrow> x = d"
  shows "d \<notin> set (filteredDevices (Some ds) site) \<and> d_id d \<in> set (toggleAll (filteredDevices (Some ds) site) selected)"
proof -
  have k: "i \<in> set (fold (\<lambda>x. jset_delete (d_id x)) xs s) \<longleftrightarrow> i \<in> set s \<and> (\<forall>x \<in> set xs. d_id x \<noteq> i)" for i xs s
    by (induction xs arbitrary: s) (auto simp: jset_delete_def)
  have a: "i \<in> set s \<Longrightarrow> i \<in> set (fold (\<lambda>x. jset_add (d_id x)) xs s)" for i xs s
    by (induction xs arbitrary: s) (auto simp: jset_add_def)
  have h: "d \<notin> set (filteredDevices (Some ds) site)" using assms(2,3) by (simp add: filteredDevices_def)
  have "d_id x \<noteq> d_id d" if "x \<in> set (filteredDevices (Some ds) site)" for x
    using that assms(2,3,5) by (auto simp: filteredDevices_def)
  then show ?thesis using h assms(4) by (auto simp: toggleAll_def k a)
qed

section \<open>One answer at a time\<close>

definition guard_ok :: "string \<Rightarrow> int \<Rightarrow> pending_guard \<Rightarrow> bool" where
  "guard_ok i expires g \<longleftrightarrow> pg_id g = i \<and> pg_expires g = expires \<and> 0 \<le> pg_left g \<and>
     list_all (\<lambda>q. fst q = i) (pg_sent g) \<and> length (pg_sent g) = pg_answered g + (if pg_flight g = None then 0 else 1) \<and>
     (\<forall>x. pg_flight g = Some x \<longrightarrow> pg_sent g \<noteq> [] \<and> last (pg_sent g) = (i, x))"

lemma secondsLeft_nonneg: "0 \<le> secondsLeft now t"
  by (simp add: secondsLeft_def)

lemma guard_ok_act: "guard_ok i x g \<Longrightarrow> guard_ok i x (guard_act e g)"
  by (cases e) (auto simp: guard_ok_def secondsLeft_nonneg split: option.splits)

interpretation pending: event_machine guard_act "mount_guard now i x" "guard_ok i x" for now i x
  by unfold_locales (simp add: guard_ok_def mount_guard_def secondsLeft_nonneg, rule guard_ok_act)

text \<open>
  A change is kept or undone, never both at once: every answer but the last request's is in
  before the next is sent, each names this change, and the countdown never runs below zero and
  shows the time that a tick found left.
\<close>

theorem guard_one_decision_at_a_time:
  "let g = fold guard_act es (mount_guard now i x) in
     (\<forall>q \<in> set (pg_sent g). fst q = i) \<and> pg_answered g \<le> length (pg_sent g) \<and> length (pg_sent g) \<le> pg_answered g + 1 \<and>
     (pg_flight g \<noteq> None \<longrightarrow> guard_act PressKeep g = g \<and> guard_act PressUndo g = g) \<and>
     0 \<le> pg_left g \<and> pg_left (guard_act (Tick t) g) = secondsLeft t x"
  using pending.inv_history [of i x es now] by (auto simp: Let_def guard_ok_def list_all_iff)

section \<open>Witnesses\<close>

definition demo_role :: "bool \<Rightarrow> Role" where
  "demo_role sys = \<lparr>ro_id = (if sys then ''r0'' else ''r1''), ro_organization_id = ''o'', ro_name = ''Ops'', ro_description = None, ro_is_system = sys,
     ro_permissions = [], ro_assignment_count = 0, ro_created_at = [], ro_updated_at = []\<rparr>"

theorem system_roles_untouched_witness:
  "rl_sent (fold roles_act [RolesRead [demo_role True, demo_role False], DeleteRole True (demo_role True), DeleteRole True (demo_role False)] blank_roles) = [''r1''] \<and>
   role_delete_ok (DeleteRole True (demo_role False)) (fold roles_act [RolesRead [demo_role True, demo_role False]] blank_roles)"
proof
  have "list_all (roles_faithful {''r0''}) [RolesRead [demo_role True, demo_role False]]"
    by (simp add: roles_faithful_def demo_role_def)
  from system_roles_untouched [OF this, of "DeleteRole True (demo_role False)"]
  show "role_delete_ok (DeleteRole True (demo_role False)) (fold roles_act [RolesRead [demo_role True, demo_role False]] blank_roles)"
    unfolding Let_def by blast
qed (simp add: role_buttons_def role_form_shown_def blank_roles_def demo_role_def)

theorem matrix_shows_permissions_witness:
  "{(s, a). \<exists>as. (s, as) \<in> set (PermissionMatrix (\<lambda>_ _. 0) [\<lparr>pm_id = ''1'', pm_section = ''users'', pm_action = ''write''\<rparr>]) \<and> a \<in> set as} = {(''users'', ''write'')}"
  using matrix_shows_permissions [of "\<lambda>_ _. 0" "[\<lparr>pm_id = ''1'', pm_section = ''users'', pm_action = ''write''\<rparr>]"]
  by (simp add: consistent_def)

end
