(* ===== verification/Create_Panel.thy ===== *)
theory Create_Panel
  imports Event_Machine Dhcp_Page Firewall_Page Device_Pages Wg_Page
begin

text \<open>
  The panels that list rows of a router and create them with a form: routes and VLANs
  (\<open>devices/[id]/network/page.tsx\<close>), simple queues (\<open>devices/[id]/queues/page.tsx\<close>), DHCP servers,
  networks and pools (\<open>devices/[id]/dhcp/page.tsx\<close>), filter and NAT rules
  (\<open>devices/[id]/firewall/page.tsx\<close>) and WireGuard interfaces (\<open>vpn/wireguard/page.tsx\<close>). All nine
  are written alike: a button shows and hides the form, the form keeps its own state and request,
  an answer that succeeds hides the form, and the buttons of a row act at once or, for a deletion,
  when a question is answered with yes.
\<close>

section \<open>A panel\<close>

text \<open>What submitting does: nothing (the browser's checks of the fields), a message, or a request.\<close>

datatype 'p attempt = Blocked | Refused string | Send 'p

datatype row_button = BDelete | BToggle | BLog | BReset

datatype row_request = RowDelete string | RowDisabled string bool | RowLog string bool | RowReset string

fun request_row :: "row_request \<Rightarrow> string" where
  "request_row (RowDelete i) = i"
| "request_row (RowDisabled i b) = i"
| "request_row (RowLog i b) = i"
| "request_row (RowReset i) = i"

datatype 'p panel_request = Creates 'p | OnRow row_request

fun creates :: "'p panel_request \<Rightarrow> bool" where
  "creates (Creates p) = True"
| "creates (OnRow q) = False"

text \<open>
  What differs between the panels: the form as it is mounted (for some of them under what the page
  shows then), the values its selects can hold, submitting, and the buttons of a row under the
  answer to their question.
\<close>

record ('c, 'f, 'p, 'r) panel_spec =
  sp_new :: "'c \<Rightarrow> 'f"
  sp_fits :: "'f \<Rightarrow> bool"
  sp_submit :: "'f \<Rightarrow> 'p attempt"
  sp_press :: "row_button \<Rightarrow> bool \<Rightarrow> 'r \<Rightarrow> row_request option"

text \<open>
  The state of a panel. A form that is mounted gets a number, under which its request runs.
  \<open>pn_sent\<close> and \<open>pn_answered\<close> are the history: what was asked for and how many answers came.
\<close>

record ('f, 'p, 'r) panel =
  pn_rows :: "'r list"
  pn_form :: "('f \<times> nat) option"
  pn_next :: nat
  pn_error :: "string option"
  pn_flights :: "(nat \<times> 'p) list"
  pn_sent :: "'p panel_request list"
  pn_answered :: nat

definition blank_panel :: "('f, 'p, 'r) panel" where
  "blank_panel = \<lparr>pn_rows = [], pn_form = None, pn_next = 0, pn_error = None, pn_flights = [], pn_sent = [], pn_answered = 0\<rparr>"

datatype ('c, 'f, 'r) panel_event = RowsRead "'r list" | ToggleForm 'c | Remount 'c | Draft 'f | SubmitForm
  | Created nat | CreateFailed nat string | PressRow row_button bool 'r

definition mount_form :: "('c, 'f, 'p, 'r) panel_spec \<Rightarrow> 'c \<Rightarrow> ('f, 'p, 'r) panel \<Rightarrow> ('f, 'p, 'r) panel" where
  "mount_form spec c s =
     (if sp_fits spec (sp_new spec c)
      then s\<lparr>pn_form := Some (sp_new spec c, pn_next s), pn_next := pn_next s + 1, pn_error := None\<rparr> else s)"

definition land_flight :: "nat \<Rightarrow> ('f, 'p, 'r) panel \<Rightarrow> ('f, 'p, 'r) panel" where
  "land_flight k s = s\<lparr>pn_flights := filter (\<lambda>x. fst x \<noteq> k) (pn_flights s), pn_answered := pn_answered s + 1\<rparr>"

text \<open>
  The submit button is disabled while the request of its form is under way. The outcome of a
  request reaches the panel also after its form is gone: a success hides whatever form is shown,
  a failure is written into the form that asked, if that is still there. A panel whose page
  was left and entered again shows a form anew when it had shown one.
\<close>

fun panel_act :: "('c, 'f, 'p, 'r) panel_spec \<Rightarrow> ('c, 'f, 'r) panel_event \<Rightarrow> ('f, 'p, 'r) panel \<Rightarrow> ('f, 'p, 'r) panel" where
  "panel_act spec (RowsRead rs) s = s\<lparr>pn_rows := rs\<rparr>"
| "panel_act spec (ToggleForm c) s = (case pn_form s of Some _ \<Rightarrow> s\<lparr>pn_form := None\<rparr> | None \<Rightarrow> mount_form spec c s)"
| "panel_act spec (Remount c) s = (case pn_form s of Some _ \<Rightarrow> mount_form spec c s | None \<Rightarrow> s)"
| "panel_act spec (Draft f) s = (case pn_form s of Some (g, k) \<Rightarrow> if sp_fits spec f then s\<lparr>pn_form := Some (f, k)\<rparr> else s | None \<Rightarrow> s)"
| "panel_act spec SubmitForm s =
     (case pn_form s of
        Some (f, k) \<Rightarrow>
          if k \<in> fst ` set (pn_flights s) then s
          else (case sp_submit spec f of
              Blocked \<Rightarrow> s
            | Refused m \<Rightarrow> s\<lparr>pn_error := Some m\<rparr>
            | Send p \<Rightarrow> s\<lparr>pn_error := None, pn_flights := pn_flights s @ [(k, p)], pn_sent := pn_sent s @ [Creates p]\<rparr>)
      | None \<Rightarrow> s)"
| "panel_act spec (Created k) s =
     (if k \<in> fst ` set (pn_flights s) then (land_flight k s)\<lparr>pn_form := None\<rparr> else s)"
| "panel_act spec (CreateFailed k m) s =
     (if k \<in> fst ` set (pn_flights s)
      then (land_flight k s)\<lparr>pn_error := (if map_option snd (pn_form s) = Some k then Some m else pn_error s)\<rparr> else s)"
| "panel_act spec (PressRow b yes r) s =
     (if r \<in> set (pn_rows s)
      then (case sp_press spec b yes r of Some q \<Rightarrow> s\<lparr>pn_sent := pn_sent s @ [OnRow q]\<rparr> | None \<Rightarrow> s) else s)"

section \<open>What holds on every panel\<close>

definition from_form :: "('c, 'f, 'p, 'r) panel_spec \<Rightarrow> 'p \<Rightarrow> bool" where
  "from_form spec p \<longleftrightarrow> (\<exists>f. sp_fits spec f \<and> sp_submit spec f = Send p)"

definition panel_inv :: "('c, 'f, 'p, 'r) panel_spec \<Rightarrow> ('f, 'p, 'r) panel \<Rightarrow> bool" where
  "panel_inv spec s \<longleftrightarrow> (\<forall>f k. pn_form s = Some (f, k) \<longrightarrow> sp_fits spec f \<and> k < pn_next s) \<and>
     (\<forall>x \<in> set (pn_flights s). fst x < pn_next s) \<and> distinct (map fst (pn_flights s)) \<and>
     (\<forall>p. Creates p \<in> set (pn_sent s) \<longrightarrow> from_form spec p) \<and>
     length (filter creates (pn_sent s)) = pn_answered s + length (pn_flights s)"

lemma panel_invD:
  assumes "panel_inv spec s"
  shows "pn_form s = Some (f, k) \<Longrightarrow> sp_fits spec f" "pn_form s = Some (f, k) \<Longrightarrow> k < pn_next s"
    "x \<in> set (pn_flights s) \<Longrightarrow> fst x < pn_next s" "distinct (map fst (pn_flights s))"
    "Creates p \<in> set (pn_sent s) \<Longrightarrow> from_form spec p"
    "length (filter creates (pn_sent s)) = pn_answered s + length (pn_flights s)"
  using assms by (auto simp: panel_inv_def)

lemma panel_invI:
  assumes "\<And>f k. pn_form s = Some (f, k) \<Longrightarrow> sp_fits spec f \<and> k < pn_next s"
    "\<And>x. x \<in> set (pn_flights s) \<Longrightarrow> fst x < pn_next s" "distinct (map fst (pn_flights s))"
    "\<And>p. Creates p \<in> set (pn_sent s) \<Longrightarrow> from_form spec p"
    "length (filter creates (pn_sent s)) = pn_answered s + length (pn_flights s)"
  shows "panel_inv spec s"
  using assms by (simp add: panel_inv_def)

lemma landed_length:
  "distinct (map fst xs) \<Longrightarrow> k \<in> fst ` set xs \<Longrightarrow> Suc (length (filter (\<lambda>x. fst x \<noteq> k) xs)) = length xs"
proof (induction xs)
  case (Cons x xs)
  then show ?case
  proof (cases "fst x = k")
    case True
    with Cons.prems have "\<forall>y \<in> set xs. fst y \<noteq> k" by (auto simp: image_iff)
    then have "filter (\<lambda>y. fst y \<noteq> k) xs = xs" by simp
    with True show ?thesis by simp
  qed auto
qed simp

lemma landed_inv:
  assumes "panel_inv spec s" "k \<in> fst ` set (pn_flights s)"
  shows "panel_inv spec (land_flight k s)"
proof (rule panel_invI)
  show "distinct (map fst (pn_flights (land_flight k s)))"
    using panel_invD(4) [OF assms(1)] by (simp add: land_flight_def distinct_map_filter)
  show "length (filter creates (pn_sent (land_flight k s))) = pn_answered (land_flight k s) + length (pn_flights (land_flight k s))"
    using panel_invD(6) [OF assms(1)] landed_length [OF panel_invD(4) [OF assms(1)] assms(2)] by (simp add: land_flight_def)
qed (use panel_invD [OF assms(1)] in \<open>auto simp: land_flight_def\<close>)

lemma panel_inv_more [simp]:
  "panel_inv spec (s\<lparr>pn_error := m\<rparr>) = panel_inv spec s" "panel_inv spec (s\<lparr>pn_rows := rs\<rparr>) = panel_inv spec s"
  by (simp_all add: panel_inv_def)

lemma panel_inv_hidden: "panel_inv spec s \<Longrightarrow> panel_inv spec (s\<lparr>pn_form := None\<rparr>)"
  by (simp add: panel_inv_def)

lemma panel_inv_row: "panel_inv spec s \<Longrightarrow> panel_inv spec (s\<lparr>pn_sent := pn_sent s @ [OnRow q]\<rparr>)"
  by (simp add: panel_inv_def)

lemma panel_inv_mount: "panel_inv spec s \<Longrightarrow> panel_inv spec (mount_form spec c s)"
  by (auto simp: panel_inv_def mount_form_def intro: less_SucI)

lemma panel_inv_send:
  assumes "panel_inv spec s" "pn_form s = Some (f, k)" "k \<notin> fst ` set (pn_flights s)" "sp_submit spec f = Send p"
  shows "panel_inv spec (s\<lparr>pn_error := m, pn_flights := pn_flights s @ [(k, p)], pn_sent := pn_sent s @ [Creates p]\<rparr>)"
proof (rule panel_invI)
  have "from_form spec p" using panel_invD(1) [OF assms(1,2)] assms(4) by (auto simp: from_form_def)
  then show "from_form spec q" if "Creates q \<in> set (pn_sent (s\<lparr>pn_error := m, pn_flights := pn_flights s @ [(k, p)], pn_sent := pn_sent s @ [Creates p]\<rparr>))" for q
    using that panel_invD(5) [OF assms(1)] by auto
qed (use panel_invD [OF assms(1)] assms in auto)

lemma panel_inv_act: "panel_inv spec s \<Longrightarrow> panel_inv spec (panel_act spec e s)"
proof (induction spec e s rule: panel_act.induct)
  case (5 spec s)
  then show ?case using panel_inv_send [of spec s] by (auto split: option.splits attempt.splits)
next
  case (4 spec f s)
  then show ?case by (auto simp: panel_inv_def split: option.splits)
qed (auto simp: panel_inv_hidden panel_inv_row panel_inv_mount landed_inv split: option.splits)

lemma panel_inv_blank: "panel_inv spec blank_panel"
  by (simp add: panel_inv_def blank_panel_def)

interpretation panel_machine: event_machine "panel_act spec" blank_panel "panel_inv spec" for spec
  by unfold_locales (rule panel_inv_blank, rule panel_inv_act)

text \<open>
  Whatever is shown, typed, pressed and answered in a panel: no form has two requests under way,
  every creation that was asked for was answered or is under way, and each came from a form the
  way it was filled in.
\<close>

theorem creations_accounted:
  "let s = fold (panel_act spec) es blank_panel in
   distinct (map fst (pn_flights s)) \<and> length (filter creates (pn_sent s)) = pn_answered s + length (pn_flights s) \<and>
   list_all (\<lambda>q. case q of Creates p \<Rightarrow> from_form spec p | OnRow _ \<Rightarrow> True) (pn_sent s)"
  using panel_machine.inv_history [of spec es] by (auto simp: Let_def panel_inv_def list_all_iff split: panel_request.splits)

text \<open>
  A creation that is answered late hides another form: who cancels while it is under way and
  opens the form again loses what was typed meanwhile.
\<close>

theorem late_creation_hides_form:
  assumes "sp_submit spec f = Send p" "sp_fits spec f" "sp_fits spec g" "sp_fits spec (sp_new spec c)"
  shows "pn_form (fold (panel_act spec) [ToggleForm c, Draft f, SubmitForm, ToggleForm c, ToggleForm c, Draft g] blank_panel) = Some (g, 1) \<and>
    pn_form (fold (panel_act spec) [ToggleForm c, Draft f, SubmitForm, ToggleForm c, ToggleForm c, Draft g, Created 0] blank_panel) = None"
  using assms by (simp add: blank_panel_def mount_form_def land_flight_def)

section \<open>What a panel promises\<close>

text \<open>
  The contract of a panel: what its form sends is well formed, and what its buttons ask for names
  the row, may be asked of it, and was confirmed when it deletes.
\<close>

definition panel_sound :: "('c, 'f, 'p, 'r) panel_spec \<Rightarrow> ('p \<Rightarrow> bool) \<Rightarrow> ('r \<Rightarrow> string option) \<Rightarrow> ('r \<Rightarrow> bool) \<Rightarrow> bool" where
  "panel_sound spec ok ident may \<longleftrightarrow>
     (\<forall>es. list_all (\<lambda>q. case q of Creates p \<Rightarrow> ok p | OnRow _ \<Rightarrow> True) (pn_sent (fold (panel_act spec) es blank_panel))) \<and>
     (\<forall>e s q. pn_sent (panel_act spec e s) = pn_sent s @ [OnRow q] \<longrightarrow>
        (\<exists>b yes r. e = PressRow b yes r \<and> r \<in> set (pn_rows s) \<and> ident r = Some (request_row q) \<and> request_row q \<noteq> [] \<and>
          (\<forall>i. q = RowDelete i \<longrightarrow> b = BDelete \<and> yes \<and> may r)))"

locale panel_contract =
  fixes spec :: "('c, 'f, 'p, 'r) panel_spec" and ok :: "'p \<Rightarrow> bool" and ident :: "'r \<Rightarrow> string option" and may :: "'r \<Rightarrow> bool"
  assumes submit_ok: "sp_fits spec f \<Longrightarrow> sp_submit spec f = Send p \<Longrightarrow> ok p"
    and press_ident: "sp_press spec b yes r = Some q \<Longrightarrow> ident r = Some (request_row q) \<and> request_row q \<noteq> []"
    and press_delete: "sp_press spec b yes r = Some (RowDelete i) \<Longrightarrow> b = BDelete \<and> yes \<and> may r"
begin

lemma created_ok: "list_all (\<lambda>q. case q of Creates p \<Rightarrow> ok p | OnRow _ \<Rightarrow> True) (pn_sent (fold (panel_act spec) es blank_panel))"
  using panel_machine.inv_history [of spec es] submit_ok
  by (auto simp: panel_inv_def from_form_def list_all_iff split: panel_request.splits)

lemma row_grounded:
  assumes "pn_sent (panel_act spec e s) = pn_sent s @ [OnRow q]"
  shows "\<exists>b yes r. e = PressRow b yes r \<and> r \<in> set (pn_rows s) \<and> ident r = Some (request_row q) \<and> request_row q \<noteq> [] \<and>
    (\<forall>i. q = RowDelete i \<longrightarrow> b = BDelete \<and> yes \<and> may r)"
proof (cases e)
  case (PressRow b yes r)
  with assms have r: "r \<in> set (pn_rows s)" and q: "sp_press spec b yes r = Some q" by (auto split: if_splits option.splits)
  have "b = BDelete \<and> yes \<and> may r" if "q = RowDelete i" for i 
    using press_delete [OF q [unfolded that]] .
  with r press_ident [OF q] show ?thesis unfolding PressRow by (intro exI [of _ b] exI [of _ yes] exI [of _ r]) auto
qed (use assms in \<open>auto simp: mount_form_def land_flight_def split: if_splits option.splits attempt.splits\<close>)

lemma contract_sound: "panel_sound spec ok ident may"
  unfolding panel_sound_def using created_ok row_grounded by blast

end

section \<open>The nine panels\<close>

text \<open>A number of a request within its bounds, or null for a field left empty.\<close>

definition field_ok :: "rat \<Rightarrow> rat \<Rightarrow> rat jopt \<Rightarrow> bool" where
  "field_ok lo hi v \<longleftrightarrow> (case v of Undefined \<Rightarrow> False | Null \<Rightarrow> True | Val x \<Rightarrow> lo \<le> x \<and> x \<le> hi \<and> x = of_int \<lfloor>x\<rfloor>)"

lemma field_ok_number: "number_ok lo hi v \<Longrightarrow> field_ok lo hi (of_nullable v)"
  by (cases v) (simp_all add: number_ok_def field_ok_def)

lemma field_ok_whole: "number_ok lo hi (Some x) \<Longrightarrow> field_ok lo hi (Val x)"
  by (simp add: number_ok_def field_ok_def)

text \<open>The buttons of the firewall's rows; each asks for nothing on a row without an id.\<close>

fun rule_press :: "string option \<Rightarrow> bool \<Rightarrow> bool \<Rightarrow> row_button \<Rightarrow> bool \<Rightarrow> row_request option" where
  "rule_press i disabled logs BToggle yes = with_id i (\<lambda>i. RowDisabled i (\<not> disabled))"
| "rule_press i disabled logs BLog yes = with_id i (\<lambda>i. RowLog i (\<not> logs))"
| "rule_press i disabled logs BReset yes = with_id i RowReset"
| "rule_press i disabled logs BDelete yes = (if yes then with_id i RowDelete else None)"

text \<open>A row with nothing but a delete button.\<close>

fun delete_press :: "string option \<Rightarrow> row_button \<Rightarrow> bool \<Rightarrow> row_request option" where
  "delete_press i BDelete yes = (if yes then with_id i RowDelete else None)"
| "delete_press i _ yes = None"

lemma with_id_Some: "with_id i f = Some x \<longleftrightarrow> (\<exists>j. i = Some j \<and> j \<noteq> [] \<and> x = f j)"
  by (cases i) (auto simp: with_id_def truthy_str_def)

lemma rule_press_ident: "rule_press i d l b yes = Some q \<Longrightarrow> i = Some (request_row q) \<and> request_row q \<noteq> []"
  by (cases b) (auto simp: with_id_Some split: if_splits)

lemma rule_press_delete: "rule_press i d l b yes = Some (RowDelete j) \<Longrightarrow> b = BDelete \<and> yes"
  by (cases b) (auto simp: with_id_Some split: if_splits)

lemma delete_press_ident: "delete_press i b yes = Some q \<Longrightarrow> i = Some (request_row q) \<and> request_row q \<noteq> []"
  by (cases b) (auto simp: with_id_Some split: if_splits)

lemma delete_press_delete: "delete_press i b yes = Some (RowDelete j) \<Longrightarrow> b = BDelete \<and> yes"
  by (cases b) (auto simp: with_id_Some split: if_splits)

lemmas press_facts = rule_press_ident rule_press_delete delete_press_ident delete_press_delete

subsection \<open>Routes and VLANs\<close>

record IpRoute =
  ipr_id :: "string option"
  ipr_dst_address :: string
  ipr_gateway :: "string option"
  ipr_distance :: "rat option"
  ipr_routing_table :: "string option"
  ipr_pref_src :: "string option"
  ipr_active :: "bool option"
  ipr_dynamic :: "bool option"
  ipr_static :: "bool option"
  ipr_disabled :: bool
  ipr_comment :: "string option"

text \<open>The delete button of a route is there on static routes with an id.\<close>

definition RoutesTab :: "(unit, route_form, IpRouteCreate, IpRoute) panel_spec" where
  "RoutesTab = \<lparr>sp_new = \<lambda>_. new_route, sp_fits = \<lambda>_. True,
     sp_submit = \<lambda>f. if rf_dst f \<noteq> [] \<and> number_ok 1 255 (rf_distance f) then Send (route_payload f) else Blocked,
     sp_press = \<lambda>b yes r. if ipr_dynamic r \<noteq> Some True then delete_press (ipr_id r) b yes else None\<rparr>"

definition route_ok :: "IpRouteCreate \<Rightarrow> bool" where
  "route_ok p \<longleftrightarrow> irc_dst_address p \<noteq> [] \<and> field_ok 1 255 (irc_distance p)"

definition static_route :: "IpRoute \<Rightarrow> bool" where
  "static_route r \<longleftrightarrow> ipr_dynamic r \<noteq> Some True"

interpretation routes: panel_contract RoutesTab route_ok ipr_id static_route
  by unfold_locales (auto simp: RoutesTab_def route_ok_def route_payload_def static_route_def field_ok_number
      dest: press_facts split: if_splits)

record Vlan =
  vln_id :: "string option"
  vln_name :: string
  vln_interface :: string
  vln_vlan_id :: rat
  vln_mtu :: "rat option"
  vln_disabled :: bool
  vln_comment :: "string option"

text \<open>The form takes the names of the interfaces that were read when it is mounted.\<close>

definition VlansTab :: "(string list, vlan_form, VlanCreate, Vlan) panel_spec" where
  "VlansTab = \<lparr>sp_new = new_vlan, sp_fits = \<lambda>_. True,
     sp_submit = \<lambda>f. if vf_name f \<noteq> [] \<and> number_ok 1 4094 (Some (vf_vlanId f)) \<and> number_ok 576 9000 (vf_mtu f)
       then Send (vlan_payload f) else Blocked,
     sp_press = \<lambda>b yes r. delete_press (vln_id r) b yes\<rparr>"

definition vlan_ok :: "VlanCreate \<Rightarrow> bool" where
  "vlan_ok p \<longleftrightarrow> vc_name p \<noteq> [] \<and> field_ok 1 4094 (Val (vc_vlan_id p)) \<and> field_ok 576 9000 (vc_mtu p)"

interpretation vlans: panel_contract VlansTab vlan_ok vln_id "\<lambda>_. True"
  by unfold_locales (auto simp: VlansTab_def vlan_ok_def vlan_payload_def field_ok_number field_ok_whole
      dest: press_facts split: if_splits)

subsection \<open>Simple queues\<close>

fun queue_press :: "row_button \<Rightarrow> bool \<Rightarrow> SimpleQueue \<Rightarrow> row_request option" where
  "queue_press BReset yes q = with_id (sq_id q) RowReset"
| "queue_press b yes q = delete_press (sq_id q) b yes"

definition QueuesPage :: "(unit, queue_form, SimpleQueueCreate, SimpleQueue) panel_spec" where
  "QueuesPage = \<lparr>sp_new = \<lambda>_. new_queue, sp_fits = \<lambda>_. True,
     sp_submit = \<lambda>f. if qu_name f \<noteq> [] then Send (queue_payload f) else Blocked, sp_press = queue_press\<rparr>"

definition queue_ok :: "SimpleQueueCreate \<Rightarrow> bool" where
  "queue_ok p \<longleftrightarrow> sqc_name p \<noteq> []"

lemma queue_press_facts:
  "queue_press b yes q = Some x \<Longrightarrow> sq_id q = Some (request_row x) \<and> request_row x \<noteq> []"
  "queue_press b yes q = Some (RowDelete i) \<Longrightarrow> b = BDelete \<and> yes"
  by (cases b; auto simp: with_id_Some split: if_splits)+

interpretation queues: panel_contract QueuesPage queue_ok sq_id "\<lambda>_. True"
  by unfold_locales (auto simp: QueuesPage_def queue_ok_def queue_payload_def dest: queue_press_facts split: if_splits)

subsection \<open>DHCP servers, networks and pools\<close>

record server_draft =
  sdr_name :: string
  sdr_iface :: string
  sdr_pool :: string
  sdr_leaseTime :: string
  sdr_comment :: string

definition new_server_draft :: server_draft where
  "new_server_draft = \<lparr>sdr_name = [], sdr_iface = [], sdr_pool = [], sdr_leaseTime = ''1d'', sdr_comment = []\<rparr>"

text \<open>The browser asks for a name and an interface before the handler's own check of the interface.\<close>

definition ServersPanel :: "(unit, server_draft, DhcpServerCreate, DhcpServer) panel_spec" where
  "ServersPanel = \<lparr>sp_new = \<lambda>_. new_server_draft, sp_fits = \<lambda>_. True,
     sp_submit = \<lambda>f. if sdr_name f = [] \<or> sdr_iface f = [] then Blocked
       else (case ServerForm (sdr_name f) (sdr_iface f) (sdr_pool f) (sdr_leaseTime f) (sdr_comment f) of Inl m \<Rightarrow> Refused m | Inr p \<Rightarrow> Send p),
     sp_press = \<lambda>b yes r. delete_press (ds_id r) b yes\<rparr>"

definition dhcp_server_ok :: "DhcpServerCreate \<Rightarrow> bool" where
  "dhcp_server_ok p \<longleftrightarrow> dsc_name p \<noteq> [] \<and> dsc_interface p \<noteq> []"

interpretation servers: panel_contract ServersPanel dhcp_server_ok ds_id "\<lambda>_. True"
  by unfold_locales (auto simp: ServersPanel_def dhcp_server_ok_def ServerForm_def dest: press_facts split: if_splits)

record network_draft =
  ndr_address :: string
  ndr_gateway :: string
  ndr_dns :: string
  ndr_ntp :: string
  ndr_domain :: string

definition new_network_draft :: network_draft where
  "new_network_draft = \<lparr>ndr_address = [], ndr_gateway = [], ndr_dns = ''1.1.1.1,8.8.8.8'', ndr_ntp = [], ndr_domain = []\<rparr>"

definition NetworksPanel :: "(unit, network_draft, DhcpNetworkCreate, DhcpNetwork) panel_spec" where
  "NetworksPanel = \<lparr>sp_new = \<lambda>_. new_network_draft, sp_fits = \<lambda>_. True,
     sp_submit = \<lambda>f. if ndr_address f \<noteq> [] then Send (NetworkForm (ndr_address f) (ndr_gateway f) (ndr_dns f) (ndr_ntp f) (ndr_domain f)) else Blocked,
     sp_press = \<lambda>b yes r. delete_press (dn_id r) b yes\<rparr>"

definition dhcp_network_ok :: "DhcpNetworkCreate \<Rightarrow> bool" where
  "dhcp_network_ok p \<longleftrightarrow> dnc_address p \<noteq> []"

interpretation networks: panel_contract NetworksPanel dhcp_network_ok dn_id "\<lambda>_. True"
  by unfold_locales (auto simp: NetworksPanel_def dhcp_network_ok_def NetworkForm_def dest: press_facts split: if_splits)

record pool_draft =
  pdr_name :: string
  pdr_ranges :: string
  pdr_comment :: string

definition new_pool_draft :: pool_draft where
  "new_pool_draft = \<lparr>pdr_name = [], pdr_ranges = [], pdr_comment = []\<rparr>"

definition PoolsPanel :: "(unit, pool_draft, DhcpPoolCreate, DhcpPool) panel_spec" where
  "PoolsPanel = \<lparr>sp_new = \<lambda>_. new_pool_draft, sp_fits = \<lambda>_. True,
     sp_submit = \<lambda>f. if pdr_name f \<noteq> [] \<and> pdr_ranges f \<noteq> [] then Send (PoolForm (pdr_name f) (pdr_ranges f) (pdr_comment f)) else Blocked,
     sp_press = \<lambda>b yes r. delete_press (dp_id r) b yes\<rparr>"

definition dhcp_pool_ok :: "DhcpPoolCreate \<Rightarrow> bool" where
  "dhcp_pool_ok p \<longleftrightarrow> dpc_name p \<noteq> [] \<and> dpc_ranges p \<noteq> []"

interpretation pools: panel_contract PoolsPanel dhcp_pool_ok dp_id "\<lambda>_. True"
  by unfold_locales (auto simp: PoolsPanel_def dhcp_pool_ok_def PoolForm_def dest: press_facts split: if_splits)

subsection \<open>Filter rules, NAT rules, WireGuard interfaces\<close>

definition CHAINS :: "string list" where
  "CHAINS = [''input'', ''forward'', ''output'']"

definition ACTIONS :: "string list" where
  "ACTIONS = [''accept'', ''drop'', ''reject'', ''fasttrack-connection'', ''log'', ''passthrough'']"

text \<open>The form of a filter rule is mounted under the chain filter of the page.\<close>

definition FilterPanel :: "(string, filter_form, FilterRuleCreate, FilterRule) panel_spec" where
  "FilterPanel = \<lparr>sp_new = new_filter_form, sp_fits = \<lambda>f. ff_chain f \<in> set CHAINS \<and> ff_action f \<in> set ACTIONS,
     sp_submit = \<lambda>f. Send (filter_payload f),
     sp_press = \<lambda>b yes r. rule_press (fr_id r) (fr_disabled r) (fr_log r) b yes\<rparr>"

definition filter_ok :: "FilterRuleCreate \<Rightarrow> bool" where
  "filter_ok p \<longleftrightarrow> frc_chain p \<in> set CHAINS \<and> frc_action p \<in> set ACTIONS"

interpretation filters: panel_contract FilterPanel filter_ok fr_id "\<lambda>_. True"
  by unfold_locales (auto simp: FilterPanel_def filter_ok_def filter_payload_def dest: press_facts)

definition NAT_CHAINS :: "string list" where
  "NAT_CHAINS = [''dstnat'', ''srcnat'', ''output'']"

definition NAT_ACTIONS :: "string list" where
  "NAT_ACTIONS = [''dst-nat'', ''src-nat'', ''masquerade'', ''redirect'', ''netmap'', ''accept'', ''log'']"

definition NatPanel :: "(unit, nat_form, NatRuleCreate, NatRule) panel_spec" where
  "NatPanel = \<lparr>sp_new = \<lambda>_. new_nat_form, sp_fits = \<lambda>f. nf_chain f \<in> set NAT_CHAINS \<and> nf_action f \<in> set NAT_ACTIONS,
     sp_submit = \<lambda>f. Send (nat_payload f),
     sp_press = \<lambda>b yes r. rule_press (nr_id r) (nr_disabled r) (nr_log r) b yes\<rparr>"

definition nat_ok :: "NatRuleCreate \<Rightarrow> bool" where
  "nat_ok p \<longleftrightarrow> nrc_chain p \<in> set NAT_CHAINS \<and> nrc_action p \<in> set NAT_ACTIONS"

interpretation nats: panel_contract NatPanel nat_ok nr_id "\<lambda>_. True"
  by unfold_locales (auto simp: NatPanel_def nat_ok_def nat_payload_def dest: press_facts)

definition WgInterfaces :: "(unit, wg_iface_form, WgInterfaceCreate, WgInterface) panel_spec" where
  "WgInterfaces = \<lparr>sp_new = \<lambda>_. new_wg_iface, sp_fits = \<lambda>_. True,
     sp_submit = \<lambda>f. if wf_name f \<noteq> [] \<and> number_ok 1 65535 (wf_listenPort f) \<and> number_ok 576 9000 (wf_mtu f)
       then Send (wg_iface_payload f) else Blocked,
     sp_press = \<lambda>b yes r. delete_press (wi_id r) b yes\<rparr>"

definition wg_iface_ok :: "WgInterfaceCreate \<Rightarrow> bool" where
  "wg_iface_ok p \<longleftrightarrow> wic_name p \<noteq> [] \<and> field_ok 1 65535 (wic_listen_port p) \<and> field_ok 576 9000 (wic_mtu p)"

interpretation wgs: panel_contract WgInterfaces wg_iface_ok wi_id "\<lambda>_. True"
  by unfold_locales (auto simp: WgInterfaces_def wg_iface_ok_def wg_iface_payload_def field_ok_number dest: press_facts split: if_splits)


text \<open>The page never shows the message for a server without an interface: the browser asks first.\<close>

theorem interface_message_unseen:
  "pn_error s \<noteq> Some ''Interface is required.'' \<Longrightarrow> pn_error (panel_act ServersPanel SubmitForm s) \<noteq> Some ''Interface is required.''"
  by (auto simp: ServersPanel_def ServerForm_def split: option.splits)

text \<open>A VLAN may be created under no interface: with none on the router the select is empty and the browser does not ask.\<close>

theorem vlan_without_interface:
  "Creates \<lparr>vc_name = ''v'', vc_interface = [], vc_vlan_id = 10, vc_mtu = Val 1500, vc_comment = Null\<rparr> \<in> set (pn_sent
     (fold (panel_act VlansTab) [ToggleForm [], Draft ((new_vlan [])\<lparr>vf_name := ''v''\<rparr>), SubmitForm] blank_panel))"
proof -
  have f: "\<lfloor>10 :: rat\<rfloor> = 10" "\<lfloor>1500 :: rat\<rfloor> = 1500" by simp_all
  show ?thesis by (simp add: VlansTab_def blank_panel_def mount_form_def new_vlan_def number_ok_def vlan_payload_def or_null_def f)
qed

section \<open>Witnesses\<close>

theorem late_creation_hides_form_witness:
  "pn_form (fold (panel_act QueuesPage) [ToggleForm (), Draft (new_queue\<lparr>qu_name := ''a''\<rparr>), SubmitForm, ToggleForm (), ToggleForm (),
     Draft (new_queue\<lparr>qu_name := ''b''\<rparr>), Created 0] blank_panel) = None"
  using late_creation_hides_form [of QueuesPage "new_queue\<lparr>qu_name := ''a''\<rparr>" "queue_payload (new_queue\<lparr>qu_name := ''a''\<rparr>)" "new_queue\<lparr>qu_name := ''b''\<rparr>" "()"]
  by (simp add: QueuesPage_def)

theorem interface_message_unseen_witness: "pn_error (panel_act ServersPanel SubmitForm blank_panel) \<noteq> Some ''Interface is required.''"
  by (rule interface_message_unseen) (simp add: blank_panel_def)

end
