(* ===== verification/Row_Cells.thy ===== *)
theory Row_Cells
  imports Create_Panel Session_Page
begin

text \<open>
  What the pages of a router show: the rows of its tables, the states of a table without rows, the
  choices of an interface, the header of a sorted table, and the labels of the neighbour graph
  (\<open>devices/[id]/network/page.tsx\<close>, \<open>dhcp/page.tsx\<close>, \<open>firewall/page.tsx\<close>,
  \<open>vpn/wireguard/page.tsx\<close>). Numbers are printed by \<open>ns\<close>. Lengths of a label are those of ASCII text.
\<close>

section \<open>Tables\<close>

datatype cell = Cell string | Chips "string list" | Buttons "string list"

datatype body_row = Loading nat | NoRows nat string | DataRow "cell list"

text \<open>
  The body of a table of so many columns. \<open>isLoading\<close> is false when a read has failed; its rows are
  undefined then.
\<close>

definition table_body :: "nat \<Rightarrow> string \<Rightarrow> ('r \<Rightarrow> cell list) \<Rightarrow> bool \<Rightarrow> 'r list option \<Rightarrow> body_row list" where
  "table_body width label row isLoading rs =
     (if isLoading then [Loading width] else []) @
     (if \<not> isLoading \<and> (rs = None \<or> rs = Some []) then [NoRows width label] else []) @
     map (DataRow \<circ> row) (case rs of None \<Rightarrow> [] | Some xs \<Rightarrow> xs)"

text \<open>The tables of the DHCP page, over the rows that pass the filters.\<close>

definition dhcp_body :: "nat \<Rightarrow> string \<Rightarrow> ('r \<Rightarrow> cell list) \<Rightarrow> bool \<Rightarrow> 'r list \<Rightarrow> body_row list" where
  "dhcp_body width label row isLoading shown =
     (if shown = [] \<or> isLoading then [if isLoading then Loading width else NoRows width label] else []) @ map (DataRow \<circ> row) shown"

definition num_or_dash :: "(rat \<Rightarrow> string) \<Rightarrow> rat option \<Rightarrow> string" where
  "num_or_dash ns v = (case v of None \<Rightarrow> em_dash | Some n \<Rightarrow> ns n)"

definition ellipsis :: string where
  "ellipsis = [CHR 0xE2, CHR 0x80, CHR 0xA6]"

text \<open>Flags that are shown when they are true.\<close>

definition flags :: "(bool option \<times> string) list \<Rightarrow> cell" where
  "flags fs = Chips (map snd (filter (\<lambda>f. fst f = Some True) fs))"

subsection \<open>Network\<close>

record Interface =
  itf_id :: "string option"
  itf_name :: string
  itf_type :: string
  itf_running :: "bool option"
  itf_disabled :: bool
  itf_mac_address :: "string option"
  itf_mtu :: "rat option"
  itf_actual_mtu :: "rat option"
  itf_rx_bytes :: "rat option"
  itf_tx_bytes :: "rat option"
  itf_comment :: "string option"

definition INTERFACE_COLS :: "string list" where
  "INTERFACE_COLS = [''Name'', ''Type'', ''MAC'', ''MTU'', ''RX'', ''TX'', ''State'', ''Lists'', ''Comment'', []]"

definition interface_row :: "(rat \<Rightarrow> string) \<Rightarrow> InterfaceListMember list option \<Rightarrow> Interface \<Rightarrow> cell list" where
  "interface_row ns members i = [Cell (itf_name i), Cell (itf_type i), Cell (dash (itf_mac_address i)), Cell (num_or_dash ns (itf_mtu i)),
     Cell (formatBytes_net (itf_rx_bytes i)), Cell (formatBytes_net (itf_tx_bytes i)), Cell (interface_state (itf_disabled i) (itf_running i)),
     (case listsByInterface members (itf_name i) of [] \<Rightarrow> Cell em_dash | ms \<Rightarrow> Chips (map lm_list ms)), Cell (dash (itf_comment i)), Buttons [''Reset'']]"

definition InterfacesTab :: "(rat \<Rightarrow> string) \<Rightarrow> InterfaceListMember list option \<Rightarrow> bool \<Rightarrow> Interface list option \<Rightarrow> body_row list" where
  "InterfacesTab ns members = table_body 10 ''No interfaces.'' (interface_row ns members)"

text \<open>The reset button, disabled while a reset is under way; the interface is named, not its id.\<close>

definition press_reset_counters :: "env \<Rightarrow> string \<Rightarrow> bool \<Rightarrow> Interface \<Rightarrow> unit call option" where
  "press_reset_counters E dev pending i = (if pending then None else Some (resetInterfaceCounters E dev (itf_name i)))"

record InterfaceList =
  il_id :: "string option"
  il_name :: string
  il_include :: "string option"
  il_exclude :: "string option"
  il_dynamic :: bool
  il_builtin :: bool
  il_comment :: "string option"

definition sortedLists :: "(string \<Rightarrow> string \<Rightarrow> int) \<Rightarrow> InterfaceList list option \<Rightarrow> InterfaceList list" where
  "sortedLists lc ils = sort_by (\<lambda>a b. lc (il_name a) (il_name b)) (case ils of None \<Rightarrow> [] | Some ls \<Rightarrow> ls)"

record list_card =
  lk_name :: string
  lk_badge :: "string option"
  lk_comment :: "string option"
  lk_members :: string
  lk_rules :: "(string \<times> string) list"
  lk_chips :: "(string \<times> string \<times> member_style) list"

text \<open>The title of a chip on a card says less than the one in the table of interfaces.\<close>

definition chip_title :: "InterfaceListMember \<Rightarrow> string" where
  "chip_title m = (if lm_dynamic m then ''Dynamic '' @ em_dash @ '' matched via include/exclude, not a manual entry''
     else if lm_disabled m then ''Disabled member row'' else ''Manual member'')"

definition list_card :: "InterfaceListMember list option \<Rightarrow> InterfaceList \<Rightarrow> list_card" where
  "list_card members l =
     (let ms = membersByList members (il_name l)
      in \<lparr>lk_name = il_name l, lk_badge = (if il_builtin l then Some ''built-in'' else if il_dynamic l then Some ''dynamic'' else None),
          lk_comment = (if truthy_str (il_comment l) then il_comment l else None),
          lk_members = show_nat (length ms) @ '' member'' @ (if length ms = 1 then [] else ''s''),
          lk_rules = (if truthy_str (il_include l) then [(''include:'', the (il_include l))] else []) @
            (if truthy_str (il_exclude l) then [(''exclude:'', the (il_exclude l))] else []),
          lk_chips = map (\<lambda>m. (lm_interface m, chip_title m, membership_style m)) ms\<rparr>)"

text \<open>The tab: the error of either query, or one of the two lines that stand for no card, and the cards.\<close>

definition InterfaceListsTab :: "(string \<Rightarrow> string \<Rightarrow> int) \<Rightarrow> bool \<Rightarrow> string option \<Rightarrow> string option \<Rightarrow> InterfaceList list option \<Rightarrow>
    InterfaceListMember list option \<Rightarrow> string list \<times> list_card list" where
  "InterfaceListsTab lc isLoading listsError memberError ils members =
     ((case listsError of Some m \<Rightarrow> [m] | None \<Rightarrow> (case memberError of Some m \<Rightarrow> [m] | None \<Rightarrow> [])) @
      (if isLoading then [''Loading'' @ ellipsis] else []) @
      (if \<not> isLoading \<and> sortedLists lc ils = [] \<and> listsError = None then [''No interface lists yet.''] else []),
      map (list_card members) (sortedLists lc ils))"

definition ROUTE_COLS :: "string list" where
  "ROUTE_COLS = [''Destination'', ''Gateway'', ''Distance'', ''Table'', ''Flags'', ''Comment'', []]"

definition route_row :: "(rat \<Rightarrow> string) \<Rightarrow> IpRoute \<Rightarrow> cell list" where
  "route_row ns r = [Cell (ipr_dst_address r), Cell (dash (ipr_gateway r)), Cell (num_or_dash ns (ipr_distance r)),
     Cell (case ipr_routing_table r of None \<Rightarrow> ''main'' | Some t \<Rightarrow> t),
     flags [(ipr_active r, ''A''), (ipr_dynamic r, ''D''), (ipr_static r, ''S'')], Cell (dash (ipr_comment r)),
     Buttons (if ipr_dynamic r \<noteq> Some True \<and> truthy_str (ipr_id r) then [''Delete''] else [])]"

definition VLAN_COLS :: "string list" where
  "VLAN_COLS = [''Name'', ''VLAN ID'', ''Parent interface'', ''MTU'', ''Comment'', []]"

definition vlan_row :: "(rat \<Rightarrow> string) \<Rightarrow> Vlan \<Rightarrow> cell list" where
  "vlan_row ns v = [Cell (vln_name v), Cell (ns (vln_vlan_id v)), Cell (vln_interface v), Cell (num_or_dash ns (vln_mtu v)),
     Cell (dash (vln_comment v)), Buttons [''Delete'']]"

record ArpEntry =
  arp_id :: "string option"
  arp_address :: string
  arp_mac_address :: "string option"
  arp_interface :: "string option"
  arp_complete :: "bool option"
  arp_dynamic :: "bool option"
  arp_invalid :: "bool option"
  arp_comment :: "string option"

definition ARP_COLS :: "string list" where
  "ARP_COLS = [''IP'', ''MAC'', ''Interface'', ''Flags'', ''Comment'']"

definition arp_row :: "ArpEntry \<Rightarrow> cell list" where
  "arp_row a = [Cell (arp_address a), Cell (dash (arp_mac_address a)), Cell (dash (arp_interface a)),
     flags [(arp_dynamic a, ''dyn''), (arp_complete a, ''ok''), (arp_invalid a, ''inv'')], Cell (dash (arp_comment a))]"

definition ArpTab :: "bool \<Rightarrow> ArpEntry list option \<Rightarrow> body_row list" where
  "ArpTab = table_body 5 ''ARP table is empty.'' arp_row"

record BridgeHost =
  bh_id :: "string option"
  bh_mac_address :: string
  bh_on_interface :: "string option"
  bh_bridge :: "string option"
  bh_age :: "string option"
  bh_dynamic :: "bool option"
  bh_external :: "bool option"

definition BRIDGE_COLS :: "string list" where
  "BRIDGE_COLS = [''MAC'', ''Port'', ''Bridge'', ''Age'', ''Flags'']"

definition bridge_row :: "BridgeHost \<Rightarrow> cell list" where
  "bridge_row h = [Cell (bh_mac_address h), Cell (dash (bh_on_interface h)), Cell (dash (bh_bridge h)), Cell (dash (bh_age h)),
     flags [(bh_dynamic h, ''dyn''), (bh_external h, ''ext'')]]"

definition BridgeTab :: "bool \<Rightarrow> BridgeHost list option \<Rightarrow> body_row list" where
  "BridgeTab = table_body 5 ''Bridge has not learned any hosts yet.'' bridge_row"

definition NEIGHBOR_COLS :: "string list" where
  "NEIGHBOR_COLS = [''Local port'', ''Identity'', ''Address'', ''MAC'', ''Platform'', ''Version'', ''Board'', ''Remote port'', ''Proto'', ''Age'']"

definition neighbor_row :: "Neighbor \<Rightarrow> cell list" where
  "neighbor_row n = [Cell (dash (nb_interface n)), Cell (dash (nb_identity n)),
     Cell (case nb_address n of Some a \<Rightarrow> a | None \<Rightarrow> dash (nb_address6 n)), Cell (dash (nb_mac_address n)), Cell (dash (nb_platform n)),
     Cell (dash (nb_version n)), Cell (dash (nb_board n)), Cell (dash (nb_interface_name n)),
     (if truthy_str (nb_discovered_by n) then Chips [the (nb_discovered_by n)] else Cell em_dash), Cell (dash (nb_age n))]"

subsection \<open>DHCP\<close>

record col_def =
  cd_id :: string
  cd_label :: string
  cd_noFilter :: bool
  cd_noSort :: bool
  cd_placeholder :: "string option"

definition plain_col :: "string \<times> string \<Rightarrow> col_def" where
  "plain_col c = \<lparr>cd_id = fst c, cd_label = snd c, cd_noFilter = False, cd_noSort = False, cd_placeholder = None\<rparr>"

definition actions_col :: col_def where
  "actions_col = \<lparr>cd_id = ''actions'', cd_label = [], cd_noFilter = True, cd_noSort = True, cd_placeholder = None\<rparr>"

definition LEASE_COLS :: "col_def list" where
  "LEASE_COLS = map plain_col [(''address'', ''Address''), (''mac_address'', ''MAC''), (''host_name'', ''Host''), (''status'', ''Status''), (''server'', ''Server'')] @
     [(plain_col (''type'', ''Type''))\<lparr>cd_placeholder := Some ''static / dynamic''\<rparr>] @
     map plain_col [(''expires'', ''Expires''), (''comment'', ''Comment'')] @ [actions_col]"

definition SERVER_COLS :: "col_def list" where
  "SERVER_COLS = map plain_col [(''name'', ''Name''), (''interface'', ''Interface''), (''address_pool'', ''Pool''), (''lease_time'', ''Lease time''),
     (''authoritative'', ''Authoritative''), (''status'', ''Status''), (''comment'', ''Comment'')] @ [actions_col]"

definition NETWORK_COLS :: "col_def list" where
  "NETWORK_COLS = map plain_col [(''address'', ''Address''), (''gateway'', ''Gateway''), (''dns_servers'', ''DNS''), (''ntp_servers'', ''NTP''),
     (''domain'', ''Domain''), (''comment'', ''Comment'')] @ [actions_col]"

definition POOL_COLS :: "col_def list" where
  "POOL_COLS = map plain_col [(''name'', ''Name''), (''ranges'', ''Ranges''), (''next_pool'', ''Next pool''), (''comment'', ''Comment'')] @ [actions_col]"

definition DHCP_TABS :: "string list" where
  "DHCP_TABS = [''leases'', ''servers'', ''networks'', ''pools'']"

text \<open>The tab of the address, the leases when it names none.\<close>

definition dhcp_tab :: "string option \<Rightarrow> string" where
  "dhcp_tab raw = (case raw of Some v \<Rightarrow> if v \<in> set DHCP_TABS then v else ''leases'' | None \<Rightarrow> ''leases'')"

datatype sort_mark = Unsortable | Up | Down | Both

text \<open>What a column's header shows: the mark of its sort button, and the text and placeholder of its filter field.\<close>

definition TableHeader :: "table_state \<Rightarrow> col_def \<Rightarrow> sort_mark \<times> (string \<times> string) option" where
  "TableHeader t c =
     (if cd_noSort c then Unsortable
      else if so_by (ts_sort t) = Some (cd_id c) \<and> so_dir (ts_sort t) \<noteq> None then (if so_dir (ts_sort t) = Some Asc then Up else Down)
      else Both,
      if cd_noFilter c then None
      else Some (case map_of (ts_filters t) (cd_id c) of None \<Rightarrow> [] | Some v \<Rightarrow> v,
        case cd_placeholder c of None \<Rightarrow> ''filter'' @ ellipsis | Some p \<Rightarrow> p))"

definition lease_buttons :: "DhcpLease \<Rightarrow> string list" where
  "lease_buttons l = (if canReserve l then [''Reserve''] else []) @ [''Delete'']"

text \<open>The comment is a button that opens its field.\<close>

definition lease_row :: "DhcpLease \<Rightarrow> cell list" where
  "lease_row l = [Cell (le_address l), Cell (le_mac_address l), Cell (dash (le_host_name l)), Cell (dash (le_status l)), Cell (dash (le_server l)),
     Chips ((if le_dynamic l then ''dynamic'' else ''static'') # (if le_blocked l then [''blocked''] else [])), Cell (dash (le_expires_at_iso l)),
     Buttons [if truthy_str (le_comment l) then the (le_comment l) else ''+ add comment''], Buttons (lease_buttons l)]"

definition lease_reserved :: "DhcpLease \<Rightarrow> bool" where
  "lease_reserved l \<longleftrightarrow> \<not> canReserve l \<and> \<not> le_dynamic l"

definition dhcp_server_row :: "DhcpServer \<Rightarrow> cell list" where
  "dhcp_server_row r = [Cell (ds_name r), Cell (ds_interface r), Cell (dash (ds_address_pool r)), Cell (dash (ds_lease_time r)),
     Cell (dash (ds_authoritative r)), Cell (if ds_disabled r then ''disabled'' else ''active''), Cell (dash (ds_comment r)),
     Buttons ((if truthy_str (ds_id r) then [''Edit''] else []) @ [''Delete''])]"

definition dhcp_network_row :: "DhcpNetwork \<Rightarrow> cell list" where
  "dhcp_network_row n = [Cell (dn_address n), Cell (dash (dn_gateway n)), Cell (dash (dn_dns_servers n)), Cell (dash (dn_ntp_servers n)),
     Cell (dash (dn_domain n)), Cell (dash (dn_comment n)), Buttons [''Delete'']]"

definition dhcp_pool_row :: "DhcpPool \<Rightarrow> cell list" where
  "dhcp_pool_row p = [Cell (dp_name p), Cell (dp_ranges p), Cell (dash (dp_next_pool p)), Cell (dash (dp_comment p)),
     Buttons ((if truthy_str (dp_id p) then [''Edit''] else []) @ [''Delete''])]"

text \<open>The count above the leases.\<close>

definition leases_count :: "DhcpLease list \<Rightarrow> DhcpLease list option \<Rightarrow> string" where
  "leases_count shown leases = show_nat (length shown) @ '' of '' @ show_nat (case leases of None \<Rightarrow> 0 | Some ls \<Rightarrow> length ls)"

text \<open>
  The choices for an interface, as values and texts: none, the current one where the router no
  longer has it, and those of the router by kind and name.
\<close>

definition InterfaceSelect :: "(string \<Rightarrow> string \<Rightarrow> int) \<Rightarrow> string \<Rightarrow> Interface list \<Rightarrow> (string \<times> string) list" where
  "InterfaceSelect lc val ifs =
     (let ordered = sort_by (or_cmp (\<lambda>a b. num_cmp (iface_score (itf_type a)) (iface_score (itf_type b))) (\<lambda>a b. lc (itf_name a) (itf_name b))) ifs
      in [([], em_dash @ '' pick an interface '' @ em_dash)] @
         (if hasCurrent val (map (\<lambda>i. (itf_name i, itf_type i)) ordered) then [] else [(val, val @ '' (not in current list)'')]) @
         map (\<lambda>i. (itf_name i, itf_name i @ '' ('' @ itf_type i @ '')'' @ (if itf_disabled i then '' '' @ mid_dot @ '' disabled'' else []))) ordered)"

definition pool_options :: "DhcpPool list \<Rightarrow> (string \<times> string) list" where
  "pool_options ps = ([], em_dash @ '' none '' @ em_dash) # map (\<lambda>p. (dp_name p, dp_name p @ '' ('' @ dp_ranges p @ '')'')) ps"

subsection \<open>Firewall and WireGuard\<close>

definition ActionPill :: "string \<Rightarrow> string" where
  "ActionPill action = (case map_of [(''accept'', ''emerald''), (''drop'', ''red''), (''reject'', ''red''), (''log'', ''amber''),
     (''fasttrack-connection'', ''sky'')] action of None \<Rightarrow> ''zinc'' | Some c \<Rightarrow> c)"

definition counters_text :: "int option \<Rightarrow> int option \<Rightarrow> string" where
  "counters_text bytes packets = formatBytes_fw bytes @ '' / '' @ show_int (case packets of None \<Rightarrow> 0 | Some n \<Rightarrow> n)"

definition FILTER_COLS :: "string list" where
  "FILTER_COLS = [''Order'', ''Chain'', ''Action'', ''Src'', ''Dst'', ''Proto'', ''Dst port'', ''In iface'', ''State'', ''Log'', ''Comment'', []]"

definition first_or_dash :: "string option \<Rightarrow> string option \<Rightarrow> string" where
  "first_or_dash a b = (case a of Some v \<Rightarrow> v | None \<Rightarrow> dash b)"

definition filter_row :: "FilterRule \<Rightarrow> cell list" where
  "filter_row r = [Buttons [''Move to top of chain'', ''Move up one'', ''Move down one'', ''Move to bottom of chain''], Cell (fr_chain r),
     Chips [fr_action r], Cell (first_or_dash (fr_src_address r) (fr_src_address_list r)),
     Cell (first_or_dash (fr_dst_address r) (fr_dst_address_list r)), Cell (dash (fr_protocol r)), Cell (dash (fr_dst_port r)),
     Cell (dash (fr_in_interface r)), Cell (dash (fr_connection_state r)),
     Chips ((if fr_log r then ''ON'' else ''off'') #
       (if fr_bytes_count r \<noteq> None \<or> fr_packets_count r \<noteq> None then [counters_text (fr_bytes_count r) (fr_packets_count r)] else [])),
     Cell (dash (fr_comment r)), Buttons [''Reset'', if fr_disabled r then ''Enable'' else ''Disable'', ''Delete'']]"

definition NAT_COLS :: "string list" where
  "NAT_COLS = [''Chain'', ''Action'', ''Src'', ''Dst'', ''Proto'', ''Dst port'', right_arrow @ '' To'', ''Bytes / Packets'', ''Log'', ''Comment'', []]"

definition nat_row :: "NatRule \<Rightarrow> cell list" where
  "nat_row r = [Cell (nr_chain r), Chips [nr_action r], Cell (dash (nr_src_address r)), Cell (dash (nr_dst_address r)), Cell (dash (nr_protocol r)),
     Cell (dash (nr_dst_port r)),
     Chips (dash (nr_to_addresses r) # (if truthy_str (nr_to_ports r) then [CHR '':'' # the (nr_to_ports r)] else [])),
     Cell (counters_text (nr_bytes_count r) (nr_packets_count r)), Buttons [if nr_log r then ''ON'' else ''off''], Cell (dash (nr_comment r)),
     Buttons [''Reset'', if nr_disabled r then ''Enable'' else ''Disable'', ''Delete'']]"

text \<open>
  The page of a host shows ufw, that of a router its tables; the query of the filter rules runs for
  every device that is not known to be a host.
\<close>

definition fw_is_server :: "Device option \<Rightarrow> bool" where
  "fw_is_server d \<longleftrightarrow> map_option d_device_class d = Some ''server''"

definition filter_query_enabled :: "string \<Rightarrow> Device option \<Rightarrow> bool" where
  "filter_query_enabled dev d \<longleftrightarrow> dev \<noteq> [] \<and> \<not> fw_is_server d"

definition WG_IFACE_COLS :: "string list" where
  "WG_IFACE_COLS = [''Name'', ''Listen port'', ''Server pubkey'', ''MTU'', []]"

definition wg_iface_row :: "(rat \<Rightarrow> string) \<Rightarrow> WgInterface \<Rightarrow> cell list" where
  "wg_iface_row ns i = [Cell (wi_name i), Cell (num_or_dash ns (wi_listen_port i)), Cell (dash (wi_public_key i)), Cell (num_or_dash ns (wi_mtu i)),
     Buttons [''Delete'']]"

definition WG_PEER_COLS :: "string list" where
  "WG_PEER_COLS = [''Interface'', ''Peer pubkey'', ''Allowed address'', ''Comment'', ''Actions'']"

definition wg_peer_row :: "WgPeer \<Rightarrow> cell list" where
  "wg_peer_row p = [Cell (wp_interface p), Cell (dash (wp_public_key p)), Cell (dash (wp_allowed_address p)), Cell (dash (wp_comment p)),
     Buttons [''Download config'', ''Restrict'', ''Delete'']]"

text \<open>The button for a new peer and its title; the form shows while there is an interface to put it on.\<close>

definition new_peer_button :: "WgInterface list option \<Rightarrow> bool \<times> string" where
  "new_peer_button ifs = (let none = (ifs = None \<or> ifs = Some []) in (none, if none then ''Create a WG interface first'' else []))"

definition peer_form_shown :: "bool \<Rightarrow> WgInterface list option \<Rightarrow> bool" where
  "peer_form_shown showPeerForm ifs \<longleftrightarrow> showPeerForm \<and> (case ifs of None \<Rightarrow> False | Some is \<Rightarrow> is \<noteq> [])"

section \<open>The neighbour graph\<close>

text \<open>\<open>[...enabledProtocols]\<close>: in the order in which the setting names them.\<close>

definition protocol_order :: "NeighborDiscovery option \<Rightarrow> string list" where
  "protocol_order d =
     (if \<not> truthy_str (Option.bind d nd_protocols) then []
      else fold jset_add (filter (\<lambda>p. p \<in> set ALL_PROTOCOLS) (map (\<lambda>p. toLowerCase (trim p)) (split CHR '','' (the (Option.bind d nd_protocols))))) [])"

definition emptyHeadline :: "NeighborDiscovery option \<Rightarrow> string" where
  "emptyHeadline d =
     (if discoveryOff d then ''Discovery is off on this device.''
      else if \<not> allProtocolsOn d
      then ''Discovery is partially on ('' @ (let t = toUpperCase (join '', '' (protocol_order d)) in if t = [] then ''none'' else t) @ '').''
      else ''No neighbours yet.'')"

definition emptyBody :: "NeighborDiscovery option \<Rightarrow> string" where
  "emptyBody d =
     (if discoveryOff d then ''Turn it on with the button above and give the device a few seconds to advertise.''
      else if \<not> allProtocolsOn d then ''Some peers may not be reached. Toggle the missing protocols above to widen the net.''
      else ''Discovery is on. Check that peer devices advertise via CDP, LLDP or MNDP and are connected to one of this router's interfaces.'')"

definition truncate_label :: "string \<Rightarrow> nat \<Rightarrow> string" where
  "truncate_label s n = (if length s \<le> n then s else take (n - 1) s @ ellipsis)"

definition peer_sub :: "Neighbor \<Rightarrow> string" where
  "peer_sub n = (case nb_platform n of Some v \<Rightarrow> v | None \<Rightarrow> (case nb_board n of Some v \<Rightarrow> v | None \<Rightarrow> or_blank (nb_discovered_by n)))"

text \<open>The label of the line to a peer: the box of its text, as left, top, right and bottom edges.\<close>

definition EdgeLabel :: "real \<times> real \<Rightarrow> real \<times> real \<Rightarrow> string \<Rightarrow> real \<times> real \<times> real \<times> real" where
  "EdgeLabel p q txt =
     (let t = 4 / 10; mx = fst p + (fst q - fst p) * t; my = snd p + (snd q - snd p) * t; padX = 6;
          labelWidth = real (length txt) * (56 / 10) + padX * 2
      in (mx - labelWidth / 2, my - 8, mx - labelWidth / 2 + labelWidth, my - 8 + 14))"

record graph_node =
  gn_at :: "real \<times> real"
  gn_label :: string
  gn_sub :: string
  gn_color :: string
  gn_edge :: "string option"

datatype graph_view = LoadingTopology | NoNeighbours string string bool | Drawing "graph_node list" string

text \<open>The line of a peer has a label when the peer names the local interface.\<close>

definition NeighborsGraph :: "bool \<Rightarrow> NeighborDiscovery option \<Rightarrow> Neighbor list option \<Rightarrow> graph_view" where
  "NeighborsGraph isLoading d peers =
     (let ns = (case peers of None \<Rightarrow> [] | Some xs \<Rightarrow> xs); n = length ns
      in if isLoading then LoadingTopology
         else if ns = [] then NoNeighbours (emptyHeadline d) (emptyBody d) (discoveryOff d)
         else Drawing (map (\<lambda>(i, x). \<lparr>gn_at = node_xy n i, gn_label = truncate_label (node_label x) 16,
                gn_sub = truncate_label (peer_sub x) 22, gn_color = platformColor (nb_platform x),
                gn_edge = (if truthy_str (nb_interface x) then nb_interface x else None)\<rparr>) (enumerate 0 ns))
              (''Showing '' @ show_nat n @ '' neighbour'' @ (if n = 1 then [] else ''s'') @
               ''. Lines label the local port; hover a node for full details.''))"

section \<open>Rows and columns\<close>

text \<open>Every row of every table has a cell for each of its columns.\<close>

theorem rows_fill_columns:
  "length (interface_row ns ms i) = length INTERFACE_COLS \<and> length (route_row ns r) = length ROUTE_COLS \<and>
   length (vlan_row ns v) = length VLAN_COLS \<and> length (arp_row a) = length ARP_COLS \<and> length (bridge_row h) = length BRIDGE_COLS \<and>
   length (neighbor_row n) = length NEIGHBOR_COLS \<and> length (lease_row l) = length LEASE_COLS \<and>
   length (dhcp_server_row s) = length SERVER_COLS \<and> length (dhcp_network_row w) = length NETWORK_COLS \<and>
   length (dhcp_pool_row p) = length POOL_COLS \<and> length (filter_row f) = length FILTER_COLS \<and> length (nat_row t) = length NAT_COLS \<and>
   length (wg_iface_row ns g) = length WG_IFACE_COLS \<and> length (wg_peer_row q) = length WG_PEER_COLS"
  by (simp add: interface_row_def INTERFACE_COLS_def route_row_def ROUTE_COLS_def vlan_row_def VLAN_COLS_def arp_row_def ARP_COLS_def
      bridge_row_def BRIDGE_COLS_def neighbor_row_def NEIGHBOR_COLS_def lease_row_def LEASE_COLS_def dhcp_server_row_def SERVER_COLS_def
      dhcp_network_row_def NETWORK_COLS_def dhcp_pool_row_def POOL_COLS_def filter_row_def FILTER_COLS_def nat_row_def NAT_COLS_def
      wg_iface_row_def WG_IFACE_COLS_def wg_peer_row_def WG_PEER_COLS_def)

text \<open>The buttons of a row are those its panel acts on: a route with a delete button can be deleted, and no other.\<close>

theorem route_button_acts:
  "route_row ns r ! 6 = Buttons [''Delete''] \<longleftrightarrow> sp_press RoutesTab BDelete True r \<noteq> None"
  by (auto simp: route_row_def RoutesTab_def with_id_def)

text \<open>
  A read that failed leaves a table like one of a router without rows; on the DHCP page nothing else
  tells of the failure, and a filter that fits no row shows the same line.
\<close>

theorem failed_read_looks_empty:
  "table_body width label row False None = table_body width label row False (Some []) \<and>
   dhcp_body width label row False (visible lc opts t []) = [NoRows width label] \<and>
   (visible lc opts t rs = [] \<longrightarrow> dhcp_body width label row False (visible lc opts t rs) = dhcp_body width label row False (visible lc opts t []))"
proof -
  have "visible lc opts t [] = []" by (simp add: visible_def Let_def apply_filters_def split: option.splits)
  then show ?thesis by (simp add: table_body_def dhcp_body_def)
qed

text \<open>A host is asked for the filter rules of a router until the page knows that it is a host.\<close>

theorem filter_rules_of_unknown_host:
  "dev \<noteq> [] \<Longrightarrow> filter_query_enabled dev None \<and> \<not> filter_query_enabled dev (Some (d\<lparr>d_device_class := ''server''\<rparr>))"
  by (simp add: filter_query_enabled_def fw_is_server_def)

section \<open>Headers and choices\<close>

lemma mark_sorted: "fst (TableHeader t c) \<in> {Up, Down} \<Longrightarrow> so_by (ts_sort t) = Some (cd_id c)"
  by (auto simp: TableHeader_def split: if_splits)

lemma one_with_key: "distinct (map f xs) \<Longrightarrow> (\<And>x. P x \<Longrightarrow> k = Some (f x)) \<Longrightarrow> length (filter P xs) \<le> 1"
proof (induction xs)
  case (Cons x xs)
  show ?case
  proof (cases "P x")
    case True
    have "\<not> P y" if "y \<in> set xs" for y
    proof
      assume "P y"
      then have "f y = f x" using Cons.prems(2) [OF True] Cons.prems(2) [of y] by simp
      then show False using Cons.prems(1) that by (metis distinct.simps(2) image_eqI list.simps(9) list.set_map)
    qed
    then have "filter P xs = []" by (simp add: filter_empty_conv)
    then show ?thesis by simp
  qed (use Cons in auto)
qed simp

text \<open>
  At most one column carries an arrow, whatever was clicked; the clicks on a column go up, down and
  back to none.
\<close>

theorem one_column_sorted:
  assumes "distinct (map cd_id cols)"
  shows "length (filter (\<lambda>c. fst (TableHeader t c) \<in> {Up, Down}) cols) \<le> 1 \<and>
    (\<not> cd_noSort c \<longrightarrow> map (\<lambda>n. fst (TableHeader ((onSort (cd_id c) ^^ n) new_table) c)) [0, 1, 2, 3] = [Both, Up, Down, Both])"
  using one_with_key [OF assms mark_sorted]
  by (simp add: TableHeader_def onSort_def next_sort_def new_table_def numeral_2_eq_2 numeral_3_eq_3)

lemma columns_distinct: "\<forall>cols \<in> {LEASE_COLS, SERVER_COLS, NETWORK_COLS, POOL_COLS}. distinct (map cd_id cols)"
  by (simp add: LEASE_COLS_def SERVER_COLS_def NETWORK_COLS_def POOL_COLS_def plain_col_def actions_col_def)

text \<open>
  The interface that is chosen is always among the choices, once; and so is every interface of the
  router, as long as their names are distinct.
\<close>

theorem select_shows_choice:
  assumes "distinct (map itf_name ifs)" "[] \<notin> set (map itf_name ifs)"
  shows "distinct (map fst (InterfaceSelect lc val ifs)) \<and>
    set (map fst (InterfaceSelect lc val ifs)) = {[], val} \<union> set (map itf_name ifs)"
proof -
  define os where "os = sort_by (or_cmp (\<lambda>a b. num_cmp (iface_score (itf_type a)) (iface_score (itf_type b))) (\<lambda>a b. lc (itf_name a) (itf_name b))) ifs"
  have m: "mset (map itf_name os) = mset (map itf_name ifs)" by (simp add: os_def)
  then have d: "distinct (map itf_name os)" and n: "set (map itf_name os) = set (map itf_name ifs)"
    using assms(1) mset_eq_imp_distinct_iff mset_eq_setD by metis+
  have c: "hasCurrent val (map (\<lambda>i. (itf_name i, itf_type i)) os) \<longleftrightarrow> val = [] \<or> val \<in> set (map itf_name ifs)"
    unfolding n [symmetric] by (auto simp: hasCurrent_def list_ex_iff)
  have f: "map fst (InterfaceSelect lc val ifs) =
      [] # (if val = [] \<or> val \<in> set (map itf_name ifs) then [] else [val]) @ map itf_name os"
    unfolding InterfaceSelect_def os_def [symmetric] Let_def c by (simp add: comp_def)
  show ?thesis unfolding f using d n assms(2) by auto
qed

section \<open>Texts and labels of the graph\<close>

lemma protocol_order_set: "set (protocol_order d) = enabledProtocols d"
  by (auto simp: protocol_order_def enabledProtocols_def parseProtocols_def fold_jset_add)

text \<open>
  Where discovery is partly on, the headline names the protocols that are on; the alternative that
  none is never comes up.
\<close>

theorem headline_names_protocols:
  assumes "\<not> discoveryOff d" "\<not> allProtocolsOn d"
  shows "emptyHeadline d = ''Discovery is partially on ('' @ toUpperCase (join '', '' (protocol_order d)) @ '').'' \<and>
    set (protocol_order d) = enabledProtocols d \<and> protocol_order d \<noteq> []"
proof -
  have ne: "protocol_order d \<noteq> []" using assms(1) protocol_order_set [of d] by (auto simp: discoveryOff_def)
  then have "hd (protocol_order d) \<in> set (protocol_order d)" by (rule hd_in_set)
  then have h: "hd (protocol_order d) \<noteq> []"
    using parse_known [of "Option.bind d nd_protocols"] by (auto simp: protocol_order_set enabledProtocols_def ALL_PROTOCOLS_def)
  then have "join '', '' (protocol_order d) \<noteq> []" using ne by (cases "protocol_order d" rule: remdups_adj.cases) auto
  then have "toUpperCase (join '', '' (protocol_order d)) \<noteq> []" by (simp add: toUpperCase_def)
  then show ?thesis using assms ne protocol_order_set by (simp add: emptyHeadline_def Let_def)
qed

lemma sin_start: "8 / 25 \<le> sin ANGLE_START"
proof -
  have "cos (2 * (pi / 8)) = 1 - 2 * (sin (pi / 8))\<^sup>2" by (rule cos_double_sin)
  then have "(sin (pi / 8))\<^sup>2 = (1 - sqrt 2 / 2) / 2" by (simp add: cos_45 field_simps)
  moreover have "sqrt 2 \<le> 3 / 2" by (rule real_le_lsqrt) (simp_all add: power2_eq_square)
  ultimately have "(8 / 25)\<^sup>2 \<le> (sin (pi / 8))\<^sup>2" by (simp add: power2_eq_square)
  moreover have "0 \<le> sin (pi / 8)" by (intro sin_ge_zero) auto
  ultimately have "8 / 25 \<le> sin (pi / 8)" by (rule power2_le_imp_le)
  also have "\<dots> \<le> sin ANGLE_START" by (intro sin_monotone_2pi_le) (auto simp: ANGLE_START_def)
  finally show ?thesis .
qed

lemma sin_node:
  assumes "i < n"
  shows "8 / 25 \<le> sin (node_angle n i)"
proof -
  have e: "ANGLE_END = pi - ANGLE_START" by (simp add: ANGLE_START_def ANGLE_END_def)
  have r: "0 \<le> ANGLE_START" "ANGLE_START \<le> pi / 2" by (simp_all add: ANGLE_START_def)
  have "sin ANGLE_START \<le> sin (node_angle n i)"
  proof (cases "node_angle n i \<le> pi / 2")
    case True
    then show ?thesis using angle_bounds(1) [OF assms] r by (intro sin_monotone_2pi_le) auto
  next
    case False
    have "sin ANGLE_START \<le> sin (pi - node_angle n i)"
      using angle_bounds(2) [OF assms] r e False by (intro sin_monotone_2pi_le) auto
    then show ?thesis by simp
  qed
  then show ?thesis using sin_start by linarith
qed

lemma radius_least: "260 \<le> graph_radius n"
proof -
  have "330 \<le> 330 / cos ANGLE_START" using cos_start_pos cos_le_one [of ANGLE_START] by (simp add: pos_le_divide_eq)
  then show ?thesis by (simp add: graph_radius_def graph_h_def graph_cy_def graph_w_def NODE_HALF_def)
qed

text \<open>
  The label of a line lies clear of the device and of the peer at its ends, below the one and above
  the other, however many peers there are; and on the canvas for names of up to 93 characters.
\<close>

theorem edge_label_clear:
  assumes "i < n"
  shows "(case (NodeShape True (graph_w / 2, graph_cy), EdgeLabel (graph_w / 2, graph_cy) (node_xy n i) txt, NodeShape False (node_xy n i)) of
      ((_, _, _, device_bottom), (el, et, er, eb), (_, peer_top, _, _)) \<Rightarrow>
        device_bottom < et \<and> eb < peer_top \<and> (length txt \<le> 93 \<longrightarrow> 0 \<le> el \<and> er \<le> graph_w))"
proof -
  define y where "y = graph_radius n * sin (node_angle n i)"
  have "260 * (8 / 25) \<le> y" unfolding y_def using radius_least [of n] radius_bounds(1) [of n] sin_node [OF assms] by (intro mult_mono) auto
  then have y: "83 \<le> y" by simp
  have p: "node_xy n i = (fst (node_xy n i), 80 + y)" by (simp add: node_xy_def y_def graph_cy_def)
  have x: "70 \<le> fst (node_xy n i)" "fst (node_xy n i) \<le> 730" using node_bounds [OF assms] by auto
  have "real (length txt) \<le> 93" if "length txt \<le> 93" using that by simp
  then show ?thesis using x y
    by (subst (1 2) p) (auto simp: NodeShape_def EdgeLabel_def Let_def graph_w_def graph_cy_def field_simps)
qed

section \<open>Witnesses\<close>

theorem filter_rules_of_unknown_host_witness: "filter_query_enabled ''h1'' None"
  using filter_rules_of_unknown_host [of "''h1''"] by simp

theorem failed_read_looks_empty_witness:
  "dhcp_body 5 ''No pools defined.'' dhcp_pool_row False (visible (\<lambda>_ _. 0) \<lparr>to_accessors = pool_accessors, to_numeric = \<lambda>_. None\<rparr> new_table []) =
     [NoRows 5 ''No pools defined.'']"
  using failed_read_looks_empty [of 5 "''No pools defined.''" dhcp_pool_row "\<lambda>_ _. 0" "\<lparr>to_accessors = pool_accessors, to_numeric = \<lambda>_. None\<rparr>" new_table "[]"]
  by blast

theorem one_column_sorted_witness: "length (filter (\<lambda>c. fst (TableHeader new_table c) \<in> {Up, Down}) LEASE_COLS) \<le> 1"
  using one_column_sorted [of LEASE_COLS] columns_distinct by blast

definition demo_interface :: Interface where
  "demo_interface = \<lparr>itf_id = None, itf_name = ''ether1'', itf_type = ''ether'', itf_running = Some True, itf_disabled = False,
     itf_mac_address = None, itf_mtu = Some 1500, itf_actual_mtu = None, itf_rx_bytes = None, itf_tx_bytes = None, itf_comment = None\<rparr>"

theorem select_shows_choice_witness:
  "set (map fst (InterfaceSelect (\<lambda>_ _. 0) ''bridge-gone'' [demo_interface])) = {[], ''bridge-gone'', ''ether1''}"
  using select_shows_choice [of "[demo_interface]" "\<lambda>_ _. 0" "''bridge-gone''"] by (auto simp: demo_interface_def)

theorem headline_names_protocols_witness:
  "protocol_order (Some \<lparr>nd_discover_interface_list = Some ''all'', nd_protocols = Some ''lldp''\<rparr>) \<noteq> []"
proof -
  have p: "enabledProtocols (Some \<lparr>nd_discover_interface_list = Some ''all'', nd_protocols = Some ''lldp''\<rparr>) = {''lldp''}"
    using parse_join [of "[''lldp'']"] by (simp add: enabledProtocols_def ALL_PROTOCOLS_def)
  show ?thesis by (rule headline_names_protocols [THEN conjunct2, THEN conjunct2]) (simp_all add: discoveryOff_def allProtocolsOn_def p ALL_PROTOCOLS_def)
qed

theorem edge_label_clear_witness:
  "(case EdgeLabel (graph_w / 2, graph_cy) (node_xy 3 1) ''ether1'' of (el, et, er, eb) \<Rightarrow> 104 < et \<and> 0 \<le> el \<and> er \<le> graph_w)"
  using edge_label_clear [of 1 3 "''ether1''"] by (auto simp: NodeShape_def Let_def graph_cy_def split: prod.splits)

end
