(* ===== verification/Report_Views.thy ===== *)
theory Report_Views
  imports Event_Machine Reports_Page Overview_Pages
begin

text \<open>
  The views of the reports screen (\<open>app/dashboard/reports/page.tsx\<close>): what each shows of its query
  and of its filters, the users against their roles with their two filters, and the map of what a
  user can reach, whose answers may come in any order.
\<close>

section \<open>A query and its view\<close>

record 'd query_result =
  qr_loading :: bool
  qr_error :: "string option"
  qr_data :: "'d option"

datatype 'v view = VLoading | VError string | VNothing | VHint string | VShown 'v

definition report_view :: "'d query_result \<Rightarrow> ('d \<Rightarrow> 'v) \<Rightarrow> 'v view" where
  "report_view q show_data =
     (if qr_loading q then VLoading
      else case qr_error q of Some m \<Rightarrow> VError m | None \<Rightarrow>
        (case qr_data q of None \<Rightarrow> VNothing | Some d \<Rightarrow> VShown (show_data d)))"

text \<open>The body of a filtered table: its rows, or the line that stands for none.\<close>

definition shown_rows :: "string \<Rightarrow> 'c list \<Rightarrow> string + 'c list" where
  "shown_rows label cells = (if cells = [] then Inl label else Inr cells)"

definition no_match :: string where
  "no_match = ''No rows match the current filters.''"

record report_shown =
  rs_title :: string
  rs_body :: "string + string list list"

section \<open>The four audit reports\<close>

definition summary_cells :: "UserActivitySummary \<Rightarrow> string list" where
  "summary_cells s = [(case uas_user_email s of None \<Rightarrow> ''(system)'' | Some e \<Rightarrow> e), show_int (uas_total s), show_int (uas_writes s),
     (if uas_failures s > 0 then show_int (uas_failures s) else ''0''), show_int (uas_sections_touched s), show_int (uas_devices_touched s)]"

definition UserActivityEventsTable :: "(string \<Rightarrow> string) \<Rightarrow> (string \<times> string) list \<Rightarrow> UserActivityReport \<Rightarrow> report_shown" where
  "UserActivityEventsTable loc filters d =
     (let shown = apply_filters (user_accessors loc) filters (uap_rows d)
      in \<lparr>rs_title = user_title (length shown) d, rs_body = shown_rows no_match (map (user_cells loc) shown)\<rparr>)"

definition UserActivityView :: "(string \<Rightarrow> string) \<Rightarrow> (string \<times> string) list \<Rightarrow> UserActivityReport query_result \<Rightarrow>
    ((string + string list list) \<times> report_shown) view" where
  "UserActivityView loc filters q = report_view q (\<lambda>d.
     (shown_rows ''No activity in this range.'' (map summary_cells (uap_summary d)), UserActivityEventsTable loc filters d))"

definition DeviceActivityTable :: "(string \<Rightarrow> string) \<Rightarrow> (string \<times> string) list \<Rightarrow> DeviceActivityReport \<Rightarrow> report_shown" where
  "DeviceActivityTable loc filters d =
     (let shown = apply_filters (device_accessors loc) filters (dap_rows d)
      in \<lparr>rs_title = device_title (length shown) d, rs_body = shown_rows no_match (map (device_cells loc) shown)\<rparr>)"

definition DeviceActivityView :: "(string \<Rightarrow> string) \<Rightarrow> (string \<times> string) list \<Rightarrow> string \<Rightarrow> DeviceActivityReport query_result \<Rightarrow> report_shown view" where
  "DeviceActivityView loc filters deviceId q =
     (if deviceId = [] then VHint ''Enter a device ID to see its activity timeline.'' else report_view q (DeviceActivityTable loc filters))"

definition SecretAccessTable :: "(string \<Rightarrow> string) \<Rightarrow> (string \<times> string) list \<Rightarrow> SecretAccessReport \<Rightarrow> report_shown" where
  "SecretAccessTable loc filters d =
     (let shown = apply_filters (secret_accessors loc) filters (sap_rows d)
      in \<lparr>rs_title = secret_title (length shown) d, rs_body = shown_rows no_match (map (secret_cells loc) shown)\<rparr>)"

definition SecretAccessView :: "(string \<Rightarrow> string) \<Rightarrow> (string \<times> string) list \<Rightarrow> SecretAccessReport query_result \<Rightarrow> (string option \<times> report_shown) view" where
  "SecretAccessView loc filters q = report_view q (\<lambda>d.
     (if sap_unrotated_count d > 0
      then Some (show_int (sap_unrotated_count d) @ '' reveal(s) in this range have not been rotated since.'') else None,
      SecretAccessTable loc filters d))"

definition ChangesTable :: "(string \<Rightarrow> string) \<Rightarrow> (json \<Rightarrow> string) \<Rightarrow> (string \<times> string) list \<Rightarrow> ChangeReport \<Rightarrow> report_shown" where
  "ChangesTable loc stringify filters d =
     (let shown = apply_filters (change_accessors loc stringify) filters (chp_rows d)
      in \<lparr>rs_title = change_title (length shown) d, rs_body = shown_rows no_match (map (change_cells loc stringify) shown)\<rparr>)"

definition count_cells :: "string \<times> int \<Rightarrow> string list" where
  "count_cells e = [fst e, show_int (snd e)]"

definition ChangeView :: "(string \<Rightarrow> string) \<Rightarrow> (json \<Rightarrow> string) \<Rightarrow> (string \<times> string) list \<Rightarrow> ChangeReport query_result \<Rightarrow>
    (string list list \<times> string list list \<times> report_shown) view" where
  "ChangeView loc stringify filters q = report_view q (\<lambda>d.
     (map count_cells (counts_first (chp_by_section d)), map count_cells (counts_first (chp_by_user d)), ChangesTable loc stringify filters d))"

text \<open>The row of filter fields under the labels: what was last typed for a column.\<close>

definition ColumnFilterRow :: "string list \<Rightarrow> (string \<times> string) list \<Rightarrow> string list" where
  "ColumnFilterRow cols filters = map (\<lambda>c. case map_of filters c of None \<Rightarrow> [] | Some v \<Rightarrow> v) cols"

text \<open>The labels above the columns.\<close>

definition REPORT_HEADS :: "report_tab \<Rightarrow> string list" where
  "REPORT_HEADS t = (case t of
     UserTab \<Rightarrow> [''When'', ''User'', ''Section'', ''Action'', ''Outcome'', ''Device'', ''Tenant / Site'']
   | DeviceTab \<Rightarrow> [''When'', ''User'', ''Section'', ''Action'', ''Outcome'', ''Error'']
   | SecretTab \<Rightarrow> [''When'', ''User'', ''Device'', ''Kind'', ''Secret'', ''Rotated since?'', ''Justification'']
   | ChangesTab \<Rightarrow> [''When'', ''User'', ''Section'', ''Action'', ''Device'', ''Payload'']
   | UserRolesTab \<Rightarrow> [''User'', ''Status'', ''MFA'', ''Roles'', ''Permissions''] | UserAccessTab \<Rightarrow> [])"

section \<open>Users against roles\<close>

record roles_view =
  rv_data :: "UserRolesReport option"
  rv_userFilter :: string
  rv_roleFilter :: string

definition blank_roles_view :: roles_view where
  "blank_roles_view = \<lparr>rv_data = None, rv_userFilter = [], rv_roleFilter = []\<rparr>"

datatype roles_view_event = RolesRead UserRolesReport | TypeUser string | PickRole string

text \<open>The filters are there once the report was read; a role is one of the report or blank.\<close>

fun roles_view_act :: "roles_view_event \<Rightarrow> roles_view \<Rightarrow> roles_view" where
  "roles_view_act (RolesRead d) v = v\<lparr>rv_data := Some d\<rparr>"
| "roles_view_act (TypeUser txt) v = (if rv_data v = None then v else v\<lparr>rv_userFilter := txt\<rparr>)"
| "roles_view_act (PickRole i) v =
     (case rv_data v of None \<Rightarrow> v
      | Some d \<Rightarrow> if i = [] \<or> i \<in> set (map ros_role_id (urr_roles d)) then v\<lparr>rv_roleFilter := i\<rparr> else v)"

record role_user_row =
  ru_name :: string
  ru_email :: string
  ru_status :: "string list"
  ru_mfa :: "string list"
  ru_roles :: "string + string list"
  ru_permissions :: string

definition user_role_row :: "UserRoleSummary \<Rightarrow> role_user_row" where
  "user_role_row u = \<lparr>ru_name = (case urs_display_name u of None \<Rightarrow> urs_email u | Some n \<Rightarrow> n), ru_email = urs_email u,
     ru_status = (if urs_is_admin u then [''admin''] else []) @ [if urs_is_active u then ''active'' else ''disabled''],
     ru_mfa = (if urs_totp_enrolled u then [''TOTP''] else []) @ (if urs_otp_login_enabled u then [''OTP''] else []),
     ru_roles = shown_rows ''no roles'' (map assignment_text (urs_assignments u)), ru_permissions = show_int (urs_permission_count u)\<rparr>"

definition users_count :: "nat \<Rightarrow> UserRolesReport \<Rightarrow> string" where
  "users_count shown d = show_nat shown @ '' of '' @ show_nat (length (urr_users d)) @ '' user'' @ (if length (urr_users d) = 1 then [] else ''s'')"

record role_row =
  rl_name :: string
  rl_system :: bool
  rl_description :: "string option"
  rl_users :: string
  rl_permissions :: "string list"

definition catalogue_row :: "RoleSummary \<Rightarrow> role_row" where
  "catalogue_row r = \<lparr>rl_name = ros_role_name r, rl_system = ros_is_system r,
     rl_description = (if truthy_str (ros_description r) then ros_description r else None), rl_users = show_int (ros_user_count r),
     rl_permissions = ros_permissions r\<rparr>"

definition shown_users :: "roles_view \<Rightarrow> UserRoleSummary list" where
  "shown_users v = filteredUsers (rv_data v) (rv_userFilter v) (rv_roleFilter v)"

definition UserRolesView :: "bool \<Rightarrow> string option \<Rightarrow> roles_view \<Rightarrow> (string \<times> role_user_row list \<times> role_row list) view" where
  "UserRolesView loading err v = report_view \<lparr>qr_loading = loading, qr_error = err, qr_data = rv_data v\<rparr> (\<lambda>d.
     (users_count (length (shown_users v)) d, map user_role_row (shown_users v), map catalogue_row (urr_roles d)))"

section \<open>What a user can reach\<close>

record UserAccessDeviceNode =
  und_device_id :: string
  und_device_name :: string
  und_grants :: "UserScopeGrant list"

record UserAccessSiteNode =
  uns_site_id :: string
  uns_site_name :: string
  uns_grants :: "UserScopeGrant list"
  uns_devices :: "UserAccessDeviceNode list"

record UserAccessTenantNode =
  unt_tenant_id :: string
  unt_tenant_name :: string
  unt_grants :: "UserScopeGrant list"
  unt_sites :: "UserAccessSiteNode list"

record UserAccessMap =
  uam_user_id :: string
  uam_tenants :: "UserAccessTenantNode list"
  uam_permissions :: "PermissionTuple list"

text \<open>A line of the tree: its depth, kind, identifier, name, and the chips of its grants with their titles.\<close>

record scope_line =
  sl_depth :: nat
  sl_kind :: string
  sl_id :: string
  sl_name :: string
  sl_chips :: "(string \<times> string) list"

definition GrantChips :: "UserScopeGrant list \<Rightarrow> (string \<times> string) list" where
  "GrantChips gs = map (\<lambda>g. (grant_title g, grant_label g)) gs"

definition device_line :: "UserAccessDeviceNode \<Rightarrow> scope_line" where
  "device_line d = \<lparr>sl_depth = 2, sl_kind = ''device'', sl_id = und_device_id d, sl_name = und_device_name d, sl_chips = GrantChips (und_grants d)\<rparr>"

definition site_lines :: "UserAccessSiteNode \<Rightarrow> scope_line list" where
  "site_lines s = \<lparr>sl_depth = 1, sl_kind = ''site'', sl_id = uns_site_id s, sl_name = uns_site_name s, sl_chips = GrantChips (uns_grants s)\<rparr> #
     map device_line (uns_devices s)"

definition tenant_lines :: "UserAccessTenantNode \<Rightarrow> scope_line list" where
  "tenant_lines t = \<lparr>sl_depth = 0, sl_kind = ''tenant'', sl_id = unt_tenant_id t, sl_name = unt_tenant_name t, sl_chips = GrantChips (unt_grants t)\<rparr> #
     concat (map site_lines (unt_sites t))"

definition access_tree :: "UserAccessMap \<Rightarrow> string + scope_line list" where
  "access_tree m = shown_rows ''None.'' (concat (map tenant_lines (uam_tenants m)))"

definition permission_chips :: "UserAccessMap \<Rightarrow> string + string list" where
  "permission_chips m = shown_rows (''None '' @ em_dash @ '' this user has no role assignments.'') (map permission_label (uam_permissions m))"

text \<open>
  The view: the users, the one that is picked, the maps by user, and the requests under way.
  \<open>ac_asked\<close> lists the requests and \<open>ac_answers\<close> the answers so far. (A map is asked for again
  only when it is older than thirty seconds; that is not modelled.)
\<close>

record access_view =
  ac_users :: "UserListItem list option"
  ac_picked :: string
  ac_maps :: "(string \<times> UserAccessMap) list"
  ac_flights :: "string list"
  ac_asked :: "string list"
  ac_answers :: "(string \<times> UserAccessMap) list"

definition blank_access :: access_view where
  "blank_access = \<lparr>ac_users = None, ac_picked = [], ac_maps = [], ac_flights = [], ac_asked = [], ac_answers = []\<rparr>"

datatype access_event = UsersListed "UserListItem list" | PickUser string | MapRead string UserAccessMap | MapFailed string

definition ask_map :: "access_view \<Rightarrow> access_view" where
  "ask_map v =
     (let i = ac_picked v
      in if i = [] \<or> i \<in> fst ` set (ac_maps v) \<or> i \<in> set (ac_flights v) then v
         else v\<lparr>ac_flights := ac_flights v @ [i], ac_asked := ac_asked v @ [i]\<rparr>)"

fun access_act :: "access_event \<Rightarrow> access_view \<Rightarrow> access_view" where
  "access_act (UsersListed us) v = v\<lparr>ac_users := Some us\<rparr>"
| "access_act (PickUser i) v =
     (if i = [] \<or> i \<in> ul_id ` set (case ac_users v of None \<Rightarrow> [] | Some us \<Rightarrow> us) then ask_map (v\<lparr>ac_picked := i\<rparr>) else v)"
| "access_act (MapRead i m) v =
     (if i \<in> set (ac_flights v)
      then v\<lparr>ac_flights := remove1 i (ac_flights v), ac_maps := (i, m) # ac_maps v, ac_answers := ac_answers v @ [(i, m)]\<rparr> else v)"
| "access_act (MapFailed i) v = (if i \<in> set (ac_flights v) then v\<lparr>ac_flights := remove1 i (ac_flights v)\<rparr> else v)"

definition picked_map :: "access_view \<Rightarrow> UserAccessMap option" where
  "picked_map v = (if ac_picked v = [] then None else map_of (ac_maps v) (ac_picked v))"

record access_shown =
  as_options :: "(string \<times> string) list"
  as_email :: "string option"
  as_hint :: bool
  as_loading :: bool
  as_map :: "((string + string list) \<times> (string + scope_line list)) option"

definition UserAccessView :: "access_view \<Rightarrow> access_shown" where
  "UserAccessView v =
     (let us = (case ac_users v of None \<Rightarrow> [] | Some us \<Rightarrow> us)
      in \<lparr>as_options = ([], em_dash @ '' pick a user '' @ em_dash) #
            map (\<lambda>u. (ul_id u, case ul_display_name u of None \<Rightarrow> ul_email u | Some n \<Rightarrow> n)) us,
          as_email = map_option ul_email (find (\<lambda>u. ul_id u = ac_picked v) us),
          as_hint = (ac_picked v = []),
          as_loading = (ac_picked v \<noteq> [] \<and> ac_picked v \<in> set (ac_flights v) \<and> picked_map v = None),
          as_map = map_option (\<lambda>m. (permission_chips m, access_tree m)) (picked_map v)\<rparr>)"

section \<open>What the views show\<close>

definition row_matches :: "string list \<Rightarrow> (string \<Rightarrow> ('r \<Rightarrow> string) option) \<Rightarrow> (string \<times> string) list \<Rightarrow> 'r \<Rightarrow> bool" where
  "row_matches cols accessors edits r \<longleftrightarrow> (\<forall>c\<in>set cols. str_includes (toLowerCase (the (accessors c) r)) (column_text edits c))"

text \<open>Edits of the filter fields of a table, each under one of its columns.\<close>

definition edits_of :: "string list \<Rightarrow> (string \<times> string) list \<Rightarrow> bool" where
  "edits_of cols edits \<longleftrightarrow> fst ` set edits \<subseteq> set cols"

text \<open>
  The body of each of the four tables is the cells of exactly the rows that match what was last
  typed over every column, or the line that none does; every row has a cell under each label.
\<close>

theorem report_views_exact:
  assumes "edits_of user_cols e1" "edits_of device_cols e2" "edits_of secret_cols e3" "edits_of change_cols e4"
  shows "rs_body (UserActivityEventsTable loc (typed_filters e1) d1) =
      shown_rows no_match (map (user_cells loc) (filter (row_matches user_cols (user_accessors loc) e1) (uap_rows d1))) \<and>
    rs_body (DeviceActivityTable loc (typed_filters e2) d2) =
      shown_rows no_match (map (device_cells loc) (filter (row_matches device_cols (device_accessors loc) e2) (dap_rows d2))) \<and>
    rs_body (SecretAccessTable loc (typed_filters e3) d3) =
      shown_rows no_match (map (secret_cells loc) (filter (row_matches secret_cols (secret_accessors loc) e3) (sap_rows d3))) \<and>
    rs_body (ChangesTable loc sfy (typed_filters e4) d4) =
      shown_rows no_match (map (change_cells loc sfy) (filter (row_matches change_cols (change_accessors loc sfy) e4) (chp_rows d4))) \<and>
    (length (user_cells loc r1), length (device_cells loc r2), length (secret_cells loc r3), length (change_cells loc sfy r4)) =
      (length (REPORT_HEADS UserTab), length (REPORT_HEADS DeviceTab), length (REPORT_HEADS SecretTab), length (REPORT_HEADS ChangesTab))"
  using user_table.shows_matches [of e1 loc "uap_rows d1"] device_table.shows_matches [of e2 loc "dap_rows d2"]
    secret_table.shows_matches [of e3 loc "sap_rows d3"] change_table.shows_matches [of e4 loc sfy "chp_rows d4"] assms
  by (simp add: UserActivityEventsTable_def DeviceActivityTable_def SecretAccessTable_def ChangesTable_def Let_def row_matches_def [abs_def]
      edits_of_def user_cells_def device_cells_def secret_cells_def change_cells_def REPORT_HEADS_def)

text \<open>The field over a column shows what was last typed there.\<close>

lemma filter_row_typed:
  "c \<in> set cols \<Longrightarrow> (case map_of (typed_filters edits) c of None \<Rightarrow> [] | Some v \<Rightarrow> v) \<in> set (ColumnFilterRow cols (typed_filters edits))"
  by (auto simp: ColumnFilterRow_def)

text \<open>
  With a role picked, every user on the screen holds it and its row says so; the count is that of
  the rows.
\<close>

theorem shown_users_hold_role:
  assumes "rv_data v = Some d" "rv_roleFilter v \<noteq> []" "u \<in> set (shown_users v)"
  shows "\<exists>a \<in> set (urs_assignments u). ura_role_id a = rv_roleFilter v \<and>
    (\<exists>rs. ru_roles (user_role_row u) = Inr rs \<and> assignment_text a \<in> set rs) \<and>
    UserRolesView False None v =
      VShown (users_count (length (shown_users v)) d, map user_role_row (shown_users v), map catalogue_row (urr_roles d))"
proof -
  from assms obtain a where a: "a \<in> set (urs_assignments u)" "ura_role_id a = rv_roleFilter v"
    by (auto simp: shown_users_def filteredUsers_mem)
  then have "\<exists>rs. ru_roles (user_role_row u) = Inr rs \<and> assignment_text a \<in> set rs"
    by (auto simp: user_role_row_def shown_rows_def)
  moreover have "UserRolesView False None v =
      VShown (users_count (length (shown_users v)) d, map user_role_row (shown_users v), map catalogue_row (urr_roles d))"
    using assms(1) by (simp add: UserRolesView_def report_view_def)
  ultimately show ?thesis using a by blast
qed

section \<open>The map of a user\<close>

definition access_inv :: "access_view \<Rightarrow> bool" where
  "access_inv v \<longleftrightarrow> set (ac_maps v) \<subseteq> set (ac_answers v) \<and> fst ` set (ac_answers v) \<subseteq> set (ac_asked v) \<and>
     set (ac_flights v) \<subseteq> set (ac_asked v) \<and> distinct (ac_flights v) \<and> [] \<notin> set (ac_asked v)"

lemma access_inv_ask: "access_inv v \<Longrightarrow> access_inv (ask_map v)"
  by (auto simp: access_inv_def ask_map_def Let_def)

lemma access_inv_act: "access_inv v \<Longrightarrow> access_inv (access_act e v)"
proof (cases e)
  case (PickUser i)
  assume "access_inv v"
  then have "access_inv (v\<lparr>ac_picked := i\<rparr>)" by (simp add: access_inv_def)
  with access_inv_ask \<open>access_inv v\<close> PickUser show ?thesis by simp
qed (auto simp: access_inv_def dest: notin_set_remove1 subsetD [OF set_remove1_subset])

interpretation access_map: event_machine access_act blank_access access_inv
  by unfold_locales (simp add: access_inv_def blank_access_def, rule access_inv_act)

text \<open>
  Whoever is picked while answers are under way, in whatever order these come: the map on the screen
  is an answer to a request for the user who is picked; no request is for nobody, and none is under
  way twice.
\<close>

theorem access_map_is_picked:
  "let v = fold access_act es blank_access in
   (case picked_map v of None \<Rightarrow> True | Some m \<Rightarrow> (ac_picked v, m) \<in> set (ac_answers v) \<and> ac_picked v \<in> set (ac_asked v)) \<and>
   distinct (ac_flights v) \<and> [] \<notin> set (ac_asked v)"
proof -
  define v where "v = fold access_act es blank_access"
  have i: "access_inv v" unfolding v_def by (rule access_map.inv_history)
  have "(ac_picked v, m) \<in> set (ac_answers v) \<and> ac_picked v \<in> set (ac_asked v)" if "picked_map v = Some m" for m
  proof -
    from that have mm: "(ac_picked v, m) \<in> set (ac_maps v)" by (auto simp: picked_map_def map_of_SomeD split: if_splits)
    from i have "set (ac_maps v) \<subseteq> set (ac_answers v)" by (simp add: access_inv_def)
    from this mm have "(ac_picked v, m) \<in> set (ac_answers v)" by (rule subsetD)
    moreover from this have "ac_picked v \<in> fst ` set (ac_answers v)" by (rule rev_image_eqI) simp
    moreover from i have "fst ` set (ac_answers v) \<subseteq> set (ac_asked v)" by (simp add: access_inv_def)
    ultimately show ?thesis by (simp add: subsetD)
  qed
  with i show ?thesis unfolding v_def [symmetric] Let_def by (auto simp: access_inv_def split: option.split)
qed

text \<open>A map that cannot be read leaves the view blank: no map, no hint, no message.\<close>

theorem unread_map_silent:
  assumes "i \<noteq> []" "i \<in> ul_id ` set us"
  shows "let s = UserAccessView (fold access_act [UsersListed us, PickUser i, MapFailed i] blank_access)
    in as_map s = None \<and> \<not> as_hint s \<and> \<not> as_loading s"
  using assms by (simp add: blank_access_def ask_map_def UserAccessView_def picked_map_def Let_def)

lemma tenant_lines_length:
  "length (tenant_lines t) = 1 + sum_list (map (\<lambda>s. 1 + length (uns_devices s)) (unt_sites t))"
  by (simp add: tenant_lines_def length_concat site_lines_def comp_def)

text \<open>
  The tree has a line for every tenant, site and device of the map, each with a chip per grant.
\<close>

theorem tree_shows_map:
  "sum_list (map (\<lambda>l. length (sl_chips l)) (concat (map tenant_lines ts))) =
     sum_list (map (\<lambda>t. length (unt_grants t) + sum_list (map (\<lambda>s. length (uns_grants s) +
       sum_list (map (\<lambda>d. length (und_grants d)) (uns_devices s))) (unt_sites t))) ts) \<and>
   length (concat (map tenant_lines ts)) = sum_list (map (\<lambda>t. 1 + sum_list (map (\<lambda>s. 1 + length (uns_devices s)) (unt_sites t))) ts)"
proof -
  have site: "sum_list (map (\<lambda>l. length (sl_chips l)) (site_lines s)) = length (uns_grants s) + sum_list (map (\<lambda>d. length (und_grants d)) (uns_devices s))" for s
    by (simp add: site_lines_def GrantChips_def device_line_def comp_def)
  have sites: "sum_list (map (\<lambda>l. length (sl_chips l)) (concat (map site_lines ss))) =
      sum_list (map (\<lambda>s. length (uns_grants s) + sum_list (map (\<lambda>d. length (und_grants d)) (uns_devices s))) ss)" for ss
    by (induction ss) (simp_all add: site)
  have tenant: "sum_list (map (\<lambda>l. length (sl_chips l)) (tenant_lines t)) = length (unt_grants t) + sum_list (map (\<lambda>s. length (uns_grants s) +
      sum_list (map (\<lambda>d. length (und_grants d)) (uns_devices s))) (unt_sites t))" for t
    using sites [of "unt_sites t"] by (simp add: tenant_lines_def GrantChips_def)
  show ?thesis by (induction ts) (simp_all add: tenant tenant_lines_length)
qed

section \<open>Witnesses\<close>

theorem report_views_exact_witness:
  "rs_body (DeviceActivityTable id (typed_filters []) \<lparr>dap_device_id = ''d1'', dap_device_name = None, dap_range_from = [], dap_range_to = [],
     dap_rows = [demo_row], dap_truncated = False\<rparr>) = Inr [device_cells id demo_row]"
proof -
  have e: "edits_of user_cols []" "edits_of device_cols []" "edits_of secret_cols []" "edits_of change_cols []" by (simp_all add: edits_of_def)
  have inc: "str_includes s []" for s by (cases s) (simp_all add: startsWith_prefix)
  from report_views_exact [OF e, of id _ "\<lparr>dap_device_id = ''d1'', dap_device_name = None, dap_range_from = [], dap_range_to = [],
     dap_rows = [demo_row], dap_truncated = False\<rparr>"]
  show ?thesis by (simp add: row_matches_def column_text_def inc shown_rows_def)
qed

definition demo_roles_view :: roles_view where
  "demo_roles_view = \<lparr>rv_data = Some \<lparr>urr_users = [\<lparr>urs_user_id = ''u1'', urs_email = ''a@b.ge'', urs_display_name = None, urs_is_admin = False,
     urs_is_active = True, urs_totp_enrolled = False, urs_otp_login_enabled = False,
     urs_assignments = [\<lparr>ura_role_id = ''r1'', ura_role_name = ''noc'', ura_scope_type = ''tenant'', ura_scope_id = None, ura_scope_label = None\<rparr>],
     urs_permission_count = 3\<rparr>], urr_roles = []\<rparr>, rv_userFilter = [], rv_roleFilter = ''r1''\<rparr>"

theorem shown_users_hold_role_witness:
  "\<exists>u a. u \<in> set (shown_users demo_roles_view) \<and> a \<in> set (urs_assignments u) \<and> ura_role_id a = ''r1''"
proof -
  obtain u where u: "u \<in> set (shown_users demo_roles_view)"
    by (auto simp: demo_roles_view_def shown_users_def filteredUsers_def trim_def trimStart_def trimEnd_def toLowerCase_def)
  have "rv_roleFilter demo_roles_view = ''r1''" by (simp add: demo_roles_view_def)
  with shown_users_hold_role [OF _ _ u] u show ?thesis by (fastforce simp: demo_roles_view_def)
qed

theorem unread_map_silent_witness:
  "as_map (UserAccessView (fold access_act [UsersListed [\<lparr>ul_id = ''u1'', ul_email = [], ul_display_name = None, ul_mobile_phone = None, ul_is_active = True,
     ul_is_admin = False, ul_totp_enrolled = False, ul_otp_login_enabled = False, ul_must_change_password = False, ul_auth_method = [],
     ul_last_login_at = None, ul_created_at = [], ul_assignment_count = 0\<rparr>], PickUser ''u1'', MapFailed ''u1''] blank_access)) = None"
  using unread_map_silent [of "''u1''" "[\<lparr>ul_id = ''u1'', ul_email = [], ul_display_name = None, ul_mobile_phone = None, ul_is_active = True,
     ul_is_admin = False, ul_totp_enrolled = False, ul_otp_login_enabled = False, ul_must_change_password = False, ul_auth_method = [],
     ul_last_login_at = None, ul_created_at = [], ul_assignment_count = 0\<rparr>]"] by (simp add: Let_def)

end
