(* ===== verification/Host_Views.thy ===== *)
theory Host_Views
  imports Event_Machine Device_Pages Report_Views
begin

text \<open>
  Two pages of a host: its filesystems with the tree of directories that is measured as it is
  opened (\<open>devices/[id]/storage/page.tsx\<close>, \<open>components/usage-bar.tsx\<close>), and its processes
  (\<open>devices/[id]/processes/page.tsx\<close>).
\<close>

section \<open>Filesystems\<close>

record DiskUsage =
  du_filesystem :: string
  du_mount_point :: string
  du_fs_type :: "string option"
  du_total_bytes :: "rat option"
  du_used_bytes :: "rat option"
  du_available_bytes :: "rat option"
  du_used_pct :: "rat option"
  du_inodes_total :: "rat option"
  du_inodes_used :: "rat option"
  du_inodes_used_pct :: "rat option"

record usage_bar =
  ub_label :: string
  ub_text :: string
  ub_width :: rat
  ub_tone :: bar_tone
  ub_detail :: "string option"

definition UsageBar :: "rat option \<Rightarrow> string \<Rightarrow> string \<Rightarrow> usage_bar" where
  "UsageBar pc label detail = \<lparr>ub_label = label, ub_text = usage_text pc,
     ub_width = (case bar_value pc of None \<Rightarrow> 0 | Some v \<Rightarrow> v), ub_tone = usage_tone pc,
     ub_detail = (if detail = [] then None else Some detail)\<rparr>"

record disk_card =
  dk_mount :: string
  dk_fs_type :: "string option"
  dk_filesystem :: string
  dk_bars :: "usage_bar list"
  dk_button :: string

text \<open>The second bar is that of the inodes, where the host reports them. \<open>loc\<close> is \<open>toLocaleString\<close>.\<close>

definition disk_bars :: "(rat \<Rightarrow> string) \<Rightarrow> DiskUsage \<Rightarrow> usage_bar list" where
  "disk_bars loc d =
     UsageBar (du_used_pct d) ''Space'' (formatBytes (du_used_bytes d) @ '' used '' @ mid_dot @ '' '' @ formatBytes (du_available_bytes d) @
       '' free of '' @ formatBytes (du_total_bytes d)) #
     (case du_inodes_total d of None \<Rightarrow> []
      | Some n \<Rightarrow> [UsageBar (du_inodes_used_pct d) ''Inodes''
          ((case du_inodes_used d of None \<Rightarrow> em_dash | Some u \<Rightarrow> loc u) @ '' of '' @ loc n)])"

definition disk_card_of :: "(rat \<Rightarrow> string) \<Rightarrow> string option \<Rightarrow> DiskUsage \<Rightarrow> disk_card" where
  "disk_card_of loc browsing d = \<lparr>dk_mount = du_mount_point d, dk_fs_type = du_fs_type d, dk_filesystem = du_filesystem d,
     dk_bars = disk_bars loc d,
     dk_button = (if browsing = Some (du_mount_point d) then ''Hide contents'' else ''Browse contents '' @ [CHR 0xE2, CHR 0x86, CHR 0x92])\<rparr>"

section \<open>The tree of directories\<close>

text \<open>
  A directory that is on the screen: its path, whether it is open, and the nodes beneath those of
  its rows that are open. What it lists is in the query cache, by path.
\<close>

datatype dir_node = DirNode (dn_path: string) (dn_open: bool) (dn_rows: "dir_node list")

type_synonym dir_cache = "(string \<times> DirEntryUsage list) list"

definition entry_paths :: "dir_cache \<Rightarrow> string \<Rightarrow> string list" where
  "entry_paths cache p = (case map_of cache p of None \<Rightarrow> [] | Some es \<Rightarrow> map de_path es)"

text \<open>The node at an address: the paths of the rows that lead to it, all of them listed and open.\<close>

fun node_at :: "dir_cache \<Rightarrow> string list \<Rightarrow> dir_node \<Rightarrow> dir_node option" where
  "node_at cache [] n = Some n"
| "node_at cache (p # ps) n =
     (case find (\<lambda>m. dn_path m = p) (dn_rows n) of Some m \<Rightarrow> node_at cache ps m | None \<Rightarrow> None)"

fun at_node :: "string list \<Rightarrow> (dir_node \<Rightarrow> dir_node) \<Rightarrow> dir_node \<Rightarrow> dir_node" where
  "at_node [] f n = f n"
| "at_node (p # ps) f (DirNode q opn kids) = DirNode q opn (map (\<lambda>m. if dn_path m = p then at_node ps f m else m) kids)"

fun open_paths :: "dir_node \<Rightarrow> string list" where
  "open_paths (DirNode q opn kids) = (if opn then [q] else []) @ concat (map open_paths kids)"

text \<open>Rows that are no longer listed leave the screen with everything beneath them.\<close>

fun prune :: "dir_cache \<Rightarrow> dir_node \<Rightarrow> dir_node" where
  "prune cache (DirNode q opn kids) = DirNode q opn (map (prune cache) (filter (\<lambda>m. dn_path m \<in> set (entry_paths cache q)) kids))"

definition close_row :: "string \<Rightarrow> dir_node \<Rightarrow> dir_node" where
  "close_row p n = DirNode (dn_path n) (dn_open n) (filter (\<lambda>m. dn_path m \<noteq> p) (dn_rows n))"

definition open_row :: "string \<Rightarrow> dir_node \<Rightarrow> dir_node" where
  "open_row p n = DirNode (dn_path n) (dn_open n) (dn_rows n @ [DirNode p True []])"

definition close_node :: "dir_node \<Rightarrow> dir_node" where
  "close_node n = DirNode (dn_path n) False []"

definition open_node :: "dir_node \<Rightarrow> dir_node" where
  "open_node n = DirNode (dn_path n) True (dn_rows n)"

section \<open>The storage page\<close>

text \<open>
  \<open>sg_asked\<close> lists the directories that were measured, \<open>sg_clicked\<close> those that were opened by a
  click and \<open>sg_listed\<close> the mount points and entries that were ever read.
\<close>

record storage_page =
  sg_disks :: "DiskUsage list option"
  sg_diskError :: "string option"
  sg_fetching :: bool
  sg_browsing :: "string option"
  sg_tree :: "dir_node option"
  sg_cache :: dir_cache
  sg_errors :: "(string \<times> string) list"
  sg_flights :: "string list"
  sg_asked :: "string list"
  sg_clicked :: "string list"
  sg_listed :: "string list"

definition open_storage :: storage_page where
  "open_storage = \<lparr>sg_disks = None, sg_diskError = None, sg_fetching = True, sg_browsing = None, sg_tree = None, sg_cache = [],
     sg_errors = [], sg_flights = [], sg_asked = [], sg_clicked = [], sg_listed = []\<rparr>"

text \<open>
  Opening a directory asks for its sizes unless a request for it is under way or what was read is
  not yet a minute old: \<open>stale\<close> says that it is older.
\<close>

definition ask_dir :: "bool \<Rightarrow> string \<Rightarrow> storage_page \<Rightarrow> storage_page" where
  "ask_dir stale p s =
     (let s' = s\<lparr>sg_clicked := sg_clicked s @ [p]\<rparr>
      in if p \<in> set (sg_flights s) \<or> \<not> stale \<and> p \<in> fst ` set (sg_cache s) then s'
         else s'\<lparr>sg_flights := sg_flights s @ [p], sg_asked := sg_asked s @ [p],
           sg_errors := (if p \<in> fst ` set (sg_cache s) then sg_errors s else filter (\<lambda>x. fst x \<noteq> p) (sg_errors s))\<rparr>)"

definition mounts_of :: "DiskUsage list option \<Rightarrow> string list" where
  "mounts_of disks = (case disks of None \<Rightarrow> [] | Some ds \<Rightarrow> map du_mount_point ds)"

datatype storage_event = DisksRead "DiskUsage list" | DisksFailed string | RefreshDisks
  | Browse string bool | CloseBrowser | ClickRow "string list" string bool | ClickNode "string list" bool
  | DirRead string "DirEntryUsage list" | DirFailed string string | Forget string

text \<open>
  The browser of another mount point takes over the node at the top, and with it the rows that
  both list. The node at the top has no button of its own.
\<close>

fun storage_act :: "storage_event \<Rightarrow> storage_page \<Rightarrow> storage_page" where
  "storage_act (DisksRead ds) s =
     s\<lparr>sg_disks := Some ds, sg_diskError := None, sg_fetching := False, sg_listed := sg_listed s @ map du_mount_point ds\<rparr>"
| "storage_act (DisksFailed m) s = s\<lparr>sg_diskError := Some m, sg_fetching := False\<rparr>"
| "storage_act RefreshDisks s = (if sg_fetching s then s else s\<lparr>sg_fetching := True,
     sg_diskError := (if sg_disks s = None then None else sg_diskError s)\<rparr>)"
| "storage_act (Browse m stale) s =
     (if m \<notin> set (mounts_of (sg_disks s)) then s
      else if sg_browsing s = Some m \<or> m = []
      then s\<lparr>sg_browsing := (if sg_browsing s = Some m then None else Some m), sg_tree := None\<rparr>
      else ask_dir stale m (s\<lparr>sg_browsing := Some m, sg_tree := Some (prune (sg_cache s)
             (DirNode m True (case sg_tree s of None \<Rightarrow> [] | Some t \<Rightarrow> dn_rows t)))\<rparr>))"
| "storage_act CloseBrowser s = s\<lparr>sg_browsing := None, sg_tree := None\<rparr>"
| "storage_act (ClickRow addr p stale) s =
     (case Option.bind (sg_tree s) (node_at (sg_cache s) addr) of None \<Rightarrow> s
      | Some n \<Rightarrow>
          if \<not> dn_open n \<or> p \<notin> set (entry_paths (sg_cache s) (dn_path n)) then s
          else if p \<in> dn_path ` set (dn_rows n) then s\<lparr>sg_tree := map_option (at_node addr (close_row p)) (sg_tree s)\<rparr>
          else ask_dir stale p (s\<lparr>sg_tree := map_option (at_node addr (open_row p)) (sg_tree s)\<rparr>))"
| "storage_act (ClickNode addr stale) s =
     (case Option.bind (sg_tree s) (node_at (sg_cache s) addr) of None \<Rightarrow> s
      | Some n \<Rightarrow>
          if addr = [] then s
          else if dn_open n then s\<lparr>sg_tree := map_option (at_node addr close_node) (sg_tree s)\<rparr>
          else ask_dir stale (dn_path n) (s\<lparr>sg_tree := map_option (at_node addr open_node) (sg_tree s)\<rparr>))"
| "storage_act (DirRead p es) s =
     (if p \<in> set (sg_flights s)
      then s\<lparr>sg_flights := remove1 p (sg_flights s), sg_cache := (p, es) # sg_cache s, sg_errors := filter (\<lambda>x. fst x \<noteq> p) (sg_errors s),
        sg_tree := map_option (prune ((p, es) # sg_cache s)) (sg_tree s), sg_listed := sg_listed s @ map de_path es\<rparr> else s)"
| "storage_act (DirFailed p m) s =
     (if p \<in> set (sg_flights s) then s\<lparr>sg_flights := remove1 p (sg_flights s), sg_errors := (p, m) # filter (\<lambda>x. fst x \<noteq> p) (sg_errors s)\<rparr> else s)"
| "storage_act (Forget p) s =
     (if p \<in> set (case sg_tree s of None \<Rightarrow> [] | Some t \<Rightarrow> open_paths t) \<or> p \<in> set (sg_flights s) then s
      else s\<lparr>sg_cache := filter (\<lambda>x. fst x \<noteq> p) (sg_cache s), sg_errors := filter (\<lambda>x. fst x \<noteq> p) (sg_errors s)\<rparr>)"

section \<open>What the tree shows\<close>

datatype dir_line = Measuring nat | Unread nat string | EmptyDir nat | NodeMark nat bool
  | EntryLine (el_depth: nat) (el_open: bool) (el_size: string) (el_share: rat) (el_path: string) (el_name: string)

definition DirRow :: "nat \<Rightarrow> bool \<Rightarrow> rat \<Rightarrow> DirEntryUsage \<Rightarrow> dir_line" where
  "DirRow depth opn largest e = EntryLine depth opn (formatBytes (Some (de_size_bytes e))) (dir_share largest e) (de_path e) (de_name e)"

text \<open>The lines of a directory under its rows, which carry those of the nodes beneath them.\<close>

definition dir_lines :: "storage_page \<Rightarrow> nat \<Rightarrow> string \<Rightarrow> bool \<Rightarrow> (string \<times> dir_line list) list \<Rightarrow> dir_line list" where
  "dir_lines s depth p opn sub =
     (if depth > 0 then [NodeMark depth opn] else []) @
     (if \<not> opn then [] else
        (let data = map_of (sg_cache s) p; err = map_of (sg_errors s) p
         in (if p \<in> set (sg_flights s) \<and> data = None then [Measuring depth] else []) @
            (case err of None \<Rightarrow> [] | Some m \<Rightarrow> [Unread depth m]) @
            (case data of None \<Rightarrow> [] | Some es \<Rightarrow>
               if es = [] then [EmptyDir depth]
               else concat (map (\<lambda>e. DirRow depth (map_of sub (de_path e) \<noteq> None) (dir_largest data) e #
                      (case map_of sub (de_path e) of None \<Rightarrow> [] | Some ls \<Rightarrow> ls)) es))))"

fun DirNode_lines :: "storage_page \<Rightarrow> nat \<Rightarrow> dir_node \<Rightarrow> dir_line list" where
  "DirNode_lines s depth (DirNode p opn kids) =
     dir_lines s depth p opn (map (\<lambda>m. (dn_path m, DirNode_lines s (depth + 1) m)) kids)"

record storage_shown =
  ss_refresh :: "string \<times> bool"
  ss_reading :: bool
  ss_error :: "string option"
  ss_none :: bool
  ss_cards :: "disk_card list"
  ss_browser :: "(string \<times> dir_line list) option"

definition three_dots :: string where
  "three_dots = [CHR 0xE2, CHR 0x80, CHR 0xA6]"

definition StoragePage :: "(rat \<Rightarrow> string) \<Rightarrow> storage_page \<Rightarrow> storage_shown" where
  "StoragePage loc s = \<lparr>
     ss_refresh = ((if sg_fetching s then ''Refreshing'' @ three_dots else ''Refresh''), \<not> sg_fetching s),
     ss_reading = (sg_fetching s \<and> sg_disks s = None), ss_error = sg_diskError s, ss_none = (sg_disks s = Some []),
     ss_cards = (case sg_disks s of None \<Rightarrow> [] | Some ds \<Rightarrow> map (disk_card_of loc (sg_browsing s)) ds),
     ss_browser = map_option (\<lambda>t. (dn_path t, DirNode_lines s 0 t)) (sg_tree s)\<rparr>"

section \<open>Processes\<close>

text \<open>
  The page keeps how many processes it reads, by what it sorts them, the filter and whether it
  reads again every five seconds. What was read is kept by the number asked for.
\<close>

record processes_page =
  pr_limit :: int
  pr_sort :: SortKey
  pr_filter :: string
  pr_live :: bool
  pr_cache :: "(int \<times> ProcessInfo list) list"
  pr_errors :: "(int \<times> string) list"
  pr_flights :: "int list"
  pr_asked :: "int list"

definition PROCESS_LIMITS :: "int list" where
  "PROCESS_LIMITS = [20, 40, 100, 200]"

definition ask_processes :: "processes_page \<Rightarrow> processes_page" where
  "ask_processes s =
     (if pr_limit s \<in> set (pr_flights s) then s
      else s\<lparr>pr_flights := pr_flights s @ [pr_limit s], pr_asked := pr_asked s @ [pr_limit s],
        pr_errors := (if pr_limit s \<in> fst ` set (pr_cache s) then pr_errors s else filter (\<lambda>x. fst x \<noteq> pr_limit s) (pr_errors s))\<rparr>)"

definition open_processes :: processes_page where
  "open_processes = ask_processes \<lparr>pr_limit = 40, pr_sort = CpuPct, pr_filter = [], pr_live = False, pr_cache = [],
     pr_errors = [], pr_flights = [], pr_asked = []\<rparr>"

datatype processes_event = PickLimit int bool | PickSort SortKey | TypeProcess string | SetLive bool | FiveSeconds | RefreshProcesses
  | ProcessesRead int "ProcessInfo list" | ProcessesFailed int string

fun processes_act :: "processes_event \<Rightarrow> processes_page \<Rightarrow> processes_page" where
  "processes_act (PickLimit n stale) s =
     (if n \<notin> set PROCESS_LIMITS \<or> n = pr_limit s then s
      else (let s' = s\<lparr>pr_limit := n\<rparr> in if stale \<or> n \<notin> fst ` set (pr_cache s) then ask_processes s' else s'))"
| "processes_act (PickSort k) s = s\<lparr>pr_sort := k\<rparr>"
| "processes_act (TypeProcess txt) s = s\<lparr>pr_filter := txt\<rparr>"
| "processes_act (SetLive b) s = s\<lparr>pr_live := b\<rparr>"
| "processes_act FiveSeconds s = (if pr_live s then ask_processes s else s)"
| "processes_act RefreshProcesses s = ask_processes s"
| "processes_act (ProcessesRead n ps) s =
     (if n \<in> set (pr_flights s)
      then s\<lparr>pr_flights := remove1 n (pr_flights s), pr_cache := (n, ps) # pr_cache s, pr_errors := filter (\<lambda>x. fst x \<noteq> n) (pr_errors s)\<rparr>
      else s)"
| "processes_act (ProcessesFailed n m) s =
     (if n \<in> set (pr_flights s)
      then s\<lparr>pr_flights := remove1 n (pr_flights s), pr_errors := (n, m) # filter (\<lambda>x. fst x \<noteq> n) (pr_errors s)\<rparr> else s)"

datatype cpu_tone = CpuPlain | CpuAmber | CpuRed

text \<open>The colours of a row are merged, so that of the higher bound wins.\<close>

definition cpu_class :: "ProcessInfo \<Rightarrow> cpu_tone" where
  "cpu_class p = (let v = (case pi_cpu_pct p of None \<Rightarrow> 0 | Some x \<Rightarrow> x)
     in if v \<ge> 90 then CpuRed else if v \<ge> 50 then CpuAmber else CpuPlain)"

definition pct_text :: "rat option \<Rightarrow> string" where
  "pct_text v = (case v of None \<Rightarrow> em_dash | Some x \<Rightarrow> toFixed1 x)"

definition blank_if_none :: "string option \<Rightarrow> string" where
  "blank_if_none v = (case v of None \<Rightarrow> [] | Some x \<Rightarrow> x)"

definition PROCESS_COLS :: "string list" where
  "PROCESS_COLS = [''PID'', ''User'', ''CPU%'', ''MEM%'', ''RSS'', ''Thr'', ''State'', ''Time'', ''Command'']"

definition process_row :: "(rat \<Rightarrow> string) \<Rightarrow> ProcessInfo \<Rightarrow> string list" where
  "process_row num p = [show_int (pi_pid p), blank_if_none (pi_user p), pct_text (pi_cpu_pct p), pct_text (pi_mem_pct p),
     formatBytes (pi_rss_bytes p), (case pi_threads p of None \<Rightarrow> em_dash | Some n \<Rightarrow> num n), blank_if_none (pi_state p),
     blank_if_none (pi_cpu_time p), pi_command p]"

record processes_shown =
  ps_refresh :: "string \<times> bool"
  ps_reading :: bool
  ps_error :: "string option"
  ps_table :: "(string + (cpu_tone \<times> string list) list) option"

definition ProcessesPage :: "(rat \<Rightarrow> string) \<Rightarrow> processes_page \<Rightarrow> processes_shown" where
  "ProcessesPage num s =
     (let busy = pr_limit s \<in> set (pr_flights s); data = map_of (pr_cache s) (pr_limit s)
      in \<lparr>ps_refresh = ((if busy then ''Reading'' @ three_dots else ''Refresh''), \<not> busy), ps_reading = (busy \<and> data = None),
          ps_error = map_of (pr_errors s) (pr_limit s),
          ps_table = map_option (\<lambda>ps. let shown = process_rows (pr_sort s) (pr_filter s) ps
            in if shown = [] then Inl ''Nothing matches.'' else Inr (map (\<lambda>p. (cpu_class p, process_row num p)) shown)) data\<rparr>)"

section \<open>Only what is opened is measured\<close>

text \<open>
  The shape of the tree: a closed node has nothing beneath it, no row stands there twice, and every
  row is listed by its directory.
\<close>

fun tree_ok :: "dir_cache \<Rightarrow> dir_node \<Rightarrow> bool" where
  "tree_ok cache (DirNode q opn kids) =
     ((opn \<or> kids = []) \<and> distinct (map dn_path kids) \<and> list_all (\<lambda>m. dn_path m \<in> set (entry_paths cache q) \<and> tree_ok cache m) kids)"

lemma tree_okD:
  assumes "tree_ok cache n"
  shows "dn_open n \<or> dn_rows n = []" "distinct (map dn_path (dn_rows n))"
    "m \<in> set (dn_rows n) \<Longrightarrow> dn_path m \<in> set (entry_paths cache (dn_path n))" "m \<in> set (dn_rows n) \<Longrightarrow> tree_ok cache m"
  using assms by (cases n; auto simp: list_all_iff)+

lemma find_mem: "find P xs = Some k \<Longrightarrow> k \<in> set xs \<and> P k"
  by (auto simp: find_Some_iff)

lemma node_at_ok:
  "tree_ok cache n \<Longrightarrow> node_at c a n = Some m \<Longrightarrow> tree_ok cache m"
  by (induction a arbitrary: n) (auto dest!: find_mem dest: tree_okD(4) split: option.splits)

lemma node_at_listed:
  "tree_ok cache n \<Longrightarrow> node_at c a n = Some m \<Longrightarrow> a \<noteq> [] \<Longrightarrow> \<exists>q. dn_path m \<in> set (entry_paths cache q)"
proof (induction a arbitrary: n)
  case (Cons p ps)
  then obtain k where k: "k \<in> set (dn_rows n)" "node_at c ps k = Some m"
    by (auto dest!: find_mem split: option.splits)
  with Cons.prems have "tree_ok cache k" "dn_path k \<in> set (entry_paths cache (dn_path n))" by (auto dest: tree_okD)
  with k Cons.IH show ?case by (cases ps) auto
qed simp

lemma at_node_path: "(\<And>n. dn_path (f n) = dn_path n) \<Longrightarrow> dn_path (at_node a f n) = dn_path n"
  by (cases a; cases n) auto

lemma at_node_open: "a \<noteq> [] \<Longrightarrow> dn_open (at_node a f n) = dn_open n"
  by (cases a; cases n) auto

lemma tree_ok_at:
  assumes keeps: "\<And>n. dn_path (f n) = dn_path n"
  shows "tree_ok cache n \<Longrightarrow> node_at c a n = Some m \<Longrightarrow> tree_ok cache (f m) \<Longrightarrow> tree_ok cache (at_node a f n)"
proof (induction a arbitrary: n)
  case (Cons p ps)
  obtain q opn kids where n: "n = DirNode q opn kids" by (cases n)
  from Cons.prems(2) obtain k where k: "find (\<lambda>m. dn_path m = p) kids = Some k" "node_at c ps k = Some m"
    by (auto simp: n split: option.splits)
  then have mem: "k \<in> set kids" "dn_path k = p" by (auto simp: find_Some_iff)
  have d: "distinct (map dn_path kids)" using Cons.prems(1) by (simp add: n)
  have only: "x = k" if "x \<in> set kids" "dn_path x = p" for x
    using d that mem by (auto simp: distinct_map dest: inj_onD)
  have paths: "map dn_path (map (\<lambda>m. if dn_path m = p then at_node ps f m else m) kids) = map dn_path kids"
    by (simp add: at_node_path keeps)
  have kid: "tree_ok cache (at_node ps f k)"
    using Cons.IH [of k] k Cons.prems mem by (auto simp: n list_all_iff)
  have "list_all (\<lambda>m. dn_path m \<in> set (entry_paths cache q) \<and> tree_ok cache m) (map (\<lambda>m. if dn_path m = p then at_node ps f m else m) kids)"
    using Cons.prems(1) kid only by (auto simp: n list_all_iff at_node_path keeps)
  moreover have "distinct (map dn_path (map (\<lambda>m. if dn_path m = p then at_node ps f m else m) kids))"
    unfolding paths by (rule d)
  ultimately show ?case using Cons.prems(1) unfolding n at_node.simps tree_ok.simps by blast
qed simp

lemma tree_ok_prune: "tree_ok c n \<Longrightarrow> tree_ok cache (prune cache n)"
proof (induction n)
  case (DirNode q opn kids)
  have path: "dn_path (prune cache m) = dn_path m" for m by (cases m) simp
  from DirNode show ?case by (auto simp: list_all_iff path comp_def distinct_map_filter)
qed

lemma entry_paths_other: "p \<noteq> q \<Longrightarrow> entry_paths (filter (\<lambda>x. fst x \<noteq> p) cache) q = entry_paths cache q"
proof -
  assume "p \<noteq> q"
  then have "map_of (filter (\<lambda>x. fst x \<noteq> p) cache) q = map_of cache q" by (induction cache) auto
  then show ?thesis by (simp add: entry_paths_def)
qed

lemma tree_ok_forget: "tree_ok cache n \<Longrightarrow> p \<notin> set (open_paths n) \<Longrightarrow> tree_ok (filter (\<lambda>x. fst x \<noteq> p) cache) n"
proof (induction n)
  case (DirNode q opn kids)
  then have "opn \<Longrightarrow> entry_paths (filter (\<lambda>x. fst x \<noteq> p) cache) q = entry_paths cache q"
    by (intro entry_paths_other) auto
  with DirNode show ?case by (cases opn) (auto simp: list_all_iff)
qed

lemma row_clicks_ok:
  assumes "tree_ok cache n"
  shows "tree_ok cache (close_row p n)" "tree_ok cache (close_node n)" "tree_ok cache (open_node n)"
    "dn_open n \<Longrightarrow> p \<in> set (entry_paths cache (dn_path n)) \<Longrightarrow> p \<notin> dn_path ` set (dn_rows n) \<Longrightarrow> tree_ok cache (open_row p n)"
  using assms by (cases n; auto simp: close_row_def close_node_def open_node_def open_row_def list_all_iff distinct_map_filter)+

lemma clicks_keep_path [simp]:
  "dn_path (close_row p n) = dn_path n" "dn_path (open_row p n) = dn_path n" "dn_path (close_node n) = dn_path n"
  "dn_path (open_node n) = dn_path n" "dn_open (close_row p n) = dn_open n" "dn_open (open_row p n) = dn_open n"
  by (simp_all add: close_row_def open_row_def close_node_def open_node_def)

definition ask_inv :: "storage_page \<Rightarrow> bool" where
  "ask_inv s \<longleftrightarrow> set (sg_flights s) \<subseteq> set (sg_asked s) \<and> distinct (sg_flights s) \<and> set (sg_asked s) \<subseteq> set (sg_clicked s) \<and>
     length (sg_asked s) \<le> length (sg_clicked s) \<and> set (sg_clicked s) \<subseteq> set (sg_listed s) \<and>
     (\<forall>q. set (entry_paths (sg_cache s) q) \<subseteq> set (sg_listed s)) \<and>
     set (mounts_of (sg_disks s)) \<subseteq> set (sg_listed s)"

definition tree_inv :: "storage_page \<Rightarrow> bool" where
  "tree_inv s \<longleftrightarrow> (case sg_tree s of None \<Rightarrow> True
     | Some t \<Rightarrow> tree_ok (sg_cache s) t \<and> dn_open t \<and> sg_browsing s = Some (dn_path t))"

definition storage_inv :: "storage_page \<Rightarrow> bool" where
  "storage_inv s \<longleftrightarrow> ask_inv s \<and> tree_inv s"

lemma ask_inv_tree [simp]:
  "ask_inv (s\<lparr>sg_tree := t\<rparr>) = ask_inv s" "ask_inv (s\<lparr>sg_browsing := b\<rparr>) = ask_inv s"
  "ask_inv (s\<lparr>sg_browsing := b, sg_tree := t\<rparr>) = ask_inv s"
  by (simp_all add: ask_inv_def)

lemma ask_inv_ask: "ask_inv s \<Longrightarrow> p \<in> set (sg_listed s) \<Longrightarrow> ask_inv (ask_dir stale p s)"
  by (auto simp: ask_inv_def ask_dir_def Let_def)

lemma ask_dir_same [simp]:
  "sg_tree (ask_dir stale p s) = sg_tree s" "sg_browsing (ask_dir stale p s) = sg_browsing s" "sg_cache (ask_dir stale p s) = sg_cache s"
  by (simp_all add: ask_dir_def Let_def)

lemma tree_inv_ask [simp]: "tree_inv (ask_dir stale p s) = tree_inv s"
  by (simp add: tree_inv_def split: option.split)

lemma entry_paths_read: "entry_paths ((p, es) # cache) q = (if q = p then map de_path es else entry_paths cache q)"
  by (simp add: entry_paths_def)

lemma entry_paths_gone: "entry_paths (filter (\<lambda>x. fst x \<noteq> p) cache) p = []"
proof -
  have "map_of (filter (\<lambda>x. fst x \<noteq> p) cache) p = None" by (induction cache) auto
  then show ?thesis by (simp add: entry_paths_def)
qed

lemma entry_paths_forgot: "set (entry_paths (filter (\<lambda>x. fst x \<noteq> p) cache) q) \<subseteq> set (entry_paths cache q)"
  by (cases "p = q") (simp_all add: entry_paths_gone entry_paths_other)

lemma ask_inv_act:
  assumes "storage_inv s"
  shows "ask_inv (storage_act e s)"
proof -
  have a: "ask_inv s" using assms by (simp add: storage_inv_def)
  have entries: "p \<in> set (sg_listed s)" if "p \<in> set (entry_paths (sg_cache s) q)" for p q
    using a that by (auto simp: ask_inv_def)
  have node: "dn_path n \<in> set (sg_listed s)" if "Option.bind (sg_tree s) (node_at (sg_cache s) addr) = Some n" "addr \<noteq> []" for addr n
  proof -
    from that(1) obtain t where t: "sg_tree s = Some t" "node_at (sg_cache s) addr t = Some n" by (cases "sg_tree s") auto
    with assms have "tree_ok (sg_cache s) t" by (simp add: storage_inv_def tree_inv_def)
    from node_at_listed [OF this t(2) that(2)] show ?thesis using entries by blast
  qed
  have mounts: "m \<in> set (sg_listed s)" if "m \<in> set (mounts_of (sg_disks s))" for m
  proof -
    from a have "set (mounts_of (sg_disks s)) \<subseteq> set (sg_listed s)" by (simp only: ask_inv_def)
    from this that show ?thesis by (rule subsetD)
  qed
  show ?thesis
  proof (cases e)
    case (Browse m stale)
    then show ?thesis using a mounts [of m] by (auto simp: ask_inv_ask)
  next
    case (ClickRow addr p stale)
    then show ?thesis using a entries by (auto simp: ask_inv_ask split: option.split)
  next
    case (ClickNode addr stale)
    then show ?thesis using a node [of addr] by (auto simp: ask_inv_ask split: option.split)
  next
    case (DirRead p es)
    then show ?thesis using a by (auto simp: ask_inv_def entry_paths_read dest: notin_set_remove1)
  next
    case (DirFailed p m)
    then show ?thesis using a by (auto simp: ask_inv_def dest: notin_set_remove1)
  next
    case (Forget p)
    have "set (entry_paths (filter (\<lambda>x. fst x \<noteq> p) (sg_cache s)) q) \<subseteq> set (sg_listed s)" for q
      using entry_paths_forgot [of p "sg_cache s" q] entries by blast
    then show ?thesis using a Forget by (simp add: ask_inv_def)
  qed (use a in \<open>auto simp: ask_inv_def mounts_of_def\<close>)
qed

lemma click_keeps_tree:
  assumes "tree_inv s" "Option.bind (sg_tree s) (node_at (sg_cache s) addr) = Some n" "\<And>n. dn_path (f n) = dn_path n"
    "addr = [] \<Longrightarrow> dn_open (f n) = dn_open n" "tree_ok (sg_cache s) n \<Longrightarrow> tree_ok (sg_cache s) (f n)"
  shows "tree_inv (s\<lparr>sg_tree := map_option (at_node addr f) (sg_tree s)\<rparr>)"
proof -
  from assms(2) obtain t where t: "sg_tree s = Some t" "node_at (sg_cache s) addr t = Some n" by (cases "sg_tree s") auto
  with assms(1) have ok: "tree_ok (sg_cache s) t" "dn_open t" "sg_browsing s = Some (dn_path t)" by (simp_all add: tree_inv_def)
  have "tree_ok (sg_cache s) (at_node addr f t)"
    by (rule tree_ok_at [OF assms(3) ok(1) t(2)]) (rule assms(5) [OF node_at_ok [OF ok(1) t(2)]])
  moreover have "dn_open (at_node addr f t)" using ok(2) t assms(4) by (cases "addr = []") (simp_all add: at_node_open)
  ultimately show ?thesis using t ok by (simp add: tree_inv_def at_node_path assms(3))
qed

lemma prune_top: "dn_path (prune cache n) = dn_path n" "dn_open (prune cache n) = dn_open n"
  by (cases n; simp)+

lemma tree_ok_takeover: "tree_ok c t \<Longrightarrow> tree_ok cache (prune cache (DirNode m True (dn_rows t)))"
  by (cases t) (auto simp: list_all_iff prune_top comp_def distinct_map_filter tree_ok_prune)

lemma node_in_tree: "tree_inv s \<Longrightarrow> Option.bind (sg_tree s) (node_at c addr) = Some n \<Longrightarrow> tree_ok (sg_cache s) n"
  by (cases "sg_tree s") (auto simp: tree_inv_def intro: node_at_ok)

lemma tree_inv_act:
  assumes "tree_inv s"
  shows "tree_inv (storage_act e s)"
proof (cases e)
  case (Browse m stale)
  then show ?thesis using assms tree_ok_takeover [of "sg_cache s" _ "sg_cache s" m]
    by (cases "sg_tree s") (auto simp: tree_inv_def)
next
  case (ClickRow addr p stale)
  show ?thesis
  proof (cases "Option.bind (sg_tree s) (node_at (sg_cache s) addr)")
    case (Some n)
    then show ?thesis using ClickRow assms click_keeps_tree [OF assms Some, of "close_row p"] click_keeps_tree [OF assms Some, of "open_row p"]
      by (simp add: row_clicks_ok)
  qed (use ClickRow assms in simp)
next
  case (ClickNode addr stale)
  show ?thesis
  proof (cases "Option.bind (sg_tree s) (node_at (sg_cache s) addr)")
    case (Some n)
    then show ?thesis using ClickNode assms click_keeps_tree [OF assms Some, of close_node] click_keeps_tree [OF assms Some, of open_node]
      by (cases "addr = []") (simp_all add: row_clicks_ok)
  qed (use ClickNode assms in simp)
next
  case (DirRead p es)
  then show ?thesis using assms by (auto simp: tree_inv_def prune_top tree_ok_prune split: option.splits)
next
  case (Forget p)
  then show ?thesis using assms by (auto simp: tree_inv_def tree_ok_forget split: option.splits)
qed (use assms in \<open>auto simp: tree_inv_def split: option.splits\<close>)

interpretation storage_machine: event_machine storage_act open_storage storage_inv
proof unfold_locales
  show "storage_inv open_storage" by (simp add: mounts_of_def storage_inv_def ask_inv_def tree_inv_def open_storage_def entry_paths_def)
qed (auto simp: storage_inv_def [of "storage_act _ _"] ask_inv_act dest: storage_inv_def [THEN iffD1] intro: tree_inv_act)

fun is_click :: "storage_event \<Rightarrow> bool" where
  "is_click (Browse m stale) = True"
| "is_click (ClickRow addr p stale) = True"
| "is_click (ClickNode addr stale) = True"
| "is_click _ = False"

lemma clicked_ask: "length (sg_clicked (ask_dir stale p s)) = length (sg_clicked s) + 1"
  by (simp add: ask_dir_def Let_def)

lemma clicked_act: "length (sg_clicked (storage_act e s)) \<le> length (sg_clicked s) + (if is_click e then 1 else 0)"
  by (cases e) (auto simp: clicked_ask split: option.split)

lemma clicked_fold: "length (sg_clicked (fold storage_act es s)) \<le> length (sg_clicked s) + length (filter is_click es)"
proof (induction es arbitrary: s)
  case (Cons e es)
  from Cons.IH [of "storage_act e s"] clicked_act [of e s] show ?case by (auto split: if_splits)
qed simp


definition listed_line :: "dir_cache \<Rightarrow> string list \<Rightarrow> dir_line \<Rightarrow> bool" where
  "listed_line cache dirs l = (case l of EntryLine dep opn sz share p nm \<Rightarrow> \<exists>q \<in> set dirs. p \<in> set (entry_paths cache q) | _ \<Rightarrow> True)"

lemma listed_line_more: "listed_line cache dirs l \<Longrightarrow> set dirs \<subseteq> set dirs' \<Longrightarrow> listed_line cache dirs' l"
  by (auto simp: listed_line_def split: dir_line.splits)

lemma list_all_each: "(\<And>x. x \<in> set xs \<Longrightarrow> list_all P (f x)) \<Longrightarrow> list_all P (concat (map f xs))"
  by (auto simp: list_all_iff)

text \<open>Every entry on the screen is listed by a directory that is open.\<close>

theorem shown_entries_listed:
  "list_all (listed_line (sg_cache s) (open_paths n)) (DirNode_lines s depth n)"
proof (induction n arbitrary: depth)
  case (DirNode p opn kids)
  let ?sub = "map (\<lambda>m. (dn_path m, DirNode_lines s (depth + 1) m)) kids"
  have kid: "list_all (listed_line (sg_cache s) (open_paths (DirNode p opn kids))) ls" if "map_of ?sub q = Some ls" for q ls
  proof -
    from map_of_SomeD [OF that] obtain m where m: "m \<in> set kids" "ls = DirNode_lines s (depth + 1) m" by auto
    have "set (open_paths m) \<subseteq> set (open_paths (DirNode p opn kids))" using m by auto
    from DirNode.IH [OF m(1), of "depth + 1"] listed_line_more [OF _ this] m(2) show ?thesis
      unfolding list_all_iff by blast
  qed
  have row: "listed_line (sg_cache s) (open_paths (DirNode p opn kids)) (DirRow depth b w e)"
    if "opn" "map_of (sg_cache s) p = Some es" "e \<in> set es" for es e b w
    using that by (auto simp: listed_line_def DirRow_def entry_paths_def)
  have plain: "listed_line c ds (NodeMark d b)" "listed_line c ds (Measuring d)" "listed_line c ds (Unread d m)" "listed_line c ds (EmptyDir d)"
    for c ds d b m by (simp_all add: listed_line_def)
  have entry: "list_all (listed_line (sg_cache s) (open_paths (DirNode p opn kids)))
      (DirRow depth b w e # (case map_of ?sub (de_path e) of None \<Rightarrow> [] | Some ls \<Rightarrow> ls))"
    if "opn" "map_of (sg_cache s) p = Some es" "e \<in> set es" for es e b w
    using row [OF that] kid [of "de_path e"] by (cases "map_of ?sub (de_path e)") simp_all
  show ?case
  proof (cases "map_of (sg_cache s) p")
    case (Some es)
    with entry show ?thesis
      by (auto simp: dir_lines_def Let_def plain simp del: open_paths.simps intro!: list_all_each split: option.split)
  qed (auto simp: dir_lines_def Let_def plain split: option.split)
qed

section \<open>The processes that are shown\<close>

definition processes_inv :: "processes_page \<Rightarrow> bool" where
  "processes_inv s \<longleftrightarrow> set (pr_asked s) \<subseteq> set PROCESS_LIMITS \<and> pr_limit s \<in> set PROCESS_LIMITS \<and> distinct (pr_flights s)"

lemma processes_inv_ask: "processes_inv s \<Longrightarrow> processes_inv (ask_processes s)"
  by (auto simp: processes_inv_def ask_processes_def)

lemma processes_inv_act: "processes_inv s \<Longrightarrow> processes_inv (processes_act e s)"
proof (cases e)
  case (PickLimit n stale)
  assume s: "processes_inv s"
  then have "n \<in> set PROCESS_LIMITS \<Longrightarrow> processes_inv (s\<lparr>pr_limit := n\<rparr>)" by (simp add: processes_inv_def)
  with s PickLimit show ?thesis by (auto simp: Let_def intro: processes_inv_ask)
qed (auto simp: processes_inv_ask, auto simp: processes_inv_def)

interpretation processes_machine: event_machine processes_act open_processes processes_inv
  by unfold_locales (auto simp: processes_inv_act, simp add: open_processes_def ask_processes_def processes_inv_def PROCESS_LIMITS_def)

text \<open>
  Whatever is picked and answered meanwhile: the page asks only for the numbers it offers, for none
  twice at a time, and shows exactly those processes of the answer for the picked number that the
  filter keeps, each with a cell under every label, or says that nothing matches.
\<close>

theorem processes_shown_exact:
  "let s = fold processes_act es open_processes; shown = ps_table (ProcessesPage num s) in
   set (pr_asked s) \<subseteq> {20, 40, 100, 200} \<and> distinct (pr_flights s) \<and>
   (case map_of (pr_cache s) (pr_limit s) of None \<Rightarrow> shown = None
    | Some ps \<Rightarrow> if filter (process_matches (pr_filter s)) ps = [] then shown = Some (Inl ''Nothing matches.'')
        else (\<exists>lines. shown = Some (Inr lines) \<and> list_all (\<lambda>l. length (snd l) = length PROCESS_COLS) lines \<and>
          mset lines = mset (map (\<lambda>p. (cpu_class p, process_row num p)) (filter (process_matches (pr_filter s)) ps))))"
proof -
  define s where "s = fold processes_act es open_processes"
  have "processes_inv s" unfolding s_def by (rule processes_machine.inv_history)
  then have i: "set (pr_asked s) \<subseteq> {20, 40, 100, 200}" "distinct (pr_flights s)" by (simp_all add: processes_inv_def PROCESS_LIMITS_def)
  have "mset (map f (process_rows k flt ps)) = mset (map f (filter (process_matches flt) ps))" for f k flt ps
    by (simp add: process_rows_def)
  moreover have "process_rows k flt ps = [] \<longleftrightarrow> filter (process_matches flt) ps = []" for k flt ps by (simp add: process_rows_def)
  moreover have "length (process_row num p) = length PROCESS_COLS" for p by (simp add: process_row_def PROCESS_COLS_def)
  ultimately show ?thesis unfolding s_def [symmetric] using i
    by (auto simp: Let_def ProcessesPage_def list_all_iff split: option.split)
qed

end
