(* ===== verification/Directory_Views.thy ===== *)
theory Directory_Views
  imports Event_Machine Access_Page Overview_Pages Report_Views Create_Panel Onboard_Wizard
begin

text \<open>
  The screens of access requests (\<open>access-requests/page.tsx\<close>, \<open>access-requests/[id]/page.tsx\<close>):
  the list, the lines of the directory with the button that asks for access
  (\<open>components/request-access-button.tsx\<close>), one request with its cancellation and decision; and
  the page of tenants (\<open>tenants/page.tsx\<close>), whose form is a panel.
\<close>

section \<open>The list of requests\<close>

record AccessRequestGrant =
  agr_role_id :: string
  agr_role_name :: string
  agr_assignment_id :: string
  agr_expires_at :: "string option"

record AccessRequestPublic =
  arq_id :: string
  arq_organization_id :: string
  arq_requester_user_id :: string
  arq_requester_email :: string
  arq_requester_display_name :: "string option"
  arq_scope_type :: string
  arq_scope_id :: "string option"
  arq_scope_label :: "string option"
  arq_reason :: "string option"
  arq_status :: string
  arq_created_at :: string
  arq_updated_at :: string
  arq_decided_at :: "string option"
  arq_decided_by_user_id :: "string option"
  arq_decided_by_email :: "string option"
  arq_granted_expires_at :: "string option"
  arq_decision_note :: "string option"
  arq_grants :: "AccessRequestGrant list"

definition STATUS_FILTERS :: "(string \<times> string) list" where
  "STATUS_FILTERS = [(''pending'', ''Pending''), (''approved'', ''Approved''), (''denied'', ''Denied''), (''cancelled'', ''Cancelled''), (''all'', ''All'')]"

definition requester_name :: "AccessRequestPublic \<Rightarrow> string" where
  "requester_name r = (case arq_requester_display_name r of None \<Rightarrow> arq_requester_email r | Some n \<Rightarrow> n)"

definition target_text :: "AccessRequestPublic \<Rightarrow> string" where
  "target_text r = arq_scope_type r @
     (case arq_scope_label r of None \<Rightarrow> [] | Some l \<Rightarrow> if l = [] then [] else '' '' @ mid_dot @ '' '' @ l)"

definition REQUEST_COLS :: "string list" where
  "REQUEST_COLS = [''Requester'', ''Target'', ''Reason'', ''Status'', ''Created'', []]"

definition request_row_cells :: "(string \<Rightarrow> string) \<Rightarrow> AccessRequestPublic \<Rightarrow> string list list" where
  "request_row_cells loc r = [[requester_name r, arq_requester_email r], [target_text r],
     [case arq_reason r of None \<Rightarrow> em_dash | Some x \<Rightarrow> x], [arq_status r], [loc (arq_created_at r)],
     [''/dashboard/access-requests/'' @ arq_id r]]"

record requests_shown =
  rqs_filters :: "(string \<times> bool) list"
  rqs_loading :: bool
  rqs_body :: "(string + string list list list) option"

definition AccessRequestsPage :: "(string \<Rightarrow> string) \<Rightarrow> string \<Rightarrow> AccessRequestPublic list query_result \<Rightarrow> requests_shown" where
  "AccessRequestsPage loc statusFilter q = \<lparr>
     rqs_filters = map (\<lambda>f. (snd f, fst f = statusFilter)) STATUS_FILTERS, rqs_loading = qr_loading q,
     rqs_body = (case qr_data q of None \<Rightarrow> None
       | Some rs \<Rightarrow> if rs = [] \<and> qr_loading q then None else Some (shown_rows ''Nothing here.'' (map (request_row_cells loc) rs)))\<rparr>"

section \<open>The lines of the directory\<close>

text \<open>A line: its depth and name, and the scope its button asks for, if it has one.\<close>

record directory_line =
  dl_depth :: nat
  dl_name :: string
  dl_badge :: string
  dl_request :: "(string \<times> string) option"

definition DirectoryActions :: "nat \<Rightarrow> string \<Rightarrow> string \<Rightarrow> string \<Rightarrow> bool \<Rightarrow> directory_line" where
  "DirectoryActions depth scopeType scopeId scopeLabel hasAccess = \<lparr>dl_depth = depth, dl_name = scopeLabel,
     dl_badge = (if hasAccess then ''accessible'' else ''no access''),
     dl_request = (if hasAccess then None else Some (scopeType, scopeId))\<rparr>"

definition dir_device_line :: "DirectoryDeviceNode \<Rightarrow> directory_line" where
  "dir_device_line d = DirectoryActions 2 ''device'' (dd_id d) (dd_name d) (dd_has_access d)"

definition dir_site_lines :: "DirectorySiteNode \<Rightarrow> directory_line list" where
  "dir_site_lines s = DirectoryActions 1 ''site'' (dsn_id s) (dsn_name s) (dsn_has_access s) # map dir_device_line (dsn_devices s)"

definition dir_tenant_lines :: "DirectoryTenantNode \<Rightarrow> directory_line list" where
  "dir_tenant_lines t = DirectoryActions 0 ''tenant'' (dtn_id t) (dtn_name t) (dtn_has_access t) # concat (map dir_site_lines (dtn_sites t))"

definition DirectorySection :: "DirectoryTenantNode list option \<Rightarrow> string \<Rightarrow> bool \<Rightarrow> string + directory_line list" where
  "DirectorySection directory txt only = shown_rows ''Nothing matches.'' (concat (map dir_tenant_lines (filteredTenants directory txt only)))"

section \<open>The button that asks for access\<close>

text \<open>\<open>units\<close> is the length of a text in the units in which the browser counts.\<close>

record request_button =
  rb_open :: bool
  rb_reason :: string
  rb_pending :: bool
  rb_sent :: "AccessRequestCreate list"

definition new_button :: request_button where
  "new_button = \<lparr>rb_open = False, rb_reason = [], rb_pending = False, rb_sent = []\<rparr>"

datatype button_event = PressRequest | TypeWhy string | CloseRequest | SendRequest | RequestSent | RequestFailed

fun button_act :: "(string \<Rightarrow> nat) \<Rightarrow> string \<Rightarrow> string \<Rightarrow> button_event \<Rightarrow> request_button \<Rightarrow> request_button" where
  "button_act units scopeType scopeId PressRequest b = b\<lparr>rb_open := True\<rparr>"
| "button_act units scopeType scopeId (TypeWhy txt) b = (if rb_open b \<and> units txt \<le> 2048 then b\<lparr>rb_reason := txt\<rparr> else b)"
| "button_act units scopeType scopeId CloseRequest b = b\<lparr>rb_open := False\<rparr>"
| "button_act units scopeType scopeId SendRequest b =
     (if rb_open b \<and> \<not> rb_pending b
      then b\<lparr>rb_pending := True, rb_sent := rb_sent b @ [\<lparr>arc_scope_type = scopeType, arc_scope_id = scopeId, arc_reason = nul (trim (rb_reason b))\<rparr>]\<rparr>
      else b)"
| "button_act units scopeType scopeId RequestSent b =
     (if rb_pending b then b\<lparr>rb_pending := False, rb_open := False, rb_reason := []\<rparr> else b)"
| "button_act units scopeType scopeId RequestFailed b = b\<lparr>rb_pending := False\<rparr>"

definition RequestAccessButton :: "string \<Rightarrow> string \<Rightarrow> request_button \<Rightarrow> (string \<times> string \<times> string \<times> bool) option" where
  "RequestAccessButton scopeType scopeLabel b =
     (if rb_open b then Some (''Request access to '' @ scopeType, ''Asking for '' @ scopeLabel @ ''.'',
        (if rb_pending b then ''Sending'' @ [CHR 0xE2, CHR 0x80, CHR 0xA6] else ''Send request''), \<not> rb_pending b) else None)"

section \<open>One request\<close>

text \<open>
  The page keeps the request, the account of the operator and the roles as they were last read,
  and the decision card while it stands. \<open>rq_cancels\<close> and \<open>rq_decisions\<close> list what was asked
  for, with the account and the request that were on the screen then.
\<close>

record request_detail =
  rq_req :: "AccessRequestPublic option"
  rq_me :: "UserPublic option"
  rq_roles :: "Role list option"
  rq_card :: "decide_card option"
  rq_orphans :: nat
  rq_left :: bool
  rq_listed :: "string list"
  rq_cancels :: "(UserPublic \<times> AccessRequestPublic) list"
  rq_decisions :: "(UserPublic \<times> AccessRequestPublic \<times> (AccessRequestApprove + AccessRequestDeny)) list"

definition open_detail :: request_detail where
  "open_detail = \<lparr>rq_req = None, rq_me = None, rq_roles = None, rq_card = None, rq_orphans = 0, rq_left = False,
     rq_listed = [], rq_cancels = [], rq_decisions = []\<rparr>"

text \<open>
  The card stands while an administrator looks at a pending request and the roles were read. When
  it goes, the answer it waits for still comes.
\<close>

definition card_shown :: "request_detail \<Rightarrow> bool" where
  "card_shown s = (case (rq_me s, rq_req s) of (Some u, Some r) \<Rightarrow> can_decide (u_is_admin u) (rq_roles s \<noteq> None) (arq_status r) | _ \<Rightarrow> False)"

definition settle_card :: "request_detail \<Rightarrow> request_detail" where
  "settle_card s =
     (if card_shown s then (case rq_card s of None \<Rightarrow> s\<lparr>rq_card := Some new_decision\<rparr> | Some c \<Rightarrow> s)
      else (case rq_card s of None \<Rightarrow> s
            | Some c \<Rightarrow> s\<lparr>rq_card := None, rq_orphans := rq_orphans s + (if de_pending c then 1 else 0)\<rparr>))"

datatype detail_event = RequestRead AccessRequestPublic | RequestUnread string | AccountRead "UserPublic" | RolesListed "Role list"
  | PressCancel bool | OnCard decide_event | OrphanAnswered bool

fun detail_act :: "(string \<Rightarrow> string option) \<Rightarrow> detail_event \<Rightarrow> request_detail \<Rightarrow> request_detail" where
  "detail_act to_iso (RequestRead r) s = settle_card (s\<lparr>rq_req := Some r\<rparr>)"
| "detail_act to_iso (RequestUnread m) s = s"
| "detail_act to_iso (AccountRead u) s = settle_card (s\<lparr>rq_me := Some u\<rparr>)"
| "detail_act to_iso (RolesListed rs) s = settle_card (s\<lparr>rq_roles := Some rs, rq_listed := rq_listed s @ map ro_id rs\<rparr>)"
| "detail_act to_iso (PressCancel yes) s =
     (case (rq_me s, rq_req s) of
        (Some u, Some r) \<Rightarrow> if can_cancel (u_id u) (arq_requester_user_id r) (arq_status r) \<and> yes
          then s\<lparr>rq_cancels := rq_cancels s @ [(u, r)]\<rparr> else s
      | _ \<Rightarrow> s)"
| "detail_act to_iso (OnCard e) s =
     (case (rq_me s, rq_req s, rq_roles s, rq_card s) of
        (Some u, Some r, Some rs, Some c) \<Rightarrow>
          (let c' = decide_act to_iso (set (map ro_id rs)) e c
           in s\<lparr>rq_card := Some c', rq_left := (rq_left s \<or> e = Decided \<and> de_pending c),
             rq_decisions := rq_decisions s @ map (\<lambda>d. (u, r, d)) (drop (length (de_sent c)) (de_sent c'))\<rparr>)
      | _ \<Rightarrow> s)"
| "detail_act to_iso (OrphanAnswered ok) s =
     (if rq_orphans s = 0 then s else s\<lparr>rq_orphans := rq_orphans s - 1, rq_left := (rq_left s \<or> ok)\<rparr>)"

definition truthy :: "string option \<Rightarrow> string option" where
  "truthy v = (case v of None \<Rightarrow> None | Some x \<Rightarrow> if x = [] then None else Some x)"

record decide_shown =
  dcs_error :: "string option"
  dcs_roles :: "(string \<times> string option \<times> bool) list"
  dcs_expiresAt :: string
  dcs_note :: string
  dcs_deny :: "string \<times> bool"
  dcs_approve :: "string \<times> bool"

definition is_approval :: "AccessRequestApprove + AccessRequestDeny \<Rightarrow> bool" where
  "is_approval d = (case d of Inl _ \<Rightarrow> True | Inr _ \<Rightarrow> False)"

text \<open>
  The roles on the card stand by their names in the order of the locale, \<open>lc\<close>. The request under
  way is the one sent last.
\<close>

definition DecideCard :: "(string \<Rightarrow> string \<Rightarrow> int) \<Rightarrow> Role list \<Rightarrow> decide_card \<Rightarrow> decide_shown" where
  "DecideCard lc roles c =
     (let approving = de_pending c \<and> is_approval (last (de_sent c)); denying = de_pending c \<and> \<not> is_approval (last (de_sent c))
      in \<lparr>dcs_error = de_error c,
          dcs_roles = map (\<lambda>r. (ro_name r, truthy (ro_description r), ro_id r \<in> set (de_roleIds c)))
            (sort_by (\<lambda>a b. lc (ro_name a) (ro_name b)) roles),
          dcs_expiresAt = de_expiresAt c, dcs_note = de_note c,
          dcs_deny = (if denying then ''Denying'' @ [CHR 0xE2, CHR 0x80, CHR 0xA6] else ''Deny'', \<not> de_pending c),
          dcs_approve = (if approving then ''Approving'' @ [CHR 0xE2, CHR 0x80, CHR 0xA6] else ''Approve'', \<not> de_pending c)\<rparr>)"

record detail_shown =
  dsh_headline :: string
  dsh_facts :: "(string \<times> string) list"
  dsh_reason :: "string option"
  dsh_note :: "string option"
  dsh_grants :: "string list"
  dsh_cancel :: bool
  dsh_card :: "decide_shown option"

definition decided_facts :: "(string \<Rightarrow> string) \<Rightarrow> AccessRequestPublic \<Rightarrow> (string \<times> string) list" where
  "decided_facts loc r =
     [(''Status'', arq_status r), (''Created'', loc (arq_created_at r))] @
     (case truthy (arq_decided_at r) of None \<Rightarrow> []
      | Some t \<Rightarrow> [(''Decided'', loc t @ (case truthy (arq_decided_by_email r) of None \<Rightarrow> [] | Some e \<Rightarrow> '' by '' @ e))]) @
     (case truthy (arq_granted_expires_at r) of None \<Rightarrow> [] | Some t \<Rightarrow> [(''Expires'', loc t)])"

definition grant_line :: "(string \<Rightarrow> string) \<Rightarrow> AccessRequestGrant \<Rightarrow> string" where
  "grant_line loc g = agr_role_name g @ (case truthy (agr_expires_at g) of None \<Rightarrow> [] | Some t \<Rightarrow> ''expires '' @ loc t)"

definition AccessRequestDetailPage :: "(string \<Rightarrow> string) \<Rightarrow> (string \<Rightarrow> string \<Rightarrow> int) \<Rightarrow> request_detail \<Rightarrow> detail_shown view" where
  "AccessRequestDetailPage loc lc s =
     (case (rq_req s, rq_me s) of
        (Some r, Some u) \<Rightarrow> VShown \<lparr>
          dsh_headline = ''Filed by '' @ requester_name r @ '' for '' @ target_text r @ ''.'',
          dsh_facts = decided_facts loc r, dsh_reason = truthy (arq_reason r), dsh_note = truthy (arq_decision_note r),
          dsh_grants = map (grant_line loc) (arq_grants r),
          dsh_cancel = can_cancel (u_id u) (arq_requester_user_id r) (arq_status r),
          dsh_card = (case (rq_card s, rq_roles s) of (Some c, Some rs) \<Rightarrow> Some (DecideCard lc rs c) | _ \<Rightarrow> None)\<rparr>
      | _ \<Rightarrow> VLoading)"

section \<open>The page of tenants\<close>

record tenant_form =
  tf_name :: string
  tf_description :: string
  tf_contactName :: string
  tf_contactEmail :: string
  tf_contactPhone :: string

definition new_tenant_form :: tenant_form where
  "new_tenant_form = \<lparr>tf_name = [], tf_description = [], tf_contactName = [], tf_contactEmail = [], tf_contactPhone = []\<rparr>"

text \<open>\<open>email_ok\<close> is the browser's check of a field for an address. The cards are links without buttons.\<close>

definition TenantsPage :: "(string \<Rightarrow> bool) \<Rightarrow> (unit, tenant_form, TenantCreate, Tenant) panel_spec" where
  "TenantsPage email_ok = \<lparr>sp_new = \<lambda>_. new_tenant_form, sp_fits = \<lambda>_. True,
     sp_submit = \<lambda>f. if tf_name f \<noteq> [] \<and> (tf_contactEmail f = [] \<or> email_ok (tf_contactEmail f))
       then Send (TenantForm (tf_name f) (tf_description f) (tf_contactName f) (tf_contactEmail f) (tf_contactPhone f)) else Blocked,
     sp_press = \<lambda>_ _ _. None\<rparr>"

definition plural :: "int \<Rightarrow> string \<Rightarrow> string" where
  "plural n noun = show_int n @ '' '' @ noun @ (if n = 1 then [] else ''s'')"

record tenant_card =
  tca_href :: string
  tca_name :: string
  tca_sites :: string
  tca_devices :: string
  tca_description :: "string option"
  tca_contact :: "string option"

definition tenant_card_of :: "Tenant \<Rightarrow> tenant_card" where
  "tenant_card_of t = \<lparr>tca_href = ''/dashboard/tenants/'' @ tn_id t, tca_name = tn_name t, tca_sites = plural (tn_site_count t) ''site'',
     tca_devices = plural (tn_device_count t) ''device'', tca_description = truthy (tn_description t),
     tca_contact = map_option (\<lambda>e. ''Contact: '' @ (case tn_primary_contact_name t of None \<Rightarrow> e | Some n \<Rightarrow> n)) (truthy (tn_primary_contact_email t))\<rparr>"

definition tenant_cards :: "Tenant list query_result \<Rightarrow> bool \<times> string option \<times> tenant_card list" where
  "tenant_cards q =
     (qr_loading q,
      (if \<not> qr_loading q \<and> (qr_data q = None \<or> qr_data q = Some []) then Some ''No tenants yet. Click + New tenant to create your first.'' else None),
      (case qr_data q of None \<Rightarrow> [] | Some ts \<Rightarrow> map tenant_card_of ts))"

section \<open>What the directory shows\<close>

definition device_lines :: "directory_line list \<Rightarrow> directory_line list" where
  "device_lines ls = filter (\<lambda>l. dl_depth l = 2) ls"

lemma device_lines_tenants:
  "device_lines (concat (map dir_tenant_lines ts)) = map (\<lambda>x. dir_device_line (snd (snd x))) (dir_flat ts)"
proof -
  have site: "device_lines (dir_site_lines s) = map dir_device_line (dsn_devices s)" for s
    by (simp add: device_lines_def dir_site_lines_def DirectoryActions_def dir_device_line_def filter_map comp_def)
  have sites: "device_lines (concat (map dir_site_lines ss)) = concat (map (\<lambda>s. map dir_device_line (dsn_devices s)) ss)" for ss
    using site by (induction ss) (simp_all add: device_lines_def)
  have "device_lines (dir_tenant_lines t) = concat (map (\<lambda>s. map dir_device_line (dsn_devices s)) (dtn_sites t))" for t
    using sites [of "dtn_sites t"] by (simp add: device_lines_def dir_tenant_lines_def DirectoryActions_def)
  then show ?thesis by (induction ts) (simp_all add: device_lines_def dir_flat_def map_concat comp_def)
qed

text \<open>
  The lines of devices on the screen are those of the devices that match the filter, in order; each
  has the button that asks for access exactly when the device cannot be reached, and it asks for
  this device. With the tick every one of them has it.
\<close>

theorem directory_lines_exact:
  "let lines = device_lines (concat (map dir_tenant_lines (filteredTenants (Some ts) txt only)));
       devices = map (\<lambda>x. snd (snd x)) (filter (dir_matches only (toLowerCase (trim txt))) (dir_flat ts))
   in map dl_name lines = map dd_name devices \<and>
      map dl_request lines = map (\<lambda>d. if dd_has_access d then None else Some (''device'', dd_id d)) devices \<and>
      (only \<longrightarrow> None \<notin> dl_request ` set lines)"
proof -
  have "dir_flat (filteredTenants (Some ts) txt only) = filter (dir_matches only (toLowerCase (trim txt))) (dir_flat ts)"
    by (rule directory_filter_exact [THEN conjunct1])
  then have eq: "device_lines (concat (map dir_tenant_lines (filteredTenants (Some ts) txt only))) =
      map (\<lambda>x. dir_device_line (snd (snd x))) (filter (dir_matches only (toLowerCase (trim txt))) (dir_flat ts))"
    by (simp add: device_lines_tenants)
  show ?thesis unfolding eq Let_def
    by (auto simp: comp_def dir_device_line_def DirectoryActions_def dir_matches_def)
qed

section \<open>Asking for access\<close>

definition button_inv :: "(string \<Rightarrow> nat) \<Rightarrow> string \<Rightarrow> string \<Rightarrow> request_button \<Rightarrow> bool" where
  "button_inv units ty i b \<longleftrightarrow> units (rb_reason b) \<le> 2048 \<and>
     list_all (\<lambda>p. arc_scope_type p = ty \<and> arc_scope_id p = i \<and> (\<exists>txt. units txt \<le> 2048 \<and> arc_reason p = nul (trim txt))) (rb_sent b)"

lemma button_inv_act: "units [] = 0 \<Longrightarrow> button_inv units ty i b \<Longrightarrow> button_inv units ty i (button_act units ty i e b)"
  by (cases e) (auto simp: button_inv_def)

lemma button_inv_fold: "units [] = 0 \<Longrightarrow> button_inv units ty i b \<Longrightarrow> button_inv units ty i (fold (button_act units ty i) es b)"
  by (induction es arbitrary: b) (simp_all add: button_inv_act)

text \<open>
  Whatever is typed and answered, every request of a button names its scope and has a reason of at
  most 2048 units, trimmed, or none.
\<close>

theorem access_requests_of_button:
  assumes "units [] = 0"
  shows "list_all (\<lambda>p. arc_scope_type p = ty \<and> arc_scope_id p = i \<and> (\<exists>txt. units txt \<le> 2048 \<and> arc_reason p = nul (trim txt)))
    (rb_sent (fold (button_act units ty i) es new_button))"
  using button_inv_fold [of units ty i new_button es] assms by (simp add: button_inv_def new_button_def)

text \<open>
  The answer to a request closes the dialog and clears the reason also where the dialog was closed
  and opened again meanwhile: what was typed since is lost.
\<close>

theorem late_answer_clears_reason:
  assumes "units txt \<le> 2048"
  shows "rb_reason (fold (button_act units ty i) [PressRequest, SendRequest, CloseRequest, PressRequest, TypeWhy txt] new_button) = txt \<and>
    (let b = fold (button_act units ty i) [PressRequest, SendRequest, CloseRequest, PressRequest, TypeWhy txt, RequestSent] new_button
     in rb_reason b = [] \<and> \<not> rb_open b)"
  using assms by (simp add: new_button_def Let_def)

section \<open>One request\<close>

definition cancel_ok :: "UserPublic \<times> AccessRequestPublic \<Rightarrow> bool" where
  "cancel_ok x \<longleftrightarrow> u_id (fst x) = arq_requester_user_id (snd x) \<and> arq_status (snd x) = ''pending''"

definition decided_ok :: "string set \<Rightarrow> UserPublic \<times> AccessRequestPublic \<times> (AccessRequestApprove + AccessRequestDeny) \<Rightarrow> bool" where
  "decided_ok roles x \<longleftrightarrow> (case x of (u, r, d) \<Rightarrow> u_is_admin u \<and> arq_status r = ''pending'' \<and> decision_ok roles d)"

definition detail_inv :: "request_detail \<Rightarrow> bool" where
  "detail_inv s \<longleftrightarrow> (rq_card s \<noteq> None \<longrightarrow> card_shown s) \<and>
     (\<forall>c. rq_card s = Some c \<longrightarrow> decide_inv (set (rq_listed s)) c) \<and>
     (\<forall>rs. rq_roles s = Some rs \<longrightarrow> ro_id ` set rs \<subseteq> set (rq_listed s)) \<and>
     list_all cancel_ok (rq_cancels s) \<and> list_all (decided_ok (set (rq_listed s))) (rq_decisions s)"

lemma decision_ok_more: "decision_ok R d \<Longrightarrow> R \<subseteq> R' \<Longrightarrow> decision_ok R' d"
  by (auto simp: decision_ok_def split: sum.splits)

lemma decide_inv_more: "decide_inv R c \<Longrightarrow> R \<subseteq> R' \<Longrightarrow> decide_inv R' c"
  by (auto simp: decide_inv_def intro: decision_ok_more)

lemma decide_inv_listed: "decide_inv L c \<Longrightarrow> R \<subseteq> L \<Longrightarrow> decide_inv L (decide_act to_iso R e c)"
  by (cases e) (auto simp: decide_inv_def decision_ok_def approve_payload_def split: option.splits if_splits)

lemma decide_inv_new: "decide_inv R new_decision"
  by (simp add: decide_inv_def new_decision_def)

lemma settle_same [simp]:
  "rq_req (settle_card s) = rq_req s" "rq_me (settle_card s) = rq_me s" "rq_roles (settle_card s) = rq_roles s"
  "rq_listed (settle_card s) = rq_listed s" "rq_cancels (settle_card s) = rq_cancels s" "rq_decisions (settle_card s) = rq_decisions s"
  by (simp_all add: settle_card_def split: option.split)

lemma card_shown_settled [simp]: "card_shown (settle_card s) = card_shown s"
  by (simp add: card_shown_def split: option.split)

lemma settled_card: "rq_card (settle_card s) = (if card_shown s then (case rq_card s of None \<Rightarrow> Some new_decision | Some c \<Rightarrow> Some c) else None)"
  by (simp add: settle_card_def split: option.split)

lemma detail_inv_settle:
  assumes "detail_inv s" "rq_card t = rq_card s" "set (rq_listed s) \<subseteq> set (rq_listed t)"
    "\<And>rs. rq_roles t = Some rs \<Longrightarrow> ro_id ` set rs \<subseteq> set (rq_listed t)" "rq_cancels t = rq_cancels s" "rq_decisions t = rq_decisions s"
  shows "detail_inv (settle_card t)"
proof -
  have "decided_ok (set (rq_listed t)) x" if "decided_ok (set (rq_listed s)) x" for x
    using that assms(3) by (auto simp: decided_ok_def intro: decision_ok_more)
  then have "list_all (decided_ok (set (rq_listed t))) (rq_decisions t)"
    using assms(1) by (auto simp: detail_inv_def list_all_iff assms(6))
  moreover have "decide_inv (set (rq_listed t)) c" if "rq_card (settle_card t) = Some c" for c
    using that assms(1) decide_inv_more [OF _ assms(3)]
    by (auto simp: settled_card decide_inv_new detail_inv_def assms(2) split: if_splits option.splits)
  ultimately show ?thesis using assms(1,4) by (simp add: detail_inv_def settled_card assms(5) split: option.split)
qed

lemma decide_act_sent:
  "\<exists>ds. de_sent (decide_act to_iso R e c) = de_sent c @ ds"
  by (cases e) (auto split: option.split)

lemma detail_inv_card:
  assumes "detail_inv s" "rq_me s = Some u" "rq_req s = Some r" "rq_roles s = Some rs" "rq_card s = Some c"
  shows "detail_inv (detail_act to_iso (OnCard e) s)"
proof -
  let ?c = "decide_act to_iso (set (map ro_id rs)) e c"
  from assms have L: "set (map ro_id rs) \<subseteq> set (rq_listed s)" "decide_inv (set (rq_listed s)) c" and sh: "card_shown s"
    by (simp_all add: detail_inv_def)
  have ok: "decide_inv (set (rq_listed s)) ?c" by (rule decide_inv_listed [OF L(2,1)])
  then have "list_all (decision_ok (set (rq_listed s))) (drop (length (de_sent c)) (de_sent ?c))"
    by (auto simp: decide_inv_def list_all_iff dest: in_set_dropD)
  moreover from sh assms have "u_is_admin u" "arq_status r = ''pending''" by (simp_all add: card_shown_def can_decide_def)
  ultimately have "list_all (decided_ok (set (rq_listed s))) (map (\<lambda>d. (u, r, d)) (drop (length (de_sent c)) (de_sent ?c)))"
    by (simp add: list_all_iff decided_ok_def)
  with assms ok sh show ?thesis by (simp add: detail_inv_def Let_def card_shown_def)
qed

lemma detail_inv_act: "detail_inv s \<Longrightarrow> detail_inv (detail_act to_iso e s)"
proof (cases e)
  case (OnCard d)
  assume i: "detail_inv s"
  show ?thesis
  proof (cases "\<exists>u r rs c. rq_me s = Some u \<and> rq_req s = Some r \<and> rq_roles s = Some rs \<and> rq_card s = Some c")
    case True
    with i OnCard detail_inv_card show ?thesis by metis
  next
    case False
    then have "detail_act to_iso (OnCard d) s = s" by (auto split: option.split)
    with i OnCard show ?thesis by simp
  qed
next
  case (RequestRead r)
  assume "detail_inv s"
  then show ?thesis unfolding RequestRead detail_act.simps by (rule detail_inv_settle) (use \<open>detail_inv s\<close> in \<open>simp_all add: detail_inv_def\<close>)
next
  case (AccountRead u)
  assume "detail_inv s"
  then show ?thesis unfolding AccountRead detail_act.simps by (rule detail_inv_settle) (use \<open>detail_inv s\<close> in \<open>simp_all add: detail_inv_def\<close>)
next
  case (RolesListed rs)
  assume "detail_inv s"
  then show ?thesis unfolding RolesListed detail_act.simps by (rule detail_inv_settle) (use \<open>detail_inv s\<close> in \<open>simp_all add: detail_inv_def\<close>)
qed (auto simp: detail_inv_def card_shown_def cancel_ok_def can_cancel_def split: option.splits)

interpretation detail_machine: event_machine "detail_act to_iso" open_detail detail_inv for to_iso
  by unfold_locales (simp add: detail_inv_def open_detail_def, rule detail_inv_act)

text \<open>
  Whatever is read, clicked and answered in any order: a request is cancelled only by who filed it
  and decided only by an administrator, both while the request on the screen is pending; and an
  approval grants at least one role, each once and each one that was on the list.
\<close>

theorem request_page_sound:
  "let s = fold (detail_act to_iso) es open_detail in
   list_all cancel_ok (rq_cancels s) \<and> list_all (decided_ok (set (rq_listed s))) (rq_decisions s)"
  using detail_machine.inv_history [of to_iso es] by (simp add: Let_def detail_inv_def)

text \<open>
  The button that cancels is not disabled while its request is under way: confirmed twice, it asks
  twice.
\<close>

theorem cancelled_twice:
  assumes "u_id u = arq_requester_user_id r" "arq_status r = ''pending''"
  shows "rq_cancels (fold (detail_act to_iso) [AccountRead u, RequestRead r, PressCancel True, PressCancel True] open_detail) = [(u, r), (u, r)]"
  using assms by (simp add: open_detail_def settle_card_def card_shown_def can_cancel_def split: option.split)

text \<open>A request that cannot be read leaves the page loading for good.\<close>

theorem unread_request_loads_forever:
  "AccessRequestDetailPage loc lc (fold (detail_act to_iso) [AccountRead u, RolesListed rs, RequestUnread m] open_detail) = VLoading"
  by (simp add: AccessRequestDetailPage_def open_detail_def)

section \<open>Tenants\<close>

definition tenant_ok :: "(string \<Rightarrow> bool) \<Rightarrow> TenantCreate \<Rightarrow> bool" where
  "tenant_ok email_ok p \<longleftrightarrow> tc_name p \<noteq> [] \<and> tc_slug p = slugify (tc_name p) \<and>
     (case tc_primary_contact_email p of Val e \<Rightarrow> e \<noteq> [] \<and> email_ok e | Null \<Rightarrow> True | Undefined \<Rightarrow> False)"

interpretation tenants: panel_contract "TenantsPage email_ok" "tenant_ok email_ok" "\<lambda>_. None" "\<lambda>_. False" for email_ok
  by unfold_locales (auto simp: TenantsPage_def tenant_ok_def TenantForm_def or_null_def of_nullable.simps split: if_splits)

text \<open>
  Every tenant that is asked for has a name, the slug of the name and, if any, an address the
  browser accepts.
\<close>

theorem tenants_created_sound:
  "list_all (\<lambda>q. case q of Creates p \<Rightarrow> tenant_ok email_ok p | OnRow _ \<Rightarrow> True)
    (pn_sent (fold (panel_act (TenantsPage email_ok)) es blank_panel))"
  by (rule tenants.created_ok)

text \<open>Where the tenants cannot be read, the page says that there are none.\<close>

theorem unread_tenants_look_empty:
  "tenant_cards \<lparr>qr_loading = False, qr_error = Some m, qr_data = None\<rparr> =
   tenant_cards \<lparr>qr_loading = False, qr_error = None, qr_data = Some []\<rparr>"
  by (simp add: tenant_cards_def)

section \<open>Witnesses\<close>

theorem access_requests_of_button_witness:
  "list_all (\<lambda>p. arc_scope_type p = ''site'' \<and> arc_scope_id p = ''s1'' \<and> (\<exists>txt. length txt \<le> 2048 \<and> arc_reason p = nul (trim txt)))
     (rb_sent (fold (button_act length ''site'' ''s1'') [PressRequest, TypeWhy ''ticket'', SendRequest] new_button))"
  by (rule access_requests_of_button) simp

theorem late_answer_clears_reason_witness:
  "rb_reason (fold (button_act length ty i) [PressRequest, SendRequest, CloseRequest, PressRequest, TypeWhy ''please'', RequestSent] new_button) = []"
  using late_answer_clears_reason [of length "''please''" ty i] by (simp add: Let_def)

definition demo_account :: UserPublic where
  "demo_account = \<lparr>u_id = ''u1'', u_email = ''a@b.ge'', u_display_name = None, u_mobile_phone = None, u_is_admin = False,
     u_totp_enrolled = False, u_otp_login_enabled = False, u_must_change_password = False, u_auth_method = ''password'', u_organization_id = ''o1''\<rparr>"

definition demo_access_request :: AccessRequestPublic where
  "demo_access_request = \<lparr>arq_id = ''r1'', arq_organization_id = ''o1'', arq_requester_user_id = ''u1'', arq_requester_email = ''a@b.ge'',
     arq_requester_display_name = None, arq_scope_type = ''site'', arq_scope_id = Some ''s1'', arq_scope_label = Some ''HQ'', arq_reason = None,
     arq_status = ''pending'', arq_created_at = [], arq_updated_at = [], arq_decided_at = None, arq_decided_by_user_id = None,
     arq_decided_by_email = None, arq_granted_expires_at = None, arq_decision_note = None, arq_grants = []\<rparr>"

theorem cancelled_twice_witness:
  "length (rq_cancels (fold (detail_act to_iso) [AccountRead demo_account, RequestRead demo_access_request, PressCancel True, PressCancel True] open_detail)) = 2"
  using cancelled_twice [of demo_account demo_access_request to_iso] by (simp add: demo_account_def demo_access_request_def)

end
