(* ===== verification/System_Views.thy ===== *)
theory System_Views
  imports Event_Machine System_Page Create_Panel
begin

text \<open>
  The sections of the system page of a device (\<open>devices/[id]/system/page.tsx\<close>) as they stand on
  the screen: the reboot behind the name of the device, the fields of the NTP and SNMP forms with
  what disables them, the panel on the source of the time, and the SNMP communities, whose table
  with its form is a panel and whose rows are edited in place.
\<close>

definition three_dots_of :: "string \<Rightarrow> string" where
  "three_dots_of label = label @ [CHR 0xE2, CHR 0x80, CHR 0xA6]"

text \<open>A button: its label and whether it can be pressed.\<close>

definition busy_button :: "bool \<Rightarrow> bool \<Rightarrow> string \<Rightarrow> string \<Rightarrow> string \<times> bool" where
  "busy_button busy enabled doing label = (if busy then three_dots_of doing else label, enabled \<and> \<not> busy)"

section \<open>Rebooting\<close>

text \<open>\<open>rbt_sent\<close> lists the reboots: the name of the device that was on the screen and what was typed.\<close>

record reboot_section =
  rbt_name :: "string option"
  rbt_confirm :: string
  rbt_pending :: bool
  rbt_sent :: "(string option \<times> string) list"
  rbt_answered :: nat

definition blank_reboot :: reboot_section where
  "blank_reboot = \<lparr>rbt_name = None, rbt_confirm = [], rbt_pending = False, rbt_sent = [], rbt_answered = 0\<rparr>"

datatype reboot_event = DeviceNamed string | TypeName string | PressReboot | RebootTriggered | RebootRefused string

fun reboot_act :: "reboot_event \<Rightarrow> reboot_section \<Rightarrow> reboot_section" where
  "reboot_act (DeviceNamed n) s = s\<lparr>rbt_name := Some n\<rparr>"
| "reboot_act (TypeName txt) s = s\<lparr>rbt_confirm := txt\<rparr>"
| "reboot_act PressReboot s =
     (if reboot_armed (rbt_name s) (rbt_confirm s) \<and> \<not> rbt_pending s
      then s\<lparr>rbt_pending := True, rbt_sent := rbt_sent s @ [(rbt_name s, rbt_confirm s)]\<rparr> else s)"
| "reboot_act RebootTriggered s =
     (if rbt_pending s then s\<lparr>rbt_pending := False, rbt_confirm := [], rbt_answered := rbt_answered s + 1\<rparr> else s)"
| "reboot_act (RebootRefused m) s = (if rbt_pending s then s\<lparr>rbt_pending := False, rbt_answered := rbt_answered s + 1\<rparr> else s)"

text \<open>The name that is asked for, what was typed, and the button.\<close>

definition RebootSection :: "reboot_section \<Rightarrow> string \<times> string \<times> (string \<times> bool)" where
  "RebootSection s =
     ((case rbt_name s of Some n \<Rightarrow> if n = [] then three_dots_of ''(loading'' @ '')'' else n | None \<Rightarrow> three_dots_of ''(loading'' @ '')''),
      rbt_confirm s, busy_button (rbt_pending s) (reboot_armed (rbt_name s) (rbt_confirm s)) ''Rebooting'' ''Reboot device'')"

definition reboot_inv :: "reboot_section \<Rightarrow> bool" where
  "reboot_inv s \<longleftrightarrow> list_all (\<lambda>x. reboot_armed (fst x) (snd x)) (rbt_sent s) \<and>
     length (rbt_sent s) = rbt_answered s + (if rbt_pending s then 1 else 0)"

interpretation reboot_machine: event_machine reboot_act blank_reboot reboot_inv
proof unfold_locales
  show "reboot_inv (reboot_act e s)" if "reboot_inv s" for e s
    using that by (cases e) (auto simp: reboot_inv_def)
qed (simp add: reboot_inv_def blank_reboot_def)

text \<open>
  Every reboot was asked for with the name of the device typed out, and the next only after the
  answer to the one before.
\<close>

theorem reboots_confirmed:
  "let s = fold reboot_act es blank_reboot in
   list_all (\<lambda>x. \<exists>n. fst x = Some n \<and> n \<noteq> [] \<and> trim (snd x) = n) (rbt_sent s) \<and>
   rbt_answered s \<le> length (rbt_sent s) \<and> length (rbt_sent s) \<le> rbt_answered s + 1 \<and>
   (snd (snd (snd (RebootSection s))) \<longrightarrow> \<not> rbt_pending s)"
proof -
  have "reboot_armed v t \<Longrightarrow> \<exists>n. v = Some n \<and> n \<noteq> [] \<and> trim t = n" for v t
    by (cases v) (auto simp: reboot_armed_def)
  then show ?thesis using reboot_machine.inv_history [of es]
    by (auto simp: Let_def reboot_inv_def list_all_iff RebootSection_def busy_button_def)
qed

section \<open>Fields that wait and fields that are switched off\<close>

text \<open>
  The checkbox of a form waits for the first answer; the other fields also for the box to be
  ticked. An edit of a field that is disabled does nothing.
\<close>

definition field_open :: "('d, 'f) query_form \<Rightarrow> bool \<Rightarrow> bool" where
  "field_open s enabled \<longleftrightarrow> \<not> qf_loading s \<and> enabled"

datatype ntp_edit = NtpEnabled bool | NtpMode string | NtpServers string

definition NTP_MODES :: "string list" where
  "NTP_MODES = [''unicast'', ''broadcast'', ''multicast'', ''manycast'']"

fun edit_ntp :: "ntp_edit \<Rightarrow> ntp_form \<Rightarrow> ntp_form" where
  "edit_ntp (NtpEnabled b) f = f\<lparr>nt_enabled := b\<rparr>"
| "edit_ntp (NtpMode m) f = (if nt_enabled f \<and> m \<in> set NTP_MODES then f\<lparr>nt_mode := m\<rparr> else f)"
| "edit_ntp (NtpServers v) f = (if nt_enabled f then f\<lparr>nt_servers := v\<rparr> else f)"

datatype snmp_edit = SnmpEnabled bool | SnmpContact string | SnmpLocation string | SnmpTrapTarget string | SnmpTrapVersion string

definition TRAP_VERSIONS :: "(string \<times> string) list" where
  "TRAP_VERSIONS = [(''1'', ''v1''), (''2'', ''v2c''), (''3'', ''v3'')]"

fun edit_snmp :: "snmp_edit \<Rightarrow> snmp_form \<Rightarrow> snmp_form" where
  "edit_snmp (SnmpEnabled b) f = f\<lparr>sm_enabled := b\<rparr>"
| "edit_snmp (SnmpContact v) f = (if sm_enabled f then f\<lparr>sm_contact := v\<rparr> else f)"
| "edit_snmp (SnmpLocation v) f = (if sm_enabled f then f\<lparr>sm_location := v\<rparr> else f)"
| "edit_snmp (SnmpTrapTarget v) f = (if sm_enabled f then f\<lparr>sm_trapTarget := v\<rparr> else f)"
| "edit_snmp (SnmpTrapVersion v) f = (if sm_enabled f \<and> v \<in> fst ` set TRAP_VERSIONS then f\<lparr>sm_trapVersion := v\<rparr> else f)"

datatype time_server_edit = ServeTime bool | ServeBroadcast bool | ServeMulticast bool | ServeManycast bool

fun edit_time_server :: "time_server_edit \<Rightarrow> ntp_server_form \<Rightarrow> ntp_server_form" where
  "edit_time_server (ServeTime b) f = f\<lparr>nsf_enabled := b\<rparr>"
| "edit_time_server (ServeBroadcast b) f = (if nsf_enabled f then f\<lparr>nsf_broadcast := b\<rparr> else f)"
| "edit_time_server (ServeMulticast b) f = (if nsf_enabled f then f\<lparr>nsf_multicast := b\<rparr> else f)"
| "edit_time_server (ServeManycast b) f = (if nsf_enabled f then f\<lparr>nsf_manycast := b\<rparr> else f)"

definition edit_field :: "('e \<Rightarrow> 'f \<Rightarrow> 'f) \<Rightarrow> 'e \<Rightarrow> ('d, 'f) query_form \<Rightarrow> ('d, 'f) query_form" where
  "edit_field edit e s = (if qf_loading s then s else s\<lparr>qf_form := edit e (qf_form s)\<rparr>)"

text \<open>Such an edit is typing in the form of the page.\<close>

lemma edit_field_typed: "edit_field edit e s = form_act False ready load saved (Typed (edit e (qf_form s))) s"
  by (simp add: edit_field_def form_shown_def)

record ('f) settings_shown =
  ssh_errors :: "string list"
  ssh_done :: "string option"
  ssh_form :: 'f
  ssh_box_open :: bool
  ssh_fields_open :: bool
  ssh_save :: "string \<times> bool"

definition settings_section :: "string option \<Rightarrow> string \<Rightarrow> string \<Rightarrow> ('f \<Rightarrow> bool) \<Rightarrow> ('d, 'f) query_form \<Rightarrow> 'f settings_shown" where
  "settings_section read_error noun label is_on s = \<lparr>
     ssh_errors = (case read_error of None \<Rightarrow> [] | Some m \<Rightarrow> [m]) @ (case qf_error s of None \<Rightarrow> [] | Some m \<Rightarrow> [m]),
     ssh_done = (if qf_done s then Some (noun @ '' settings updated.'') else None), ssh_form = qf_form s,
     ssh_box_open = field_open s True, ssh_fields_open = field_open s (is_on (qf_form s)),
     ssh_save = busy_button (qf_saving s) (\<not> qf_loading s) ''Saving'' label\<rparr>"

text \<open>Only the NTP client shows the error of its query.\<close>

definition NtpSection :: "string option \<Rightarrow> (NtpClient, ntp_form) query_form \<Rightarrow> ntp_form settings_shown" where
  "NtpSection read_error s = settings_section read_error ''NTP'' ''Save NTP settings'' nt_enabled s"

definition SnmpSection :: "(SnmpSettings, snmp_form) query_form \<Rightarrow> snmp_form settings_shown" where
  "SnmpSection s = settings_section None ''SNMP'' ''Save SNMP settings'' sm_enabled s"

definition NtpServerSection :: "(NtpServer, ntp_server_form) query_form \<Rightarrow> ntp_server_form settings_shown" where
  "NtpServerSection s = settings_section None ''NTP server'' ''Save NTP server settings'' nsf_enabled s"

text \<open>Where the time comes from, with the button that synchronises now.\<close>

record ntp_source_panel =
  nsp_facts :: "(string \<times> string) list"
  nsp_sync :: "string \<times> bool"
  nsp_message :: "string option"
  nsp_chrony :: bool

definition ntp_facts :: "NtpClient \<Rightarrow> (string \<times> string) list" where
  "ntp_facts d =
     (if truthy_str (nc_provider d) then [(''Provider'', or_blank (nc_provider d))] else []) @
     (case nc_synchronized d of None \<Rightarrow> [] | Some b \<Rightarrow> [(''Status'', if b then ''synchronised'' else ''not synchronised'')]) @
     (case ntp_source d of None \<Rightarrow> [] | Some v \<Rightarrow> [(''In use now'', v)]) @
     (if truthy_str (nc_servers d) then [(''Configured'', join '', '' (split CHR '','' (or_blank (nc_servers d))))] else [])"

definition source_panel :: "bool \<Rightarrow> string option \<Rightarrow> NtpClient option \<Rightarrow> ntp_source_panel option" where
  "source_panel syncing msg data = (case data of None \<Rightarrow> None
     | Some d \<Rightarrow> if truthy_str (nc_provider d) \<or> nc_synchronized d \<noteq> None
         then Some \<lparr>nsp_facts = ntp_facts d, nsp_sync = busy_button syncing True ''Syncing'' ''Sync now'', nsp_message = msg,
           nsp_chrony = (nc_provider d = Some ''chrony'')\<rparr> else None)"

text \<open>
  Who switches a service off changes nothing else: whatever is done to the other fields while the
  box is not ticked, saving asks for their values as they were read.
\<close>

definition switch_kept :: "('e \<Rightarrow> 'f \<Rightarrow> 'f) \<Rightarrow> ('e \<Rightarrow> bool) \<Rightarrow> 'e list \<Rightarrow> ('d, 'f) query_form \<Rightarrow> bool" where
  "switch_kept edit is_tick es s \<longleftrightarrow> qf_form (fold (edit_field edit) (filter (\<lambda>e. \<not> is_tick e) es) s) = qf_form s"

lemma fold_kept:
  assumes "\<And>e. \<not> is_tick e \<Longrightarrow> edit e (qf_form s) = qf_form s"
  shows "switch_kept edit is_tick es s"
proof -
  have "edit_field edit e s = s" if "\<not> is_tick e" for e using assms [OF that] by (simp add: edit_field_def)
  then have "fold (edit_field edit) (filter (\<lambda>e. \<not> is_tick e) es) s = s" by (induction es) auto
  then show ?thesis by (simp add: switch_kept_def)
qed

fun ticks_ntp :: "ntp_edit \<Rightarrow> bool" where
  "ticks_ntp (NtpEnabled b) = True"
| "ticks_ntp _ = False"

fun ticks_snmp :: "snmp_edit \<Rightarrow> bool" where
  "ticks_snmp (SnmpEnabled b) = True"
| "ticks_snmp _ = False"

fun ticks_time_server :: "time_server_edit \<Rightarrow> bool" where
  "ticks_time_server (ServeTime b) = True"
| "ticks_time_server _ = False"

theorem switching_off_keeps_settings:
  assumes "proper_ntp n" "proper_snmp m" "proper_ntp_server v"
  shows "let s = edit_field edit_ntp (NtpEnabled False) (plain_act load_ntp (Fetched n) (form_start new_ntp_form));
      t = edit_field edit_snmp (SnmpEnabled False) (plain_act load_snmp (Fetched m) (form_start new_snmp_form));
      u = edit_field edit_time_server (ServeTime False) (plain_act load_ntp_server (Fetched v) (form_start new_ntp_server_form))
    in switch_kept edit_ntp ticks_ntp es s \<and> ntp_payload (qf_form s) = (current_ntp n)\<lparr>nu_enabled := Val False\<rparr> \<and>
       switch_kept edit_snmp ticks_snmp es' t \<and> snmp_payload (qf_form t) = (current_snmp m)\<lparr>su_enabled := Val False\<rparr> \<and>
       switch_kept edit_time_server ticks_time_server es'' u \<and>
       ntp_server_payload (qf_form u) = (current_ntp_server v)\<lparr>nsu_enabled := Val False\<rparr>"
proof -
  define s where "s = edit_field edit_ntp (NtpEnabled False) (plain_act load_ntp (Fetched n) (form_start new_ntp_form))"
  define t where "t = edit_field edit_snmp (SnmpEnabled False) (plain_act load_snmp (Fetched m) (form_start new_snmp_form))"
  define u where "u = edit_field edit_time_server (ServeTime False) (plain_act load_ntp_server (Fetched v) (form_start new_ntp_server_form))"
  have s: "qf_form s = (load_ntp n new_ntp_form)\<lparr>nt_enabled := False\<rparr>" by (simp add: s_def edit_field_def form_start_def)
  have t: "qf_form t = (load_snmp m new_snmp_form)\<lparr>sm_enabled := False\<rparr>" by (simp add: t_def edit_field_def form_start_def)
  have u: "qf_form u = (load_ntp_server v new_ntp_server_form)\<lparr>nsf_enabled := False\<rparr>" by (simp add: u_def edit_field_def form_start_def)
  have "switch_kept edit_ntp ticks_ntp es s"
  proof (rule fold_kept)
    show "edit_ntp e (qf_form s) = qf_form s" if "\<not> ticks_ntp e" for e using that by (cases e) (simp_all add: s)
  qed
  moreover have "switch_kept edit_snmp ticks_snmp es' t"
  proof (rule fold_kept)
    show "edit_snmp e (qf_form t) = qf_form t" if "\<not> ticks_snmp e" for e using that by (cases e) (simp_all add: t)
  qed
  moreover have "switch_kept edit_time_server ticks_time_server es'' u"
  proof (rule fold_kept)
    show "edit_time_server e (qf_form u) = qf_form u" if "\<not> ticks_time_server e" for e using that by (cases e) (simp_all add: u)
  qed
  moreover have "ntp_payload (qf_form s) = (current_ntp n)\<lparr>nu_enabled := Val False\<rparr>"
    using ntp.payload_load [OF assms(1), of new_ntp_form] by (simp add: s ntp_payload_def current_ntp_def)
  moreover have "snmp_payload (qf_form t) = (current_snmp m)\<lparr>su_enabled := Val False\<rparr>"
    using snmp.payload_load [OF assms(2), of new_snmp_form] by (simp add: t snmp_payload_def current_snmp_def)
  moreover have "ntp_server_payload (qf_form u) = (current_ntp_server v)\<lparr>nsu_enabled := Val False\<rparr>"
    using ntp_server.payload_load [OF assms(3), of new_ntp_server_form] by (simp add: u ntp_server_payload_def current_ntp_server_def)
  ultimately show ?thesis unfolding s_def [symmetric] t_def [symmetric] u_def [symmetric] Let_def by blast
qed

text \<open>
  The panel says that the servers of chrony cannot be edited from here; the form below it lets the
  operator type others and save them all the same.
\<close>

theorem chrony_form_saves:
  assumes "nc_provider d = Some ''chrony''" "nc_enabled d"
  shows "let s = edit_field edit_ntp (NtpServers v) (plain_act load_ntp (Fetched d) (form_start new_ntp_form))
    in map_option nsp_chrony (source_panel syncing msg (qf_data s)) = Some True \<and>
       ssh_fields_open (NtpSection None s) \<and> snd (ssh_save (NtpSection None s)) \<and>
       nu_servers (ntp_payload (qf_form s)) = nul v"
  using assms by (simp add: edit_field_def form_start_def source_panel_def NtpSection_def settings_section_def field_open_def busy_button_def
      load_ntp_def ntp_payload_def Let_def)

section \<open>SNMP communities\<close>

record community_draft =
  cdr_name :: string
  cdr_addresses :: string
  cdr_readAccess :: bool
  cdr_writeAccess :: bool

definition new_community_draft :: community_draft where
  "new_community_draft = \<lparr>cdr_name = [], cdr_addresses = [], cdr_readAccess = True, cdr_writeAccess = False\<rparr>"

definition CommunitiesPanel :: "(unit, community_draft, SnmpCommunityCreate, SnmpCommunity) panel_spec" where
  "CommunitiesPanel = \<lparr>sp_new = \<lambda>_. new_community_draft, sp_fits = \<lambda>_. True,
     sp_submit = \<lambda>f. if cdr_name f \<noteq> []
       then Send (CommunityForm (cdr_name f) (cdr_addresses f) (cdr_readAccess f) (cdr_writeAccess f)) else Blocked,
     sp_press = \<lambda>b yes c. delete_press (sc_id c) b yes\<rparr>"

definition COMMUNITY_COLS :: "string list" where
  "COMMUNITY_COLS = [''Name'', ''Allowed from'', ''Read'', ''Write'', []]"

definition check_mark :: string where
  "check_mark = [CHR 0xE2, CHR 0x9C, CHR 0x93]"

definition warn_write :: string where
  "warn_write = [CHR 0xE2, CHR 0x9A, CHR 0xA0] @ '' write''"

text \<open>A row that is read, and one that is edited: what each column holds.\<close>

datatype community_cell = CellText "string list" | CellNamed string bool | CellBox bool | CellField string "string option" | CellButtons "(string \<times> bool) list"

definition CommunityRow :: "(SnmpCommunity, community_form) row_edit \<Rightarrow> community_cell list" where
  "CommunityRow s =
     (let c = re_row s; f = re_form s
      in if re_editing s
         then [CellNamed (sc_name c) (cf_disabled f), CellField (cf_addresses f) (re_error s),
               CellBox (cf_readAccess f), CellBox (cf_writeAccess f),
               CellButtons [busy_button (re_saving s) True ''Saving'' ''Save'', (''Cancel'', True)]]
         else [CellText ([sc_name c] @ (if sc_disabled c then [''disabled''] else [])),
               CellText [case sc_addresses c of None \<Rightarrow> ''any'' | Some a \<Rightarrow> a],
               CellText [if sc_read_access c then check_mark else em_dash],
               CellText [if sc_write_access c then warn_write else em_dash],
               CellButtons ((if truthy_str (sc_id c) then [(''Edit'', True)] else []) @ [(''Delete'', True)])])"

definition communities_body :: "bool \<Rightarrow> (SnmpCommunity, community_form) row_edit list option \<Rightarrow> (string + community_cell list list) list" where
  "communities_body loading rs =
     (if loading then [Inl (three_dots_of ''Loading'')] else []) @
     (if \<not> loading \<and> (rs = None \<or> rs = Some []) then [Inl ''No SNMP communities defined.''] else []) @
     (case rs of None \<Rightarrow> [] | Some xs \<Rightarrow> [Inr (map CommunityRow xs)])"

definition community_ok :: "SnmpCommunityCreate \<Rightarrow> bool" where
  "community_ok p \<longleftrightarrow> scc_name p \<noteq> [] \<and> scc_security p = Undefined \<and> scc_addresses p \<noteq> Val [] \<and> scc_addresses p \<noteq> Undefined"

interpretation communities: panel_contract CommunitiesPanel community_ok sc_id "\<lambda>_. True"
  by unfold_locales (auto simp: CommunitiesPanel_def community_ok_def CommunityForm_def or_null_def
      dest: press_facts split: if_splits)

text \<open>
  Every community that is created has a name and its addresses or none; a row is deleted only by
  its own button, under its identifier and when the question was answered with yes. Every row has
  a cell under each label, read or edited.
\<close>

theorem communities_sound:
  "panel_sound CommunitiesPanel community_ok sc_id (\<lambda>_. True) \<and> length (CommunityRow s) = length COMMUNITY_COLS"
  by (simp add: communities.contract_sound CommunityRow_def COMMUNITY_COLS_def Let_def)

text \<open>The delete button of a community without an identifier stands there and does nothing.\<close>

theorem nameless_delete_idle:
  assumes "\<not> truthy_str (sc_id c)" "\<not> re_editing s" "re_row s = c"
  shows "(''Delete'', True) \<in> set (case last (CommunityRow s) of CellButtons bs \<Rightarrow> bs | _ \<Rightarrow> []) \<and>
    panel_act CommunitiesPanel (PressRow BDelete True c) p = p"
  using assms by (cases "sc_id c") (simp_all add: CommunityRow_def CommunitiesPanel_def with_id_def truthy_str_def)

section \<open>Witnesses\<close>

theorem switching_off_keeps_settings_witness:
  "snmp_payload (qf_form (edit_field edit_snmp (SnmpEnabled False) (plain_act load_snmp (Fetched demo_snmp) (form_start new_snmp_form)))) =
     (current_snmp demo_snmp)\<lparr>su_enabled := Val False\<rparr>"
proof -
  have "proper_ntp demo_ntp" "proper_snmp demo_snmp" "proper_ntp_server demo_ntp_server"
    by (simp_all add: proper_ntp_def proper_snmp_def proper_ntp_server_def no_blank_def demo_ntp_def demo_snmp_def demo_ntp_server_def)
  from switching_off_keeps_settings [OF this, of "[]" "[]" "[]"] show ?thesis by (simp add: Let_def)
qed

theorem chrony_form_saves_witness:
  "nu_servers (ntp_payload (qf_form (edit_field edit_ntp (NtpServers ''pool'') (plain_act load_ntp
     (Fetched (demo_ntp\<lparr>nc_provider := Some ''chrony''\<rparr>)) (form_start new_ntp_form))))) = nul ''pool''"
  using chrony_form_saves [of "demo_ntp\<lparr>nc_provider := Some ''chrony''\<rparr>" "''pool''"] by (simp add: demo_ntp_def Let_def)

theorem nameless_delete_idle_witness:
  "panel_act CommunitiesPanel (PressRow BDelete True (demo_community\<lparr>sc_id := None\<rparr>)) p = p"
  using nameless_delete_idle [of "demo_community\<lparr>sc_id := None\<rparr>" "mount_row load_community (demo_community\<lparr>sc_id := None\<rparr>)" p]
  by (simp add: mount_row_def truthy_str_def)

end
