(* ===== verification/Fleet_Views.thy ===== *)
theory Fleet_Views
  imports Event_Machine Fleet Format
begin

text \<open>
  The fleet screen as it stands (\<open>app/dashboard/fleet/page.tsx\<close>): the headline with its counts,
  the button that updates all, the cells of a row with the text that was searched for marked, the
  empty states; and the badge of a device's status with its tooltip (\<open>components/status-pill.tsx\<close>).
\<close>

section \<open>Marking what was searched for\<close>

text \<open>\<open>s.indexOf(p)\<close>, None for -1.\<close>

fun indexOf :: "string \<Rightarrow> string \<Rightarrow> nat option" where
  "indexOf [] p = (if p = [] then Some 0 else None)"
| "indexOf (c # s) p = (if startsWith (c # s) p then Some 0 else map_option Suc (indexOf s p))"

text \<open>The text before the mark, the mark and the text after it.\<close>

definition Highlighted :: "string \<Rightarrow> string \<Rightarrow> string \<times> string \<times> string" where
  "Highlighted txt needle =
     (if needle = [] then (txt, [], [])
      else case indexOf (toLowerCase txt) needle of None \<Rightarrow> (txt, [], [])
        | Some i \<Rightarrow> (take i txt, take (length needle) (drop i txt), drop (i + length needle) txt))"

section \<open>The badge of a status\<close>

definition STATUS_LABEL :: "string \<Rightarrow> string option" where
  "STATUS_LABEL s = map_of [(''online'', ''Online''), (''offline'', ''Offline''), (''error'', ''Error''), (''unknown'', ''Unknown'')] s"

datatype pill_tone = PillGreen | PillGrey | PillRed | PillAmber

definition pill_tone_of :: "string \<Rightarrow> pill_tone" where
  "pill_tone_of s = (if s = ''online'' then PillGreen else if s = ''offline'' then PillGrey else if s = ''error'' then PillRed else PillAmber)"

definition hasTooltip :: "string option \<Rightarrow> string option \<Rightarrow> bool" where
  "hasTooltip lastSeenAt error \<longleftrightarrow> truthy_str lastSeenAt \<or> truthy_str error"

datatype pill_event = PillEnter | PillLeave | PillKey string

fun pill_act :: "bool \<Rightarrow> pill_event \<Rightarrow> bool \<Rightarrow> bool" where
  "pill_act has PillEnter opn = (has \<or> opn)"
| "pill_act has PillLeave opn = False"
| "pill_act has (PillKey k) opn =
     (if \<not> has then opn else if k = ''Enter'' \<or> k = '' '' then \<not> opn else if k = ''Escape'' then False else opn)"

record pill_shown =
  pill_label :: "string option"
  pill_color :: pill_tone
  pill_tip :: "(string \<times> string \<times> string \<times> string option) option"

text \<open>\<open>rel\<close> and \<open>absolute\<close> are the texts of a time stamp; the tip starts with what kind of time it is.\<close>

definition StatusPill :: "(string option \<Rightarrow> string) \<Rightarrow> (string option \<Rightarrow> string) \<Rightarrow> bool \<Rightarrow> string \<Rightarrow> string option \<Rightarrow> string option \<Rightarrow> pill_shown" where
  "StatusPill rel absolute opn status lastSeenAt error = \<lparr>pill_label = STATUS_LABEL status, pill_color = pill_tone_of status,
     pill_tip = (if opn \<and> hasTooltip lastSeenAt error
       then Some (if status = ''online'' then ''Last polled'' else if status = ''error'' then ''Last attempt'' else ''Last seen'',
         rel lastSeenAt, absolute lastSeenAt, if truthy_str error then error else None) else None)\<rparr>"

section \<open>A row\<close>

datatype cell_text = Marked "string \<times> string \<times> string" | Plain string | Blank

record linked =
  lk_href :: "string option"
  lk_text :: cell_text

definition arrow :: string where
  "arrow = [CHR 0xE2, CHR 0x86, CHR 0x92]"

definition row_dot :: string where
  "row_dot = [CHR 0xC2, CHR 0xB7]"

definition tenant_cell :: "string \<Rightarrow> Row \<Rightarrow> linked" where
  "tenant_cell hl r = (if tenantFirst r
     then \<lparr>lk_href = Some (''/dashboard/tenants/'' @ tn_id (r_tenant r)), lk_text = Marked (Highlighted (tn_name (r_tenant r)) hl)\<rparr>
     else \<lparr>lk_href = None, lk_text = Plain row_dot\<rparr>)"

definition site_cell :: "string \<Rightarrow> Row \<Rightarrow> linked" where
  "site_cell hl r = (case r_site r of None \<Rightarrow> \<lparr>lk_href = None, lk_text = Plain ''No sites''\<rparr>
     | Some s \<Rightarrow> if siteFirst r then \<lparr>lk_href = Some (''/dashboard/sites/'' @ st_id s), lk_text = Marked (Highlighted (st_name s) hl)\<rparr>
         else \<lparr>lk_href = None, lk_text = Plain row_dot\<rparr>)"

definition device_cell :: "string \<Rightarrow> Row \<Rightarrow> linked" where
  "device_cell hl r = (case r_device r of
       None \<Rightarrow> \<lparr>lk_href = None, lk_text = (if r_site r = None then Blank else Plain ''No devices'')\<rparr>
     | Some d \<Rightarrow> \<lparr>lk_href = Some (''/dashboard/devices/'' @ d_id d), lk_text = Marked (Highlighted (d_name d) hl)\<rparr>)"

text \<open>A server is reached over SSH, any other device on the port of its API.\<close>

definition host_cell :: "string \<Rightarrow> Row \<Rightarrow> cell_text \<times> string" where
  "host_cell hl r = (case r_device r of None \<Rightarrow> (Plain em_dash, [])
     | Some d \<Rightarrow> (Marked (Highlighted (d_host d) hl), '':'' @ show_int (if d_device_class d = ''server'' then d_ssh_port d else d_port d)))"

definition what_cell :: "string \<Rightarrow> Row \<Rightarrow> cell_text" where
  "what_cell hl r = (case r_device r of None \<Rightarrow> Plain em_dash
     | Some d \<Rightarrow>
         if d_device_class d = ''server''
         then (if truthy_str (d_os_version d) then Marked (Highlighted (or_blank (d_os_version d)) hl)
               else Plain (if d_status d = ''unknown'' then ''not yet detected'' else em_dash))
         else if truthy_str (d_model d) then Marked (Highlighted (or_blank (d_model d)) hl) else Plain em_dash)"

definition fwUpgrade :: "Device \<Rightarrow> bool" where
  "fwUpgrade d \<longleftrightarrow> truthy_str (d_firmware_available d) \<and> truthy_str (d_firmware d) \<and> normFw (d_firmware_available d) \<noteq> normFw (d_firmware d)"

text \<open>The firmware with the version that can be had, which a server's kernel never has.\<close>

definition firmware_cell :: "string \<Rightarrow> Row \<Rightarrow> cell_text \<times> string option" where
  "firmware_cell hl r = (case r_device r of None \<Rightarrow> (Plain em_dash, None)
     | Some d \<Rightarrow>
         if truthy_str (d_firmware d)
         then (Marked (Highlighted (or_blank (d_firmware d)) hl),
               if fwUpgrade d \<and> d_device_class d \<noteq> ''server'' then d_firmware_available d else None)
         else (Plain em_dash, None))"

datatype status_cell = NoStatus | InQueue | InProgress | Badge string

definition status_cell_of :: "RefreshState option \<Rightarrow> Row \<Rightarrow> status_cell" where
  "status_cell_of state r = (case r_device r of None \<Rightarrow> NoStatus
     | Some d \<Rightarrow> if state = Some Queued then InQueue else if state = Some Refreshing then InProgress else Badge (d_status d))"

definition open_link :: "Row \<Rightarrow> string \<times> string" where
  "open_link r = (case r_device r of
       Some d \<Rightarrow> (''/dashboard/devices/'' @ d_id d, ''Open '' @ arrow)
     | None \<Rightarrow> (case r_site r of Some s \<Rightarrow> (''/dashboard/sites/'' @ st_id s, ''Open site '' @ arrow)
         | None \<Rightarrow> (''/dashboard/tenants/'' @ tn_id (r_tenant r), ''Open tenant '' @ arrow)))"

record fleet_cells =
  fc_border :: nat
  fc_tenant :: linked
  fc_site :: linked
  fc_device :: linked
  fc_host :: "cell_text \<times> string"
  fc_what :: cell_text
  fc_firmware :: "cell_text \<times> string option"
  fc_status :: status_cell
  fc_open :: "string \<times> string"

text \<open>\<open>fc_border\<close> is the weight of the line above the row: of a tenant, of a site, or none.\<close>

definition FleetRow :: "string \<Rightarrow> RefreshState option \<Rightarrow> Row \<Rightarrow> fleet_cells" where
  "FleetRow hl state r = \<lparr>fc_border = (if tenantFirst r then 2 else if siteFirst r then 1 else 0),
     fc_tenant = tenant_cell hl r, fc_site = site_cell hl r, fc_device = device_cell hl r, fc_host = host_cell hl r,
     fc_what = what_cell hl r, fc_firmware = firmware_cell hl r, fc_status = status_cell_of state r, fc_open = open_link r\<rparr>"

section \<open>The screen\<close>

definition totalTenants :: "Row list \<Rightarrow> nat" where
  "totalTenants rs = card (set (map (\<lambda>r. tn_id (r_tenant r)) rs))"

definition totalSites :: "Row list \<Rightarrow> nat" where
  "totalSites rs = card (set (map st_id (List.map_filter r_site rs)))"

definition totalDevices :: "Row list \<Rightarrow> nat" where
  "totalDevices rs = length (filter (\<lambda>r. r_device r \<noteq> None) rs)"

definition counted :: "nat \<Rightarrow> string \<Rightarrow> string" where
  "counted n noun = show_nat n @ '' '' @ noun @ (if n = 1 then [] else ''s'')"

definition refresh_busy :: "(string \<times> RefreshState) list \<Rightarrow> bool" where
  "refresh_busy m \<longleftrightarrow> (\<exists>v \<in> snd ` set m. v = Queued \<or> v = Refreshing)"

definition refresh_done :: "(string \<times> RefreshState) list \<Rightarrow> nat" where
  "refresh_done m = length (filter (\<lambda>x. snd x = RefreshOk \<or> snd x = RefreshError) m)"

definition update_button :: "(string \<times> RefreshState) list \<Rightarrow> Device list option \<Rightarrow> string \<times> bool" where
  "update_button m devices =
     (if refresh_busy m then ''Updating '' @ show_nat (refresh_done m) @ ''/'' @ show_nat (length m) else ''Update all'',
      \<not> refresh_busy m \<and> devices \<noteq> None \<and> devices \<noteq> Some [])"

definition EmptyFleetState :: "bool \<Rightarrow> string" where
  "EmptyFleetState hasFilter = (if hasFilter then ''Nothing matches that filter.'' else ''No tenants yet'')"

definition FLEET_COLS :: "string list" where
  "FLEET_COLS = [''Tenant'', ''Site'', ''Device'', ''IP / Host'', ''Model / OS'', ''Firmware / Kernel'', ''Status'', ''Details'']"

record fleet_shown =
  fs_counts :: "string list"
  fs_update :: "string \<times> bool"
  fs_body :: "string + fleet_cells list"

definition FleetPage :: "(string \<Rightarrow> string \<Rightarrow> int) \<Rightarrow> Tenant list option \<Rightarrow> Site list option \<Rightarrow> Device list option \<Rightarrow> string \<Rightarrow>
    (string \<times> RefreshState) list \<Rightarrow> fleet_shown" where
  "FleetPage lc tenants sites devices flt refresh =
     (let rs = filtered flt (rows lc tenants sites devices)
      in \<lparr>fs_counts = [counted (totalTenants rs) ''tenant'', counted (totalSites rs) ''site'', counted (totalDevices rs) ''device''],
          fs_update = update_button refresh devices,
          fs_body = (if rs = [] then Inl (EmptyFleetState (flt \<noteq> []))
            else Inr (map (\<lambda>r. FleetRow (toLowerCase flt) (Option.bind (r_device r) (\<lambda>d. map_of refresh (d_id d))) r) rs))\<rparr>)"

section \<open>What marking keeps\<close>

lemma indexOf_Some:
  "indexOf s p = Some i \<Longrightarrow> i + length p \<le> length s \<and> take (length p) (drop i s) = p"
proof (induction s p arbitrary: i rule: indexOf.induct)
  case (2 c s p)
  show ?case
  proof (cases "startsWith (c # s) p")
    case True
    with 2 have i: "i = 0" "take (length p) (c # s) = p" by (simp_all add: startsWith_def)
    then have "length p \<le> length (c # s)" by (metis length_take min.cobounded1)
    with i show ?thesis by simp
  next
    case False
    with 2 show ?thesis by auto
  qed
qed (auto split: if_splits)

lemma indexOf_None: "indexOf s p = None \<longleftrightarrow> \<not> str_includes s p"
  by (induction s p rule: indexOf.induct) auto

lemma lower_take: "toLowerCase (take n s) = take n (toLowerCase s)" "toLowerCase (drop n s) = drop n (toLowerCase s)"
  "length (toLowerCase s) = length s"
  by (simp_all add: toLowerCase_def take_map drop_map)

text \<open>
  Marking loses nothing of a text: its three parts are the text; the mark is what was searched for,
  up to case, and it is there exactly when the text contains that.
\<close>

theorem highlight_keeps_text:
  "case Highlighted txt needle of (a, m, z) \<Rightarrow> a @ m @ z = txt \<and>
     (if needle \<noteq> [] \<and> str_includes (toLowerCase txt) needle then toLowerCase m = needle else m = [])"
proof (cases "needle = [] \<or> indexOf (toLowerCase txt) needle = None")
  case True
  then show ?thesis using indexOf_None [of "toLowerCase txt" needle] by (cases "needle = []") (auto simp: Highlighted_def)
next
  case False
  then obtain i where i: "needle \<noteq> []" "indexOf (toLowerCase txt) needle = Some i" by auto
  have "str_includes (toLowerCase txt) needle" using i indexOf_None [of "toLowerCase txt" needle] by simp
  moreover have "take i txt @ take (length needle) (drop i txt) @ drop (i + length needle) txt = txt"
    by (metis add.commute append_take_drop_id drop_drop)
  ultimately show ?thesis using i indexOf_Some [OF i(2)] by (simp add: Highlighted_def lower_take)
qed

lemma trim_blank_end:
  assumes "is_ws c"
  shows "trim (s @ [c]) = trim s"
proof (cases "\<forall>x\<in>set s. is_ws x")
  case True
  with assms have "dropWhile is_ws (s @ [c]) = []" "dropWhile is_ws s = []" by (simp_all add: dropWhile_eq_Nil_conv)
  then show ?thesis by (simp only: trim_def trimStart_def)
next
  case False
  then obtain x where "x \<in> set s" "\<not> is_ws x" by blast
  then have "dropWhile is_ws (s @ [c]) = dropWhile is_ws s @ [c]" by (rule dropWhile_append1)
  with assms show ?thesis by (simp add: trim_def trimStart_def trimEnd_def)
qed

lemma lower_char_blank: "lower_char c = CHR 0x20 \<longleftrightarrow> c = CHR 0x20"
proof
  assume l: "lower_char c = CHR 0x20"
  show "c = CHR 0x20"
  proof (cases "65 \<le> ccode c \<and> ccode c \<le> 90")
    case True
    with l have "of_char (char_of (ccode c + 32) :: char) = (32 :: nat)" by (simp add: lower_char_def)
    with True show ?thesis by simp
  next
    case False
    then have "lower_char c = c" by (auto simp: lower_char_def)
    with l show ?thesis by simp
  qed
qed (simp add: lower_char_def)

text \<open>
  The filter is trimmed, the text to mark is not: after a blank behind the word the rows are the
  same, with nothing marked in a name that has no blank.
\<close>

theorem padded_filter_marks_nothing:
  assumes "CHR 0x20 \<notin> set txt"
  shows "filtered (needle @ [CHR 0x20]) rs = filtered needle rs \<and> Highlighted txt (toLowerCase (needle @ [CHR 0x20])) = (txt, [], [])"
proof -
  have blank: "CHR 0x20 \<in> set (toLowerCase (needle @ [CHR 0x20]))" by (simp add: toLowerCase_def lower_char_def)
  have "indexOf (toLowerCase txt) (toLowerCase (needle @ [CHR 0x20])) = None"
  proof (rule ccontr)
    assume "indexOf (toLowerCase txt) (toLowerCase (needle @ [CHR 0x20])) \<noteq> None"
    then obtain i where "indexOf (toLowerCase txt) (toLowerCase (needle @ [CHR 0x20])) = Some i" by auto
    from indexOf_Some [OF this] have "set (toLowerCase (needle @ [CHR 0x20])) \<subseteq> set (toLowerCase txt)"
      by (metis set_drop_subset set_take_subset subset_trans)
    with blank have "CHR 0x20 \<in> set (toLowerCase txt)" by blast
    with assms show False by (auto simp: toLowerCase_def lower_char_blank dest: sym)
  qed
  then show ?thesis by (simp add: Highlighted_def filtered_def trim_blank_end is_ws_def)
qed

section \<open>The counts of the headline\<close>

lemma device_rows_of: "r \<in> set (device_rows t s ds tu su) \<Longrightarrow> r_tenant r = t \<and> r_site r = Some s"
  by (induction ds arbitrary: tu su) auto

lemma device_rows_some: "device_rows t s ds tu su = [] \<longleftrightarrow> ds = []"
  by (cases ds) auto

lemma site_rows_of: "r_tenant ` set (site_rows lc m t ss tu) \<subseteq> {t}" "r_site ` set (site_rows lc m t ss tu) = Some ` set ss"
proof (induction ss arbitrary: tu)
  case (Cons s ss)
  {
    case 1 show ?case using Cons(1) by (auto simp: Let_def dest: device_rows_of)
  next
    case 2
    have "r_site ` set (device_rows t s ds tu su) = {Some s}" if "ds \<noteq> []" for ds tu su
      using that device_rows_some [of t s ds tu su] device_rows_of [of _ t s ds tu su] by (cases "device_rows t s ds tu su") force+
    then show ?case using Cons(2) by (simp add: Let_def image_Un)
  }
qed simp_all

lemma tenant_rows_of:
  "r_tenant ` set (tenant_rows lc (by_key st_tenant_id ss) m t) = {t}"
  "Some s \<in> r_site ` set (tenant_rows lc (by_key st_tenant_id ss) m t) \<longleftrightarrow> s \<in> set ss \<and> st_tenant_id s = tn_id t"
proof -
  let ?o = "sort_by (\<lambda>a b. lc (st_name a) (st_name b)) (filter (\<lambda>s. st_tenant_id s = tn_id t) ss)"
  show "r_tenant ` set (tenant_rows lc (by_key st_tenant_id ss) m t) = {t}"
  proof (cases "?o = []")
    case True
    then show ?thesis unfolding tenant_rows_def Let_def get_by_key by simp
  next
    case False
    then have eq: "tenant_rows lc (by_key st_tenant_id ss) m t = site_rows lc m t ?o False"
      unfolding tenant_rows_def Let_def get_by_key by (rule if_not_P)
    from False have "set ?o \<noteq> {}" by (metis set_empty)
    then have "Some ` set ?o \<noteq> {}" by (metis image_is_empty)
    then have "site_rows lc m t ?o False \<noteq> []" unfolding site_rows_of(2) [of lc m t ?o False, symmetric] by simp
    then have "r_tenant ` set (site_rows lc m t ?o False) \<noteq> {}" by simp
    with site_rows_of(1) [of lc m t ?o False] show ?thesis unfolding eq by (simp only: subset_singleton_iff) simp
  qed
  show "Some s \<in> r_site ` set (tenant_rows lc (by_key st_tenant_id ss) m t) \<longleftrightarrow> s \<in> set ss \<and> st_tenant_id s = tn_id t"
  proof (cases "?o = []")
    case True
    then have "\<forall>s \<in> set ss. st_tenant_id s \<noteq> tn_id t" by (simp add: filter_empty_conv)
    with True show ?thesis unfolding tenant_rows_def Let_def get_by_key by auto
  next
    case False
    then have "tenant_rows lc (by_key st_tenant_id ss) m t = site_rows lc m t ?o False"
      unfolding tenant_rows_def Let_def get_by_key by (rule if_not_P)
    then have "r_site ` set (tenant_rows lc (by_key st_tenant_id ss) m t) = Some ` set ?o" by (simp only: site_rows_of(2))
    then show ?thesis by auto
  qed
qed

lemma map_filter_mem: "x \<in> set (List.map_filter f xs) \<longleftrightarrow> Some x \<in> f ` set xs"
proof -
  have "x \<in> set (List.map_filter f xs) \<longleftrightarrow> (\<exists>y \<in> set xs. f y = Some x)"
    by (induction xs) (auto simp: List.map_filter_def)
  also have "\<dots> \<longleftrightarrow> Some x \<in> f ` set xs" by (auto simp: image_iff intro: sym)
  finally show ?thesis .
qed

text \<open>
  Without a filter the headline counts every tenant, every site of a known tenant and every device
  of such a site, each once.
\<close>

theorem headline_counts:
  assumes "distinct (map tn_id ts)" "distinct (map st_id ss)"
  shows "fs_counts (FleetPage lc (Some ts) (Some ss) (Some ds) [] m) =
    [counted (length ts) ''tenant'', counted (length (filter (\<lambda>s. st_tenant_id s \<in> tn_id ` set ts) ss)) ''site'',
     counted (length (filter (\<lambda>d. \<exists>s \<in> set ss. st_id s = d_site_id d \<and> st_tenant_id s \<in> tn_id ` set ts) ds)) ''device'']"
proof -
  let ?rs = "rows lc (Some ts) (Some ss) (Some ds)"
  have row: "r \<in> set ?rs \<longleftrightarrow> (\<exists>t \<in> set ts. r \<in> set (tenant_rows lc (by_key st_tenant_id ss) (by_key d_site_id ds) t))" for r
    by (simp add: rows_def)
  have "r_tenant ` set ?rs = set ts"
  proof
    show "r_tenant ` set ?rs \<subseteq> set ts"
    proof
      fix x assume "x \<in> r_tenant ` set ?rs"
      then obtain r t where r: "x = r_tenant r" "t \<in> set ts" "r \<in> set (tenant_rows lc (by_key st_tenant_id ss) (by_key d_site_id ds) t)"
        using row by auto
      then have "x \<in> r_tenant ` set (tenant_rows lc (by_key st_tenant_id ss) (by_key d_site_id ds) t)" by blast
      then have "x = t" unfolding tenant_rows_of(1) by simp
      with r(2) show "x \<in> set ts" by simp
    qed
    show "set ts \<subseteq> r_tenant ` set ?rs"
    proof
      fix t assume "t \<in> set ts"
      moreover have "t \<in> r_tenant ` set (tenant_rows lc (by_key st_tenant_id ss) (by_key d_site_id ds) t)" by (simp add: tenant_rows_of)
      ultimately show "t \<in> r_tenant ` set ?rs" using row by blast
    qed
  qed
  then have "set (map (\<lambda>r. tn_id (r_tenant r)) ?rs) = set (map tn_id ts)" by (metis image_image list.set_map)
  then have t: "totalTenants ?rs = length ts" unfolding totalTenants_def using distinct_card [OF assms(1)] by simp
  let ?K = "filter (\<lambda>s. st_tenant_id s \<in> tn_id ` set ts) ss"
  have "s \<in> set (List.map_filter r_site ?rs) \<longleftrightarrow> s \<in> set ?K" for s
  proof -
    have "set ?rs = (\<Union>t \<in> set ts. set (tenant_rows lc (by_key st_tenant_id ss) (by_key d_site_id ds) t))" by (simp add: rows_def)
    then have "Some s \<in> r_site ` set ?rs \<longleftrightarrow>
        (\<exists>t \<in> set ts. Some s \<in> r_site ` set (tenant_rows lc (by_key st_tenant_id ss) (by_key d_site_id ds) t))"
      by (simp only: image_UN UN_iff)
    then have "s \<in> set (List.map_filter r_site ?rs) \<longleftrightarrow> (\<exists>t \<in> set ts. s \<in> set ss \<and> st_tenant_id s = tn_id t)"
      by (simp only: map_filter_mem tenant_rows_of(2))
    then show ?thesis by (auto simp: image_iff)
  qed
  then have "set (List.map_filter r_site ?rs) = set ?K" by (rule set_eqI)
  then have "set (map st_id (List.map_filter r_site ?rs)) = set (map st_id ?K)" by (simp only: list.set_map)
  moreover have "distinct (map st_id ?K)" by (rule distinct_map_filter [OF assms(2)])
  ultimately have s: "totalSites ?rs = length ?K" unfolding totalSites_def using distinct_card [of "map st_id ?K"] by simp
  have "length (shown_devices ?rs) = length (filter (\<lambda>d. \<exists>s \<in> set ss. st_id s = d_site_id d \<and> st_tenant_id s \<in> tn_id ` set ts) ds)"
    using shown_devices_rows [OF assms, of lc ds] by (rule mset_eq_length)
  moreover have "totalDevices ?rs = length (shown_devices ?rs)"
    by (simp add: totalDevices_def shown_devices_def List.map_filter_def comp_def)
  ultimately have d: "totalDevices ?rs = length (filter (\<lambda>d. \<exists>s \<in> set ss. st_id s = d_site_id d \<and> st_tenant_id s \<in> tn_id ` set ts) ds)"
    by simp
  have "filtered [] ?rs = ?rs" by (simp add: filtered_def trim_def trimStart_def trimEnd_def toLowerCase_def)
  then show ?thesis by (simp only: FleetPage_def Let_def fleet_shown.simps t s d)
qed

text \<open>Before the queries have answered, or where one failed, the screen says that there are no tenants.\<close>

theorem unread_fleet_looks_empty:
  assumes "tenants = None \<or> sites = None \<or> devices = None"
  shows "fs_body (FleetPage lc tenants sites devices [] m) = Inl ''No tenants yet''"
  using assms by (auto simp: FleetPage_def rows_def filtered_def EmptyFleetState_def Let_def split: option.splits)

section \<open>The tooltip of a badge\<close>

text \<open>
  Without a time or an error to tell there is never a tooltip, and leaving or escaping hides it;
  its last line is there exactly for an error.
\<close>

theorem tooltip_has_content:
  "(case pill_tip (StatusPill rel absolute (fold (pill_act (hasTooltip seen err)) es False) status seen err) of
      None \<Rightarrow> True | Some (kind, r, a, e) \<Rightarrow> (truthy_str seen \<or> truthy_str err) \<and> r = rel seen \<and> a = absolute seen \<and> (e \<noteq> None \<longleftrightarrow> truthy_str err)) \<and>
   pill_tip (StatusPill rel absolute (fold (pill_act (hasTooltip seen err)) (es @ [PillLeave]) False) status seen err) = None \<and>
   pill_tip (StatusPill rel absolute (fold (pill_act (hasTooltip seen err)) (es @ [PillKey ''Escape'']) False) status seen err) = None"
proof -
  have closed: "fold (pill_act h) (es @ [PillLeave]) False = False" "h \<Longrightarrow> fold (pill_act h) (es @ [PillKey ''Escape'']) False = False" for h
    by simp_all
  have tip: "case pill_tip (StatusPill rel absolute opn status seen err) of None \<Rightarrow> True
    | Some (kind, r, a, e) \<Rightarrow> (truthy_str seen \<or> truthy_str err) \<and> r = rel seen \<and> a = absolute seen \<and> (e \<noteq> None \<longleftrightarrow> truthy_str err)" for opn
    by (cases err) (simp_all add: StatusPill_def hasTooltip_def truthy_str_def)
  have shut: "pill_tip (StatusPill rel absolute False status seen err) = None" by (simp add: StatusPill_def)
  have bare: "\<not> hasTooltip seen err \<Longrightarrow> pill_tip (StatusPill rel absolute opn status seen err) = None" for opn
    by (simp add: StatusPill_def)
  show ?thesis
    using tip shut bare closed by (cases "hasTooltip seen err") (simp_all only: simp_thms)
qed

section \<open>Witnesses\<close>

theorem padded_filter_marks_nothing_witness:
  "Highlighted ''Acme'' (toLowerCase (''acme'' @ [CHR 0x20])) = (''Acme'', [], [])"
  using padded_filter_marks_nothing [of "''Acme''" "''acme''" "[]"] by simp

theorem headline_counts_witness:
  "fs_counts (FleetPage (\<lambda>_ _. 0) (Some [demo_tenant]) (Some [demo_site]) (Some []) [] []) =
    [counted 1 ''tenant'', counted (length (filter (\<lambda>s. st_tenant_id s \<in> tn_id ` set [demo_tenant]) [demo_site])) ''site'', counted 0 ''device'']"
  using headline_counts [of "[demo_tenant]" "[demo_site]" "\<lambda>_ _. 0" "[]" "[]"] by simp

theorem unread_fleet_looks_empty_witness:
  "fs_body (FleetPage lc None None None [] []) = Inl ''No tenants yet''"
  using unread_fleet_looks_empty [of None None None lc "[]"] by simp

end
