(* ===== verification/Ufw_Views.thy ===== *)
theory Ufw_Views
  imports Ufw_Screen
begin

text \<open>
  The firewall screen of a Linux host as it stands (\<open>components/ufw-firewall.tsx\<close>): the buttons of
  its head, the notices and figures, the table of rules with the buttons of each row and the rules
  held off the host; and that the buttons that can be pressed are the steps of \<open>Ufw_Screen\<close>.
\<close>

section \<open>Cells\<close>

definition NO_SPEC :: string where
  "NO_SPEC = ''NetFleet could not match this rule to a ufw specification, so it cannot change it safely''"

datatype pill_color_of = Emerald | Amberish | Rose

definition ActionPill_ufw :: "string \<Rightarrow> string \<Rightarrow> pill_color_of \<times> string" where
  "ActionPill_ufw act direction = (if act = ''allow'' then Emerald else if act = ''limit'' then Amberish else Rose,
     toUpperCase act @ '' '' @ toUpperCase direction)"

text \<open>The badge of a rule for one version of the protocol only, with its title.\<close>

definition IpVersionBadge :: "string \<Rightarrow> (string \<times> string) option" where
  "IpVersionBadge version = (if version = ''both'' then None
     else Some (version, if version = ''v4'' then ''IPv4 only '' @ em_dash @ '' IPv6 traffic is not matched by this rule''
       else ''IPv6 only '' @ em_dash @ '' IPv4 traffic is not matched by this rule''))"

definition dash_if_none :: "('a \<Rightarrow> string) \<Rightarrow> 'a option \<Rightarrow> string" where
  "dash_if_none f v = (case v of None \<Rightarrow> em_dash | Some x \<Rightarrow> f x)"

text \<open>A button of a row: its title and whether it can be pressed.\<close>

record row_buttons =
  rbn_up :: bool
  rbn_down :: bool
  rbn_edit :: "string \<times> bool"
  rbn_disable :: "string \<times> bool"
  rbn_delete :: "string \<times> bool"

definition rule_buttons :: "UfwStatus \<Rightarrow> bool \<Rightarrow> UfwRule \<Rightarrow> row_buttons" where
  "rule_buttons d busy r =
     (let has = truthy_str (ur_spec r); free = (\<not> busy \<and> has); titled = (\<lambda>t. if has then t @ or_blank (ur_spec r) else NO_SPEC)
      in \<lparr>rbn_up = (free \<and> ur_position r \<noteq> None \<and> ur_position r \<noteq> firstPos d),
          rbn_down = (free \<and> ur_position r \<noteq> None \<and> ur_position r \<noteq> lastPos d),
          rbn_edit = (titled ''Edit: '', free),
          rbn_disable = (if has then ''Remove from the host and keep it here'' else NO_SPEC, free),
          rbn_delete = (titled ''Delete: '', free)\<rparr>)"

record rule_row =
  rr_number :: "string option"
  rr_to :: "string \<times> (string \<times> string) option"
  rr_action :: "pill_color_of \<times> string"
  rr_from :: string
  rr_interface :: string
  rr_comment :: string
  rr_buttons :: row_buttons

text \<open>Rules are numbered unless they were read while ufw was off. \<open>num\<close> prints a number.\<close>

definition rule_row_of :: "(rat \<Rightarrow> string) \<Rightarrow> UfwStatus \<Rightarrow> bool \<Rightarrow> UfwRule \<Rightarrow> rule_row" where
  "rule_row_of num d busy r = \<lparr>
     rr_number = (if ufw_rules_from_added d then None
       else Some (case ur_position r of Some n \<Rightarrow> num n | None \<Rightarrow> dash_if_none num (ur_position_v6 r))),
     rr_to = (ur_destination r, IpVersionBadge (ur_ip_version r)), rr_action = ActionPill_ufw (ur_action r) (ur_direction r),
     rr_from = ur_source r, rr_interface = dash_if_none id (ur_interface r), rr_comment = dash_if_none id (ur_comment r),
     rr_buttons = rule_buttons d busy r\<rparr>"

definition RuleTable :: "(rat \<Rightarrow> string) \<Rightarrow> UfwStatus \<Rightarrow> bool \<Rightarrow> string list \<times> rule_row list" where
  "RuleTable num d busy =
     ((if ufw_rules_from_added d then [] else [''#'']) @ [''To'', ''Action'', ''From'', ''Interface'', ''Comment'', []],
      map (rule_row_of num d busy) (ufw_rules d))"

record held_row =
  hr_was :: string
  hr_to :: string
  hr_action :: "pill_color_of \<times> string"
  hr_from :: string
  hr_comment :: string
  hr_enable :: "string \<times> bool"

definition held_row_of :: "(rat \<Rightarrow> string) \<Rightarrow> bool \<Rightarrow> UfwDisabledRule \<Rightarrow> held_row" where
  "held_row_of num busy r = \<lparr>hr_was = dash_if_none num (ud_position r), hr_to = ud_destination r,
     hr_action = ActionPill_ufw (ud_action r) (ud_direction r), hr_from = ud_source r, hr_comment = dash_if_none id (ud_comment r),
     hr_enable = (''Reinstall: '' @ ud_spec r, \<not> busy)\<rparr>"

definition DisabledRules :: "(rat \<Rightarrow> string) \<Rightarrow> bool \<Rightarrow> UfwDisabledRule list \<Rightarrow> string \<times> held_row list" where
  "DisabledRules num busy rs = (''Disabled rules ('' @ show_nat (length rs) @ '')'', map (held_row_of num busy) rs)"

section \<open>The screen\<close>

datatype stat_tone = StatOk | StatWarn | StatPlain

definition Stats :: "UfwStatus \<Rightarrow> (string \<times> string \<times> stat_tone) list" where
  "Stats d = [(''Status'', if ufw_active d then ''Active'' else ''Inactive'', if ufw_active d then StatOk else StatWarn),
     (''Incoming'', dash_if_none id (ufw_default_incoming d), if ufw_default_incoming d = Some ''allow'' then StatWarn else StatPlain),
     (''Outgoing'', dash_if_none id (ufw_default_outgoing d), StatPlain), (''Logging'', dash_if_none id (ufw_logging d), StatPlain)]"

datatype ufw_notice = NotInstalled | SwitchedOff | NoRules bool | NotNumbered

definition ufw_notices :: "UfwStatus option \<Rightarrow> ufw_notice list" where
  "ufw_notices data = (case data of None \<Rightarrow> []
     | Some d \<Rightarrow>
         if \<not> ufw_installed d then [NotInstalled]
         else (if ufw_active d then [] else [SwitchedOff]) @
           (if ufw_rules d = [] then [NoRules (ufw_default_incoming d = Some ''deny'' \<and> ufw_active d)] else []) @
           (if ufw_rules_from_added d \<and> ufw_rules d \<noteq> [] then [NotNumbered] else []))"

datatype head_button = TurnOn | TurnOff bool | AddRule bool

text \<open>The buttons of the head: turning off waits for its answer, adding a rule is cancelled by the same button.\<close>

definition head_buttons :: "ufw_screen \<Rightarrow> head_button list" where
  "head_buttons s = (case us_data s of None \<Rightarrow> []
     | Some d \<Rightarrow>
         if \<not> ufw_installed d then []
         else (if ufw_active d then [TurnOff (\<not> us_turningOff s)] else [TurnOn]) @ [AddRule (us_showForm s \<and> us_editing s = None)])"

record ufw_shown =
  uw_head :: "head_button list"
  uw_dialog :: bool
  uw_form :: "UfwRule option option"
  uw_notices :: "ufw_notice list"
  uw_stats :: "(string \<times> string \<times> stat_tone) list"
  uw_table :: "(string list \<times> rule_row list) option"
  uw_held :: "(string \<times> held_row list) option"
  uw_profiles :: "(string \<times> string list) option"

definition UfwFirewall :: "(rat \<Rightarrow> string) \<Rightarrow> ufw_screen \<Rightarrow> ufw_shown" where
  "UfwFirewall num s =
     (let shown = (case us_data s of Some d \<Rightarrow> if ufw_installed d then Some d else None | None \<Rightarrow> None)
      in \<lparr>uw_head = head_buttons s, uw_dialog = us_showEnable s,
          uw_form = (if (us_showForm s \<or> us_editing s \<noteq> None) \<and> shown \<noteq> None then Some (us_editing s) else None),
          uw_notices = ufw_notices (us_data s), uw_stats = (case shown of None \<Rightarrow> [] | Some d \<Rightarrow> Stats d),
          uw_table = Option.bind shown (\<lambda>d. if ufw_rules d = [] then None else Some (RuleTable num d (table_busy s))),
          uw_held = Option.bind shown (\<lambda>d. if ufw_disabled_rules d = [] then None
            else Some (DisabledRules num (us_toggling s) (ufw_disabled_rules d))),
          uw_profiles = Option.bind shown (\<lambda>d. if ufw_app_profiles d = [] then None
            else Some (''Application profiles ('' @ show_nat (length (ufw_app_profiles d)) @ '')'', ufw_app_profiles d))\<rparr>)"

section \<open>Buttons are steps\<close>

definition asks_for :: "ufw_screen \<Rightarrow> ufw_call \<Rightarrow> bool" where
  "asks_for s c \<longleftrightarrow> (\<exists>t. ufw_step s t \<and> us_history t = us_history s @ [Requested c])"

lemma row_iff: "us_data s = Some d \<Longrightarrow> ufw_installed d \<Longrightarrow> r \<in> set (ufw_rules d) \<Longrightarrow> row s r spec \<longleftrightarrow> ur_spec r = Some spec \<and> spec \<noteq> []"
  by (auto simp: row_def)

lemma asksI: "ufw_step s (record_event (Requested c) t) \<Longrightarrow> us_history t = us_history s \<Longrightarrow> asks_for s c"
  by (auto simp: asks_for_def record_event_def)

text \<open>
  A button of a row can be pressed exactly where the row is one of a known specification, nothing
  is under way on the table and, to move it, it is numbered and not the first or last; and pressing
  it makes the request for this rule.
\<close>

theorem row_buttons_are_steps:
  assumes "us_data s = Some d" "ufw_installed d" "r \<in> set (ufw_rules d)"
  shows "let b = rule_buttons d (table_busy s) r
    in (rbn_up b \<longleftrightarrow> (\<exists>spec. row s r spec) \<and> \<not> table_busy s \<and> can_move d (ur_position r) (-1)) \<and>
       (rbn_down b \<longleftrightarrow> (\<exists>spec. row s r spec) \<and> \<not> table_busy s \<and> can_move d (ur_position r) 1) \<and>
       (snd (rbn_delete b) \<longleftrightarrow> (\<exists>spec. row s r spec) \<and> \<not> table_busy s) \<and>
       (rbn_up b \<longrightarrow> asks_for s (MoveRule (or_blank (ur_spec r)) (the (ur_position r) - 1))) \<and>
       (rbn_down b \<longrightarrow> asks_for s (MoveRule (or_blank (ur_spec r)) (the (ur_position r) + 1))) \<and>
       (snd (rbn_delete b) \<longrightarrow> asks_for s (DeleteRule (or_blank (ur_spec r)) False)) \<and>
       (snd (rbn_disable b) \<longrightarrow> asks_for s (DisableRule (or_blank (ur_spec r)))) \<and>
       (\<not> truthy_str (ur_spec r) \<longrightarrow> fst (rbn_delete b) = NO_SPEC)"
proof -
  let ?b = "rule_buttons d (table_busy s) r"
  note r = row_iff [OF assms]
  have free: "(\<exists>spec. row s r spec) \<longleftrightarrow> truthy_str (ur_spec r)" using r by (auto simp: truthy_str_def split: option.split)
  have up: "rbn_up ?b \<longleftrightarrow> truthy_str (ur_spec r) \<and> \<not> table_busy s \<and> can_move d (ur_position r) (-1)"
    by (auto simp: rule_buttons_def Let_def can_move_def)
  have down: "rbn_down ?b \<longleftrightarrow> truthy_str (ur_spec r) \<and> \<not> table_busy s \<and> can_move d (ur_position r) 1"
    by (auto simp: rule_buttons_def Let_def can_move_def)
  have rest: "snd (rbn_delete ?b) \<longleftrightarrow> truthy_str (ur_spec r) \<and> \<not> table_busy s" "snd (rbn_disable ?b) \<longleftrightarrow> truthy_str (ur_spec r) \<and> \<not> table_busy s"
    "\<not> truthy_str (ur_spec r) \<Longrightarrow> fst (rbn_delete ?b) = NO_SPEC"
    by (auto simp: rule_buttons_def Let_def)
  have spec: "row s r (or_blank (ur_spec r))" if "truthy_str (ur_spec r)"
    using that r by (cases "ur_spec r") (auto simp: truthy_str_def or_blank_def)
  have move: "asks_for s (MoveRule (or_blank (ur_spec r)) (the (ur_position r) + delta))"
    if "truthy_str (ur_spec r)" "\<not> table_busy s" "can_move d (ur_position r) delta" for delta
    by (rule asksI [OF ufw_step.move_rule [OF spec [OF that(1)] assms(1) that(2,3)]]) simp
  have delete: "asks_for s (DeleteRule (or_blank (ur_spec r)) False)" if "truthy_str (ur_spec r)" "\<not> table_busy s"
    by (rule asksI [OF ufw_step.delete_rule [OF spec [OF that(1)] that(2)]]) simp
  have disable: "asks_for s (DisableRule (or_blank (ur_spec r)))" if "truthy_str (ur_spec r)" "\<not> table_busy s"
    by (rule asksI [OF ufw_step.disable_rule [OF spec [OF that(1)] that(2)]]) simp
  show ?thesis unfolding Let_def free using up down rest move [of "-1"] move [of 1] delete disable by simp
qed

text \<open>
  The head offers to turn the firewall on only where it is off, and off only where it is on, and
  neither before the state of the host is known or where there is no ufw. That no inbound
  connection is accepted is said exactly when there is no rule, ufw is on and denies by default.
\<close>

theorem head_matches_state:
  "(TurnOn \<in> set (head_buttons s) \<longleftrightarrow> (\<exists>d. us_data s = Some d \<and> ufw_installed d \<and> \<not> ufw_active d)) \<and>
   (TurnOff True \<in> set (head_buttons s) \<longleftrightarrow> (\<exists>d. us_data s = Some d \<and> ufw_installed d \<and> ufw_active d \<and> \<not> us_turningOff s)) \<and>
   (TurnOff True \<in> set (head_buttons s) \<longrightarrow> asks_for s (SetEnabled False False False)) \<and>
   (NoRules True \<in> set (ufw_notices (us_data s)) \<longleftrightarrow>
      (\<exists>d. us_data s = Some d \<and> ufw_installed d \<and> ufw_active d \<and> ufw_rules d = [] \<and> ufw_default_incoming d = Some ''deny''))"
proof -
  have "asks_for s (SetEnabled False False False)" if "us_data s = Some d" "ufw_installed d" "ufw_active d" "\<not> us_turningOff s" for d
    by (rule asksI [OF ufw_step.turn_off [OF that]]) simp
  then show ?thesis by (cases "us_data s") (auto simp: head_buttons_def ufw_notices_def)
qed

section \<open>Witnesses\<close>

definition demo_ufw_rule :: UfwRule where
  "demo_ufw_rule = \<lparr>ur_action = ''allow'', ur_direction = ''in'', ur_destination = ''22'', ur_source = ''Anywhere'', ur_ip_version = ''both'',
     ur_position = Some 1, ur_position_v6 = None, ur_interface = None, ur_app = None, ur_comment = None, ur_spec = Some ''allow 22''\<rparr>"

definition demo_ufw_status :: UfwStatus where
  "demo_ufw_status = \<lparr>ufw_installed = True, ufw_active = True, ufw_logging = None, ufw_default_incoming = Some ''deny'',
     ufw_default_outgoing = None, ufw_default_routed = None, ufw_rules = [demo_ufw_rule], ufw_app_profiles = [],
     ufw_rules_from_added = False, ufw_disabled_rules = []\<rparr>"

definition demo_ufw_screen :: ufw_screen where
  "demo_ufw_screen = \<lparr>us_data = Some demo_ufw_status, us_showForm = False, us_editing = None, us_showEnable = False, us_acknowledged = False,
     us_pre = None, us_removing = False, us_moving = False, us_toggling = False, us_turningOff = False, us_turningOn = False,
     us_underway = 0, us_saving = False, us_history = []\<rparr>"

theorem row_buttons_are_steps_witness:
  "asks_for demo_ufw_screen (DeleteRule ''allow 22'' False)"
proof -
  have "us_data demo_ufw_screen = Some demo_ufw_status" "ufw_installed demo_ufw_status" "demo_ufw_rule \<in> set (ufw_rules demo_ufw_status)"
    by (simp_all add: demo_ufw_screen_def demo_ufw_status_def)
  from row_buttons_are_steps [OF this] show ?thesis
    by (simp add: Let_def rule_buttons_def demo_ufw_rule_def table_busy_def demo_ufw_screen_def truthy_str_def or_blank_def)
qed

end
