(* ===== verification/Spec2Isabelle.thy ===== *)
theory Spec2Isabelle
  imports Endpoint_Laws Bulk_Firmware Refresh_Flight Reporting Pager Toast Format Fleet Ufw_Screen
    Role_Form Setup_Gate Wg_Wizard S2S_Wizard Setup_Page Onboard_Wizard Events_Page Dhcp_Page Firewall_Page Bulk_Page Updates_Page System_Page Settings_Page Network_Page Wg_Page User_Page Access_Page Device_Shell Linux_Accounts Profile_Page Vpn_Page Reports_Page Devices_Page Device_Pages Site_Page Health_Page Session_Page Audit_Page Logging_Page Overview_Pages Create_Panel Row_Cells Report_Views Host_Views Directory_Views System_Views Fleet_Views Ufw_Views
begin

text \<open>
  Verification of the netfleet web client (\<open>src/frontend/src\<close>), the TypeScript half of
  netfleet, a console for fleets of MikroTik routers and Linux hosts.

  \<^bold>\<open>The program.\<close> The client is a Next.js application. Every screen reaches the backend
  through one shared HTTP client (\<open>lib/api.ts\<close>), which attaches the access token kept by the
  token store (\<open>lib/auth-storage.ts\<close>), renews it from a refresh cookie, and turns failures
  into messages. About thirty modules under \<open>lib/\<close> wrap it into one function per endpoint.
  On top of these sit the sign-in page, the dashboard shell and the screens; actions on the
  whole fleet go through a bounded worker pool (\<open>lib/pool.ts\<close>). Browser tabs share the refresh
  cookie and coordinate through the Web Locks API.

  \<^bold>\<open>How it is modelled.\<close>
  \<^item> \<open>Prelude\<close>: JavaScript values (undefined against null, JSON, truthiness), strings as lists
    of UTF-8 bytes, decimal numerals, reachability, and the locales \<open>invariant_system\<close> and
    \<open>terminating_system\<close>, of which the state machines below are interpretations.
    \<open>Event_Machine\<close> is their counterpart for pages that are functions of events: its locales
    \<open>event_machine\<close> and \<open>guarded_machine\<close> carry an invariant through every history, and a
    sublocale relates histories to reachable states.
  \<^item> \<open>Uri\<close>: \<open>encodeURIComponent\<close> and \<open>URLSearchParams\<close> with their decoders, both instances of
    one codec locale (round trip, injectivity, no structural characters).
  \<^item> \<open>Auth_Storage\<close>: class \<open>AuthStorage\<close>, one definition per method, and its abstract
    specification, an optional pair of token and expiry.
  \<^item> \<open>Api_Client\<close>: \<open>lib/api.ts\<close> in the state monad over \<open>client\<close>, the module state of one tab
    (store, \<open>refreshInFlight\<close>, \<open>lastRefreshRejected\<close>, the requests on the wire so far). The
    package ky, \<open>fetch\<close>, the clock, date parsing and the lock manager are fields of \<open>env\<close>;
    \<open>ky_contract\<close> and \<open>lock_contract\<close> in \<open>Api_Laws\<close> state their documented behaviour and are
    shown satisfiable by \<open>documented_env\<close>.
  \<^item> \<open>Sign_In\<close>, \<open>Login_Page\<close>: \<open>lib/auth.ts\<close>, the page \<open>app/login/page.tsx\<close> with its handlers
    and their interleaving as a step relation, the single sign-on landing page, and the
    session query and redirects of \<open>app/dashboard/layout.tsx\<close>.
  \<^item> \<open>Inventory_Api\<close>, \<open>Host_Api\<close>, \<open>Network_Api\<close>, \<open>Firewall_Api\<close>, \<open>Vpn_Api\<close>, \<open>Admin_Api\<close>: the
    endpoint modules of \<open>lib/\<close>, a record per payload interface and a definition per function;
    \<open>Endpoint_Laws\<close> has the laws they share.
  \<^item> \<open>Pool\<close>: \<open>runPool\<close> as interleaved workers, with the locales \<open>pool_task\<close> (termination,
    completeness, the bound on calls in flight) and \<open>pool_shared\<close> (properties of the shared
    state) for the bodies that run on it; and \<open>normFw\<close>.
  \<^item> \<open>Bulk_Firmware\<close>, \<open>Fleet\<close>: the bulk upgrade and the fleet page, whose worker bodies
    interpret those locales; the fleet table, its filter and the colours of the map.
  \<^item> \<open>Refresh_Flight\<close>: the refresh in several tabs at once, with and without the lock manager.
  \<^item> \<open>Reporting\<close>: \<open>lib/events.ts\<close>, \<open>lib/reports.ts\<close>, \<open>lib/audit.ts\<close>, grouping the audit log.
  \<^item> \<open>Pager\<close>, \<open>Toast\<close>, \<open>Format\<close>, \<open>Ufw_Form\<close>, \<open>Role_Form\<close>, \<open>Setup_Gate\<close>: paging,
    notifications, printed values, the firewall rule form, the role editor, and the routing
    in \<open>middleware.ts\<close>.
  \<^item> \<open>Ufw_Screen\<close>: the ufw rule table and the dialog that turns the firewall on
    (\<open>components/ufw-firewall.tsx\<close>), with the history of what was read and requested.
  \<^item> \<open>Request_Scope\<close>: which requests a sequence of calls may put on the wire; \<open>Ipv4\<close>: dotted
    quads as numbers.
  \<^item> \<open>Wg_Wizard\<close>, \<open>S2S_Wizard\<close>, \<open>Onboard_Wizard\<close>: the three wizards, with their forms, calls
    and answers that arrive late, as step relations.
  \<^item> \<open>Slugs\<close>, \<open>Setup_Page\<close>: \<open>slugify\<close> against a reference on words, and the first-run page.
  \<^item> \<open>Events_Page\<close>: the event inbox, its filters, pages, selection and acknowledgements.
  \<^item> \<open>Js_Sort\<close>, \<open>Tables\<close>, \<open>Dhcp_Page\<close>: \<open>Array.sort\<close> with a comparator as a locale, the tables
    that sort and filter, the lists of servers and processes, and the rows edited in place.
  \<^item> \<open>Firewall_Page\<close>, \<open>Bulk_Page\<close>, \<open>Updates_Page\<close>: reordering filter rules within a chain, the
    bulk cards and the SNMP wizard, the updater screen with its confirmation.
  \<^item> \<open>Settings_Form\<close>: a form over a query that may answer, fail or answer anew at any time, and
    the locale \<open>reloading_form\<close> with what such forms promise; \<open>System_Page\<close> and \<open>Settings_Page\<close>
    interpret it for the settings of a device and of the organisation, the latter with the
    locale \<open>secret_form\<close> for passwords that are written and never read.
  \<^item> \<open>Network_Page\<close>, \<open>Wg_Page\<close>, \<open>User_Page\<close>: neighbour discovery and the drawing of its graph,
    the dialogs of WireGuard peers, inviting users and granting roles on the tree of scopes.
  \<^item> \<open>Access_Page\<close>, \<open>Profile_Page\<close>, \<open>Linux_Accounts\<close>: requests for access and their decision, the
    account of the operator, the accounts and groups of a host.
  \<^item> \<open>Device_Shell\<close>, \<open>Devices_Page\<close>, \<open>Device_Pages\<close>, \<open>Vpn_Page\<close>: the frame and the firmware card of
    a device, the list and the overview of devices, the smaller pages of a device, and its PPP
    secrets. \<open>Reports_Page\<close>: the reports, whose four tables interpret the locale \<open>report_table\<close>.
  \<^item> \<open>Site_Page\<close>, \<open>Health_Page\<close>, \<open>Session_Page\<close>: the pages of sites and tenants with the picker of
    a location, the health of the server and the resources of a device, one session of the
    audit log and the panel of who has access.
  \<^item> \<open>Audit_Page\<close>, \<open>Logging_Page\<close>, \<open>Overview_Pages\<close>: the audit log with the query of every
    rendering, the logging tab of a device and its clock, the navigation, the overview and the
    lists of roles, users and servers.
  \<^item> \<open>Create_Panel\<close>, \<open>Row_Cells\<close>: the nine panels of a router that list rows and create them with
    a form, each an interpretation of the locale \<open>panel_contract\<close> over one machine; and what the
    tables, selects and the neighbour graph of a router show.
  \<^item> \<open>Report_Views\<close>, \<open>Host_Views\<close>, \<open>Directory_Views\<close>: what the six reports show, with the map of
    what a user can reach; the disks of a host with the tree of directories that is measured as it
    is opened, and its processes; and the screens of access requests and tenants.
  \<^item> \<open>System_Views\<close>, \<open>Fleet_Views\<close>, \<open>Ufw_Views\<close>: the sections of the system page with what
    disables their fields, the fleet table with its counts and marks, and the firewall screen,
    whose buttons are shown to be the steps of \<open>Ufw_Screen\<close>.

  The pages are state machines over events: what is typed and clicked, and the answers of
  requests, which may come in between. The requests a page makes are collected in its state, so
  that an invariant of it speaks of all of them.

  \<^bold>\<open>What the theorems show.\<close>
  \<^item> Session: which answers end a session and which do not, on every branch of the response
    hook; a call never loops and sends at most two refreshes; the bearer is always live; a
    failed API is no logout; the token store implements its specification and survives a
    reload; with the lock manager no tab presents a retired refresh token, and without it
    one can.
  \<^item> Sign-in: an invariant of the page under any order of clicks and answers, that it leaves
    only signed in, and that the return address stays on the site when it is a plain path,
    with two flaws (a return address that escapes, an interleaving that strands the page).
  \<^item> Endpoints: identifiers stay in one path segment and distinct payloads are distinct
    requests, with the endpoints where that fails; server messages reach the screen, except
    for validation errors.
  \<^item> Fleet actions: no router installs a version that was not approved, runs end and account
    for every device, groups and tables are complete.
  \<^item> Firewall and tunnels: the firewall is never turned on blind, requests name rules on show,
    the wizards request only what their checks allow, and the flaws found in them (a cached
    preflight, an address suggested twice, the subnets of another router).
  \<^item> Tables and forms: tables show exactly the matching rows in order, slugs are the words of
    the name, the inbox acknowledges only what was shown, an untouched edit changes nothing.
  \<^item> Settings and rights: an untouched form asks for what was read and a secret is sent only
    when it was typed; grants reach exactly what was ticked; the buttons of a filter rule move
    it within its chain and disturb no other; a restriction allows only what was listed or
    typed; with the forms that can overwrite settings they could not read.
  \<^item> Accounts and secrets: every request of the profile page is well formed and a forced password
    change allows no other; a PPP password is on screen only after its reveal was recorded; a
    device is restored only from a confirmed backup, one at a time; packages are upgraded only
    when a list named them; with the edits these pages lose and the ports they do not check.
  \<^item> Reports: the download asks for what is on screen, tables show the rows every column filter
    accepts, and the date fields drift outside UTC.
  \<^item> Panels: no form has two requests under way and every creation is accounted for; what is created
    is well formed and nothing is deleted unconfirmed, no dynamic route at all; the labels of the
    neighbour graph lie clear of its nodes; with a late answer that hides another form.
  \<^item> Logs: every logging rule and action asked for is well formed, and only shown rows that are
    no defaults are switched or, confirmed, deleted; the audit log with a relative range asks
    anew after every answer, without end.
  \<^item> Views: reports show the rows that match and the map of the user who is picked, whatever comes
    late; directories are measured only once they were listed and opened; a request for access is
    cancelled by who filed it and decided by an administrator, while it is pending.
  \<^item> Screens: query strings and exports read back as what was asked for, audit sessions are
    exact runs, page numbers, notifications, printed sizes and times, the editor of roles,
    and the rule form with the destinations it cannot load.

  \<^bold>\<open>Bounds and fuel.\<close> No model uses fuel to cut a computation short: loops of the source are
  structural recursions, and concurrent runs are step relations with a measure, so that their
  termination is a theorem. \<open>Setup_Gate.follow\<close> alone counts redirects, and two are proved
  enough. Numbers are rationals or integers: the sources compute with integers below
  \<open>2 ^ 53\<close>, where doubles are exact.

  \<^bold>\<open>Not modelled.\<close> Markup and styling; react-query beyond the retry policy of the session
  query; saving a download through the DOM; locale-dependent comparison and date formatting,
  which are arguments; the interfaces of answers that no modelled function computes with; and
  the Python services under \<open>src/backend\<close> and \<open>src/updater\<close>. Of the screens that are modelled the
  state, requests, guards and computed text are; the tables around them are not. The drawing of the neighbour
  graph is over the real numbers where the source rounds to doubles.
\<close>

end
